(* ===== verification/Go_Prelude.thy ===== *)
theory Go_Prelude
  imports Main "HOL-Library.Word" "HOL-Library.Char_ord" "HOL-Library.List_Lexorder"
begin

unbundle bit_operations_syntax

text \<open>
  Shared vocabulary of the development: the machine integers and byte strings of Go, the
  outcome of a Go call (value, error, run-time panic), Go maps with string keys as strictly
  sorted association lists, and the generic lemmas the components share.
\<close>

section \<open>Types\<close>

text \<open>
  Go's fixed-width integers are words. A signed \<open>int64\<close> is the same 64-bit word read through
  \<open>sint\<close> and compared with the signed orders \<open><s\<close> and \<open><=s\<close>; addition, subtraction and
  negation wrap around exactly as in Go. A Go string is an arbitrary byte sequence, which is
  what HOL's \<open>string\<close> (lists of 8-bit \<open>char\<close>) is; a \<open>[]byte\<close> is a list of 8-bit words.
\<close>

type_synonym byte = "8 word"
type_synonym bytes = "byte list"
type_synonym u16 = "16 word"
type_synonym u32 = "32 word"
type_synonym u64 = "64 word"
type_synonym i64 = "64 word"

named_theorems go_defs \<open>definitions unfolded to evaluate a concrete run\<close>
named_theorems outcome_simps \<open>inversion rules for chains of outcomes\<close>

section \<open>Outcomes of Go calls\<close>

text \<open>
  A call returns a value, returns a non-nil error, or panics (index out of range, capacity out
  of range, close of a closed channel). A panic of a goroutine without \<open>recover\<close> ends the
  process, so it is kept apart from errors.
\<close>

datatype ('e, 'a) outcome = Ok 'a | Fail 'e | Panic

primrec bind_outcome :: "('e, 'a) outcome \<Rightarrow> ('a \<Rightarrow> ('e, 'b) outcome) \<Rightarrow> ('e, 'b) outcome" where
  "bind_outcome (Ok a) f = f a"
| "bind_outcome (Fail e) f = Fail e"
| "bind_outcome Panic f = Panic"

lemma bind_outcome_Ok_iff [outcome_simps]:
  "bind_outcome m f = Ok b \<longleftrightarrow> (\<exists>a. m = Ok a \<and> f a = Ok b)"
  by (cases m) auto

lemma bind_outcome_Panic_iff [outcome_simps]:
  "bind_outcome m f = Panic \<longleftrightarrow> m = Panic \<or> (\<exists>a. m = Ok a \<and> f a = Panic)"
  by (cases m) auto

lemma bind_outcome_cong [fundef_cong]:
  "m = m' \<Longrightarrow> (\<And>a. m' = Ok a \<Longrightarrow> f a = g a) \<Longrightarrow> bind_outcome m f = bind_outcome m' g"
  by (cases m') auto

primrec outcome_ok :: "('e, 'a) outcome \<Rightarrow> bool" where
  "outcome_ok (Ok a) = True"
| "outcome_ok (Fail e) = False"
| "outcome_ok Panic = False"

section \<open>Bytes and strings\<close>

definition byte_of_char :: "char \<Rightarrow> byte" where
  "byte_of_char c = word_of_nat (of_char c)"

definition char_of_byte :: "byte \<Rightarrow> char" where
  "char_of_byte b = char_of (unat b)"

definition bytes_of_string :: "string \<Rightarrow> bytes" where
  "bytes_of_string s = map byte_of_char s"

definition string_of_bytes :: "bytes \<Rightarrow> string" where
  "string_of_bytes b = map char_of_byte b"

lemma of_char_less_256: "of_char c < (256 :: nat)"
  by (metis of_char_mod_256 mod_less_divisor zero_less_numeral)

lemma char_of_byte_of_char [simp]: "char_of_byte (byte_of_char c) = c"
  by (simp add: char_of_byte_def byte_of_char_def unat_of_nat)

lemma byte_of_char_of_byte [simp]: "byte_of_char (char_of_byte b) = b"
proof -
  have "unat b < 2 ^ LENGTH(8)"
    by (rule unsigned_less)
  then have "unat b mod 256 = unat b"
    by simp
  then show ?thesis
    by (simp add: byte_of_char_def char_of_byte_def)
qed

lemma string_of_bytes_of_string [simp]: "string_of_bytes (bytes_of_string s) = s"
  by (simp add: string_of_bytes_def bytes_of_string_def comp_def)

lemma bytes_of_string_of_bytes [simp]: "bytes_of_string (string_of_bytes b) = b"
  by (simp add: string_of_bytes_def bytes_of_string_def comp_def)

lemma length_bytes_of_string [simp]: "length (bytes_of_string s) = length s"
  by (simp add: bytes_of_string_def)

lemma length_string_of_bytes [simp]: "length (string_of_bytes b) = length b"
  by (simp add: string_of_bytes_def)

lemma bytes_of_string_inject [simp]: "bytes_of_string s = bytes_of_string t \<longleftrightarrow> s = t"
  by (metis string_of_bytes_of_string)

lemma bytes_of_string_append [simp]:
  "bytes_of_string (s @ t) = bytes_of_string s @ bytes_of_string t"
  by (simp add: bytes_of_string_def)

section \<open>Go maps with ordered keys\<close>

text \<open>
  A Go map is represented by the association list of its entries in strictly increasing key
  order, so that equal maps are equal lists. \<open>map_put\<close> is \<open>m[k] = v\<close>, \<open>map_get\<close> the
  two-result lookup, \<open>map_of_entries\<close> a composite literal or a sequence of assignments.
\<close>

fun map_put :: "'k::linorder \<Rightarrow> 'v \<Rightarrow> ('k \<times> 'v) list \<Rightarrow> ('k \<times> 'v) list" where
  "map_put k v [] = [(k, v)]"
| "map_put k v ((k', v') # m) =
     (if k < k' then (k, v) # (k', v') # m
      else if k = k' then (k, v) # m
      else (k', v') # map_put k v m)"

fun map_delete :: "'k \<Rightarrow> ('k \<times> 'v) list \<Rightarrow> ('k \<times> 'v) list" where
  "map_delete k [] = []"
| "map_delete k ((k', v') # m) = (if k = k' then map_delete k m else (k', v') # map_delete k m)"

definition map_get :: "('k \<times> 'v) list \<Rightarrow> 'k \<Rightarrow> 'v option" where
  "map_get m k = map_of m k"

definition map_of_entries :: "('k::linorder \<times> 'v) list \<Rightarrow> ('k \<times> 'v) list" where
  "map_of_entries kvs = fold (\<lambda>(k, v) m. map_put k v m) kvs []"

definition map_wf :: "('k::linorder \<times> 'v) list \<Rightarrow> bool" where
  "map_wf m \<longleftrightarrow> sorted_wrt (<) (map fst m)"

lemma map_wf_Nil [simp]: "map_wf []"
  by (simp add: map_wf_def)

lemma map_wf_Cons [simp]: "map_wf ((k, v) # m) \<longleftrightarrow> (\<forall>k' \<in> fst ` set m. k < k') \<and> map_wf m"
  by (auto simp: map_wf_def)

lemma set_map_put: "fst ` set (map_put k v m) = insert k (fst ` set m)"
  by (induction k v m rule: map_put.induct) auto

lemma map_wf_put [simp]: "map_wf m \<Longrightarrow> map_wf (map_put k v m)"
  by (induction k v m rule: map_put.induct) (auto simp: set_map_put)

lemma map_get_put [simp]: "map_get (map_put k v m) k' = (if k' = k then Some v else map_get m k')"
  by (induction k v m rule: map_put.induct) (auto simp: map_get_def)

lemma map_get_delete [simp]: "map_get (map_delete k m) k' = (if k' = k then None else map_get m k')"
  by (induction k m rule: map_delete.induct) (auto simp: map_get_def)

lemma map_get_Nil [simp]: "map_get [] k = None"
  by (simp add: map_get_def)

lemma set_map_put_subset: "set (map_put k v m) \<subseteq> insert (k, v) (set m)"
  by (induction k v m rule: map_put.induct) auto

lemma length_map_put_new: "map_get m k = None \<Longrightarrow> length (map_put k v m) = Suc (length m)"
  by (induction k v m rule: map_put.induct) (auto simp: map_get_def split: if_splits)

lemma map_delete_filter: "map_delete k m = filter (\<lambda>e. fst e \<noteq> k) m"
  by (induction k m rule: map_delete.induct) auto

lemma set_map_delete: "set (map_delete k m) = {e \<in> set m. fst e \<noteq> k}"
  by (simp add: map_delete_filter)

lemma map_wf_delete [simp]: "map_wf m \<Longrightarrow> map_wf (map_delete k m)"
  by (induction m) (auto simp: set_map_delete)

lemma snd_map_put: "snd ` set (map_put k v m) \<subseteq> insert v (snd ` set m)"
  by (induction k v m rule: map_put.induct) auto

lemma distinct_snd_put:
  "distinct (map snd m) \<Longrightarrow> v \<notin> snd ` set m \<Longrightarrow> distinct (map snd (map_put k v m))"
proof (induction k v m rule: map_put.induct)
  case (2 k v k' v' m)
  then show ?case
    using snd_map_put [of k v m] by (simp only: map_put.simps split: if_split) auto
qed simp

lemma distinct_snd_delete: "distinct (map snd m) \<Longrightarrow> distinct (map snd (map_delete k m))"
  by (simp add: map_delete_filter distinct_map_filter)

lemma map_get_SomeD: "map_get m k = Some v \<Longrightarrow> (k, v) \<in> set m"
  by (simp add: map_get_def map_of_SomeD)

lemma map_wf_distinct: "map_wf m \<Longrightarrow> distinct (map fst m)"
  by (simp add: map_wf_def strict_sorted_iff)

lemma map_wf_sorted: "map_wf m \<Longrightarrow> sorted (map fst m)"
  by (simp add: map_wf_def strict_sorted_iff)

lemma map_put_snoc:
  "map_wf (m @ [(k, v)]) \<Longrightarrow> map_put k v m = m @ [(k, v)]"
proof (induction m)
  case Nil
  then show ?case by simp
next
  case (Cons e m)
  obtain k' v' where e: "e = (k', v')" by force
  from Cons.prems e have "k' < k" and "map_wf (m @ [(k, v)])" by auto
  with Cons.IH e show ?case by auto
qed

lemma map_wf_append: "map_wf (m @ m') \<Longrightarrow> map_wf m \<and> map_wf m'"
  by (simp add: map_wf_def sorted_wrt_append)

lemma fold_map_put_append:
  "map_wf (m @ kvs) \<Longrightarrow> fold (\<lambda>(k, v) m. map_put k v m) kvs m = m @ kvs"
proof (induction kvs arbitrary: m)
  case Nil
  then show ?case by simp
next
  case (Cons e kvs)
  obtain k v where e: "e = (k, v)" by force
  from Cons.prems e have "map_wf (m @ [(k, v)])"
    using map_wf_append [of "m @ [(k, v)]" kvs] by simp
  then have "map_put k v m = m @ [(k, v)]" by (rule map_put_snoc)
  with Cons.IH [of "m @ [(k, v)]"] Cons.prems e show ?case by simp
qed

lemma map_of_entries_wf_id: "map_wf kvs \<Longrightarrow> map_of_entries kvs = kvs"
  using fold_map_put_append [of "[]" kvs] by (simp add: map_of_entries_def)

lemma map_wf_fold_put: "map_wf m \<Longrightarrow> map_wf (fold (\<lambda>(k, v) m. map_put k v m) kvs m)"
  by (induction kvs arbitrary: m) (auto split: prod.splits)

lemma map_wf_of_entries [simp]: "map_wf (map_of_entries kvs)"
  by (simp add: map_of_entries_def map_wf_fold_put)

lemma map_get_fold_put:
  "map_get (fold (\<lambda>(k, v) m. map_put k v m) kvs m) k =
     (case map_of (rev kvs) k of Some v \<Rightarrow> Some v | None \<Rightarrow> map_get m k)"
  by (induction kvs arbitrary: m) (auto simp: map_add_def split: option.splits)

lemma map_get_of_entries:
  "distinct (map fst kvs) \<Longrightarrow> map_get (map_of_entries kvs) k = map_of kvs k"
proof -
  assume d: "distinct (map fst kvs)"
  then have "map_of (rev kvs) = map_of kvs"
    by (intro map_of_inject_set [THEN iffD2]) (auto simp: rev_map [symmetric])
  then show ?thesis
    by (simp add: map_of_entries_def map_get_fold_put split: option.split)
qed

text \<open>Sorting the entries of a well-formed map by key changes nothing.\<close>

lemma sort_key_wf: "map_wf m \<Longrightarrow> sort_key fst (map (map_prod id f) m) = map (map_prod id f) m"
proof -
  assume "map_wf m"
  then have "sorted (map fst (map (map_prod id f) m))"
    by (simp add: map_wf_sorted comp_def)
  then show ?thesis by (rule sort_key_id_if_sorted)
qed

section \<open>Signed 64-bit integers\<close>

lemma sint_range64: "- (2 ^ 63) \<le> sint (x :: i64)" "sint (x :: i64) < 2 ^ 63"
  using sint_greater_eq [of x] sint_less [of x] by simp_all

text \<open>A difference of two \<open>int64\<close> values is exact when it fits.\<close>

lemma sint_diff_exact:
  fixes a b :: i64
  assumes "- (2 ^ 63) \<le> sint a - sint b" and "sint a - sint b < 2 ^ 63"
  shows "sint (a - b) = sint a - sint b"
proof -
  have "sint (a - b) = signed_take_bit 63 (sint a - sint b)"
    by (simp add: sint_word_ariths)
  also have "\<dots> = sint a - sint b"
    using assms by (simp add: signed_take_bit_int_eq_self_iff)
  finally show ?thesis .
qed

lemma sint_add_exact:
  fixes a b :: i64
  assumes "- (2 ^ 63) \<le> sint a + sint b" and "sint a + sint b < 2 ^ 63"
  shows "sint (a + b) = sint a + sint b"
proof -
  have "sint (a + b) = signed_take_bit 63 (sint a + sint b)"
    by (simp add: sint_word_ariths)
  also have "\<dots> = sint a + sint b"
    using assms by (simp add: signed_take_bit_int_eq_self_iff)
  finally show ?thesis .
qed

lemma unat_u64_of_nat: "n < 2 ^ 64 \<Longrightarrow> unat (word_of_nat n :: u64) = n"
  by (simp add: unat_of_nat)

end
