(* ===== verification/Wire.thy ===== *)
theory Wire
  imports Go_Prelude
begin

text \<open>
  The LWP/1 wire format of \<^verbatim>\<open>src/lotor/wire.go\<close>: protocol constants, tagged values, the
  varint and zigzag codecs, the value codec and the frame codec.

  Every encoder of the source appends to its first argument \<open>b\<close>; the model is the list of
  appended bytes. Every decoder of the source reads \<open>b\<close> from a cursor \<open>*p\<close> it advances; the
  model takes the bytes from the cursor on, \<open>b[*p:]\<close>, and returns what is left of them.
\<close>

section \<open>Constants\<close>

definition protoVersion :: u64 where [go_defs]: "protoVersion = 1"

definition frameREQ :: byte where [go_defs]: "frameREQ = 1"
definition frameRESP :: byte where [go_defs]: "frameRESP = 2"
definition frameEVENT :: byte where [go_defs]: "frameEVENT = 3"
definition framePONG :: byte where [go_defs]: "framePONG = 5"

definition statusOK :: u16 where [go_defs]: "statusOK = 0"
definition statusERR :: u16 where [go_defs]: "statusERR = 1"

definition opHELLO :: u16 where [go_defs]: "opHELLO = 0x0001"
definition opAUTH :: u16 where [go_defs]: "opAUTH = 0x0002"
definition opPING :: u16 where [go_defs]: "opPING = 0x0003"
definition opQUIT :: u16 where [go_defs]: "opQUIT = 0x0004"
definition opAUTHVERIFY :: u16 where [go_defs]: "opAUTHVERIFY = 0x0010"
definition opACCESSCHECK :: u16 where [go_defs]: "opACCESSCHECK = 0x0020"
definition opACCESSGRANT :: u16 where [go_defs]: "opACCESSGRANT = 0x0021"
definition opACCESSREVOKE :: u16 where [go_defs]: "opACCESSREVOKE = 0x0022"
definition opACCESSEXPAND :: u16 where [go_defs]: "opACCESSEXPAND = 0x0023"
definition opMETERCONSUME :: u16 where [go_defs]: "opMETERCONSUME = 0x0030"
definition opMETERRELEASE :: u16 where [go_defs]: "opMETERRELEASE = 0x0031"
definition opMETERGET :: u16 where [go_defs]: "opMETERGET = 0x0032"
definition opSEATCLAIM :: u16 where [go_defs]: "opSEATCLAIM = 0x0040"
definition opSEATRELEASE :: u16 where [go_defs]: "opSEATRELEASE = 0x0041"
definition opCONFGET :: u16 where [go_defs]: "opCONFGET = 0x0050"
definition opWALLETCREDIT :: u16 where [go_defs]: "opWALLETCREDIT = 0x0070"
definition opWALLETDEBIT :: u16 where [go_defs]: "opWALLETDEBIT = 0x0071"
definition opWALLETGET :: u16 where [go_defs]: "opWALLETGET = 0x0072"
definition opALLOWANCEGRANT :: u16 where [go_defs]: "opALLOWANCEGRANT = 0x0073"
definition opALLOWANCEGET :: u16 where [go_defs]: "opALLOWANCEGET = 0x0074"
definition opPOLICYCHECK :: u16 where [go_defs]: "opPOLICYCHECK = 0x0080"
definition opINVITECREATE :: u16 where [go_defs]: "opINVITECREATE = 0x0090"
definition opINVITEACCEPT :: u16 where [go_defs]: "opINVITEACCEPT = 0x0091"
definition opINVITECANCEL :: u16 where [go_defs]: "opINVITECANCEL = 0x0092"
definition opINVITELIST :: u16 where [go_defs]: "opINVITELIST = 0x0093"
definition opMEMBERREMOVE :: u16 where [go_defs]: "opMEMBERREMOVE = 0x0094"
definition opMEMBERROLESET :: u16 where [go_defs]: "opMEMBERROLESET = 0x0095"
definition opSUBJECTKEYREGISTER :: u16 where [go_defs]: "opSUBJECTKEYREGISTER = 0x00A0"
definition opSUBJECTKEYLIST :: u16 where [go_defs]: "opSUBJECTKEYLIST = 0x00A1"
definition opSUBJECTKEYREVOKE :: u16 where [go_defs]: "opSUBJECTKEYREVOKE = 0x00A2"
definition opRESOURCEKEYCREATE :: u16 where [go_defs]: "opRESOURCEKEYCREATE = 0x00A3"
definition opRESOURCEKEYACTIVATE :: u16 where [go_defs]: "opRESOURCEKEYACTIVATE = 0x00AC"
definition opRESOURCEGRANTPREPARE :: u16 where [go_defs]: "opRESOURCEGRANTPREPARE = 0x00A4"
definition opRESOURCEENVELOPESUBMIT :: u16 where [go_defs]: "opRESOURCEENVELOPESUBMIT = 0x00A5"
definition opRESOURCEENVELOPEGET :: u16 where [go_defs]: "opRESOURCEENVELOPEGET = 0x00A6"
definition opRESOURCEMEMBERLIST :: u16 where [go_defs]: "opRESOURCEMEMBERLIST = 0x00A7"
definition opRESOURCEGRANTREVOKE :: u16 where [go_defs]: "opRESOURCEGRANTREVOKE = 0x00A8"
definition opENCRYPTEDINVITECREATE :: u16 where [go_defs]: "opENCRYPTEDINVITECREATE = 0x00A9"
definition opENCRYPTEDINVITEACCEPT :: u16 where [go_defs]: "opENCRYPTEDINVITEACCEPT = 0x00AA"
definition opWATCH :: u16 where [go_defs]: "opWATCH = 0x0060"
definition opUNWATCH :: u16 where [go_defs]: "opUNWATCH = 0x0061"

definition tagNull :: byte where [go_defs]: "tagNull = 0x00"
definition tagBool :: byte where [go_defs]: "tagBool = 0x01"
definition tagU64 :: byte where [go_defs]: "tagU64 = 0x02"
definition tagI64 :: byte where [go_defs]: "tagI64 = 0x03"
definition tagStr :: byte where [go_defs]: "tagStr = 0x04"
definition tagBytes :: byte where [go_defs]: "tagBytes = 0x05"
definition tagAddr :: byte where [go_defs]: "tagAddr = 0x06"
definition tagList :: byte where [go_defs]: "tagList = 0x07"
definition tagMap :: byte where [go_defs]: "tagMap = 0x08"

lemmas tag_defs = tagNull_def tagBool_def tagU64_def tagI64_def tagStr_def tagBytes_def
  tagAddr_def tagList_def tagMap_def

section \<open>Values\<close>

text \<open>
  The struct \<open>value\<close> is a tagged union: \<open>Kind\<close> says which one of the other fields is in use
  and the package builds values only through the constructors below, so every unused field is
  zero. The zero value \<open>value{}\<close> is \<open>VNull\<close>. A \<open>map[string]value\<close> is its entries in
  strictly increasing key order.
\<close>

datatype lwp_value =
    VNull
  | VBool bool
  | VU64 u64
  | VI64 i64
  | VStr string
  | VAddr string
  | VBytes bytes
  | VList "lwp_value list"
  | VMap "(string \<times> lwp_value) list"

fun val_Kind :: "lwp_value \<Rightarrow> byte" where
  "val_Kind VNull = tagNull"
| "val_Kind (VBool x) = tagBool"
| "val_Kind (VU64 n) = tagU64"
| "val_Kind (VI64 n) = tagI64"
| "val_Kind (VStr s) = tagStr"
| "val_Kind (VAddr s) = tagAddr"
| "val_Kind (VBytes b) = tagBytes"
| "val_Kind (VList l) = tagList"
| "val_Kind (VMap m) = tagMap"

text \<open>Reading a field of the struct whatever the kind is: unused fields are zero.\<close>

definition val_U64 :: "lwp_value \<Rightarrow> u64" where
  "val_U64 v = (case v of VU64 n \<Rightarrow> n | _ \<Rightarrow> 0)"

definition val_Bytes :: "lwp_value \<Rightarrow> bytes" where
  "val_Bytes v = (case v of VBytes b \<Rightarrow> b | _ \<Rightarrow> [])"

definition val_List :: "lwp_value \<Rightarrow> lwp_value list" where
  "val_List v = (case v of VList l \<Rightarrow> l | _ \<Rightarrow> [])"

definition val_Map :: "lwp_value \<Rightarrow> (string \<times> lwp_value) list" where
  "val_Map v = (case v of VMap m \<Rightarrow> m | _ \<Rightarrow> [])"

text \<open>\<open>m[key]\<close> on a Go map: the zero value when the key is missing.\<close>

definition val_index :: "(string \<times> lwp_value) list \<Rightarrow> string \<Rightarrow> lwp_value" where
  "val_index m k = (case map_get m k of Some v \<Rightarrow> v | None \<Rightarrow> VNull)"

definition uint64ToInt64 :: "u64 \<Rightarrow> i64" where
  "uint64ToInt64 n = (if drop_bit 1 (NOT 0) < n then 0 else n)"

definition nonNegativeInt64ToUint64 :: "i64 \<Rightarrow> u64" where
  "nonNegativeInt64ToUint64 n = (if n <s 0 then 0 else n)"

definition uint64ToInt :: "u64 \<Rightarrow> nat \<times> bool" where
  "uint64ToInt n = (if drop_bit 1 (NOT 0) < n then (0, False) else (unat n, True))"

definition intToUint32 :: "nat \<Rightarrow> (unit, u32) outcome" where
  "intToUint32 n = (if n > unat (NOT 0 :: u32) then Panic else Ok (word_of_nat n))"

definition asStr :: "lwp_value \<Rightarrow> string" where
  "asStr v = (case v of VStr s \<Rightarrow> s | VAddr s \<Rightarrow> s | _ \<Rightarrow> [])"

definition asNum :: "lwp_value \<Rightarrow> i64" where
  "asNum v = (case v of VU64 n \<Rightarrow> uint64ToInt64 n | VI64 n \<Rightarrow> n | _ \<Rightarrow> 0)"

definition asBool :: "lwp_value \<Rightarrow> bool" where
  "asBool v = (case v of VBool x \<Rightarrow> x | _ \<Rightarrow> False)"

section \<open>Varint and zigzag\<close>

function putUvarint :: "u64 \<Rightarrow> bytes" where
  "putUvarint v =
     (let c = ucast (v AND 0x7f) :: byte; v' = drop_bit 7 v in
      if v' \<noteq> 0 then (c OR 0x80) # putUvarint v' else [c])"
  by pat_completeness auto
termination putUvarint
proof (relation "measure unat", simp)
  fix v x :: u64 and c :: byte
  assume x: "x = drop_bit 7 v" and "x \<noteq> 0"
  from \<open>x \<noteq> 0\<close> have "unat x \<noteq> 0"
    by (simp add: unat_eq_zero)
  moreover from x have "unat x = unat v div 128"
    by (simp add: drop_bit_eq_div unat_div)
  ultimately show "(x, v) \<in> measure unat" by simp
qed

declare putUvarint.simps [simp del]

text \<open>
  \<open>readUvarint\<close> accumulates 7 bits a byte; \<open>push_bit\<close> past the width gives 0, as Go's shift
  does. \<open>None\<close> is \<open>errShort\<close>.
\<close>

fun readUvarint_loop :: "u64 \<Rightarrow> nat \<Rightarrow> bytes \<Rightarrow> (u64 \<times> bytes) option" where
  "readUvarint_loop result shift [] = None"
| "readUvarint_loop result shift (c # b) =
     (let result' = result OR push_bit shift (ucast (c AND 0x7f)) in
      if c AND 0x80 = 0 then Some (result', b)
      else readUvarint_loop result' (shift + 7) b)"

definition readUvarint :: "bytes \<Rightarrow> (u64 \<times> bytes) option" where
  "readUvarint b = readUvarint_loop 0 0 b"

definition zigzag :: "i64 \<Rightarrow> u64" where
  "zigzag v =
     (if 0 <=s v then push_bit 1 v
      else let magnitude = - (v + 1) in nonNegativeInt64ToUint64 magnitude * 2 + 1)"

definition unzigzag :: "u64 \<Rightarrow> i64" where
  "unzigzag v =
     (let half = drop_bit 1 v in
      if v AND 1 = 0 then uint64ToInt64 half else - uint64ToInt64 half - 1)"

section \<open>Value codec\<close>

datatype wire_error = ErrShort | ErrUnknownTag byte

text \<open>
  The entries of a map are encoded in increasing key order (\<open>sort.Strings\<close> on the keys, which
  compares bytes); sorting the encoded entries by their keys is the same computation.
\<close>

primrec encodeValue :: "lwp_value \<Rightarrow> bytes" where
  "encodeValue VNull = [tagNull]"
| "encodeValue (VBool x) = [tagBool, if x then 1 else 0]"
| "encodeValue (VU64 n) = tagU64 # putUvarint n"
| "encodeValue (VI64 n) = tagI64 # putUvarint (zigzag n)"
| "encodeValue (VStr s) = tagStr # putUvarint (word_of_nat (length s)) @ bytes_of_string s"
| "encodeValue (VAddr s) = tagAddr # putUvarint (word_of_nat (length s)) @ bytes_of_string s"
| "encodeValue (VBytes b) = tagBytes # putUvarint (word_of_nat (length b)) @ b"
| "encodeValue (VList l) =
     tagList # putUvarint (word_of_nat (length l)) @ concat (map encodeValue l)"
| "encodeValue (VMap m) =
     tagMap # putUvarint (word_of_nat (length m)) @
     concat (map (\<lambda>(key, e). putUvarint (word_of_nat (length key)) @ bytes_of_string key @ e)
       (sort_key fst (map (map_prod id encodeValue) m)))"

definition readBytes :: "bytes \<Rightarrow> (bytes \<times> bytes) option" where
  "readBytes b =
     (case readUvarint b of
        None \<Rightarrow> None
      | Some (n, b') \<Rightarrow>
          let (length', ok) = uint64ToInt n in
          if \<not> ok \<or> length' > length b' then None
          else Some (take length' b', drop length' b'))"

text \<open>
  \<open>make([]value, 0, n)\<close> panics when the backing array would exceed the address space: a
  \<open>value\<close> is 96 bytes and Go's limit on linux/amd64 is \<open>2^48\<close> bytes. (A smaller but still huge
  allocation that exhausts memory is not modelled.) \<open>make(map[string]value, n)\<close> treats \<open>n\<close> as a
  hint and never panics.
\<close>

definition maxSliceCap :: nat where [go_defs]: "maxSliceCap = 2 ^ 48 div 96"

lemma readUvarint_loop_length: "readUvarint_loop r s b = Some (n, b') \<Longrightarrow> length b' < length b"
  by (induction r s b rule: readUvarint_loop.induct) (auto simp: Let_def split: if_splits)

lemma readUvarint_length: "readUvarint b = Some (n, b') \<Longrightarrow> length b' < length b"
  by (auto simp: readUvarint_def dest: readUvarint_loop_length)

lemma readBytes_length: "readBytes b = Some (s, b') \<Longrightarrow> length b' < length b"
  by (auto simp: readBytes_def split: option.splits prod.splits if_splits
      dest!: readUvarint_length)

text \<open>
  \<open>decodeValue\<close> with its two loops: \<open>decodeItems n\<close> is \<open>for range n\<close> over list items,
  \<open>decodeEntries n m\<close> the loop over map entries with the map built so far. All three consume
  input; the termination proof first shows, on the domain of the functions, that what they
  return is shorter than what they were given.
\<close>

function (sequential) decodeValue :: "bytes \<Rightarrow> (wire_error, lwp_value \<times> bytes) outcome"
  and decodeItems :: "nat \<Rightarrow> bytes \<Rightarrow> (wire_error, lwp_value list \<times> bytes) outcome"
  and decodeEntries ::
    "nat \<Rightarrow> (string \<times> lwp_value) list \<Rightarrow> bytes \<Rightarrow>
     (wire_error, (string \<times> lwp_value) list \<times> bytes) outcome"
where
  "decodeValue [] = Fail ErrShort"
| "decodeValue (tag # b) =
     (if tag = tagNull then Ok (VNull, b)
      else if tag = tagBool then
        (case b of [] \<Rightarrow> Fail ErrShort | x # b' \<Rightarrow> Ok (VBool (x \<noteq> 0), b'))
      else if tag = tagU64 then
        (case readUvarint b of None \<Rightarrow> Fail ErrShort | Some (n, b') \<Rightarrow> Ok (VU64 n, b'))
      else if tag = tagI64 then
        (case readUvarint b of None \<Rightarrow> Fail ErrShort
         | Some (n, b') \<Rightarrow> Ok (VI64 (unzigzag n), b'))
      else if tag = tagStr then
        (case readBytes b of None \<Rightarrow> Fail ErrShort
         | Some (s, b') \<Rightarrow> Ok (VStr (string_of_bytes s), b'))
      else if tag = tagAddr then
        (case readBytes b of None \<Rightarrow> Fail ErrShort
         | Some (s, b') \<Rightarrow> Ok (VAddr (string_of_bytes s), b'))
      else if tag = tagBytes then
        (case readBytes b of None \<Rightarrow> Fail ErrShort | Some (s, b') \<Rightarrow> Ok (VBytes s, b'))
      else if tag = tagList then
        (case readUvarint b of None \<Rightarrow> Fail ErrShort
         | Some (n, b') \<Rightarrow>
             if unat n > maxSliceCap then Panic
             else (case decodeItems (unat n) b' of
                     Ok (items, b'') \<Rightarrow> Ok (VList items, b'')
                   | Fail e \<Rightarrow> Fail e | Panic \<Rightarrow> Panic))
      else if tag = tagMap then
        (case readUvarint b of None \<Rightarrow> Fail ErrShort
         | Some (n, b') \<Rightarrow>
             (case decodeEntries (unat n) [] b' of
                Ok (m, b'') \<Rightarrow> Ok (VMap m, b'')
              | Fail e \<Rightarrow> Fail e | Panic \<Rightarrow> Panic))
      else Fail (ErrUnknownTag tag))"
| "decodeItems n b =
     (if n = 0 then Ok ([], b)
      else case decodeValue b of
             Ok (it, b') \<Rightarrow>
               (case decodeItems (n - 1) b' of
                  Ok (items, b'') \<Rightarrow> Ok (it # items, b'')
                | Fail e \<Rightarrow> Fail e | Panic \<Rightarrow> Panic)
           | Fail e \<Rightarrow> Fail e | Panic \<Rightarrow> Panic)"
| "decodeEntries n m b =
     (if n = 0 then Ok (m, b)
      else case readBytes b of
             None \<Rightarrow> Fail ErrShort
           | Some (key, b') \<Rightarrow>
               (case decodeValue b' of
                  Ok (v, b'') \<Rightarrow> decodeEntries (n - 1) (map_put (string_of_bytes key) v m) b''
                | Fail e \<Rightarrow> Fail e | Panic \<Rightarrow> Panic))"
  by pat_completeness auto

lemma decode_shorter:
  "decodeValue_decodeItems_decodeEntries_dom (Inl b) \<Longrightarrow>
     (\<forall>v b'. decodeValue b = Ok (v, b') \<longrightarrow> length b' < length b)"
  "decodeValue_decodeItems_decodeEntries_dom (Inr (Inl (n, b))) \<Longrightarrow>
     (\<forall>l b'. decodeItems n b = Ok (l, b') \<longrightarrow> length b' \<le> length b)"
  "decodeValue_decodeItems_decodeEntries_dom (Inr (Inr (n, m, b))) \<Longrightarrow>
     (\<forall>l b'. decodeEntries n m b = Ok (l, b') \<longrightarrow> length b' \<le> length b)"
proof (induction rule: decodeValue_decodeItems_decodeEntries.pinduct)
  case 1
  then show ?case by (simp add: decodeValue.psimps)
next
  case (2 tag b)
  then show ?case
    by (fastforce simp: decodeValue.psimps Let_def split: if_splits option.splits list.splits
        outcome.splits prod.splits dest!: readUvarint_length readBytes_length)
next
  case (3 n b)
  then show ?case
    by (fastforce simp: decodeItems.psimps split: if_splits outcome.splits prod.splits)
next
  case (4 n m b)
  then show ?case
    by (fastforce simp: decodeEntries.psimps split: if_splits option.splits outcome.splits
        prod.splits dest!: readBytes_length)
qed

termination decodeValue
proof (relation "measures [
    (\<lambda>x. case x of Inl b \<Rightarrow> length b | Inr (Inl (n, b)) \<Rightarrow> length b | Inr (Inr (n, m, b)) \<Rightarrow> length b),
    (\<lambda>x. case x of Inl b \<Rightarrow> 0 | Inr _ \<Rightarrow> 1)]", simp_all)
qed (auto dest!: readUvarint_length readBytes_length decode_shorter(1))

declare decodeValue.simps [simp del] decodeItems.simps [simp del] decodeEntries.simps [simp del]

section \<open>Frames\<close>

text \<open>\<open>binary.BigEndian\<close>: appending and reading fixed-width integers.\<close>

definition be16 :: "u16 \<Rightarrow> bytes" where
  "be16 v = [ucast (drop_bit 8 v), ucast v]"

definition be32 :: "u32 \<Rightarrow> bytes" where
  "be32 v = [ucast (drop_bit 24 v), ucast (drop_bit 16 v), ucast (drop_bit 8 v), ucast v]"

definition un16 :: "byte \<Rightarrow> byte \<Rightarrow> u16" where
  "un16 a b = ucast b OR push_bit 8 (ucast a)"

definition un32 :: "byte \<Rightarrow> byte \<Rightarrow> byte \<Rightarrow> byte \<Rightarrow> u32" where
  "un32 a b c d =
     ucast d OR push_bit 8 (ucast c) OR push_bit 16 (ucast b) OR push_bit 24 (ucast a)"

record frame =
  frame_args :: "lwp_value list"
  frame_typ :: byte
  frame_flags :: u16
  frame_reqID :: u32
  frame_opcode :: u16

definition encodeFrame :: "frame \<Rightarrow> (unit, bytes) outcome" where
  "encodeFrame f =
     (let p = [ucast protoVersion, frame_typ f] @ be16 (frame_flags f) @ be32 (frame_reqID f) @
              be16 (frame_opcode f) @ putUvarint (word_of_nat (length (frame_args f))) @
              concat (map encodeValue (frame_args f))
      in case intToUint32 (length p) of
           Ok n \<Rightarrow> Ok (be32 n @ p)
         | Fail e \<Rightarrow> Fail e
         | Panic \<Rightarrow> Panic)"

text \<open>
  \<open>decodeFrame\<close> returns the frame and the number of bytes consumed. \<open>Fail ()\<close> is \<open>ok = false\<close>.
  The fixed header fields are read without a length check of their own: reading past the end
  of the buffer panics. The arguments are read from the whole buffer, not only from the bytes
  the length prefix announces.
\<close>

definition decodeFrame :: "bytes \<Rightarrow> (unit, frame \<times> nat) outcome" where
  "decodeFrame buf =
     (case buf of
        n3 # n2 # n1 # n0 # body \<Rightarrow>
          (let total = 4 + unat (un32 n3 n2 n1 n0) in
           if length buf < total then Fail ()
           else (case body of
                   ver # typ # f1 # f0 # r3 # r2 # r1 # r0 # o1 # o0 # rest \<Rightarrow>
                     (case readUvarint rest of
                        None \<Rightarrow> Fail ()
                      | Some (argc, rest') \<Rightarrow>
                          if unat argc > maxSliceCap then Panic
                          else (case decodeItems (unat argc) rest' of
                                  Ok (args, _) \<Rightarrow>
                                    Ok (\<lparr>frame_args = args, frame_typ = typ,
                                        frame_flags = un16 f1 f0,
                                        frame_reqID = un32 r3 r2 r1 r0,
                                        frame_opcode = un16 o1 o0\<rparr>, total)
                                | Fail e \<Rightarrow> Fail ()
                                | Panic \<Rightarrow> Panic))
                 | _ \<Rightarrow> Panic))
      | _ \<Rightarrow> Fail ())"

end
