(* ===== verification/Wire_Codec.thy ===== *)
theory Wire_Codec
  imports Wire
begin

text \<open>
  Correctness of the codecs of theory \<open>Wire\<close>: varints, zigzag integers, values and frames
  decode to what was encoded, whatever follows them in the buffer; truncated frames are
  reported as incomplete; the inputs on which the decoder panics.
\<close>

section \<open>Varints\<close>

lemma and_0x7f: "v AND 0x7f = take_bit 7 (v :: 'a::len word)"
  by (simp add: take_bit_eq_mask mask_eq_exp_minus_1)

lemma bit_0x80: "bit (128 :: byte) n \<longleftrightarrow> n = 7" "bit (128 :: u64) n \<longleftrightarrow> n = 7"
proof -
  have "(128 :: byte) = 2 ^ 7" "(128 :: u64) = 2 ^ 7" by simp_all
  then show "bit (128 :: byte) n \<longleftrightarrow> n = 7" "bit (128 :: u64) n \<longleftrightarrow> n = 7"
    by (simp_all only: bit_exp_iff possible_bit_def) auto
qed

lemma low7_byte:
  fixes v :: u64
  shows "ucast (take_bit 7 (ucast (take_bit 7 v) :: byte)) = take_bit 7 v"
    and "ucast (take_bit 7 ((ucast (take_bit 7 v) :: byte) OR 0x80)) = take_bit 7 v"
    and "(ucast (take_bit 7 v) :: byte) AND 0x80 = 0"
    and "((ucast (take_bit 7 v) :: byte) OR 0x80) AND 0x80 \<noteq> 0"
proof -
  show "ucast (take_bit 7 (ucast (take_bit 7 v) :: byte)) = take_bit 7 v"
    by (rule bit_word_eqI) (auto simp: bit_simps bit_0x80)
  show "ucast (take_bit 7 ((ucast (take_bit 7 v) :: byte) OR 0x80)) = take_bit 7 v"
    by (rule bit_word_eqI) (auto simp: bit_simps bit_0x80)
  show "(ucast (take_bit 7 v) :: byte) AND 0x80 = 0"
    by (rule bit_word_eqI)
      (simp only: bit_and_iff bit_0x80 bit_unsigned_iff bit_take_bit_iff bit_0_eq bot_apply, auto)
  have "bit (((ucast (take_bit 7 v) :: byte) OR 0x80) AND 0x80) 7"
    by (simp add: bit_simps bit_0x80)
  then show "((ucast (take_bit 7 v) :: byte) OR 0x80) AND 0x80 \<noteq> 0"
    by (metis bit_0_eq bot_apply bot_bool_def)
qed

lemma readUvarint_loop_put:
  "readUvarint_loop r s (putUvarint v @ rest) = Some (r OR push_bit s v, rest)"
proof (induction v arbitrary: r s rule: putUvarint.induct)
  case (1 v)
  have split: "r OR push_bit s (take_bit 7 v) OR push_bit (s + 7) (drop_bit 7 v) = r OR push_bit s v"
  proof (rule bit_word_eqI)
    fix n
    show "bit (r OR push_bit s (take_bit 7 v) OR push_bit (s + 7) (drop_bit 7 v)) n =
      bit (r OR push_bit s v) n"
    proof (cases "s + 7 \<le> n")
      case True
      then have "7 + (n - (s + 7)) = n - s" by simp
      with True show ?thesis by (auto simp: bit_simps)
    next
      case False
      then show ?thesis by (auto simp: bit_simps)
    qed
  qed
  show ?case
  proof (cases "drop_bit 7 v = 0")
    case True
    then have "push_bit s (take_bit 7 v) = push_bit s v"
      using bits_ident [of 7 v] by simp
    with True show ?thesis
      by (subst putUvarint.simps)
        (simp add: Let_def and_0x7f low7_byte)
  next
    case False
    with 1 show ?thesis
      by (subst putUvarint.simps)
        (simp add: Let_def and_0x7f low7_byte split or.assoc)
  qed
qed

theorem readUvarint_putUvarint [simp]: "readUvarint (putUvarint v @ rest) = Some (v, rest)"
  by (simp add: readUvarint_def readUvarint_loop_put)

section \<open>Zigzag integers\<close>

lemma sle_zero_bit: "0 <=s (v :: i64) \<longleftrightarrow> \<not> bit v 63"
  using bit_last_iff [of v] by (simp add: word_sle_eq not_less)

lemma half_of_double:
  fixes m :: u64
  assumes "\<not> bit m 63"
  shows "drop_bit 1 (push_bit 1 m) = m"
    and "drop_bit 1 (push_bit 1 m OR 1) = m"
    and "uint64ToInt64 m = m"
proof -
  have top: "bit m n \<Longrightarrow> n < 63" for n
    using assms bit_imp_le_length [of m n] by (cases "n = 63") auto
  then show "drop_bit 1 (push_bit 1 m) = m" "drop_bit 1 (push_bit 1 m OR 1) = m"
    by (auto intro!: bit_word_eqI simp: bit_simps mult.commute [of m 2] bit_double_iff dest: top)
  have "take_bit 63 m = m"
    using top by (auto intro!: bit_word_eqI simp: bit_simps)
  then have "m AND mask 63 = m"
    by (simp add: take_bit_eq_mask)
  then have "m \<le> mask 63"
    by (metis word_and_le1)
  then show "uint64ToInt64 m = m"
    by (auto simp: uint64ToInt64_def mask_eq_exp_minus_1)
qed

theorem unzigzag_zigzag [simp]: "unzigzag (zigzag v) = v"
proof (cases "bit v 63")
  case False
  then show ?thesis
    using half_of_double [of v]
    by (simp add: unzigzag_def zigzag_def sle_zero_bit and_one_eq flip: even_iff_mod_2_eq_zero)
next
  case True
  let ?m = "NOT v"
  have m: "\<not> bit ?m 63"
    using True by (simp add: bit_not_iff)
  have neg: "- (v + 1) = ?m"
    by (simp add: not_eq_complement)
  have nonneg: "nonNegativeInt64ToUint64 ?m = ?m"
    using m by (simp add: nonNegativeInt64ToUint64_def word_sless_alt bit_last_iff [symmetric])
  have "?m * 2 + 1 = push_bit 1 ?m OR 1"
    by (simp add: push_bit_eq_mult or_one_eq)
  then have "zigzag v = push_bit 1 ?m OR 1"
    using True neg nonneg by (simp add: zigzag_def sle_zero_bit)
  moreover have "(push_bit 1 ?m OR 1) AND 1 \<noteq> 0"
    by (simp add: and_one_eq even_or_iff flip: even_iff_mod_2_eq_zero)
  moreover have "- ?m - 1 = v"
    by (simp add: not_eq_complement)
  ultimately show ?thesis
    using half_of_double [OF m] by (simp add: unzigzag_def)
qed

section \<open>Values\<close>

text \<open>
  What a value in memory satisfies: its maps have distinct ordered keys, and no string, slice
  or map is longer than Go can allocate.
\<close>

primrec val_wf :: "lwp_value \<Rightarrow> bool" where
  "val_wf VNull = True"
| "val_wf (VBool x) = True"
| "val_wf (VU64 n) = True"
| "val_wf (VI64 n) = True"
| "val_wf (VStr s) = (length s < 2 ^ 63)"
| "val_wf (VAddr s) = (length s < 2 ^ 63)"
| "val_wf (VBytes b) = (length b < 2 ^ 63)"
| "val_wf (VList l) = (length l \<le> maxSliceCap \<and> list_all val_wf l)"
| "val_wf (VMap m) =
     (length m < 2 ^ 64 \<and> map_wf m \<and>
      list_all (\<lambda>(k, w). length k < 2 ^ 63 \<and> w) (map (map_prod id val_wf) m))"

lemma readBytes_put:
  assumes "length b < 2 ^ 63"
  shows "readBytes (putUvarint (word_of_nat (length b)) @ b @ rest) = Some (b, rest)"
proof -
  have n: "unat (word_of_nat (length b) :: u64) = length b"
    using assms by (simp add: unat_u64_of_nat)
  have "drop_bit 1 (NOT 0) = (9223372036854775807 :: u64)"
    by (simp add: mask_eq_exp_minus_1)
  then have "\<not> drop_bit 1 (NOT 0) < (word_of_nat (length b) :: u64)"
    using assms n by (simp add: word_less_nat_alt)
  with n show ?thesis
    by (simp add: readBytes_def uint64ToInt_def)
qed

lemma decodeItems_encode:
  assumes "\<And>v rest. v \<in> set l \<Longrightarrow> decodeValue (encodeValue v @ rest) = Ok (v, rest)"
  shows "decodeItems (length l) (concat (map encodeValue l) @ rest) = Ok (l, rest)"
  using assms by (induction l) (simp_all add: decodeItems.simps)

lemma decodeEntries_encode:
  assumes "\<And>k v rest. (k, v) \<in> set kvs \<Longrightarrow> decodeValue (encodeValue v @ rest) = Ok (v, rest)"
    and "\<And>k v. (k, v) \<in> set kvs \<Longrightarrow> length k < 2 ^ 63"
    and "map_wf (m @ kvs)"
  shows "decodeEntries (length kvs) m
      (concat (map (\<lambda>(key, e). putUvarint (word_of_nat (length key)) @ bytes_of_string key @ e)
         (map (map_prod id encodeValue) kvs)) @ rest) = Ok (m @ kvs, rest)"
  using assms
proof (induction kvs arbitrary: m)
  case Nil
  then show ?case by (simp add: decodeEntries.simps)
next
  case (Cons e kvs)
  obtain k v where e: "e = (k, v)" by force
  have "map_wf (m @ [(k, v)])"
    using Cons.prems(3) e map_wf_append [of "m @ [(k, v)]" kvs] by simp
  then have put: "map_put k v m = m @ [(k, v)]"
    by (rule map_put_snoc)
  have key: "readBytes (putUvarint (word_of_nat (length k)) @ bytes_of_string k @ b) =
      Some (bytes_of_string k, b)" for b
    using readBytes_put [of "bytes_of_string k" b] Cons.prems(2) [of k v] e by simp
  have "decodeEntries (length kvs) (m @ [(k, v)])
      (concat (map (\<lambda>(key, e). putUvarint (word_of_nat (length key)) @ bytes_of_string key @ e)
         (map (map_prod id encodeValue) kvs)) @ rest) = Ok ((m @ [(k, v)]) @ kvs, rest)"
    by (rule Cons.IH) (use Cons.prems e in force)+
  then show ?case
    using Cons.prems(1) [of k v] e put key by (subst decodeEntries.simps) simp
qed

theorem decodeValue_encodeValue:
  "val_wf v \<Longrightarrow> decodeValue (encodeValue v @ rest) = Ok (v, rest)"
proof (induction v arbitrary: rest)
  case (VList l)
  have "unat (word_of_nat (length l) :: u64) = length l"
    using VList.prems by (simp add: unat_u64_of_nat maxSliceCap_def)
  moreover have "decodeItems (length l) (concat (map encodeValue l) @ rest) = Ok (l, rest)"
    using VList by (intro decodeItems_encode) (simp add: list_all_iff)
  ultimately show ?case
    using VList.prems by (simp add: decodeValue.simps tag_defs)
next
  case (VMap m)
  have n: "unat (word_of_nat (length m) :: u64) = length m"
    using VMap.prems by (simp add: unat_u64_of_nat)
  have wf: "(k, v) \<in> set m \<Longrightarrow> length k < 2 ^ 63 \<and> val_wf v" for k v
    using VMap.prems by (auto simp: list_all_iff)
  have "decodeEntries (length m) []
      (concat (map (\<lambda>(key, e). putUvarint (word_of_nat (length key)) @ bytes_of_string key @ e)
         (map (map_prod id encodeValue) m)) @ rest) = Ok ([] @ m, rest)"
  proof (rule decodeEntries_encode)
    fix k v and rest :: bytes
    assume "(k, v) \<in> set m"
    with wf show "decodeValue (encodeValue v @ rest) = Ok (v, rest)"
      by (intro VMap.IH) auto
  qed (use VMap.prems wf in auto)
  moreover have "sort_key fst (map (map_prod id encodeValue) m) = map (map_prod id encodeValue) m"
    using VMap.prems by (intro sort_key_wf) simp
  ultimately show ?case
    using n by (simp add: decodeValue.simps tag_defs)
qed (simp_all add: decodeValue.simps tag_defs readBytes_put
       readBytes_put [of "bytes_of_string _", simplified])

text \<open>Two well-formed values are the same as soon as their encodings start the same way.\<close>

lemma encodeValue_prefix_free:
  assumes "val_wf v" and "val_wf w" and "encodeValue v @ x = encodeValue w @ y"
  shows "v = w \<and> x = y"
proof -
  have "Ok (v, x) = (Ok (w, y) :: (wire_error, lwp_value \<times> bytes) outcome)"
    by (simp only: decodeValue_encodeValue [OF assms(1), of x, symmetric]
        decodeValue_encodeValue [OF assms(2), of y, symmetric] assms(3))
  then show ?thesis by simp
qed

text \<open>Everything the decoder builds has well-formed maps at every depth.\<close>

primrec val_maps_wf :: "lwp_value \<Rightarrow> bool" where
  "val_maps_wf VNull = True"
| "val_maps_wf (VBool x) = True"
| "val_maps_wf (VU64 n) = True"
| "val_maps_wf (VI64 n) = True"
| "val_maps_wf (VStr s) = True"
| "val_maps_wf (VAddr s) = True"
| "val_maps_wf (VBytes b) = True"
| "val_maps_wf (VList l) = list_all val_maps_wf l"
| "val_maps_wf (VMap m) = (map_wf m \<and> list_all snd (map (map_prod id val_maps_wf) m))"

lemma val_maps_wf_put:
  "val_maps_wf (VMap m) \<Longrightarrow> val_maps_wf v \<Longrightarrow> val_maps_wf (VMap (map_put k v m))"
  using set_map_put_subset [of k v m] by (fastforce simp: list_all_iff)

lemma decode_maps_wf:
  "decodeValue b = Ok (v, b') \<Longrightarrow> val_maps_wf v"
  "decodeItems n b = Ok (l, b') \<Longrightarrow> list_all val_maps_wf l"
  "decodeEntries n m b = Ok (m', b') \<Longrightarrow> val_maps_wf (VMap m) \<Longrightarrow> val_maps_wf (VMap m')"
proof (induction b and n b and n m b arbitrary: v b' and l b' and m' b'
    rule: decodeValue_decodeItems_decodeEntries.induct)
  case 1
  then show ?case by (simp add: decodeValue.simps)
next
  case (2 tag b)
  from "2.prems" show ?case
    by (simp add: decodeValue.simps split: if_splits option.splits list.splits
        outcome.splits prod.splits)
      (use "2.IH" in \<open>auto simp: map_wf_def\<close>)
next
  case (3 n b)
  from "3.prems" show ?case
    by (subst (asm) decodeItems.simps)
      (use "3.IH" in \<open>fastforce split: if_splits outcome.splits prod.splits\<close>)
next
  case (4 n m b)
  from "4.prems" show ?case
    by (subst (asm) decodeEntries.simps)
      (use "4.IH" val_maps_wf_put in
        \<open>fastforce split: if_splits option.splits outcome.splits prod.splits\<close>)
qed

section \<open>Frames\<close>

lemma un16_be16: "un16 (ucast (drop_bit 8 v)) (ucast v) = v"
proof (rule bit_word_eqI)
  fix n
  assume "n < LENGTH(16)"
  then consider "n < 8" | "8 \<le> n" "n - 8 < 8" by fastforce
  then show "bit (un16 (ucast (drop_bit 8 v)) (ucast v)) n = bit v n"
    by cases (auto simp: un16_def bit_simps)
qed

lemma un32_be32:
  "un32 (ucast (drop_bit 24 v)) (ucast (drop_bit 16 v)) (ucast (drop_bit 8 v)) (ucast v) = v"
proof (rule bit_word_eqI)
  fix n
  assume "n < LENGTH(32)"
  then consider "n < 8" | "8 \<le> n" "n < 16" "n - 8 < 8" | "16 \<le> n" "n < 24" "n - 16 < 8"
    | "24 \<le> n" "n - 24 < 8" by fastforce
  then show "bit (un32 (ucast (drop_bit 24 v)) (ucast (drop_bit 16 v)) (ucast (drop_bit 8 v))
      (ucast v)) n = bit v n"
    by cases (auto simp: un32_def bit_simps)
qed

lemma length_be [simp]: "length (be16 v) = 2" "length (be32 w) = 4"
  by (simp_all add: be16_def be32_def)

lemma be16_cases: obtains a b where "be16 v = [a, b]" "un16 a b = v"
  using un16_be16 by (auto simp: be16_def)

lemma be32_cases: obtains a b c d where "be32 v = [a, b, c, d]" "un32 a b c d = v"
  using un32_be32 by (auto simp: be32_def)

definition frame_wf :: "frame \<Rightarrow> bool" where
  "frame_wf f \<longleftrightarrow> list_all val_wf (frame_args f) \<and> length (frame_args f) \<le> maxSliceCap"

text \<open>The bytes after the length prefix.\<close>

definition frame_payload :: "frame \<Rightarrow> bytes" where
  "frame_payload f =
     [ucast protoVersion, frame_typ f] @ be16 (frame_flags f) @ be32 (frame_reqID f) @
     be16 (frame_opcode f) @ putUvarint (word_of_nat (length (frame_args f))) @
     concat (map encodeValue (frame_args f))"

lemma encodeFrame_Ok_iff:
  "encodeFrame f = Ok bs \<longleftrightarrow>
     length (frame_payload f) < 2 ^ 32 \<and>
     bs = be32 (word_of_nat (length (frame_payload f))) @ frame_payload f"
proof -
  have "unat (NOT 0 :: u32) = 2 ^ 32 - 1"
    by (simp add: unsigned_minus_1_eq_mask mask_eq_exp_minus_1)
  moreover have "encodeFrame f =
      (case intToUint32 (length (frame_payload f)) of
         Ok n \<Rightarrow> Ok (be32 n @ frame_payload f) | Fail e \<Rightarrow> Fail e | Panic \<Rightarrow> Panic)"
    by (simp only: encodeFrame_def frame_payload_def Let_def)
  ultimately show ?thesis
    by (auto simp: intToUint32_def split: if_splits)
qed

lemma decodeFrame_complete:
  assumes "length buf = 4 + unat (un32 a b c d)" and "buf = a # b # c # d # frame_payload f"
    and "frame_wf f"
  shows "decodeFrame (buf @ rest) = Ok (f, length buf)"
proof -
  obtain f1 f0 where fl: "be16 (frame_flags f) = [f1, f0]" "un16 f1 f0 = frame_flags f"
    by (rule be16_cases)
  obtain o1 o0 where op: "be16 (frame_opcode f) = [o1, o0]" "un16 o1 o0 = frame_opcode f"
    by (rule be16_cases)
  obtain r3 r2 r1 r0
    where rq: "be32 (frame_reqID f) = [r3, r2, r1, r0]" "un32 r3 r2 r1 r0 = frame_reqID f"
    by (rule be32_cases)
  have n: "unat (word_of_nat (length (frame_args f)) :: u64) = length (frame_args f)"
    using assms(3) by (simp add: unat_u64_of_nat frame_wf_def maxSliceCap_def)
  have "decodeItems (length (frame_args f)) (concat (map encodeValue (frame_args f)) @ rest) =
      Ok (frame_args f, rest)"
    using assms(3)
    by (intro decodeItems_encode decodeValue_encodeValue) (auto simp: frame_wf_def list_all_iff)
  then show ?thesis
    using assms n fl op rq
    by (simp add: decodeFrame_def frame_payload_def Let_def frame_wf_def not_less)
qed

lemma encodeFrame_decompose:
  assumes "encodeFrame f = Ok bs"
  obtains a b c d where "bs = a # b # c # d # frame_payload f"
    "length bs = 4 + unat (un32 a b c d)"
proof -
  let ?n = "word_of_nat (length (frame_payload f)) :: u32"
  obtain a b c d where be: "be32 ?n = [a, b, c, d]" "un32 a b c d = ?n"
    by (rule be32_cases)
  have "unat ?n = length (frame_payload f)"
    using assms by (simp add: encodeFrame_Ok_iff unat_of_nat)
  with be assms that [of a b c d] show thesis
    by (simp add: encodeFrame_Ok_iff)
qed

lemma decodeFrame_short: "length buf < 4 \<Longrightarrow> decodeFrame buf = Fail ()"
  by (auto simp: decodeFrame_def split: list.split)

lemma decodeFrame_incomplete:
  assumes "encodeFrame f = Ok bs" and "n < length bs"
  shows "decodeFrame (take n bs) = Fail ()"
proof -
  obtain a b c d where bs: "bs = a # b # c # d # frame_payload f"
    "length bs = 4 + unat (un32 a b c d)"
    using assms(1) by (rule encodeFrame_decompose)
  show ?thesis
  proof (cases "n < 4")
    case True
    then show ?thesis by (intro decodeFrame_short) simp
  next
    case False
    then have "take n bs = a # b # c # d # take (n - 4) (frame_payload f)"
      using bs(1) by (simp add: take_Cons' numeral_eq_Suc)
    moreover have "length (take n bs) < 4 + unat (un32 a b c d)"
      using assms(2) bs(2) by simp
    ultimately show ?thesis by (simp add: decodeFrame_def)
  qed
qed

lemma decodeFrame_consumed:
  "decodeFrame buf = Ok (f, consumed) \<Longrightarrow> 4 \<le> consumed \<and> consumed \<le> length buf"
  by (auto simp: decodeFrame_def Let_def split: list.splits if_splits option.splits
      outcome.splits prod.splits)

section \<open>Properties\<close>

text \<open>
  \<^bold>\<open>C36\<close>. A frame the client sends is read back by the frame decoder as the same frame,
  whatever bytes are already queued behind it, and the decoder consumes exactly its bytes.
\<close>

theorem frame_roundtrip:
  assumes "frame_wf f" and "encodeFrame f = Ok bs"
  shows "decodeFrame (bs @ rest) = Ok (f, length bs)"
  using assms by (metis decodeFrame_complete encodeFrame_decompose)

theorem frame_roundtrip_witness:
  "\<exists>bs. encodeFrame \<lparr>frame_args = [VBool True], frame_typ = 2, frame_flags = 0, frame_reqID = 7,
        frame_opcode = 0\<rparr> = Ok bs \<and>
     decodeFrame (bs @ [1, 2]) = Ok (\<lparr>frame_args = [VBool True], frame_typ = 2, frame_flags = 0,
        frame_reqID = 7, frame_opcode = 0\<rparr>, length bs)"
proof -
  let ?f = "\<lparr>frame_args = [VBool True], frame_typ = 2, frame_flags = 0, frame_reqID = 7,
    frame_opcode = 0\<rparr>"
  have "putUvarint 1 = [1]"
    by (simp add: putUvarint.simps)
  then have "length (frame_payload ?f) < 2 ^ 32"
    by (simp add: frame_payload_def)
  then obtain bs where bs: "encodeFrame ?f = Ok bs"
    using encodeFrame_Ok_iff by blast
  have "frame_wf ?f"
    by (simp add: frame_wf_def maxSliceCap_def)
  with bs frame_roundtrip [of ?f bs "[1, 2]"] show ?thesis by blast
qed

text \<open>
  Whatever bytes arrive, the maps of a decoded value have distinct,
  ordered keys at every depth: a duplicated key on the wire cannot make two entries.
\<close>

lemma decoded_maps_canonical: "decodeValue b = Ok (v, b') \<Longrightarrow> val_maps_wf v"
  by (rule decode_maps_wf(1))

text \<open>
  . The decoder has no lower bound on the announced length: a buffer that
  holds a complete frame by its length prefix but fewer than the ten header bytes makes the
  decoder read out of range. The read loop runs without \<open>recover\<close>, so such a frame (four zero
  bytes are enough) ends the process.
\<close>

lemma undersized_frame_panics:
  assumes "unat (un32 a b c d) \<le> length body" and "length body < 10"
  shows "decodeFrame (a # b # c # d # body) = Panic"
  using assms by (auto simp: decodeFrame_def split: list.split)

end
