(* ===== verification/Lwp_Client.thy ===== *)
theory Lwp_Client
  imports Wire_Codec
begin

text \<open>
  The pipelined LWP connection of \<^verbatim>\<open>src/lotor/client.go\<close>: the \<open>Client\<close> struct, the read loop
  that reassembles frames and fans them out, and the request side \<open>do\<close>. Channels live in a
  heap (\<open>cl_chans\<close>), each with capacity one; sending on a full channel blocks (\<open>Fail ()\<close>),
  sending on or closing a closed channel panics. The critical sections under \<open>c.mu\<close> are
  atomic steps of the step relation \<open>lwp_step\<close>, interleaved arbitrarily.
\<close>

section \<open>State\<close>

record lwp_event =
  ev_Detail :: "(string \<times> i64) list"
  ev_Type :: string
  ev_Target :: string
  ev_WatchID :: string
  ev_LogSeq :: u64

text \<open>
  A channel made by \<open>do\<close>. \<open>chan_req\<close> (the request it was made for) and \<open>chan_sends\<close> (how many
  frames were ever sent on it) are ghost fields: no operation reads them.
\<close>

record chan =
  chan_buf :: "frame option"
  chan_closed :: bool
  chan_req :: u32
  chan_sends :: nat

text \<open>
  \<open>cl_subs\<close> maps a watch id to its handler; a missing id and a nil handler are both \<open>None\<close>,
  as \<open>c.subs[id]\<close> gives nil for both. \<open>cl_buf\<close> is the read loop's buffer, \<open>cl_events\<close> the
  handler goroutines started so far.
\<close>

record 'h lwp_client =
  cl_pend :: "(u32 \<times> nat) list"
  cl_subs :: "string \<Rightarrow> 'h option"
  cl_closed :: bool
  cl_nextID :: u32
  cl_chans :: "chan list"
  cl_buf :: bytes
  cl_events :: "('h \<times> lwp_event) list"

definition new_client :: "'h lwp_client" where
  "new_client = \<lparr>cl_pend = [], cl_subs = (\<lambda>_. None), cl_closed = False, cl_nextID = 0,
     cl_chans = [], cl_buf = [], cl_events = []\<rparr>"

datatype lwp_err =
    ConnError string
  | ConnectionClosed
  | InvalidErrorCode
  | LWPError u16 string
  | RequestTimeout
  | OpError string

definition IsLWPError :: "lwp_err \<Rightarrow> u16 \<Rightarrow> bool" where
  "IsLWPError err code = (case err of LWPError c _ \<Rightarrow> c = code | _ \<Rightarrow> False)"

section \<open>The request side\<close>

text \<open>Registering a request: the critical section at the start of \<open>do\<close>.\<close>

definition do_begin :: "'h lwp_client \<Rightarrow> 'h lwp_client \<times> u32 \<times> nat" where
  "do_begin c =
     (let id' = cl_nextID c + 1; ch = length (cl_chans c) in
      (c\<lparr>cl_nextID := id',
         cl_chans := cl_chans c @ [\<lparr>chan_buf = None, chan_closed = False, chan_req = id', chan_sends = 0\<rparr>],
         cl_pend := map_put id' ch (cl_pend c)\<rparr>, id', ch))"

definition do_frame :: "u32 \<Rightarrow> u16 \<Rightarrow> lwp_value list \<Rightarrow> frame" where
  "do_frame id' opcode args =
     \<lparr>frame_args = args, frame_typ = frameREQ, frame_flags = 0, frame_reqID = id',
      frame_opcode = opcode\<rparr>"

text \<open>A failed write unregisters the request again.\<close>

definition do_abort :: "u32 \<Rightarrow> 'h lwp_client \<Rightarrow> 'h lwp_client" where
  "do_abort id' c = c\<lparr>cl_pend := map_delete id' (cl_pend c)\<rparr>"

text \<open>
  The result of the \<open>select\<close>: \<open>Some f\<close> a received frame, \<open>None\<close> a closed channel. The error
  code is read from the first argument without a length check.
\<close>

definition do_response :: "frame option \<Rightarrow> (lwp_err, lwp_value list) outcome" where
  "do_response r =
     (case r of
        None \<Rightarrow> Fail ConnectionClosed
      | Some f \<Rightarrow>
          if frame_opcode f = statusERR then
            (case frame_args f of
               [] \<Rightarrow> Panic
             | a0 # rest \<Rightarrow>
                 let code = asNum a0;
                     msg = (case rest of a1 # _ \<Rightarrow> asStr a1 | [] \<Rightarrow> [])
                 in if code <s 0 \<or> 0xFFFF <s code then Fail InvalidErrorCode
                    else Fail (LWPError (ucast code) msg))
          else Ok (frame_args f))"

text \<open>Receiving from channel \<open>i\<close>: the buffered frame, or nothing once it is closed and empty.\<close>

definition chan_recv :: "nat \<Rightarrow> 'h lwp_client \<Rightarrow> (frame option \<times> 'h lwp_client) option" where
  "chan_recv i c =
     (let ch = cl_chans c ! i in
      case chan_buf ch of
        Some f \<Rightarrow> Some (Some f, c\<lparr>cl_chans := (cl_chans c)[i := ch\<lparr>chan_buf := None\<rparr>]\<rparr>)
      | None \<Rightarrow> if chan_closed ch then Some (None, c) else None)"

section \<open>The read loop\<close>

definition chan_send :: "nat \<Rightarrow> frame \<Rightarrow> 'h lwp_client \<Rightarrow> (unit, 'h lwp_client) outcome" where
  "chan_send i f c =
     (let ch = cl_chans c ! i in
      if chan_closed ch then Panic
      else if chan_buf ch \<noteq> None then Fail ()
      else Ok (c\<lparr>cl_chans := (cl_chans c)
             [i := ch\<lparr>chan_buf := Some f, chan_sends := Suc (chan_sends ch)\<rparr>]\<rparr>))"

definition numericMap :: "lwp_value \<Rightarrow> (string \<times> i64) list" where
  "numericMap v = (case v of VMap m \<Rightarrow> map (map_prod id asNum) m | _ \<Rightarrow> [])"

definition nonNegativeUint64 :: "i64 \<Rightarrow> u64" where
  "nonNegativeUint64 n = (if n <s 0 then 0 else n)"

definition dispatchEvent :: "frame \<Rightarrow> 'h lwp_client \<Rightarrow> 'h lwp_client" where
  "dispatchEvent f c =
     (if length (frame_args f) < 5 then c
      else let a = frame_args f;
               ev = \<lparr>ev_Detail = numericMap (a ! 2), ev_Type = asStr (a ! 0),
                     ev_Target = asStr (a ! 1), ev_WatchID = asStr (a ! 4),
                     ev_LogSeq = nonNegativeUint64 (asNum (a ! 3))\<rparr>
           in case cl_subs c (ev_WatchID ev) of
                None \<Rightarrow> c
              | Some h \<Rightarrow> c\<lparr>cl_events := cl_events c @ [(h, ev)]\<rparr>)"

text \<open>One decoded frame: a RESP goes to its request's channel, an EVENT to its handler.\<close>

definition process_frame :: "frame \<Rightarrow> 'h lwp_client \<Rightarrow> (unit, 'h lwp_client) outcome" where
  "process_frame f c =
     (if frame_typ f = frameRESP then
        (let ch = map_get (cl_pend c) (frame_reqID f);
             c' = c\<lparr>cl_pend := map_delete (frame_reqID f) (cl_pend c)\<rparr>
         in case ch of None \<Rightarrow> Ok c' | Some i \<Rightarrow> chan_send i f c')
      else if frame_typ f = frameEVENT then Ok (dispatchEvent f c)
      else Ok c)"

lemma process_frame_buf: "process_frame f c = Ok c' \<Longrightarrow> cl_buf c' = cl_buf c"
  by (auto simp: process_frame_def chan_send_def dispatchEvent_def Let_def
      split: if_splits option.splits)

text \<open>The inner loop: decode and process frames while the buffer holds a complete one.\<close>

function drain :: "'h lwp_client \<Rightarrow> (unit, 'h lwp_client) outcome" where
  "drain c =
     (case decodeFrame (cl_buf c) of
        Fail _ \<Rightarrow> Ok c
      | Panic \<Rightarrow> Panic
      | Ok (f, consumed) \<Rightarrow>
          (case process_frame f (c\<lparr>cl_buf := drop consumed (cl_buf c)\<rparr>) of
             Ok c' \<Rightarrow> drain c'
           | Fail e \<Rightarrow> Fail e
           | Panic \<Rightarrow> Panic))"
  by pat_completeness auto
termination drain
  by (relation "measure (\<lambda>c. length (cl_buf c))")
    (auto dest!: decodeFrame_consumed process_frame_buf)

declare drain.simps [simp del]

text \<open>Closing every pending channel, when the connection fails.\<close>

fun close_chans :: "(u32 \<times> nat) list \<Rightarrow> chan list \<Rightarrow> (unit, chan list) outcome" where
  "close_chans [] chs = Ok chs"
| "close_chans ((id', i) # pend) chs =
     (if chan_closed (chs ! i) then Panic
      else close_chans pend (chs[i := (chs ! i)\<lparr>chan_closed := True\<rparr>]))"

definition read_fail :: "'h lwp_client \<Rightarrow> (unit, 'h lwp_client) outcome" where
  "read_fail c =
     (if cl_closed c then Panic
      else case close_chans (cl_pend c) (cl_chans c) of
             Ok chs \<Rightarrow> Ok (c\<lparr>cl_closed := True, cl_chans := chs, cl_pend := []\<rparr>)
           | Fail e \<Rightarrow> Fail e
           | Panic \<Rightarrow> Panic)"

text \<open>One iteration of \<open>readLoop\<close>: \<open>n, err := conn.Read(tmp)\<close> gave \<open>chunk\<close> and maybe an error.\<close>

definition readLoop_read :: "bytes \<Rightarrow> bool \<Rightarrow> 'h lwp_client \<Rightarrow> (unit, 'h lwp_client) outcome" where
  "readLoop_read chunk err c =
     bind_outcome
       (if chunk \<noteq> [] then drain (c\<lparr>cl_buf := cl_buf c @ chunk\<rparr>) else Ok c)
       (\<lambda>c'. if err then read_fail c' else Ok c')"

fun readLoop_chunks :: "bytes list \<Rightarrow> 'h lwp_client \<Rightarrow> (unit, 'h lwp_client) outcome" where
  "readLoop_chunks [] c = Ok c"
| "readLoop_chunks (x # xs) c = bind_outcome (readLoop_read x False c) (readLoop_chunks xs)"

section \<open>Subscriptions\<close>

definition watch_commit :: "string \<Rightarrow> 'h option \<Rightarrow> 'h lwp_client \<Rightarrow> 'h lwp_client" where
  "watch_commit id' h c = c\<lparr>cl_subs := (cl_subs c)(id' := h)\<rparr>"

definition unwatch_commit :: "string \<Rightarrow> 'h lwp_client \<Rightarrow> 'h lwp_client" where
  "unwatch_commit id' c = c\<lparr>cl_subs := (cl_subs c)(id' := None)\<rparr>"

section \<open>Interleavings\<close>

text \<open>
  Any number of callers and the single read loop run concurrently. A step is one critical
  section or one channel operation; the read loop takes steps until the connection is closed.
  A timed-out request takes no step: its registration stays behind.
\<close>

inductive lwp_step :: "'h lwp_client \<Rightarrow> 'h lwp_client \<Rightarrow> bool" where
  register: "do_begin c = (c', id', i) \<Longrightarrow> lwp_step c c'"
| unregister: "lwp_step c (do_abort id' c)"
| receive: "i < length (cl_chans c) \<Longrightarrow> chan_recv i c = Some (r, c') \<Longrightarrow> lwp_step c c'"
| read: "\<not> cl_closed c \<Longrightarrow> readLoop_read chunk err c = Ok c' \<Longrightarrow> lwp_step c c'"
| watch: "lwp_step c (watch_commit id' h c)"
| unwatch: "lwp_step c (unwatch_commit id' c)"

inductive lwp_reachable :: "'h lwp_client \<Rightarrow> bool" where
  start: "lwp_reachable new_client"
| step: "lwp_reachable c \<Longrightarrow> lwp_step c c' \<Longrightarrow> lwp_reachable c'"

inductive_cases lwp_stepE: "lwp_step c c'"

text \<open>
  The invariant: a registered channel is open, empty, unused and registered once, for the
  request it was made for; no channel ever got a second frame; a buffered frame is a RESP
  for the channel's own request.
\<close>

definition pend_ok :: "chan list \<Rightarrow> (u32 \<times> nat) list \<Rightarrow> bool" where
  "pend_ok chs pend \<longleftrightarrow>
     (\<forall>(id', i) \<in> set pend. i < length chs \<and> chan_buf (chs ! i) = None \<and>
        \<not> chan_closed (chs ! i) \<and> chan_req (chs ! i) = id' \<and> chan_sends (chs ! i) = 0)"

definition chan_ok :: "chan \<Rightarrow> bool" where
  "chan_ok ch \<longleftrightarrow> chan_sends ch \<le> 1 \<and>
     (\<forall>f. chan_buf ch = Some f \<longrightarrow> frame_reqID f = chan_req ch \<and> frame_typ f = frameRESP)"

definition lwp_inv :: "'h lwp_client \<Rightarrow> bool" where
  "lwp_inv c \<longleftrightarrow> map_wf (cl_pend c) \<and> distinct (map snd (cl_pend c)) \<and>
     pend_ok (cl_chans c) (cl_pend c) \<and> (\<forall>ch \<in> set (cl_chans c). chan_ok ch)"

lemma lwp_inv_new: "lwp_inv new_client"
  by (simp add: lwp_inv_def new_client_def pend_ok_def)

lemma pend_ok_nth:
  "pend_ok chs pend \<Longrightarrow> (k, i) \<in> set pend \<Longrightarrow>
     i < length chs \<and> chan_buf (chs ! i) = None \<and> \<not> chan_closed (chs ! i) \<and>
     chan_req (chs ! i) = k \<and> chan_sends (chs ! i) = 0"
  by (auto simp: pend_ok_def)

lemma pend_ok_update:
  assumes "pend_ok chs pend" and "i \<notin> snd ` set pend"
  shows "pend_ok (chs[i := ch]) pend"
proof -
  have "chs[i := ch] ! j = chs ! j" if "(k, j) \<in> set pend" for k j
    using that assms(2) by (metis image_eqI nth_list_update_neq snd_conv)
  with assms(1) show ?thesis by (auto simp: pend_ok_def)
qed

lemma pend_ok_delete: "pend_ok chs pend \<Longrightarrow> pend_ok chs (map_delete k pend)"
  by (auto simp: pend_ok_def set_map_delete)

lemma lwp_inv_begin:
  assumes "lwp_inv c" and "do_begin c = (c', id', i)"
  shows "lwp_inv c'"
proof -
  let ?new = "\<lparr>chan_buf = None, chan_closed = False, chan_req = cl_nextID c + 1, chan_sends = 0\<rparr>"
  let ?pend = "map_put (cl_nextID c + 1) (length (cl_chans c)) (cl_pend c)"
  have fresh: "length (cl_chans c) \<notin> snd ` set (cl_pend c)"
    using assms(1) by (fastforce simp: lwp_inv_def pend_ok_def)
  have "pend_ok (cl_chans c @ [?new]) ?pend"
    unfolding pend_ok_def
  proof
    fix e
    assume "e \<in> set ?pend"
    then consider "e = (cl_nextID c + 1, length (cl_chans c))" | "e \<in> set (cl_pend c)"
      using set_map_put_subset by fastforce
    then show "case e of (id', i) \<Rightarrow>
        i < length (cl_chans c @ [?new]) \<and> chan_buf ((cl_chans c @ [?new]) ! i) = None \<and>
        \<not> chan_closed ((cl_chans c @ [?new]) ! i) \<and>
        chan_req ((cl_chans c @ [?new]) ! i) = id' \<and> chan_sends ((cl_chans c @ [?new]) ! i) = 0"
      using assms(1) by cases (auto simp: lwp_inv_def pend_ok_def nth_append)
  qed
  then show ?thesis
    using assms fresh
    by (auto simp: do_begin_def Let_def lwp_inv_def chan_ok_def intro!: distinct_snd_put)
qed

lemma lwp_inv_abort: "lwp_inv c \<Longrightarrow> lwp_inv (do_abort id' c)"
  by (simp add: lwp_inv_def do_abort_def pend_ok_delete distinct_snd_delete)

lemma lwp_inv_recv:
  assumes "lwp_inv c" and "i < length (cl_chans c)" and "chan_recv i c = Some (r, c')"
  shows "lwp_inv c'"
proof (cases "chan_buf (cl_chans c ! i)")
  case None
  with assms show ?thesis
    by (auto simp: chan_recv_def Let_def split: if_splits)
next
  case (Some f)
  have "i \<notin> snd ` set (cl_pend c)"
    using Some assms(1) by (fastforce simp: lwp_inv_def pend_ok_def)
  moreover have "chan_ok (cl_chans c ! i)"
    using assms(1,2) by (simp add: lwp_inv_def)
  ultimately show ?thesis
    using Some assms
    by (auto simp: chan_recv_def Let_def lwp_inv_def chan_ok_def
        dest!: set_update_subset_insert [THEN subsetD] intro!: pend_ok_update)
qed

text \<open>The read loop neither blocks nor panics on a frame, and keeps the invariant.\<close>

lemma process_frame_inv:
  assumes "lwp_inv c"
  shows "\<exists>c'. process_frame f c = Ok c' \<and> lwp_inv c' \<and> cl_closed c' = cl_closed c"
proof (cases "frame_typ f = frameRESP")
  case False
  with assms show ?thesis
    by (auto simp: process_frame_def dispatchEvent_def Let_def lwp_inv_def split: option.split)
next
  case RESP: True
  show ?thesis
  proof (cases "map_get (cl_pend c) (frame_reqID f)")
    case None
    with RESP assms show ?thesis
      by (auto simp: process_frame_def Let_def lwp_inv_def pend_ok_delete distinct_snd_delete)
  next
    case (Some i)
    then have mem: "(frame_reqID f, i) \<in> set (cl_pend c)"
      by (rule map_get_SomeD)
    with assms have ch: "i < length (cl_chans c) \<and> chan_buf (cl_chans c ! i) = None \<and>
        \<not> chan_closed (cl_chans c ! i) \<and> chan_req (cl_chans c ! i) = frame_reqID f \<and>
        chan_sends (cl_chans c ! i) = 0"
      by (intro pend_ok_nth) (auto simp: lwp_inv_def)
    have free: "i \<notin> snd ` set (map_delete (frame_reqID f) (cl_pend c))"
      using assms mem by (force simp: lwp_inv_def set_map_delete distinct_map inj_on_def)
    have "pend_ok ((cl_chans c)[i := (cl_chans c ! i)\<lparr>chan_buf := Some f, chan_sends := Suc 0\<rparr>])
        (map_delete (frame_reqID f) (cl_pend c))"
      using assms free by (intro pend_ok_update pend_ok_delete) (auto simp: lwp_inv_def)
    then show ?thesis
      using RESP Some assms ch
      by (auto simp: process_frame_def Let_def chan_send_def lwp_inv_def chan_ok_def
          distinct_snd_delete dest!: set_update_subset_insert [THEN subsetD])
  qed
qed

lemma drain_inv:
  "lwp_inv c \<Longrightarrow> drain c = Ok c' \<Longrightarrow> lwp_inv c' \<and> cl_closed c' = cl_closed c"
proof (induction c rule: drain.induct)
  case (1 c)
  show ?case
  proof (cases "decodeFrame (cl_buf c)")
    case (Ok r)
    obtain f n where r: "r = (f, n)" by force
    let ?c = "c\<lparr>cl_buf := drop n (cl_buf c)\<rparr>"
    have "lwp_inv ?c" using "1.prems"(1) by (simp add: lwp_inv_def)
    then obtain c1 where c1: "process_frame f ?c = Ok c1" "lwp_inv c1" "cl_closed c1 = cl_closed c"
      using process_frame_inv [of ?c f] by auto
    have "drain c1 = Ok c'"
      using "1.prems"(2) Ok r c1(1) by (simp add: drain.simps [of c])
    with "1.IH" [OF Ok _ c1(1)] r c1(2,3) show ?thesis by simp
  qed (use "1.prems" in \<open>auto simp: drain.simps [of c]\<close>)
qed

lemma close_chans_ok:
  assumes "pend_ok chs pend" and "distinct (map snd pend)" and "\<forall>ch \<in> set chs. chan_ok ch"
  shows "\<exists>chs'. close_chans pend chs = Ok chs' \<and> (\<forall>ch \<in> set chs'. chan_ok ch) \<and>
     length chs' = length chs \<and>
     (\<forall>i < length chs. chan_closed (chs' ! i) = (chan_closed (chs ! i) \<or> i \<in> snd ` set pend))"
  using assms
proof (induction pend chs rule: close_chans.induct)
  case (1 chs)
  then show ?case by simp
next
  case (2 id' i pend chs)
  let ?chs = "chs[i := (chs ! i)\<lparr>chan_closed := True\<rparr>]"
  have i: "i < length chs" "\<not> chan_closed (chs ! i)"
    using "2.prems"(1) by (auto simp: pend_ok_def)
  have "pend_ok ?chs pend"
    using "2.prems"(1,2) by (intro pend_ok_update) (auto simp: pend_ok_def)
  moreover have "chan_ok ((chs ! i)\<lparr>chan_closed := True\<rparr>)"
    using bspec [OF "2.prems"(3) nth_mem [OF i(1)]] by (simp add: chan_ok_def)
  then have "\<forall>ch \<in> set ?chs. chan_ok ch"
    using "2.prems"(3) by (auto dest!: set_update_subset_insert [THEN subsetD])
  ultimately show ?case
    using "2.IH" i "2.prems"(2) by (auto simp: nth_list_update)
qed

lemma close_chans_buf:
  "close_chans pend chs = Ok chs' \<Longrightarrow> chan_buf (chs' ! j) = chan_buf (chs ! j)"
proof (induction pend chs rule: close_chans.induct)
  case (2 id' i pend chs)
  then show ?case
    by (cases "i < length chs") (auto simp: nth_list_update list_update_beyond split: if_splits)
qed simp

lemma read_fail_inv:
  assumes "lwp_inv c" and "\<not> cl_closed c"
  shows "\<exists>c'. read_fail c = Ok c' \<and> lwp_inv c' \<and> cl_closed c' \<and> cl_pend c' = [] \<and>
    (\<forall>(id', i) \<in> set (cl_pend c). chan_closed (cl_chans c' ! i))"
proof -
  obtain chs where "close_chans (cl_pend c) (cl_chans c) = Ok chs" "\<forall>ch \<in> set chs. chan_ok ch"
    "\<forall>i < length (cl_chans c).
       chan_closed (chs ! i) = (chan_closed (cl_chans c ! i) \<or> i \<in> snd ` set (cl_pend c))"
    using close_chans_ok [of "cl_chans c" "cl_pend c"] assms by (auto simp: lwp_inv_def)
  moreover have "\<forall>(id', i) \<in> set (cl_pend c). i < length (cl_chans c)"
    using assms(1) by (auto simp: lwp_inv_def pend_ok_def)
  ultimately show ?thesis
    using assms(2) by (force simp: read_fail_def lwp_inv_def pend_ok_def)
qed

lemma readLoop_read_inv:
  assumes "lwp_inv c" and "\<not> cl_closed c" and "readLoop_read chunk err c = Ok c'"
  shows "lwp_inv c'"
proof -
  have buf: "lwp_inv (c\<lparr>cl_buf := b\<rparr>)" for b
    using assms(1) by (simp add: lwp_inv_def)
  obtain c1 where c1: "lwp_inv c1" "cl_closed c1 = cl_closed c"
    "(if err then read_fail c1 else Ok c1) = Ok c'"
    using assms drain_inv [OF buf] by (fastforce simp: readLoop_read_def outcome_simps split: if_splits)
  then show ?thesis
    using read_fail_inv [of c1] assms(2) by (auto split: if_splits)
qed

lemma lwp_step_inv: "lwp_step c c' \<Longrightarrow> lwp_inv c \<Longrightarrow> lwp_inv c'"
proof (induction rule: lwp_step.induct)
  case (register c c' id' i)
  then show ?case by (blast intro: lwp_inv_begin)
next
  case (unregister c id')
  then show ?case by (simp add: lwp_inv_abort)
next
  case (receive i c r c')
  then show ?case by (blast intro: lwp_inv_recv)
next
  case (read c chunk err c')
  then show ?case by (blast intro: readLoop_read_inv)
qed (simp_all add: lwp_inv_def watch_commit_def unwatch_commit_def)

lemma lwp_reachable_inv: "lwp_reachable c \<Longrightarrow> lwp_inv c"
  by (induction rule: lwp_reachable.induct) (auto intro: lwp_inv_new lwp_step_inv)

section \<open>Reassembly\<close>

text \<open>
  The specification of the read loop: process the frames one after the other. The theorem
  \<open>readLoop_chunks_frames\<close> says that however the encoded frames are cut into reads, the loop
  does exactly that and keeps no bytes behind.
\<close>

fun process_frames :: "frame list \<Rightarrow> 'h lwp_client \<Rightarrow> (unit, 'h lwp_client) outcome" where
  "process_frames [] c = Ok c"
| "process_frames (f # fs) c = bind_outcome (process_frame f c) (process_frames fs)"

lemma process_frames_append:
  "process_frames (fs @ gs) c = bind_outcome (process_frames fs c) (process_frames gs)"
proof (induction fs arbitrary: c)
  case (Cons f fs)
  then show ?case by (cases "process_frame f c") simp_all
qed simp

definition set_buf :: "bytes \<Rightarrow> ('e, 'h lwp_client) outcome \<Rightarrow> ('e, 'h lwp_client) outcome" where
  "set_buf b r = bind_outcome r (\<lambda>c. Ok (c\<lparr>cl_buf := b\<rparr>))"

lemma process_frame_set_buf:
  "process_frame f (c\<lparr>cl_buf := b\<rparr>) = set_buf b (process_frame f c)"
  by (auto simp: process_frame_def chan_send_def dispatchEvent_def Let_def set_buf_def
      split: option.split)

lemma process_frames_set_buf:
  "process_frames fs (c\<lparr>cl_buf := b\<rparr>) = set_buf b (process_frames fs c)"
proof (induction fs arbitrary: c)
  case Nil
  then show ?case by (simp add: set_buf_def)
next
  case (Cons f fs)
  show ?case
    by (cases "process_frame f c")
      (simp_all add: process_frame_set_buf set_buf_def Cons.IH [unfolded set_buf_def])
qed

lemma process_frames_buf: "process_frames fs c = Ok c' \<Longrightarrow> cl_buf c' = cl_buf c"
  by (induction fs arbitrary: c) (auto simp: outcome_simps dest: process_frame_buf)

definition encodes :: "frame \<Rightarrow> bytes \<Rightarrow> bool" where
  "encodes f bs \<longleftrightarrow> frame_wf f \<and> encodeFrame f = Ok bs"

lemma encodes_decode: "encodes f bs \<Longrightarrow> decodeFrame (bs @ rest) = Ok (f, length bs)"
  unfolding encodes_def by (metis decodeFrame_complete encodeFrame_decompose)

lemma encodes_nonempty: "encodes f bs \<Longrightarrow> bs \<noteq> []"
  unfolding encodes_def by (metis encodeFrame_decompose list.distinct(1))

lemma drain_frames:
  assumes "list_all2 encodes fs bss" and "decodeFrame tail = Fail ()"
  shows "drain (c\<lparr>cl_buf := concat bss @ tail\<rparr>) = process_frames fs (c\<lparr>cl_buf := tail\<rparr>)"
  using assms(1)
proof (induction fs bss arbitrary: c rule: list_all2_induct)
  case Nil
  then show ?case using assms(2) by (simp add: drain.simps)
next
  case (Cons f fs bs bss)
  have dec: "decodeFrame (concat (bs # bss) @ tail) = Ok (f, length bs)"
    using encodes_decode [OF Cons.hyps(1)] by simp
  show ?case
  proof (cases "process_frame f c")
    case (Ok c1)
    with dec Cons.IH [of c1] show ?thesis
      by (subst drain.simps) (simp add: process_frame_set_buf set_buf_def)
  qed (use dec in \<open>simp_all add: drain.simps [of "c\<lparr>cl_buf := _\<rparr>"]
         process_frame_set_buf set_buf_def\<close>)
qed

text \<open>A prefix of a concatenation of non-empty pieces: whole pieces and part of the next one.\<close>

lemma split_concat_prefix:
  assumes "y @ z = concat bss" and "[] \<notin> set bss"
  shows "\<exists>k p. k \<le> length bss \<and> y = concat (take k bss) @ p \<and> p @ z = concat (drop k bss) \<and>
    (if k = length bss then p = [] else \<exists>n < length (bss ! k). p = take n (bss ! k))"
  using assms
proof (induction bss arbitrary: y)
  case Nil
  then show ?case by simp
next
  case (Cons b bss)
  show ?case
  proof (cases "length y < length b")
    case True
    with Cons.prems(1) have "y = take (length y) b"
      by (metis append_eq_append_conv_if concat.simps(2) less_or_eq_imp_le)
    with True Cons.prems show ?thesis
      by (intro exI [of _ 0] exI [of _ y]) auto
  next
    case False
    with Cons.prems(1) obtain y' where y: "y = b @ y'" "y' @ z = concat bss"
      by (metis append_eq_append_conv_if append_eq_conv_conj concat.simps(2) not_less append_assoc
          same_append_eq)
    from Cons.IH [OF y(2)] Cons.prems(2) obtain k p where
      "k \<le> length bss" "y' = concat (take k bss) @ p" "p @ z = concat (drop k bss)"
      "if k = length bss then p = [] else \<exists>n < length (bss ! k). p = take n (bss ! k)"
      by auto
    with y(1) show ?thesis
      by (intro exI [of _ "Suc k"] exI [of _ p]) auto
  qed
qed

lemma encodes_partial:
  assumes "list_all2 encodes fs bss"
    and "if bss = [] then p = [] else \<exists>n < length (hd bss). p = take n (hd bss)"
  shows "decodeFrame p = Fail ()"
proof (cases bss)
  case Nil
  with assms show ?thesis by (simp add: decodeFrame_short)
next
  case (Cons b bs)
  with assms show ?thesis
    by (auto simp: list_all2_Cons2 encodes_def intro: decodeFrame_incomplete)
qed

lemma readLoop_chunks_frames:
  assumes "list_all2 encodes fs bss" and "cl_buf c @ concat chunks = concat bss"
    and "if bss = [] then cl_buf c = [] else \<exists>n < length (hd bss). cl_buf c = take n (hd bss)"
  shows "readLoop_chunks chunks c = process_frames fs (c\<lparr>cl_buf := []\<rparr>)"
  using assms
proof (induction chunks arbitrary: c fs bss)
  case Nil
  then have "bss = []"
    by (cases bss) (auto dest!: arg_cong [of _ _ length])
  with Nil show ?case by simp
next
  case (Cons x chunks)
  show ?case
  proof (cases "x = []")
    case True
    with Cons.IH [OF Cons.prems(1) _ Cons.prems(3)] Cons.prems(2) show ?thesis
      by (simp add: readLoop_read_def)
  next
    case False
    have "[] \<notin> set bss"
      using Cons.prems(1) by (auto simp: list_all2_conv_all_nth in_set_conv_nth dest: encodes_nonempty)
    with split_concat_prefix [of "cl_buf c @ x" "concat chunks" bss] Cons.prems(2)
    obtain k p where k: "k \<le> length bss" "cl_buf c @ x = concat (take k bss) @ p"
      "p @ concat chunks = concat (drop k bss)"
      "if k = length bss then p = [] else \<exists>n < length (bss ! k). p = take n (bss ! k)"
      by auto
    have part: "if drop k bss = [] then p = []
        else \<exists>n < length (hd (drop k bss)). p = take n (hd (drop k bss))"
      using k(1,4) by (auto simp: hd_drop_conv_nth split: if_splits)
    have enc: "list_all2 encodes (take k fs) (take k bss)" "list_all2 encodes (drop k fs) (drop k bss)"
      using Cons.prems(1) by auto
    have "drain (c\<lparr>cl_buf := cl_buf c @ x\<rparr>) = process_frames (take k fs) (c\<lparr>cl_buf := p\<rparr>)"
      unfolding k(2) using enc(1) encodes_partial [OF enc(2) part] by (rule drain_frames)
    then have step: "readLoop_read x False c = process_frames (take k fs) (c\<lparr>cl_buf := p\<rparr>)"
      using False
      by (cases "process_frames (take k fs) (c\<lparr>cl_buf := p\<rparr>)") (simp_all add: readLoop_read_def)
    have whole: "process_frames fs (c\<lparr>cl_buf := []\<rparr>) =
        bind_outcome (process_frames (take k fs) (c\<lparr>cl_buf := []\<rparr>)) (process_frames (drop k fs))"
      by (simp flip: process_frames_append)
    show ?thesis
    proof (cases "process_frames (take k fs) c")
      case (Ok c1)
      then have "readLoop_chunks chunks (c1\<lparr>cl_buf := p\<rparr>) =
          process_frames (drop k fs) ((c1\<lparr>cl_buf := p\<rparr>)\<lparr>cl_buf := []\<rparr>)"
        by (intro Cons.IH [OF enc(2)]) (use k(3) part in \<open>auto split: if_splits\<close>)
      with Ok step whole show ?thesis
        by (simp add: process_frames_set_buf set_buf_def)
    qed (use step whole in \<open>simp_all add: process_frames_set_buf set_buf_def\<close>)
  qed
qed

section \<open>Properties\<close>

text \<open>
  \<^bold>\<open>C35\<close>. However the network cuts a stream of encoded frames into reads, the read loop
  processes exactly those frames, each once and in order, and ends with an empty buffer.
\<close>

theorem stream_reassembly:
  assumes "list_all2 encodes fs bss" and "concat chunks = concat bss" and "cl_buf c = []"
  shows "readLoop_chunks chunks c = process_frames fs c"
proof -
  have "[] \<notin> set bss"
    using assms(1) by (auto simp: list_all2_conv_all_nth in_set_conv_nth dest: encodes_nonempty)
  then have "readLoop_chunks chunks c = process_frames fs (c\<lparr>cl_buf := []\<rparr>)"
    using assms by (intro readLoop_chunks_frames) (auto intro!: exI [of _ 0] simp: neq_Nil_conv)
  with assms(3) show ?thesis by (metis lwp_client.surjective lwp_client.update_convs(6))
qed

text \<open>A response frame without arguments and its bytes, for the witnesses.\<close>

definition sample_resp :: "u32 \<Rightarrow> frame" where
  "sample_resp n = \<lparr>frame_args = [], frame_typ = frameRESP, frame_flags = 0, frame_reqID = n,
     frame_opcode = statusOK\<rparr>"

lemma sample_resp_encodes: "encodes (sample_resp 1) [0, 0, 0, 11, 1, 2, 0, 0, 0, 0, 0, 1, 0, 0, 0]"
proof -
  have "putUvarint 0 = [0]"
    by (simp add: putUvarint.simps)
  then have "frame_payload (sample_resp 1) = [1, 2, 0, 0, 0, 0, 0, 1, 0, 0, 0]"
    by (simp add: frame_payload_def sample_resp_def be16_def be32_def go_defs)
  then show ?thesis
    by (simp add: encodes_def encodeFrame_Ok_iff be32_def frame_wf_def sample_resp_def)
qed

text \<open>A client with one registered request, and the same after its response arrived.\<close>

definition sample_waiting :: "unit lwp_client" where
  "sample_waiting = new_client\<lparr>cl_nextID := 1, cl_pend := [(1, 0)],
     cl_chans := [\<lparr>chan_buf = None, chan_closed = False, chan_req = 1, chan_sends = 0\<rparr>]\<rparr>"

definition sample_answered :: "unit lwp_client" where
  "sample_answered = new_client\<lparr>cl_nextID := 1, cl_pend := [],
     cl_chans := [\<lparr>chan_buf = Some (sample_resp 1), chan_closed = False, chan_req = 1, chan_sends = 1\<rparr>]\<rparr>"

lemma sample_waiting_reachable: "lwp_reachable sample_waiting"
  by (rule lwp_reachable.step [OF lwp_reachable.start], rule lwp_step.register)
    (simp add: do_begin_def new_client_def sample_waiting_def)

lemma sample_answered_reachable: "lwp_reachable sample_answered"
proof (rule lwp_reachable.step [OF sample_waiting_reachable], rule lwp_step.read)
  let ?b = "[0, 0, 0, 11, 1, 2, 0, 0, 0, 0, 0, 1, 0, 0, 0] :: bytes"
  have "drain (sample_waiting\<lparr>cl_buf := concat [?b] @ []\<rparr>) =
      process_frames [sample_resp 1] (sample_waiting\<lparr>cl_buf := []\<rparr>)"
    by (rule drain_frames) (simp_all add: sample_resp_encodes decodeFrame_short)
  then show "readLoop_read ?b False sample_waiting = Ok sample_answered"
    by (simp add: readLoop_read_def sample_waiting_def sample_answered_def new_client_def
        process_frame_def chan_send_def sample_resp_def map_get_def go_defs)
qed (simp add: sample_waiting_def new_client_def)

theorem stream_reassembly_witness:
  "readLoop_chunks [[0, 0, 0, 11, 1, 2, 0], [0, 0, 0, 0, 1, 0, 0, 0]] (new_client :: unit lwp_client) =
     process_frames [sample_resp 1] new_client"
  by (rule stream_reassembly [where bss = "[[0, 0, 0, 11, 1, 2, 0, 0, 0, 0, 0, 1, 0, 0, 0]]"])
    (simp_all add: sample_resp_encodes new_client_def)

text \<open>
  . In every interleaving of callers, receivers and the read loop, handling a
  decoded frame neither blocks on a full channel nor panics on a closed one, and a connection
  failure closes the pending channels without closing any of them twice.
\<close>

lemma read_loop_never_stuck:
  assumes "lwp_reachable c"
  shows "(\<exists>c'. process_frame f c = Ok c') \<and> (cl_closed c \<or> (\<exists>c'. read_fail c = Ok c'))"
  using process_frame_inv [OF lwp_reachable_inv [OF assms]]
    read_fail_inv [OF lwp_reachable_inv [OF assms]] by blast

text \<open>
  \<^bold>\<open>C37\<close>. A caller that receives a frame from the channel it registered gets a RESP
  frame carrying its own request id, and a channel is sent at most one frame in its lifetime.
\<close>

theorem response_correlated:
  assumes "lwp_reachable c" and "i < length (cl_chans c)" and "chan_recv i c = Some (Some f, c')"
  shows "frame_reqID f = chan_req (cl_chans c ! i) \<and> frame_typ f = frameRESP \<and>
    chan_sends (cl_chans c ! i) \<le> 1"
proof -
  have "chan_ok (cl_chans c ! i)"
    using lwp_reachable_inv [OF assms(1)] assms(2) by (simp add: lwp_inv_def)
  with assms(3) show ?thesis
    by (auto simp: chan_recv_def chan_ok_def Let_def split: option.splits if_splits)
qed

theorem response_correlated_witness:
  "frame_reqID (sample_resp 1) = chan_req (cl_chans sample_answered ! 0) \<and>
   frame_typ (sample_resp 1) = frameRESP \<and> chan_sends (cl_chans sample_answered ! 0) \<le> 1"
  by (rule response_correlated [OF sample_answered_reachable])
    (simp_all add: sample_answered_def chan_recv_def new_client_def)

text \<open>
  \<^bold>\<open>C38\<close>. When the connection fails, every request still registered has its
  channel closed, so its caller returns the connection-closed error instead of waiting for the
  timeout; no registration is left behind.
\<close>

theorem disconnect_wakes_callers:
  assumes "lwp_reachable c" and "\<not> cl_closed c" and "(k, i) \<in> set (cl_pend c)"
  shows "\<exists>c' c''. read_fail c = Ok c' \<and> cl_pend c' = [] \<and> chan_recv i c' = Some (None, c'') \<and>
    do_response None = Fail ConnectionClosed"
proof -
  have inv: "lwp_inv c" by (rule lwp_reachable_inv [OF assms(1)])
  then obtain c' where c': "read_fail c = Ok c'" "cl_pend c' = []"
    "\<forall>(id', i) \<in> set (cl_pend c). chan_closed (cl_chans c' ! i)"
    using read_fail_inv [OF inv assms(2)] by auto
  then obtain chs where chs: "close_chans (cl_pend c) (cl_chans c) = Ok chs" "cl_chans c' = chs"
    using assms(2) by (auto simp: read_fail_def split: outcome.splits)
  have "chan_buf (chs ! i) = chan_buf (cl_chans c ! i)"
    using close_chans_buf [OF chs(1)] .
  moreover have "chan_buf (cl_chans c ! i) = None"
    using inv assms(3) by (auto simp: lwp_inv_def pend_ok_def)
  ultimately show ?thesis
    using c' chs(2) assms(3) by (auto simp: chan_recv_def do_response_def)
qed

theorem disconnect_wakes_callers_witness:
  "\<exists>c' c''. read_fail sample_waiting = Ok c' \<and> cl_pend c' = [] \<and>
     chan_recv 0 c' = Some (None, c'') \<and> do_response None = Fail ConnectionClosed"
  by (rule disconnect_wakes_callers [OF sample_waiting_reachable, of 1])
    (simp_all add: sample_waiting_def new_client_def)

text \<open>
  . An ERR response never becomes a success: it is an error whose code and message
  are the ones the server sent when the code fits 16 bits, a local error otherwise. An ERR
  response without arguments makes the caller index an empty slice.
\<close>

lemma error_response:
  assumes "frame_opcode f = statusERR"
  shows "do_response (Some f) =
    (case frame_args f of
       [] \<Rightarrow> Panic
     | a # as \<Rightarrow>
         if 0 \<le> sint (asNum a) \<and> sint (asNum a) < 2 ^ 16
         then Fail (LWPError (word_of_int (sint (asNum a))) (case as of b # _ \<Rightarrow> asStr b | [] \<Rightarrow> []))
         else Fail InvalidErrorCode)"
proof -
  have "word_of_int (sint (n :: i64)) = (ucast n :: u16)" for n
    by (rule bit_word_eqI) (auto simp: bit_simps)
  then show ?thesis
    using assms by (auto simp: do_response_def Let_def word_sless_alt split: list.split)
qed

end
