(* ===== verification/Lwp_Ops.thy ===== *)
theory Lwp_Ops
  imports Lwp_Client "HOL-Library.Multiset"
begin

text \<open>
  The operations of \<^verbatim>\<open>src/lotor/client.go\<close> on top of \<open>do\<close>: authentication, access checks,
  policy, configuration, meters, seats, invitations and members, allowances, wallets and
  watches. \<open>exch\<close> is the connection's \<open>c.do\<close>: it sends the opcode and arguments and gives the
  response arguments, the error, or a panic. Each operation is the request it builds and the
  way it reads the response; a short response leaves fields at their zero value.
\<close>

type_synonym lwp_do = "u16 \<Rightarrow> lwp_value list \<Rightarrow> (lwp_err, lwp_value list) outcome"

section \<open>Authentication\<close>

definition Auth :: "lwp_do \<Rightarrow> string \<Rightarrow> (lwp_err, unit) outcome" where
  "Auth exch apiKey = bind_outcome (exch opAUTH [VStr apiKey]) (\<lambda>_. Ok ())"

definition hello :: "lwp_do \<Rightarrow> (lwp_err, unit) outcome" where
  "hello exch =
     bind_outcome (exch opHELLO [VU64 protoVersion, VU64 0, VStr ''lotor-go'']) (\<lambda>_. Ok ())"

record Verified =
  vf_Subject :: string
  vf_Org :: string
  vf_Reason :: string
  vf_Valid :: bool

definition AuthVerify :: "lwp_do \<Rightarrow> i64 \<Rightarrow> string \<Rightarrow> (lwp_err, Verified) outcome" where
  "AuthVerify exch credType credential =
     (if credType <s 0 then Fail (OpError ''credential type must be non-negative'')
      else bind_outcome (exch opAUTHVERIFY [VU64 credType, VStr credential]) (\<lambda>a.
        let v = \<lparr>vf_Subject = [], vf_Org = [], vf_Reason = [], vf_Valid = False\<rparr> in
        Ok (if length a \<ge> 6 then
              v\<lparr>vf_Valid := asBool (a ! 0), vf_Subject := asStr (a ! 1),
                vf_Org := asStr (a ! 2), vf_Reason := asStr (a ! 5)\<rparr>
            else v)))"

section \<open>Composition pins\<close>

record CompositionPin =
  pin_Operation :: string
  pin_ResultHash :: string
  pin_PoolRef :: string
  pin_CompositionSubject :: string
  pin_Version :: u64

definition accessPin :: "CompositionPin \<Rightarrow> lwp_value" where
  "accessPin pin =
     (let m = map_of_entries
            [(''operation'', VStr (pin_Operation pin)),
             (''composition_hash'', VStr (pin_ResultHash pin)),
             (''composition_version'', VU64 (pin_Version pin))]
      in VMap (if pin_CompositionSubject pin \<noteq> []
               then map_put ''composition_subject'' (VAddr (pin_CompositionSubject pin)) m else m))"

definition capacityPin :: "CompositionPin \<Rightarrow> lwp_value" where
  "capacityPin pin =
     (let m = map_of_entries
            [(''operation'', VStr (pin_Operation pin)),
             (''composition_hash'', VStr (pin_ResultHash pin)),
             (''composition_version'', VU64 (pin_Version pin))]
      in VMap (if pin_PoolRef pin \<noteq> []
               then map_put ''pool_ref'' (VStr (pin_PoolRef pin)) m else m))"

section \<open>Policy and access\<close>

record PolicyInput =
  pi_Pin :: CompositionPin
  pi_ScopeRef :: string
  pi_DestinationRef :: string
  pi_RegionRef :: string
  pi_ExecutionPolicyRef :: string
  pi_EvidenceRefs :: "string list"
  pi_RetentionDays :: u64
  pi_Reveal :: bool
  pi_Export :: bool

record PolicyDecision =
  pd_State :: string
  pd_Reasons :: "string list"
  pd_Evidence :: string
  pd_SourcePins :: "string list"
  pd_CompositionVersion :: u64

definition policyContext :: "string \<Rightarrow> PolicyInput \<Rightarrow> lwp_value" where
  "policyContext subject input =
     (let evidence = sort (pi_EvidenceRefs input);
          compositionSubject =
            (if pin_CompositionSubject (pi_Pin input) = [] then subject
             else pin_CompositionSubject (pi_Pin input))
      in VMap (map_of_entries
           [(''composition_hash'', VStr (pin_ResultHash (pi_Pin input))),
            (''composition_version'', VU64 (pin_Version (pi_Pin input))),
            (''composition_subject'', VAddr compositionSubject),
            (''scope_ref'', VStr (pi_ScopeRef input)),
            (''destination_ref'', VStr (pi_DestinationRef input)),
            (''region_ref'', VStr (pi_RegionRef input)),
            (''execution_policy_ref'', VStr (pi_ExecutionPolicyRef input)),
            (''evidence_refs'', VList (map VStr evidence)),
            (''retention_days'', VU64 (pi_RetentionDays input)),
            (''reveal'', VBool (pi_Reveal input)),
            (''export'', VBool (pi_Export input))]))"

definition PolicyCheck :: "lwp_do \<Rightarrow> string \<Rightarrow> PolicyInput \<Rightarrow> (lwp_err, PolicyDecision) outcome" where
  "PolicyCheck exch subject input =
     bind_outcome (exch opPOLICYCHECK
        [VAddr subject, VStr (pin_Operation (pi_Pin input)), policyContext subject input]) (\<lambda>args.
       let r = \<lparr>pd_State = [], pd_Reasons = [], pd_Evidence = [], pd_SourcePins = [],
                pd_CompositionVersion = 0\<rparr> in
       Ok (if length args \<ge> 5 then
             r\<lparr>pd_State := asStr (args ! 0), pd_Reasons := map asStr (val_List (args ! 1)),
               pd_Evidence := asStr (args ! 2), pd_CompositionVersion := val_U64 (args ! 3),
               pd_SourcePins := map asStr (val_List (args ! 4))\<rparr>
           else r))"

record Decision =
  dc_Reason :: string
  dc_Evidence :: string
  dc_CompositionVersion :: u64
  dc_Allow :: bool

definition zero_Decision :: Decision where
  "zero_Decision = \<lparr>dc_Reason = [], dc_Evidence = [], dc_CompositionVersion = 0, dc_Allow = False\<rparr>"

definition AccessCheck :: "lwp_do \<Rightarrow> string \<Rightarrow> string \<Rightarrow> string \<Rightarrow> (lwp_err, Decision) outcome" where
  "AccessCheck exch subject relation object =
     bind_outcome (exch opACCESSCHECK [VAddr subject, VStr relation, VAddr object]) (\<lambda>a.
       Ok (if length a \<ge> 2 then
             zero_Decision\<lparr>dc_Allow := (asNum (a ! 0) = 1), dc_Reason := asStr (a ! 1)\<rparr>
           else zero_Decision))"

definition committed :: "string \<Rightarrow> lwp_value list \<Rightarrow> (lwp_err, unit) outcome" where
  "committed message values =
     (if values = [] \<or> \<not> asBool (values ! 0) then Fail (OpError message) else Ok ())"

definition AccessGrant ::
  "lwp_do \<Rightarrow> string \<Rightarrow> string \<Rightarrow> string \<Rightarrow> u64 \<Rightarrow> (lwp_err, unit) outcome" where
  "AccessGrant exch subject relation object expiresAt =
     bind_outcome (exch opACCESSGRANT [VAddr subject, VStr relation, VAddr object, VU64 expiresAt])
       (committed ''access grant was not committed'')"

definition AccessRevoke :: "lwp_do \<Rightarrow> string \<Rightarrow> string \<Rightarrow> string \<Rightarrow> (lwp_err, unit) outcome" where
  "AccessRevoke exch subject relation object =
     bind_outcome (exch opACCESSREVOKE [VAddr subject, VStr relation, VAddr object])
       (committed ''access revoke was not committed'')"

definition AccessExpand :: "lwp_do \<Rightarrow> string \<Rightarrow> string \<Rightarrow> u64 \<Rightarrow> (lwp_err, string list) outcome" where
  "AccessExpand exch object relation limit =
     bind_outcome (exch opACCESSEXPAND [VAddr object, VStr relation, VU64 limit]) (\<lambda>values.
       if values = [] \<or> val_Kind (values ! 0) \<noteq> tagList then Ok []
       else Ok (sort (filter (\<lambda>item. item \<noteq> []) (map asStr (val_List (values ! 0))))))"

definition AccessCheckPinned ::
  "lwp_do \<Rightarrow> string \<Rightarrow> string \<Rightarrow> string \<Rightarrow> CompositionPin \<Rightarrow> (lwp_err, Decision) outcome" where
  "AccessCheckPinned exch subject relation object pin =
     bind_outcome (exch opACCESSCHECK [VAddr subject, VStr relation, VAddr object, accessPin pin]) (\<lambda>a.
       let r = zero_Decision;
           r = (if length a \<ge> 2 then r\<lparr>dc_Allow := (asNum (a ! 0) = 1), dc_Reason := asStr (a ! 1)\<rparr>
                else r);
           r = (if length a \<ge> 5 then
                  r\<lparr>dc_Evidence := asStr (a ! 3), dc_CompositionVersion := val_U64 (a ! 4)\<rparr>
                else r)
       in Ok r)"

section \<open>Configuration\<close>

record ConfBlob =
  cb_Board :: string
  cb_Etag :: string
  cb_ContentType :: string
  cb_Payload :: bytes
  cb_Version :: u64
  cb_Changed :: bool

definition ConfGet :: "lwp_do \<Rightarrow> string \<Rightarrow> u64 \<Rightarrow> (lwp_err, ConfBlob) outcome" where
  "ConfGet exch board knownVersion =
     bind_outcome (exch opCONFGET
        ([VStr board] @ (if knownVersion > 0 then [VU64 knownVersion] else []))) (\<lambda>values.
       let r = \<lparr>cb_Board = board, cb_Etag = [], cb_ContentType = [], cb_Payload = [],
                cb_Version = 0, cb_Changed = False\<rparr> in
       Ok (if length values \<ge> 6 then
             r\<lparr>cb_Changed := asBool (values ! 0), cb_Board := asStr (values ! 1),
               cb_Version := val_U64 (values ! 2), cb_Etag := asStr (values ! 3),
               cb_ContentType := asStr (values ! 4),
               cb_Payload := (if val_Kind (values ! 5) = tagBytes then val_Bytes (values ! 5) else [])\<rparr>
           else r))"

section \<open>Meters\<close>

record ConsumeResult =
  cr_Reason :: string
  cr_Evidence :: string
  cr_Remaining :: i64
  cr_Used :: i64
  cr_BlocksPurchased :: i64
  cr_WalletBalance :: i64
  cr_GrantDrawn :: i64
  cr_GrantRemaining :: i64
  cr_Max :: i64
  cr_CompositionVersion :: u64
  cr_Accepted :: bool

definition zero_ConsumeResult :: ConsumeResult where
  "zero_ConsumeResult = \<lparr>cr_Reason = [], cr_Evidence = [], cr_Remaining = 0, cr_Used = 0,
     cr_BlocksPurchased = 0, cr_WalletBalance = 0, cr_GrantDrawn = 0, cr_GrantRemaining = 0,
     cr_Max = 0, cr_CompositionVersion = 0, cr_Accepted = False\<rparr>"

definition MeterConsume ::
  "lwp_do \<Rightarrow> string \<Rightarrow> string \<Rightarrow> u64 \<Rightarrow> string \<Rightarrow> (lwp_err, ConsumeResult) outcome" where
  "MeterConsume exch scope meter n idempotencyKey =
     bind_outcome (exch opMETERCONSUME
        ([VAddr scope, VStr meter, VU64 n] @
         (if idempotencyKey \<noteq> [] then [VNull, VStr idempotencyKey] else []))) (\<lambda>a.
       let r = zero_ConsumeResult;
           r = (if length a \<ge> 4 then
                  r\<lparr>cr_Accepted := (asNum (a ! 0) = 1), cr_Reason := asStr (a ! 1),
                    cr_Remaining := asNum (a ! 2), cr_Used := asNum (a ! 3),
                    cr_Max := (if length a \<ge> 5 then asNum (a ! 4) else cr_Max r)\<rparr>
                else r);
           r = (if length a \<ge> 8 then
                  r\<lparr>cr_BlocksPurchased := asNum (a ! 6), cr_WalletBalance := asNum (a ! 7)\<rparr> else r);
           r = (if length a \<ge> 10 then
                  r\<lparr>cr_GrantDrawn := asNum (a ! 8), cr_GrantRemaining := asNum (a ! 9)\<rparr> else r);
           r = (if length a \<ge> 8 \<and> val_Kind (a ! 6) = tagStr then
                  r\<lparr>cr_Evidence := asStr (a ! 6), cr_CompositionVersion := val_U64 (a ! 7)\<rparr> else r)
       in Ok r)"

definition MeterConsumePinned ::
  "lwp_do \<Rightarrow> string \<Rightarrow> string \<Rightarrow> u64 \<Rightarrow> string \<Rightarrow> CompositionPin \<Rightarrow>
   (lwp_err, ConsumeResult) outcome" where
  "MeterConsumePinned exch scope meter n idempotencyKey pin =
     bind_outcome (exch opMETERCONSUME
        [VAddr scope, VStr meter, VU64 n, VNull, VStr idempotencyKey, capacityPin pin]) (\<lambda>a.
       let r = zero_ConsumeResult;
           r = (if length a \<ge> 6 then
                  r\<lparr>cr_Accepted := (asNum (a ! 0) = 1), cr_Reason := asStr (a ! 1),
                    cr_Remaining := asNum (a ! 2), cr_Used := asNum (a ! 3),
                    cr_Max := asNum (a ! 4)\<rparr>
                else r);
           r = (if length a \<ge> 8 then
                  r\<lparr>cr_Evidence := asStr (a ! 6), cr_CompositionVersion := val_U64 (a ! 7)\<rparr> else r)
       in Ok r)"

definition MeterReleasePinned ::
  "lwp_do \<Rightarrow> string \<Rightarrow> string \<Rightarrow> u64 \<Rightarrow> string \<Rightarrow> CompositionPin \<Rightarrow> (lwp_err, unit) outcome" where
  "MeterReleasePinned exch scope meter n idempotencyKey pin =
     bind_outcome (exch opMETERRELEASE
        [VAddr scope, VStr meter, VU64 n, VStr idempotencyKey, capacityPin pin]) (\<lambda>values.
       if values = [] \<or> \<not> asBool (values ! 0) then
         (let reason = (if length values \<ge> 6 \<and> asStr (values ! 5) \<noteq> [] then asStr (values ! 5)
                        else ''capacity_release_denied'')
          in Fail (OpError (''meter release denied: '' @ reason)))
       else Ok ())"

definition MeterUsed :: "lwp_do \<Rightarrow> string \<Rightarrow> string \<Rightarrow> (lwp_err, i64) outcome" where
  "MeterUsed exch scope meter =
     bind_outcome (exch opMETERGET [VAddr scope, VStr meter]) (\<lambda>a.
       Ok (if length a \<ge> 1 then asNum (a ! 0) else 0))"

record MeterState =
  ms_Evidence :: string
  ms_Interval :: string
  ms_Reason :: string
  ms_Used :: i64
  ms_Max :: i64
  ms_Remaining :: i64
  ms_CompositionVersion :: u64

definition MeterGetPinned ::
  "lwp_do \<Rightarrow> string \<Rightarrow> string \<Rightarrow> CompositionPin \<Rightarrow> (lwp_err, MeterState) outcome" where
  "MeterGetPinned exch scope meter pin =
     bind_outcome (exch opMETERGET [VAddr scope, VStr meter, capacityPin pin]) (\<lambda>values.
       let r = \<lparr>ms_Evidence = [], ms_Interval = [], ms_Reason = [], ms_Used = 0, ms_Max = 0,
                ms_Remaining = 0, ms_CompositionVersion = 0\<rparr>;
           r = (if length values \<ge> 4 then
                  r\<lparr>ms_Used := asNum (values ! 0), ms_Max := asNum (values ! 1),
                    ms_Remaining := asNum (values ! 2), ms_Interval := asStr (values ! 3)\<rparr> else r);
           r = (if length values \<ge> 10 then
                  r\<lparr>ms_Evidence := asStr (values ! 8), ms_CompositionVersion := val_U64 (values ! 9)\<rparr>
                else r);
           r = (if length values \<ge> 11 then r\<lparr>ms_Reason := asStr (values ! 10)\<rparr> else r)
       in Ok r)"

section \<open>Seats\<close>

record SeatResult =
  sr_Reason :: string
  sr_SeatID :: string
  sr_Evidence :: string
  sr_Used :: i64
  sr_Max :: i64
  sr_CompositionVersion :: u64
  sr_Outcome :: i64

definition zero_SeatResult :: SeatResult where
  "zero_SeatResult = \<lparr>sr_Reason = [], sr_SeatID = [], sr_Evidence = [], sr_Used = 0, sr_Max = 0,
     sr_CompositionVersion = 0, sr_Outcome = 0\<rparr>"

definition decodeSeatResult :: "lwp_value list \<Rightarrow> SeatResult" where
  "decodeSeatResult values =
     (let r = zero_SeatResult;
          r = (if length values \<ge> 6 then
                 r\<lparr>sr_Outcome := asNum (values ! 0), sr_Reason := asStr (values ! 1),
                   sr_Used := asNum (values ! 2), sr_Max := asNum (values ! 3),
                   sr_SeatID := asStr (values ! 4)\<rparr> else r);
          r = (if length values \<ge> 8 then
                 r\<lparr>sr_Evidence := asStr (values ! 6), sr_CompositionVersion := val_U64 (values ! 7)\<rparr>
               else r)
      in r)"

definition SeatClaimPinned ::
  "lwp_do \<Rightarrow> string \<Rightarrow> string \<Rightarrow> string \<Rightarrow> string \<Rightarrow> CompositionPin \<Rightarrow>
   (lwp_err, SeatResult) outcome" where
  "SeatClaimPinned exch scope seatType user idempotencyKey pin =
     bind_outcome (exch opSEATCLAIM
        [VAddr scope, VStr seatType, VAddr user, VStr idempotencyKey, capacityPin pin])
       (\<lambda>values. Ok (decodeSeatResult values))"

definition SeatReleasePinned ::
  "lwp_do \<Rightarrow> string \<Rightarrow> string \<Rightarrow> string \<Rightarrow> CompositionPin \<Rightarrow> (lwp_err, SeatResult) outcome" where
  "SeatReleasePinned exch scope seatType user pin =
     bind_outcome (exch opSEATRELEASE [VAddr scope, VStr seatType, VAddr user, capacityPin pin]) (\<lambda>values.
       let r = zero_SeatResult;
           r = (if length values \<ge> 3 then
                  r\<lparr>sr_Outcome := (if asBool (values ! 0) then 1 else sr_Outcome r),
                    sr_Used := asNum (values ! 1)\<rparr> else r);
           r = (if length values \<ge> 5 then
                  r\<lparr>sr_Evidence := asStr (values ! 3), sr_CompositionVersion := val_U64 (values ! 4)\<rparr>
                else r);
           r = (if length values \<ge> 6 then r\<lparr>sr_Reason := asStr (values ! 5)\<rparr> else r)
       in Ok r)"

section \<open>Invitations and members\<close>

record LifecycleResult =
  lr_Reason :: string
  lr_InvitationID :: string
  lr_SeatID :: string
  lr_Evidence :: string
  lr_Active :: i64
  lr_Reserved :: i64
  lr_Used :: i64
  lr_Maximum :: i64
  lr_Remaining :: i64
  lr_LogSeq :: u64
  lr_CompositionVersion :: u64
  lr_Accepted :: bool

definition zero_LifecycleResult :: LifecycleResult where
  "zero_LifecycleResult = \<lparr>lr_Reason = [], lr_InvitationID = [], lr_SeatID = [], lr_Evidence = [],
     lr_Active = 0, lr_Reserved = 0, lr_Used = 0, lr_Maximum = 0, lr_Remaining = 0, lr_LogSeq = 0,
     lr_CompositionVersion = 0, lr_Accepted = False\<rparr>"

definition decodeLifecycleResult :: "lwp_value list \<Rightarrow> LifecycleResult" where
  "decodeLifecycleResult values =
     (if length values < 12 then zero_LifecycleResult
      else \<lparr>lr_Reason = asStr (values ! 1), lr_InvitationID = asStr (values ! 2),
            lr_SeatID = asStr (values ! 3), lr_Evidence = asStr (values ! 10),
            lr_Active = asNum (values ! 4), lr_Reserved = asNum (values ! 5),
            lr_Used = asNum (values ! 6), lr_Maximum = asNum (values ! 7),
            lr_Remaining = asNum (values ! 8), lr_LogSeq = val_U64 (values ! 9),
            lr_CompositionVersion = val_U64 (values ! 11), lr_Accepted = asBool (values ! 0)\<rparr>)"

definition lifecycle ::
  "(lwp_err, lwp_value list) outcome \<Rightarrow> (lwp_err, LifecycleResult) outcome" where
  "lifecycle r = bind_outcome r (\<lambda>values. Ok (decodeLifecycleResult values))"

record OrganizationInvitation =
  oi_ID :: string
  oi_Invitee :: string
  oi_Role :: string
  oi_SeatID :: string
  oi_ExpiresAt :: u64
  oi_SeatReserved :: bool

record InvitationResourceGrant =
  ig_Resource :: string
  ig_Relation :: string
  ig_KeyResource :: string
  ig_KeyVersion :: u64

definition EncryptedInvitationCreatePinned ::
  "lwp_do \<Rightarrow> string \<Rightarrow> string \<Rightarrow> string \<Rightarrow> string \<Rightarrow> string \<Rightarrow> string \<Rightarrow> u64 \<Rightarrow> string \<Rightarrow>
   CompositionPin \<Rightarrow> InvitationResourceGrant list \<Rightarrow> (lwp_err, LifecycleResult) outcome" where
  "EncryptedInvitationCreatePinned exch scope actor invitationID invitee role ticket expiresAt
       idempotencyKey pin grants =
     (let values = map (\<lambda>grant. VMap (map_of_entries
            [(''resource'', VAddr (ig_Resource grant)), (''relation'', VStr (ig_Relation grant)),
             (''key_resource'', VAddr (ig_KeyResource grant)),
             (''key_version'', VU64 (ig_KeyVersion grant))])) grants
      in lifecycle (exch opENCRYPTEDINVITECREATE
           [VAddr scope, VAddr actor, VStr invitationID, VAddr invitee, VStr role, VStr ticket,
            VU64 expiresAt, VStr idempotencyKey, capacityPin pin, VList values]))"

definition InvitationCreatePinned ::
  "lwp_do \<Rightarrow> string \<Rightarrow> string \<Rightarrow> string \<Rightarrow> string \<Rightarrow> string \<Rightarrow> string \<Rightarrow> u64 \<Rightarrow> string \<Rightarrow>
   CompositionPin \<Rightarrow> (lwp_err, LifecycleResult) outcome" where
  "InvitationCreatePinned exch scope actor invitationID invitee role ticket expiresAt
       idempotencyKey pin =
     lifecycle (exch opINVITECREATE
       [VAddr scope, VAddr actor, VStr invitationID, VAddr invitee, VStr role, VStr ticket,
        VU64 expiresAt, VStr idempotencyKey, capacityPin pin])"

definition InvitationAccept ::
  "lwp_do \<Rightarrow> string \<Rightarrow> string \<Rightarrow> string \<Rightarrow> string \<Rightarrow> (lwp_err, LifecycleResult) outcome" where
  "InvitationAccept exch ticket authenticatedInvitee memberSubject idempotencyKey =
     lifecycle (exch opINVITEACCEPT
       [VStr ticket, VAddr authenticatedInvitee, VAddr memberSubject, VStr idempotencyKey])"

definition EncryptedInvitationAccept ::
  "lwp_do \<Rightarrow> string \<Rightarrow> string \<Rightarrow> string \<Rightarrow> string \<Rightarrow> string \<Rightarrow> (lwp_err, LifecycleResult) outcome" where
  "EncryptedInvitationAccept exch ticket authenticatedInvitee memberSubject recipientKeyID
       idempotencyKey =
     lifecycle (exch opENCRYPTEDINVITEACCEPT
       [VStr ticket, VAddr authenticatedInvitee, VAddr memberSubject, VStr recipientKeyID,
        VStr idempotencyKey])"

definition InvitationCancel ::
  "lwp_do \<Rightarrow> string \<Rightarrow> string \<Rightarrow> string \<Rightarrow> string \<Rightarrow> (lwp_err, LifecycleResult) outcome" where
  "InvitationCancel exch scope actor invitationID idempotencyKey =
     lifecycle (exch opINVITECANCEL
       [VAddr scope, VAddr actor, VStr invitationID, VStr idempotencyKey])"

definition InvitationList :: "lwp_do \<Rightarrow> string \<Rightarrow> (lwp_err, OrganizationInvitation list) outcome" where
  "InvitationList exch scope =
     bind_outcome (exch opINVITELIST [VAddr scope]) (\<lambda>values.
       if values = [] \<or> val_Kind (values ! 0) \<noteq> tagList then Ok []
       else Ok (map (\<lambda>v. let m = val_Map v in
              \<lparr>oi_ID = asStr (val_index m ''invitation_id''),
               oi_Invitee = asStr (val_index m ''invitee''),
               oi_Role = asStr (val_index m ''role''),
               oi_SeatID = asStr (val_index m ''seat_id''),
               oi_ExpiresAt = val_U64 (val_index m ''expires_at''),
               oi_SeatReserved = asBool (val_index m ''seat_reserved'')\<rparr>)
            (filter (\<lambda>v. val_Kind v = tagMap) (val_List (values ! 0)))))"

definition MemberRemove ::
  "lwp_do \<Rightarrow> string \<Rightarrow> string \<Rightarrow> string \<Rightarrow> string \<Rightarrow> (lwp_err, LifecycleResult) outcome" where
  "MemberRemove exch scope actor memberSubject idempotencyKey =
     lifecycle (exch opMEMBERREMOVE
       [VAddr scope, VAddr actor, VAddr memberSubject, VStr idempotencyKey])"

definition MemberRoleSetPinned ::
  "lwp_do \<Rightarrow> string \<Rightarrow> string \<Rightarrow> string \<Rightarrow> string \<Rightarrow> string \<Rightarrow> CompositionPin \<Rightarrow>
   (lwp_err, LifecycleResult) outcome" where
  "MemberRoleSetPinned exch scope actor memberSubject role idempotencyKey pin =
     lifecycle (exch opMEMBERROLESET
       [VAddr scope, VAddr actor, VAddr memberSubject, VStr role, VStr idempotencyKey,
        capacityPin pin])"

section \<open>Allowances and wallets\<close>

record AllowanceResult =
  ar_Reason :: string
  ar_UnitsTotal :: i64
  ar_WalletBalance :: i64
  ar_Accepted :: bool

definition AllowanceGrant ::
  "lwp_do \<Rightarrow> string \<Rightarrow> string \<Rightarrow> u64 \<Rightarrow> u64 \<Rightarrow> string \<Rightarrow> u64 \<Rightarrow> string \<Rightarrow>
   (lwp_err, AllowanceResult) outcome" where
  "AllowanceGrant exch scope meter units expiresAt wallet cost idempotencyKey =
     bind_outcome (exch opALLOWANCEGRANT
        ([VAddr scope, VStr meter, VU64 units, VU64 expiresAt, VStr wallet, VU64 cost] @
         (if idempotencyKey \<noteq> [] then [VStr idempotencyKey] else []))) (\<lambda>a.
       Ok (if length a \<ge> 4 then
             \<lparr>ar_Reason = asStr (a ! 1), ar_UnitsTotal = asNum (a ! 2),
              ar_WalletBalance = asNum (a ! 3), ar_Accepted = (asNum (a ! 0) = 1)\<rparr>
           else \<lparr>ar_Reason = [], ar_UnitsTotal = 0, ar_WalletBalance = 0, ar_Accepted = False\<rparr>))"

definition AllowanceBalance :: "lwp_do \<Rightarrow> string \<Rightarrow> string \<Rightarrow> (lwp_err, i64 \<times> i64) outcome" where
  "AllowanceBalance exch scope meter =
     bind_outcome (exch opALLOWANCEGET [VAddr scope, VStr meter]) (\<lambda>a.
       Ok (if length a \<ge> 2 then (asNum (a ! 0), asNum (a ! 1)) else (0, 0)))"

record WalletResult =
  wr_Reason :: string
  wr_Balance :: i64
  wr_Accepted :: bool

definition walletOp ::
  "lwp_do \<Rightarrow> u16 \<Rightarrow> string \<Rightarrow> string \<Rightarrow> u64 \<Rightarrow> string \<Rightarrow> (lwp_err, WalletResult) outcome" where
  "walletOp exch opcode scope wallet amount idem =
     bind_outcome (exch opcode
        ([VAddr scope, VStr wallet, VU64 amount] @ (if idem \<noteq> [] then [VStr idem] else []))) (\<lambda>a.
       Ok (if length a \<ge> 3 then
             \<lparr>wr_Reason = asStr (a ! 1), wr_Balance = asNum (a ! 2),
              wr_Accepted = (asNum (a ! 0) = 1)\<rparr>
           else \<lparr>wr_Reason = [], wr_Balance = 0, wr_Accepted = False\<rparr>))"

definition WalletCredit ::
  "lwp_do \<Rightarrow> string \<Rightarrow> string \<Rightarrow> u64 \<Rightarrow> string \<Rightarrow> (lwp_err, WalletResult) outcome" where
  "WalletCredit exch scope wallet amount idempotencyKey =
     walletOp exch opWALLETCREDIT scope wallet amount idempotencyKey"

definition WalletDebit ::
  "lwp_do \<Rightarrow> string \<Rightarrow> string \<Rightarrow> u64 \<Rightarrow> string \<Rightarrow> (lwp_err, WalletResult) outcome" where
  "WalletDebit exch scope wallet amount idempotencyKey =
     walletOp exch opWALLETDEBIT scope wallet amount idempotencyKey"

definition WalletBalance :: "lwp_do \<Rightarrow> string \<Rightarrow> string \<Rightarrow> (lwp_err, i64) outcome" where
  "WalletBalance exch scope wallet =
     bind_outcome (exch opWALLETGET [VAddr scope, VStr wallet]) (\<lambda>a.
       Ok (if length a \<ge> 1 then asNum (a ! 0) else 0))"

section \<open>Watches\<close>

text \<open>\<open>Watch\<close> installs the handler after the response arrived; \<open>Unwatch\<close> removes it before asking.\<close>

definition Watch ::
  "lwp_do \<Rightarrow> string list \<Rightarrow> 'h option \<Rightarrow> 'h lwp_client \<Rightarrow>
   (lwp_err, string) outcome \<times> 'h lwp_client" where
  "Watch exch selectors handler c =
     (case exch opWATCH [VList (map VStr selectors)] of
        Ok a \<Rightarrow> let id' = (if length a \<ge> 1 then asStr (a ! 0) else [])
                in (Ok id', watch_commit id' handler c)
      | Fail e \<Rightarrow> (Fail e, c)
      | Panic \<Rightarrow> (Panic, c))"

definition Unwatch ::
  "lwp_do \<Rightarrow> string \<Rightarrow> 'h lwp_client \<Rightarrow> (lwp_err, unit) outcome \<times> 'h lwp_client" where
  "Unwatch exch id' c =
     (bind_outcome (exch opUNWATCH [VStr id']) (\<lambda>_. Ok ()), unwatch_commit id' c)"

record WalletLowEvent =
  wl_Scope :: string
  wl_Wallet :: string
  wl_Balance :: i64
  wl_Threshold :: i64

text \<open>\<open>strings.LastIndex(target, "/")\<close> splits the target at its last slash.\<close>

definition walletTarget :: "string \<Rightarrow> string \<times> string" where
  "walletTarget target =
     (if CHR ''/'' \<in> set target then
        (let wallet = rev (takeWhile (\<lambda>c. c \<noteq> CHR ''/'') (rev target))
         in (take (length target - length wallet - 1) target, wallet))
      else (target, []))"

definition detail_num :: "(string \<times> i64) list \<Rightarrow> string \<Rightarrow> i64" where
  "detail_num m k = (case map_get m k of Some n \<Rightarrow> n | None \<Rightarrow> 0)"

definition walletLowEvent :: "lwp_event \<Rightarrow> WalletLowEvent option" where
  "walletLowEvent ev =
     (if ev_Type ev \<noteq> ''wallet_low'' then None
      else let (scope, wallet) = walletTarget (ev_Target ev)
           in Some \<lparr>wl_Scope = scope, wl_Wallet = wallet,
                    wl_Balance = detail_num (ev_Detail ev) ''balance'',
                    wl_Threshold = detail_num (ev_Detail ev) ''threshold''\<rparr>)"

text \<open>
  The closure \<open>OnWalletLow\<close> subscribes: it calls the application's handler (whose effect is a
  value of type \<open>'u\<close>) on decoded wallet_low events and ignores every other event.
\<close>

definition OnWalletLow ::
  "lwp_do \<Rightarrow> (WalletLowEvent \<Rightarrow> 'u) \<Rightarrow> (lwp_event \<Rightarrow> 'u option) lwp_client \<Rightarrow>
   (lwp_err, string) outcome \<times> (lwp_event \<Rightarrow> 'u option) lwp_client" where
  "OnWalletLow exch handler c =
     Watch exch [''wallet_low''] (Some (\<lambda>ev. map_option handler (walletLowEvent ev))) c"

section \<open>Properties\<close>

lemma val_index_map_put [simp]:
  "val_index (map_put k v m) k' = (if k' = k then v else val_index m k')"
  by (simp add: val_index_def)

lemma pin_fields:
  "val_index (val_Map (accessPin p)) ''operation'' = VStr (pin_Operation p)"
  "val_index (val_Map (accessPin p)) ''composition_hash'' = VStr (pin_ResultHash p)"
  "val_index (val_Map (accessPin p)) ''composition_version'' = VU64 (pin_Version p)"
  "val_index (val_Map (accessPin p)) ''composition_subject'' =
     (if pin_CompositionSubject p = [] then VNull else VAddr (pin_CompositionSubject p))"
  "val_index (val_Map (capacityPin p)) ''operation'' = VStr (pin_Operation p)"
  "val_index (val_Map (capacityPin p)) ''composition_hash'' = VStr (pin_ResultHash p)"
  "val_index (val_Map (capacityPin p)) ''composition_version'' = VU64 (pin_Version p)"
  "val_index (val_Map (capacityPin p)) ''pool_ref'' =
     (if pin_PoolRef p = [] then VNull else VStr (pin_PoolRef p))"
  by (simp_all add: accessPin_def capacityPin_def Let_def val_Map_def map_of_entries_def
      val_index_def map_get_def)

text \<open>
  An access check grants only what the server granted: \<open>Allow\<close> is true only
  when the exchange succeeded with at least two results of which the first is the number 1.
  Errors, short responses and results of another kind all deny. The same holds for the pinned
  check, whose request carries the exact pin.
\<close>

lemma access_fail_closed:
  assumes "AccessCheck exch subject relation object = Ok d \<or>
      AccessCheckPinned exch subject relation object pin = Ok d" and "dc_Allow d"
  shows "\<exists>a. (exch opACCESSCHECK [VAddr subject, VStr relation, VAddr object] = Ok a \<or>
        exch opACCESSCHECK [VAddr subject, VStr relation, VAddr object, accessPin pin] = Ok a) \<and>
      length a \<ge> 2 \<and> asNum (a ! 0) = 1 \<and> dc_Reason d = asStr (a ! 1)"
  using assms
  by (auto simp: AccessCheck_def AccessCheckPinned_def zero_Decision_def Let_def outcome_simps
      split: if_splits)

text \<open>
  Pins are exact on the wire: two pins with the same access encoding name the same
  operation, result hash, version and composition subject, and two pins with the same capacity
  encoding the same operation, result hash, version and pool.
\<close>

lemma pins_exact:
  "(accessPin p = accessPin q \<longleftrightarrow>
      pin_Operation p = pin_Operation q \<and> pin_ResultHash p = pin_ResultHash q \<and>
      pin_Version p = pin_Version q \<and> pin_CompositionSubject p = pin_CompositionSubject q) \<and>
   (capacityPin p = capacityPin q \<longleftrightarrow>
      pin_Operation p = pin_Operation q \<and> pin_ResultHash p = pin_ResultHash q \<and>
      pin_Version p = pin_Version q \<and> pin_PoolRef p = pin_PoolRef q)"
proof (intro conjI iffI)
  assume "accessPin p = accessPin q"
  then show "pin_Operation p = pin_Operation q" "pin_ResultHash p = pin_ResultHash q"
    "pin_Version p = pin_Version q" "pin_CompositionSubject p = pin_CompositionSubject q"
    using pin_fields(1-4) [of p] pin_fields(1-4) [of q] by (auto split: if_splits)
next
  assume "capacityPin p = capacityPin q"
  then show "pin_Operation p = pin_Operation q" "pin_ResultHash p = pin_ResultHash q"
    "pin_Version p = pin_Version q" "pin_PoolRef p = pin_PoolRef q"
    using pin_fields(5-8) [of p] pin_fields(5-8) [of q] by (auto split: if_splits)
qed (simp_all add: accessPin_def capacityPin_def Let_def)

text \<open>
  The policy request does not depend on the order in which the caller
  lists evidence: permuted evidence references give the same bytes on the wire.
\<close>

lemma policy_context_canonical:
  assumes "mset E = mset E'"
  shows "encodeValue (policyContext subject (input\<lparr>pi_EvidenceRefs := E\<rparr>)) =
    encodeValue (policyContext subject (input\<lparr>pi_EvidenceRefs := E'\<rparr>))"
proof -
  have "sort E = sort E'"
    using assms by (intro properties_for_sort) simp_all
  then show ?thesis by (simp add: policyContext_def Let_def)
qed

end
