(* ===== verification/Key_Access.thy ===== *)
theory Key_Access
  imports Lwp_Ops
begin

text \<open>
  The key-access operations of \<^verbatim>\<open>src/lotor/key_access.go\<close>: subject keys, resource key versions,
  resource grants, envelopes and members, as requests and response readers over \<open>c.do\<close>.
\<close>

section \<open>Subject keys\<close>

record SubjectKeyRegistration =
  skr_Actor :: string
  skr_Subject :: string
  skr_KeyID :: string
  skr_DeviceID :: string
  skr_Generation :: u64
  skr_CustodyMode :: string
  skr_CustodyStatus :: string
  skr_Transferability :: string
  skr_KeyRevision :: u64
  skr_EncryptionAlgorithm :: string
  skr_EncryptionPublicKey :: bytes
  skr_SigningAlgorithm :: string
  skr_SigningPublicKey :: bytes
  skr_EncryptedPrivateKeyBackup :: bytes
  skr_BackupKDF :: string
  skr_BackupSalt :: bytes
  skr_BackupNonce :: bytes
  skr_Proof :: bytes
  skr_BackupFormatVersion :: u64

record SubjectKeyMutation =
  skm_Reason :: string
  skm_KeyID :: string
  skm_LogSeq :: u64
  skm_Accepted :: bool

record SubjectKey =
  sk_KeyID :: string
  sk_DeviceID :: string
  sk_EncryptionAlgorithm :: string
  sk_SigningAlgorithm :: string
  sk_BackupKDF :: string
  sk_Status :: string
  sk_CustodyMode :: string
  sk_CustodyStatus :: string
  sk_Transferability :: string
  sk_EncryptionPublicKey :: bytes
  sk_SigningPublicKey :: bytes
  sk_EncryptedPrivateKeyBackup :: bytes
  sk_BackupSalt :: bytes
  sk_BackupNonce :: bytes
  sk_BackupFormatVersion :: u64
  sk_Generation :: u64
  sk_KeyRevision :: u64
  sk_LogSeq :: u64

definition zero_SubjectKeyMutation :: SubjectKeyMutation where
  "zero_SubjectKeyMutation =
     \<lparr>skm_Reason = [], skm_KeyID = [], skm_LogSeq = 0, skm_Accepted = False\<rparr>"

definition decodeSubjectKeyMutation :: "lwp_value list \<Rightarrow> SubjectKeyMutation" where
  "decodeSubjectKeyMutation values =
     (let r = zero_SubjectKeyMutation;
          r = (if length values > 0 then r\<lparr>skm_Accepted := asBool (values ! 0)\<rparr> else r);
          r = (if length values > 1 then r\<lparr>skm_Reason := asStr (values ! 1)\<rparr> else r);
          r = (if length values > 2 then r\<lparr>skm_KeyID := asStr (values ! 2)\<rparr> else r);
          r = (if length values > 3 then r\<lparr>skm_LogSeq := val_U64 (values ! 3)\<rparr> else r)
      in r)"

definition SubjectKeyRegister ::
  "lwp_do \<Rightarrow> SubjectKeyRegistration \<Rightarrow> (lwp_err, SubjectKeyMutation) outcome" where
  "SubjectKeyRegister exch input =
     bind_outcome (exch opSUBJECTKEYREGISTER
       [VAddr (skr_Actor input), VAddr (skr_Subject input), VStr (skr_KeyID input),
        VStr (skr_DeviceID input), VStr (skr_EncryptionAlgorithm input),
        VBytes (skr_EncryptionPublicKey input), VStr (skr_SigningAlgorithm input),
        VBytes (skr_SigningPublicKey input), VBytes (skr_EncryptedPrivateKeyBackup input),
        VStr (skr_BackupKDF input), VBytes (skr_BackupSalt input), VBytes (skr_BackupNonce input),
        VU64 (skr_BackupFormatVersion input), VBytes (skr_Proof input), VU64 (skr_Generation input),
        VStr (skr_CustodyMode input), VStr (skr_CustodyStatus input),
        VStr (skr_Transferability input), VU64 (skr_KeyRevision input)])
       (\<lambda>values. Ok (decodeSubjectKeyMutation values))"

definition SubjectKeyRevoke ::
  "lwp_do \<Rightarrow> string \<Rightarrow> string \<Rightarrow> string \<Rightarrow> (lwp_err, SubjectKeyMutation) outcome" where
  "SubjectKeyRevoke exch actor subject keyID =
     bind_outcome (exch opSUBJECTKEYREVOKE [VAddr actor, VAddr subject, VStr keyID])
       (\<lambda>values. Ok (decodeSubjectKeyMutation values))"

text \<open>A successful listing: accepted, and a list of maps as third argument.\<close>

definition listed_maps :: "lwp_value list \<Rightarrow> (string \<times> lwp_value) list list" where
  "listed_maps values =
     (if length values < 3 \<or> \<not> asBool (values ! 0) \<or> val_Kind (values ! 2) \<noteq> tagList then []
      else map val_Map (filter (\<lambda>item. val_Kind item = tagMap) (val_List (values ! 2))))"

definition SubjectKeyList ::
  "lwp_do \<Rightarrow> string \<Rightarrow> string \<Rightarrow> (lwp_err, SubjectKey list) outcome" where
  "SubjectKeyList exch actor subject =
     bind_outcome (exch opSUBJECTKEYLIST [VAddr actor, VAddr subject]) (\<lambda>values.
       Ok (map (\<lambda>m.
         \<lparr>sk_KeyID = asStr (val_index m ''key_id''),
          sk_DeviceID = asStr (val_index m ''device_id''),
          sk_EncryptionAlgorithm = asStr (val_index m ''encryption_algorithm''),
          sk_SigningAlgorithm = asStr (val_index m ''signing_algorithm''),
          sk_BackupKDF = asStr (val_index m ''backup_kdf''),
          sk_Status = asStr (val_index m ''status''),
          sk_CustodyMode = asStr (val_index m ''custody_mode''),
          sk_CustodyStatus = asStr (val_index m ''custody_status''),
          sk_Transferability = asStr (val_index m ''transferability''),
          sk_EncryptionPublicKey = val_Bytes (val_index m ''encryption_public_key''),
          sk_SigningPublicKey = val_Bytes (val_index m ''signing_public_key''),
          sk_EncryptedPrivateKeyBackup = val_Bytes (val_index m ''encrypted_private_key_backup''),
          sk_BackupSalt = val_Bytes (val_index m ''backup_salt''),
          sk_BackupNonce = val_Bytes (val_index m ''backup_nonce''),
          sk_BackupFormatVersion = val_U64 (val_index m ''backup_format_version''),
          sk_Generation = val_U64 (val_index m ''generation''),
          sk_KeyRevision = val_U64 (val_index m ''key_revision''),
          sk_LogSeq = val_U64 (val_index m ''log_seq'')\<rparr>) (listed_maps values)))"

section \<open>Resource keys, grants, envelopes, members\<close>

record ResourceKeyVersionInput =
  rkv_Scope :: string
  rkv_Actor :: string
  rkv_KeyResource :: string
  rkv_Algorithm :: string
  rkv_CustodyHandle :: string
  rkv_ManifestHash :: string
  rkv_Version :: u64
  rkv_GraphRevision :: u64
  rkv_IdentityRevision :: u64
  rkv_KeyRevision :: u64
  rkv_PolicyRevision :: u64
  rkv_CustodyRevision :: u64
  rkv_ExpectedEnvelopes :: u64

record ResourceGrantInput =
  rgi_Actor :: string
  rgi_GrantID :: string
  rgi_Scope :: string
  rgi_Resource :: string
  rgi_Subject :: string
  rgi_Relation :: string
  rgi_KeyResource :: string
  rgi_RecipientKeyID :: string
  rgi_InvitationID :: string
  rgi_KeyVersion :: u64

record ResourceEnvelopeInput =
  rei_ClientID :: string
  rei_Scope :: string
  rei_Actor :: string
  rei_GrantID :: string
  rei_KeyResource :: string
  rei_RecipientSubject :: string
  rei_RecipientKeyID :: string
  rei_EncryptionSuite :: string
  rei_Issuer :: string
  rei_IssuerKeyID :: string
  rei_Ciphertext :: bytes
  rei_AADHash :: bytes
  rei_Signature :: bytes
  rei_KeyVersion :: u64

record ResourceGrantMutation =
  rgm_Reason :: string
  rgm_GrantID :: string
  rgm_Status :: string
  rgm_LogSeq :: u64
  rgm_Accepted :: bool

record ResourceMember =
  rm_GrantID :: string
  rm_Subject :: string
  rm_Relation :: string
  rm_Resource :: string
  rm_KeyResource :: string
  rm_RecipientKeyID :: string
  rm_InvitationID :: string
  rm_Status :: string
  rm_RecipientKeyStatus :: string
  rm_RecipientEncryptionAlgorithm :: string
  rm_RecipientSigningAlgorithm :: string
  rm_RecipientEncryptionPublicKey :: bytes
  rm_RecipientSigningPublicKey :: bytes
  rm_KeyVersion :: u64
  rm_LogSeq :: u64

record ResourceEnvelope =
  re_GrantID :: string
  re_KeyResource :: string
  re_RecipientKeyID :: string
  re_EncryptionSuite :: string
  re_Issuer :: string
  re_IssuerKeyID :: string
  re_IssuerSigningAlgorithm :: string
  re_IssuerKeyStatus :: string
  re_Scope :: string
  re_Resource :: string
  re_RecipientSubject :: string
  re_Relation :: string
  re_Ciphertext :: bytes
  re_AADHash :: bytes
  re_Signature :: bytes
  re_IssuerSigningPublicKey :: bytes
  re_KeyVersion :: u64
  re_LogSeq :: u64

definition ResourceKeyVersionCreate ::
  "lwp_do \<Rightarrow> ResourceKeyVersionInput \<Rightarrow> (lwp_err, SubjectKeyMutation) outcome" where
  "ResourceKeyVersionCreate exch input =
     bind_outcome (exch opRESOURCEKEYCREATE
       [VAddr (rkv_Scope input), VAddr (rkv_Actor input), VAddr (rkv_KeyResource input),
        VU64 (rkv_Version input), VStr (rkv_Algorithm input), VStr (rkv_CustodyHandle input),
        VStr (rkv_ManifestHash input), VU64 (rkv_GraphRevision input),
        VU64 (rkv_IdentityRevision input), VU64 (rkv_KeyRevision input),
        VU64 (rkv_PolicyRevision input), VU64 (rkv_CustodyRevision input),
        VU64 (rkv_ExpectedEnvelopes input)]) (\<lambda>values.
       let r = zero_SubjectKeyMutation;
           r = (if length values > 0 then r\<lparr>skm_Accepted := asBool (values ! 0)\<rparr> else r);
           r = (if length values > 1 then r\<lparr>skm_Reason := asStr (values ! 1)\<rparr> else r);
           r = (if length values > 2 then r\<lparr>skm_KeyID := asStr (values ! 2)\<rparr> else r);
           r = (if length values > 4 then r\<lparr>skm_LogSeq := val_U64 (values ! 4)\<rparr> else r)
       in Ok r)"

definition ResourceKeyVersionActivate ::
  "lwp_do \<Rightarrow> string \<Rightarrow> string \<Rightarrow> string \<Rightarrow> u64 \<Rightarrow> string \<Rightarrow>
   (lwp_err, SubjectKeyMutation) outcome" where
  "ResourceKeyVersionActivate exch scope actor keyResource version manifestHash =
     bind_outcome (exch opRESOURCEKEYACTIVATE
       [VAddr scope, VAddr actor, VAddr keyResource, VU64 version, VStr manifestHash]) (\<lambda>values.
       let r = decodeSubjectKeyMutation values;
           r = (if length values > 4 then r\<lparr>skm_LogSeq := val_U64 (values ! 4)\<rparr> else r)
       in Ok r)"

definition decodeResourceGrantMutation :: "lwp_value list \<Rightarrow> ResourceGrantMutation" where
  "decodeResourceGrantMutation values =
     (let r = \<lparr>rgm_Reason = [], rgm_GrantID = [], rgm_Status = [], rgm_LogSeq = 0,
               rgm_Accepted = False\<rparr>;
          r = (if length values > 0 then r\<lparr>rgm_Accepted := asBool (values ! 0)\<rparr> else r);
          r = (if length values > 1 then r\<lparr>rgm_Reason := asStr (values ! 1)\<rparr> else r);
          r = (if length values > 2 then r\<lparr>rgm_GrantID := asStr (values ! 2)\<rparr> else r);
          r = (if length values > 3 then r\<lparr>rgm_Status := asStr (values ! 3)\<rparr> else r);
          r = (if length values > 4 then r\<lparr>rgm_LogSeq := val_U64 (values ! 4)\<rparr> else r)
      in r)"

definition ResourceGrantPrepare ::
  "lwp_do \<Rightarrow> ResourceGrantInput \<Rightarrow> (lwp_err, ResourceGrantMutation) outcome" where
  "ResourceGrantPrepare exch input =
     bind_outcome (exch opRESOURCEGRANTPREPARE
       [VAddr (rgi_Actor input), VStr (rgi_GrantID input), VAddr (rgi_Scope input),
        VAddr (rgi_Resource input), VAddr (rgi_Subject input), VStr (rgi_Relation input),
        VAddr (rgi_KeyResource input), VU64 (rgi_KeyVersion input),
        VStr (rgi_RecipientKeyID input), VStr (rgi_InvitationID input)])
       (\<lambda>values. Ok (decodeResourceGrantMutation values))"

definition ResourceEnvelopeSubmit ::
  "lwp_do \<Rightarrow> ResourceEnvelopeInput \<Rightarrow> (lwp_err, ResourceGrantMutation) outcome" where
  "ResourceEnvelopeSubmit exch input =
     bind_outcome (exch opRESOURCEENVELOPESUBMIT
       [VAddr (rei_Scope input), VAddr (rei_Actor input), VStr (rei_GrantID input),
        VAddr (rei_KeyResource input), VU64 (rei_KeyVersion input),
        VAddr (rei_RecipientSubject input), VStr (rei_RecipientKeyID input),
        VStr (rei_EncryptionSuite input), VBytes (rei_Ciphertext input),
        VBytes (rei_AADHash input), VAddr (rei_Issuer input), VStr (rei_IssuerKeyID input),
        VBytes (rei_Signature input), VStr (rei_ClientID input)])
       (\<lambda>values. Ok (decodeResourceGrantMutation values))"

text \<open>\<open>None\<close> is the result \<open>(ResourceEnvelope{}, false, nil)\<close>.\<close>

definition ResourceEnvelopeGetSelf ::
  "lwp_do \<Rightarrow> string \<Rightarrow> string \<Rightarrow> string \<Rightarrow> (lwp_err, ResourceEnvelope option) outcome" where
  "ResourceEnvelopeGetSelf exch actor subject resource =
     bind_outcome (exch opRESOURCEENVELOPEGET [VAddr actor, VAddr subject, VAddr resource]) (\<lambda>values.
       if length values < 3 \<or> \<not> asBool (values ! 0) \<or> val_Kind (values ! 2) \<noteq> tagMap then Ok None
       else let item = val_Map (values ! 2) in
         Ok (Some \<lparr>re_GrantID = asStr (val_index item ''grant_id''),
           re_KeyResource = asStr (val_index item ''key_resource''),
           re_RecipientKeyID = asStr (val_index item ''recipient_key_id''),
           re_EncryptionSuite = asStr (val_index item ''encryption_suite''),
           re_Issuer = asStr (val_index item ''issuer''),
           re_IssuerKeyID = asStr (val_index item ''issuer_key_id''),
           re_IssuerSigningAlgorithm = asStr (val_index item ''issuer_signing_algorithm''),
           re_IssuerKeyStatus = asStr (val_index item ''issuer_key_status''),
           re_Scope = asStr (val_index item ''scope''),
           re_Resource = asStr (val_index item ''resource''),
           re_RecipientSubject = asStr (val_index item ''recipient_subject''),
           re_Relation = asStr (val_index item ''relation''),
           re_Ciphertext = val_Bytes (val_index item ''ciphertext''),
           re_AADHash = val_Bytes (val_index item ''aad_hash''),
           re_Signature = val_Bytes (val_index item ''signature''),
           re_IssuerSigningPublicKey = val_Bytes (val_index item ''issuer_signing_public_key''),
           re_KeyVersion = val_U64 (val_index item ''key_version''),
           re_LogSeq = val_U64 (val_index item ''log_seq'')\<rparr>))"

definition ResourceMemberList ::
  "lwp_do \<Rightarrow> string \<Rightarrow> string \<Rightarrow> string \<Rightarrow> (lwp_err, ResourceMember list) outcome" where
  "ResourceMemberList exch scope actor resource =
     bind_outcome (exch opRESOURCEMEMBERLIST [VAddr scope, VAddr actor, VAddr resource]) (\<lambda>values.
       Ok (map (\<lambda>item.
         \<lparr>rm_GrantID = asStr (val_index item ''grant_id''),
          rm_Subject = asStr (val_index item ''subject''),
          rm_Relation = asStr (val_index item ''relation''),
          rm_Resource = asStr (val_index item ''resource''),
          rm_KeyResource = asStr (val_index item ''key_resource''),
          rm_RecipientKeyID = asStr (val_index item ''recipient_key_id''),
          rm_InvitationID = asStr (val_index item ''invitation_id''),
          rm_Status = asStr (val_index item ''status''),
          rm_RecipientKeyStatus = asStr (val_index item ''recipient_key_status''),
          rm_RecipientEncryptionAlgorithm =
            asStr (val_index item ''recipient_encryption_algorithm''),
          rm_RecipientSigningAlgorithm = asStr (val_index item ''recipient_signing_algorithm''),
          rm_RecipientEncryptionPublicKey =
            val_Bytes (val_index item ''recipient_encryption_public_key''),
          rm_RecipientSigningPublicKey =
            val_Bytes (val_index item ''recipient_signing_public_key''),
          rm_KeyVersion = val_U64 (val_index item ''key_version''),
          rm_LogSeq = val_U64 (val_index item ''log_seq'')\<rparr>) (listed_maps values)))"

definition ResourceGrantRevoke ::
  "lwp_do \<Rightarrow> string \<Rightarrow> string \<Rightarrow> string \<Rightarrow> (lwp_err, ResourceGrantMutation) outcome" where
  "ResourceGrantRevoke exch scope actor grantID =
     bind_outcome (exch opRESOURCEGRANTREVOKE [VAddr scope, VAddr actor, VStr grantID])
       (\<lambda>values. Ok (decodeResourceGrantMutation values))"

end
