(* ===== verification/Go_Strings.thy ===== *)
theory Go_Strings
  imports Go_Prelude
begin

text \<open>
  What the sources use of Go's string handling: iteration over the runes of a string (UTF-8
  decoding with the replacement rune for malformed bytes), \<open>strings.IndexFunc\<close>, prefix and
  suffix tests, splitting. The lemmas reduce rune-wise tests that only admit ASCII to byte-wise
  tests, which is how the identifier checks of every package are shown to agree.
\<close>

section \<open>Runes\<close>

abbreviation rune_error :: nat where
  "rune_error \<equiv> 0xFFFD"

abbreviation in_range :: "nat \<Rightarrow> nat \<Rightarrow> nat \<Rightarrow> bool" where
  "in_range lo hi b \<equiv> lo \<le> b \<and> b \<le> hi"

abbreviation utf8_cont :: "nat \<Rightarrow> bool" where
  "utf8_cont \<equiv> in_range 0x80 0xBF"

text \<open>
  One step of \<open>for _, c := range s\<close> on the byte values of the string: the rune and the bytes
  after it. A byte that does not start a well-formed sequence is one replacement rune.
\<close>

definition utf8_second :: "nat \<Rightarrow> nat \<Rightarrow> bool" where
  "utf8_second b0 b1 \<longleftrightarrow>
     (if b0 = 0xE0 then in_range 0xA0 0xBF b1
      else if b0 = 0xED then in_range 0x80 0x9F b1
      else if b0 = 0xF0 then in_range 0x90 0xBF b1
      else if b0 = 0xF4 then in_range 0x80 0x8F b1
      else utf8_cont b1)"

fun decode_rune :: "nat \<Rightarrow> nat list \<Rightarrow> nat \<times> nat list" where
  "decode_rune b0 bs =
     (if b0 < 0x80 then (b0, bs)
      else if in_range 0xC2 0xDF b0 then
        (case bs of
           b1 # r \<Rightarrow> if utf8_second b0 b1 then ((b0 - 0xC0) * 64 + (b1 - 0x80), r) else (rune_error, bs)
         | _ \<Rightarrow> (rune_error, bs))
      else if in_range 0xE0 0xEF b0 then
        (case bs of
           b1 # b2 # r \<Rightarrow>
             if utf8_second b0 b1 \<and> utf8_cont b2
             then ((b0 - 0xE0) * 4096 + (b1 - 0x80) * 64 + (b2 - 0x80), r) else (rune_error, bs)
         | _ \<Rightarrow> (rune_error, bs))
      else if in_range 0xF0 0xF4 b0 then
        (case bs of
           b1 # b2 # b3 # r \<Rightarrow>
             if utf8_second b0 b1 \<and> utf8_cont b2 \<and> utf8_cont b3
             then ((b0 - 0xF0) * 262144 + (b1 - 0x80) * 4096 + (b2 - 0x80) * 64 + (b3 - 0x80), r)
             else (rune_error, bs)
         | _ \<Rightarrow> (rune_error, bs))
      else (rune_error, bs))"

declare decode_rune.simps [simp del]

lemma decode_rune_length: "length (snd (decode_rune b bs)) \<le> length bs"
  by (auto simp: decode_rune.simps split: list.splits)

function runes_of :: "nat list \<Rightarrow> nat list" where
  "runes_of [] = []"
| "runes_of (b # bs) = fst (decode_rune b bs) # runes_of (snd (decode_rune b bs))"
  by pat_completeness auto

termination runes_of
  by (relation "measure length") (auto simp: le_imp_less_Suc decode_rune_length)

definition runes :: "string \<Rightarrow> nat list" where
  "runes s = runes_of (map of_char s)"

lemma decode_rune_ascii: "b < 128 \<Longrightarrow> decode_rune b bs = (b, bs)"
  by (simp add: decode_rune.simps)

lemma utf8_second_range: "utf8_second b0 b1 \<Longrightarrow> 0x80 \<le> b1"
  "utf8_second 0xE0 b1 \<Longrightarrow> 0xA0 \<le> b1" "utf8_second 0xF0 b1 \<Longrightarrow> 0x90 \<le> b1"
  by (auto simp: utf8_second_def split: if_splits)

lemma decode_rune_high:
  assumes "128 \<le> b"
  shows "128 \<le> fst (decode_rune b bs)"
proof -
  have two: "128 \<le> (b - 0xC0) * 64 + (b1 - 0x80)" if "in_range 0xC2 0xDF b" for b1
    using that by linarith
  have three: "128 \<le> (b - 0xE0) * 4096 + (b1 - 0x80) * 64"
    if "in_range 0xE0 0xEF b" "utf8_second b b1" for b1
  proof (cases "b = 0xE0")
    case True
    then have "0xA0 \<le> b1" using that utf8_second_range by blast
    then show ?thesis by linarith
  next
    case False
    then have "Suc 0xE0 \<le> b" using that by linarith
    then show ?thesis by linarith
  qed
  have four: "128 \<le> (b - 0xF0) * 262144 + (b1 - 0x80) * 4096"
    if "in_range 0xF0 0xF4 b" "utf8_second b b1" for b1
  proof (cases "b = 0xF0")
    case True
    then have "0x90 \<le> b1" using that utf8_second_range by blast
    then show ?thesis by linarith
  next
    case False
    then have "Suc 0xF0 \<le> b" using that by linarith
    then show ?thesis by linarith
  qed
  consider "in_range 0xC2 0xDF b" | "in_range 0xE0 0xEF b" | "in_range 0xF0 0xF4 b"
    | "b < 0xC2" | "0xF4 < b"
    by linarith
  then show ?thesis
  proof cases
    case 1
    then show ?thesis
      using two by (simp add: decode_rune.simps split: list.split)
  next
    case 2
    then show ?thesis
      by (auto simp: decode_rune.simps split: list.split) (drule three [OF 2]; linarith)
  next
    case 3
    then show ?thesis
      by (auto simp: decode_rune.simps split: list.split) (drule four [OF 3]; linarith)
  qed (use assms in \<open>simp_all add: decode_rune.simps\<close>)
qed

lemma runes_of_ascii_all:
  assumes "\<And>c. P c \<Longrightarrow> c < 128"
  shows "list_all P (runes_of bs) \<longleftrightarrow> list_all P bs"
proof (induction bs rule: runes_of.induct)
  case (2 b bs)
  show ?case
  proof (cases "b < 128")
    case True
    with 2 show ?thesis by (simp add: decode_rune_ascii)
  next
    case False
    then have "\<not> P b" and "\<not> P (fst (decode_rune b bs))"
      using assms decode_rune_high [of b bs] by (meson not_le)+
    then show ?thesis by simp
  qed
qed simp

lemma runes_ascii_all:
  assumes "\<And>c. P c \<Longrightarrow> c < 128"
  shows "list_all P (runes s) \<longleftrightarrow> list_all (\<lambda>c. P (of_char c)) s"
  using runes_of_ascii_all [OF assms] by (simp add: runes_def list_all_length)

section \<open>The strings package\<close>

text \<open>
  \<open>strings.IndexFunc\<close> tells where the first rune with the property is; the sources only compare
  the answer with -1.
\<close>

definition index_func_none :: "(nat \<Rightarrow> bool) \<Rightarrow> string \<Rightarrow> bool" where
  "index_func_none p s \<longleftrightarrow> list_all (\<lambda>c. \<not> p c) (runes s)"

definition has_prefix :: "string \<Rightarrow> string \<Rightarrow> bool" where
  "has_prefix s p \<longleftrightarrow> take (length p) s = p"

definition has_suffix :: "string \<Rightarrow> string \<Rightarrow> bool" where
  "has_suffix s p \<longleftrightarrow> length p \<le> length s \<and> drop (length s - length p) s = p"

text \<open>The bytes an identifier may hold: the printable ASCII characters, no space.\<close>

definition ident_char :: "char \<Rightarrow> bool" where
  "ident_char c \<longleftrightarrow> 33 \<le> (of_char c :: nat) \<and> of_char c \<le> (126 :: nat)"

definition hex_char :: "char \<Rightarrow> bool" where
  "hex_char c \<longleftrightarrow> (97 \<le> (of_char c :: nat) \<and> of_char c \<le> (102 :: nat))
     \<or> (48 \<le> (of_char c :: nat) \<and> of_char c \<le> (57 :: nat))"

lemma hex_ident_char: "hex_char c \<Longrightarrow> ident_char c"
  by (auto simp: hex_char_def ident_char_def)

lemma runes_ident:
  "list_all (\<lambda>c. \<not> (c \<le> 32 \<or> c \<ge> 127)) (runes s) \<longleftrightarrow> list_all ident_char s"
proof -
  have "list_all (\<lambda>c. \<not> (c \<le> 32 \<or> c \<ge> 127)) (runes s)
      \<longleftrightarrow> list_all (\<lambda>c. \<not> (of_char c \<le> (32 :: nat) \<or> of_char c \<ge> (127 :: nat))) s"
    by (rule runes_ascii_all) simp
  also have "\<dots> \<longleftrightarrow> list_all ident_char s"
    by (rule list.pred_cong) (auto simp: ident_char_def)
  finally show ?thesis .
qed

end
