(* ===== verification/Go_Encoding.thy ===== *)
theory Go_Encoding
  imports Go_Strings
begin

text \<open>
  The text encodings of Go's standard library that the sources use: \<open>encoding/hex\<close>, the
  unpadded URL alphabet of \<open>encoding/base64\<close> in its strict and its lenient form (line breaks are
  skipped by both), and \<open>strconv.Itoa\<close>. Each has its round trip.
\<close>

section \<open>Hexadecimal\<close>

definition hex_digit :: "nat \<Rightarrow> char" where
  "hex_digit n = (''0123456789abcdef'' ! n)"

definition hex_value :: "char \<Rightarrow> nat option" where
  "hex_value c =
     (let n = of_char c :: nat in
      if 48 \<le> n \<and> n \<le> 57 then Some (n - 48)
      else if 97 \<le> n \<and> n \<le> 102 then Some (n - 87)
      else if 65 \<le> n \<and> n \<le> 70 then Some (n - 55)
      else None)"

primrec hex_encode :: "bytes \<Rightarrow> string" where
  "hex_encode [] = []"
| "hex_encode (b # bs) = hex_digit (unat b div 16) # hex_digit (unat b mod 16) # hex_encode bs"

text \<open>\<open>hex.DecodeString\<close>: both letter cases, an error on other characters and odd lengths.\<close>

fun hex_decode :: "string \<Rightarrow> bytes option" where
  "hex_decode [] = Some []"
| "hex_decode [c] = None"
| "hex_decode (c # d # s) =
     (case (hex_value c, hex_value d) of
        (Some x, Some y) \<Rightarrow> map_option (\<lambda>r. word_of_nat (16 * x + y) # r) (hex_decode s)
      | _ \<Rightarrow> None)"

lemma hex_digit_value: "n < 16 \<Longrightarrow> hex_value (hex_digit n) = Some n"
proof -
  have "\<forall>n \<in> set [0..<16]. hex_value (hex_digit n) = Some n"
    by code_simp
  then show "n < 16 \<Longrightarrow> hex_value (hex_digit n) = Some n" by simp
qed

lemma hex_digit_char: "n < 16 \<Longrightarrow> hex_char (hex_digit n)"
proof -
  have "\<forall>n \<in> set [0..<16]. hex_char (hex_digit n)"
    by code_simp
  then show "n < 16 \<Longrightarrow> hex_char (hex_digit n)" by simp
qed

lemma unat_byte_less [simp]: "unat (b :: byte) < 256"
  using unsigned_less [of b] by simp

lemma hex_decode_encode [simp]: "hex_decode (hex_encode bs) = Some bs"
proof (induction bs)
  case (Cons b bs)
  have "hex_value (hex_digit (unat b div 16)) = Some (unat b div 16)"
    by (rule hex_digit_value) (simp add: less_mult_imp_div_less)
  moreover have "hex_value (hex_digit (unat b mod 16)) = Some (unat b mod 16)"
    by (rule hex_digit_value) simp
  ultimately show ?case
    using Cons by simp
qed simp

lemma length_hex_encode [simp]: "length (hex_encode bs) = 2 * length bs"
  by (induction bs) auto

lemma hex_encode_chars: "list_all hex_char (hex_encode bs)"
  by (induction bs) (auto intro!: hex_digit_char simp: less_mult_imp_div_less)

lemma hex_encode_inject [simp]: "hex_encode a = hex_encode b \<longleftrightarrow> a = b"
  by (metis hex_decode_encode option.inject)

lemma hex_char_digits: "hex_char c \<Longrightarrow> c \<in> set ''0123456789abcdef''"
proof -
  assume "hex_char c"
  then have "of_char c \<in> set ([48..<58] @ [97..<103])"
    unfolding hex_char_def set_append set_upt by force
  then have "char_of (of_char c :: nat) \<in> set (map char_of ([48..<58] @ [97..<103]))"
    by (metis image_eqI list.set_map)
  moreover have "map char_of ([48..<58] @ [97..<103]) = ''0123456789abcdef''"
    by code_simp
  ultimately show ?thesis
    by simp
qed

lemma hex_char_value: "hex_char c \<Longrightarrow> \<exists>n < 16. hex_value c = Some n \<and> hex_digit n = c"
proof -
  assume "hex_char c"
  then obtain n where "n < length ''0123456789abcdef''" "''0123456789abcdef'' ! n = c"
    using hex_char_digits by (metis in_set_conv_nth)
  then have "n < 16" "hex_digit n = c"
    by (simp_all add: hex_digit_def)
  then show ?thesis
    using hex_digit_value by blast
qed

lemma hex_value_less: "hex_value c = Some n \<Longrightarrow> n < 16"
  by (auto simp: hex_value_def Let_def split: if_splits)

lemma hex_decode_length: "hex_decode s = Some bs \<Longrightarrow> length s = 2 * length bs"
  by (induction s arbitrary: bs rule: hex_decode.induct) (auto split: option.splits)

lemma hex_encode_decode:
  "list_all hex_char s \<Longrightarrow> even (length s) \<Longrightarrow> \<exists>bs. hex_decode s = Some bs \<and> hex_encode bs = s"
proof (induction s rule: hex_decode.induct)
  case (3 c d s)
  obtain x where x: "x < 16" "hex_value c = Some x" "hex_digit x = c"
    using hex_char_value [of c] 3 by auto
  obtain y where y: "y < 16" "hex_value d = Some y" "hex_digit y = d"
    using hex_char_value [of d] 3 by auto
  have "unat (word_of_nat (16 * x + y) :: byte) = 16 * x + y"
    using x y by (simp only: unat_of_nat) simp
  moreover have "(16 * x + y) div 16 = x" "(16 * x + y) mod 16 = y"
    using y by simp_all
  moreover obtain bs where "hex_decode s = Some bs" "hex_encode bs = s"
    using 3 x y by auto
  ultimately show ?case
    using x y by (intro exI [of _ "word_of_nat (16 * x + y) # bs"]) simp
qed auto

section \<open>Unpadded URL base64\<close>

definition b64_alphabet :: string where
  "b64_alphabet = ''ABCDEFGHIJKLMNOPQRSTUVWXYZabcdefghijklmnopqrstuvwxyz0123456789-_''"

definition b64_digit :: "nat \<Rightarrow> char" where
  "b64_digit n = b64_alphabet ! n"

definition b64_value :: "char \<Rightarrow> nat option" where
  "b64_value c =
     (let n = of_char c :: nat in
      if 65 \<le> n \<and> n \<le> 90 then Some (n - 65)
      else if 97 \<le> n \<and> n \<le> 122 then Some (n - 71)
      else if 48 \<le> n \<and> n \<le> 57 then Some (n + 4)
      else if n = 45 then Some 62
      else if n = 95 then Some 63
      else None)"

text \<open>\<open>RawURLEncoding.EncodeToString\<close>: three bytes become four characters, a rest of one or two
  bytes becomes two or three.\<close>

fun b64_encode :: "bytes \<Rightarrow> string" where
  "b64_encode (a # b # c # bs) =
     (let v = unat a * 65536 + unat b * 256 + unat c in
      b64_digit (v div 262144) # b64_digit (v div 4096 mod 64)
        # b64_digit (v div 64 mod 64) # b64_digit (v mod 64) # b64_encode bs)"
| "b64_encode [a, b] =
     (let v = unat a * 65536 + unat b * 256 in
      [b64_digit (v div 262144), b64_digit (v div 4096 mod 64), b64_digit (v div 64 mod 64)])"
| "b64_encode [a] =
     (let v = unat a * 65536 in [b64_digit (v div 262144), b64_digit (v div 4096 mod 64)])"
| "b64_encode [] = []"

definition b64_encoded_len :: "nat \<Rightarrow> nat" where
  "b64_encoded_len n = n div 3 * 4 + (n mod 3 * 8 + 5) div 6"

text \<open>
  The decoder drops carriage returns and line feeds wherever they stand, then reads groups of
  four digits. In strict mode the bits of an incomplete last group that no byte uses are zero.
\<close>

definition byte_of_nat :: "nat \<Rightarrow> byte" where
  "byte_of_nat n = word_of_nat n"

fun b64_groups :: "bool \<Rightarrow> nat list \<Rightarrow> bytes option" where
  "b64_groups strict (p # q # r # s # ds) =
     (let v = p * 262144 + q * 4096 + r * 64 + s in
      map_option (\<lambda>bs. byte_of_nat (v div 65536) # byte_of_nat (v div 256) # byte_of_nat v # bs)
        (b64_groups strict ds))"
| "b64_groups strict [p, q, r] =
     (let v = p * 262144 + q * 4096 + r * 64 in
      if strict \<and> v mod 256 \<noteq> 0 then None
      else Some [byte_of_nat (v div 65536), byte_of_nat (v div 256)])"
| "b64_groups strict [p, q] =
     (let v = p * 262144 + q * 4096 in
      if strict \<and> v mod 65536 \<noteq> 0 then None else Some [byte_of_nat (v div 65536)])"
| "b64_groups strict [p] = None"
| "b64_groups strict [] = Some []"

definition is_newline :: "char \<Rightarrow> bool" where
  "is_newline c \<longleftrightarrow> of_char c = (10 :: nat) \<or> of_char c = (13 :: nat)"

definition b64_decode :: "bool \<Rightarrow> string \<Rightarrow> bytes option" where
  "b64_decode strict s =
     (let ds = map b64_value (filter (\<lambda>c. \<not> is_newline c) s) in
      if None \<in> set ds then None else b64_groups strict (map the ds))"

lemma b64_digit_facts:
  "n < 64 \<Longrightarrow> b64_value (b64_digit n) = Some n \<and> \<not> is_newline (b64_digit n) \<and> ident_char (b64_digit n)"
proof -
  have "list_all2 (\<lambda>n c. b64_value c = Some n \<and> \<not> is_newline c \<and> ident_char c) [0..<64] b64_alphabet"
    by code_simp
  then show "n < 64 \<Longrightarrow> b64_value (b64_digit n) = Some n \<and> \<not> is_newline (b64_digit n)
      \<and> ident_char (b64_digit n)"
    by (auto simp: list_all2_conv_all_nth b64_digit_def)
qed

text \<open>The encoder as digits: what the decoder sees of it.\<close>

fun b64_sextets :: "bytes \<Rightarrow> nat list" where
  "b64_sextets (a # b # c # bs) =
     (let v = unat a * 65536 + unat b * 256 + unat c in
      [v div 262144, v div 4096 mod 64, v div 64 mod 64, v mod 64] @ b64_sextets bs)"
| "b64_sextets [a, b] =
     (let v = unat a * 65536 + unat b * 256 in
      [v div 262144, v div 4096 mod 64, v div 64 mod 64])"
| "b64_sextets [a] = (let v = unat a * 65536 in [v div 262144, v div 4096 mod 64])"
| "b64_sextets [] = []"

lemma b64_encode_sextets: "b64_encode bs = map b64_digit (b64_sextets bs)"
  by (induction bs rule: b64_encode.induct) (auto simp: Let_def)

lemma three_bytes_less: "a < 256 \<Longrightarrow> b < 256 \<Longrightarrow> c < 256 \<Longrightarrow> (a * 65536 + b * 256 + c) div 262144 < (64 :: nat)"
  by (simp add: less_mult_imp_div_less)

lemma b64_sextets_less: "list_all (\<lambda>n. n < 64) (b64_sextets bs)"
proof (induction bs rule: b64_sextets.induct)
  case (1 a b c bs)
  then show ?case
    using three_bytes_less [of "unat a" "unat b" "unat c"] by (simp add: Let_def)
next
  case (2 a b)
  then show ?case
    using three_bytes_less [of "unat a" "unat b" 0] by (simp add: Let_def)
next
  case (3 a)
  then show ?case
    using three_bytes_less [of "unat a" 0 0] by (simp add: Let_def)
qed simp

lemma quad_value: "(v :: nat) div 262144 * 262144 + v div 4096 mod 64 * 4096 + v div 64 mod 64 * 64 + v mod 64 = v"
proof -
  have "v = v div 64 * 64 + v mod 64"
    by simp
  moreover have "v div 64 = v div 4096 * 64 + v div 64 mod 64"
    using div_mult_mod_eq [of "v div 64" 64] by (simp add: div_mult2_eq [symmetric])
  moreover have "v div 4096 = v div 262144 * 64 + v div 4096 mod 64"
    using div_mult_mod_eq [of "v div 4096" 64] by (simp add: div_mult2_eq [symmetric])
  ultimately show ?thesis
    by linarith
qed

lemma byte_of_nat_split:
  "byte_of_nat ((unat a * 65536 + unat b * 256 + unat c) div 65536) = a"
  "byte_of_nat ((unat a * 65536 + unat b * 256 + unat c) div 256) = b"
  "byte_of_nat (unat a * 65536 + unat b * 256 + unat c) = c"
proof -
  have u: "unat a < 256" "unat b < 256" "unat c < 256"
    by simp_all
  have low: "unat a * 65536 + unat b * 256 + unat c = unat c + 256 * (unat b + 256 * unat a)"
    by simp
  then have mid: "(unat a * 65536 + unat b * 256 + unat c) div 256 = unat b + 256 * unat a"
    using u by (simp only: low div_mult_self2)
  then have "(unat a * 65536 + unat b * 256 + unat c) div 65536 = unat a"
    using u div_mult2_eq [of "unat a * 65536 + unat b * 256 + unat c" 256 256] by simp
  then show "byte_of_nat ((unat a * 65536 + unat b * 256 + unat c) div 65536) = a"
    by (simp add: byte_of_nat_def)
  have "(unat a * 65536 + unat b * 256 + unat c) div 256 mod 256 = unat b"
    using u mid by simp
  then show "byte_of_nat ((unat a * 65536 + unat b * 256 + unat c) div 256) = b"
    by (simp only: byte_of_nat_def word_unat_eq_iff unat_of_nat) simp
  have "(unat a * 65536 + unat b * 256 + unat c) mod 256 = unat c"
    using u low by (metis mod_less mod_mult_self2)
  then show "byte_of_nat (unat a * 65536 + unat b * 256 + unat c) = c"
    by (simp only: byte_of_nat_def word_unat_eq_iff unat_of_nat) simp
qed

lemma b64_groups_sextets: "b64_groups strict (b64_sextets bs) = Some bs"
proof (induction bs rule: b64_sextets.induct)
  case (1 a b c bs)
  then show ?case
    by (simp add: Let_def quad_value byte_of_nat_split)
next
  case (2 a b)
  let ?v = "unat a * 65536 + unat b * 256"
  have v: "?v div 262144 * 262144 + ?v div 4096 mod 64 * 4096 + ?v div 64 mod 64 * 64 = ?v"
    using quad_value [of ?v] by (simp add: mod_eq_0_iff_dvd)
  then show ?case
    using byte_of_nat_split [of a b 0] by (simp add: Let_def)
next
  case (3 a)
  let ?v = "unat a * 65536"
  have v: "?v div 262144 * 262144 + ?v div 4096 mod 64 * 4096 = ?v"
    using quad_value [of ?v] by (simp add: mod_eq_0_iff_dvd)
  then show ?case
    using byte_of_nat_split [of a 0 0] by (simp add: Let_def)
qed simp

lemma b64_decode_encode [simp]: "b64_decode strict (b64_encode bs) = Some bs"
proof -
  have digits: "list_all (\<lambda>n. n < 64) ns \<Longrightarrow>
      filter (\<lambda>c. \<not> is_newline c) (map b64_digit ns) = map b64_digit ns
      \<and> map b64_value (map b64_digit ns) = map Some ns" for ns
    by (induction ns) (auto simp: b64_digit_facts)
  have "map b64_value (b64_encode bs) = map Some (b64_sextets bs)"
    "filter (\<lambda>c. \<not> is_newline c) (b64_encode bs) = b64_encode bs"
    using digits [OF b64_sextets_less [of bs]] by (simp_all add: b64_encode_sextets)
  then show ?thesis
    by (simp add: b64_decode_def Let_def b64_groups_sextets comp_def)
qed

lemma b64_encode_inject [simp]: "b64_encode a = b64_encode b \<longleftrightarrow> a = b"
  by (metis b64_decode_encode option.inject)

lemma length_b64_encode: "length (b64_encode bs) = b64_encoded_len (length bs)"
proof (induction bs rule: b64_encode.induct)
  case (1 a b c bs)
  have "Suc (Suc (Suc n)) div 3 = Suc (n div 3)" "Suc (Suc (Suc n)) mod 3 = n mod 3" for n :: nat
    by presburger+
  with 1 show ?case by (simp add: Let_def b64_encoded_len_def)
qed (simp_all add: Let_def b64_encoded_len_def)

lemma b64_encoded_len_Suc: "b64_encoded_len n \<le> b64_encoded_len (Suc n)"
proof -
  have "n mod 3 = 0 \<or> n mod 3 = 1 \<or> n mod 3 = 2"
    by auto
  moreover have "n mod 3 = 2 \<Longrightarrow> Suc n div 3 = Suc (n div 3) \<and> Suc n mod 3 = 0"
    "n mod 3 < 2 \<Longrightarrow> Suc n div 3 = n div 3 \<and> Suc n mod 3 = Suc (n mod 3)"
    by (simp_all add: div_Suc mod_Suc)
  ultimately show ?thesis
    by (auto simp: b64_encoded_len_def)
qed

lemma b64_encoded_len_mono: "m \<le> n \<Longrightarrow> b64_encoded_len m \<le> b64_encoded_len n"
  using lift_Suc_mono_le [of b64_encoded_len, OF b64_encoded_len_Suc] .

lemma b64_groups_length: "b64_groups strict ds = Some bs \<Longrightarrow> length ds = b64_encoded_len (length bs)"
proof (induction strict ds arbitrary: bs rule: b64_groups.induct)
  case (1 strict p q r s ds)
  have "Suc (Suc (Suc n)) div 3 = Suc (n div 3)" "Suc (Suc (Suc n)) mod 3 = n mod 3" for n :: nat
    by presburger+
  with 1 show ?case by (auto simp: Let_def b64_encoded_len_def)
qed (auto simp: Let_def b64_encoded_len_def split: if_splits)

lemma b64_decode_length: "b64_decode strict s = Some bs \<Longrightarrow> b64_encoded_len (length bs) \<le> length s"
  by (auto simp: b64_decode_def Let_def dest!: b64_groups_length split: if_splits)
    (metis length_filter_le)

section \<open>Decimal numbers\<close>

fun itoa_nat :: "nat \<Rightarrow> string" where
  "itoa_nat n = (if n < 10 then [char_of (48 + n)] else itoa_nat (n div 10) @ [char_of (48 + n mod 10)])"

declare itoa_nat.simps [simp del]

definition itoa :: "int \<Rightarrow> string" where
  "itoa i = (if i < 0 then CHR ''-'' # itoa_nat (nat (- i)) else itoa_nat (nat i))"

end
