(* ===== verification/Sha256.thy ===== *)
theory Sha256
  imports Go_Encoding
begin

text \<open>
  \<open>crypto/sha256\<close> as FIPS 180-4 defines it, on 32-bit words: padding, message schedule,
  compression, the digest as 32 bytes. The sources only rely on the length of the digest and on
  its being a function of the input; being concrete, it also evaluates.
\<close>

section \<open>Constants and word functions\<close>

text \<open>The fractional parts of the cube roots of the first 64 primes, and of the square roots of the
  first eight, to 32 bits.\<close>

definition sha_k :: "u32 list" where
  "sha_k = [
    1116352408, 1899447441, 3049323471, 3921009573, 961987163, 1508970993,
    2453635748, 2870763221, 3624381080, 310598401, 607225278, 1426881987,
    1925078388, 2162078206, 2614888103, 3248222580, 3835390401, 4022224774,
    264347078, 604807628, 770255983, 1249150122, 1555081692, 1996064986,
    2554220882, 2821834349, 2952996808, 3210313671, 3336571891, 3584528711,
    113926993, 338241895, 666307205, 773529912, 1294757372, 1396182291,
    1695183700, 1986661051, 2177026350, 2456956037, 2730485921, 2820302411,
    3259730800, 3345764771, 3516065817, 3600352804, 4094571909, 275423344,
    430227734, 506948616, 659060556, 883997877, 958139571, 1322822218,
    1537002063, 1747873779, 1955562222, 2024104815, 2227730452, 2361852424,
    2428436474, 2756734187, 3204031479, 3329325298]"

type_synonym sha_state = "u32 \<times> u32 \<times> u32 \<times> u32 \<times> u32 \<times> u32 \<times> u32 \<times> u32"

definition sha_h0 :: sha_state where
  "sha_h0 = (1779033703, 3144134277, 1013904242, 2773480762,
    1359893119, 2600822924, 528734635, 1541459225)"

definition rotr :: "nat \<Rightarrow> u32 \<Rightarrow> u32" where
  "rotr n x = drop_bit n x OR push_bit (32 - n) x"

definition sha_ch :: "u32 \<Rightarrow> u32 \<Rightarrow> u32 \<Rightarrow> u32" where
  "sha_ch x y z = (x AND y) XOR (NOT x AND z)"

definition sha_maj :: "u32 \<Rightarrow> u32 \<Rightarrow> u32 \<Rightarrow> u32" where
  "sha_maj x y z = (x AND y) XOR (x AND z) XOR (y AND z)"

definition big_sigma0 :: "u32 \<Rightarrow> u32" where
  "big_sigma0 x = rotr 2 x XOR rotr 13 x XOR rotr 22 x"

definition big_sigma1 :: "u32 \<Rightarrow> u32" where
  "big_sigma1 x = rotr 6 x XOR rotr 11 x XOR rotr 25 x"

definition small_sigma0 :: "u32 \<Rightarrow> u32" where
  "small_sigma0 x = rotr 7 x XOR rotr 18 x XOR drop_bit 3 x"

definition small_sigma1 :: "u32 \<Rightarrow> u32" where
  "small_sigma1 x = rotr 17 x XOR rotr 19 x XOR drop_bit 10 x"

section \<open>Padding and schedule\<close>

fun be_word :: "bytes \<Rightarrow> u32" where
  "be_word bs = foldl (\<lambda>w b. push_bit 8 w OR ucast b) 0 bs"

definition word_be :: "u32 \<Rightarrow> bytes" where
  "word_be w = [ucast (drop_bit 24 w), ucast (drop_bit 16 w), ucast (drop_bit 8 w), ucast w]"

definition sha_length_field :: "nat \<Rightarrow> bytes" where
  "sha_length_field n = map (\<lambda>i. ucast (drop_bit i (word_of_nat n * 8 :: u64))) [56, 48, 40, 32, 24, 16, 8, 0]"

definition sha_pad :: "bytes \<Rightarrow> bytes" where
  "sha_pad bs =
     bs @ [0x80] @ replicate ((119 - length bs mod 64) mod 64) 0 @ sha_length_field (length bs)"

function chunks :: "nat \<Rightarrow> 'a list \<Rightarrow> 'a list list" where
  "chunks n xs = (if n = 0 \<or> xs = [] then [] else take n xs # chunks n (drop n xs))"
  by pat_completeness auto

termination chunks
  by (relation "measure (\<lambda>(n, xs). length xs)") auto

declare chunks.simps [simp del]

text \<open>The schedule is kept with the newest word first: \<open>w ! 1\<close> is two words back.\<close>

primrec sha_schedule :: "nat \<Rightarrow> u32 list \<Rightarrow> u32 list" where
  "sha_schedule 0 w = rev w"
| "sha_schedule (Suc n) w =
     sha_schedule n ((small_sigma1 (w ! 1) + w ! 6 + small_sigma0 (w ! 14) + w ! 15) # w)"

section \<open>Compression\<close>

fun sha_round :: "sha_state \<Rightarrow> u32 \<times> u32 \<Rightarrow> sha_state" where
  "sha_round (a, b, c, d, e, f, g, h) (k, w) =
     (let t1 = h + big_sigma1 e + sha_ch e f g + k + w;
          t2 = big_sigma0 a + sha_maj a b c
      in (t1 + t2, a, b, c, d + t1, e, f, g))"

fun sha_add :: "sha_state \<Rightarrow> sha_state \<Rightarrow> sha_state" where
  "sha_add (a, b, c, d, e, f, g, h) (a', b', c', d', e', f', g', h') =
     (a + a', b + b', c + c', d + d', e + e', f + f', g + g', h + h')"

definition sha_block :: "sha_state \<Rightarrow> bytes \<Rightarrow> sha_state" where
  "sha_block st block =
     sha_add st (foldl sha_round st (zip sha_k (sha_schedule 48 (rev (map be_word (chunks 4 block))))))"

fun sha_output :: "sha_state \<Rightarrow> bytes" where
  "sha_output (a, b, c, d, e, f, g, h) = concat (map word_be [a, b, c, d, e, f, g, h])"

definition sha256 :: "bytes \<Rightarrow> bytes" where
  "sha256 bs = sha_output (foldl sha_block sha_h0 (chunks 64 (sha_pad bs)))"

lemma length_sha_output: "length (sha_output st) = 32"
  by (induction st rule: sha_output.induct) (simp add: word_be_def)

lemma length_sha256 [simp]: "length (sha256 bs) = 32"
  by (simp add: sha256_def length_sha_output)

text \<open>Padding always completes the last block, so no input byte is dropped.\<close>

lemma sha_pad_blocks: "64 dvd length (sha_pad bs)"
proof -
  define m where "m = length bs mod 64"
  have len: "length bs = 64 * (length bs div 64) + m" and m: "m < 64"
    by (simp_all add: m_def)
  have "(m + 1 + (119 - m) mod 64 + 8) mod 64 = 0"
  proof (cases "m \<le> 55")
    case True
    then have "(119 - m) mod 64 = 55 - m"
      by (simp add: le_mod_geq)
    with True show ?thesis by simp
  next
    case False
    with m have "(119 - m) mod 64 = 119 - m"
      by simp
    with False m show ?thesis by simp
  qed
  then have "64 dvd 64 * (length bs div 64) + (m + 1 + (119 - m) mod 64 + 8)"
    by (simp add: mod_eq_0_iff_dvd)
  moreover have "length (sha_pad bs) = 64 * (length bs div 64) + (m + 1 + (119 - m) mod 64 + 8)"
    using len by (simp add: sha_pad_def sha_length_field_def m_def)
  ultimately show ?thesis
    by simp
qed

end
