(* ===== verification/Go_Net.thy ===== *)
theory Go_Net
  imports Go_Encoding
begin

text \<open>
  What the sources use of \<open>strings\<close>, \<open>strconv\<close>, \<open>net/url\<close>, \<open>net\<close> and \<open>net/netip\<close>: trimming and
  splitting, decimal parsing, the host and port of a parsed URL, joining them, and the address
  classes of \<open>netip.Addr\<close>. The parsers of URLs and addresses themselves, and Unicode case mapping,
  are fields of an environment.
\<close>

section \<open>Strings\<close>

fun str_contains :: "string \<Rightarrow> string \<Rightarrow> bool" where
  "str_contains [] t = (t = [])"
| "str_contains (c # s) t = (has_prefix (c # s) t \<or> str_contains s t)"

fun split_on :: "char \<Rightarrow> string \<Rightarrow> string list" where
  "split_on c [] = [[]]"
| "split_on c (x # xs) =
     (if x = c then [] # split_on c xs
      else case split_on c xs of [] \<Rightarrow> [[x]] | w # ws \<Rightarrow> (x # w) # ws)"

lemma split_on_nonempty: "split_on c s \<noteq> []"
  by (cases s) (auto split: list.split)

lemma split_on_join: "split_on c s = w # ws \<Longrightarrow> s = w @ concat (map ((#) c) ws)"
proof (induction c s arbitrary: w ws rule: split_on.induct)
  case (2 c x xs)
  obtain u us where u: "split_on c xs = u # us"
    using split_on_nonempty by (metis list.exhaust)
  have "xs = u @ concat (map ((#) c) us)"
    using 2 u by (cases "x = c") auto
  moreover have "w # ws = (if x = c then [] # u # us else (x # u) # us)"
    using "2.prems" u by (simp split: if_splits)
  ultimately show ?case by (cases "x = c") simp_all
qed simp

lemma split_on_none: "c \<notin> set s \<Longrightarrow> split_on c s = [s]"
  by (induction c s rule: split_on.induct) auto

lemma split_on_append: "c \<notin> set w \<Longrightarrow> split_on c (w @ c # s) = w # split_on c s"
  by (induction w) auto

definition trim_right :: "char \<Rightarrow> string \<Rightarrow> string" where
  "trim_right c s = rev (dropWhile ((=) c) (rev s))"

definition trim_suffix :: "string \<Rightarrow> string \<Rightarrow> string" where
  "trim_suffix s t = (if has_suffix s t then take (length s - length t) s else s)"

text \<open>\<open>unicode.IsSpace\<close>, and \<open>strings.TrimSpace\<close> on the runes of a string with their bytes.\<close>

definition rune_space :: "nat \<Rightarrow> bool" where
  "rune_space r \<longleftrightarrow> in_range 9 13 r \<or> r \<in> set [0x20, 0x85, 0xA0, 0x1680, 0x2028, 0x2029, 0x202F, 0x205F, 0x3000]
     \<or> in_range 0x2000 0x200A r"

function rune_segments :: "nat list \<Rightarrow> (nat \<times> nat list) list" where
  "rune_segments [] = []"
| "rune_segments (b # bs) =
     (fst (decode_rune b bs), take (Suc (length bs) - length (snd (decode_rune b bs))) (b # bs))
       # rune_segments (snd (decode_rune b bs))"
  by pat_completeness auto

termination rune_segments
  by (relation "measure length") (auto simp: le_imp_less_Suc decode_rune_length)

definition trim_space :: "string \<Rightarrow> string" where
  "trim_space s =
     (let space = (\<lambda>seg. rune_space (fst seg));
          segs = dropWhile space (rune_segments (map of_char s))
      in map char_of (concat (map snd (rev (dropWhile space (rev segs))))))"

lemma rune_segments_ascii: "list_all (\<lambda>b. b < 128) bs \<Longrightarrow> rune_segments bs = map (\<lambda>b. (b, [b])) bs"
  by (induction bs rule: rune_segments.induct) (auto simp: decode_rune_ascii Suc_diff_le)

lemma trim_space_ident: "list_all ident_char s \<Longrightarrow> trim_space s = s"
proof -
  assume s: "list_all ident_char s"
  have seg: "rune_segments (map of_char s) = map (\<lambda>c. (of_char c, [of_char c])) s"
    using s by (subst rune_segments_ascii) (auto simp: list_all_iff ident_char_def comp_def)
  have none: "\<not> rune_space (fst x)" if "x \<in> set (map (\<lambda>c. (of_char c, [of_char c])) s)" for x :: "nat \<times> nat list"
    using s that by (auto simp: list_all_iff ident_char_def rune_space_def)
  have "dropWhile (\<lambda>seg. rune_space (fst seg)) xs = xs"
    if "set xs \<subseteq> set (map (\<lambda>c. (of_char c, [of_char c])) s)" for xs :: "(nat \<times> nat list) list"
    using that none by (cases xs) auto
  then show ?thesis
    by (simp add: trim_space_def Let_def seg comp_def)
qed

lemma trim_right_not_suffix: "trim_right c s \<noteq> [] \<Longrightarrow> last (trim_right c s) \<noteq> c"
  by (metis (mono_tags, lifting) hd_dropWhile last_rev rev_is_Nil_conv trim_right_def)

section \<open>Decimal parsing\<close>

definition digit_char :: "char \<Rightarrow> bool" where
  "digit_char c \<longleftrightarrow> 48 \<le> (of_char c :: nat) \<and> of_char c \<le> (57 :: nat)"

definition digits_value :: "string \<Rightarrow> nat" where
  "digits_value s = foldl (\<lambda>n c. n * 10 + (of_char c - 48)) 0 s"

text \<open>\<open>strconv.Atoi\<close>: an optional sign, then digits, within the range of a 64-bit \<open>int\<close>.\<close>

definition atoi :: "string \<Rightarrow> int option" where
  "atoi s =
     (let neg = (s \<noteq> [] \<and> hd s = CHR ''-'');
          ds = (if s \<noteq> [] \<and> (hd s = CHR ''-'' \<or> hd s = CHR ''+'') then tl s else s);
          v = (if neg then - int (digits_value ds) else int (digits_value ds))
      in if ds = [] \<or> \<not> list_all digit_char ds \<or> v < - (2 ^ 63) \<or> v \<ge> 2 ^ 63 then None else Some v)"

lemma digits_value_append: "digits_value (s @ [c]) = digits_value s * 10 + (of_char c - 48)"
  by (simp add: digits_value_def)

lemma itoa_nat_digits: "list_all digit_char (itoa_nat n) \<and> itoa_nat n \<noteq> []"
proof (induction n rule: itoa_nat.induct)
  case (1 n)
  have "digit_char (char_of (48 + k))" if "k < 10" for k :: nat
    using that by (simp add: digit_char_def)
  with 1 show ?case
    by (subst (1 2) itoa_nat.simps) auto
qed

lemma digits_value_itoa [simp]: "digits_value (itoa_nat n) = n"
proof (induction n rule: itoa_nat.induct)
  case (1 n)
  then show ?case
    by (subst itoa_nat.simps) (simp add: digits_value_append, simp add: digits_value_def)
qed

lemma itoa_nat_hd: "hd (itoa_nat n) \<noteq> CHR ''-'' \<and> hd (itoa_nat n) \<noteq> CHR ''+''"
  using itoa_nat_digits [of n] by (cases "itoa_nat n") (auto simp: digit_char_def)

lemma atoi_itoa: "- (2 ^ 63) \<le> i \<Longrightarrow> i < 2 ^ 63 \<Longrightarrow> atoi (itoa i) = Some i"
  using itoa_nat_digits [of "nat i"] itoa_nat_digits [of "nat (- i)"] itoa_nat_hd [of "nat i"]
  by (auto simp: atoi_def itoa_def Let_def)

lemma itoa_inject: "itoa i = itoa j \<longleftrightarrow> i = j"
proof -
  have "digits_value (drop (if hd (itoa k) = CHR ''-'' then 1 else 0) (itoa k)) = nat \<bar>k\<bar>
      \<and> (hd (itoa k) = CHR ''-'' \<longleftrightarrow> k < 0)" for k
    using itoa_nat_hd [of "nat k"] by (auto simp: itoa_def)
  then have "i = j" if "itoa i = itoa j"
    using that by (metis (no_types, opaque_lifting) abs_ge_zero abs_minus_cancel abs_of_neg abs_of_nonneg
        eq_nat_nat_iff neg_equal_iff_equal not_less)
  then show ?thesis by blast
qed

lemma itoa_no_nul: "CHR 0x00 \<notin> set (itoa i)"
proof -
  have "CHR 0x00 \<notin> set (itoa_nat n)" for n
    using itoa_nat_digits [of n] by (auto simp: list_all_iff digit_char_def)
  then show ?thesis
    by (auto simp: itoa_def)
qed

section \<open>URLs\<close>

text \<open>The fields of a \<open>url.URL\<close> the sources look at; \<open>u_User\<close> tells whether the pointer is non-nil.\<close>

record go_url =
  u_Scheme :: string
  u_Opaque :: string
  u_User :: bool
  u_Host :: string
  u_Path :: string
  u_RawPath :: string
  u_ForceQuery :: bool
  u_RawQuery :: string
  u_Fragment :: string

fun last_colon :: "string \<Rightarrow> nat option" where
  "last_colon [] = None"
| "last_colon (c # s) =
     (case last_colon s of Some n \<Rightarrow> Some (Suc n) | None \<Rightarrow> if c = CHR '':'' then Some 0 else None)"

definition valid_optional_port :: "string \<Rightarrow> bool" where
  "valid_optional_port p \<longleftrightarrow> p = [] \<or> hd p = CHR '':'' \<and> list_all digit_char (tl p)"

definition split_url_host :: "string \<Rightarrow> string \<times> string" where
  "split_url_host h =
     (let (host, port) = (case last_colon h of
            Some n \<Rightarrow> if valid_optional_port (drop n h) then (take n h, drop (Suc n) h) else (h, [])
          | None \<Rightarrow> (h, []))
      in if has_prefix host ''['' \<and> has_suffix host '']'' then (butlast (tl host), port) else (host, port))"

definition u_Hostname :: "go_url \<Rightarrow> string" where
  "u_Hostname u = fst (split_url_host (u_Host u))"

definition u_Port :: "go_url \<Rightarrow> string" where
  "u_Port u = snd (split_url_host (u_Host u))"

definition JoinHostPort :: "string \<Rightarrow> string \<Rightarrow> string" where
  "JoinHostPort host port =
     (if CHR '':'' \<in> set host \<or> CHR ''%'' \<in> set host then ''['' @ host @ '']:'' @ port
      else host @ '':'' @ port)"

text \<open>
  \<open>url.PathEscape\<close>: letters, digits and the punctuation a path segment may hold stand for themselves,
  every other byte is a percent sign and two upper-case hexadecimal digits. \<open>path_unescape\<close> is the
  decoder a server applies to a segment.
\<close>

definition segment_char :: "char \<Rightarrow> bool" where
  "segment_char c \<longleftrightarrow> (CHR ''a'' \<le> c \<and> c \<le> CHR ''z'') \<or> (CHR ''A'' \<le> c \<and> c \<le> CHR ''Z'') \<or> digit_char c
     \<or> c \<in> set ''-_.~$&+:=@''"

definition upper_hex :: "nat \<Rightarrow> char" where
  "upper_hex n = (''0123456789ABCDEF'' ! n)"

primrec path_escape :: "string \<Rightarrow> string" where
  "path_escape [] = []"
| "path_escape (c # s) =
     (if segment_char c then c # path_escape s
      else CHR 0x25 # upper_hex (of_char c div 16) # upper_hex (of_char c mod 16) # path_escape s)"

fun path_unescape :: "string \<Rightarrow> string option" where
  "path_unescape [] = Some []"
| "path_unescape (c # s) =
     (if c = CHR 0x25 then
        (case s of
           a # b # s' \<Rightarrow>
             (case (hex_value a, hex_value b) of
                (Some x, Some y) \<Rightarrow> map_option ((#) (char_of (16 * x + y))) (path_unescape s')
              | _ \<Rightarrow> None)
         | _ \<Rightarrow> None)
      else map_option ((#) c) (path_unescape s))"

lemma upper_hex_facts:
  "n < 16 \<Longrightarrow> hex_value (upper_hex n) = Some n \<and> segment_char (upper_hex n)"
proof -
  have "list_all2 (\<lambda>n c. hex_value c = Some n \<and> segment_char c) [0..<16] ''0123456789ABCDEF''"
    by code_simp
  then show "n < 16 \<Longrightarrow> hex_value (upper_hex n) = Some n \<and> segment_char (upper_hex n)"
    by (auto simp: list_all2_conv_all_nth upper_hex_def)
qed

lemma percent_not_segment: "\<not> segment_char (CHR 0x25)"
  by code_simp

lemma path_unescape_escape [simp]: "path_unescape (path_escape s) = Some s"
proof (induction s)
  case (Cons c s)
  have "hex_value (upper_hex (of_char c div 16)) = Some (of_char c div 16)"
    using upper_hex_facts [of "of_char c div 16"] of_char_less_256 [of c] by (simp add: less_mult_imp_div_less)
  moreover have "hex_value (upper_hex (of_char c mod 16)) = Some (of_char c mod 16)"
    using upper_hex_facts [of "of_char c mod 16"] by simp
  ultimately show ?case
    using Cons percent_not_segment by auto
qed simp

lemma path_escape_inject [simp]: "path_escape s = path_escape t \<longleftrightarrow> s = t"
  by (metis option.inject path_unescape_escape)

lemma path_escape_chars: "list_all (\<lambda>c. segment_char c \<or> c = CHR 0x25) (path_escape s)"
  by (induction s) (auto simp: upper_hex_facts less_mult_imp_div_less of_char_less_256)

text \<open>An escaped string is one path segment: it brings in no slash, query or fragment.\<close>

lemma path_escape_segment: "c \<in> set ''/?#;, '' \<Longrightarrow> c \<notin> set (path_escape s)"
proof -
  have "list_all (\<lambda>c. \<not> (segment_char c \<or> c = CHR 0x25)) ''/?#;, ''"
    by code_simp
  then show "c \<in> set ''/?#;, '' \<Longrightarrow> c \<notin> set (path_escape s)"
    using path_escape_chars [of s] unfolding list_all_iff by blast
qed

text \<open>\<open>net.SplitHostPort\<close>: the port follows the last colon; brackets are needed around a host with colons
  and allowed nowhere else.\<close>

definition SplitHostPort :: "string \<Rightarrow> (string \<times> string) option" where
  "SplitHostPort hp =
     (case last_colon hp of
        None \<Rightarrow> None
      | Some i \<Rightarrow>
          if hd hp = CHR ''['' then
            (let inner = takeWhile (\<lambda>c. c \<noteq> CHR '']'') (tl hp); close = Suc (length inner) in
             if close \<ge> length hp \<or> Suc close \<noteq> i then None
             else if CHR ''['' \<in> set (drop 1 hp) \<or> CHR '']'' \<in> set (drop (Suc close) hp) then None
             else Some (inner, drop (Suc i) hp))
          else if CHR '':'' \<in> set (take i hp) then None
          else if CHR ''['' \<in> set hp \<or> CHR '']'' \<in> set hp then None
          else Some (take i hp, drop (Suc i) hp))"

section \<open>Addresses\<close>

text \<open>A \<open>netip.Addr\<close>: the zero value, an IPv4 address, or an IPv6 address with its zone.\<close>

datatype ip_addr = NoAddr | V4 "32 word" | V6 "128 word" string

definition ip_Unmap :: "ip_addr \<Rightarrow> ip_addr" where
  "ip_Unmap a =
     (case a of V6 w z \<Rightarrow> if drop_bit 32 w = 0xFFFF then V4 (ucast w) else a | _ \<Rightarrow> a)"

definition ip_IsLoopback :: "ip_addr \<Rightarrow> bool" where
  "ip_IsLoopback a \<longleftrightarrow>
     (case a of V4 w \<Rightarrow> drop_bit 24 w = 127 | V6 w z \<Rightarrow> w = 1 | NoAddr \<Rightarrow> False)"

definition ip_IsMulticast :: "ip_addr \<Rightarrow> bool" where
  "ip_IsMulticast a \<longleftrightarrow>
     (case a of V4 w \<Rightarrow> drop_bit 28 w = 0xE | V6 w z \<Rightarrow> drop_bit 120 w = 0xFF | NoAddr \<Rightarrow> False)"

definition ip_IsLinkLocalUnicast :: "ip_addr \<Rightarrow> bool" where
  "ip_IsLinkLocalUnicast a \<longleftrightarrow>
     (case a of V4 w \<Rightarrow> drop_bit 16 w = 0xA9FE | V6 w z \<Rightarrow> drop_bit 118 w = 0x3FA | NoAddr \<Rightarrow> False)"

definition ip_IsPrivate :: "ip_addr \<Rightarrow> bool" where
  "ip_IsPrivate a \<longleftrightarrow>
     (case a of
        V4 w \<Rightarrow> drop_bit 24 w = 10 \<or> drop_bit 20 w = 0xAC1 \<or> drop_bit 16 w = 0xC0A8
      | V6 w z \<Rightarrow> drop_bit 121 w = 0x7E | NoAddr \<Rightarrow> False)"

definition ip_IsGlobalUnicast :: "ip_addr \<Rightarrow> bool" where
  "ip_IsGlobalUnicast a \<longleftrightarrow>
     (case a of
        NoAddr \<Rightarrow> False
      | V4 w \<Rightarrow> w \<noteq> 0 \<and> w \<noteq> 0xFFFFFFFF
      | V6 w z \<Rightarrow> \<not> (w = 0 \<and> z = []))
     \<and> \<not> ip_IsLoopback a \<and> \<not> ip_IsMulticast a \<and> \<not> ip_IsLinkLocalUnicast a"

text \<open>\<open>Prefix.Contains\<close>: the families agree, the address has no zone, the leading bits agree.\<close>

datatype ip_prefix = P4 "32 word" nat | P6 "128 word" nat

definition prefix_contains :: "ip_prefix \<Rightarrow> ip_addr \<Rightarrow> bool" where
  "prefix_contains p a \<longleftrightarrow>
     (case (p, a) of
        (P4 b n, V4 w) \<Rightarrow> drop_bit (32 - n) w = drop_bit (32 - n) b
      | (P6 b n, V6 w z) \<Rightarrow> z = [] \<and> drop_bit (128 - n) w = drop_bit (128 - n) b
      | _ \<Rightarrow> False)"

section \<open>The environment\<close>

record net_env =
  url_Parse :: "string \<Rightarrow> go_url option"
  url_ParseRequestURI :: "string \<Rightarrow> go_url option"
  netip_ParseAddr :: "string \<Rightarrow> ip_addr option"
  strings_ToLower :: "string \<Rightarrow> string"
  strings_EqualFold :: "string \<Rightarrow> string \<Rightarrow> bool"

section \<open>Headers\<close>

text \<open>
  A header is the list of its name and value pairs, names in canonical form; \<open>Header.Set\<close> replaces every
  value of a name, \<open>Header.Add\<close> appends one and \<open>Header.Get\<close> reads the first.
\<close>

type_synonym http_header = "(string \<times> string) list"

definition header_set :: "http_header \<Rightarrow> string \<Rightarrow> string \<Rightarrow> http_header" where
  "header_set h k v = filter (\<lambda>e. fst e \<noteq> k) h @ [(k, v)]"

definition header_get :: "http_header \<Rightarrow> string \<Rightarrow> string" where
  "header_get h k = (case filter (\<lambda>e. fst e = k) h of [] \<Rightarrow> [] | e # _ \<Rightarrow> snd e)"

lemma mem_header_set: "e \<in> set (header_set h k v) \<longleftrightarrow> e = (k, v) \<or> e \<in> set h \<and> fst e \<noteq> k"
  by (auto simp: header_set_def)

lemma header_get_set: "header_get (header_set h k v) k' = (if k' = k then v else header_get h k')"
  by (auto simp: header_get_def header_set_def intro!: arg_cong [of _ _ "\<lambda>l. case l of [] \<Rightarrow> [] | e # _ \<Rightarrow> snd e"] filter_cong)

end
