(* ===== verification/Go_Json.thy ===== *)
theory Go_Json
  imports Go_Prelude
begin

text \<open>
  The interface of \<open>encoding/json\<close> the sources use: a codec per Go type, the strict way of decoding
  (unknown fields and trailing data are errors), and what is assumed of a codec where a property
  needs it.
\<close>

text \<open>
  A codec of \<open>encoding/json\<close> for one Go type: \<open>json.Marshal\<close>, the first \<open>Decode\<close> of a decoder with
  \<open>DisallowUnknownFields\<close> (the value and the bytes it has not read), and \<open>json.Unmarshal\<close>.
\<close>

record 'a json_codec =
  js_marshal :: "'a \<Rightarrow> bytes option"
  js_decode :: "bytes \<Rightarrow> ('a \<times> bytes) option"
  js_unmarshal :: "bytes \<Rightarrow> 'a option"

definition json_space :: "byte \<Rightarrow> bool" where
  "json_space b \<longleftrightarrow> b = 32 \<or> b = 9 \<or> b = 10 \<or> b = 13"

text \<open>
  \<open>Decode\<close> into the value and then a second \<open>Decode\<close>, which answers \<open>io.EOF\<close> exactly when only white
  space is left.
\<close>

definition js_decode_all :: "'a json_codec \<Rightarrow> bytes \<Rightarrow> 'a option" where
  "js_decode_all js raw =
     (case js_decode js raw of
        None \<Rightarrow> None
      | Some (v, rest) \<Rightarrow> if list_all json_space rest then Some v else None)"

text \<open>What \<open>encoding/json\<close> promises of a value it can represent: its encoding decodes to it with nothing
  left over.\<close>

definition codec_faithful :: "'a json_codec \<Rightarrow> 'a \<Rightarrow> bool" where
  "codec_faithful js v \<longleftrightarrow> (\<forall>raw. js_marshal js v = Some raw \<longrightarrow> js_decode js raw = Some (v, []))"

text \<open>A codec given by a finite table of values and encodings, for concrete instances.\<close>

definition table_codec :: "('a \<times> bytes) list \<Rightarrow> 'a json_codec" where
  "table_codec t = \<lparr>js_marshal = map_of t,
     js_decode = (\<lambda>raw. map_option (\<lambda>v. (v, [])) (map_of (map prod.swap t) raw)),
     js_unmarshal = map_of (map prod.swap t)\<rparr>"

lemma table_codec_sel [simp]:
  "js_marshal (table_codec t) = map_of t"
  "js_decode (table_codec t) raw = map_option (\<lambda>v. (v, [])) (map_of (map prod.swap t) raw)"
  "js_unmarshal (table_codec t) = map_of (map prod.swap t)"
  by (simp_all add: table_codec_def)

lemma table_faithful: "codec_faithful (table_codec [(x, r)]) v"
  by (auto simp: codec_faithful_def)

text \<open>A codec whose encodings are single bytes, so that decoding leaves what follows unread.\<close>

definition byte_codec :: "('a \<times> byte) list \<Rightarrow> 'a json_codec" where
  "byte_codec t = \<lparr>js_marshal = (\<lambda>v. map_option (\<lambda>b. [b]) (map_of t v)),
     js_decode = (\<lambda>raw. case raw of [] \<Rightarrow> None | b # rest \<Rightarrow> map_option (\<lambda>v. (v, rest)) (map_of (map prod.swap t) b)),
     js_unmarshal = (\<lambda>raw. case raw of [b] \<Rightarrow> map_of (map prod.swap t) b | _ \<Rightarrow> None)\<rparr>"

lemma byte_codec_sel [simp]:
  "js_marshal (byte_codec t) v = map_option (\<lambda>b. [b]) (map_of t v)"
  "js_decode (byte_codec t) (b # rest) = map_option (\<lambda>v. (v, rest)) (map_of (map prod.swap t) b)"
  by (simp_all add: byte_codec_def)

end
