(* ===== verification/Ownership.thy ===== *)
theory Ownership
  imports Lwp_Client Sha256 Go_Net Go_Json
begin

text \<open>
  \<^verbatim>\<open>lotor/ownership.go\<close>: discovery of the instance that owns an environment. A resolver fetches a
  signed assertion from Control, verifies it, caches it until shortly before it expires, and
  follows a \<open>MOVED\<close> error to a newer assertion at most once per operation. The HTTP replies, the
  clock, dialling and the operation itself are arguments.
\<close>

section \<open>Data\<close>

definition maxOwnershipResponse :: nat where "maxOwnershipResponse = 65536"

record Ownership =
  ow_TenantID :: string
  ow_ApplicationID :: string
  ow_EnvironmentID :: string
  ow_Endpoint :: string
  ow_OwnerInstanceID :: string
  ow_OwnershipEpoch :: i64
  ow_IssuedAt :: i64
  ow_ExpiresAt :: i64
  ow_Version :: i64
  ow_KeyID :: string
  ow_Signature :: string

definition zero_Ownership :: Ownership where
  "zero_Ownership = \<lparr>ow_TenantID = [], ow_ApplicationID = [], ow_EnvironmentID = [], ow_Endpoint = [],
     ow_OwnerInstanceID = [], ow_OwnershipEpoch = 0, ow_IssuedAt = 0, ow_ExpiresAt = 0, ow_Version = 0,
     ow_KeyID = [], ow_Signature = []\<rparr>"

record DiscoveryOptions =
  do_ControlURL :: string
  do_APIKey :: string

record runtimeSigningKey =
  sk_KeyID :: string
  sk_Algorithm :: string
  sk_PublicKey :: string

record OwnershipResolver =
  or_options :: DiscoveryOptions
  or_keys :: "(string \<times> bytes) list"
  or_cached :: Ownership

text \<open>
  The environment: Ed25519 verification, the URL and address parsers, the JSON codecs. A reply of
  the HTTP client is \<open>None\<close> for a request that could not be made, otherwise the status, the body and
  whether reading it failed.
\<close>

record own_env =
  oe_Verify :: "bytes \<Rightarrow> bytes \<Rightarrow> bytes \<Rightarrow> bool"
  oe_net :: net_env
  oe_ParseIPLoopback :: "string \<Rightarrow> bool"
  oe_Ownership :: "Ownership json_codec"
  oe_KeySet :: "runtimeSigningKey list json_codec"

type_synonym http_reply = "(nat \<times> bytes \<times> bool) option"
type_synonym http_get = "string \<Rightarrow> (string \<times> string) list \<Rightarrow> http_reply"

section \<open>Addresses of owners\<close>

definition port_number_ok :: "string \<Rightarrow> bool" where
  "port_number_ok port \<longleftrightarrow> (case atoi port of None \<Rightarrow> False | Some n \<Rightarrow> 1 \<le> n \<and> n \<le> 65535)"

definition Address :: "own_env \<Rightarrow> Ownership \<Rightarrow> (lwp_err, string \<times> bool) outcome" where
  "Address env ow =
     (case url_Parse (oe_net env) (ow_Endpoint ow) of
        None \<Rightarrow> Fail (OpError ''invalid ownership endpoint'')
      | Some u \<Rightarrow>
          if u_User u \<or> u_Path u \<noteq> [] \<or> u_RawQuery u \<noteq> [] \<or> u_Fragment u \<noteq> []
          then Fail (OpError ''invalid ownership endpoint'')
          else if u_Scheme u \<noteq> ''lwp'' \<and> u_Scheme u \<noteq> ''lwps''
          then Fail (OpError ''unsupported ownership endpoint scheme'')
          else if u_Hostname u = [] \<or> u_Port u = []
          then Fail (OpError ''ownership endpoint requires host and port'')
          else if \<not> port_number_ok (u_Port u) then Fail (OpError ''invalid ownership endpoint port'')
          else Ok (JoinHostPort (u_Hostname u) (u_Port u), u_Scheme u = ''lwps''))"

definition loopbackHost :: "own_env \<Rightarrow> string \<Rightarrow> bool" where
  "loopbackHost env host \<longleftrightarrow> strings_EqualFold (oe_net env) host ''localhost'' \<or> oe_ParseIPLoopback env host"

definition NewOwnershipResolver :: "own_env \<Rightarrow> DiscoveryOptions \<Rightarrow> (lwp_err, OwnershipResolver) outcome" where
  "NewOwnershipResolver env options =
     (let url = trim_right (CHR ''/'') (trim_space (do_ControlURL options));
          key = trim_space (do_APIKey options)
      in if url = [] \<or> key = [] then Fail (OpError ''control URL and API key are required'')
         else case url_ParseRequestURI (oe_net env) url of
                None \<Rightarrow> Fail (OpError ''invalid control URL'')
              | Some u \<Rightarrow>
                  if u_Scheme u = [] \<or> u_Host u = [] \<or> u_User u \<or> u_RawQuery u \<noteq> [] \<or> u_Fragment u \<noteq> []
                     \<or> u_Scheme u \<noteq> ''http'' \<and> u_Scheme u \<noteq> ''https''
                  then Fail (OpError ''invalid control URL'')
                  else if u_Scheme u = ''http'' \<and> \<not> loopbackHost env (u_Hostname u)
                  then Fail (OpError ''non-loopback control URL must use HTTPS'')
                  else Ok \<lparr>or_options = \<lparr>do_ControlURL = url, do_APIKey = key\<rparr>, or_keys = [],
                           or_cached = zero_Ownership\<rparr>)"

section \<open>Verification\<close>

text \<open>The NUL-separated fields the signature covers.\<close>

definition nul :: string where "nul = [CHR 0x00]"

definition ownershipPayload :: "Ownership \<Rightarrow> bytes" where
  "ownershipPayload v = bytes_of_string
     (itoa (sint (ow_Version v)) @ nul @ ow_TenantID v @ nul @ ow_ApplicationID v @ nul
      @ ow_EnvironmentID v @ nul @ ow_Endpoint v @ nul @ ow_OwnerInstanceID v @ nul
      @ itoa (sint (ow_OwnershipEpoch v)) @ nul @ itoa (sint (ow_IssuedAt v)) @ nul
      @ itoa (sint (ow_ExpiresAt v)) @ nul @ ow_KeyID v)"

definition key_id_of :: "bytes \<Rightarrow> string" where
  "key_id_of publicKey = hex_encode (take 8 (sha256 publicKey))"

definition minute_us :: i64 where "minute_us = 60000000"

definition verifyOwnership :: "own_env \<Rightarrow> Ownership \<Rightarrow> bytes \<Rightarrow> i64 \<Rightarrow> (lwp_err, unit) outcome" where
  "verifyOwnership env v publicKey now =
     (if ow_Version v \<noteq> 1 \<or> ow_OwnershipEpoch v <s 1 \<or> ow_OwnerInstanceID v = [] \<or> ow_TenantID v = []
         \<or> ow_ApplicationID v = [] \<or> ow_EnvironmentID v = []
      then Fail (OpError ''ownership assertion has invalid credential scope'')
      else if now + minute_us <s ow_IssuedAt v \<or> ow_ExpiresAt v <=s now
              \<or> minute_us <s ow_ExpiresAt v - ow_IssuedAt v
      then Fail (OpError ''ownership assertion is expired or outside its validity window'')
      else case Address env v of
             Fail e \<Rightarrow> Fail e
           | Panic \<Rightarrow> Panic
           | Ok _ \<Rightarrow>
               if ow_KeyID v \<noteq> key_id_of publicKey then Fail (OpError ''ownership signing key mismatch'')
               else (case b64_decode False (ow_Signature v) of
                       None \<Rightarrow> Fail (OpError ''invalid ownership signature'')
                     | Some signature \<Rightarrow>
                         if length signature \<noteq> 64 then Fail (OpError ''invalid ownership signature'')
                         else if length publicKey \<noteq> 32 then Panic
                         else if \<not> oe_Verify env publicKey (ownershipPayload v) signature
                         then Fail (OpError ''ownership signature verification failed'')
                         else Ok ()))"

section \<open>Fetching\<close>

definition fetchJSON :: "'a json_codec \<Rightarrow> http_reply \<Rightarrow> string \<Rightarrow> (lwp_err, 'a) outcome" where
  "fetchJSON js reply operation =
     (case reply of
        None \<Rightarrow> Fail (OpError operation)
      | Some (status, body, read_error) \<Rightarrow>
          if status \<noteq> 200 then Fail (OpError (operation @ '' returned HTTP '' @ itoa (int status)))
          else if read_error then Fail (OpError (''read '' @ operation @ '' response''))
          else if length body > maxOwnershipResponse then Fail (OpError (operation @ '' response is too large''))
          else case js_decode js body of
                 None \<Rightarrow> Fail (OpError (''invalid '' @ operation @ '' response''))
               | Some (v, rest) \<Rightarrow>
                   if list_all json_space rest then Ok v
                   else Fail (OpError (''invalid trailing '' @ operation @ '' response'')))"

text \<open>The loop that builds the new key map.\<close>

fun refresh_keys :: "runtimeSigningKey list \<Rightarrow> (string \<times> bytes) list \<Rightarrow> (lwp_err, (string \<times> bytes) list) outcome" where
  "refresh_keys [] refreshed = Ok refreshed"
| "refresh_keys (item # items) refreshed =
     (if sk_KeyID item = [] \<or> sk_Algorithm item \<noteq> ''Ed25519''
      then Fail (OpError ''invalid runtime signing key metadata'')
      else case b64_decode False (sk_PublicKey item) of
             None \<Rightarrow> Fail (OpError ''invalid runtime signing public key'')
           | Some decoded \<Rightarrow>
               if length decoded \<noteq> 32 then Fail (OpError ''invalid runtime signing public key'')
               else if sk_KeyID item \<noteq> key_id_of decoded then Fail (OpError ''runtime signing key ID mismatch'')
               else if map_get refreshed (sk_KeyID item) \<noteq> None
               then Fail (OpError ''duplicate runtime signing key'')
               else refresh_keys items (map_put (sk_KeyID item) decoded refreshed))"

definition cached_key :: "OwnershipResolver \<Rightarrow> string \<Rightarrow> bytes option" where
  "cached_key r keyID =
     (case map_get (or_keys r) keyID of
        Some key \<Rightarrow> if length key = 32 then Some key else None | None \<Rightarrow> None)"

definition signingKey ::
  "own_env \<Rightarrow> http_get \<Rightarrow> string \<Rightarrow> OwnershipResolver \<Rightarrow> (lwp_err, bytes) outcome \<times> OwnershipResolver" where
  "signingKey env net keyID r =
     (case cached_key r keyID of
        Some key \<Rightarrow> (Ok key, r)
      | None \<Rightarrow>
          (case fetchJSON (oe_KeySet env)
                  (net (do_ControlURL (or_options r) @ ''/.well-known/lotor-runtime-keys.json'') [])
                  ''runtime key discovery'' of
             Fail e \<Rightarrow> (Fail e, r)
           | Panic \<Rightarrow> (Panic, r)
           | Ok items \<Rightarrow>
               (case refresh_keys items [] of
                  Fail e \<Rightarrow> (Fail e, r)
                | Panic \<Rightarrow> (Panic, r)
                | Ok refreshed \<Rightarrow>
                    let r' = r\<lparr>or_keys := refreshed\<rparr> in
                    (case cached_key r' keyID of
                       Some key \<Rightarrow> (Ok key, r')
                     | None \<Rightarrow> (Fail (OpError ''ownership signing key is unavailable''), r')))))"

definition fetchOwnership ::
  "own_env \<Rightarrow> http_get \<Rightarrow> i64 \<Rightarrow> OwnershipResolver \<Rightarrow> (lwp_err, Ownership) outcome \<times> OwnershipResolver" where
  "fetchOwnership env net now r =
     (case fetchJSON (oe_Ownership env)
             (net (do_ControlURL (or_options r) @ ''/v1/runtime/ownership'')
                [(''Authorization'', ''Bearer '' @ do_APIKey (or_options r))])
             ''ownership discovery'' of
        Fail e \<Rightarrow> (Fail e, r)
      | Panic \<Rightarrow> (Panic, r)
      | Ok ownership \<Rightarrow>
          (case signingKey env net (ow_KeyID ownership) r of
             (Ok publicKey, r') \<Rightarrow>
               (case verifyOwnership env ownership publicKey now of
                  Ok _ \<Rightarrow> (Ok ownership, r') | Fail e \<Rightarrow> (Fail e, r') | Panic \<Rightarrow> (Panic, r'))
           | (Fail e, r') \<Rightarrow> (Fail e, r')
           | (Panic, r') \<Rightarrow> (Panic, r')))"

section \<open>The resolver\<close>

definition Resolve ::
  "own_env \<Rightarrow> http_get \<Rightarrow> i64 \<Rightarrow> OwnershipResolver \<Rightarrow> (lwp_err, Ownership) outcome \<times> OwnershipResolver" where
  "Resolve env net now r =
     (if ow_Version (or_cached r) \<noteq> 0 \<and> now + 5000000 <s ow_ExpiresAt (or_cached r)
      then (Ok (or_cached r), r)
      else case fetchOwnership env net now r of
             (Ok ownership, r') \<Rightarrow> (Ok ownership, r'\<lparr>or_cached := ownership\<rparr>)
           | (Fail e, r') \<Rightarrow> (Fail e, r')
           | (Panic, r') \<Rightarrow> (Panic, r'))"

definition Invalidate :: "OwnershipResolver \<Rightarrow> OwnershipResolver" where
  "Invalidate r = r\<lparr>or_cached := zero_Ownership\<rparr>"

definition sameOwnershipScope :: "Ownership \<Rightarrow> Ownership \<Rightarrow> bool" where
  "sameOwnershipScope a b \<longleftrightarrow> ow_TenantID a = ow_TenantID b \<and> ow_ApplicationID a = ow_ApplicationID b
     \<and> ow_EnvironmentID a = ow_EnvironmentID b"

definition acceptMoved ::
  "own_env \<Rightarrow> http_get \<Rightarrow> i64 \<Rightarrow> string \<Rightarrow> Ownership \<Rightarrow> OwnershipResolver \<Rightarrow>
   (lwp_err, Ownership) outcome \<times> OwnershipResolver" where
  "acceptMoved env net now raw prior r =
     (if length raw > maxOwnershipResponse then (Fail (OpError ''MOVED ownership assertion is too large''), r)
      else case js_unmarshal (oe_Ownership env) (bytes_of_string raw) of
             None \<Rightarrow> (Fail (OpError ''invalid MOVED ownership assertion''), r)
           | Some moved \<Rightarrow>
               (case signingKey env net (ow_KeyID moved) r of
                  (Fail e, r') \<Rightarrow> (Fail e, r')
                | (Panic, r') \<Rightarrow> (Panic, r')
                | (Ok publicKey, r') \<Rightarrow>
                    (case verifyOwnership env moved publicKey now of
                       Fail e \<Rightarrow> (Fail e, r')
                     | Panic \<Rightarrow> (Panic, r')
                     | Ok _ \<Rightarrow>
                         if \<not> sameOwnershipScope moved prior
                         then (Fail (OpError ''MOVED assertion changed credential scope''), r')
                         else if ow_OwnershipEpoch moved <=s ow_OwnershipEpoch prior
                                 \<or> ow_Endpoint moved = ow_Endpoint prior
                         then (Fail (OpError ''MOVED assertion did not advance ownership''), r')
                         else (Ok moved, r'\<lparr>or_cached := moved\<rparr>))))"

section \<open>Connecting and retrying\<close>

text \<open>
  \<open>dial address tls\<close> is \<open>Dial\<close> or \<open>DialTLS\<close>; \<open>has_tls\<close> tells whether the caller passed a TLS
  configuration. \<open>auth\<close> and \<open>operation\<close> act on a connection; the returned list is the connections
  the operation ran on, in order.
\<close>

record 'c owner_io =
  io_net :: http_get
  io_dial :: "string \<Rightarrow> bool \<Rightarrow> (lwp_err, 'c) outcome"
  io_auth :: "'c \<Rightarrow> string \<Rightarrow> (lwp_err, unit) outcome"

definition dialOwnership ::
  "own_env \<Rightarrow> 'c owner_io \<Rightarrow> bool \<Rightarrow> Ownership \<Rightarrow> (lwp_err, 'c) outcome" where
  "dialOwnership env io has_tls ownership =
     (case Address env ownership of
        Fail e \<Rightarrow> Fail e
      | Panic \<Rightarrow> Panic
      | Ok (address, tlsRequired) \<Rightarrow>
          if tlsRequired then io_dial io address True
          else if has_tls
          then Fail (OpError ''ownership endpoint requires plaintext LWP but TLS was configured'')
          else io_dial io address False)"

definition DialOwned ::
  "own_env \<Rightarrow> 'c owner_io \<Rightarrow> i64 \<Rightarrow> bool \<Rightarrow> OwnershipResolver \<Rightarrow>
   (lwp_err, 'c \<times> Ownership) outcome \<times> OwnershipResolver" where
  "DialOwned env io now has_tls r =
     (case Resolve env (io_net io) now r of
        (Fail e, r') \<Rightarrow> (Fail e, r')
      | (Panic, r') \<Rightarrow> (Panic, r')
      | (Ok ownership, r') \<Rightarrow>
          (case dialOwnership env io has_tls ownership of
             Fail e \<Rightarrow> (Fail e, Invalidate r')
           | Panic \<Rightarrow> (Panic, r')
           | Ok c \<Rightarrow> (Ok (c, ownership), r')))"

definition moved_message :: "lwp_err \<Rightarrow> string option" where
  "moved_message err = (case err of LWPError code message \<Rightarrow> if code = 0x0014 then Some message else None | _ \<Rightarrow> None)"

definition WithOwnerRetry ::
  "own_env \<Rightarrow> 'c owner_io \<Rightarrow> i64 \<times> i64 \<Rightarrow> bool \<Rightarrow> ('c \<Rightarrow> (lwp_err, 'a) outcome) \<Rightarrow> OwnershipResolver \<Rightarrow>
   (lwp_err, 'a) outcome \<times> 'c list \<times> OwnershipResolver" where
  "WithOwnerRetry env io nows has_tls operation r =
     (case DialOwned env io (fst nows) has_tls r of
        (Fail e, r1) \<Rightarrow> (Fail e, [], r1)
      | (Panic, r1) \<Rightarrow> (Panic, [], r1)
      | (Ok (c, first), r1) \<Rightarrow>
          (case io_auth io c (do_APIKey (or_options r)) of
             Fail e \<Rightarrow> (Fail e, [], r1)
           | Panic \<Rightarrow> (Panic, [], r1)
           | Ok _ \<Rightarrow>
               (case operation c of
                  Ok v \<Rightarrow> (Ok v, [c], r1)
                | Panic \<Rightarrow> (Panic, [c], r1)
                | Fail e \<Rightarrow>
                    (case moved_message e of
                       None \<Rightarrow> (Fail e, [c], r1)
                     | Some message \<Rightarrow>
                         (case acceptMoved env (io_net io) (snd nows) message first r1 of
                            (Fail e2, r2) \<Rightarrow> (Fail e2, [c], r2)
                          | (Panic, r2) \<Rightarrow> (Panic, [c], r2)
                          | (Ok moved, r2) \<Rightarrow>
                              (case dialOwnership env io has_tls moved of
                                 Fail e3 \<Rightarrow> (Fail e3, [c], r2)
                               | Panic \<Rightarrow> (Panic, [c], r2)
                               | Ok c2 \<Rightarrow>
                                   (case io_auth io c2 (do_APIKey (or_options r)) of
                                      Fail e4 \<Rightarrow> (Fail e4, [c], r2)
                                    | Panic \<Rightarrow> (Panic, [c], r2)
                                    | Ok _ \<Rightarrow> (operation c2, [c, c2], r2))))))))"

section \<open>Facts about verification\<close>

lemma Address_not_Panic: "Address env v \<noteq> Panic"
  by (simp add: Address_def split: option.splits)

lemma verifyOwnership_Ok:
  assumes "verifyOwnership env v key now = Ok u"
  shows "ow_Version v = 1 \<and> 1 \<le> sint (ow_OwnershipEpoch v) \<and> sint now < sint (ow_ExpiresAt v)
    \<and> \<not> minute_us <s ow_ExpiresAt v - ow_IssuedAt v \<and> ow_KeyID v = key_id_of key \<and> length key = 32
    \<and> outcome_ok (Address env v)
    \<and> (\<exists>signature. b64_decode False (ow_Signature v) = Some signature \<and> length signature = 64
         \<and> oe_Verify env key (ownershipPayload v) signature)"
  using assms
  by (auto simp: verifyOwnership_def word_sless_alt word_sle_eq not_less not_le split: if_splits outcome.splits option.splits)

text \<open>What a verified assertion is: some key with the right fingerprint signed it.\<close>

definition asserted :: "own_env \<Rightarrow> Ownership \<Rightarrow> bool" where
  "asserted env v \<longleftrightarrow> ow_Version v = 1 \<and> 1 \<le> sint (ow_OwnershipEpoch v) \<and> outcome_ok (Address env v)
    \<and> (\<exists>key signature. length key = 32 \<and> ow_KeyID v = key_id_of key
         \<and> b64_decode False (ow_Signature v) = Some signature \<and> length signature = 64
         \<and> oe_Verify env key (ownershipPayload v) signature)"

lemma verifyOwnership_asserted: "verifyOwnership env v key now = Ok u \<Longrightarrow> asserted env v"
  unfolding asserted_def by (blast dest: verifyOwnership_Ok)

section \<open>The invariant of a resolver\<close>

text \<open>
  Every key is stored under its own fingerprint, and the cached assertion is the zero value or was
  verified.
\<close>

definition keys_ok :: "(string \<times> bytes) list \<Rightarrow> bool" where
  "keys_ok ks \<longleftrightarrow> list_all (\<lambda>(i, k). i = key_id_of k \<and> length k = 32) ks"

definition resolver_inv :: "own_env \<Rightarrow> OwnershipResolver \<Rightarrow> bool" where
  "resolver_inv env r \<longleftrightarrow> keys_ok (or_keys r) \<and> (or_cached r = zero_Ownership \<or> asserted env (or_cached r))"

lemma refresh_keys_ok: "refresh_keys items acc = Ok ks \<Longrightarrow> keys_ok acc \<Longrightarrow> keys_ok ks"
proof (induction items acc rule: refresh_keys.induct)
  case (2 item items refreshed)
  then obtain key where key: "length key = 32" "sk_KeyID item = key_id_of key" "sk_Algorithm item = ''Ed25519''"
      "sk_KeyID item \<noteq> []" "map_get refreshed (sk_KeyID item) = None"
      "refresh_keys items (map_put (sk_KeyID item) key refreshed) = Ok ks"
      "b64_decode False (sk_PublicKey item) = Some key"
    by (auto split: if_splits option.splits)
  have "keys_ok (map_put (sk_KeyID item) key refreshed)"
    using 2(3) key set_map_put_subset [of "sk_KeyID item" key refreshed] by (auto simp: keys_ok_def list_all_iff)
  with 2(1) key show ?case
    by simp
qed simp

lemma resolver_inv_new: "NewOwnershipResolver env options = Ok r \<Longrightarrow> resolver_inv env r"
  by (auto simp: NewOwnershipResolver_def resolver_inv_def keys_ok_def Let_def split: if_splits option.splits)

lemma resolver_inv_invalidate: "resolver_inv env r \<Longrightarrow> resolver_inv env (Invalidate r)"
  by (simp add: resolver_inv_def Invalidate_def)

lemma resolver_inv_cache: "resolver_inv env r \<Longrightarrow> asserted env v \<Longrightarrow> resolver_inv env (r\<lparr>or_cached := v\<rparr>)"
  by (simp add: resolver_inv_def)

text \<open>Looking up a signing key changes nothing but the key map, and only to a refreshed one.\<close>

lemma signingKey_state:
  "signingKey env net keyID r = (res, r') \<Longrightarrow>
     r' = r \<or> (\<exists>items ks. refresh_keys items [] = Ok ks \<and> r' = r\<lparr>or_keys := ks\<rparr>)"
  by (auto simp: signingKey_def Let_def split: option.splits outcome.splits)

lemma signingKey_inv:
  assumes "resolver_inv env r" and "signingKey env net keyID r = (res, r')"
  shows "resolver_inv env r' \<and> or_options r' = or_options r \<and> or_cached r' = or_cached r"
  using signingKey_state [OF assms(2)] assms(1)
  by (auto simp: resolver_inv_def dest!: refresh_keys_ok) (simp_all add: keys_ok_def)

lemma fetchOwnership_state:
  "fetchOwnership env net now r = (res, r') \<Longrightarrow>
     (r' = r \<or> (\<exists>k res0. signingKey env net k r = (res0, r')))
     \<and> (\<forall>v. res = Ok v \<longrightarrow> (\<exists>key. verifyOwnership env v key now = Ok ()))"
  unfolding fetchOwnership_def by (auto split: outcome.splits prod.splits)

lemma fetchOwnership_inv:
  assumes "resolver_inv env r" and "fetchOwnership env net now r = (res, r')"
  shows "resolver_inv env r'" and "or_options r' = or_options r"
    and "res = Ok v \<Longrightarrow> asserted env v \<and> sint now < sint (ow_ExpiresAt v)"
proof -
  note st = fetchOwnership_state [OF assms(2)]
  show "resolver_inv env r'" "or_options r' = or_options r"
    using st assms(1) signingKey_inv [OF assms(1)] by blast+
  show "asserted env v \<and> sint now < sint (ow_ExpiresAt v)" if "res = Ok v"
    using st that verifyOwnership_asserted verifyOwnership_Ok by blast
qed

lemma Resolve_state:
  "Resolve env net now r = (res, r') \<Longrightarrow>
     (ow_Version (or_cached r) \<noteq> 0 \<and> now + 5000000 <s ow_ExpiresAt (or_cached r) \<and> res = Ok (or_cached r) \<and> r' = r)
     \<or> (\<exists>v r1. fetchOwnership env net now r = (Ok v, r1) \<and> res = Ok v \<and> r' = r1\<lparr>or_cached := v\<rparr>)
     \<or> (\<exists>res1. fetchOwnership env net now r = (res1, r') \<and> \<not> outcome_ok res)"
  unfolding Resolve_def by (auto split: if_splits outcome.splits prod.splits)

lemma Resolve_inv:
  assumes "resolver_inv env r" and "Resolve env net now r = (res, r')"
  shows "resolver_inv env r'" and "or_options r' = or_options r"
    and "res = Ok v \<Longrightarrow> asserted env v \<and> or_cached r' = v
           \<and> (sint now < sint (ow_ExpiresAt v) \<or> now + 5000000 <s ow_ExpiresAt v)"
proof -
  note st = Resolve_state [OF assms(2)] and fetch = fetchOwnership_inv [OF assms(1)]
  have zero: "ow_Version zero_Ownership = 0"
    by (simp add: zero_Ownership_def)
  show "resolver_inv env r'" "or_options r' = or_options r"
    using st assms(1) fetch by (auto intro!: resolver_inv_cache)
  show "asserted env v \<and> or_cached r' = v \<and> (sint now < sint (ow_ExpiresAt v) \<or> now + 5000000 <s ow_ExpiresAt v)"
    if "res = Ok v"
    using st
  proof (elim disjE)
    assume "ow_Version (or_cached r) \<noteq> 0 \<and> now + 5000000 <s ow_ExpiresAt (or_cached r) \<and> res = Ok (or_cached r) \<and> r' = r"
    then show ?thesis
      using that assms(1) zero by (auto simp: resolver_inv_def)
  qed (use that fetch(3) in auto)
qed

lemma acceptMoved_state:
  "acceptMoved env net now raw prior r = (res, r') \<Longrightarrow>
     (\<not> outcome_ok res \<and> (r' = r \<or> (\<exists>k res0. signingKey env net k r = (res0, r'))))
     \<or> (\<exists>v k key r1. signingKey env net k r = (Ok key, r1) \<and> verifyOwnership env v key now = Ok ()
          \<and> sameOwnershipScope v prior \<and> \<not> ow_OwnershipEpoch v <=s ow_OwnershipEpoch prior
          \<and> ow_Endpoint v \<noteq> ow_Endpoint prior \<and> res = Ok v \<and> r' = r1\<lparr>or_cached := v\<rparr>)"
  unfolding acceptMoved_def by (auto split: if_splits outcome.splits prod.splits option.splits)

lemma acceptMoved_inv:
  assumes "resolver_inv env r" and "acceptMoved env net now raw prior r = (res, r')"
  shows "resolver_inv env r'" and "or_options r' = or_options r"
    and "res = Ok v \<Longrightarrow> asserted env v \<and> or_cached r' = v \<and> sameOwnershipScope v prior
           \<and> sint (ow_OwnershipEpoch prior) < sint (ow_OwnershipEpoch v) \<and> ow_Endpoint v \<noteq> ow_Endpoint prior
           \<and> sint now < sint (ow_ExpiresAt v)"
proof -
  note st = acceptMoved_state [OF assms(2)] and key = signingKey_inv [OF assms(1)]
  show "resolver_inv env r'" "or_options r' = or_options r"
    using st assms(1) key by (auto intro!: resolver_inv_cache intro: verifyOwnership_asserted)
  show "asserted env v \<and> or_cached r' = v \<and> sameOwnershipScope v prior
       \<and> sint (ow_OwnershipEpoch prior) < sint (ow_OwnershipEpoch v) \<and> ow_Endpoint v \<noteq> ow_Endpoint prior
       \<and> sint now < sint (ow_ExpiresAt v)" if "res = Ok v"
    using st that by (auto simp: word_sle_eq not_le dest: verifyOwnership_asserted verifyOwnership_Ok)
qed

section \<open>Histories of a resolver\<close>

inductive resolver_reachable :: "own_env \<Rightarrow> OwnershipResolver \<Rightarrow> bool" for env where
  new: "NewOwnershipResolver env options = Ok r \<Longrightarrow> resolver_reachable env r"
| resolve: "resolver_reachable env r \<Longrightarrow> Resolve env net now r = (res, r') \<Longrightarrow> resolver_reachable env r'"
| invalidate: "resolver_reachable env r \<Longrightarrow> resolver_reachable env (Invalidate r)"
| moved: "resolver_reachable env r \<Longrightarrow> acceptMoved env net now raw prior r = (res, r') \<Longrightarrow> resolver_reachable env r'"

lemma reachable_resolver_inv: "resolver_reachable env r \<Longrightarrow> resolver_inv env r"
  by (induction rule: resolver_reachable.induct)
    (auto intro: resolver_inv_new resolver_inv_invalidate Resolve_inv(1) acceptMoved_inv(1))

section \<open>Facts about the signed payload\<close>

lemma nul_split:
  "CHR 0x00 \<notin> set x \<Longrightarrow> CHR 0x00 \<notin> set x' \<Longrightarrow> x @ nul @ y = x' @ nul @ y' \<longleftrightarrow> x = x' \<and> y = y'"
proof (induction x arbitrary: x')
  case Nil
  then show ?case by (cases x') (auto simp: nul_def)
next
  case (Cons c x)
  then show ?case by (cases x') (auto simp: nul_def)
qed

definition nul_free :: "Ownership \<Rightarrow> bool" where
  "nul_free v \<longleftrightarrow> list_all (\<lambda>s. CHR 0x00 \<notin> set s)
     [ow_TenantID v, ow_ApplicationID v, ow_EnvironmentID v, ow_Endpoint v, ow_OwnerInstanceID v, ow_KeyID v]"

section \<open>Properties\<close>

text \<open>
  \<^bold>\<open>C39\<close> In every state a resolver can reach, whatever Control answers, what \<open>Resolve\<close>
  returns was signed: a 32-byte key whose fingerprint is the assertion's key id verified the
  signature on exactly the assertion's fields. The assertion has not expired, with the five second
  margin when it comes from the cache, as long as the clock is not within five seconds of the end
  of the \<open>int64\<close> range.
\<close>

theorem resolver_sound:
  assumes "resolver_reachable env r" and "Resolve env net now r = (Ok v, r')" and "sint now + 5000000 < 2 ^ 63"
  shows "(\<exists>key signature. length key = 32 \<and> ow_KeyID v = key_id_of key
      \<and> b64_decode False (ow_Signature v) = Some signature \<and> oe_Verify env key (ownershipPayload v) signature)
    \<and> ow_Version v = 1 \<and> sint now < sint (ow_ExpiresAt v) \<and> or_cached r' = v"
proof -
  have v: "asserted env v" "or_cached r' = v" "sint now < sint (ow_ExpiresAt v) \<or> now + 5000000 <s ow_ExpiresAt v"
    using Resolve_inv(3) [OF reachable_resolver_inv [OF assms(1)] assms(2)] by auto
  have "sint (now + 5000000) = sint now + 5000000"
    using sint_add_exact [of now 5000000] assms(3) sint_range64 [of now] by simp
  with v show ?thesis
    by (auto simp: asserted_def word_sless_alt)
qed

text \<open>
  \<^bold>\<open>C40\<close> \<open>WithOwnerRetry\<close> runs the operation at most twice. It runs a second time
  only when the first run failed with the \<open>MOVED\<close> error, whose message decodes to a verified and
  unexpired assertion for the same tenant, application and environment, with a strictly larger
  epoch and another endpoint; the second connection is dialled at that endpoint, which the resolver
  then caches.
\<close>

theorem moved_retry_bounded:
  assumes "resolver_reachable env r"
    and "WithOwnerRetry env io nows has_tls operation r = (res, calls, r')"
  shows "length calls \<le> 2 \<and>
    (length calls = 2 \<longrightarrow>
      (\<exists>first moved message r1. operation (calls ! 0) = Fail (LWPError 0x0014 message)
         \<and> DialOwned env io (fst nows) has_tls r = (Ok (calls ! 0, first), r1)
         \<and> dialOwnership env io has_tls moved = Ok (calls ! 1) \<and> res = operation (calls ! 1)
         \<and> asserted env moved \<and> sint (snd nows) < sint (ow_ExpiresAt moved) \<and> sameOwnershipScope moved first
         \<and> sint (ow_OwnershipEpoch first) < sint (ow_OwnershipEpoch moved)
         \<and> ow_Endpoint moved \<noteq> ow_Endpoint first \<and> or_cached r' = moved))"
proof (cases "length calls < 2")
  case False
  have shape: "\<exists>c first r1 message moved c2. DialOwned env io (fst nows) has_tls r = (Ok (c, first), r1)
      \<and> operation c = Fail (LWPError 0x0014 message)
      \<and> acceptMoved env (io_net io) (snd nows) message first r1 = (Ok moved, r')
      \<and> dialOwnership env io has_tls moved = Ok c2 \<and> calls = [c, c2] \<and> res = operation c2"
    using assms(2) False
    by (auto simp: WithOwnerRetry_def moved_message_def split: outcome.splits prod.splits option.splits
        lwp_err.splits if_splits)
  then obtain c first r1 message moved c2 where
      dial: "DialOwned env io (fst nows) has_tls r = (Ok (c, first), r1)"
      and op: "operation c = Fail (LWPError 0x0014 message)"
      and mv: "acceptMoved env (io_net io) (snd nows) message first r1 = (Ok moved, r')"
      and rest: "dialOwnership env io has_tls moved = Ok c2" "calls = [c, c2]" "res = operation c2"
    by blast
  have "resolver_inv env r1"
    using dial Resolve_inv(1) [OF reachable_resolver_inv [OF assms(1)]]
    by (auto simp: DialOwned_def split: outcome.splits prod.splits)
  from acceptMoved_inv(3) [OF this mv] dial op rest show ?thesis
    by auto
qed auto

text \<open>
  The signed payload determines the assertion: when no text field
  contains a NUL, two assertions with the same payload agree in every signed field, so a signature
  cannot be carried over to other values.
\<close>

lemma payload_determines_assertion:
  assumes "nul_free v" and "nul_free w" and "ownershipPayload v = ownershipPayload w"
  shows "v\<lparr>ow_Signature := s\<rparr> = w\<lparr>ow_Signature := s\<rparr>"
proof -
  have sint_eq: "sint a = sint b \<longleftrightarrow> a = b" for a b :: i64
    by (metis signed_word_eqI)
  have "ow_Version v = ow_Version w \<and> ow_TenantID v = ow_TenantID w \<and> ow_ApplicationID v = ow_ApplicationID w
      \<and> ow_EnvironmentID v = ow_EnvironmentID w \<and> ow_Endpoint v = ow_Endpoint w
      \<and> ow_OwnerInstanceID v = ow_OwnerInstanceID w \<and> ow_OwnershipEpoch v = ow_OwnershipEpoch w
      \<and> ow_IssuedAt v = ow_IssuedAt w \<and> ow_ExpiresAt v = ow_ExpiresAt w \<and> ow_KeyID v = ow_KeyID w"
    using assms unfolding ownershipPayload_def bytes_of_string_inject
    by (simp add: nul_split itoa_no_nul nul_free_def itoa_inject sint_eq)
  then show ?thesis
    by (cases v; cases w) simp
qed

text \<open>
  What the validity check guarantees on 64-bit integers: an accepted assertion
  expires after the clock reading, and its lifetime is at most one minute, or else the subtraction
  of its times wrapped around, which needs an issue time at least \<open>2^63\<close> microseconds before the
  expiry.
\<close>

lemma ownership_window:
  assumes "verifyOwnership env v key now = Ok u"
  shows "sint now < sint (ow_ExpiresAt v)
    \<and> (sint (ow_ExpiresAt v) - sint (ow_IssuedAt v) \<le> 60000000
       \<or> sint (ow_ExpiresAt v) - sint (ow_IssuedAt v) \<ge> 2 ^ 63)"
proof -
  have ok: "sint now < sint (ow_ExpiresAt v)" "\<not> minute_us <s ow_ExpiresAt v - ow_IssuedAt v"
    using verifyOwnership_Ok [OF assms] by auto
  moreover have False
    if "60000000 < sint (ow_ExpiresAt v) - sint (ow_IssuedAt v)" "sint (ow_ExpiresAt v) - sint (ow_IssuedAt v) < 2 ^ 63"
  proof -
    have "sint (ow_ExpiresAt v - ow_IssuedAt v) = sint (ow_ExpiresAt v) - sint (ow_IssuedAt v)"
      using that by (intro sint_diff_exact) simp_all
    with ok(2) that(1) show False
      by (simp add: word_sless_alt minute_us_def)
  qed
  ultimately show ?thesis
    by (meson not_le)
qed

section \<open>Concrete instances\<close>

definition own_url :: "string \<Rightarrow> go_url option" where
  "own_url s =
     (if has_prefix s ''lwps://'' then
        Some \<lparr>u_Scheme = ''lwps'', u_Opaque = [], u_User = False, u_Host = drop 7 s, u_Path = [], u_RawPath = [],
              u_ForceQuery = False, u_RawQuery = [], u_Fragment = []\<rparr>
      else if has_prefix s ''https://'' then
        Some \<lparr>u_Scheme = ''https'', u_Opaque = [], u_User = False, u_Host = drop 8 s, u_Path = [], u_RawPath = [],
              u_ForceQuery = False, u_RawQuery = [], u_Fragment = []\<rparr>
      else None)"

definition own_pub :: bytes where "own_pub = replicate 32 9"

definition own_sign :: "bytes \<Rightarrow> bytes" where
  "own_sign m = sha256 (own_pub @ m) @ sha256 m"

definition signed_ownership :: "Ownership \<Rightarrow> Ownership" where
  "signed_ownership v = v\<lparr>ow_Signature := b64_encode (own_sign (ownershipPayload v))\<rparr>"

definition own_first :: Ownership where
  "own_first = signed_ownership \<lparr>ow_TenantID = ''t'', ow_ApplicationID = ''a'', ow_EnvironmentID = ''e'',
     ow_Endpoint = ''lwps://one:7000'', ow_OwnerInstanceID = ''i1'', ow_OwnershipEpoch = 1, ow_IssuedAt = 1000000,
     ow_ExpiresAt = 31000000, ow_Version = 1, ow_KeyID = key_id_of own_pub, ow_Signature = []\<rparr>"

definition own_moved :: Ownership where
  "own_moved = signed_ownership \<lparr>ow_TenantID = ''t'', ow_ApplicationID = ''a'', ow_EnvironmentID = ''e'',
     ow_Endpoint = ''lwps://two:7000'', ow_OwnerInstanceID = ''i2'', ow_OwnershipEpoch = 2, ow_IssuedAt = 2000000,
     ow_ExpiresAt = 32000000, ow_Version = 1, ow_KeyID = key_id_of own_pub, ow_Signature = []\<rparr>"

text \<open>An assertion that lives for almost 146,000 years: its times differ by exactly \<open>2^63\<close>.\<close>

definition own_wrapped :: Ownership where
  "own_wrapped = signed_ownership (own_first\<lparr>ow_IssuedAt := - (2 ^ 62), ow_ExpiresAt := 2 ^ 62\<rparr>)"

definition own_sample :: own_env where
  "own_sample = \<lparr>oe_Verify = (\<lambda>pub m sig. sig = sha256 (pub @ m) @ sha256 m),
     oe_net = \<lparr>url_Parse = own_url, url_ParseRequestURI = own_url, netip_ParseAddr = (\<lambda>_. None),
       strings_ToLower = (\<lambda>s. s), strings_EqualFold = (=)\<rparr>,
     oe_ParseIPLoopback = (\<lambda>_. False),
     oe_Ownership = table_codec [(own_first, [1]), (own_moved, [77])],
     oe_KeySet = table_codec [([\<lparr>sk_KeyID = key_id_of own_pub, sk_Algorithm = ''Ed25519'',
       sk_PublicKey = b64_encode own_pub\<rparr>], [2])]\<rparr>"

definition own_net :: http_get where
  "own_net url headers =
     (if headers = [] then Some (200, [2], False) else Some (200, [1], False))"

lemma key_id_nonempty [simp]: "key_id_of k \<noteq> []"
  by (metis hex_encode_inject key_id_of_def length_0_conv length_sha256 length_take list.size(3) hex_encode.simps(1)
      min.absorb2 numeral_le_iff semiring_norm(68,71) zero_neq_numeral take_eq_Nil)

lemma key_id_no_nul: "CHR 0x00 \<notin> set (key_id_of k)"
proof
  assume "CHR 0x00 \<in> set (key_id_of k)"
  then have "hex_char (CHR 0x00)"
    using hex_encode_chars [of "take 8 (sha256 k)"] by (simp add: list_all_iff key_id_of_def)
  then show False
    by (simp add: hex_char_def)
qed

lemma own_sel [simp]:
  "oe_Verify own_sample pub m sig \<longleftrightarrow> sig = sha256 (pub @ m) @ sha256 m"
  "oe_Ownership own_sample = table_codec [(own_first, [1]), (own_moved, [77])]"
  "url_Parse (oe_net own_sample) = own_url" "url_ParseRequestURI (oe_net own_sample) = own_url"
  by (simp_all add: own_sample_def)

lemma own_address:
  "Address own_sample own_first = Ok (''one:7000'', True)" "Address own_sample own_wrapped = Ok (''one:7000'', True)"
  "Address own_sample own_moved = Ok (''two:7000'', True)"
  by (simp_all add: Address_def own_first_def own_moved_def own_wrapped_def signed_ownership_def own_url_def has_prefix_def
      has_suffix_def u_Hostname_def u_Port_def split_url_host_def valid_optional_port_def digit_char_def port_number_ok_def
      atoi_def digits_value_def JoinHostPort_def)

lemma ownershipPayload_signature [simp]: "ownershipPayload (v\<lparr>ow_Signature := s\<rparr>) = ownershipPayload v"
  by (simp add: ownershipPayload_def)

lemma own_verify:
  assumes "ow_Version v = 1" "\<not> ow_OwnershipEpoch v <s 1" "ow_OwnerInstanceID v \<noteq> []" "ow_TenantID v \<noteq> []"
    "ow_ApplicationID v \<noteq> []" "ow_EnvironmentID v \<noteq> []" "\<not> now + minute_us <s ow_IssuedAt v"
    "\<not> ow_ExpiresAt v <=s now" "\<not> minute_us <s ow_ExpiresAt v - ow_IssuedAt v"
    "Address own_sample (signed_ownership v) = Ok a" "ow_KeyID v = key_id_of own_pub"
  shows "verifyOwnership own_sample (signed_ownership v) own_pub now = Ok ()"
  using assms by (simp add: verifyOwnership_def own_sign_def own_pub_def signed_ownership_def)

lemmas own_asserts = own_first_def own_moved_def own_wrapped_def signed_ownership_def word_sless_alt word_sle_eq
  minute_us_def

lemma own_verified_first: "verifyOwnership own_sample own_first own_pub 1000000 = Ok ()"
  using own_address(1) unfolding own_first_def
  by (rule own_verify [rotated 9]) (simp_all add: own_asserts)

lemma own_verified_moved: "verifyOwnership own_sample own_moved own_pub 2000000 = Ok ()"
  using own_address(3) unfolding own_moved_def
  by (rule own_verify [rotated 9]) (simp_all add: own_asserts)

lemma own_verified_wrapped: "verifyOwnership own_sample own_wrapped own_pub 1000000 = Ok ()"
  using own_address(2) unfolding own_wrapped_def
  by (rule own_verify [rotated 9]) (simp_all add: own_asserts)

lemma own_new: "\<exists>r. NewOwnershipResolver own_sample \<lparr>do_ControlURL = ''https://c'', do_APIKey = ''k''\<rparr> = Ok r
    \<and> or_keys r = [] \<and> or_cached r = zero_Ownership"
proof -
  have "trim_space ''https://c'' = ''https://c''" "trim_space ''k'' = ''k''"
    by (simp_all add: trim_space_ident ident_char_def)
  then show ?thesis
    by (simp add: NewOwnershipResolver_def trim_right_def own_url_def has_prefix_def)
qed

lemma own_signingKey:
  "or_keys r = [] \<Longrightarrow> signingKey own_sample own_net (key_id_of own_pub) r
     = (Ok own_pub, r\<lparr>or_keys := [(key_id_of own_pub, own_pub)]\<rparr>)"
  "or_keys r = [(key_id_of own_pub, own_pub)] \<Longrightarrow> signingKey own_sample own_net (key_id_of own_pub) r = (Ok own_pub, r)"
  by (simp_all add: signingKey_def cached_key_def fetchJSON_def own_net_def own_sample_def maxOwnershipResponse_def
      map_get_def Let_def) (simp_all add: own_pub_def)

lemma own_resolve:
  assumes "or_keys r = []" "or_cached r = zero_Ownership"
  shows "Resolve own_sample own_net 1000000 r
    = (Ok own_first, r\<lparr>or_keys := [(key_id_of own_pub, own_pub)], or_cached := own_first\<rparr>)"
proof -
  have "ow_KeyID own_first = key_id_of own_pub"
    by (simp add: own_first_def signed_ownership_def)
  then show ?thesis
    using assms own_signingKey(1) [OF assms(1)] own_verified_first
    by (simp add: Resolve_def fetchOwnership_def fetchJSON_def own_net_def maxOwnershipResponse_def zero_Ownership_def)
qed

theorem resolver_sound_witness:
  "\<exists>r r'. resolver_reachable own_sample r \<and> Resolve own_sample own_net 1000000 r = (Ok own_first, r')
     \<and> or_cached r' = own_first \<and> sint (1000000 :: i64) < sint (ow_ExpiresAt own_first)"
proof -
  obtain r where r: "resolver_reachable own_sample r" "or_keys r = []" "or_cached r = zero_Ownership"
    using own_new resolver_reachable.new by blast
  show ?thesis
    using resolver_sound [OF r(1) own_resolve [OF r(2,3)]] own_resolve [OF r(2,3)] r(1) by auto
qed

text \<open>A run that follows a move: the first owner answers \<open>MOVED\<close>, the second performs the operation.\<close>

definition own_io :: "string owner_io" where
  "own_io = \<lparr>io_net = own_net, io_dial = (\<lambda>address tls. Ok address), io_auth = (\<lambda>_ _. Ok ())\<rparr>"

definition own_operation :: "string \<Rightarrow> (lwp_err, nat) outcome" where
  "own_operation c = (if c = ''one:7000'' then Fail (LWPError 0x0014 ''M'') else Ok 5)"

lemma own_retry:
  assumes "or_keys r = []" "or_cached r = zero_Ownership"
  shows "\<exists>r'. WithOwnerRetry own_sample own_io (1000000, 2000000) True own_operation r
    = (Ok 5, [''one:7000'', ''two:7000''], r')"
proof -
  define r1 where "r1 = r\<lparr>or_keys := [(key_id_of own_pub, own_pub)], or_cached := own_first\<rparr>"
  have dial: "DialOwned own_sample own_io 1000000 True r = (Ok (''one:7000'', own_first), r1)"
    using own_resolve [OF assms] own_address(1) by (simp add: DialOwned_def dialOwnership_def own_io_def r1_def)
  have keys: "signingKey own_sample own_net (key_id_of own_pub) r1 = (Ok own_pub, r1)"
    by (rule own_signingKey(2)) (simp add: r1_def)
  have "own_first \<noteq> own_moved"
    by (simp add: own_first_def own_moved_def signed_ownership_def)
  moreover have "bytes_of_string ''M'' = [77]"
    by (simp add: bytes_of_string_def byte_of_char_def)
  ultimately have "acceptMoved own_sample own_net 2000000 ''M'' own_first r1 = (Ok own_moved, r1\<lparr>or_cached := own_moved\<rparr>)"
    using keys own_verified_moved
    by (simp add: acceptMoved_def maxOwnershipResponse_def)
      (simp add: own_first_def own_moved_def signed_ownership_def sameOwnershipScope_def word_sle_eq)
  with dial show ?thesis
    using own_address(3)
    by (simp add: WithOwnerRetry_def own_operation_def moved_message_def dialOwnership_def own_io_def)
qed

theorem moved_retry_bounded_witness:
  "\<exists>r r' calls. resolver_reachable own_sample r
     \<and> WithOwnerRetry own_sample own_io (1000000, 2000000) True own_operation r = (Ok 5, calls, r')
     \<and> length calls = 2
     \<and> (\<exists>first :: Ownership. sint (ow_OwnershipEpoch first) < sint (ow_OwnershipEpoch (or_cached r')))"
proof -
  obtain r where r: "resolver_reachable own_sample r" "or_keys r = []" "or_cached r = zero_Ownership"
    using own_new resolver_reachable.new by blast
  obtain r' where run: "WithOwnerRetry own_sample own_io (1000000, 2000000) True own_operation r
      = (Ok 5, [''one:7000'', ''two:7000''], r')"
    using own_retry [OF r(2,3)] by blast
  have two: "length [''one:7000'', ''two:7000''] = 2"
    by simp
  obtain first moved :: Ownership where "sint (ow_OwnershipEpoch first) < sint (ow_OwnershipEpoch moved)" "or_cached r' = moved"
    using moved_retry_bounded [OF r(1) run] two by blast
  with run r(1) two show ?thesis
    by blast
qed

text \<open>
  Two limits of the checks. The lifetime check is not a lifetime bound: an assertion whose times
  are \<open>2^63\<close> microseconds apart is accepted. And the payload is ambiguous when a field contains a
  NUL: two assertions for different tenants share it.
\<close>

lemma ownership_window_wraps:
  "verifyOwnership own_sample own_wrapped own_pub 1000000 = Ok ()
   \<and> sint (ow_ExpiresAt own_wrapped) - sint (ow_IssuedAt own_wrapped) = 2 ^ 63"
  using own_verified_wrapped by (simp add: own_wrapped_def signed_ownership_def)

lemma payload_ambiguous:
  "ownershipPayload (own_first\<lparr>ow_TenantID := ''t'' @ nul @ ''u'', ow_ApplicationID := ''a''\<rparr>)
   = ownershipPayload (own_first\<lparr>ow_TenantID := ''t'', ow_ApplicationID := ''u'' @ nul @ ''a''\<rparr>)"
  by (simp add: ownershipPayload_def)

end
