(* ===== verification/Lwp_Session.thy ===== *)
theory Lwp_Session
  imports Lwp_Ops Ownership
begin

text \<open>
  One caller on one LWP connection (\<^verbatim>\<open>lotor/client.go\<close>: \<open>Dial\<close>, \<open>DialTLS\<close>, \<open>newClient\<close>, \<open>do\<close>, \<open>Done\<close>, \<open>Close\<close>), and
  the example program (\<^verbatim>\<open>examples/basic/main.go\<close>) that puts discovery, connection and one operation together. The
  other side of a connection is a \<open>peer\<close>: from the writes it has got so far it decides whether the last one fails and
  what the read loop reads until the caller stops waiting. The operations of \<open>Lwp_Ops\<close> are written over an exchange
  of arguments for arguments; the session shows that the connection is such an exchange.
\<close>

section \<open>A connection and its peer\<close>

record peer =
  pe_Write :: "bytes list \<Rightarrow> string option"
  pe_Reads :: "bytes list \<Rightarrow> (bytes \<times> bool) list"

record 'h session =
  se_client :: "'h lwp_client"
  se_sent :: "bytes list"
  se_shut :: bool

definition new_session :: "'h session" where
  "new_session = \<lparr>se_client = new_client, se_sent = [], se_shut = False\<rparr>"

text \<open>What the read loop does with a sequence of reads: it ends with the first error.\<close>

fun readLoop :: "(bytes \<times> bool) list \<Rightarrow> 'h lwp_client \<Rightarrow> (unit, 'h lwp_client) outcome" where
  "readLoop [] c = Ok c"
| "readLoop ((chunk, err) # reads) c =
     (if cl_closed c then Ok c else bind_outcome (readLoop_read chunk err c) (readLoop reads))"

text \<open>
  \<open>do\<close>: register, write, wait for the response or the timeout. A read loop that is stuck (\<open>Fail\<close>) would leave the
  caller to its timeout, and a panic of its goroutine ends the process; the first never happens.
\<close>

definition do_call ::
  "peer \<Rightarrow> u16 \<Rightarrow> lwp_value list \<Rightarrow> 'h session \<Rightarrow> (lwp_err, lwp_value list) outcome \<times> 'h session" where
  "do_call peer opcode args s =
     (case do_begin (se_client s) of
        (c1, id', ch) \<Rightarrow>
          (case encodeFrame (do_frame id' opcode args) of
             Ok raw \<Rightarrow>
               (let sent = se_sent s @ [raw] in
                case (if se_shut s then Some ''use of closed network connection'' else pe_Write peer sent) of
                  Some e \<Rightarrow> (Fail (ConnError e), s\<lparr>se_client := do_abort id' c1\<rparr>)
                | None \<Rightarrow>
                    (case readLoop (pe_Reads peer sent) c1 of
                       Ok c2 \<Rightarrow>
                         (case chan_recv ch c2 of
                            Some (r, c3) \<Rightarrow> (do_response r, s\<lparr>se_client := c3, se_sent := sent\<rparr>)
                          | None \<Rightarrow> (Fail RequestTimeout, s\<lparr>se_client := c2, se_sent := sent\<rparr>))
                     | Fail _ \<Rightarrow> (Fail RequestTimeout, s\<lparr>se_client := c1, se_sent := sent\<rparr>)
                     | Panic \<Rightarrow> (Panic, s\<lparr>se_client := c1, se_sent := sent\<rparr>)))
           | _ \<Rightarrow> (Panic, s\<lparr>se_client := c1\<rparr>)))"

definition Done :: "'h session \<Rightarrow> bool" where
  "Done s = cl_closed (se_client s)"

text \<open>\<open>Close\<close> makes the pending read fail, so that the read loop ends.\<close>

definition Close :: "'h session \<Rightarrow> (unit, 'h session) outcome" where
  "Close s = bind_outcome (readLoop [([], True)] (se_client s)) (\<lambda>c. Ok (s\<lparr>se_client := c, se_shut := True\<rparr>))"

text \<open>
  A connection is a peer with a session, here one without subscriptions; \<open>conn_do\<close> is \<open>c.do\<close> as the operations use it.
\<close>

type_synonym lwp_conn = "peer \<times> unit session"

definition conn_do :: "lwp_conn \<Rightarrow> lwp_do" where
  "conn_do conn opcode args = fst (do_call (fst conn) opcode args (snd conn))"

definition conn_after :: "u16 \<Rightarrow> lwp_value list \<Rightarrow> lwp_conn \<Rightarrow> lwp_conn" where
  "conn_after opcode args conn = (fst conn, snd (do_call (fst conn) opcode args (snd conn)))"

section \<open>Dialling\<close>

text \<open>
  The wrapped error of a failed handshake keeps its class. \<open>dialer address tls\<close> is the dialler of \<open>net\<close> or of
  \<open>crypto/tls\<close>; the answer is the other side or an error.
\<close>

type_synonym lwp_dialer = "string \<Rightarrow> bool \<Rightarrow> (lwp_err, peer) outcome"

definition hello_args :: "lwp_value list" where
  "hello_args = [VU64 protoVersion, VU64 0, VStr ''lotor-go'']"

definition newClient :: "peer \<Rightarrow> (lwp_err, lwp_conn) outcome" where
  "newClient peer =
     bind_outcome (hello (conn_do (peer, new_session))) (\<lambda>_. Ok (conn_after opHELLO hello_args (peer, new_session)))"

definition Dial :: "lwp_dialer \<Rightarrow> string \<Rightarrow> (lwp_err, lwp_conn) outcome" where
  "Dial dialer addr = bind_outcome (dialer addr False) newClient"

definition DialTLS :: "lwp_dialer \<Rightarrow> string \<Rightarrow> bool \<Rightarrow> (lwp_err, lwp_conn) outcome" where
  "DialTLS dialer addr config =
     (if \<not> config then Fail (OpError ''TLS config is required'') else bind_outcome (dialer addr True) newClient)"

section \<open>The example program\<close>

text \<open>
  \<open>WithOwnerRetry\<close> over these connections: the operation runs on the connection as \<open>Auth\<close> left it. A missing TLS
  configuration is replaced before \<open>DialTLS\<close>, so that it always has one.
\<close>

definition lwp_io :: "http_get \<Rightarrow> lwp_dialer \<Rightarrow> lwp_conn owner_io" where
  "lwp_io net dialer =
     \<lparr>io_net = net,
      io_dial = (\<lambda>address tls. if tls then DialTLS dialer address True else Dial dialer address),
      io_auth = (\<lambda>conn key. Auth (conn_do conn) key)\<rparr>"

datatype exit = Printed bool string | Exited lwp_err | Crashed

definition exit_of :: "(lwp_err, Decision) outcome \<Rightarrow> exit" where
  "exit_of r = (case r of Ok d \<Rightarrow> Printed (dc_Allow d) (dc_Reason d) | Fail e \<Rightarrow> Exited e | Panic \<Rightarrow> Crashed)"

definition example_check :: "lwp_do \<Rightarrow> (lwp_err, Decision) outcome" where
  "example_check exch = AccessCheck exch ''user:42'' ''view'' ''document:99''"

definition example_main ::
  "own_env \<Rightarrow> http_get \<Rightarrow> lwp_dialer \<Rightarrow> i64 \<times> i64 \<Rightarrow> string \<Rightarrow> string \<Rightarrow> exit" where
  "example_main env net dialer nows controlURL apiKey =
     (case NewOwnershipResolver env \<lparr>do_ControlURL = controlURL, do_APIKey = apiKey\<rparr> of
        Fail e \<Rightarrow> Exited e
      | Panic \<Rightarrow> Crashed
      | Ok r \<Rightarrow>
          exit_of (fst (WithOwnerRetry env (lwp_io net dialer :: lwp_conn owner_io) nows False
            (\<lambda>conn. example_check (conn_do (conn_after opAUTH [VStr (do_APIKey (or_options r))] conn))) r)))"

section \<open>The contract of an exchange\<close>

text \<open>
  What the operations rely on: on a connection that is ready, a legal request is answered as \<open>exch\<close> says, and the
  connection stays ready. The lemma says what a caller gets for a sequence of requests.
\<close>

fun calls_on ::
  "(u16 \<Rightarrow> lwp_value list \<Rightarrow> 's \<Rightarrow> (lwp_err, lwp_value list) outcome \<times> 's) \<Rightarrow> (u16 \<times> lwp_value list) list \<Rightarrow> 's \<Rightarrow>
   (lwp_err, lwp_value list) outcome list \<times> 's" where
  "calls_on call [] s = ([], s)"
| "calls_on call ((opcode, args) # rest) s =
     (case call opcode args s of (r, s') \<Rightarrow> (case calls_on call rest s' of (rs, s'') \<Rightarrow> (r # rs, s'')))"

locale lwp_exchange =
  fixes call :: "u16 \<Rightarrow> lwp_value list \<Rightarrow> 's \<Rightarrow> (lwp_err, lwp_value list) outcome \<times> 's"
    and exch :: lwp_do
    and legal :: "u16 \<Rightarrow> lwp_value list \<Rightarrow> bool"
    and ready :: "'s \<Rightarrow> bool"
  assumes answers: "ready s \<Longrightarrow> legal opcode args \<Longrightarrow> fst (call opcode args s) = exch opcode args"
    and stays_ready: "ready s \<Longrightarrow> legal opcode args \<Longrightarrow> ready (snd (call opcode args s))"
begin

lemma calls_answered:
  "ready s \<Longrightarrow> list_all (\<lambda>(opcode, args). legal opcode args) requests \<Longrightarrow>
     fst (calls_on call requests s) = map (\<lambda>(opcode, args). exch opcode args) requests
     \<and> ready (snd (calls_on call requests s))"
proof (induction requests arbitrary: s)
  case (Cons q requests)
  obtain opcode args where q: "q = (opcode, args)" by force
  obtain r s' where call: "call opcode args s = (r, s')" by force
  have "r = exch opcode args" "ready s'"
    using answers [of s opcode args] stays_ready [of s opcode args] Cons.prems q call by auto
  with Cons.IH [of s'] Cons.prems(2) q call show ?case
    by (auto split: prod.split)
qed simp

end

section \<open>A serving peer\<close>

text \<open>
  A server is a function from requests to a status and arguments. A peer serves it when it takes every write and the
  stream it sends in answer holds the response, however it is cut into reads, whatever other frames surround it: events,
  pongs, and responses to requests the client has given up.
\<close>

type_synonym lwp_server = "u16 \<Rightarrow> lwp_value list \<Rightarrow> u16 \<times> lwp_value list"

definition answer :: "lwp_server \<Rightarrow> u32 \<Rightarrow> u16 \<Rightarrow> lwp_value list \<Rightarrow> frame" where
  "answer srv n opcode args = \<lparr>frame_args = snd (srv opcode args), frame_typ = frameRESP, frame_flags = 0, frame_reqID = n,
     frame_opcode = fst (srv opcode args)\<rparr>"

definition responds_to :: "u32 \<Rightarrow> frame \<Rightarrow> bool" where
  "responds_to n f \<longleftrightarrow> frame_typ f = frameRESP \<and> frame_reqID f = n"

definition serves :: "peer \<Rightarrow> lwp_server \<Rightarrow> bool" where
  "serves peer srv \<longleftrightarrow>
     (\<forall>sent n opcode args raw. encodes (do_frame n opcode args) raw \<longrightarrow>
        pe_Write peer (sent @ [raw]) = None
        \<and> (\<exists>pieces before after bss. pe_Reads peer (sent @ [raw]) = map (\<lambda>b. (b, False)) pieces
             \<and> list_all2 encodes (before @ [answer srv n opcode args] @ after) bss \<and> concat pieces = concat bss
             \<and> \<not> list_ex (responds_to n) before))"

definition server_do :: "lwp_server \<Rightarrow> lwp_do" where
  "server_do srv opcode args = do_response (Some (answer srv 0 opcode args))"

definition legal :: "u16 \<Rightarrow> lwp_value list \<Rightarrow> bool" where
  "legal opcode args \<longleftrightarrow> frame_wf (do_frame 0 opcode args) \<and> length (frame_payload (do_frame 0 opcode args)) < 2 ^ 32"

definition ready :: "'h session \<Rightarrow> bool" where
  "ready s \<longleftrightarrow> lwp_inv (se_client s) \<and> \<not> cl_closed (se_client s) \<and> cl_buf (se_client s) = [] \<and> \<not> se_shut s"

lemma servesD:
  assumes "serves peer srv" and "encodes (do_frame n opcode args) raw"
  shows "pe_Write peer (sent @ [raw]) = None
    \<and> (\<exists>pieces before after bss. pe_Reads peer (sent @ [raw]) = map (\<lambda>b. (b, False)) pieces
         \<and> list_all2 encodes (before @ [answer srv n opcode args] @ after) bss \<and> concat pieces = concat bss
         \<and> \<not> list_ex (responds_to n) before)"
  using assms unfolding serves_def by (elim allE impE)

lemma ready_new: "ready new_session"
  using lwp_inv_new by (simp add: ready_def new_session_def new_client_def)

lemma legal_encodes:
  assumes "legal opcode args"
  obtains raw where "encodes (do_frame n opcode args) raw"
proof -
  have "length (frame_payload (do_frame n opcode args)) = length (frame_payload (do_frame 0 opcode args))"
    by (simp add: frame_payload_def do_frame_def be32_def)
  then show ?thesis
    using assms that by (auto simp: legal_def encodes_def encodeFrame_Ok_iff frame_wf_def do_frame_def)
qed

lemma do_response_answer: "do_response (Some (answer srv n opcode args)) = server_do srv opcode args"
  by (simp add: server_do_def do_response_def answer_def)

text \<open>While a request waits its channel stays registered; once answered the frame stays in it until it is received.\<close>

definition waiting :: "u32 \<Rightarrow> nat \<Rightarrow> 'h lwp_client \<Rightarrow> bool" where
  "waiting n i c \<longleftrightarrow> lwp_inv c \<and> map_get (cl_pend c) n = Some i"

definition answered :: "nat \<Rightarrow> frame \<Rightarrow> 'h lwp_client \<Rightarrow> bool" where
  "answered i f c \<longleftrightarrow> lwp_inv c \<and> i < length (cl_chans c) \<and> chan_buf (cl_chans c ! i) = Some f"

lemma process_frame_pend:
  "process_frame f c = Ok c' \<Longrightarrow> \<not> responds_to n f \<Longrightarrow> map_get (cl_pend c') n = map_get (cl_pend c) n"
  by (auto simp: process_frame_def responds_to_def chan_send_def dispatchEvent_def Let_def split: if_splits option.splits)

lemma waiting_kept: "waiting n i c \<Longrightarrow> \<not> responds_to n f \<Longrightarrow> process_frame f c = Ok c' \<Longrightarrow> waiting n i c'"
  using process_frame_inv [of c f] process_frame_pend [of f c c' n] by (auto simp: waiting_def)

lemma waiting_answered:
  assumes "waiting n i c" and "responds_to n f" and "process_frame f c = Ok c'"
  shows "answered i f c'"
proof -
  have "(n, i) \<in> set (cl_pend c)" and inv: "lwp_inv c"
    using assms(1) by (auto simp: waiting_def map_get_SomeD)
  then have "i < length (cl_chans c)"
    using pend_ok_nth [of "cl_chans c" "cl_pend c" n i] by (simp add: lwp_inv_def)
  then show ?thesis
    using assms process_frame_inv [OF inv, of f]
    by (auto simp: answered_def waiting_def responds_to_def process_frame_def chan_send_def Let_def split: if_splits)
qed

lemma answered_kept:
  assumes "answered i f c" and "process_frame g c = Ok c'"
  shows "answered i f c'"
proof -
  have inv: "lwp_inv c" "lwp_inv c'"
    using assms process_frame_inv [of c g] by (auto simp: answered_def)
  have "j \<noteq> i" if "map_get (cl_pend c) k = Some j" for j k
    using pend_ok_nth [OF _ map_get_SomeD [OF that], of "cl_chans c"] inv(1) assms(1) by (auto simp: lwp_inv_def answered_def)
  then show ?thesis
    using assms inv(2)
    by (auto simp: answered_def process_frame_def chan_send_def dispatchEvent_def Let_def split: if_splits option.splits)
qed

lemma process_frames_waiting:
  "waiting n i c \<Longrightarrow> \<not> list_ex (responds_to n) fs \<Longrightarrow> \<exists>c'. process_frames fs c = Ok c' \<and> waiting n i c'"
proof (induction fs arbitrary: c)
  case (Cons f fs)
  obtain c' where "process_frame f c = Ok c'"
    using process_frame_inv [of c f] Cons.prems(1) by (auto simp: waiting_def)
  with Cons.IH [of c'] waiting_kept [OF Cons.prems(1) _ this] Cons.prems(2) show ?case by simp
qed simp

lemma process_frames_answered:
  "answered i f c \<Longrightarrow> \<exists>c'. process_frames fs c = Ok c' \<and> answered i f c'"
proof (induction fs arbitrary: c)
  case (Cons g fs)
  obtain c' where "process_frame g c = Ok c'"
    using process_frame_inv [of c g] Cons.prems(1) by (auto simp: answered_def)
  with Cons.IH [of c'] answered_kept [OF Cons.prems(1) this] show ?case by simp
qed simp

lemma process_frames_closed:
  "lwp_inv c \<Longrightarrow> process_frames fs c = Ok c' \<Longrightarrow> cl_closed c' = cl_closed c"
proof (induction fs arbitrary: c)
  case (Cons f fs)
  obtain c1 where "process_frame f c = Ok c1" "lwp_inv c1" "cl_closed c1 = cl_closed c"
    using process_frame_inv [OF Cons.prems(1), of f] by blast
  with Cons.IH [of c1] Cons.prems(2) show ?case by simp
qed simp

lemma readLoop_read_open:
  assumes "lwp_inv c" and "readLoop_read chunk False c = Ok c'"
  shows "lwp_inv c' \<and> cl_closed c' = cl_closed c"
proof -
  have "lwp_inv (c\<lparr>cl_buf := b\<rparr>)" for b
    using assms(1) by (simp add: lwp_inv_def)
  with drain_inv [of "c\<lparr>cl_buf := cl_buf c @ chunk\<rparr>"] assms show ?thesis
    by (auto simp: readLoop_read_def outcome_simps split: if_splits)
qed

lemma readLoop_clean:
  "lwp_inv c \<Longrightarrow> \<not> cl_closed c \<Longrightarrow> readLoop (map (\<lambda>b. (b, False)) pieces) c = readLoop_chunks pieces c"
proof (induction pieces arbitrary: c)
  case (Cons b pieces)
  show ?case
    using Cons.IH Cons.prems readLoop_read_open [OF Cons.prems(1), of b]
    by (cases "readLoop_read b False c") simp_all
qed simp

lemma same_buf: "cl_buf c = b \<Longrightarrow> c\<lparr>cl_buf := b\<rparr> = c"
  by (metis lwp_client.surjective lwp_client.update_convs(6))

lemma readLoop_serves:
  assumes "waiting n i c" "\<not> cl_closed c" "cl_buf c = []"
    and "list_all2 encodes (before @ [f] @ after) bss" "concat pieces = concat bss"
    and "\<not> list_ex (responds_to n) before" "responds_to n f"
  obtains c' where "readLoop (map (\<lambda>b. (b, False)) pieces) c = Ok c'" "answered i f c'" "\<not> cl_closed c'" "cl_buf c' = []"
proof -
  have inv: "lwp_inv c"
    using assms(1) by (simp add: waiting_def)
  have "[] \<notin> set bss"
    using assms(4) by (auto simp: list_all2_conv_all_nth in_set_conv_nth dest: encodes_nonempty)
  then have "readLoop_chunks pieces c = process_frames (before @ [f] @ after) (c\<lparr>cl_buf := []\<rparr>)"
    using assms(3-5) by (intro readLoop_chunks_frames) (auto intro!: exI [of _ 0] simp: neq_Nil_conv)
  then have loop: "readLoop (map (\<lambda>b. (b, False)) pieces) c = process_frames (before @ f # after) c"
    using readLoop_clean [OF inv assms(2), of pieces] assms(3) by (simp add: same_buf)
  obtain c1 where c1: "process_frames before c = Ok c1" "waiting n i c1"
    using process_frames_waiting [OF assms(1,6)] by blast
  obtain c2 where c2: "process_frame f c1 = Ok c2"
    using process_frame_inv [of c1 f] c1(2) by (auto simp: waiting_def)
  obtain c3 where c3: "process_frames after c2 = Ok c3" "answered i f c3"
    using process_frames_answered waiting_answered [OF c1(2) assms(7) c2] by blast
  have whole: "process_frames (before @ f # after) c = Ok c3"
    using c1 c2 c3 by (simp add: process_frames_append)
  then have "\<not> cl_closed c3" "cl_buf c3 = []"
    using process_frames_closed [OF inv whole] process_frames_buf [OF whole] assms(2,3) by simp_all
  with that loop whole c3(2) show thesis by simp
qed

lemma begin_waiting:
  assumes "lwp_inv c" and "do_begin c = (c', n, i)"
  shows "waiting n i c'" "cl_closed c' = cl_closed c" "cl_buf c' = cl_buf c"
  using assms lwp_inv_begin [OF assms] by (auto simp: waiting_def do_begin_def Let_def)

lemma answered_recv:
  assumes "answered i f c"
  obtains c' where "chan_recv i c = Some (Some f, c')" "lwp_inv c'" "cl_closed c' = cl_closed c" "cl_buf c' = cl_buf c"
proof -
  let ?c = "c\<lparr>cl_chans := (cl_chans c)[i := (cl_chans c ! i)\<lparr>chan_buf := None\<rparr>]\<rparr>"
  have recv: "chan_recv i c = Some (Some f, ?c)"
    using assms by (simp add: answered_def chan_recv_def Let_def)
  moreover have "lwp_inv ?c"
    using assms lwp_inv_recv [OF _ _ recv] by (simp add: answered_def)
  ultimately show thesis
    using that [of ?c] by simp
qed

lemma do_call_serves:
  assumes "serves peer srv" and "ready s" and "legal opcode args"
  shows "fst (do_call peer opcode args s) = server_do srv opcode args \<and> ready (snd (do_call peer opcode args s))"
proof -
  obtain c1 n i where start: "do_begin (se_client s) = (c1, n, i)"
    by (metis prod_cases3)
  have c1: "waiting n i c1" "\<not> cl_closed c1" "cl_buf c1 = []"
    using begin_waiting [OF _ start] assms(2) by (auto simp: ready_def)
  obtain raw where raw: "encodes (do_frame n opcode args) raw"
    using legal_encodes [OF assms(3)] by blast
  obtain pieces before after bss where reads: "pe_Write peer (se_sent s @ [raw]) = None"
      "pe_Reads peer (se_sent s @ [raw]) = map (\<lambda>b. (b, False)) pieces"
      "list_all2 encodes (before @ [answer srv n opcode args] @ after) bss" "concat pieces = concat bss"
      "\<not> list_ex (responds_to n) before"
    using servesD [OF assms(1) raw] by blast
  have "responds_to n (answer srv n opcode args)"
    by (simp add: responds_to_def answer_def)
  then obtain c2 where c2: "readLoop (map (\<lambda>b. (b, False)) pieces) c1 = Ok c2" "answered i (answer srv n opcode args) c2"
      "\<not> cl_closed c2" "cl_buf c2 = []"
    by (rule readLoop_serves [OF c1 reads(3-5)])
  obtain c3 where c3: "chan_recv i c2 = Some (Some (answer srv n opcode args), c3)" "lwp_inv c3"
      "cl_closed c3 = cl_closed c2" "cl_buf c3 = cl_buf c2"
    by (rule answered_recv [OF c2(2)])
  have "do_call peer opcode args s
      = (server_do srv opcode args, s\<lparr>se_client := c3, se_sent := se_sent s @ [raw]\<rparr>)"
    using start raw reads(1,2) c2(1) c3(1) assms(2)
    by (simp add: do_call_def encodes_def ready_def do_response_answer)
  then show ?thesis
    using c2(3,4) c3 assms(2) by (simp add: ready_def)
qed

text \<open>The connection keeps the contract of an exchange, for every server it may be connected to.\<close>

definition connected :: "lwp_server \<Rightarrow> lwp_conn \<Rightarrow> bool" where
  "connected srv conn \<longleftrightarrow> serves (fst conn) srv \<and> ready (snd conn)"

interpretation conn: lwp_exchange "\<lambda>opcode args conn. (conn_do conn opcode args, conn_after opcode args conn)"
    "server_do srv" legal "connected srv" for srv
  by unfold_locales (auto simp: connected_def conn_do_def conn_after_def dest: do_call_serves)

lemma Close_done:
  assumes "lwp_inv (se_client s)" and "legal opcode args"
  obtains s' where "Close s = Ok s'" "Done s'"
    "fst (do_call peer opcode args s') = Fail (ConnError ''use of closed network connection'')"
proof -
  obtain c where c: "readLoop [([], True)] (se_client s) = Ok c" "cl_closed c"
    using read_fail_inv [OF assms(1)] by (cases "cl_closed (se_client s)") (auto simp: readLoop_read_def)
  let ?s = "s\<lparr>se_client := c, se_shut := True\<rparr>"
  obtain c1 n i where start: "do_begin c = (c1, n, i)"
    by (metis prod_cases3)
  obtain raw where "encodes (do_frame n opcode args) raw"
    using legal_encodes [OF assms(2)] by blast
  with start have "fst (do_call peer opcode args ?s) = Fail (ConnError ''use of closed network connection'')"
    by (simp add: do_call_def encodes_def)
  with c that [of ?s] show thesis
    by (simp add: Close_def Done_def del: readLoop.simps)
qed

section \<open>Owners as servers\<close>

text \<open>
  The specification: hosts run servers, a connection is the server behind it, and an operation is a function of the
  answers of that server.
\<close>

type_synonym lwp_hosts = "string \<Rightarrow> bool \<Rightarrow> (lwp_err, lwp_server) outcome"

definition server_io :: "http_get \<Rightarrow> lwp_hosts \<Rightarrow> lwp_server owner_io" where
  "server_io net hosts =
     \<lparr>io_net = net,
      io_dial = (\<lambda>address tls. bind_outcome (hosts address tls) (\<lambda>srv. bind_outcome (hello (server_do srv)) (\<lambda>_. Ok srv))),
      io_auth = (\<lambda>srv key. Auth (server_do srv) key)\<rparr>"

definition example_spec :: "own_env \<Rightarrow> http_get \<Rightarrow> lwp_hosts \<Rightarrow> i64 \<times> i64 \<Rightarrow> string \<Rightarrow> string \<Rightarrow> exit" where
  "example_spec env net hosts nows controlURL apiKey =
     (case NewOwnershipResolver env \<lparr>do_ControlURL = controlURL, do_APIKey = apiKey\<rparr> of
        Fail e \<Rightarrow> Exited e
      | Panic \<Rightarrow> Crashed
      | Ok r \<Rightarrow> exit_of (fst (WithOwnerRetry env (server_io net hosts) nows False (\<lambda>srv. example_check (server_do srv)) r)))"

definition reaches :: "lwp_dialer \<Rightarrow> lwp_hosts \<Rightarrow> bool" where
  "reaches dialer hosts \<longleftrightarrow> (\<forall>address tls. rel_outcome (=) serves (dialer address tls) (hosts address tls))"

lemma hello_legal: "legal opHELLO hello_args"
  by (simp add: legal_def frame_wf_def frame_payload_def do_frame_def hello_args_def maxSliceCap_def be16_def be32_def go_defs
      putUvarint.simps)

lemma check_legal: "legal opACCESSCHECK [VAddr ''user:42'', VStr ''view'', VAddr ''document:99'']"
  by (simp add: legal_def frame_wf_def frame_payload_def do_frame_def maxSliceCap_def be16_def be32_def go_defs
      putUvarint.simps)

lemma newClient_connected:
  assumes "serves peer srv"
  shows "rel_outcome (=) (\<lambda>conn srv. connected srv conn) (newClient peer)
    (bind_outcome (hello (server_do srv)) (\<lambda>_. Ok srv))"
proof -
  have start: "connected srv (peer, new_session)"
    using assms ready_new by (simp add: connected_def)
  note step = conn.answers [OF start hello_legal] conn.stays_ready [OF start hello_legal]
  have "hello (conn_do (peer, new_session)) = hello (server_do srv)"
    using step(1) by (simp add: hello_def hello_args_def)
  then show ?thesis
    using step(2) by (cases "hello (server_do srv)") (simp_all add: newClient_def)
qed

lemma lwp_dial_connected:
  assumes "reaches dialer hosts"
  shows "rel_outcome (=) (\<lambda>conn srv. connected srv conn) (io_dial (lwp_io net dialer) address tls)
    (io_dial (server_io net hosts) address tls)"
proof -
  have "io_dial (lwp_io net dialer) address tls = bind_outcome (dialer address tls) newClient"
    by (simp add: lwp_io_def Dial_def DialTLS_def)
  moreover have "rel_outcome (=) serves (dialer address tls) (hosts address tls)"
    using assms by (simp add: reaches_def)
  then have "rel_outcome (=) (\<lambda>conn srv. connected srv conn) (bind_outcome (dialer address tls) newClient)
      (io_dial (server_io net hosts) address tls)"
    by (cases rule: outcome.rel_cases) (auto simp: server_io_def intro: newClient_connected)
  ultimately show ?thesis by simp
qed

text \<open>\<open>WithOwnerRetry\<close> only looks at connections through dialling, authentication and the operation.\<close>

lemma dialOwnership_sim:
  assumes "\<And>address tls. rel_outcome (=) R (io_dial io address tls) (io_dial io' address tls)"
  shows "rel_outcome (=) R (dialOwnership env io has_tls owner) (dialOwnership env io' has_tls owner)"
  using assms by (auto simp: dialOwnership_def split: outcome.split)

lemma DialOwned_sim:
  assumes "io_net io = io_net io'"
    and "\<And>address tls. rel_outcome (=) R (io_dial io address tls) (io_dial io' address tls)"
  shows "rel_prod (rel_outcome (=) (rel_prod R (=))) (=) (DialOwned env io now has_tls r) (DialOwned env io' now has_tls r)"
proof (cases "Resolve env (io_net io') now r")
  case (Pair res r')
  show ?thesis
  proof (cases res)
    case (Ok owner)
    from dialOwnership_sim [OF assms(2), of env has_tls owner] Pair Ok assms(1) show ?thesis
      by (cases rule: outcome.rel_cases) (auto simp: DialOwned_def)
  qed (use Pair assms(1) in \<open>auto simp: DialOwned_def\<close>)
qed

lemma WithOwnerRetry_sim:
  assumes "io_net io = io_net io'"
    and dial: "\<And>address tls. rel_outcome (=) R (io_dial io address tls) (io_dial io' address tls)"
    and auth: "\<And>c d. R c d \<Longrightarrow> io_auth io c (do_APIKey (or_options r)) = io_auth io' d (do_APIKey (or_options r))"
    and operation: "\<And>c d. R c d \<Longrightarrow> operation c = operation' d"
  shows "rel_prod (=) (rel_prod (list_all2 R) (=)) (WithOwnerRetry env io nows has_tls operation r)
    (WithOwnerRetry env io' nows has_tls operation' r)"
proof -
  obtain d r1 where first: "DialOwned env io' (fst nows) has_tls r = (d, r1)" by force
  have sim: "rel_prod (rel_outcome (=) (rel_prod R (=))) (=) (DialOwned env io (fst nows) has_tls r) (d, r1)"
    using DialOwned_sim [OF assms(1) dial, of env "fst nows" has_tls r] first by simp
  show ?thesis
  proof (cases d)
    case (Ok p)
    obtain c' owner where p: "p = (c', owner)" by force
    obtain c where c: "DialOwned env io (fst nows) has_tls r = (Ok (c, owner), r1)" "R c c'"
      using sim Ok p by (cases "DialOwned env io (fst nows) has_tls r") (auto elim!: outcome.rel_cases)
    have second: "rel_outcome (=) R (dialOwnership env io has_tls moved) (dialOwnership env io' has_tls moved)" for moved
      by (rule dialOwnership_sim [OF dial])
    have moved: "rel_prod (=) (rel_prod (list_all2 R) (=))
        (case dialOwnership env io has_tls owner2 of Fail e3 \<Rightarrow> (Fail e3, [c], r2) | Panic \<Rightarrow> (Panic, [c], r2)
          | Ok c2 \<Rightarrow> (case io_auth io c2 (do_APIKey (or_options r)) of Fail e4 \<Rightarrow> (Fail e4, [c], r2)
              | Panic \<Rightarrow> (Panic, [c], r2) | Ok _ \<Rightarrow> (operation c2, [c, c2], r2)))
        (case dialOwnership env io' has_tls owner2 of Fail e3 \<Rightarrow> (Fail e3, [c'], r2) | Panic \<Rightarrow> (Panic, [c'], r2)
          | Ok c2 \<Rightarrow> (case io_auth io' c2 (do_APIKey (or_options r)) of Fail e4 \<Rightarrow> (Fail e4, [c'], r2)
              | Panic \<Rightarrow> (Panic, [c'], r2) | Ok _ \<Rightarrow> (operation' c2, [c', c2], r2)))" for owner2 r2
      using second [of owner2] c(2) auth operation by (cases rule: outcome.rel_cases) (auto split: outcome.split)
    show ?thesis
    proof (cases "operation' c'")
      case (Fail e)
      show ?thesis
      proof (cases "moved_message e")
        case (Some message)
        obtain a r2 where "acceptMoved env (io_net io') (snd nows) message owner r1 = (a, r2)" by force
        with c first p Ok Fail Some moved assms(1) auth [OF c(2)] operation [OF c(2)] show ?thesis
          by (cases a; cases "io_auth io' c' (do_APIKey (or_options r))") (simp_all add: WithOwnerRetry_def)
      qed (use c first p Ok Fail auth [OF c(2)] operation [OF c(2)] in \<open>simp add: WithOwnerRetry_def split: outcome.split\<close>)
    qed (use c first p Ok auth [OF c(2)] operation [OF c(2)] in \<open>simp_all add: WithOwnerRetry_def split: outcome.split\<close>)
  qed (use sim first in \<open>auto simp: WithOwnerRetry_def elim!: outcome.rel_cases split: prod.split\<close>)
qed

lemma example_operation_sim:
  assumes "connected srv conn" and "legal opAUTH [VStr key]"
  shows "Auth (conn_do conn) key = Auth (server_do srv) key"
    and "example_check (conn_do (conn_after opAUTH [VStr key] conn)) = example_check (server_do srv)"
proof -
  note auth = conn.answers [OF assms] conn.stays_ready [OF assms]
  show "Auth (conn_do conn) key = Auth (server_do srv) key"
    using auth(1) by (simp add: Auth_def)
  show "example_check (conn_do (conn_after opAUTH [VStr key] conn)) = example_check (server_do srv)"
    using conn.answers [OF _ check_legal, of srv "conn_after opAUTH [VStr key] conn"] auth(2)
    by (simp add: example_check_def AccessCheck_def)
qed

lemma NewOwnershipResolver_key:
  "NewOwnershipResolver env options = Ok r \<Longrightarrow> do_APIKey (or_options r) = trim_space (do_APIKey options)"
  by (auto simp: NewOwnershipResolver_def Let_def split: if_splits option.splits)

lemma example_main_spec:
  assumes "reaches dialer hosts" and "legal opAUTH [VStr (trim_space apiKey)]"
  shows "example_main env net dialer nows controlURL apiKey = example_spec env net hosts nows controlURL apiKey"
proof (cases "NewOwnershipResolver env \<lparr>do_ControlURL = controlURL, do_APIKey = apiKey\<rparr>")
  case (Ok r)
  define key where "key = do_APIKey (or_options r)"
  have legal: "legal opAUTH [VStr key]"
    using NewOwnershipResolver_key [OF Ok] assms(2) by (simp add: key_def)
  have "rel_prod (=) (rel_prod (list_all2 (\<lambda>conn srv. connected srv conn)) (=))
      (WithOwnerRetry env (lwp_io net dialer) nows False (\<lambda>conn. example_check (conn_do (conn_after opAUTH [VStr key] conn))) r)
      (WithOwnerRetry env (server_io net hosts) nows False (\<lambda>srv. example_check (server_do srv)) r)"
    by (rule WithOwnerRetry_sim [OF _ lwp_dial_connected [OF assms(1)]])
      (use example_operation_sim [OF _ legal] in \<open>simp_all add: lwp_io_def server_io_def key_def\<close>)
  then show ?thesis
    using Ok by (simp add: example_main_def example_spec_def key_def rel_prod_sel)
qed (simp_all add: example_main_def example_spec_def)

text \<open>A successful operation ran on a connection to an asserted, current owner.\<close>

lemma WithOwnerRetry_Ok:
  assumes "resolver_inv env r" and "WithOwnerRetry env io nows has_tls operation r = (Ok v, calls, r')"
  shows "\<exists>owner c. asserted env owner \<and> dialOwnership env io has_tls owner = Ok c \<and> operation c = Ok v"
proof -
  obtain c first r1 where dial: "DialOwned env io (fst nows) has_tls r = (Ok (c, first), r1)"
    using assms(2) by (auto simp: WithOwnerRetry_def split: outcome.splits prod.splits)
  then have res: "Resolve env (io_net io) (fst nows) r = (Ok first, r1)" and c: "dialOwnership env io has_tls first = Ok c"
    by (auto simp: DialOwned_def split: outcome.splits prod.splits)
  note inv = Resolve_inv [OF assms(1) res]
  have "operation c = Ok v \<or> (\<exists>message moved r2 c2. acceptMoved env (io_net io) (snd nows) message first r1 = (Ok moved, r2)
      \<and> dialOwnership env io has_tls moved = Ok c2 \<and> operation c2 = Ok v)"
    using assms(2) dial by (auto simp: WithOwnerRetry_def split: outcome.splits prod.splits option.splits)
  then show ?thesis
    using inv(3) [OF refl] c acceptMoved_inv(3) [OF inv(1) _ refl] by blast
qed

definition decision_of :: "lwp_value list \<Rightarrow> bool \<times> string" where
  "decision_of a = (if 2 \<le> length a then (asNum (a ! 0) = 1, asStr (a ! 1)) else (False, []))"

lemma example_check_Ok:
  assumes "example_check (server_do srv) = Ok d"
  shows "\<exists>status a. srv opACCESSCHECK [VAddr ''user:42'', VStr ''view'', VAddr ''document:99''] = (status, a)
    \<and> status \<noteq> statusERR \<and> (dc_Allow d, dc_Reason d) = decision_of a"
proof -
  obtain status a where "srv opACCESSCHECK [VAddr ''user:42'', VStr ''view'', VAddr ''document:99''] = (status, a)"
    by force
  with assms show ?thesis
    by (auto simp: example_check_def AccessCheck_def server_do_def do_response_def answer_def decision_of_def zero_Decision_def
        Let_def outcome_simps split: if_splits list.splits)
qed

lemma example_spec_Printed:
  assumes "example_spec env net hosts nows controlURL apiKey = Printed allow reason"
  shows "\<exists>owner address tls srv status a. asserted env owner \<and> Address env owner = Ok (address, tls)
    \<and> hosts address tls = Ok srv
    \<and> srv opACCESSCHECK [VAddr ''user:42'', VStr ''view'', VAddr ''document:99''] = (status, a)
    \<and> status \<noteq> statusERR \<and> (allow, reason) = decision_of a"
proof -
  obtain r d where r: "NewOwnershipResolver env \<lparr>do_ControlURL = controlURL, do_APIKey = apiKey\<rparr> = Ok r"
      and d: "fst (WithOwnerRetry env (server_io net hosts) nows False (\<lambda>srv. example_check (server_do srv)) r) = Ok d"
        "allow = dc_Allow d" "reason = dc_Reason d"
    using assms by (auto simp: example_spec_def exit_of_def split: outcome.splits)
  obtain owner srv where o: "asserted env owner" "dialOwnership env (server_io net hosts) False owner = Ok srv"
      "example_check (server_do srv) = Ok d"
    using WithOwnerRetry_Ok [OF resolver_inv_new [OF r]] d(1) by (metis prod.collapse)
  obtain address tls where "Address env owner = Ok (address, tls)" "hosts address tls = Ok srv"
    using o(2) by (auto simp: dialOwnership_def server_io_def outcome_simps split: outcome.splits if_splits prod.splits)
  with o(1) example_check_Ok [OF o(3)] d(2,3) show ?thesis by blast
qed

section \<open>Properties\<close>

text \<open>
  \<^bold>\<open>C9\<close> When the peers that can be dialled serve the servers at their addresses, however the
  network cuts their streams and whatever events, pongs and stale responses they interleave, the example program behaves
  exactly as its specification, in which an operation is a function of the server's answers: discovery, handshake,
  authentication, the move to another owner and every error included. A decision it prints is the one the server at the
  address of an owner with a verified assertion gave to this very question.
\<close>

theorem example_end_to_end:
  assumes "reaches dialer hosts" and "legal opAUTH [VStr (trim_space apiKey)]"
  shows "example_main env net dialer nows controlURL apiKey = example_spec env net hosts nows controlURL apiKey
    \<and> (\<forall>allow reason. example_main env net dialer nows controlURL apiKey = Printed allow reason \<longrightarrow>
        (\<exists>owner address tls srv status a. asserted env owner \<and> Address env owner = Ok (address, tls)
           \<and> hosts address tls = Ok srv
           \<and> srv opACCESSCHECK [VAddr ''user:42'', VStr ''view'', VAddr ''document:99''] = (status, a)
           \<and> status \<noteq> statusERR \<and> (allow, reason) = decision_of a))"
  using example_main_spec [OF assms] example_spec_Printed by metis

text \<open>A peer that decodes what it is sent and answers each request by one piece per byte.\<close>

definition sample_server :: lwp_server where
  "sample_server opcode args = (statusOK, if opcode = opACCESSCHECK then [VU64 1, VStr ''member''] else [])"

definition serving_peer :: "lwp_server \<Rightarrow> peer" where
  "serving_peer srv =
     \<lparr>pe_Write = (\<lambda>_. None),
      pe_Reads = (\<lambda>sent. case decodeFrame (last sent) of
          Ok (f, _) \<Rightarrow> (case encodeFrame (answer srv (frame_reqID f) (frame_opcode f) (frame_args f)) of
                          Ok bs \<Rightarrow> map (\<lambda>b. ([b], False)) bs | _ \<Rightarrow> [])
        | _ \<Rightarrow> [])\<rparr>"

lemma serving_peer_serves:
  assumes "\<And>n opcode args. \<exists>bs. encodes (answer srv n opcode args) bs"
  shows "serves (serving_peer srv) srv"
  unfolding serves_def
proof (intro allI impI)
  fix sent n opcode args raw
  assume "encodes (do_frame n opcode args) raw"
  from encodes_decode [OF this, of "[]"] have dec: "decodeFrame raw = Ok (do_frame n opcode args, length raw)" by simp
  obtain bs where bs: "encodes (answer srv n opcode args) bs"
    using assms by blast
  have "pe_Reads (serving_peer srv) (sent @ [raw]) = map (\<lambda>b. (b, False)) (map (\<lambda>b. [b]) bs)"
    using dec bs by (simp add: serving_peer_def do_frame_def encodes_def comp_def)
  moreover have "concat (map (\<lambda>b. [b]) bs) = concat [bs]"
    by (induction bs) simp_all
  ultimately show "pe_Write (serving_peer srv) (sent @ [raw]) = None
      \<and> (\<exists>pieces before after bss. pe_Reads (serving_peer srv) (sent @ [raw]) = map (\<lambda>b. (b, False)) pieces
           \<and> list_all2 encodes (before @ [answer srv n opcode args] @ after) bss \<and> concat pieces = concat bss
           \<and> \<not> list_ex (responds_to n) before)"
    using bs by (intro conjI exI [of _ "map (\<lambda>b. [b]) bs"] exI [of _ "[]"] exI [of _ "[bs]"]) (auto simp: serving_peer_def)
qed

lemma sample_server_served: "serves (serving_peer sample_server) sample_server"
proof (rule serving_peer_serves)
  fix n opcode args
  show "\<exists>bs. encodes (answer sample_server n opcode args) bs"
    by (simp add: encodes_def encodeFrame_Ok_iff frame_wf_def frame_payload_def answer_def sample_server_def maxSliceCap_def
        be16_def be32_def putUvarint.simps)
qed

definition sample_dialer :: lwp_dialer where
  "sample_dialer address tls = (if tls then Ok (serving_peer sample_server) else Fail (ConnError ''refused''))"

definition sample_hosts :: lwp_hosts where
  "sample_hosts address tls = (if tls then Ok sample_server else Fail (ConnError ''refused''))"

theorem example_end_to_end_witness:
  "example_main own_sample own_net sample_dialer (1000000, 2000000) ''https://c'' ''k'' = Printed True ''member''
   \<and> asserted own_sample own_first \<and> sample_server opACCESSCHECK [] = (statusOK, [VU64 1, VStr ''member''])"
proof -
  have reach: "reaches sample_dialer sample_hosts"
    using sample_server_served by (simp add: reaches_def sample_dialer_def sample_hosts_def)
  have key: "trim_space ''k'' = ''k''"
    by (simp add: trim_space_ident ident_char_def)
  then have legal: "legal opAUTH [VStr (trim_space ''k'')]"
    by (simp add: legal_def frame_wf_def frame_payload_def do_frame_def maxSliceCap_def be16_def be32_def go_defs
        putUvarint.simps)
  obtain r where r: "NewOwnershipResolver own_sample \<lparr>do_ControlURL = ''https://c'', do_APIKey = ''k''\<rparr> = Ok r"
      "or_keys r = []" "or_cached r = zero_Ownership"
    using own_new by blast
  have ok: "server_do sample_server opcode args = Ok (snd (sample_server opcode args))" for opcode args
    by (simp add: server_do_def do_response_def answer_def sample_server_def go_defs)
  have dial: "DialOwned own_sample (server_io own_net sample_hosts) 1000000 False r
      = (Ok (sample_server, own_first), r\<lparr>or_keys := [(key_id_of own_pub, own_pub)], or_cached := own_first\<rparr>)"
    using own_resolve [OF r(2,3)] own_address(1)
    by (simp add: DialOwned_def dialOwnership_def server_io_def sample_hosts_def hello_def ok)
  have "example_check (server_do sample_server) = Ok (zero_Decision\<lparr>dc_Allow := True, dc_Reason := ''member''\<rparr>)"
    by (simp add: example_check_def AccessCheck_def ok sample_server_def asNum_def asStr_def uint64ToInt64_def
        mask_eq_exp_minus_1)
  then have "example_spec own_sample own_net sample_hosts (1000000, 2000000) ''https://c'' ''k'' = Printed True ''member''"
    using r(1) dial
    by (simp add: example_spec_def WithOwnerRetry_def exit_of_def server_io_def Auth_def ok zero_Decision_def)
  moreover have "asserted own_sample own_first"
    by (rule verifyOwnership_asserted [OF own_verified_first])
  ultimately show ?thesis
    using example_end_to_end [OF reach legal, of own_sample own_net "(1000000, 2000000)" "''https://c''"]
    by (simp add: sample_server_def)
qed

end
