(* ===== verification/Bridge_Protocol.thy ===== *)
theory Bridge_Protocol
  imports Sha256 Go_Json "HOL-Library.Product_Lexorder" "HOL-Library.Multiset"
begin

text \<open>
  \<^verbatim>\<open>bridge/protocol.go\<close>: the messages of the function protocol, the signed envelope, the manifest
  digest, and the checks on identifiers and digests. The primitives of \<open>crypto/ed25519\<close> and the
  codecs of \<open>encoding/json\<close> are the fields of an environment; everything else (base64, hex,
  SHA-256, sorting, string checks) is concrete.
\<close>

section \<open>Constants and errors\<close>

definition ProtocolVersion :: i64 where "ProtocolVersion = 1"

definition MaximumInputBytes :: nat where "MaximumInputBytes = 4194304"

definition MaximumBodyBytes :: nat where "MaximumBodyBytes = 16777216"

definition newline :: string where "newline = [char_of (10 :: nat)]"

definition authorizationPurpose :: string where
  "authorizationPurpose = ''lotor-function-authorization-v1'' @ newline"

definition resultPurpose :: string where
  "resultPurpose = ''lotor-function-result-v1'' @ newline"

definition validationPurpose :: string where
  "validationPurpose = ''lotor-function-validation-v1'' @ newline"

definition resourceAccessPurpose :: string where
  "resourceAccessPurpose = ''lotor-function-resource-access-v1'' @ newline"

datatype bridge_error =
    ErrInvalid | ErrUnauthorized | ErrUnavailable | ErrNotFound | ErrConflict | ErrInProgress
  | ErrOutcomeUnknown

section \<open>Messages\<close>

record Scope =
  sc_TenantID :: string
  sc_ApplicationID :: string
  sc_EnvironmentID :: string
  sc_OwnerResource :: string

record Function =
  fn_Name :: string
  fn_Version :: string
  fn_InputSchemaDigest :: string
  fn_OutputSchemaDigest :: string

record Manifest =
  mf_Functions :: "Function list"
  mf_ProtocolVersion :: i64

record SignedMessage =
  sm_KeyID :: string
  sm_Payload :: string
  sm_Signature :: string

record ValidationRequest =
  vr_Authorization :: SignedMessage

record ResourceAccessRequest =
  ra_Authorization :: SignedMessage
  ra_Resource :: string
  ra_Slot :: string
  ra_PayloadVersion :: i64
  ra_UseCustody :: bool

record Authorization =
  au_Function :: "Function option"
  au_Scope :: Scope
  au_Kind :: string
  au_Issuer :: string
  au_Audience :: string
  au_BindingID :: string
  au_PolicyDigest :: string
  au_ManifestDigest :: string
  au_InputDigest :: string
  au_ID :: string
  au_Nonce :: string
  au_Principal :: string
  au_Resources :: "string list"
  au_Capabilities :: "string list"
  au_Input :: bytes
  au_ExpiresAt :: i64
  au_IssuedAt :: i64
  au_ProtocolVersion :: i64
  au_BindingRevision :: i64

record Result =
  rs_ID :: string
  rs_BindingID :: string
  rs_ManifestDigest :: string
  rs_AuthorizationDigest :: string
  rs_Kind :: string
  rs_Nonce :: string
  rs_ErrorCode :: string
  rs_Output :: bytes
  rs_ProtocolVersion :: i64
  rs_BindingRevision :: i64
  rs_CompletedAt :: i64

section \<open>What the protocol takes from outside\<close>

text \<open>
  The environment: Ed25519 signing and verification, \<open>json.Valid\<close>, the media type
  \<open>mime.ParseMediaType\<close> reads (\<open>None\<close> on an error), \<open>json.Marshal\<close> of a
  \<open>json.RawMessage\<close> (which compacts it and fails on text that is not JSON), and the codecs of the
  protocol's types.
\<close>

record bridge_env =
  ed25519_Sign :: "bytes \<Rightarrow> bytes \<Rightarrow> bytes"
  ed25519_Verify :: "bytes \<Rightarrow> bytes \<Rightarrow> bytes \<Rightarrow> bool"
  json_Valid :: "bytes \<Rightarrow> bool"
  mime_MediaType :: "string \<Rightarrow> string option"
  marshal_RawMessage :: "bytes \<Rightarrow> bytes option"
  js_Functions :: "Function list json_codec"
  js_SignedMessage :: "SignedMessage json_codec"
  js_ValidationRequest :: "ValidationRequest json_codec"
  js_ResourceAccessRequest :: "ResourceAccessRequest json_codec"
  js_Authorization :: "Authorization json_codec"
  js_Result :: "Result json_codec"

text \<open>Key and signature sizes of \<open>crypto/ed25519\<close>.\<close>

abbreviation PrivateKeySize :: nat where "PrivateKeySize \<equiv> 64"
abbreviation PublicKeySize :: nat where "PublicKeySize \<equiv> 32"
abbreviation SignatureSize :: nat where "SignatureSize \<equiv> 64"
abbreviation SeedSize :: nat where "SeedSize \<equiv> 32"

section \<open>Checks on strings\<close>

definition identifier_ok :: "string \<Rightarrow> nat \<Rightarrow> bool" where
  "identifier_ok v maximum \<longleftrightarrow>
     \<not> (length v < 1 \<or> length v > maximum) \<and> list_all (\<lambda>c. \<not> (c \<le> 32 \<or> c \<ge> 127)) (runes v)"

definition isDigest :: "string \<Rightarrow> bool" where
  "isDigest v \<longleftrightarrow> length v = 64 \<and>
     list_all (\<lambda>c. (c \<ge> 97 \<and> c \<le> 102) \<or> (c \<ge> 48 \<and> c \<le> 57)) (runes v)"

definition Digest :: "bytes \<Rightarrow> string" where
  "Digest v = hex_encode (sha256 v)"

section \<open>JSON\<close>

definition strictJSON :: "'a json_codec \<Rightarrow> bytes \<Rightarrow> (bridge_error, 'a) outcome" where
  "strictJSON js raw = (case js_decode_all js raw of None \<Rightarrow> Fail ErrInvalid | Some v \<Rightarrow> Ok v)"

section \<open>The signed envelope\<close>

definition sign ::
  "bridge_env \<Rightarrow> 'a json_codec \<Rightarrow> 'a \<Rightarrow> string \<Rightarrow> string \<Rightarrow> bytes \<Rightarrow> (bridge_error, SignedMessage) outcome"
where
  "sign env js value purpose keyID key =
     (if \<not> identifier_ok keyID 256 \<or> length key \<noteq> PrivateKeySize then Fail ErrInvalid
      else case js_marshal js value of
             None \<Rightarrow> Fail ErrInvalid
           | Some raw \<Rightarrow>
               if length raw > MaximumBodyBytes div 2 then Fail ErrInvalid
               else Ok \<lparr>sm_KeyID = keyID, sm_Payload = b64_encode raw,
                        sm_Signature = b64_encode (ed25519_Sign env key (bytes_of_string purpose @ raw))\<rparr>)"

definition verify ::
  "bridge_env \<Rightarrow> SignedMessage \<Rightarrow> string \<Rightarrow> bytes \<Rightarrow> (bridge_error, bytes) outcome"
where
  "verify env message purpose key =
     (if \<not> identifier_ok (sm_KeyID message) 256 \<or> length key \<noteq> PublicKeySize
         \<or> length (sm_Signature message) \<noteq> b64_encoded_len SignatureSize
         \<or> length (sm_Payload message) > b64_encoded_len (MaximumBodyBytes div 2)
      then Fail ErrUnauthorized
      else case b64_decode True (sm_Payload message) of
             None \<Rightarrow> Fail ErrUnauthorized
           | Some raw \<Rightarrow>
               (case b64_decode True (sm_Signature message) of
                  None \<Rightarrow> Fail ErrUnauthorized
                | Some signature \<Rightarrow>
                    if length signature \<noteq> SignatureSize
                       \<or> \<not> ed25519_Verify env key (bytes_of_string purpose @ raw) signature
                    then Fail ErrUnauthorized
                    else Ok raw))"

section \<open>Operations of the protocol\<close>

text \<open>The order of \<open>sort.Slice\<close> on name and version.\<close>

definition fn_key :: "Function \<Rightarrow> string \<times> string" where
  "fn_key f = (fn_Name f, fn_Version f)"

definition fn_valid :: "Function \<Rightarrow> bool" where
  "fn_valid f \<longleftrightarrow> identifier_ok (fn_Name f) 128 \<and> identifier_ok (fn_Version f) 128
     \<and> isDigest (fn_InputSchemaDigest f) \<and> isDigest (fn_OutputSchemaDigest f)"

text \<open>The loop over the sorted functions: each is checked on its own and against the one before.\<close>

fun fns_checked :: "Function list \<Rightarrow> bool" where
  "fns_checked [] = True"
| "fns_checked [f] = fn_valid f"
| "fns_checked (f # g # fs) =
     (fn_valid f \<and> \<not> (fn_Name g = fn_Name f \<and> fn_Version g = fn_Version f) \<and> fns_checked (g # fs))"

definition ManifestDigest :: "bridge_env \<Rightarrow> Manifest \<Rightarrow> (bridge_error, string) outcome" where
  "ManifestDigest env manifest =
     (if mf_ProtocolVersion manifest \<noteq> ProtocolVersion \<or> length (mf_Functions manifest) < 1
         \<or> length (mf_Functions manifest) > 64
      then Fail ErrInvalid
      else
        let sorted = sort_key fn_key (mf_Functions manifest) in
        if \<not> fns_checked sorted then Fail ErrInvalid
        else case js_marshal (js_Functions env) sorted of
               None \<Rightarrow> Fail ErrInvalid
             | Some functions \<Rightarrow>
                 Ok (Digest (bytes_of_string (''{\"protocol_version\":'' @ itoa (sint ProtocolVersion)
                       @ '',\"functions\":'') @ functions @ bytes_of_string ''}'')))"

definition SignResourceAccess ::
  "bridge_env \<Rightarrow> ResourceAccessRequest \<Rightarrow> string \<Rightarrow> bytes \<Rightarrow> (bridge_error, SignedMessage) outcome" where
  "SignResourceAccess env value keyID key =
     sign env (js_ResourceAccessRequest env) value resourceAccessPurpose keyID key"

definition VerifyResourceAccess ::
  "bridge_env \<Rightarrow> SignedMessage \<Rightarrow> bytes \<Rightarrow> (bridge_error, ResourceAccessRequest) outcome" where
  "VerifyResourceAccess env message key =
     (case verify env message resourceAccessPurpose key of
        Ok raw \<Rightarrow>
          (case strictJSON (js_ResourceAccessRequest env) raw of
             Ok value \<Rightarrow> Ok value | _ \<Rightarrow> Fail ErrUnauthorized)
      | _ \<Rightarrow> Fail ErrUnauthorized)"

definition SignValidation ::
  "bridge_env \<Rightarrow> ValidationRequest \<Rightarrow> string \<Rightarrow> bytes \<Rightarrow> (bridge_error, SignedMessage) outcome" where
  "SignValidation env value keyID key =
     sign env (js_ValidationRequest env) value validationPurpose keyID key"

definition VerifyValidation ::
  "bridge_env \<Rightarrow> SignedMessage \<Rightarrow> bytes \<Rightarrow> (bridge_error, ValidationRequest) outcome" where
  "VerifyValidation env message key =
     (case verify env message validationPurpose key of
        Ok raw \<Rightarrow>
          (case strictJSON (js_ValidationRequest env) raw of
             Ok value \<Rightarrow> Ok value | _ \<Rightarrow> Fail ErrUnauthorized)
      | _ \<Rightarrow> Fail ErrUnauthorized)"

text \<open>The input is compacted before signing and its digest taken of the compacted bytes.\<close>

definition SignAuthorization ::
  "bridge_env \<Rightarrow> Authorization \<Rightarrow> string \<Rightarrow> bytes \<Rightarrow> (bridge_error, SignedMessage) outcome" where
  "SignAuthorization env value keyID key =
     (if length (au_Input value) \<noteq> 0 then
        if length (au_Input value) > MaximumInputBytes \<or> au_InputDigest value \<noteq> Digest (au_Input value)
        then Fail ErrInvalid
        else case marshal_RawMessage env (au_Input value) of
               None \<Rightarrow> Fail ErrInvalid
             | Some compact \<Rightarrow>
                 if length compact > MaximumInputBytes then Fail ErrInvalid
                 else sign env (js_Authorization env)
                        (value\<lparr>au_Input := compact, au_InputDigest := Digest compact\<rparr>)
                        authorizationPurpose keyID key
      else sign env (js_Authorization env) value authorizationPurpose keyID key)"

definition VerifyAuthorization ::
  "bridge_env \<Rightarrow> SignedMessage \<Rightarrow> bytes \<Rightarrow> (bridge_error, Authorization \<times> bytes) outcome" where
  "VerifyAuthorization env message key =
     (case verify env message authorizationPurpose key of
        Ok raw \<Rightarrow>
          (case strictJSON (js_Authorization env) raw of
             Ok value \<Rightarrow> Ok (value, raw) | _ \<Rightarrow> Fail ErrUnauthorized)
      | _ \<Rightarrow> Fail ErrUnauthorized)"

definition SignResult ::
  "bridge_env \<Rightarrow> Result \<Rightarrow> string \<Rightarrow> bytes \<Rightarrow> (bridge_error, SignedMessage) outcome" where
  "SignResult env value keyID key =
     (if length (rs_Output value) > MaximumInputBytes then Fail ErrInvalid
      else if length (rs_Output value) \<noteq> 0 then
        (case marshal_RawMessage env (rs_Output value) of
           None \<Rightarrow> Fail ErrInvalid
         | Some canonical \<Rightarrow>
             if length canonical > MaximumInputBytes then Fail ErrInvalid
             else sign env (js_Result env) (value\<lparr>rs_Output := canonical\<rparr>) resultPurpose keyID key)
      else sign env (js_Result env) value resultPurpose keyID key)"

definition result_bound :: "Result \<Rightarrow> Authorization \<Rightarrow> bytes \<Rightarrow> bool" where
  "result_bound value authorization rawAuthorization \<longleftrightarrow>
     \<not> (rs_ProtocolVersion value \<noteq> ProtocolVersion \<or> rs_ID value \<noteq> au_ID authorization
       \<or> rs_Kind value \<noteq> au_Kind authorization \<or> rs_BindingID value \<noteq> au_BindingID authorization
       \<or> rs_BindingRevision value \<noteq> au_BindingRevision authorization
       \<or> rs_ManifestDigest value \<noteq> au_ManifestDigest authorization
       \<or> rs_AuthorizationDigest value \<noteq> Digest rawAuthorization
       \<or> rs_Nonce value \<noteq> au_Nonce authorization)"

definition VerifyResult ::
  "bridge_env \<Rightarrow> SignedMessage \<Rightarrow> bytes \<Rightarrow> Authorization \<Rightarrow> bytes \<Rightarrow> (bridge_error, Result) outcome" where
  "VerifyResult env message key authorization rawAuthorization =
     (case verify env message resultPurpose key of
        Ok raw \<Rightarrow>
          (case strictJSON (js_Result env) raw of
             Ok value \<Rightarrow>
               if length (rs_Output value) > MaximumInputBytes then Fail ErrUnauthorized
               else if \<not> result_bound value authorization rawAuthorization then Fail ErrUnauthorized
               else Ok value
           | _ \<Rightarrow> Fail ErrUnauthorized)
      | _ \<Rightarrow> Fail ErrUnauthorized)"

section \<open>Facts about the checks\<close>

lemma identifier_ok_iff: "identifier_ok v m \<longleftrightarrow> v \<noteq> [] \<and> length v \<le> m \<and> list_all ident_char v"
  unfolding identifier_ok_def runes_ident by (cases v) auto

lemma identifier_ok_append:
  "identifier_ok u m \<Longrightarrow> identifier_ok v n \<Longrightarrow> ident_char c \<Longrightarrow> identifier_ok (u @ c # v) (m + n + 1)"
  by (auto simp: identifier_ok_iff)

lemma isDigest_iff: "isDigest v \<longleftrightarrow> length v = 64 \<and> list_all hex_char v"
proof -
  have "list_all (\<lambda>c. (c \<ge> 97 \<and> c \<le> 102) \<or> (c \<ge> 48 \<and> c \<le> 57)) (runes v)
      \<longleftrightarrow> list_all (\<lambda>c. (of_char c \<ge> (97 :: nat) \<and> of_char c \<le> (102 :: nat))
            \<or> (of_char c \<ge> (48 :: nat) \<and> of_char c \<le> (57 :: nat))) v"
    by (rule runes_ascii_all) auto
  also have "\<dots> \<longleftrightarrow> list_all hex_char v"
    by (rule list.pred_cong) (auto simp: hex_char_def)
  finally show ?thesis
    by (simp add: isDigest_def)
qed

lemma isDigest_Digest [simp]: "isDigest (Digest v)"
  by (simp add: isDigest_iff Digest_def hex_encode_chars)

lemma isDigest_hex: "isDigest v \<longleftrightarrow> (\<exists>bs. hex_decode v = Some bs \<and> length bs = 32 \<and> hex_encode bs = v)"
proof
  assume "isDigest v"
  then have v: "length v = 64" "list_all hex_char v"
    by (simp_all add: isDigest_iff)
  then obtain bs where bs: "hex_decode v = Some bs" "hex_encode bs = v"
    using hex_encode_decode [of v] by auto
  then have "length bs = 32"
    using hex_decode_length [of v bs] v by simp
  with bs show "\<exists>bs. hex_decode v = Some bs \<and> length bs = 32 \<and> hex_encode bs = v"
    by blast
next
  assume "\<exists>bs. hex_decode v = Some bs \<and> length bs = 32 \<and> hex_encode bs = v"
  then show "isDigest v"
    using hex_encode_chars by (auto simp: isDigest_iff)
qed

lemma isDigest_length: "isDigest v \<Longrightarrow> length v = 64"
  by (simp add: isDigest_def)

section \<open>Facts about the envelope\<close>

text \<open>
  What \<open>crypto/ed25519\<close> promises of a key pair.
\<close>

definition key_pair :: "bridge_env \<Rightarrow> bytes \<Rightarrow> bytes \<Rightarrow> bool" where
  "key_pair env priv pub \<longleftrightarrow> length priv = PrivateKeySize \<and> length pub = PublicKeySize \<and>
     (\<forall>m. length (ed25519_Sign env priv m) = SignatureSize \<and> ed25519_Verify env pub m (ed25519_Sign env priv m))"

lemma sign_Ok_iff:
  "sign env js v purpose keyID key = Ok m \<longleftrightarrow>
     identifier_ok keyID 256 \<and> length key = PrivateKeySize \<and>
     (\<exists>raw. js_marshal js v = Some raw \<and> length raw \<le> MaximumBodyBytes div 2 \<and>
        m = \<lparr>sm_KeyID = keyID, sm_Payload = b64_encode raw,
             sm_Signature = b64_encode (ed25519_Sign env key (bytes_of_string purpose @ raw))\<rparr>)"
  by (auto simp: sign_def split: option.splits)

lemma verify_Ok_iff:
  "verify env m purpose key = Ok raw \<longleftrightarrow>
     identifier_ok (sm_KeyID m) 256 \<and> length key = PublicKeySize
     \<and> length (sm_Signature m) = b64_encoded_len SignatureSize
     \<and> length (sm_Payload m) \<le> b64_encoded_len (MaximumBodyBytes div 2)
     \<and> b64_decode True (sm_Payload m) = Some raw
     \<and> (\<exists>signature. b64_decode True (sm_Signature m) = Some signature \<and> length signature = SignatureSize
          \<and> ed25519_Verify env key (bytes_of_string purpose @ raw) signature)"
  by (auto simp: verify_def split: option.splits)

lemma verify_not_Panic: "verify env m purpose key \<noteq> Panic"
  by (simp add: verify_def split: option.splits)

lemma strictJSON_faithful:
  "codec_faithful js v \<Longrightarrow> js_marshal js v = Some raw \<Longrightarrow> strictJSON js raw = Ok v"
  by (simp add: codec_faithful_def strictJSON_def js_decode_all_def)

lemma sign_verify:
  assumes "key_pair env priv pub" and "sign env js v purpose keyID priv = Ok m" and "codec_faithful js v"
  shows "\<exists>raw. js_marshal js v = Some raw \<and> verify env m purpose pub = Ok raw \<and> strictJSON js raw = Ok v"
proof -
  obtain raw where raw: "js_marshal js v = Some raw" "length raw \<le> MaximumBodyBytes div 2"
    "identifier_ok keyID 256"
    "m = \<lparr>sm_KeyID = keyID, sm_Payload = b64_encode raw,
          sm_Signature = b64_encode (ed25519_Sign env priv (bytes_of_string purpose @ raw))\<rparr>"
    using assms(2) by (auto simp: sign_Ok_iff)
  then have "verify env m purpose pub = Ok raw"
    using assms(1) by (simp add: verify_Ok_iff key_pair_def length_b64_encode b64_encoded_len_mono)
  with raw assms(3) show ?thesis
    by (auto intro: strictJSON_faithful)
qed

text \<open>A verified message is bound to its purpose: the signature covers the purpose and the payload.\<close>

lemma VerifyAuthorization_Ok_iff:
  "VerifyAuthorization env m key = Ok (v, raw) \<longleftrightarrow>
     verify env m authorizationPurpose key = Ok raw \<and> strictJSON (js_Authorization env) raw = Ok v"
  by (auto simp: VerifyAuthorization_def split: outcome.splits)

lemma VerifyResult_Ok_iff:
  "VerifyResult env m key a rawA = Ok v \<longleftrightarrow>
     (\<exists>raw. verify env m resultPurpose key = Ok raw \<and> strictJSON (js_Result env) raw = Ok v)
     \<and> length (rs_Output v) \<le> MaximumInputBytes \<and> result_bound v a rawA"
  by (auto simp: VerifyResult_def split: outcome.splits if_splits)

lemma VerifyResult_cases:
  "VerifyResult env m key a rawA = Fail ErrUnauthorized \<or> (\<exists>v. VerifyResult env m key a rawA = Ok v)"
  by (auto simp: VerifyResult_def split: outcome.splits)

section \<open>Facts about the manifest\<close>

lemma fns_checked_valid: "fns_checked fs \<Longrightarrow> f \<in> set fs \<Longrightarrow> fn_valid f"
  by (induction fs rule: fns_checked.induct) auto

lemma fns_checked_sorted_distinct:
  "sorted (map fn_key fs) \<Longrightarrow>
     fns_checked fs \<longleftrightarrow> list_all fn_valid fs \<and> distinct (map fn_key fs)"
proof (induction fs rule: fns_checked.induct)
  case (3 f g fs)
  then have IH: "fns_checked (g # fs) \<longleftrightarrow> list_all fn_valid (g # fs) \<and> distinct (map fn_key (g # fs))"
    by simp
  have "fn_key f \<le> fn_key g" "\<forall>h \<in> set fs. fn_key g \<le> fn_key h"
    using 3 by auto
  then have "fn_key f \<noteq> fn_key g \<Longrightarrow> fn_key f \<notin> fn_key ` set fs"
    by (metis antisym imageE)
  moreover have "fn_key g = fn_key f \<longleftrightarrow> fn_Name g = fn_Name f \<and> fn_Version g = fn_Version f"
    by (simp add: fn_key_def)
  ultimately show ?case
    unfolding fns_checked.simps IH by auto
qed auto

lemma distinct_map_sort_key: "distinct (map f (sort_key f xs)) \<longleftrightarrow> distinct (map f xs)"
  by (metis mset_map mset_sort mset_eq_imp_distinct_iff)

lemma ManifestDigest_Ok_valid:
  "ManifestDigest env mf = Ok d \<Longrightarrow>
     isDigest d \<and> mf_Functions mf \<noteq> [] \<and> list_all fn_valid (mf_Functions mf) \<and> distinct (map fn_key (mf_Functions mf))"
proof -
  assume "ManifestDigest env mf = Ok d"
  then have "isDigest d \<and> mf_Functions mf \<noteq> [] \<and> fns_checked (sort_key fn_key (mf_Functions mf))"
    by (auto simp: ManifestDigest_def Let_def split: if_splits option.splits)
  then show ?thesis
    by (auto simp: fns_checked_sorted_distinct distinct_map_sort_key list_all_iff)
qed

lemma ManifestDigest_cases: "ManifestDigest env mf = Fail ErrInvalid \<or> (\<exists>d. ManifestDigest env mf = Ok d)"
  by (simp add: ManifestDigest_def Let_def split: option.splits)

section \<open>Properties\<close>

text \<open>
  Registration order is not semantic: two manifests of the same
  version whose functions are the same up to order have the same digest, or are both refused.
\<close>

lemma manifest_order_irrelevant:
  assumes "mset (mf_Functions m1) = mset (mf_Functions m2)"
    and "mf_ProtocolVersion m1 = mf_ProtocolVersion m2"
  shows "ManifestDigest env m1 = ManifestDigest env m2"
proof (cases "distinct (map fn_key (mf_Functions m1))")
  case True
  have "sort_key fn_key (mf_Functions m1) = sort_key fn_key (mf_Functions m2)"
  proof (rule map_sorted_distinct_set_unique)
    have eq: "set (mf_Functions m1) = set (mf_Functions m2)"
      "distinct (map fn_key (mf_Functions m2))"
      using assms True by (metis mset_eq_setD, metis mset_eq_imp_distinct_iff mset_map)
    then show "inj_on fn_key (set (sort_key fn_key (mf_Functions m1)) \<union> set (sort_key fn_key (mf_Functions m2)))"
      using True by (simp add: distinct_map)
    show "distinct (map fn_key (sort_key fn_key (mf_Functions m1)))"
      "distinct (map fn_key (sort_key fn_key (mf_Functions m2)))"
      using True eq by (simp_all add: distinct_map_sort_key)
    show "set (sort_key fn_key (mf_Functions m1)) = set (sort_key fn_key (mf_Functions m2))"
      using eq by simp
  qed simp_all
  moreover have "length (mf_Functions m1) = length (mf_Functions m2)"
    using assms by (metis size_mset)
  ultimately show ?thesis
    using assms by (simp add: ManifestDigest_def)
next
  case False
  then have "\<not> distinct (map fn_key (mf_Functions m2))"
    using assms by (metis mset_eq_imp_distinct_iff mset_map)
  with False show ?thesis
    by (metis ManifestDigest_Ok_valid ManifestDigest_cases)
qed

lemma SignResult_VerifyResult:
  assumes "key_pair env priv pub" and "SignResult env value keyID priv = Ok m"
    and "\<And>out. rs_Output value = [] \<and> out = [] \<or> marshal_RawMessage env (rs_Output value) = Some out \<Longrightarrow>
           codec_faithful (js_Result env) (value\<lparr>rs_Output := out\<rparr>)"
    and "result_bound value authorization rawAuthorization"
  shows "\<exists>output. (rs_Output value = [] \<and> output = []
            \<or> marshal_RawMessage env (rs_Output value) = Some output)
           \<and> VerifyResult env m pub authorization rawAuthorization = Ok (value\<lparr>rs_Output := output\<rparr>)"
proof -
  have accept: "VerifyResult env m pub authorization rawAuthorization = Ok (value\<lparr>rs_Output := out\<rparr>)"
    if "sign env (js_Result env) (value\<lparr>rs_Output := out\<rparr>) resultPurpose keyID priv = Ok m"
      and "length out \<le> MaximumInputBytes"
        "rs_Output value = [] \<and> out = [] \<or> marshal_RawMessage env (rs_Output value) = Some out"
    for out
    using sign_verify [OF assms(1) that(1) assms(3)] that assms(4)
    by (auto simp: VerifyResult_Ok_iff result_bound_def)
  show ?thesis
  proof (cases "rs_Output value = []")
    case True
    then have "value = value\<lparr>rs_Output := []\<rparr>"
      by (cases "value") simp
    with True assms(2) accept [of "[]"] show ?thesis
      by (auto simp: SignResult_def)
  next
    case False
    then obtain out where "marshal_RawMessage env (rs_Output value) = Some out"
      "length out \<le> MaximumInputBytes"
      "sign env (js_Result env) (value\<lparr>rs_Output := out\<rparr>) resultPurpose keyID priv = Ok m"
      using assms(2) by (auto simp: SignResult_def split: if_splits option.splits)
    with accept show ?thesis
      by auto
  qed
qed

text \<open>
  A result the runtime signs is accepted by the caller it answers: with the
  two halves of one key pair, a codec that decodes the encoding of this result, and a result bound to the
  authorization (same id, kind, binding, revision, manifest, nonce, and the digest of the
  authorization's bytes), \<open>VerifyResult\<close> of the signed message gives back the result, its output
  in compact form.
\<close>

lemma result_roundtrip:
  assumes "key_pair env priv pub" and "SignResult env value keyID priv = Ok m"
    and "\<And>out. rs_Output value = [] \<and> out = [] \<or> marshal_RawMessage env (rs_Output value) = Some out \<Longrightarrow>
           codec_faithful (js_Result env) (value\<lparr>rs_Output := out\<rparr>)"
    and "result_bound value authorization rawAuthorization"
  shows "\<exists>output. (rs_Output value = [] \<and> output = []
            \<or> marshal_RawMessage env (rs_Output value) = Some output)
           \<and> VerifyResult env m pub authorization rawAuthorization = Ok (value\<lparr>rs_Output := output\<rparr>)"
  using assms by (rule SignResult_VerifyResult)

section \<open>A concrete environment\<close>

text \<open>
  An environment in which the hypotheses above hold, for the concrete instances below: a
  keyed-hash stand-in for Ed25519 whose public key is the second half of the private key, as in
  \<open>crypto/ed25519\<close>, and codecs given by finite tables.
\<close>

definition sample_sign :: "bytes \<Rightarrow> bytes \<Rightarrow> bytes" where
  "sample_sign priv m = sha256 (drop 32 priv @ m) @ sha256 m"

definition sample_verify :: "bytes \<Rightarrow> bytes \<Rightarrow> bytes \<Rightarrow> bool" where
  "sample_verify pub m sig \<longleftrightarrow> sig = sha256 (pub @ m) @ sha256 m"

definition sample_priv :: bytes where "sample_priv = replicate 64 7"
definition sample_pub :: bytes where "sample_pub = replicate 32 7"

definition sample_function :: Function where
  "sample_function = \<lparr>fn_Name = ''sum'', fn_Version = ''1'',
     fn_InputSchemaDigest = Digest [1], fn_OutputSchemaDigest = Digest [2]\<rparr>"

definition sample_result :: Result where
  "sample_result = \<lparr>rs_ID = ''op-1'', rs_BindingID = ''binding'', rs_ManifestDigest = Digest [3],
     rs_AuthorizationDigest = Digest [4], rs_Kind = ''invocation'', rs_Nonce = [], rs_ErrorCode = [],
     rs_Output = [52, 50], rs_ProtocolVersion = 1, rs_BindingRevision = 1, rs_CompletedAt = 1000\<rparr>"

definition sample_authorization :: Authorization where
  "sample_authorization = \<lparr>au_Function = Some sample_function,
     au_Scope = \<lparr>sc_TenantID = ''t'', sc_ApplicationID = ''a'', sc_EnvironmentID = ''e'', sc_OwnerResource = ''o''\<rparr>,
     au_Kind = ''invocation'', au_Issuer = ''control'', au_Audience = ''runtime'', au_BindingID = ''binding'',
     au_PolicyDigest = [], au_ManifestDigest = Digest [3], au_InputDigest = Digest [49], au_ID = ''op-1'',
     au_Nonce = [], au_Principal = ''user'', au_Resources = [''r''], au_Capabilities = [''c''], au_Input = [49],
     au_ExpiresAt = 1100, au_IssuedAt = 990, au_ProtocolVersion = 1, au_BindingRevision = 1\<rparr>"

definition sample_env :: bridge_env where
  "sample_env = \<lparr>ed25519_Sign = sample_sign, ed25519_Verify = sample_verify,
     json_Valid = (\<lambda>b. b \<noteq> []), mime_MediaType = Some, marshal_RawMessage = (\<lambda>b. if b = [] then None else Some b),
     js_Functions = table_codec [([sample_function], [91, 93])],
     js_SignedMessage = table_codec [],
     js_ValidationRequest = table_codec [], js_ResourceAccessRequest = table_codec [],
     js_Authorization = table_codec [(sample_authorization, [4])],
     js_Result = table_codec [(sample_result, [5])]\<rparr>"

lemma sample_env_sel [simp]:
  "ed25519_Sign sample_env = sample_sign" "ed25519_Verify sample_env = sample_verify"
  "json_Valid sample_env b \<longleftrightarrow> b \<noteq> []" "mime_MediaType sample_env = Some"
  "marshal_RawMessage sample_env b = (if b = [] then None else Some b)"
  "js_Functions sample_env = table_codec [([sample_function], [91, 93])]"
  "js_SignedMessage sample_env = table_codec []"
  "js_Authorization sample_env = table_codec [(sample_authorization, [4])]"
  "js_Result sample_env = table_codec [(sample_result, [5])]"
  by (simp_all add: sample_env_def)

lemma sample_key_pair: "key_pair sample_env sample_priv sample_pub"
  by (simp add: key_pair_def sample_priv_def sample_pub_def sample_sign_def sample_verify_def)

lemma identifier_ok_sample [simp]: "identifier_ok ''k1'' 256"
  by (simp add: identifier_ok_iff ident_char_def)

end
