(* ===== verification/Bridge_Transport.thy ===== *)
theory Bridge_Transport
  imports Bridge_Protocol Go_Net
begin

text \<open>
  \<^verbatim>\<open>bridge/transport/https.go\<close>: the dispatcher of signed messages. The destination policy (which
  endpoints are accepted, which addresses are public, what is dialled) and the exchange of one
  message are modelled; the sockets, the TLS handshake and the resolver are arguments.
\<close>

section \<open>Public addresses\<close>

definition ip4 :: "nat \<Rightarrow> nat \<Rightarrow> nat \<Rightarrow> nat \<Rightarrow> 32 word" where
  "ip4 a b c d = word_of_nat (((a * 256 + b) * 256 + c) * 256 + d)"

definition blockedPrefixes :: "ip_prefix list" where
  "blockedPrefixes =
     [P4 (ip4 0 0 0 0) 8, P4 (ip4 100 64 0 0) 10, P4 (ip4 192 0 0 0) 24, P4 (ip4 192 0 2 0) 24,
      P4 (ip4 198 18 0 0) 15, P4 (ip4 198 51 100 0) 24, P4 (ip4 203 0 113 0) 24, P4 (ip4 240 0 0 0) 4,
      P6 (push_bit 96 0x20010DB8) 32, P6 (push_bit 112 0x2002) 16, P6 (push_bit 96 0x64FF9B) 96,
      P6 (push_bit 80 0x64FF9B0001) 48, P6 0 96, P6 (push_bit 112 0x2001) 32, P6 (push_bit 112 0xFEC0) 10]"

definition publicAddress :: "ip_addr \<Rightarrow> bool" where
  "publicAddress address =
     (let a = ip_Unmap address in
      \<not> (a = NoAddr \<or> \<not> ip_IsGlobalUnicast a \<or> ip_IsPrivate a \<or> ip_IsLoopback a \<or> ip_IsLinkLocalUnicast a)
      \<and> list_all (\<lambda>p. \<not> prefix_contains p a) blockedPrefixes)"

section \<open>Endpoints\<close>

definition ValidateEndpoint :: "net_env \<Rightarrow> string \<Rightarrow> (bridge_error, go_url) outcome" where
  "ValidateEndpoint net endpoint =
     (if endpoint \<noteq> trim_space endpoint \<or> length endpoint > 2048 \<or> str_contains endpoint ''#'' then Fail ErrInvalid
      else case url_Parse net endpoint of
             None \<Rightarrow> Fail ErrInvalid
           | Some u \<Rightarrow>
               if u_Scheme u \<noteq> ''https'' \<or> u_Hostname u = [] \<or> u_User u \<or> u_RawQuery u \<noteq> [] \<or> u_ForceQuery u
                  \<or> u_Fragment u \<noteq> [] \<or> u_Opaque u \<noteq> [] \<or> u_RawPath u \<noteq> []
               then Fail ErrInvalid
               else if str_contains (u_Path u) [CHR 0x5C] \<or> str_contains (u_Path u) ''//'' then Fail ErrInvalid
               else if \<not> list_all (\<lambda>seg. seg \<noteq> ''.'' \<and> seg \<noteq> ''..'') (split_on (CHR ''/'') (u_Path u)) then Fail ErrInvalid
               else
                 let host = trim_suffix (strings_ToLower net (u_Hostname u)) ''.'' in
                 if host = ''localhost'' \<or> has_suffix host ''.localhost'' \<or> has_suffix host ''.local''
                    \<or> str_contains host ''%''
                 then Fail ErrInvalid
                 else if has_suffix (u_Host u) '':'' then Fail ErrInvalid
                 else if u_Port u \<noteq> [] \<and> (case atoi (u_Port u) of None \<Rightarrow> True | Some n \<Rightarrow> n < 1 \<or> n > 65535)
                 then Fail ErrInvalid
                 else (case netip_ParseAddr net host of
                         Some address \<Rightarrow> if \<not> publicAddress address then Fail ErrInvalid else Ok u
                       | None \<Rightarrow> Ok u))"

section \<open>Dialling\<close>

text \<open>The loop over the addresses: the first that connects, and the attempts made.\<close>

fun dial_each ::
  "(ip_addr \<Rightarrow> string \<Rightarrow> 'c option) \<Rightarrow> string \<Rightarrow> ip_addr list \<Rightarrow> (bridge_error, 'c) outcome \<times> ip_addr list" where
  "dial_each dial port [] = (Fail ErrUnavailable, [])"
| "dial_each dial port (ip # ips) =
     (case dial (ip_Unmap ip) port of
        Some c \<Rightarrow> (Ok c, [ip_Unmap ip])
      | None \<Rightarrow> (case dial_each dial port ips of (r, tried) \<Rightarrow> (r, ip_Unmap ip # tried)))"

definition publicDialer ::
  "net_env \<Rightarrow> (string \<Rightarrow> ip_addr list option) \<Rightarrow> (ip_addr \<Rightarrow> string \<Rightarrow> 'c option) \<Rightarrow> string \<Rightarrow> string \<Rightarrow>
   (bridge_error, 'c) outcome \<times> ip_addr list" where
  "publicDialer net lookup dial network address =
     (if network \<noteq> ''tcp'' then (Fail ErrUnavailable, [])
      else case SplitHostPort address of
             None \<Rightarrow> (Fail ErrUnavailable, [])
           | Some (host, port) \<Rightarrow>
               (case (case netip_ParseAddr net host of Some literal \<Rightarrow> Some [literal] | None \<Rightarrow> lookup host) of
                  None \<Rightarrow> (Fail ErrUnavailable, [])
                | Some addresses \<Rightarrow>
                    if length addresses < 1 \<or> length addresses > 16 then (Fail ErrUnavailable, [])
                    else if \<not> list_all publicAddress addresses then (Fail ErrUnavailable, [])
                    else dial_each dial port addresses))"

section \<open>The dispatcher\<close>

text \<open>The fields of a \<open>tls.Config\<close> that \<open>New\<close> looks at.\<close>

record tls_config =
  tc_InsecureSkipVerify :: bool
  tc_ServerName :: string
  tc_MinVersion :: u16
  tc_MaxVersion :: u16
  tc_Certificates :: nat
  tc_HasGetClientCertificate :: bool

abbreviation VersionTLS12 :: u16 where "VersionTLS12 \<equiv> 0x0303"

record HTTPSDispatcher =
  hd_tls :: tls_config
  hd_mutualTLS :: bool

definition default_tls :: tls_config where
  "default_tls = \<lparr>tc_InsecureSkipVerify = False, tc_ServerName = [], tc_MinVersion = VersionTLS12, tc_MaxVersion = 0,
     tc_Certificates = 0, tc_HasGetClientCertificate = False\<rparr>"

definition new_HTTPSDispatcher :: "tls_config option \<Rightarrow> (bridge_error, HTTPSDispatcher) outcome" where
  "new_HTTPSDispatcher configuration =
     (let build = (\<lambda>c. Ok \<lparr>hd_tls = c, hd_mutualTLS = (tc_Certificates c > 0 \<or> tc_HasGetClientCertificate c)\<rparr>) in
      case configuration of
        None \<Rightarrow> build default_tls
      | Some c \<Rightarrow>
          if tc_InsecureSkipVerify c \<or> tc_ServerName c \<noteq> [] then Fail ErrInvalid
          else
            let c' = (if tc_MinVersion c < VersionTLS12 then c\<lparr>tc_MinVersion := VersionTLS12\<rparr> else c) in
            if tc_MaxVersion c' \<noteq> 0 \<and> tc_MaxVersion c' < tc_MinVersion c' then Fail ErrInvalid
            else build c')"

definition MutualTLSConfigured :: "HTTPSDispatcher \<Rightarrow> bool" where
  "MutualTLSConfigured d = hd_mutualTLS d"

text \<open>
  \<open>requiredMTLSDial\<close>: a connection counts only when the handshake succeeded and the client presented
  a certificate. \<open>handshake\<close> tells both for the server name.
\<close>

definition requiredMTLSDial ::
  "(string \<Rightarrow> string \<Rightarrow> 'c option) \<Rightarrow> ('c \<Rightarrow> string \<Rightarrow> ('t \<times> bool) option) \<Rightarrow> string \<Rightarrow> string \<Rightarrow> (bridge_error, 't) outcome" where
  "requiredMTLSDial dial handshake network address =
     (case dial network address of
        None \<Rightarrow> Fail ErrUnavailable
      | Some connection \<Rightarrow>
          (case SplitHostPort address of
             None \<Rightarrow> Fail ErrUnavailable
           | Some (host, port) \<Rightarrow>
               (case handshake connection host of
                  None \<Rightarrow> Fail ErrUnavailable
                | Some (secure, presented) \<Rightarrow> if presented then Ok secure else Fail ErrUnavailable)))"

text \<open>
  One exchange. A request is its URL, headers and body; a reply has a status, the two headers the
  code reads, a body and whether reading it failed.
\<close>

record http_post =
  hp_url :: go_url
  hp_headers :: "(string \<times> string) list"
  hp_body :: bytes

record http_answer =
  ha_Status :: nat
  ha_ContentType :: string
  ha_ContentEncoding :: string
  ha_Body :: bytes
  ha_BodyError :: bool

type_synonym http_do = "http_post \<Rightarrow> http_answer option"

definition json_headers :: "(string \<times> string) list" where
  "json_headers = [(''Content-Type'', ''application/json''), (''Accept'', ''application/json'')]"

definition function_url :: "go_url \<Rightarrow> string \<Rightarrow> go_url" where
  "function_url u operation = u\<lparr>u_Path := trim_right (CHR ''/'') (u_Path u) @ ''/v1/functions/'' @ operation\<rparr>"

definition read_answer :: "bridge_env \<Rightarrow> http_answer \<Rightarrow> (bridge_error, SignedMessage) outcome" where
  "read_answer env a =
     (if mime_MediaType env (ha_ContentType a) \<noteq> Some ''application/json'' \<or> ha_Status a \<noteq> 200
         \<or> ha_ContentEncoding a \<noteq> []
      then Fail ErrUnavailable
      else if ha_BodyError a \<or> length (ha_Body a) > MaximumBodyBytes then Fail ErrUnavailable
      else case js_decode_all (js_SignedMessage env) (ha_Body a) of
             None \<Rightarrow> Fail ErrUnavailable
           | Some m \<Rightarrow>
               if sm_KeyID m = [] \<or> sm_Payload m = [] \<or> sm_Signature m = [] then Fail ErrUnavailable else Ok m)"

definition send ::
  "bridge_env \<Rightarrow> net_env \<Rightarrow> http_do \<Rightarrow> string \<Rightarrow> string \<Rightarrow> SignedMessage \<Rightarrow>
   (bridge_error, SignedMessage) outcome \<times> http_post list" where
  "send env net client endpoint operation message =
     (case ValidateEndpoint net endpoint of
        Ok parsed \<Rightarrow>
          if operation \<noteq> ''challenge'' \<and> operation \<noteq> ''invoke'' then (Fail ErrInvalid, [])
          else (case js_marshal (js_SignedMessage env) message of
                  None \<Rightarrow> (Fail ErrInvalid, [])
                | Some body \<Rightarrow>
                    if length body > MaximumBodyBytes then (Fail ErrInvalid, [])
                    else
                      let post = \<lparr>hp_url = function_url parsed operation, hp_headers = json_headers, hp_body = body\<rparr> in
                      (case client post of
                         None \<Rightarrow> (Fail ErrUnavailable, [post])
                       | Some a \<Rightarrow> (read_answer env a, [post])))
      | _ \<Rightarrow> (Fail ErrInvalid, []))"

definition Send ::
  "bridge_env \<Rightarrow> net_env \<Rightarrow> http_do \<Rightarrow> string \<Rightarrow> string \<Rightarrow> SignedMessage \<Rightarrow>
   (bridge_error, SignedMessage) outcome \<times> http_post list" where
  "Send env net client endpoint operation message = send env net client endpoint operation message"

definition SendMutualTLS ::
  "bridge_env \<Rightarrow> net_env \<Rightarrow> HTTPSDispatcher \<Rightarrow> http_do \<Rightarrow> string \<Rightarrow> string \<Rightarrow> SignedMessage \<Rightarrow>
   (bridge_error, SignedMessage) outcome \<times> http_post list" where
  "SendMutualTLS env net d client endpoint operation message =
     (if \<not> hd_mutualTLS d then (Fail ErrUnavailable, [])
      else send env net client endpoint operation message)"

section \<open>Facts about addresses\<close>

lemma drop_bit_interval:
  fixes w :: "'a :: len word"
  assumes "n < LENGTH('a)"
  shows "drop_bit n w = k \<longleftrightarrow> unat k * 2 ^ n \<le> unat w \<and> unat w < (unat k + 1) * 2 ^ n"
proof -
  have "drop_bit n w = k \<longleftrightarrow> unat w div 2 ^ n = unat k"
    by (metis unat_drop_bit_eq drop_bit_eq_div word_unat_eq_iff)
  also have "\<dots> \<longleftrightarrow> unat k * 2 ^ n \<le> unat w \<and> unat w < (unat k + 1) * 2 ^ n"
    by (auto simp: div_nat_eqI dividend_less_times_div div_times_less_eq_dividend mult.commute)
      (metis div_times_less_eq_dividend, metis dividend_less_div_times mult.commute zero_less_numeral zero_less_power)
  finally show ?thesis .
qed

section \<open>Properties\<close>

text \<open>
  The reference: the IPv4 blocks a function endpoint must not be in, as ranges of addresses (this
  network, private use, shared, loopback, link local, protocol assignments, the documentation and
  benchmark blocks, multicast, reserved and broadcast).
\<close>

definition octets :: "nat \<Rightarrow> nat \<Rightarrow> nat \<Rightarrow> nat \<Rightarrow> nat" where
  "octets a b c d = ((a * 256 + b) * 256 + c) * 256 + d"

definition in_block :: "32 word \<Rightarrow> nat \<times> nat \<Rightarrow> bool" where
  "in_block w r \<longleftrightarrow> fst r \<le> unat w \<and> unat w \<le> snd r"

definition v4_reserved :: "(nat \<times> nat) list" where
  "v4_reserved =
     [(octets 0 0 0 0, octets 0 255 255 255), (octets 10 0 0 0, octets 10 255 255 255),
      (octets 100 64 0 0, octets 100 127 255 255), (octets 127 0 0 0, octets 127 255 255 255),
      (octets 169 254 0 0, octets 169 254 255 255), (octets 172 16 0 0, octets 172 31 255 255),
      (octets 192 0 0 0, octets 192 0 0 255), (octets 192 0 2 0, octets 192 0 2 255),
      (octets 192 168 0 0, octets 192 168 255 255), (octets 198 18 0 0, octets 198 19 255 255),
      (octets 198 51 100 0, octets 198 51 100 255), (octets 203 0 113 0, octets 203 0 113 255),
      (octets 224 0 0 0, octets 255 255 255 255)]"

lemma v4_blocks:
  fixes w :: "32 word"
  shows "drop_bit 24 w = 127 \<longleftrightarrow> in_block w (octets 127 0 0 0, octets 127 255 255 255)"
    "drop_bit 28 w = 0xE \<longleftrightarrow> in_block w (octets 224 0 0 0, octets 239 255 255 255)"
    "drop_bit 16 w = 0xA9FE \<longleftrightarrow> in_block w (octets 169 254 0 0, octets 169 254 255 255)"
    "drop_bit 24 w = 10 \<longleftrightarrow> in_block w (octets 10 0 0 0, octets 10 255 255 255)"
    "drop_bit 20 w = 0xAC1 \<longleftrightarrow> in_block w (octets 172 16 0 0, octets 172 31 255 255)"
    "drop_bit 16 w = 0xC0A8 \<longleftrightarrow> in_block w (octets 192 168 0 0, octets 192 168 255 255)"
    "prefix_contains (P4 (ip4 0 0 0 0) 8) (V4 w) \<longleftrightarrow> in_block w (octets 0 0 0 0, octets 0 255 255 255)"
    "prefix_contains (P4 (ip4 100 64 0 0) 10) (V4 w) \<longleftrightarrow> in_block w (octets 100 64 0 0, octets 100 127 255 255)"
    "prefix_contains (P4 (ip4 192 0 0 0) 24) (V4 w) \<longleftrightarrow> in_block w (octets 192 0 0 0, octets 192 0 0 255)"
    "prefix_contains (P4 (ip4 192 0 2 0) 24) (V4 w) \<longleftrightarrow> in_block w (octets 192 0 2 0, octets 192 0 2 255)"
    "prefix_contains (P4 (ip4 198 18 0 0) 15) (V4 w) \<longleftrightarrow> in_block w (octets 198 18 0 0, octets 198 19 255 255)"
    "prefix_contains (P4 (ip4 198 51 100 0) 24) (V4 w) \<longleftrightarrow> in_block w (octets 198 51 100 0, octets 198 51 100 255)"
    "prefix_contains (P4 (ip4 203 0 113 0) 24) (V4 w) \<longleftrightarrow> in_block w (octets 203 0 113 0, octets 203 0 113 255)"
    "prefix_contains (P4 (ip4 240 0 0 0) 4) (V4 w) \<longleftrightarrow> in_block w (octets 240 0 0 0, octets 255 255 255 255)"
  by (auto simp: in_block_def octets_def drop_bit_interval prefix_contains_def ip4_def)

lemma publicAddress_Unmap: "publicAddress (ip_Unmap a) = publicAddress a"
proof -
  have "ip_Unmap (ip_Unmap a) = ip_Unmap a"
    by (auto simp: ip_Unmap_def split: ip_addr.splits)
  then show ?thesis
    by (simp add: publicAddress_def)
qed

lemma v4_mapped:
  fixes w :: "32 word"
  shows "ip_Unmap (V6 (push_bit 32 0xFFFF OR ucast w) zone) = V4 w"
proof -
  have high: "drop_bit 32 (push_bit 32 0xFFFF OR ucast w :: 128 word) = 0xFFFF"
  proof (rule bit_word_eqI)
    fix n
    assume "n < LENGTH(128)"
    have "\<not> bit w (32 + n)"
      using bit_imp_le_length [of w "32 + n"] by auto
    moreover have "(0xFFFF :: 128 word) = mask 16"
      by (simp add: mask_eq_exp_minus_1)
    then have "bit (0xFFFF :: 128 word) n \<Longrightarrow> n < 16"
      by (simp add: bit_mask_iff)
    ultimately show "bit (drop_bit 32 (push_bit 32 0xFFFF OR ucast w :: 128 word)) n = bit (0xFFFF :: 128 word) n"
      by (auto simp: bit_simps)
  qed
  have low: "ucast (push_bit 32 k OR ucast w :: 128 word) = w" for k
    by (rule bit_word_eqI) (auto simp: bit_simps)
  show ?thesis
    unfolding ip_Unmap_def ip_addr.case high low by simp
qed

text \<open>
  \<^bold>\<open>C31\<close> The bitwise classification of \<open>publicAddress\<close> is exactly membership in none
  of the reserved ranges: an IPv4 address, and an IPv4 address mapped into IPv6 with any zone, is
  public if and only if it lies outside all of them.
\<close>

theorem public_ipv4_ranges:
  "(publicAddress (V4 w) \<longleftrightarrow> list_all (\<lambda>r. \<not> in_block w r) v4_reserved)
   \<and> publicAddress (V6 (push_bit 32 0xFFFF OR ucast w) zone) = publicAddress (V4 w)"
proof
  have top: "unat w < 4294967296"
    using unsigned_less [of w] by simp
  have zero: "w = 0 \<Longrightarrow> in_block w (octets 0 0 0 0, octets 0 255 255 255)"
    by (simp add: in_block_def octets_def)
  have ones: "w = 0xFFFFFFFF \<Longrightarrow> in_block w (octets 224 0 0 0, octets 255 255 255 255)"
    by (simp add: in_block_def octets_def)
  have split: "in_block w (octets 224 0 0 0, octets 255 255 255 255)
      \<longleftrightarrow> in_block w (octets 224 0 0 0, octets 239 255 255 255) \<or> in_block w (octets 240 0 0 0, octets 255 255 255 255)"
    by (auto simp: in_block_def octets_def)
  have v6: "\<not> prefix_contains (P6 b n) (V4 w)" for b n
    by (simp add: prefix_contains_def)
  show "publicAddress (V4 w) \<longleftrightarrow> list_all (\<lambda>r. \<not> in_block w r) v4_reserved"
    unfolding publicAddress_def Let_def ip_Unmap_def ip_addr.case ip_IsGlobalUnicast_def ip_IsPrivate_def
      ip_IsLoopback_def ip_IsLinkLocalUnicast_def ip_IsMulticast_def blockedPrefixes_def v4_reserved_def
      list.pred_inject v4_blocks split
    using zero ones split v6 by auto
  show "publicAddress (V6 (push_bit 32 0xFFFF OR ucast w) zone) = publicAddress (V4 w)"
    by (metis publicAddress_Unmap v4_mapped)
qed

lemma dial_each_tried:
  "dial_each dial port ips = (res, tried) \<Longrightarrow> \<exists>rest. map ip_Unmap ips = tried @ rest"
  by (induction ips arbitrary: res tried) (fastforce split: option.splits prod.splits)+

lemma dial_each_last:
  "dial_each dial port ips = (Ok c, tried) \<Longrightarrow> tried \<noteq> [] \<and> dial (last tried) port = Some c"
  by (induction ips arbitrary: tried) (auto split: option.splits prod.splits)

text \<open>
  \<^bold>\<open>C24\<close> Whatever the resolver answers and whatever the dialler does, every address the
  dispatcher tries to connect to is public; the attempts follow the order of the resolved
  addresses, at most sixteen, and when any resolved address is not public nothing is dialled at
  all, so a name cannot mix public and internal addresses. Re-resolution between check and use is
  ruled out because the dialled addresses are the checked ones.
\<close>

theorem dial_only_public:
  assumes "publicDialer net lookup dial network address = (res, tried)"
  shows "(\<forall>a \<in> set tried. publicAddress a) \<and> length tried \<le> 16
    \<and> (tried \<noteq> [] \<longrightarrow> (\<exists>host port ips rest. SplitHostPort address = Some (host, port)
         \<and> (netip_ParseAddr net host = None \<and> lookup host = Some ips
            \<or> (\<exists>a. netip_ParseAddr net host = Some a \<and> ips = [a]))
         \<and> list_all publicAddress ips \<and> map ip_Unmap ips = tried @ rest))
    \<and> (\<forall>c. res = Ok c \<longrightarrow> (\<exists>port. tried \<noteq> [] \<and> dial (last tried) port = Some c))"
proof (cases "tried = []")
  case True
  have "\<not> (\<exists>c. res = Ok c)"
    using assms True
    by (auto simp: publicDialer_def neq_Nil_conv list_all_iff split: if_splits option.splits prod.splits)
  with True show ?thesis by auto
next
  case False
  then obtain host port ips where ips: "SplitHostPort address = Some (host, port)"
      "netip_ParseAddr net host = None \<and> lookup host = Some ips \<or> (\<exists>a. netip_ParseAddr net host = Some a \<and> ips = [a])"
      "length ips \<le> 16" "list_all publicAddress ips" "dial_each dial port ips = (res, tried)"
    using assms by (auto simp: publicDialer_def split: if_splits option.splits prod.splits)
  obtain rest where rest: "map ip_Unmap ips = tried @ rest"
    using dial_each_tried [OF ips(5)] by blast
  then have "set tried \<subseteq> ip_Unmap ` set ips" "length tried \<le> length ips"
    by (metis Un_upper1 list.set_map set_append, metis le_add1 length_append length_map)
  moreover have "res = Ok c \<Longrightarrow> dial (last tried) port = Some c" for c
    using dial_each_last [of dial port ips c tried] ips(5) by simp
  ultimately show ?thesis
    using ips rest False by (auto simp: list_all_iff publicAddress_Unmap)
qed

section \<open>Concrete instances\<close>

definition sample_net :: net_env where
  "sample_net = \<lparr>url_Parse = (\<lambda>s. if s = ''https://f'' then
        Some \<lparr>u_Scheme = ''https'', u_Opaque = [], u_User = False, u_Host = ''f'', u_Path = [], u_RawPath = [],
              u_ForceQuery = False, u_RawQuery = [], u_Fragment = []\<rparr> else None),
     url_ParseRequestURI = (\<lambda>_. None), netip_ParseAddr = (\<lambda>_. None), strings_ToLower = (\<lambda>s. s),
     strings_EqualFold = (=)\<rparr>"

lemma sample_public: "publicAddress (V4 0x08080808)"
  unfolding publicAddress_def Let_def ip_Unmap_def ip_addr.case ip_IsGlobalUnicast_def ip_IsPrivate_def
    ip_IsLoopback_def ip_IsLinkLocalUnicast_def ip_IsMulticast_def blockedPrefixes_def list.pred_inject v4_blocks
  by (simp add: in_block_def octets_def prefix_contains_def)

theorem dial_only_public_witness:
  "list_all publicAddress (snd (publicDialer sample_net (\<lambda>_. Some [V4 0x08080808]) (\<lambda>a p. Some a) ''tcp'' ''f:443''))"
proof -
  have "SplitHostPort ''f:443'' = Some (''f'', ''443'')"
    by (simp add: SplitHostPort_def)
  then have "publicDialer sample_net (\<lambda>_. Some [V4 0x08080808]) (\<lambda>a p. Some a) ''tcp'' ''f:443''
      = (Ok (V4 0x08080808), [V4 0x08080808])"
    using sample_public by (simp add: publicDialer_def sample_net_def ip_Unmap_def)
  from dial_only_public [OF this] this show ?thesis
    by simp
qed

end
