(* ===== verification/Bridge_Client.thy ===== *)
theory Bridge_Client
  imports Bridge_Transport
begin

text \<open>
  \<^verbatim>\<open>bridge/client/client.go\<close>: the caller's side of an invocation. A client checks the grant it was
  given, dispatches it exactly once, and accepts only a result bound to that grant.
\<close>

section \<open>Checks\<close>

definition client_identifier :: "string \<Rightarrow> nat \<Rightarrow> bool" where
  "client_identifier v maximum \<longleftrightarrow>
     v \<noteq> [] \<and> length v \<le> maximum \<and> index_func_none (\<lambda>c. c \<le> 32 \<or> c \<ge> 127) v"

definition client_digest :: "string \<Rightarrow> bool" where
  "client_digest v \<longleftrightarrow>
     (case hex_decode v of None \<Rightarrow> False | Some decoded \<Rightarrow> length decoded = 32 \<and> hex_encode decoded = v)"

section \<open>Construction\<close>

text \<open>
  A dispatcher is its two ways to send and whether mutual TLS is configured; both the interface's
  implementations in the repository have these three methods.
\<close>

record Dispatcher =
  ds_Send :: "string \<Rightarrow> string \<Rightarrow> SignedMessage \<Rightarrow> (bridge_error, SignedMessage) outcome"
  ds_SendMutualTLS :: "string \<Rightarrow> string \<Rightarrow> SignedMessage \<Rightarrow> (bridge_error, SignedMessage) outcome"
  ds_MutualTLSConfigured :: bool

record client_Options =
  op_TransportOptions :: "tls_config option"
  op_Dispatcher :: "Dispatcher option"
  op_TrustedKeys :: "(string \<times> bytes) list"
  op_Scope :: Scope
  op_ManifestDigest :: string
  op_EndpointURL :: string
  op_Issuer :: string
  op_SigningKeyID :: string
  op_Audience :: string
  op_BindingID :: string
  op_AuthenticationMode :: string
  op_SigningPublicKey :: bytes
  op_BindingRevision :: i64

record bridge_Client =
  bc_dispatcher :: Dispatcher
  bc_options :: client_Options

text \<open>Without a dispatcher in the options, \<open>transport.New\<close> builds one over the network client given.\<close>

definition https_dispatcher :: "bridge_env \<Rightarrow> net_env \<Rightarrow> http_do \<Rightarrow> HTTPSDispatcher \<Rightarrow> Dispatcher" where
  "https_dispatcher env net client d =
     \<lparr>ds_Send = (\<lambda>e p m. fst (Send env net client e p m)),
      ds_SendMutualTLS = (\<lambda>e p m. fst (SendMutualTLS env net d client e p m)),
      ds_MutualTLSConfigured = MutualTLSConfigured d\<rparr>"

definition client_New ::
  "bridge_env \<Rightarrow> net_env \<Rightarrow> http_do \<Rightarrow> client_Options \<Rightarrow> (bridge_error, bridge_Client) outcome" where
  "client_New env net client options =
     (if \<not> outcome_ok (ValidateEndpoint net (op_EndpointURL options)) then Fail ErrInvalid
      else if \<not> list_all (\<lambda>v. client_identifier v 256)
                [op_BindingID options, op_Audience options, op_Issuer options, op_SigningKeyID options,
                 sc_TenantID (op_Scope options), sc_ApplicationID (op_Scope options),
                 sc_EnvironmentID (op_Scope options), sc_OwnerResource (op_Scope options)]
      then Fail ErrInvalid
      else if op_BindingRevision options <s 1 \<or> \<not> client_digest (op_ManifestDigest options)
              \<or> length (op_SigningPublicKey options) \<noteq> PublicKeySize \<or> length (op_TrustedKeys options) = 0
              \<or> op_AuthenticationMode options \<noteq> ''signed_https'' \<and> op_AuthenticationMode options \<noteq> ''mtls''
      then Fail ErrInvalid
      else if \<not> list_all (\<lambda>(i, k). client_identifier i 256 \<and> length k = PublicKeySize) (op_TrustedKeys options)
      then Fail ErrInvalid
      else case (case op_Dispatcher options of
                   Some d \<Rightarrow> Ok d
                 | None \<Rightarrow>
                     (case new_HTTPSDispatcher (op_TransportOptions options) of
                        Ok d \<Rightarrow> Ok (https_dispatcher env net client d) | Fail e \<Rightarrow> Fail e | Panic \<Rightarrow> Panic)) of
             Fail e \<Rightarrow> Fail e
           | Panic \<Rightarrow> Panic
           | Ok d \<Rightarrow>
               if op_AuthenticationMode options = ''mtls'' \<and> \<not> ds_MutualTLSConfigured d then Fail ErrInvalid
               else Ok \<lparr>bc_dispatcher = d, bc_options = options\<rparr>)"

section \<open>Invocation\<close>

definition validGrant :: "bridge_env \<Rightarrow> client_Options \<Rightarrow> i64 \<Rightarrow> Authorization \<Rightarrow> bool" where
  "validGrant env opts now a \<longleftrightarrow>
     (case au_Function a of
        None \<Rightarrow> False
      | Some f \<Rightarrow>
          length (au_Input a) \<le> MaximumInputBytes
          \<and> \<not> (au_ProtocolVersion a \<noteq> ProtocolVersion \<or> au_Kind a \<noteq> ''invocation'' \<or> au_Scope a \<noteq> op_Scope opts
            \<or> au_BindingID a \<noteq> op_BindingID opts \<or> au_BindingRevision a \<noteq> op_BindingRevision opts
            \<or> au_Audience a \<noteq> op_Audience opts \<or> au_ManifestDigest a \<noteq> op_ManifestDigest opts
            \<or> au_Issuer a \<noteq> op_Issuer opts \<or> \<not> client_identifier (au_ID a) 256
            \<or> \<not> client_identifier (au_Principal a) 256 \<or> au_Nonce a \<noteq> []
            \<or> au_IssuedAt a <=s 0 \<or> now <s au_IssuedAt a \<or> au_ExpiresAt a <=s now
            \<or> au_ExpiresAt a <=s au_IssuedAt a \<or> 300 <s au_ExpiresAt a - au_IssuedAt a
            \<or> \<not> json_Valid env (au_Input a) \<or> au_InputDigest a \<noteq> Digest (au_Input a)
            \<or> au_PolicyDigest a \<noteq> [] \<and> \<not> client_digest (au_PolicyDigest a))
          \<and> \<not> (\<not> client_identifier (fn_Name f) 128 \<or> \<not> client_identifier (fn_Version f) 128
            \<or> \<not> client_digest (fn_InputSchemaDigest f) \<or> \<not> client_digest (fn_OutputSchemaDigest f)
            \<or> length (au_Resources a) > 128 \<or> length (au_Capabilities a) > 64)
          \<and> list_all (\<lambda>v. client_identifier v 256) (au_Resources a @ au_Capabilities a))"

definition zero_Result :: Result where
  "zero_Result = \<lparr>rs_ID = [], rs_BindingID = [], rs_ManifestDigest = [], rs_AuthorizationDigest = [], rs_Kind = [],
     rs_Nonce = [], rs_ErrorCode = [], rs_Output = [], rs_ProtocolVersion = 0, rs_BindingRevision = 0, rs_CompletedAt = 0\<rparr>"

text \<open>
  What \<open>Invoke\<close> returns (the Go pair of a result and an error) and the dispatches it made. The
  arguments are the clock readings before and after, and whether the context is live.
\<close>

record invocation =
  iv_result :: Result
  iv_error :: "bridge_error option"
  iv_sent :: "(string \<times> SignedMessage) list"

abbreviation refused :: "bridge_error \<Rightarrow> invocation" where
  "refused e \<equiv> \<lparr>iv_result = zero_Result, iv_error = Some e, iv_sent = []\<rparr>"

definition accept_response ::
  "bridge_env \<Rightarrow> client_Options \<Rightarrow> i64 \<Rightarrow> Authorization \<Rightarrow> bytes \<Rightarrow> (bridge_error, SignedMessage) outcome \<Rightarrow>
   Result \<times> bridge_error option" where
  "accept_response env opts now authorization raw response =
     (case response of
        Ok m \<Rightarrow>
          if sm_KeyID m \<noteq> op_SigningKeyID opts then (zero_Result, Some ErrOutcomeUnknown)
          else (case VerifyResult env m (op_SigningPublicKey opts) authorization raw of
                  Ok r \<Rightarrow>
                    if rs_CompletedAt r <=s 0 \<or> now + 5 <s rs_CompletedAt r then (zero_Result, Some ErrOutcomeUnknown)
                    else if rs_ErrorCode r \<noteq> [] \<or> \<not> json_Valid env (rs_Output r) then (r, Some ErrOutcomeUnknown)
                    else (r, None)
                | _ \<Rightarrow> (zero_Result, Some ErrOutcomeUnknown))
      | _ \<Rightarrow> (zero_Result, Some ErrOutcomeUnknown))"

definition Invoke ::
  "bridge_env \<Rightarrow> bridge_Client \<Rightarrow> i64 \<times> i64 \<Rightarrow> bool \<Rightarrow> SignedMessage \<Rightarrow> invocation" where
  "Invoke env client nows live message =
     (let opts = bc_options client in
      case map_get (op_TrustedKeys opts) (sm_KeyID message) of
        None \<Rightarrow> refused ErrUnauthorized
      | Some key \<Rightarrow>
          (case VerifyAuthorization env message key of
             Ok (authorization, raw) \<Rightarrow>
               if \<not> validGrant env opts (fst nows) authorization then refused ErrUnauthorized
               else if \<not> live then refused ErrUnavailable
               else
                 let response = (if op_AuthenticationMode opts = ''mtls''
                       then ds_SendMutualTLS (bc_dispatcher client) (op_EndpointURL opts) ''invoke'' message
                       else ds_Send (bc_dispatcher client) (op_EndpointURL opts) ''invoke'' message);
                     (r, e) = accept_response env opts (snd nows) authorization raw response
                 in \<lparr>iv_result = r, iv_error = e, iv_sent = [(op_EndpointURL opts, message)]\<rparr>
           | _ \<Rightarrow> refused ErrUnauthorized))"

section \<open>Facts\<close>

lemma client_identifier_eq: "client_identifier v n \<longleftrightarrow> identifier_ok v n"
  unfolding client_identifier_def index_func_none_def runes_ident identifier_ok_iff ..

lemma client_digest_eq: "client_digest v \<longleftrightarrow> isDigest v"
  by (auto simp: client_digest_def isDigest_hex split: option.splits)

lemma Invoke_sent:
  assumes "iv_sent (Invoke env client nows live message) \<noteq> []"
  obtains key authorization raw where
    "map_get (op_TrustedKeys (bc_options client)) (sm_KeyID message) = Some key"
    "VerifyAuthorization env message key = Ok (authorization, raw)"
    "validGrant env (bc_options client) (fst nows) authorization" "live"
    "iv_sent (Invoke env client nows live message) = [(op_EndpointURL (bc_options client), message)]"
  using assms
  by (auto simp: Invoke_def Let_def case_prod_unfold split: option.splits outcome.splits prod.splits if_splits)

section \<open>Properties\<close>

text \<open>
  \<^bold>\<open>C23\<close> \<open>Invoke\<close> dispatches at most once and its error tells what may have happened:
  \<open>ErrUnauthorized\<close> and \<open>ErrUnavailable\<close> mean that nothing was dispatched; once a dispatch was made the
  answer is success or \<open>ErrOutcomeUnknown\<close>; and success means that the registered runtime key
  signed a result bound to this very grant (id, kind, binding, revision, manifest, nonce and the
  digest of the grant's bytes), with no error code and valid JSON, completed in the past up to five
  seconds of clock skew.
\<close>

theorem invoke_error_contract:
  "let out = Invoke env client nows live message; opts = bc_options client in
   length (iv_sent out) \<le> 1
   \<and> iv_error out \<in> {None, Some ErrUnauthorized, Some ErrUnavailable, Some ErrOutcomeUnknown}
   \<and> (iv_sent out = [] \<longleftrightarrow> iv_error out \<in> {Some ErrUnauthorized, Some ErrUnavailable})
   \<and> (iv_error out = None \<longrightarrow>
        (\<exists>key a raw response. VerifyAuthorization env message key = Ok (a, raw)
           \<and> map_get (op_TrustedKeys opts) (sm_KeyID message) = Some key \<and> validGrant env opts (fst nows) a
           \<and> sm_KeyID response = op_SigningKeyID opts
           \<and> VerifyResult env response (op_SigningPublicKey opts) a raw = Ok (iv_result out)
           \<and> result_bound (iv_result out) a raw
           \<and> rs_ErrorCode (iv_result out) = [] \<and> json_Valid env (rs_Output (iv_result out))
           \<and> 0 < sint (rs_CompletedAt (iv_result out)) \<and> \<not> snd nows + 5 <s rs_CompletedAt (iv_result out)))"
proof -
  define out where "out = Invoke env client nows live message"
  have shape: "(iv_sent out = [] \<and> iv_error out \<in> {Some ErrUnauthorized, Some ErrUnavailable})
      \<or> (\<exists>key a raw response. map_get (op_TrustedKeys (bc_options client)) (sm_KeyID message) = Some key
           \<and> VerifyAuthorization env message key = Ok (a, raw)
           \<and> validGrant env (bc_options client) (fst nows) a \<and> length (iv_sent out) = 1
           \<and> (iv_result out, iv_error out) = accept_response env (bc_options client) (snd nows) a raw response)"
    by (auto simp: out_def Invoke_def Let_def case_prod_unfold split: option.splits outcome.splits prod.splits)
  have accept: "e \<in> {None, Some ErrOutcomeUnknown}
      \<and> (e = None \<longrightarrow> (\<exists>m. response = Ok m \<and> sm_KeyID m = op_SigningKeyID opts
           \<and> VerifyResult env m (op_SigningPublicKey opts) a raw = Ok r \<and> result_bound r a raw
           \<and> rs_ErrorCode r = [] \<and> json_Valid env (rs_Output r) \<and> 0 < sint (rs_CompletedAt r)
           \<and> \<not> now + 5 <s rs_CompletedAt r))"
    if "(r, e) = accept_response env opts now a raw response" for r e opts now a raw response
    using that
    by (auto simp: accept_response_def word_sle_eq not_le VerifyResult_Ok_iff split: outcome.splits if_splits)
  show ?thesis
    unfolding Let_def out_def [symmetric] using shape
  proof
    assume "iv_sent out = [] \<and> iv_error out \<in> {Some ErrUnauthorized, Some ErrUnavailable}"
    then show "length (iv_sent out) \<le> 1
       \<and> iv_error out \<in> {None, Some ErrUnauthorized, Some ErrUnavailable, Some ErrOutcomeUnknown}
       \<and> (iv_sent out = [] \<longleftrightarrow> iv_error out \<in> {Some ErrUnauthorized, Some ErrUnavailable})
       \<and> (iv_error out = None \<longrightarrow>
            (\<exists>key a raw response. VerifyAuthorization env message key = Ok (a, raw)
               \<and> map_get (op_TrustedKeys (bc_options client)) (sm_KeyID message) = Some key
               \<and> validGrant env (bc_options client) (fst nows) a
               \<and> sm_KeyID response = op_SigningKeyID (bc_options client)
               \<and> VerifyResult env response (op_SigningPublicKey (bc_options client)) a raw = Ok (iv_result out)
               \<and> result_bound (iv_result out) a raw
               \<and> rs_ErrorCode (iv_result out) = [] \<and> json_Valid env (rs_Output (iv_result out))
               \<and> 0 < sint (rs_CompletedAt (iv_result out)) \<and> \<not> snd nows + 5 <s rs_CompletedAt (iv_result out)))"
      by auto
  qed (use accept in fastforce)
qed

end
