(* ===== verification/Sql_Store.thy ===== *)
theory Sql_Store
  imports Bridge_Protocol
begin

text \<open>
  The contract of \<open>bridge.ExecutionStore\<close> as a locale, and \<^verbatim>\<open>bridge/sqlstore/postgres.go\<close>: the
  journal table, its SQL statements, the operations composed of them, and the proof that they keep
  the contract whatever statement fails and wherever the failure is noticed.
\<close>

section \<open>The contract of an execution store\<close>

text \<open>
  \<open>reserve\<close> and \<open>complete\<close> are the two methods, with an argument for what the outside world does
  during the call. \<open>claimed s id\<close> is the digest an identity is bound to and \<open>recorded s id\<close> the
  stored form of its result; \<open>enc\<close> and \<open>dec\<close> write and read that form. The laws are the interface
  comment: an identity is bound to exactly one digest, a changed digest is never granted, an
  incomplete reservation is never granted again, and a recorded result stays as it is.
\<close>

locale execution_store =
  fixes reserve :: "'o \<Rightarrow> string \<Rightarrow> string \<Rightarrow> 's \<Rightarrow> (bridge_error, Result option) outcome \<times> 's"
    and complete :: "'o \<Rightarrow> string \<Rightarrow> string \<Rightarrow> Result \<Rightarrow> 's \<Rightarrow> (bridge_error, unit) outcome \<times> 's"
    and claimed :: "'s \<Rightarrow> string \<Rightarrow> string option"
    and recorded :: "'s \<Rightarrow> string \<Rightarrow> 'r option"
    and enc :: "Result \<Rightarrow> 'r option"
    and dec :: "'r \<Rightarrow> Result option"
  assumes reserve_grants:
      "reserve w i d s = (Ok None, s') \<Longrightarrow> claimed s i = None \<and> claimed s' i = Some d"
    and reserve_replays:
      "reserve w i d s = (Ok (Some r), s') \<Longrightarrow>
         claimed s i = Some d \<and> (\<exists>x. recorded s i = Some x \<and> dec x = Some r)"
    and reserve_claims:
      "reserve w i d s = (res, s') \<Longrightarrow>
         claimed s' j = claimed s j \<or> j = i \<and> claimed s j = None \<and> claimed s' j = Some d"
    and reserve_recorded: "reserve w i d s = (res, s') \<Longrightarrow> recorded s' j = recorded s j"
    and complete_claims: "complete w i d r s = (res2, s') \<Longrightarrow> claimed s' j = claimed s j"
    and complete_recorded:
      "complete w i d r s = (res2, s') \<Longrightarrow>
         recorded s' j = recorded s j
         \<or> j = i \<and> recorded s j = None \<and> claimed s j = Some d \<and> recorded s' j = enc r"
    and complete_ok:
      "complete w i d r s = (Ok u, s') \<Longrightarrow> claimed s i = Some d \<and> recorded s' i = enc r \<and> enc r \<noteq> None"
begin

lemma claim_stable_reserve:
  "reserve w i d s = (res, s') \<Longrightarrow> claimed s j = Some x \<Longrightarrow> claimed s' j = Some x"
  using reserve_claims [of w i d s res s' j] by auto

lemma claim_stable_complete:
  "complete w i d r s = (res2, s') \<Longrightarrow> claimed s j = Some x \<Longrightarrow> claimed s' j = Some x"
  using complete_claims [of w i d r s res2 s' j] by simp

lemma record_stable_complete:
  "complete w i d r s = (res2, s') \<Longrightarrow> recorded s j = Some x \<Longrightarrow> recorded s' j = Some x"
  using complete_recorded [of w i d r s res2 s' j] by auto

lemma claimed_refused:
  "claimed s i = Some x \<Longrightarrow> fst (reserve w i d s) \<noteq> Ok None"
  using reserve_grants [of w i d s] by (metis option.distinct(1) prod.collapse)

lemma changed_digest_refused:
  assumes "claimed s i = Some x" "x \<noteq> d"
  shows "\<not> outcome_ok (fst (reserve w i d s))"
proof
  assume "outcome_ok (fst (reserve w i d s))"
  then obtain r s' where "reserve w i d s = (Ok r, s')"
    by (cases "reserve w i d s"; cases "fst (reserve w i d s)") auto
  with assms show False
    using reserve_grants [of w i d s s'] reserve_replays [of w i d s _ s'] by (cases r) auto
qed

end

section \<open>The journal table\<close>

record exec_row =
  row_digest :: string
  row_result :: "bytes option"

type_synonym exec_table = "string \<times> string \<Rightarrow> exec_row option"

text \<open>
  What may happen to one SQL statement: nothing, an error before it takes effect, or an error
  after it took effect (the answer is lost).
\<close>

datatype sql_fault = NoFault | FaultBefore | FaultAfter

record Store =
  st_namespace :: string

definition sql_identifier :: "string \<Rightarrow> nat \<Rightarrow> bool" where
  "sql_identifier v maximum \<longleftrightarrow>
     v \<noteq> [] \<and> length v \<le> maximum \<and> index_func_none (\<lambda>c. c \<le> 32 \<or> c \<ge> 127) v"

definition validIdentity :: "string \<Rightarrow> string \<Rightarrow> bool" where
  "validIdentity operationID digest \<longleftrightarrow>
     (case hex_decode digest of
        None \<Rightarrow> False
      | Some decoded \<Rightarrow>
          sql_identifier operationID 513 \<and> length decoded = 32 \<and> hex_encode decoded = digest)"

definition new_Store :: "bool \<Rightarrow> string \<Rightarrow> (bridge_error, Store) outcome" where
  "new_Store database_nil namespace =
     (if database_nil \<or> \<not> sql_identifier namespace 256 then Fail ErrInvalid
      else Ok \<lparr>st_namespace = namespace\<rparr>)"

text \<open>The check constraints of the table, on the values of a new row.\<close>

definition row_checks :: "string \<Rightarrow> string \<Rightarrow> string \<Rightarrow> bool" where
  "row_checks namespace operationID digest \<longleftrightarrow>
     1 \<le> length (runes namespace) \<and> length (runes namespace) \<le> 256
     \<and> 1 \<le> length (runes operationID) \<and> length (runes operationID) \<le> 513
     \<and> length digest = 64 \<and> list_all hex_char digest"

text \<open>The statements: the table after each and the number of rows affected.\<close>

definition insert_execution ::
  "string \<Rightarrow> string \<Rightarrow> string \<Rightarrow> exec_table \<Rightarrow> (exec_table \<times> nat) option" where
  "insert_execution ns i d t =
     (if \<not> row_checks ns i d then None
      else if t (ns, i) \<noteq> None then Some (t, 0)
      else Some (t((ns, i) \<mapsto> \<lparr>row_digest = d, row_result = None\<rparr>), 1))"

definition update_result ::
  "string \<Rightarrow> string \<Rightarrow> string \<Rightarrow> bytes \<Rightarrow> exec_table \<Rightarrow> exec_table \<times> nat" where
  "update_result ns i d raw t =
     (case t (ns, i) of
        None \<Rightarrow> (t, 0)
      | Some row \<Rightarrow>
          if row_digest row = d \<and> (row_result row = None \<or> row_result row = Some raw)
          then (t((ns, i) \<mapsto> row\<lparr>row_result := Some raw\<rparr>), 1) else (t, 0))"

section \<open>Operations\<close>

definition Reserve_insert ::
  "Store \<Rightarrow> sql_fault \<Rightarrow> string \<Rightarrow> string \<Rightarrow> exec_table \<Rightarrow> (bridge_error, nat) outcome \<times> exec_table" where
  "Reserve_insert st fault i d t =
     (if fault = FaultBefore then (Fail ErrUnavailable, t)
      else case insert_execution (st_namespace st) i d t of
             None \<Rightarrow> (Fail ErrUnavailable, t)
           | Some (t', affected) \<Rightarrow>
               (if fault = FaultAfter then Fail ErrUnavailable else Ok affected, t'))"

text \<open>Reading a stored result: its size, its JSON, and the compaction of its output.\<close>

definition stored_result :: "bridge_env \<Rightarrow> bytes \<Rightarrow> Result option" where
  "stored_result env raw =
     (if length raw > MaximumBodyBytes then None
      else case js_unmarshal (js_Result env) raw of
             None \<Rightarrow> None
           | Some result \<Rightarrow>
               if length (rs_Output result) \<noteq> 0 then
                 (case marshal_RawMessage env (rs_Output result) of
                    None \<Rightarrow> None
                  | Some canonical \<Rightarrow>
                      if length canonical > MaximumInputBytes then None
                      else Some (result\<lparr>rs_Output := canonical\<rparr>))
               else Some result)"

definition Reserve_select ::
  "bridge_env \<Rightarrow> Store \<Rightarrow> sql_fault \<Rightarrow> string \<Rightarrow> string \<Rightarrow> exec_table \<Rightarrow> (bridge_error, Result option) outcome"
where
  "Reserve_select env st fault i d t =
     (if fault \<noteq> NoFault then Fail ErrUnavailable
      else case t (st_namespace st, i) of
             None \<Rightarrow> Fail ErrUnavailable
           | Some row \<Rightarrow>
               if row_digest row \<noteq> d then Fail ErrConflict
               else (case row_result row of
                       None \<Rightarrow> Fail ErrInProgress
                     | Some raw \<Rightarrow>
                         if length raw = 0 then Fail ErrInProgress
                         else (case stored_result env raw of
                                 None \<Rightarrow> Fail ErrUnavailable | Some r \<Rightarrow> Ok (Some r))))"

definition Reserve ::
  "bridge_env \<Rightarrow> Store \<Rightarrow> sql_fault \<times> sql_fault \<Rightarrow> string \<Rightarrow> string \<Rightarrow> exec_table \<Rightarrow>
   (bridge_error, Result option) outcome \<times> exec_table"
where
  "Reserve env st w operationID digest t =
     (if \<not> validIdentity operationID digest then (Fail ErrInvalid, t)
      else case Reserve_insert st (fst w) operationID digest t of
             (Ok affected, t') \<Rightarrow>
               if affected = 1 then (Ok None, t')
               else (Reserve_select env st (snd w) operationID digest t', t')
           | (Fail e, t') \<Rightarrow> (Fail e, t')
           | (Panic, t') \<Rightarrow> (Panic, t'))"

definition complete_bytes :: "bridge_env \<Rightarrow> Result \<Rightarrow> bytes option" where
  "complete_bytes env result =
     (if length (rs_Output result) > MaximumInputBytes then None
      else case js_marshal (js_Result env) result of
             None \<Rightarrow> None
           | Some raw \<Rightarrow> if length raw > MaximumBodyBytes div 2 then None else Some raw)"

definition Complete ::
  "bridge_env \<Rightarrow> Store \<Rightarrow> sql_fault \<times> sql_fault \<Rightarrow> string \<Rightarrow> string \<Rightarrow> Result \<Rightarrow> exec_table \<Rightarrow>
   (bridge_error, unit) outcome \<times> exec_table"
where
  "Complete env st w operationID digest result t =
     (if \<not> validIdentity operationID digest then (Fail ErrInvalid, t)
      else case complete_bytes env result of
             None \<Rightarrow> (Fail ErrInvalid, t)
           | Some raw \<Rightarrow>
               if fst w = FaultBefore then (Fail ErrUnavailable, t)
               else (case update_result (st_namespace st) operationID digest raw t of
                       (t', affected) \<Rightarrow>
                         (if fst w = FaultAfter then Fail ErrUnavailable
                          else if affected \<noteq> 1 then Fail ErrConflict else Ok (), t')))"

text \<open>
  \<open>Initialize\<close> runs its statements in one transaction: the table is created when it is missing, a
  table of the earlier layout (results as \<open>jsonb\<close>) is converted, and nothing happens otherwise.
  \<open>jsonb_text\<close> is the server's text form of a \<open>jsonb\<close> value; \<open>faults\<close> tells which of \<open>BeginTx\<close> and
  the three statements fails, and \<open>commit\<close> what happens to the commit.
\<close>

datatype 'j journal =
    NoJournal
  | JsonbJournal "string \<times> string \<Rightarrow> (string \<times> 'j option) option"
  | ByteaJournal exec_table

definition install_table :: "'j journal \<Rightarrow> 'j journal" where
  "install_table db = (case db of NoJournal \<Rightarrow> ByteaJournal Map.empty | _ \<Rightarrow> db)"

definition upgrade_table :: "('j \<Rightarrow> bytes) \<Rightarrow> 'j journal \<Rightarrow> 'j journal" where
  "upgrade_table jsonb_text db =
     (case db of
        JsonbJournal rows \<Rightarrow>
          ByteaJournal (\<lambda>k. map_option (\<lambda>(d, r). \<lparr>row_digest = d, row_result = map_option jsonb_text r\<rparr>) (rows k))
      | _ \<Rightarrow> db)"

definition Initialize ::
  "('j \<Rightarrow> bytes) \<Rightarrow> bool list \<Rightarrow> sql_fault \<Rightarrow> 'j journal \<Rightarrow> (bridge_error, unit) outcome \<times> 'j journal" where
  "Initialize jsonb_text faults commit db =
     (if True \<in> set (take 4 faults) \<or> commit = FaultBefore then (Fail ErrUnavailable, db)
      else (if commit = FaultAfter then Fail ErrUnavailable else Ok (),
            upgrade_table jsonb_text (install_table db)))"

section \<open>The contract holds\<close>

lemma sql_identifier_eq: "sql_identifier v m \<longleftrightarrow> identifier_ok v m"
  unfolding sql_identifier_def index_func_none_def runes_ident identifier_ok_iff ..

lemma validIdentity_iff: "validIdentity i d \<longleftrightarrow> identifier_ok i 513 \<and> isDigest d"
  by (auto simp: validIdentity_def sql_identifier_eq isDigest_hex split: option.splits)

lemma runes_length_ascii: "list_all ident_char s \<Longrightarrow> length (runes s) = length s"
proof -
  have "list_all (\<lambda>b. b < 128) bs \<Longrightarrow> length (runes_of bs) = length bs" for bs
    by (induction bs rule: runes_of.induct) (auto simp: decode_rune_ascii)
  moreover assume "list_all ident_char s"
  then have "list_all (\<lambda>b. b < 128) (map of_char s :: nat list)"
    by (auto simp: list_all_iff ident_char_def)
  ultimately show ?thesis
    by (metis length_map runes_def)
qed

text \<open>An accepted identity never violates a check constraint, so the insert only fails on faults.\<close>

lemma row_checks_valid:
  "validIdentity i d \<Longrightarrow> identifier_ok (st_namespace st) 256 \<Longrightarrow> row_checks (st_namespace st) i d"
  by (auto simp: validIdentity_iff row_checks_def identifier_ok_iff isDigest_iff runes_length_ascii
      Suc_le_eq)

definition sql_claimed :: "Store \<Rightarrow> exec_table \<Rightarrow> string \<Rightarrow> string option" where
  "sql_claimed st t i = map_option row_digest (t (st_namespace st, i))"

definition sql_recorded :: "Store \<Rightarrow> exec_table \<Rightarrow> string \<Rightarrow> bytes option" where
  "sql_recorded st t i = Option.bind (t (st_namespace st, i)) row_result"

lemmas sql_ops = Reserve_def Reserve_insert_def Reserve_select_def insert_execution_def Complete_def
  update_result_def sql_claimed_def sql_recorded_def

interpretation sql: execution_store "Reserve env st" "Complete env st" "sql_claimed st" "sql_recorded st"
  "complete_bytes env" "stored_result env" for env st
proof unfold_locales
  fix w i d r s s' j and res :: "(bridge_error, Result option) outcome" and res2 :: "(bridge_error, unit) outcome" and u
  show "Reserve env st w i d s = (Ok None, s') \<Longrightarrow> sql_claimed st s i = None \<and> sql_claimed st s' i = Some d"
    by (auto simp: sql_ops split: if_splits option.splits)
  show "Reserve env st w i d s = (Ok (Some r), s') \<Longrightarrow>
      sql_claimed st s i = Some d \<and> (\<exists>x. sql_recorded st s i = Some x \<and> stored_result env x = Some r)"
    by (auto simp: sql_ops split: if_splits option.splits)
  show "Reserve env st w i d s = (res, s') \<Longrightarrow>
      sql_claimed st s' j = sql_claimed st s j
      \<or> j = i \<and> sql_claimed st s j = None \<and> sql_claimed st s' j = Some d"
    by (auto simp: sql_ops split: if_splits option.splits)
  show "Reserve env st w i d s = (res, s') \<Longrightarrow> sql_recorded st s' j = sql_recorded st s j"
    by (auto simp: sql_ops split: if_splits option.splits)
  show "Complete env st w i d r s = (res2, s') \<Longrightarrow> sql_claimed st s' j = sql_claimed st s j"
    by (auto simp: sql_ops split: if_splits option.splits)
  show "Complete env st w i d r s = (res2, s') \<Longrightarrow>
      sql_recorded st s' j = sql_recorded st s j
      \<or> j = i \<and> sql_recorded st s j = None \<and> sql_claimed st s j = Some d
        \<and> sql_recorded st s' j = complete_bytes env r"
    by (auto simp: sql_ops split: if_splits option.splits)
  show "Complete env st w i d r s = (Ok u, s') \<Longrightarrow>
      sql_claimed st s i = Some d \<and> sql_recorded st s' i = complete_bytes env r \<and> complete_bytes env r \<noteq> None"
    by (auto simp: sql_ops split: if_splits option.splits)
qed

section \<open>Histories of the table\<close>

text \<open>
  What any number of processes, with stores of any namespace, can do to the table between two
  statements of one call: run insert statements and complete calls, with any faults.
\<close>

inductive sql_evolves :: "bridge_env \<Rightarrow> exec_table \<Rightarrow> exec_table \<Rightarrow> bool" for env where
  same: "sql_evolves env t t"
| inserted: "sql_evolves env t u \<Longrightarrow> Reserve_insert st f i d u = (res, v) \<Longrightarrow> sql_evolves env t v"
| completed: "sql_evolves env t u \<Longrightarrow> Complete env st w i d r u = (res2, v) \<Longrightarrow> sql_evolves env t v"

lemma insert_keeps_row: "Reserve_insert st f i d u = (res, v) \<Longrightarrow> u k = Some row \<Longrightarrow> v k = Some row"
  by (auto simp: sql_ops split: if_splits option.splits)

lemma complete_keeps_row:
  "Complete env st w i d r u = (res, v) \<Longrightarrow> u k = Some row \<Longrightarrow>
     \<exists>row'. v k = Some row' \<and> row_digest row' = row_digest row
       \<and> (\<forall>raw. row_result row = Some raw \<longrightarrow> row_result row' = Some raw)"
  by (auto simp: sql_ops split: if_splits option.splits)

text \<open>Rows are never removed, never rebound to another digest, and a recorded result stays.\<close>

lemma evolves_keeps_row:
  "sql_evolves env t u \<Longrightarrow> t k = Some row \<Longrightarrow>
     \<exists>row'. u k = Some row' \<and> row_digest row' = row_digest row
       \<and> (\<forall>raw. row_result row = Some raw \<longrightarrow> row_result row' = Some raw)"
proof (induction rule: sql_evolves.induct)
  case (inserted t u st f i d res v)
  then show ?case
    by (meson insert_keeps_row)
next
  case (completed t u st w i d r res2 v)
  then obtain row' where "u k = Some row'" "row_digest row' = row_digest row"
    "\<forall>raw. row_result row = Some raw \<longrightarrow> row_result row' = Some raw"
    by blast
  with complete_keeps_row [OF completed.hyps(2)] show ?case
    by metis
qed auto

lemma Reserve_existing:
  "validIdentity i d \<Longrightarrow> row_checks (st_namespace st) i d \<Longrightarrow> t (st_namespace st, i) = Some row \<Longrightarrow>
     Reserve env st (NoFault, f) i d t = (Reserve_select env st f i d t, t)"
  by (simp add: Reserve_def Reserve_insert_def insert_execution_def)

lemma Reserve_existing_not_granted:
  "t (st_namespace st, i) = Some row \<Longrightarrow> fst (Reserve env st w i d t) \<noteq> Ok None"
  by (auto simp: sql_ops split: if_splits option.splits)

section \<open>Properties\<close>

text \<open>
  \<^bold>\<open>C7\<close> \<open>Reserve\<close> is two statements, and other processes may use the journal
  between them. Still every call is an atomic \<open>Reserve\<close> at one moment of its run: at the insert when
  it inserted a row, and otherwise at the later select, on the table as it is then.
\<close>

theorem reserve_linearizable:
  assumes "validIdentity i d" and "Reserve_insert st f1 i d t1 = (Ok n, t1')" and "sql_evolves env t1' t2"
  shows "n = 1 \<and> Reserve env st (f1, f2) i d t1 = (Ok None, t1')
    \<or> n = 0 \<and> t1' = t1 \<and> Reserve env st (NoFault, f2) i d t2 = (Reserve_select env st f2 i d t2, t2)"
proof (cases "t1 (st_namespace st, i)")
  case None
  then show ?thesis
    using assms(1,2) by (auto simp: Reserve_def Reserve_insert_def insert_execution_def split: if_splits)
next
  case (Some row)
  then have *: "n = 0" "t1' = t1" "row_checks (st_namespace st) i d"
    using assms(2) by (auto simp: Reserve_insert_def insert_execution_def split: if_splits)
  then obtain row' where "t2 (st_namespace st, i) = Some row'"
    using evolves_keeps_row [OF assms(3)] Some by metis
  with * show ?thesis
    using Reserve_existing [OF assms(1)] by blast
qed

text \<open>
  \<^bold>\<open>C5\<close> Once a reservation is granted, and whatever any process does with the
  journal afterwards, the same identity is never granted again, whatever its digest and whatever
  fails. Without faults a changed digest is a conflict, and the same digest is in progress until a
  result is recorded.
\<close>

theorem reservation_exclusive:
  assumes "Reserve env st w i d t = (Ok None, t1)" and "sql_evolves env t1 t2"
  shows "fst (Reserve env st w' i d' t2) \<noteq> Ok None
    \<and> (validIdentity i d' \<and> identifier_ok (st_namespace st) 256 \<longrightarrow>
        (d' \<noteq> d \<longrightarrow> Reserve env st (NoFault, NoFault) i d' t2 = (Fail ErrConflict, t2))
        \<and> (d' = d \<and> sql_recorded st t2 i = None \<longrightarrow>
            Reserve env st (NoFault, NoFault) i d' t2 = (Fail ErrInProgress, t2)))"
proof -
  have "sql_claimed st t1 i = Some d"
    using sql.reserve_grants [OF assms(1)] by simp
  then obtain row where "t1 (st_namespace st, i) = Some row" "row_digest row = d"
    by (auto simp: sql_claimed_def)
  then obtain row' where row': "t2 (st_namespace st, i) = Some row'" "row_digest row' = d"
    using evolves_keeps_row [OF assms(2)] by metis
  then show ?thesis
    using Reserve_existing_not_granted [of t2 st i row'] Reserve_existing [of i d' st t2 row' env NoFault]
      row_checks_valid [of i d' st]
    by (auto simp: Reserve_select_def sql_recorded_def)
qed

text \<open>
  \<^bold>\<open>C6\<close> Durable replay: once \<open>Complete\<close> succeeded, every later \<open>Reserve\<close> of the same
  identity and digest that meets no fault returns that very result, whatever happened to the
  journal in between. The hypotheses on the codec are that the result's JSON reads back as the
  result and that its output is in compact form, which is what the runtime stores.
\<close>

theorem journal_replay:
  assumes "Complete env st w i d r t = (Ok u, t1)" and "sql_evolves env t1 t2"
    and "identifier_ok (st_namespace st) 256"
    and "\<And>raw. js_marshal (js_Result env) r = Some raw \<Longrightarrow> raw \<noteq> [] \<and> js_unmarshal (js_Result env) raw = Some r"
    and "rs_Output r = [] \<or> marshal_RawMessage env (rs_Output r) = Some (rs_Output r)"
  shows "Reserve env st (NoFault, NoFault) i d t2 = (Ok (Some r), t2)"
proof -
  obtain raw where raw: "complete_bytes env r = Some raw" "sql_recorded st t1 i = Some raw"
    "sql_claimed st t1 i = Some d"
    using sql.complete_ok [OF assms(1)] sql.complete_claims [OF assms(1)] by auto
  then obtain row where "t1 (st_namespace st, i) = Some row" "row_digest row = d" "row_result row = Some raw"
    by (auto simp: sql_claimed_def sql_recorded_def bind_eq_Some_conv)
  then obtain row' where row': "t2 (st_namespace st, i) = Some row'" "row_digest row' = d"
    "row_result row' = Some raw"
    using evolves_keeps_row [OF assms(2)] by metis
  have js: "js_marshal (js_Result env) r = Some raw" "length raw \<le> MaximumBodyBytes div 2"
    "length (rs_Output r) \<le> MaximumInputBytes"
    using raw(1) by (auto simp: complete_bytes_def split: if_splits option.splits)
  then have "stored_result env raw = Some r" and "raw \<noteq> []"
    using assms(4) [OF js(1)] assms(5) by (auto simp: stored_result_def MaximumBodyBytes_def)
  moreover have valid: "validIdentity i d"
    using assms(1) by (auto simp: Complete_def split: if_splits)
  ultimately show ?thesis
    using Reserve_existing [of i d st t2 row' env NoFault] row_checks_valid [of i d st] assms(3) row'
    by (simp add: Reserve_select_def)
qed

text \<open>
  Installing the journal keeps every row, identity and pending
  reservation, is atomic (a failure before the commit leaves the database as it was), and a second
  run changes nothing.
\<close>

lemma initialize_keeps_journal:
  "case Initialize jsonb_text faults commit db of (res, db') \<Rightarrow>
     (db' = db \<or> db' = upgrade_table jsonb_text (install_table db))
     \<and> (res = Ok () \<longrightarrow>
          (\<exists>t. db' = ByteaJournal t
             \<and> (\<forall>old. db = ByteaJournal old \<longrightarrow> t = old)
             \<and> (db = NoJournal \<longrightarrow> t = Map.empty)
             \<and> (\<forall>old k. db = JsonbJournal old \<longrightarrow>
                  map_option (\<lambda>row. (row_digest row, row_result row)) (t k)
                  = map_option (map_prod id (map_option jsonb_text)) (old k)))
          \<and> Initialize jsonb_text [] NoFault db' = (Ok (), db'))"
  by (cases db)
    (auto simp: Initialize_def install_table_def upgrade_table_def fun_eq_iff option.map_comp comp_def
      case_prod_unfold map_prod_def)

section \<open>Concrete instances\<close>

definition sample_store :: Store where "sample_store = \<lparr>st_namespace = ''ns''\<rparr>"

definition sample_id :: string where "sample_id = ''binding:op-1''"

definition sample_reserved :: exec_table where
  "sample_reserved = Map.empty((''ns'', sample_id) \<mapsto> \<lparr>row_digest = Digest [4], row_result = None\<rparr>)"

definition sample_completed :: exec_table where
  "sample_completed = Map.empty((''ns'', sample_id) \<mapsto> \<lparr>row_digest = Digest [4], row_result = Some [5]\<rparr>)"

lemma sample_namespace [simp]: "identifier_ok (st_namespace sample_store) 256"
  by (simp add: sample_store_def identifier_ok_iff ident_char_def)

lemma sample_identity [simp]: "validIdentity sample_id (Digest x)"
  by (simp add: validIdentity_iff sample_id_def identifier_ok_iff ident_char_def)

lemma sample_insert: "Reserve_insert sample_store NoFault sample_id (Digest [4]) Map.empty = (Ok 1, sample_reserved)"
  using row_checks_valid [OF sample_identity sample_namespace, of "[4]"]
  by (simp add: Reserve_insert_def insert_execution_def sample_reserved_def sample_store_def)

lemma sample_granted:
  "Reserve env sample_store (NoFault, NoFault) sample_id (Digest [4]) Map.empty = (Ok None, sample_reserved)"
  by (simp add: Reserve_def sample_insert)

lemma sample_complete:
  "Complete sample_env sample_store (NoFault, NoFault) sample_id (Digest [4]) sample_result sample_reserved
   = (Ok (), sample_completed)"
proof -
  have "complete_bytes sample_env sample_result = Some [5]"
    by (simp add: complete_bytes_def MaximumBodyBytes_def)
      (simp add: sample_result_def MaximumInputBytes_def)
  moreover have "update_result ''ns'' sample_id (Digest [4]) [5] sample_reserved = (sample_completed, 1)"
    by (simp add: update_result_def sample_reserved_def sample_completed_def)
  ultimately show ?thesis
    by (simp add: Complete_def sample_store_def)
qed

theorem reserve_linearizable_witness:
  "Reserve sample_env sample_store (NoFault, NoFault) sample_id (Digest [4]) sample_completed
   = (Reserve_select sample_env sample_store NoFault sample_id (Digest [4]) sample_completed, sample_completed)"
proof -
  have "Reserve_insert sample_store NoFault sample_id (Digest [4]) sample_reserved = (Ok 0, sample_reserved)"
    using row_checks_valid [OF sample_identity sample_namespace, of "[4]"]
    by (simp add: Reserve_insert_def insert_execution_def sample_reserved_def sample_store_def)
  moreover have "sql_evolves sample_env sample_reserved sample_completed"
    by (rule completed [OF same sample_complete])
  ultimately show ?thesis
    using reserve_linearizable [OF sample_identity] by fastforce
qed

theorem reservation_exclusive_witness:
  "fst (Reserve sample_env sample_store (FaultAfter, NoFault) sample_id (Digest [9]) sample_reserved) \<noteq> Ok None
   \<and> Reserve sample_env sample_store (NoFault, NoFault) sample_id (Digest [4]) sample_reserved
     = (Fail ErrInProgress, sample_reserved)"
proof -
  have "sql_recorded sample_store sample_reserved sample_id = None"
    by (simp add: sql_recorded_def sample_reserved_def sample_store_def)
  then show ?thesis
    using reservation_exclusive [OF sample_granted same, of sample_env _ "Digest [9]"]
      reservation_exclusive [OF sample_granted same, of sample_env _ "Digest [4]"] by simp
qed

theorem journal_replay_witness:
  "Reserve sample_env sample_store (NoFault, NoFault) sample_id (Digest [4]) sample_completed
   = (Ok (Some sample_result), sample_completed)"
  by (rule journal_replay [OF sample_complete same]) (simp_all add: sample_result_def split: if_splits)

end
