(* ===== verification/Bridge_Runtime.thy ===== *)
theory Bridge_Runtime
  imports Sql_Store
begin

text \<open>
  \<^verbatim>\<open>bridge/runtime.go\<close>: the configuration and construction of a runtime, the checks on an
  authorization, and \<open>ServeHTTP\<close> in the stages between which other requests can run: everything
  before the reservation, the reservation, the execution of the handler, the completion, and the
  signed answer. The stages compose to the sequential \<open>ServeHTTP\<close>, and they are the steps of a
  transition system of concurrent requests over one execution store, in which a process may also
  crash and restart.
\<close>

section \<open>Contexts and handlers\<close>

text \<open>
  What the code uses of a \<open>context.Context\<close>: its deadline, in nanoseconds since the epoch, and the
  invocation \<open>context.WithValue\<close> attached. Application code (the handlers and \<open>Authorize\<close>) is given
  the context; its result may depend on anything else, which is the argument of type \<open>'w\<close>.
\<close>

record go_context =
  cx_deadline :: "int option"
  cx_invocation :: "(Authorization \<times> SignedMessage) option"

definition with_deadline :: "int \<Rightarrow> go_context \<Rightarrow> go_context" where
  "with_deadline d c =
     c\<lparr>cx_deadline := Some (case cx_deadline c of None \<Rightarrow> d | Some e \<Rightarrow> min d e)\<rparr>"

definition InvocationFromContext :: "go_context \<Rightarrow> (Authorization \<times> SignedMessage) option" where
  "InvocationFromContext c = cx_invocation c"

type_synonym 'w Handler = "'w \<Rightarrow> go_context \<Rightarrow> Authorization \<Rightarrow> (bridge_error, bytes) outcome"

type_synonym 'w Authorize = "'w \<Rightarrow> go_context \<Rightarrow> Authorization \<Rightarrow> SignedMessage \<Rightarrow> (bridge_error, unit) outcome"

record 'w Registration =
  rg_Handler :: "'w Handler option"
  rg_Function :: Function

section \<open>Configuration\<close>

text \<open>
  A nil interface or function of the Go \<open>Config\<close> is a false flag or \<open>None\<close>. The clock is not a field:
  what each reading of \<open>Now\<close> returns is an argument of the operation that reads it.
\<close>

record 'w Config =
  cf_HasStore :: bool
  cf_TrustedKeys :: "(string \<times> bytes) list"
  cf_Authorize :: "'w Authorize option"
  cf_Scope :: Scope
  cf_Audience :: string
  cf_BindingID :: string
  cf_SigningKeyID :: string
  cf_Issuer :: string
  cf_SigningKey :: bytes
  cf_Functions :: "'w Registration list"
  cf_BindingRevision :: i64
  cf_ExecutionTimeout :: i64

record 'w Runtime =
  rt_functions :: "Function \<Rightarrow> 'w Handler option"
  rt_manifestDigest :: string
  rt_config :: "'w Config"

definition validScope :: "Scope \<Rightarrow> bool" where
  "validScope scope \<longleftrightarrow> identifier_ok (sc_TenantID scope) 256 \<and> identifier_ok (sc_ApplicationID scope) 256
     \<and> identifier_ok (sc_EnvironmentID scope) 256 \<and> identifier_ok (sc_OwnerResource scope) 256"

definition second_ns :: int where "second_ns = 1000000000"

definition register_functions :: "'w Registration list \<Rightarrow> Function \<Rightarrow> 'w Handler option" where
  "register_functions regs = fold (\<lambda>r m. m(rg_Function r := rg_Handler r)) regs Map.empty"

definition NewRuntime :: "bridge_env \<Rightarrow> 'w Config \<Rightarrow> (bridge_error, 'w Runtime) outcome" where
  "NewRuntime env config =
     (if \<not> identifier_ok (cf_Issuer config) 256 \<or> \<not> identifier_ok (cf_Audience config) 256
         \<or> \<not> identifier_ok (cf_BindingID config) 256 \<or> cf_BindingRevision config <s 1
         \<or> \<not> validScope (cf_Scope config) \<or> \<not> identifier_ok (cf_SigningKeyID config) 256
         \<or> length (cf_SigningKey config) \<noteq> PrivateKeySize \<or> length (cf_TrustedKeys config) = 0
         \<or> \<not> cf_HasStore config \<or> cf_Authorize config = None
      then Fail ErrInvalid
      else if \<not> list_all (\<lambda>(i, k). identifier_ok i 256 \<and> length k = PublicKeySize) (cf_TrustedKeys config)
      then Fail ErrInvalid
      else if \<not> list_all (\<lambda>r. rg_Handler r \<noteq> None) (cf_Functions config) then Fail ErrInvalid
      else case ManifestDigest env \<lparr>mf_Functions = map rg_Function (cf_Functions config),
                                    mf_ProtocolVersion = ProtocolVersion\<rparr> of
             Fail e \<Rightarrow> Fail e
           | Panic \<Rightarrow> Panic
           | Ok digest \<Rightarrow>
               let timeout = (if cf_ExecutionTimeout config = 0 then word_of_int (30 * second_ns)
                              else cf_ExecutionTimeout config)
               in if timeout <s 0 \<or> word_of_int (300 * second_ns) <s timeout then Fail ErrInvalid
                  else Ok \<lparr>rt_functions = register_functions (cf_Functions config),
                           rt_manifestDigest = digest,
                           rt_config = config\<lparr>cf_ExecutionTimeout := timeout\<rparr>\<rparr>)"

section \<open>Checks on an authorization\<close>

definition grantActive :: "bool \<Rightarrow> i64 \<Rightarrow> Authorization \<Rightarrow> bool" where
  "grantActive ctx_live now authorization \<longleftrightarrow> ctx_live \<and> now <s au_ExpiresAt authorization"

definition challenge_path :: string where "challenge_path = ''/v1/functions/challenge''"
definition invoke_path :: string where "invoke_path = ''/v1/functions/invoke''"

definition valid_static :: "'w Runtime \<Rightarrow> i64 \<Rightarrow> Authorization \<Rightarrow> bool" where
  "valid_static rt now v \<longleftrightarrow>
     \<not> (au_ProtocolVersion v \<noteq> ProtocolVersion \<or> \<not> identifier_ok (au_ID v) 256
       \<or> au_Issuer v \<noteq> cf_Issuer (rt_config rt) \<or> au_Audience v \<noteq> cf_Audience (rt_config rt)
       \<or> au_BindingID v \<noteq> cf_BindingID (rt_config rt)
       \<or> au_BindingRevision v \<noteq> cf_BindingRevision (rt_config rt)
       \<or> au_ManifestDigest v \<noteq> rt_manifestDigest rt \<or> au_Scope v \<noteq> cf_Scope (rt_config rt)
       \<or> au_IssuedAt v <=s 0 \<or> now <s au_IssuedAt v \<or> au_ExpiresAt v <=s now
       \<or> au_ExpiresAt v <=s au_IssuedAt v \<or> 300 <s au_ExpiresAt v - au_IssuedAt v)"

definition valid_challenge :: "Authorization \<Rightarrow> bool" where
  "valid_challenge v \<longleftrightarrow> au_Kind v = ''challenge'' \<and> identifier_ok (au_Nonce v) 256 \<and> au_Function v = None
     \<and> au_Principal v = [] \<and> length (au_Input v) = 0 \<and> au_InputDigest v = [] \<and> au_PolicyDigest v = []
     \<and> length (au_Resources v) = 0 \<and> length (au_Capabilities v) = 0"

definition valid_invocation :: "bridge_env \<Rightarrow> 'w Runtime \<Rightarrow> Authorization \<Rightarrow> bool" where
  "valid_invocation env rt v \<longleftrightarrow>
     (case au_Function v of
        None \<Rightarrow> False
      | Some f \<Rightarrow>
          \<not> (au_Kind v \<noteq> ''invocation'' \<or> au_Nonce v \<noteq> [] \<or> \<not> identifier_ok (au_Principal v) 256
            \<or> length (au_Input v) = 0 \<or> length (au_Input v) > MaximumInputBytes
            \<or> \<not> json_Valid env (au_Input v) \<or> au_InputDigest v \<noteq> Digest (au_Input v)
            \<or> au_PolicyDigest v \<noteq> [] \<and> \<not> isDigest (au_PolicyDigest v))
          \<and> rt_functions rt f \<noteq> None
          \<and> \<not> (length (au_Resources v) > 128 \<or> length (au_Capabilities v) > 64)
          \<and> list_all (\<lambda>r. identifier_ok r 256) (au_Resources v)
          \<and> list_all (\<lambda>c. identifier_ok c 256) (au_Capabilities v))"

definition validAuthorization ::
  "bridge_env \<Rightarrow> 'w Runtime \<Rightarrow> i64 \<Rightarrow> Authorization \<Rightarrow> string \<Rightarrow> bool" where
  "validAuthorization env rt now v path \<longleftrightarrow>
     valid_static rt now v \<and> (if path = challenge_path then valid_challenge v else valid_invocation env rt v)"

section \<open>Requests and answers\<close>

record http_request =
  rq_Path :: string
  rq_Method :: string
  rq_ContentType :: string
  rq_RawQuery :: string
  rq_Body :: bytes
  rq_BodyError :: bool
  rq_Deadline :: "int option"

datatype response_body = ErrorCode string | Signed SignedMessage

record http_response =
  hr_Status :: nat
  hr_Headers :: "(string \<times> string) list"
  hr_Body :: response_body

definition base_headers :: "(string \<times> string) list" where
  "base_headers = [(''Cache-Control'', ''no-store''), (''Content-Type'', ''application/json'')]"

definition writeError :: "nat \<Rightarrow> string \<Rightarrow> http_response" where
  "writeError status code = \<lparr>hr_Status = status, hr_Headers = base_headers, hr_Body = ErrorCode code\<rparr>"

text \<open>
  A stage answers the request, goes on with what the next stage needs, or panics in application
  code, which \<open>net/http\<close> turns into an aborted connection.
\<close>

datatype 'a stage = Answer http_response | Aborted | Next 'a

text \<open>
  What the stages observe of the outside, in the order the code looks: the clock readings, whether
  the context is still live, and what application code depends on.
\<close>

record 'w observations =
  ob_nowValid :: i64
  ob_authorizeWorld :: 'w
  ob_liveAuthorized :: bool
  ob_nowAuthorized :: i64
  ob_nowResult :: i64
  ob_liveReserved :: bool
  ob_nowReserved :: i64
  ob_nowBound :: int
  ob_liveBefore :: bool
  ob_handlerWorld :: 'w
  ob_liveAfter :: bool
  ob_nowCompleted :: i64

text \<open>An admitted request: the verified authorization, its bytes, the message, the context and the
  result begun for it.\<close>

record admitted =
  ad_authorization :: Authorization
  ad_raw :: bytes
  ad_message :: SignedMessage
  ad_context :: go_context
  ad_result :: Result

section \<open>The stages of ServeHTTP\<close>

text \<open>Reading the request, up to the decoded envelope.\<close>

definition read_envelope :: "bridge_env \<Rightarrow> http_request \<Rightarrow> SignedMessage stage" where
  "read_envelope env rq =
     (if rq_Path rq \<noteq> challenge_path \<and> rq_Path rq \<noteq> invoke_path then Answer (writeError 404 ''not_found'')
      else if rq_Method rq \<noteq> ''POST'' then
        Answer ((writeError 405 ''method_not_allowed'')\<lparr>hr_Headers := base_headers @ [(''Allow'', ''POST'')]\<rparr>)
      else if mime_MediaType env (rq_ContentType rq) \<noteq> Some ''application/json'' \<or> rq_RawQuery rq \<noteq> []
      then Answer (writeError 400 ''invalid_request'')
      else
        let limit = (if rq_Path rq = challenge_path then 65536 else MaximumBodyBytes) in
        if rq_BodyError rq \<or> length (rq_Body rq) > limit then Answer (writeError 400 ''invalid_request'')
        else case strictJSON (js_SignedMessage env) (rq_Body rq) of
               Ok message \<Rightarrow> Next message
             | _ \<Rightarrow> Answer (writeError 400 ''invalid_request''))"

definition grant_context :: "http_request \<Rightarrow> Authorization \<Rightarrow> SignedMessage \<Rightarrow> go_context" where
  "grant_context rq authorization message =
     (let c = with_deadline (sint (au_ExpiresAt authorization) * second_ns)
                \<lparr>cx_deadline = rq_Deadline rq, cx_invocation = None\<rparr>
      in if au_Kind authorization = ''invocation'' then c\<lparr>cx_invocation := Some (authorization, message)\<rparr> else c)"

definition begin_result :: "Authorization \<Rightarrow> bytes \<Rightarrow> i64 \<Rightarrow> Result" where
  "begin_result a raw now =
     \<lparr>rs_ID = au_ID a, rs_BindingID = au_BindingID a, rs_ManifestDigest = au_ManifestDigest a,
      rs_AuthorizationDigest = Digest raw, rs_Kind = au_Kind a, rs_Nonce = [], rs_ErrorCode = [],
      rs_Output = [], rs_ProtocolVersion = ProtocolVersion, rs_BindingRevision = au_BindingRevision a,
      rs_CompletedAt = now\<rparr>"

text \<open>Everything before the reservation: verification, the static checks, \<open>Authorize\<close>.\<close>

definition admit :: "bridge_env \<Rightarrow> 'w Runtime \<Rightarrow> 'w observations \<Rightarrow> http_request \<Rightarrow> admitted stage" where
  "admit env rt ob rq =
     (case read_envelope env rq of
        Answer r \<Rightarrow> Answer r
      | Aborted \<Rightarrow> Aborted
      | Next message \<Rightarrow>
          (case map_get (cf_TrustedKeys (rt_config rt)) (sm_KeyID message) of
             None \<Rightarrow> Answer (writeError 401 ''unauthorized'')
           | Some key \<Rightarrow>
               (case VerifyAuthorization env message key of
                  Ok (authorization, raw) \<Rightarrow>
                    if \<not> validAuthorization env rt (ob_nowValid ob) authorization (rq_Path rq)
                    then Answer (writeError 401 ''unauthorized'')
                    else
                      let c = grant_context rq authorization message in
                      (case cf_Authorize (rt_config rt) of
                         None \<Rightarrow> Aborted
                       | Some authorize \<Rightarrow>
                           (case authorize (ob_authorizeWorld ob) c authorization message of
                              Panic \<Rightarrow> Aborted
                            | Fail e \<Rightarrow>
                                if e = ErrUnavailable then Answer (writeError 503 ''authorization_unavailable'')
                                else Answer (writeError 401 ''unauthorized'')
                            | Ok _ \<Rightarrow>
                                if \<not> grantActive (ob_liveAuthorized ob) (ob_nowAuthorized ob) authorization
                                then Answer (writeError 401 ''unauthorized'')
                                else Next \<lparr>ad_authorization = authorization, ad_raw = raw, ad_message = message,
                                           ad_context = c,
                                           ad_result = begin_result authorization raw (ob_nowResult ob)\<rparr>))
                | _ \<Rightarrow> Answer (writeError 401 ''unauthorized''))))"

text \<open>The identity and the digest of the semantic content, in which the times are zero.\<close>

definition semantic :: "Authorization \<Rightarrow> Authorization" where
  "semantic a = a\<lparr>au_IssuedAt := 0, au_ExpiresAt := 0\<rparr>"

definition identify :: "bridge_env \<Rightarrow> 'w Runtime \<Rightarrow> admitted \<Rightarrow> (string \<times> string) stage" where
  "identify env rt ad =
     (case js_marshal (js_Authorization env) (semantic (ad_authorization ad)) of
        None \<Rightarrow> Answer (writeError 400 ''invalid_request'')
      | Some semanticJSON \<Rightarrow>
          Next (cf_BindingID (rt_config rt) @ '':'' @ au_ID (ad_authorization ad), Digest semanticJSON))"

text \<open>What follows from the answer of the store: \<open>Next None\<close> is leave to execute, \<open>Next (Some r)\<close> a
  replayed result.\<close>

definition after_reserve ::
  "'w observations \<Rightarrow> admitted \<Rightarrow> (bridge_error, Result option) outcome \<Rightarrow> Result option stage" where
  "after_reserve ob ad res =
     (if res = Panic then Aborted
      else if \<not> grantActive (ob_liveReserved ob) (ob_nowReserved ob) (ad_authorization ad)
      then Answer (writeError 401 ''unauthorized'')
      else case res of
             Fail e \<Rightarrow>
               if e = ErrInProgress \<or> e = ErrConflict then Answer (writeError 409 ''operation_conflict'')
               else Answer (writeError 503 ''storage_unavailable'')
           | Ok (Some stored) \<Rightarrow> Next (Some (stored\<lparr>rs_AuthorizationDigest := Digest (ad_raw ad)\<rparr>))
           | Ok None \<Rightarrow> Next None
           | Panic \<Rightarrow> Aborted)"

text \<open>\<open>execute\<close> turns a panic of the handler into \<open>ErrUnavailable\<close>, and drops what the handler
  returned once the context has ended.\<close>

definition execute ::
  "bool \<Rightarrow> bool \<Rightarrow> 'w \<Rightarrow> go_context \<Rightarrow> 'w Handler \<Rightarrow> Authorization \<Rightarrow> (bridge_error, bytes) outcome" where
  "execute live_before live_after w c handler authorization =
     (if \<not> live_before then Fail ErrUnavailable
      else case handler w c authorization of
             Panic \<Rightarrow> Fail ErrUnavailable
           | Ok out \<Rightarrow> if \<not> live_after then Fail ErrUnavailable else Ok out
           | Fail e \<Rightarrow> if \<not> live_after then Fail ErrUnavailable else Fail e)"

definition execution_context :: "'w Runtime \<Rightarrow> 'w observations \<Rightarrow> admitted \<Rightarrow> go_context" where
  "execution_context rt ob ad =
     with_deadline
       (let deadline = sint (au_ExpiresAt (ad_authorization ad)) * second_ns;
            bound = ob_nowBound ob + sint (cf_ExecutionTimeout (rt_config rt))
        in if bound < deadline then bound else deadline)
       (ad_context ad)"

definition settle_output :: "bridge_env \<Rightarrow> Result \<Rightarrow> (bridge_error, bytes) outcome \<Rightarrow> Result" where
  "settle_output env result execution =
     (case execution of
        Ok out \<Rightarrow>
          (case marshal_RawMessage env out of
             None \<Rightarrow> result\<lparr>rs_ErrorCode := ''outcome_unknown''\<rparr>
           | Some canonical \<Rightarrow>
               if \<not> json_Valid env out \<or> length out > MaximumInputBytes \<or> length canonical > MaximumInputBytes
               then result\<lparr>rs_ErrorCode := ''outcome_unknown''\<rparr>
               else result\<lparr>rs_Output := canonical\<rparr>)
      | _ \<Rightarrow> result\<lparr>rs_ErrorCode := ''outcome_unknown''\<rparr>)"

text \<open>The map lookup of a missing function gives a nil handler, whose call panics inside \<open>execute\<close>.\<close>

definition handler_of :: "'w Runtime \<Rightarrow> Authorization \<Rightarrow> 'w Handler" where
  "handler_of rt a =
     (case Option.bind (au_Function a) (rt_functions rt) of Some h \<Rightarrow> h | None \<Rightarrow> (\<lambda>_ _ _. Panic))"

definition run_handler :: "bridge_env \<Rightarrow> 'w Runtime \<Rightarrow> 'w observations \<Rightarrow> admitted \<Rightarrow> Result" where
  "run_handler env rt ob ad =
     (settle_output env (ad_result ad)
        (execute (ob_liveBefore ob) (ob_liveAfter ob) (ob_handlerWorld ob) (execution_context rt ob ad)
           (handler_of rt (ad_authorization ad)) (ad_authorization ad)))
     \<lparr>rs_CompletedAt := ob_nowCompleted ob\<rparr>"

definition after_complete :: "(bridge_error, unit) outcome \<Rightarrow> unit stage" where
  "after_complete res =
     (case res of
        Ok _ \<Rightarrow> Next () | Fail e \<Rightarrow> Answer (writeError 503 ''outcome_unknown'') | Panic \<Rightarrow> Aborted)"

definition answer_result :: "bridge_env \<Rightarrow> 'w Runtime \<Rightarrow> Result \<Rightarrow> http_response stage" where
  "answer_result env rt result =
     (case SignResult env result (cf_SigningKeyID (rt_config rt)) (cf_SigningKey (rt_config rt)) of
        Ok signed_message \<Rightarrow> Answer \<lparr>hr_Status = 200, hr_Headers = base_headers, hr_Body = Signed signed_message\<rparr>
      | Fail e \<Rightarrow> Answer (writeError 503 ''result_unavailable'')
      | Panic \<Rightarrow> Aborted)"

section \<open>ServeHTTP\<close>

primrec to_response :: "http_response stage \<Rightarrow> http_response option" where
  "to_response (Answer r) = Some r"
| "to_response Aborted = None"
| "to_response (Next r) = Some r"

text \<open>
  One request served alone: the response (\<open>None\<close> for an aborted connection), the store, and
  whether the handler was entered.
\<close>

definition ServeHTTP ::
  "bridge_env \<Rightarrow> ('o \<Rightarrow> string \<Rightarrow> string \<Rightarrow> 's \<Rightarrow> (bridge_error, Result option) outcome \<times> 's) \<Rightarrow>
   ('o \<Rightarrow> string \<Rightarrow> string \<Rightarrow> Result \<Rightarrow> 's \<Rightarrow> (bridge_error, unit) outcome \<times> 's) \<Rightarrow>
   'w Runtime \<Rightarrow> 'w observations \<Rightarrow> 'o \<times> 'o \<Rightarrow> http_request \<Rightarrow> 's \<Rightarrow> http_response option \<times> 's \<times> bool"
where
  "ServeHTTP env reserve complete rt ob io rq s =
     (case admit env rt ob rq of
        Answer r \<Rightarrow> (Some r, s, False)
      | Aborted \<Rightarrow> (None, s, False)
      | Next ad \<Rightarrow>
          if au_Kind (ad_authorization ad) = ''challenge'' then
            (to_response (answer_result env rt ((ad_result ad)\<lparr>rs_Nonce := au_Nonce (ad_authorization ad)\<rparr>)), s, False)
          else case identify env rt ad of
            Answer r \<Rightarrow> (Some r, s, False)
          | Aborted \<Rightarrow> (None, s, False)
          | Next (identity, digest) \<Rightarrow>
              (case reserve (fst io) identity digest s of
                 (res, s1) \<Rightarrow>
                   (case after_reserve ob ad res of
                      Answer r \<Rightarrow> (Some r, s1, False)
                    | Aborted \<Rightarrow> (None, s1, False)
                    | Next (Some stored) \<Rightarrow> (to_response (answer_result env rt stored), s1, False)
                    | Next None \<Rightarrow>
                        let result = run_handler env rt ob ad in
                        (case complete (snd io) identity digest result s1 of
                           (res2, s2) \<Rightarrow>
                             (case after_complete res2 of
                                Answer r \<Rightarrow> (Some r, s2, ob_liveBefore ob)
                              | Aborted \<Rightarrow> (None, s2, ob_liveBefore ob)
                              | Next _ \<Rightarrow> (to_response (answer_result env rt result), s2, ob_liveBefore ob))))))"

section \<open>Concurrent requests over one store\<close>

text \<open>
  A request in flight, with the runtime that serves it (several runtimes, and several processes,
  may share a store), and the log of executions: every passage of the execute stage, with the
  result it produced and whether the handler was entered.
\<close>

datatype 'w rt_phase =
    Reserving "'w Runtime" admitted string string
  | Granted "'w Runtime" admitted string string
  | Executed "'w Runtime" admitted string string Result
  | Finished "http_response option"

record 'w exec_event =
  ev_runtime :: "'w Runtime"
  ev_admitted :: admitted
  ev_id :: string
  ev_digest :: string
  ev_result :: Result
  ev_entered :: bool

record ('s, 'w) rt_system =
  sy_store :: 's
  sy_threads :: "'w rt_phase list"
  sy_log :: "'w exec_event list"

text \<open>What the reservation stage makes of a thread.\<close>

definition reserve_phase ::
  "bridge_env \<Rightarrow> 'w observations \<Rightarrow> 'w Runtime \<Rightarrow> admitted \<Rightarrow> string \<Rightarrow> string \<Rightarrow>
   (bridge_error, Result option) outcome \<Rightarrow> 'w rt_phase" where
  "reserve_phase env ob rt ad i d res =
     (case after_reserve ob ad res of
        Answer r \<Rightarrow> Finished (Some r)
      | Aborted \<Rightarrow> Finished None
      | Next (Some stored) \<Rightarrow> Finished (to_response (answer_result env rt stored))
      | Next None \<Rightarrow> Granted rt ad i d)"

definition complete_phase ::
  "bridge_env \<Rightarrow> 'w Runtime \<Rightarrow> Result \<Rightarrow> (bridge_error, unit) outcome \<Rightarrow> 'w rt_phase" where
  "complete_phase env rt result res =
     (case after_complete res of
        Answer r \<Rightarrow> Finished (Some r)
      | Aborted \<Rightarrow> Finished None
      | Next _ \<Rightarrow> Finished (to_response (answer_result env rt result)))"

inductive rt_step ::
  "bridge_env \<Rightarrow> ('o \<Rightarrow> string \<Rightarrow> string \<Rightarrow> 's \<Rightarrow> (bridge_error, Result option) outcome \<times> 's) \<Rightarrow>
   ('o \<Rightarrow> string \<Rightarrow> string \<Rightarrow> Result \<Rightarrow> 's \<Rightarrow> (bridge_error, unit) outcome \<times> 's) \<Rightarrow>
   ('s, 'w) rt_system \<Rightarrow> ('s, 'w) rt_system \<Rightarrow> bool"
  for env reserve complete
where
  arrive: "NewRuntime env config = Ok rt \<Longrightarrow> admit env rt ob rq = Next ad \<Longrightarrow>
     au_Kind (ad_authorization ad) \<noteq> ''challenge'' \<Longrightarrow> identify env rt ad = Next (i, d) \<Longrightarrow>
     rt_step env reserve complete sys (sys\<lparr>sy_threads := sy_threads sys @ [Reserving rt ad i d]\<rparr>)"
| reserved: "n < length (sy_threads sys) \<Longrightarrow> sy_threads sys ! n = Reserving rt ad i d \<Longrightarrow>
     reserve w i d (sy_store sys) = (res, s') \<Longrightarrow>
     rt_step env reserve complete sys
       (sys\<lparr>sy_store := s', sy_threads := (sy_threads sys)[n := reserve_phase env ob rt ad i d res]\<rparr>)"
| executed: "n < length (sy_threads sys) \<Longrightarrow> sy_threads sys ! n = Granted rt ad i d \<Longrightarrow>
     r = run_handler env rt ob ad \<Longrightarrow>
     rt_step env reserve complete sys
       (sys\<lparr>sy_threads := (sy_threads sys)[n := Executed rt ad i d r],
            sy_log := sy_log sys @ [\<lparr>ev_runtime = rt, ev_admitted = ad, ev_id = i, ev_digest = d,
                                     ev_result = r, ev_entered = ob_liveBefore ob\<rparr>]\<rparr>)"
| completed: "n < length (sy_threads sys) \<Longrightarrow> sy_threads sys ! n = Executed rt ad i d r \<Longrightarrow>
     complete w i d r (sy_store sys) = (res2, s') \<Longrightarrow>
     rt_step env reserve complete sys
       (sys\<lparr>sy_store := s', sy_threads := (sy_threads sys)[n := complete_phase env rt r res2]\<rparr>)"
| crashed: "n < length (sy_threads sys) \<Longrightarrow>
     rt_step env reserve complete sys (sys\<lparr>sy_threads := (sy_threads sys)[n := Finished None]\<rparr>)"

inductive rt_reachable ::
  "bridge_env \<Rightarrow> ('o \<Rightarrow> string \<Rightarrow> string \<Rightarrow> 's \<Rightarrow> (bridge_error, Result option) outcome \<times> 's) \<Rightarrow>
   ('o \<Rightarrow> string \<Rightarrow> string \<Rightarrow> Result \<Rightarrow> 's \<Rightarrow> (bridge_error, unit) outcome \<times> 's) \<Rightarrow>
   's \<Rightarrow> ('s, 'w) rt_system \<Rightarrow> bool"
  for env reserve complete s0
where
  start: "rt_reachable env reserve complete s0 \<lparr>sy_store = s0, sy_threads = [], sy_log = []\<rparr>"
| step: "rt_reachable env reserve complete s0 sys \<Longrightarrow> rt_step env reserve complete sys sys' \<Longrightarrow>
     rt_reachable env reserve complete s0 sys'"

section \<open>Facts about admission\<close>

text \<open>Grants admitted by a runtime: what holds of an authorization when the reservation begins.\<close>

definition admitted_by :: "bridge_env \<Rightarrow> 'w Runtime \<Rightarrow> admitted \<Rightarrow> bool" where
  "admitted_by env rt ad \<longleftrightarrow> (\<exists>config ob rq. NewRuntime env config = Ok rt \<and> admit env rt ob rq = Next ad
     \<and> au_Kind (ad_authorization ad) \<noteq> ''challenge'')"

lemma read_envelope_Next:
  "read_envelope env rq = Next m \<Longrightarrow>
     (rq_Path rq = challenge_path \<or> rq_Path rq = invoke_path) \<and> rq_Method rq = ''POST''
     \<and> strictJSON (js_SignedMessage env) (rq_Body rq) = Ok m \<and> length (rq_Body rq) \<le> MaximumBodyBytes"
  by (auto simp: read_envelope_def Let_def MaximumBodyBytes_def split: if_splits outcome.splits)

lemma admit_Next:
  assumes "admit env rt ob rq = Next ad"
  obtains key authorize where "map_get (cf_TrustedKeys (rt_config rt)) (sm_KeyID (ad_message ad)) = Some key"
    and "VerifyAuthorization env (ad_message ad) key = Ok (ad_authorization ad, ad_raw ad)"
    and "validAuthorization env rt (ob_nowValid ob) (ad_authorization ad) (rq_Path rq)"
    and "cf_Authorize (rt_config rt) = Some authorize"
    and "authorize (ob_authorizeWorld ob) (ad_context ad) (ad_authorization ad) (ad_message ad) = Ok ()"
    and "ob_nowAuthorized ob <s au_ExpiresAt (ad_authorization ad)"
    and "ad_context ad = grant_context rq (ad_authorization ad) (ad_message ad)"
    and "ad_result ad = begin_result (ad_authorization ad) (ad_raw ad) (ob_nowResult ob)"
  using assms
  by (auto simp: admit_def Let_def grantActive_def split: stage.splits option.splits outcome.splits if_splits)

lemma validAuthorization_window:
  assumes "validAuthorization env rt now v path"
  shows "0 < sint (au_IssuedAt v) \<and> sint (au_IssuedAt v) \<le> sint now \<and> sint now < sint (au_ExpiresAt v)
    \<and> sint (au_ExpiresAt v) \<le> sint (au_IssuedAt v) + 300"
proof -
  have v: "0 < sint (au_IssuedAt v)" "sint (au_IssuedAt v) \<le> sint now" "sint now < sint (au_ExpiresAt v)"
    "\<not> 300 <s au_ExpiresAt v - au_IssuedAt v"
    using assms by (auto simp: validAuthorization_def valid_static_def word_sless_alt word_sle_eq not_less not_le)
  then have "sint (au_ExpiresAt v - au_IssuedAt v) = sint (au_ExpiresAt v) - sint (au_IssuedAt v)"
    using sint_range64 [of "au_ExpiresAt v"] sint_range64 [of "au_IssuedAt v"] by (intro sint_diff_exact) simp_all
  with v show ?thesis
    by (simp add: word_sless_alt not_less)
qed

lemma invocation_on_invoke_path:
  "validAuthorization env rt now v path \<Longrightarrow> au_Kind v \<noteq> ''challenge'' \<Longrightarrow> valid_invocation env rt v"
  by (auto simp: validAuthorization_def valid_challenge_def split: if_splits)

lemma NewRuntime_Ok:
  assumes "NewRuntime env config = Ok rt"
  shows "identifier_ok (cf_BindingID (rt_config rt)) 256" "cf_BindingID (rt_config rt) = cf_BindingID config"
    "isDigest (rt_manifestDigest rt)" "length (cf_SigningKey (rt_config rt)) = PrivateKeySize"
    "identifier_ok (cf_SigningKeyID (rt_config rt)) 256" "cf_Authorize (rt_config rt) \<noteq> None"
    "0 \<le> sint (cf_ExecutionTimeout (rt_config rt))" "sint (cf_ExecutionTimeout (rt_config rt)) \<le> 300 * second_ns"
  using assms
  by (auto simp: NewRuntime_def Let_def second_ns_def word_sless_alt word_sle_eq not_less
      dest: ManifestDigest_Ok_valid split: if_splits outcome.splits)

lemma identify_Next:
  "identify env rt ad = Next (i, d) \<longleftrightarrow>
     i = cf_BindingID (rt_config rt) @ '':'' @ au_ID (ad_authorization ad)
     \<and> (\<exists>raw. js_marshal (js_Authorization env) (semantic (ad_authorization ad)) = Some raw \<and> d = Digest raw)"
  by (auto simp: identify_def split: option.splits)

text \<open>The identity fits the journal's bounds, so the store never refuses it as invalid.\<close>

lemma identity_valid:
  assumes "NewRuntime env config = Ok rt" "admit env rt ob rq = Next ad" "identify env rt ad = Next (i, d)"
  shows "validIdentity i d"
proof -
  have "identifier_ok (au_ID (ad_authorization ad)) 256"
    using assms(2) by (auto elim!: admit_Next simp: validAuthorization_def valid_static_def)
  then have "identifier_ok (cf_BindingID (rt_config rt) @ CHR '':'' # au_ID (ad_authorization ad)) (256 + 256 + 1)"
    using NewRuntime_Ok(1) [OF assms(1)] by (intro identifier_ok_append) (simp_all add: ident_char_def)
  with assms(3) show ?thesis
    by (auto simp: identify_Next validIdentity_iff)
qed

section \<open>The invariant of concurrent runs\<close>

text \<open>Threads keep what admission established.\<close>

primrec phase_admitted :: "bridge_env \<Rightarrow> 'w rt_phase \<Rightarrow> bool" where
  "phase_admitted env (Reserving rt ad i d) = (admitted_by env rt ad \<and> identify env rt ad = Next (i, d))"
| "phase_admitted env (Granted rt ad i d) = (admitted_by env rt ad \<and> identify env rt ad = Next (i, d))"
| "phase_admitted env (Executed rt ad i d r) = (admitted_by env rt ad \<and> identify env rt ad = Next (i, d))"
| "phase_admitted env (Finished r) = True"

primrec grant_of :: "'w rt_phase \<Rightarrow> (string \<times> string) list" where
  "grant_of (Reserving rt ad i d) = []"
| "grant_of (Granted rt ad i d) = [(i, d)]"
| "grant_of (Executed rt ad i d r) = []"
| "grant_of (Finished r) = []"

text \<open>The identities that may be executed or have been, with their digests.\<close>

definition owned :: "('s, 'w) rt_system \<Rightarrow> (string \<times> string) list" where
  "owned sys = concat (map grant_of (sy_threads sys)) @ map (\<lambda>ev. (ev_id ev, ev_digest ev)) (sy_log sys)"

lemma mset_grants_update:
  "n < length ps \<Longrightarrow>
     mset (concat (map grant_of (ps[n := p]))) + mset (grant_of (ps ! n))
     = mset (concat (map grant_of ps)) + mset (grant_of p)"
proof (induction ps arbitrary: n)
  case (Cons q ps)
  then show ?case by (cases n) (auto simp: ac_simps)
qed simp

lemma complete_phase_Finished: "\<exists>x. complete_phase env rt r res = Finished x"
  by (cases "after_complete res") (auto simp: complete_phase_def)

lemma reserve_phase_cases:
  obtains x where "reserve_phase env ob rt ad i d res = Finished x"
  | "reserve_phase env ob rt ad i d res = Granted rt ad i d" "res = Ok None"
proof (cases "after_reserve ob ad res")
  case (Next r)
  then show thesis
    using that by (cases r) (auto simp: reserve_phase_def after_reserve_def split: if_splits outcome.splits option.splits)
qed (use that in \<open>auto simp: reserve_phase_def\<close>)

text \<open>Every event of the log was admitted by its runtime.\<close>

definition log_admitted :: "bridge_env \<Rightarrow> ('s, 'w) rt_system \<Rightarrow> bool" where
  "log_admitted env sys \<longleftrightarrow>
     list_all (phase_admitted env) (sy_threads sys)
     \<and> list_all (\<lambda>ev. admitted_by env (ev_runtime ev) (ev_admitted ev)
           \<and> identify env (ev_runtime ev) (ev_admitted ev) = Next (ev_id ev, ev_digest ev)
           \<and> (\<exists>ob. ev_result ev = run_handler env (ev_runtime ev) ob (ev_admitted ev)
                  \<and> ev_entered ev = ob_liveBefore ob)) (sy_log sys)"

lemma list_all_updateI: "list_all P xs \<Longrightarrow> P x \<Longrightarrow> list_all P (xs[n := x])"
  by (auto simp: list_all_iff dest: subsetD [OF set_update_subset_insert])

lemma list_all_nthD: "list_all P xs \<Longrightarrow> n < length xs \<Longrightarrow> P (xs ! n)"
  by (simp add: list_all_length)

lemma rt_step_admitted:
  assumes "rt_step env reserve complete sys sys'" and "log_admitted env sys"
  shows "log_admitted env sys'"
  using assms
proof (cases rule: rt_step.cases)
  case (reserved n rt ad i d w res s' ob)
  then show ?thesis
    using assms(2) list_all_nthD [of "phase_admitted env" "sy_threads sys" n]
    by (cases rule: reserve_phase_cases [of env ob rt ad i d res])
      (auto simp: log_admitted_def intro!: list_all_updateI)
next
  case (executed n rt ad i d r ob)
  then show ?thesis
    using assms(2) list_all_nthD [of "phase_admitted env" "sy_threads sys" n]
    by (auto simp: log_admitted_def intro!: list_all_updateI)
next
  case (completed n rt ad i d r w res2 s')
  then show ?thesis
    using assms(2) complete_phase_Finished [of env rt r res2]
    by (auto simp: log_admitted_def intro!: list_all_updateI)
qed (auto simp: log_admitted_def admitted_by_def intro!: list_all_updateI)

lemma rt_reachable_admitted: "rt_reachable env reserve complete s0 sys \<Longrightarrow> log_admitted env sys"
proof (induction rule: rt_reachable.induct)
  case start
  then show ?case by (simp add: log_admitted_def)
qed (rule rt_step_admitted)

text \<open>
  The exclusive part, for any store that keeps the contract: an identity with leave to execute is
  claimed by that thread alone and has not been executed; a logged identity is claimed; a recorded
  result is that of a logged execution with the claimed digest, or was there at the start.
\<close>

context execution_store
begin

definition excl :: "('s, 'w) rt_system \<Rightarrow> bool" where
  "excl sys \<longleftrightarrow> distinct (map fst (owned sys)) \<and> list_all (\<lambda>(i, d). claimed (sy_store sys) i = Some d) (owned sys)"

primrec logged_phase :: "'w exec_event list \<Rightarrow> 'w rt_phase \<Rightarrow> bool" where
  "logged_phase log (Reserving rt ad i d) = True"
| "logged_phase log (Granted rt ad i d) = True"
| "logged_phase log (Executed rt ad i d r) = (\<exists>ev \<in> set log. ev_id ev = i \<and> ev_digest ev = d \<and> ev_result ev = r)"
| "logged_phase log (Finished x) = True"

definition provenance :: "'s \<Rightarrow> ('s, 'w) rt_system \<Rightarrow> bool" where
  "provenance s0 sys \<longleftrightarrow>
     list_all (logged_phase (sy_log sys)) (sy_threads sys)
     \<and> (\<forall>i x. recorded (sy_store sys) i = Some x \<longrightarrow>
        recorded s0 i = Some x
        \<or> (\<exists>ev \<in> set (sy_log sys). ev_id ev = i \<and> claimed (sy_store sys) i = Some (ev_digest ev)
             \<and> enc (ev_result ev) = Some x))"

text \<open>What is owned may shrink or be rearranged, and claims may grow.\<close>

lemma excl_mono:
  assumes "excl sys" and "mset (owned sys') \<subseteq># mset (owned sys)"
    and "\<And>j x. claimed (sy_store sys) j = Some x \<Longrightarrow> claimed (sy_store sys') j = Some x"
  shows "excl sys'"
proof -
  have "mset (map fst (owned sys')) \<subseteq># mset (map fst (owned sys))"
    using assms(2) by (simp add: image_mset_subseteq_mono)
  then have "distinct (map fst (owned sys'))"
    using assms(1) by (metis distinct_append excl_def mset_append mset_eq_imp_distinct_iff
        subset_mset.le_iff_add ex_mset)
  moreover have "set (owned sys') \<subseteq> set (owned sys)"
    using assms(2) by (metis set_mset_mono set_mset_mset)
  ultimately show ?thesis
    using assms(1,3) by (fastforce simp: excl_def list_all_iff)
qed

lemma excl_ungranted:
  assumes "excl sys" and "n < length (sy_threads sys)" and "grant_of p = []"
    and "\<And>j x. claimed (sy_store sys) j = Some x \<Longrightarrow> claimed s' j = Some x"
  shows "excl (sys\<lparr>sy_store := s', sy_threads := (sy_threads sys)[n := p]\<rparr>)"
  using assms(1)
proof (rule excl_mono)
  show "mset (owned (sys\<lparr>sy_store := s', sy_threads := (sy_threads sys)[n := p]\<rparr>)) \<subseteq># mset (owned sys)"
    using mset_grants_update [OF assms(2), of p] assms(3)
    by (auto simp: owned_def) (metis mset_subset_eq_add_left)
qed (use assms(4) in simp)

lemma excl_reserved:
  assumes "excl sys" and "n < length (sy_threads sys)" and "sy_threads sys ! n = Reserving rt ad i d"
    and res: "reserve w i d (sy_store sys) = (res, s')"
  shows "excl (sys\<lparr>sy_store := s', sy_threads := (sy_threads sys)[n := reserve_phase env ob rt ad i d res]\<rparr>)"
    (is "excl ?sys'")
proof (cases rule: reserve_phase_cases [of env ob rt ad i d res])
  case (1 x)
  then show ?thesis
    using assms claim_stable_reserve [OF res] by (simp add: excl_ungranted)
next
  case 2
  then have free: "claimed (sy_store sys) i = None" and got: "claimed s' i = Some d"
    using reserve_grants res by blast+
  have "mset (owned ?sys') = mset ((i, d) # owned sys)"
    using mset_grants_update [OF assms(2), of "Granted rt ad i d"] assms(3) 2 by (simp add: owned_def)
  then have "distinct (map fst (owned ?sys')) = distinct (map fst ((i, d) # owned sys))"
    and set_eq: "set (owned ?sys') = set ((i, d) # owned sys)"
    by (metis mset_eq_imp_distinct_iff mset_map, metis mset_eq_setD)
  moreover have "i \<notin> fst ` set (owned sys)"
    using assms(1) free by (force simp: excl_def list_all_iff)
  moreover have "claimed s' j = Some x" if "claimed (sy_store sys) j = Some x" for j x
    using claim_stable_reserve [OF res] that .
  ultimately show ?thesis
    using assms(1) got by (auto simp: excl_def list_all_iff)
qed

lemma excl_executed:
  assumes "excl sys" and "n < length (sy_threads sys)" and "sy_threads sys ! n = Granted rt ad i d"
    and "ev_id ev = i" and "ev_digest ev = d"
  shows "excl (sys\<lparr>sy_threads := (sy_threads sys)[n := Executed rt ad i d r], sy_log := sy_log sys @ [ev]\<rparr>)"
  using assms(1)
proof (rule excl_mono)
  show "mset (owned (sys\<lparr>sy_threads := (sy_threads sys)[n := Executed rt ad i d r], sy_log := sy_log sys @ [ev]\<rparr>))
      \<subseteq># mset (owned sys)"
    using mset_grants_update [OF assms(2), of "Executed rt ad i d r"] assms(3-5) by (simp add: owned_def)
qed simp

lemma excl_step: "rt_step env reserve complete sys sys' \<Longrightarrow> excl sys \<Longrightarrow> excl sys'"
proof (induction rule: rt_step.induct)
  case (arrive config rt ob rq ad i d sys)
  then show ?case
    by (simp add: excl_def owned_def)
next
  case (reserved n sys rt ad i d w res s' ob)
  then show ?case by (simp add: excl_reserved)
next
  case (executed n sys rt ad i d r ob)
  then show ?case by (simp add: excl_executed)
next
  case (completed n sys rt ad i d r w res2 s')
  obtain x where "complete_phase env rt r res2 = Finished x"
    using complete_phase_Finished by blast
  with completed show ?case
    using claim_stable_complete [OF completed(3)] by (simp add: excl_ungranted)
next
  case (crashed n sys)
  then show ?case
    using excl_ungranted [of sys n "Finished None" "sy_store sys"] by simp
qed

lemma reachable_excl: "rt_reachable env reserve complete s0 sys \<Longrightarrow> excl sys"
proof (induction rule: rt_reachable.induct)
  case start
  then show ?case by (simp add: excl_def owned_def)
qed (rule excl_step)

lemma at_most_once: "rt_reachable env reserve complete s0 sys \<Longrightarrow> distinct (map ev_id (sy_log sys))"
  using reachable_excl by (auto simp: excl_def owned_def comp_def)

lemma logged_phase_more: "logged_phase log p \<Longrightarrow> logged_phase (log @ later) p"
  by (cases p) auto

lemma provenance_step:
  assumes "rt_step env reserve complete sys sys'" and "provenance s0 sys"
  shows "provenance s0 sys'"
  using assms
proof (induction rule: rt_step.induct)
  case (arrive config rt ob rq ad i d sys)
  then show ?case
    by (simp add: provenance_def)
next
  case (reserved n sys rt ad i d w res s' ob)
  have claims: "claimed s' j = Some x" if "claimed (sy_store sys) j = Some x" for j x
    using claim_stable_reserve [OF reserved(3)] that .
  have "logged_phase (sy_log sys) (reserve_phase env ob rt ad i d res)"
    by (cases rule: reserve_phase_cases [of env ob rt ad i d res]) auto
  then show ?case
    using reserved(4) reserve_recorded [OF reserved(3)] claims unfolding provenance_def
    by (auto intro!: list_all_updateI) metis
next
  case (executed n sys rt ad i d r ob)
  then show ?case
    unfolding provenance_def
    by (auto intro!: list_all_updateI elim!: list.pred_mono_strong intro: logged_phase_more)
next
  case (completed n sys rt ad i d r w res2 s')
  then obtain ev where ev: "ev \<in> set (sy_log sys)" "ev_id ev = i" "ev_digest ev = d" "ev_result ev = r"
    using list_all_nthD [of "logged_phase (sy_log sys)" "sy_threads sys" n] by (auto simp: provenance_def)
  obtain x where x: "complete_phase env rt r res2 = Finished x"
    using complete_phase_Finished by blast
  have rec: "recorded (sy_store sys) j = Some y
      \<or> j = i \<and> claimed (sy_store sys) j = Some d \<and> enc r = Some y" if "recorded s' j = Some y" for j y
    using complete_recorded [OF completed(3), of j] that by auto
  show ?case
    unfolding provenance_def
  proof (intro conjI allI impI)
    show "list_all (logged_phase (sy_log (sys\<lparr>sy_store := s', sy_threads := (sy_threads sys)[n := complete_phase env rt r res2]\<rparr>)))
        (sy_threads (sys\<lparr>sy_store := s', sy_threads := (sy_threads sys)[n := complete_phase env rt r res2]\<rparr>))"
      using completed(4) x by (simp add: provenance_def list_all_updateI)
  next
    fix j y
    assume "recorded (sy_store (sys\<lparr>sy_store := s', sy_threads := (sy_threads sys)[n := complete_phase env rt r res2]\<rparr>)) j = Some y"
    then show "recorded s0 j = Some y
        \<or> (\<exists>ev \<in> set (sy_log (sys\<lparr>sy_store := s', sy_threads := (sy_threads sys)[n := complete_phase env rt r res2]\<rparr>)).
             ev_id ev = j \<and> claimed (sy_store (sys\<lparr>sy_store := s', sy_threads := (sy_threads sys)[n := complete_phase env rt r res2]\<rparr>)) j
               = Some (ev_digest ev) \<and> enc (ev_result ev) = Some y)"
      using rec [of j y] ev completed(4) complete_claims [OF completed(3)] by (auto simp: provenance_def)
  qed
next
  case (crashed n sys)
  then show ?case
    by (simp add: provenance_def list_all_updateI)
qed

lemma reachable_provenance: "rt_reachable env reserve complete s0 sys \<Longrightarrow> provenance s0 sys"
proof (induction rule: rt_reachable.induct)
  case start
  then show ?case by (simp add: provenance_def)
qed (rule provenance_step)

end

section \<open>Properties\<close>

text \<open>
  \<^bold>\<open>C1\<close> At most once: in every state that any number of runtimes can reach by
  serving any requests concurrently over one PostgreSQL journal, with statements failing before or
  after they take effect and threads crashing at any point, no operation identity has passed the
  execute stage twice.
\<close>

theorem at_most_once_execution:
  assumes "rt_reachable env (Reserve env st) (Complete env st) t0 sys"
  shows "distinct (map ev_id (sy_log sys))"
  using assms by (rule sql.at_most_once)

text \<open>
  \<^bold>\<open>C4\<close> Starting from a journal without results, a result the journal replays for an
  identity and digest is the stored form of the result of an execution of that identity with that
  digest: a cached answer is never invented, mixed up between operations or taken from a request
  with another content.
\<close>

theorem replay_provenance:
  assumes "rt_reachable env (Reserve env st) (Complete env st) t0 sys"
    and "\<forall>i. sql_recorded st t0 i = None"
    and "Reserve env st w i d (sy_store sys) = (Ok (Some r), t')"
  shows "\<exists>ev raw. ev \<in> set (sy_log sys) \<and> ev_id ev = i \<and> ev_digest ev = d
    \<and> complete_bytes env (ev_result ev) = Some raw \<and> stored_result env raw = Some r"
proof -
  obtain raw where raw: "sql_claimed st (sy_store sys) i = Some d" "sql_recorded st (sy_store sys) i = Some raw"
    "stored_result env raw = Some r"
    using sql.reserve_replays [OF assms(3)] by blast
  with sql.reachable_provenance [OF assms(1)] assms(2) show ?thesis
    unfolding sql.provenance_def by fastforce
qed


text \<open>
  \<^bold>\<open>C8\<close> What an execution leaves: either the handler was entered and returned,
  with the context live before and after, valid JSON of bounded size, and the result carries
  exactly its compact form and no error code; or, for a handler that failed, panicked, overran its
  context or returned bad output, the result is \<open>outcome_unknown\<close> without output. The context the
  handler gets ends neither after the grant nor after the execution timeout.
\<close>

theorem handler_outcome_settled:
  assumes "rs_ErrorCode (ad_result ad) = []" and "rs_Output (ad_result ad) = []"
  shows "let r = run_handler env rt ob ad; c = execution_context rt ob ad; a = ad_authorization ad in
    (rs_ErrorCode r = [] \<and>
       (\<exists>out canonical. handler_of rt a (ob_handlerWorld ob) c a = Ok out \<and> ob_liveBefore ob \<and> ob_liveAfter ob
          \<and> json_Valid env out \<and> length out \<le> MaximumInputBytes
          \<and> marshal_RawMessage env out = Some canonical \<and> rs_Output r = canonical
          \<and> length canonical \<le> MaximumInputBytes)
     \<or> rs_ErrorCode r = ''outcome_unknown'' \<and> rs_Output r = [])
    \<and> (\<exists>e. cx_deadline c = Some e \<and> e \<le> sint (au_ExpiresAt a) * second_ns
          \<and> e \<le> ob_nowBound ob + sint (cf_ExecutionTimeout (rt_config rt)))"
proof -
  have deadline: "\<exists>e. cx_deadline (execution_context rt ob ad) = Some e
      \<and> e \<le> sint (au_ExpiresAt (ad_authorization ad)) * second_ns
      \<and> e \<le> ob_nowBound ob + sint (cf_ExecutionTimeout (rt_config rt))"
    by (auto simp: execution_context_def with_deadline_def Let_def split: option.splits)
  define x where "x = execute (ob_liveBefore ob) (ob_liveAfter ob) (ob_handlerWorld ob) (execution_context rt ob ad)
      (handler_of rt (ad_authorization ad)) (ad_authorization ad)"
  have x: "x = Ok out \<Longrightarrow> handler_of rt (ad_authorization ad) (ob_handlerWorld ob) (execution_context rt ob ad)
      (ad_authorization ad) = Ok out \<and> ob_liveBefore ob \<and> ob_liveAfter ob" for out
    by (auto simp: x_def execute_def split: if_splits outcome.splits)
  have run: "run_handler env rt ob ad = (settle_output env (ad_result ad) x)\<lparr>rs_CompletedAt := ob_nowCompleted ob\<rparr>"
    by (simp add: run_handler_def x_def)
  show ?thesis
    unfolding Let_def
  proof (rule conjI [OF _ deadline], cases x)
    case (Ok out)
    with assms x [OF Ok] show "rs_ErrorCode (run_handler env rt ob ad) = [] \<and>
       (\<exists>out canonical. handler_of rt (ad_authorization ad) (ob_handlerWorld ob) (execution_context rt ob ad)
            (ad_authorization ad) = Ok out \<and> ob_liveBefore ob \<and> ob_liveAfter ob
          \<and> json_Valid env out \<and> length out \<le> MaximumInputBytes
          \<and> marshal_RawMessage env out = Some canonical \<and> rs_Output (run_handler env rt ob ad) = canonical
          \<and> length canonical \<le> MaximumInputBytes)
     \<or> rs_ErrorCode (run_handler env rt ob ad) = ''outcome_unknown'' \<and> rs_Output (run_handler env rt ob ad) = []"
      by (auto simp: run settle_output_def split: option.splits)
  qed (use assms in \<open>auto simp: run settle_output_def\<close>)
qed

section \<open>A concrete run\<close>

text \<open>
  A runtime with one function, an invocation request for it, and the run in which the request is
  admitted, reserved and executed while a duplicate of it is refused.
\<close>

definition sample_manifest_digest :: string where
  "sample_manifest_digest = Digest (bytes_of_string (''{\"protocol_version\":'' @ itoa (sint ProtocolVersion)
     @ '',\"functions\":'') @ [91, 93] @ bytes_of_string ''}'')"

definition sample_grant :: Authorization where
  "sample_grant = sample_authorization\<lparr>au_ManifestDigest := sample_manifest_digest\<rparr>"

definition sample_message :: SignedMessage where
  "sample_message = \<lparr>sm_KeyID = ''k1'', sm_Payload = b64_encode [4],
     sm_Signature = b64_encode (sample_sign sample_priv (bytes_of_string authorizationPurpose @ [4]))\<rparr>"

definition sample_response :: SignedMessage where
  "sample_response = \<lparr>sm_KeyID = ''k1'', sm_Payload = b64_encode [5],
     sm_Signature = b64_encode (sample_sign sample_priv (bytes_of_string resultPurpose @ [5]))\<rparr>"

definition sample_answer :: Result where
  "sample_answer = (begin_result sample_grant [4] 1000)\<lparr>rs_Output := [52, 50], rs_CompletedAt := 1002\<rparr>"

definition rt_env :: bridge_env where
  "rt_env = sample_env\<lparr>js_SignedMessage := byte_codec [(sample_message, 6), (sample_response, 9)],
     js_Authorization := table_codec [(sample_grant, [4]), (semantic sample_grant, [8])],
     js_Result := table_codec [(sample_answer, [5])]\<rparr>"

definition sample_handler :: "unit Handler" where
  "sample_handler = (\<lambda>_ _ _. Ok [52, 50])"

definition sample_config :: "unit Config" where
  "sample_config = \<lparr>cf_HasStore = True, cf_TrustedKeys = [(''k1'', sample_pub)],
     cf_Authorize = Some (\<lambda>_ _ _ _. Ok ()), cf_Scope = au_Scope sample_authorization, cf_Audience = ''runtime'',
     cf_BindingID = ''binding'', cf_SigningKeyID = ''k1'', cf_Issuer = ''control'', cf_SigningKey = sample_priv,
     cf_Functions = [\<lparr>rg_Handler = Some sample_handler, rg_Function = sample_function\<rparr>],
     cf_BindingRevision = 1, cf_ExecutionTimeout = 0\<rparr>"

definition sample_runtime :: "unit Runtime" where
  "sample_runtime = \<lparr>rt_functions = register_functions (cf_Functions sample_config),
     rt_manifestDigest = sample_manifest_digest,
     rt_config = sample_config\<lparr>cf_ExecutionTimeout := word_of_int (30 * second_ns)\<rparr>\<rparr>"

definition sample_ob :: "unit observations" where
  "sample_ob = \<lparr>ob_nowValid = 1000, ob_authorizeWorld = (), ob_liveAuthorized = True, ob_nowAuthorized = 1000,
     ob_nowResult = 1000, ob_liveReserved = True, ob_nowReserved = 1001, ob_nowBound = 1001000000000,
     ob_liveBefore = True, ob_handlerWorld = (), ob_liveAfter = True, ob_nowCompleted = 1002\<rparr>"

definition sample_request :: http_request where
  "sample_request = \<lparr>rq_Path = invoke_path, rq_Method = ''POST'', rq_ContentType = ''application/json'',
     rq_RawQuery = [], rq_Body = [6], rq_BodyError = False, rq_Deadline = None\<rparr>"

definition sample_admitted :: admitted where
  "sample_admitted = \<lparr>ad_authorization = sample_grant, ad_raw = [4], ad_message = sample_message,
     ad_context = grant_context sample_request sample_grant sample_message,
     ad_result = begin_result sample_grant [4] 1000\<rparr>"

lemma rt_env_sel [simp]:
  "ed25519_Sign rt_env = sample_sign" "ed25519_Verify rt_env = sample_verify"
  "json_Valid rt_env b \<longleftrightarrow> b \<noteq> []" "mime_MediaType rt_env = Some"
  "marshal_RawMessage rt_env b = (if b = [] then None else Some b)"
  "js_Functions rt_env = table_codec [([sample_function], [91, 93])]"
  "js_SignedMessage rt_env = byte_codec [(sample_message, 6), (sample_response, 9)]"
  "js_Authorization rt_env = table_codec [(sample_grant, [4]), (semantic sample_grant, [8])]"
  "js_Result rt_env = table_codec [(sample_answer, [5])]"
  by (simp_all add: rt_env_def)

lemma identifier_ok_small:
  "identifier_ok ''k1'' 256" "identifier_ok ''control'' 256" "identifier_ok ''runtime'' 256"
  "identifier_ok ''binding'' 256" "identifier_ok ''t'' 256" "identifier_ok ''a'' 256" "identifier_ok ''e'' 256"
  "identifier_ok ''o'' 256" "identifier_ok ''r'' 256" "identifier_ok ''c'' 256" "identifier_ok ''user'' 256"
  "identifier_ok ''op-1'' 256" "identifier_ok ''sum'' 128" "identifier_ok ''1'' 128"
  by (simp_all add: identifier_ok_iff ident_char_def)

lemma sample_NewRuntime: "NewRuntime rt_env sample_config = Ok sample_runtime"
proof -
  have "fn_valid sample_function"
    by (simp add: fn_valid_def sample_function_def identifier_ok_small)
  then have "ManifestDigest rt_env \<lparr>mf_Functions = map rg_Function (cf_Functions sample_config),
      mf_ProtocolVersion = ProtocolVersion\<rparr> = Ok sample_manifest_digest"
    by (simp add: ManifestDigest_def sample_config_def sample_manifest_digest_def)
  moreover have "validScope (cf_Scope sample_config)"
    by (simp add: validScope_def sample_config_def sample_authorization_def identifier_ok_small)
  ultimately show ?thesis
    by (simp add: NewRuntime_def sample_runtime_def)
      (simp add: sample_config_def identifier_ok_small sample_priv_def sample_pub_def Let_def second_ns_def
        word_sless_alt)
qed

lemma sample_verified: "VerifyAuthorization rt_env sample_message sample_pub = Ok (sample_grant, [4])"
proof -
  have "verify rt_env sample_message authorizationPurpose sample_pub = Ok [4]"
    using sample_key_pair
    by (simp add: verify_Ok_iff sample_message_def identifier_ok_small length_b64_encode key_pair_def
        b64_encoded_len_def MaximumBodyBytes_def sample_pub_def del: b64_encode.simps)
  then show ?thesis
    by (simp add: VerifyAuthorization_Ok_iff strictJSON_def js_decode_all_def)
qed

lemma sample_valid: "validAuthorization rt_env sample_runtime 1000 sample_grant invoke_path"
  by (simp add: validAuthorization_def valid_static_def valid_invocation_def invoke_path_def challenge_path_def
      sample_grant_def sample_authorization_def sample_runtime_def sample_config_def register_functions_def
      identifier_ok_small ProtocolVersion_def MaximumInputBytes_def word_sless_alt word_sle_eq)

lemma sample_admit: "admit rt_env sample_runtime sample_ob sample_request = Next sample_admitted"
proof -
  have "read_envelope rt_env sample_request = Next sample_message"
    by (simp add: read_envelope_def sample_request_def invoke_path_def challenge_path_def strictJSON_def js_decode_all_def
        MaximumBodyBytes_def)
  moreover have "map_get (cf_TrustedKeys (rt_config sample_runtime)) (sm_KeyID sample_message) = Some sample_pub"
    by (simp add: sample_runtime_def sample_config_def sample_message_def map_get_def)
  moreover have "cf_Authorize (rt_config sample_runtime) = Some (\<lambda>_ _ _ _. Ok ())"
    by (simp add: sample_runtime_def sample_config_def)
  moreover have "validAuthorization rt_env sample_runtime (ob_nowValid sample_ob) sample_grant (rq_Path sample_request)"
    using sample_valid by (simp add: sample_ob_def sample_request_def)
  moreover have "grantActive (ob_liveAuthorized sample_ob) (ob_nowAuthorized sample_ob) sample_grant"
    by (simp add: grantActive_def sample_ob_def sample_grant_def sample_authorization_def word_sless_alt)
  ultimately show ?thesis
    by (simp add: admit_def sample_verified sample_admitted_def) (simp add: sample_ob_def)
qed

lemma sample_identify: "identify rt_env sample_runtime sample_admitted = Next (sample_id, Digest [8])"
proof -
  have "semantic sample_grant \<noteq> sample_grant"
    by (simp add: semantic_def sample_grant_def sample_authorization_def)
  then show ?thesis
    by (auto simp: identify_Next sample_runtime_def sample_config_def sample_admitted_def sample_id_def)
      (simp_all add: sample_grant_def sample_authorization_def)
qed

lemma sample_run: "run_handler rt_env sample_runtime sample_ob sample_admitted = sample_answer"
  by (simp add: run_handler_def execute_def sample_ob_def handler_of_def sample_runtime_def sample_config_def
      register_functions_def sample_handler_def sample_admitted_def settle_output_def
      sample_answer_def)
    (simp add: sample_grant_def sample_authorization_def begin_result_def MaximumInputBytes_def)

definition sample_journal :: "bytes option \<Rightarrow> exec_table" where
  "sample_journal r = Map.empty((''ns'', sample_id) \<mapsto> \<lparr>row_digest = Digest [8], row_result = r\<rparr>)"

lemma sample_reserve:
  "Reserve env sample_store (NoFault, NoFault) sample_id (Digest [8]) Map.empty = (Ok None, sample_journal None)"
  "Reserve rt_env sample_store (NoFault, NoFault) sample_id (Digest [8]) (sample_journal None)
     = (Fail ErrInProgress, sample_journal None)"
  "Reserve rt_env sample_store (NoFault, NoFault) sample_id (Digest [8]) (sample_journal (Some [5]))
     = (Ok (Some sample_answer), sample_journal (Some [5]))"
proof -
  have checks: "row_checks ''ns'' sample_id (Digest [8])"
    using row_checks_valid [OF sample_identity sample_namespace, of "[8]"] by (simp add: sample_store_def)
  have "stored_result rt_env [5] = Some sample_answer"
    by (simp add: stored_result_def MaximumBodyBytes_def MaximumInputBytes_def) (simp add: sample_answer_def)
  with checks show
    "Reserve env sample_store (NoFault, NoFault) sample_id (Digest [8]) Map.empty = (Ok None, sample_journal None)"
    "Reserve rt_env sample_store (NoFault, NoFault) sample_id (Digest [8]) (sample_journal None)
       = (Fail ErrInProgress, sample_journal None)"
    "Reserve rt_env sample_store (NoFault, NoFault) sample_id (Digest [8]) (sample_journal (Some [5]))
       = (Ok (Some sample_answer), sample_journal (Some [5]))"
    by (simp_all add: Reserve_def Reserve_insert_def insert_execution_def Reserve_select_def sample_journal_def
        sample_store_def)
qed

lemma sample_complete_answer:
  "Complete rt_env sample_store (NoFault, NoFault) sample_id (Digest [8]) sample_answer (sample_journal None)
   = (Ok (), sample_journal (Some [5]))"
proof -
  have "complete_bytes rt_env sample_answer = Some [5]"
    by (simp add: complete_bytes_def MaximumBodyBytes_def MaximumInputBytes_def) (simp add: sample_answer_def)
  then show ?thesis
    by (simp add: Complete_def update_result_def sample_journal_def sample_store_def)
qed

definition sample_event :: "unit exec_event" where
  "sample_event = \<lparr>ev_runtime = sample_runtime, ev_admitted = sample_admitted, ev_id = sample_id,
     ev_digest = Digest [8], ev_result = sample_answer, ev_entered = True\<rparr>"

definition sample_final :: "(exec_table, unit) rt_system" where
  "sample_final = \<lparr>sy_store = sample_journal (Some [5]),
     sy_threads = [Finished (to_response (answer_result rt_env sample_runtime sample_answer)),
                   Finished (Some (writeError 409 ''operation_conflict''))],
     sy_log = [sample_event]\<rparr>"

abbreviation sample_reach :: "(exec_table, unit) rt_system \<Rightarrow> bool" where
  "sample_reach \<equiv> rt_reachable rt_env (Reserve rt_env sample_store) (Complete rt_env sample_store) Map.empty"

lemma sample_active: "grantActive (ob_liveReserved sample_ob) (ob_nowReserved sample_ob) (ad_authorization sample_admitted)"
  by (simp add: grantActive_def sample_ob_def sample_admitted_def sample_grant_def sample_authorization_def word_sless_alt)

lemma sample_reachable: "sample_reach sample_final"
proof -
  let ?R = "Reserving sample_runtime sample_admitted sample_id (Digest [8])"
  let ?G = "Granted sample_runtime sample_admitted sample_id (Digest [8])"
  let ?E = "Executed sample_runtime sample_admitted sample_id (Digest [8]) sample_answer"
  let ?C = "Finished (Some (writeError 409 ''operation_conflict''))"
  have kind: "au_Kind (ad_authorization sample_admitted) \<noteq> ''challenge''"
    by (simp add: sample_admitted_def sample_grant_def sample_authorization_def)
  note arrives = rt_step.arrive [OF sample_NewRuntime sample_admit kind sample_identify]
  define s1 s2 s3 s4 :: "(exec_table, unit) rt_system"
    where "s1 = \<lparr>sy_store = Map.empty, sy_threads = [?R, ?R], sy_log = []\<rparr>"
      and "s2 = \<lparr>sy_store = sample_journal None, sy_threads = [?G, ?R], sy_log = []\<rparr>"
      and "s3 = \<lparr>sy_store = sample_journal None, sy_threads = [?E, ?R], sy_log = [sample_event]\<rparr>"
      and "s4 = \<lparr>sy_store = sample_journal None, sy_threads = [?E, ?C], sy_log = [sample_event]\<rparr>"
  have r1: "sample_reach s1"
    using rt_reachable.step [OF rt_reachable.step [OF rt_reachable.start arrives] arrives] by (simp add: s1_def)
  have "sample_reach (s1\<lparr>sy_store := sample_journal None,
      sy_threads := (sy_threads s1)[0 := reserve_phase rt_env sample_ob sample_runtime sample_admitted sample_id (Digest [8]) (Ok None)]\<rparr>)"
    by (rule rt_reachable.step [OF r1], rule rt_step.reserved [where w = "(NoFault, NoFault)"]) (simp_all add: s1_def sample_reserve(1))
  then have r2: "sample_reach s2"
    using sample_active by (simp add: s1_def s2_def reserve_phase_def after_reserve_def)
  have "sample_reach (s2\<lparr>sy_threads := (sy_threads s2)[0 := ?E],
      sy_log := sy_log s2 @ [\<lparr>ev_runtime = sample_runtime, ev_admitted = sample_admitted, ev_id = sample_id,
        ev_digest = Digest [8], ev_result = sample_answer, ev_entered = ob_liveBefore sample_ob\<rparr>]\<rparr>)"
    by (rule rt_reachable.step [OF r2], rule rt_step.executed) (simp_all add: s2_def sample_run)
  then have r3: "sample_reach s3"
    by (simp add: s2_def s3_def sample_event_def sample_ob_def)
  have "sample_reach (s3\<lparr>sy_store := sample_journal None,
      sy_threads := (sy_threads s3)[1 := reserve_phase rt_env sample_ob sample_runtime sample_admitted sample_id (Digest [8]) (Fail ErrInProgress)]\<rparr>)"
    by (rule rt_reachable.step [OF r3], rule rt_step.reserved [where w = "(NoFault, NoFault)"]) (simp_all add: s3_def sample_reserve(2))
  then have r4: "sample_reach s4"
    using sample_active by (simp add: s3_def s4_def reserve_phase_def after_reserve_def)
  have "sample_reach (s4\<lparr>sy_store := sample_journal (Some [5]),
      sy_threads := (sy_threads s4)[0 := complete_phase rt_env sample_runtime sample_answer (Ok ())]\<rparr>)"
    by (rule rt_reachable.step [OF r4], rule rt_step.completed [where w = "(NoFault, NoFault)"]) (use sample_complete_answer in \<open>simp_all add: s4_def\<close>)
  then show ?thesis
    by (simp add: s4_def sample_final_def complete_phase_def after_complete_def)
qed

theorem at_most_once_execution_witness:
  "sample_reach sample_final \<and> distinct (map ev_id (sy_log sample_final)) \<and> sy_log sample_final = [sample_event]"
  using at_most_once_execution [OF sample_reachable] sample_reachable by (simp add: sample_final_def)

theorem replay_provenance_witness:
  "\<exists>ev raw. ev \<in> set (sy_log sample_final) \<and> ev_id ev = sample_id \<and> ev_digest ev = Digest [8]
    \<and> complete_bytes rt_env (ev_result ev) = Some raw \<and> stored_result rt_env raw = Some sample_answer"
proof (rule replay_provenance [OF sample_reachable])
  show "\<forall>i. sql_recorded sample_store Map.empty i = None"
    by (simp add: sql_recorded_def)
  show "Reserve rt_env sample_store (NoFault, NoFault) sample_id (Digest [8]) (sy_store sample_final)
      = (Ok (Some sample_answer), sample_journal (Some [5]))"
    by (simp add: sample_final_def sample_reserve(3))
qed


theorem handler_outcome_settled_witness:
  "rs_ErrorCode (run_handler rt_env sample_runtime sample_ob sample_admitted) = []
   \<and> rs_Output (run_handler rt_env sample_runtime sample_ob sample_admitted) = [52, 50]
   \<and> cx_deadline (execution_context sample_runtime sample_ob sample_admitted) \<noteq> None"
proof -
  have "rs_ErrorCode (ad_result sample_admitted) = []" "rs_Output (ad_result sample_admitted) = []"
    by (simp_all add: sample_admitted_def begin_result_def)
  from handler_outcome_settled [OF this, of rt_env sample_runtime sample_ob] show ?thesis
    by (simp add: Let_def sample_run) (auto simp: sample_answer_def begin_result_def)
qed

end
