(* ===== verification/Bridge_EndToEnd.thy ===== *)
theory Bridge_EndToEnd
  imports Bridge_Client Bridge_Runtime
begin

text \<open>
  Client, transport, runtime and journal put together: what the HTTP client of the dispatcher
  exchanges with \<open>ServeHTTP\<close>, the agreement of the two sides' checks, and an invocation carried from
  \<open>Invoke\<close> to the handler and back.
\<close>

section \<open>The wire between dispatcher and runtime\<close>

definition request_of :: "http_post \<Rightarrow> http_request" where
  "request_of post =
     \<lparr>rq_Path = u_Path (hp_url post), rq_Method = ''POST'',
      rq_ContentType = (case map_of (hp_headers post) ''Content-Type'' of Some v \<Rightarrow> v | None \<Rightarrow> []),
      rq_RawQuery = u_RawQuery (hp_url post), rq_Body = hp_body post, rq_BodyError = False, rq_Deadline = None\<rparr>"

text \<open>\<open>json.Encoder\<close> writes the encoding and a line feed.\<close>

definition encode_body :: "bridge_env \<Rightarrow> response_body \<Rightarrow> bytes" where
  "encode_body env b =
     (case b of
        Signed m \<Rightarrow> (case js_marshal (js_SignedMessage env) m of Some raw \<Rightarrow> raw @ [10] | None \<Rightarrow> [])
      | ErrorCode c \<Rightarrow> bytes_of_string (''{\"code\":\"'' @ c @ ''\"}'' @ newline))"

definition answer_of :: "bridge_env \<Rightarrow> http_response \<Rightarrow> http_answer" where
  "answer_of env r =
     \<lparr>ha_Status = hr_Status r,
      ha_ContentType = (case map_of (hr_Headers r) ''Content-Type'' of Some v \<Rightarrow> v | None \<Rightarrow> []),
      ha_ContentEncoding = [], ha_Body = encode_body env (hr_Body r), ha_BodyError = False\<rparr>"

definition runtime_http ::
  "bridge_env \<Rightarrow> Store \<Rightarrow> 'w Runtime \<Rightarrow> 'w observations \<Rightarrow> (sql_fault \<times> sql_fault) \<times> (sql_fault \<times> sql_fault) \<Rightarrow>
   exec_table \<Rightarrow> http_do" where
  "runtime_http env st rt ob io t post =
     map_option (answer_of env) (fst (ServeHTTP env (Reserve env st) (Complete env st) rt ob io (request_of post) t))"

section \<open>The two sides agree\<close>

text \<open>The client's configuration describes the runtime.\<close>

definition describes :: "bridge_env \<Rightarrow> client_Options \<Rightarrow> 'w Runtime \<Rightarrow> bool" where
  "describes env opts rt \<longleftrightarrow>
     op_Issuer opts = cf_Issuer (rt_config rt) \<and> op_Audience opts = cf_Audience (rt_config rt)
     \<and> op_BindingID opts = cf_BindingID (rt_config rt) \<and> op_BindingRevision opts = cf_BindingRevision (rt_config rt)
     \<and> op_Scope opts = cf_Scope (rt_config rt) \<and> op_ManifestDigest opts = rt_manifestDigest rt
     \<and> op_SigningKeyID opts = cf_SigningKeyID (rt_config rt)
     \<and> op_TrustedKeys opts = cf_TrustedKeys (rt_config rt)
     \<and> key_pair env (cf_SigningKey (rt_config rt)) (op_SigningPublicKey opts)"

lemma validGrant_validAuthorization:
  assumes "describes env opts rt" and "validGrant env opts now a" and "\<not> json_Valid env []"
    and "\<exists>f. au_Function a = Some f \<and> rt_functions rt f \<noteq> None"
    and "au_IssuedAt a <=s now'" and "now' <s au_ExpiresAt a"
  shows "validAuthorization env rt now' a invoke_path"
proof -
  have "invoke_path \<noteq> challenge_path"
    by (simp add: invoke_path_def challenge_path_def)
  moreover have "au_Input a \<noteq> []"
    using assms(2,3) by (auto simp: validGrant_def split: option.splits)
  ultimately show ?thesis
    using assms
    by (auto simp: validGrant_def describes_def validAuthorization_def valid_static_def valid_invocation_def
        client_identifier_eq client_digest_eq word_sle_eq word_sless_alt split: option.splits)
qed

text \<open>
  The client never dispatches a grant its runtime will refuse on static
  grounds: when the client's configuration describes the runtime and the function is registered, a
  grant the client accepts passes the runtime's check at every moment of its validity, although the
  two sides implement the checks separately.
\<close>

lemma grant_checks_agree:
  assumes "describes env opts rt" and "validGrant env opts now a" and "\<not> json_Valid env []"
    and "\<exists>f. au_Function a = Some f \<and> rt_functions rt f \<noteq> None"
    and "sint (au_IssuedAt a) \<le> sint (now' :: i64)" and "sint now' < sint (au_ExpiresAt a)"
  shows "validAuthorization env rt now' a invoke_path"
  using assms by (intro validGrant_validAuthorization) (simp_all add: word_sle_eq word_sless_alt)

section \<open>An invocation end to end\<close>

text \<open>
  The hypotheses of a run without incidents, in four groups: the exchange (the endpoint, the
  message and how its JSON reads back), the grant (accepted by \<open>Authorize\<close>, live while it is used),
  the journal (the identity is new, nothing fails), and the handler (it returns valid JSON of
  bounded size, and the compact form is stable).
\<close>

definition exchange_ok :: "bridge_env \<Rightarrow> net_env \<Rightarrow> string \<Rightarrow> SignedMessage \<Rightarrow> bool" where
  "exchange_ok env net endpoint m \<longleftrightarrow>
     (case ValidateEndpoint net endpoint of Ok u \<Rightarrow> trim_right (CHR ''/'') (u_Path u) = [] \<and> u_RawQuery u = [] | _ \<Rightarrow> False)
     \<and> mime_MediaType env ''application/json'' = Some ''application/json''
     \<and> (case js_marshal (js_SignedMessage env) m of
          None \<Rightarrow> False
        | Some body \<Rightarrow> length body \<le> MaximumBodyBytes \<and> js_decode_all (js_SignedMessage env) body = Some m)"

definition answer_readable :: "bridge_env \<Rightarrow> SignedMessage \<Rightarrow> bool" where
  "answer_readable env m \<longleftrightarrow> sm_Payload m \<noteq> []
     \<and> (case js_marshal (js_SignedMessage env) m of
          None \<Rightarrow> False
        | Some body \<Rightarrow> length body < MaximumBodyBytes \<and> js_decode_all (js_SignedMessage env) (body @ [10]) = Some m)"

definition grant_live :: "'w Runtime \<Rightarrow> 'w observations \<Rightarrow> go_context \<Rightarrow> Authorization \<Rightarrow> SignedMessage \<Rightarrow> bool" where
  "grant_live rt ob c a m \<longleftrightarrow>
     au_IssuedAt a <=s ob_nowValid ob \<and> ob_nowValid ob <s au_ExpiresAt a
     \<and> (case cf_Authorize (rt_config rt) of
          None \<Rightarrow> False | Some authorize \<Rightarrow> authorize (ob_authorizeWorld ob) c a m = Ok ())
     \<and> grantActive (ob_liveAuthorized ob) (ob_nowAuthorized ob) a
     \<and> grantActive (ob_liveReserved ob) (ob_nowReserved ob) a
     \<and> ob_liveBefore ob \<and> ob_liveAfter ob"

definition output_ok :: "bridge_env \<Rightarrow> bytes \<Rightarrow> bytes \<Rightarrow> bool" where
  "output_ok env out canonical \<longleftrightarrow> json_Valid env out \<and> length out \<le> MaximumInputBytes
     \<and> marshal_RawMessage env out = Some canonical \<and> length canonical \<le> MaximumInputBytes
     \<and> canonical \<noteq> [] \<and> json_Valid env canonical \<and> marshal_RawMessage env canonical = Some canonical"

definition served_result :: "Authorization \<Rightarrow> bytes \<Rightarrow> 'w observations \<Rightarrow> bytes \<Rightarrow> Result" where
  "served_result a raw ob canonical =
     (begin_result a raw (ob_nowResult ob))\<lparr>rs_Output := canonical, rs_CompletedAt := ob_nowCompleted ob\<rparr>"

lemma served_result_output [simp]:
  "rs_Output (served_result a raw ob canonical) = canonical"
  "(served_result a raw ob canonical)\<lparr>rs_Output := canonical\<rparr> = served_result a raw ob canonical"
  by (simp_all add: served_result_def)

lemma run_handler_served:
  assumes "handler_of rt a (ob_handlerWorld ob) (execution_context rt ob ad) a = Ok out"
    and "ob_liveBefore ob" "ob_liveAfter ob" "output_ok env out canonical"
    and "ad_authorization ad = a" "ad_result ad = begin_result a raw (ob_nowResult ob)"
  shows "run_handler env rt ob ad = served_result a raw ob canonical"
  using assms by (simp add: run_handler_def execute_def settle_output_def output_ok_def served_result_def)

lemma served_result_bound:
  "au_Nonce a = [] \<Longrightarrow> result_bound (served_result a raw ob canonical) a raw"
  by (simp add: result_bound_def served_result_def begin_result_def)

lemma read_envelope_post:
  assumes "exchange_ok env net endpoint m" and "ValidateEndpoint net endpoint = Ok u"
    and "js_marshal (js_SignedMessage env) m = Some body"
  shows "read_envelope env (request_of \<lparr>hp_url = function_url u ''invoke'', hp_headers = json_headers, hp_body = body\<rparr>) = Next m"
  using assms
  by (simp add: exchange_ok_def read_envelope_def request_of_def function_url_def json_headers_def invoke_path_def
      challenge_path_def strictJSON_def)

lemma read_answer_signed:
  assumes "answer_readable env m" "sm_KeyID m \<noteq> []" "sm_Signature m \<noteq> []"
    and "mime_MediaType env ''application/json'' = Some ''application/json''"
  shows "read_answer env (answer_of env \<lparr>hr_Status = 200, hr_Headers = base_headers, hr_Body = Signed m\<rparr>) = Ok m"
  using assms
  by (auto simp: read_answer_def answer_of_def base_headers_def encode_body_def answer_readable_def split: option.splits)

definition invoke_context :: "Authorization \<Rightarrow> SignedMessage \<Rightarrow> go_context" where
  "invoke_context a m =
     (with_deadline (sint (au_ExpiresAt a) * second_ns) \<lparr>cx_deadline = None, cx_invocation = None\<rparr>)
     \<lparr>cx_invocation := Some (a, m)\<rparr>"

lemma admit_granted:
  assumes "read_envelope env rq = Next m" and "rq_Path rq = invoke_path" and "rq_Deadline rq = None"
    and "map_get (cf_TrustedKeys (rt_config rt)) (sm_KeyID m) = Some key"
    and "VerifyAuthorization env m key = Ok (a, raw)"
    and "validAuthorization env rt (ob_nowValid ob) a invoke_path" and "au_Kind a = ''invocation''"
    and "grant_live rt ob (invoke_context a m) a m"
  shows "admit env rt ob rq = Next \<lparr>ad_authorization = a, ad_raw = raw, ad_message = m,
    ad_context = invoke_context a m, ad_result = begin_result a raw (ob_nowResult ob)\<rparr>"
proof -
  have "grant_context rq a m = invoke_context a m"
    using assms(3,7) by (simp add: grant_context_def invoke_context_def)
  with assms show ?thesis
    by (auto simp: admit_def grant_live_def split: option.splits)
qed

lemma reserve_complete_fresh:
  assumes "t (st_namespace st, i) = None" and "identifier_ok (st_namespace st) 256" and "validIdentity i d"
    and "complete_bytes env r = Some x"
  shows "\<exists>t1 t2. Reserve env st (NoFault, NoFault) i d t = (Ok None, t1)
    \<and> Complete env st (NoFault, NoFault) i d r t1 = (Ok (), t2)"
  using assms row_checks_valid [OF assms(3,2)]
  by (simp add: Reserve_def Reserve_insert_def insert_execution_def Complete_def update_result_def)

lemma SignResult_served:
  assumes "NewRuntime env config = Ok rt" and "output_ok env out canonical"
    and "complete_bytes env (served_result a raw ob canonical) = Some x"
  shows "\<exists>sm. SignResult env (served_result a raw ob canonical) (cf_SigningKeyID (rt_config rt))
      (cf_SigningKey (rt_config rt)) = Ok sm \<and> sm_KeyID sm = cf_SigningKeyID (rt_config rt)"
proof -
  have "js_marshal (js_Result env) (served_result a raw ob canonical) = Some x" "length x \<le> MaximumBodyBytes div 2"
    using assms(3) by (auto simp: complete_bytes_def split: if_splits option.splits)
  then show ?thesis
    using assms(2) NewRuntime_Ok(4,5) [OF assms(1)] by (simp add: SignResult_def sign_def output_ok_def)
qed

lemma serve_invocation:
  assumes "NewRuntime env config = Ok rt"
    and adm: "admit env rt ob rq = Next \<lparr>ad_authorization = a, ad_raw = raw, ad_message = m, ad_context = c,
      ad_result = begin_result a raw (ob_nowResult ob)\<rparr>" (is "_ = Next ?ad")
    and "valid_invocation env rt a" and "au_Function a = Some f" "rt_functions rt f = Some h"
    and "\<And>c. h (ob_handlerWorld ob) c a = Ok out" and "output_ok env out canonical"
    and "grant_live rt ob c' a m"
    and "t (st_namespace st, cf_BindingID (rt_config rt) @ '':'' @ au_ID a) = None" "identifier_ok (st_namespace st) 256"
    and "js_marshal (js_Authorization env) (semantic a) = Some semanticJSON"
    and "complete_bytes env (served_result a raw ob canonical) = Some x"
    and "SignResult env (served_result a raw ob canonical) (cf_SigningKeyID (rt_config rt))
      (cf_SigningKey (rt_config rt)) = Ok sm"
  shows "fst (ServeHTTP env (Reserve env st) (Complete env st) rt ob ((NoFault, NoFault), (NoFault, NoFault)) rq t)
    = Some \<lparr>hr_Status = 200, hr_Headers = base_headers, hr_Body = Signed sm\<rparr>"
proof -
  have kind: "au_Kind a \<noteq> ''challenge''"
    using assms(3) by (auto simp: valid_invocation_def split: option.splits)
  have ident: "identify env rt ?ad = Next (cf_BindingID (rt_config rt) @ '':'' @ au_ID a, Digest semanticJSON)"
    using assms(11) by (simp add: identify_def)
  have run: "run_handler env rt ob ?ad = served_result a raw ob canonical"
    using assms by (intro run_handler_served) (auto simp: handler_of_def grant_live_def)
  obtain t1 t2 where "Reserve env st (NoFault, NoFault) (cf_BindingID (rt_config rt) @ '':'' @ au_ID a) (Digest semanticJSON) t
        = (Ok None, t1)"
      "Complete env st (NoFault, NoFault) (cf_BindingID (rt_config rt) @ '':'' @ au_ID a) (Digest semanticJSON)
         (served_result a raw ob canonical) t1 = (Ok (), t2)"
    using reserve_complete_fresh [of t st "cf_BindingID (rt_config rt) @ '':'' @ au_ID a" "Digest semanticJSON" env]
      assms(9,10,12) identity_valid [OF assms(1) adm ident] by blast
  with adm kind ident run assms(8,13) show ?thesis
    by (simp add: ServeHTTP_def after_reserve_def after_complete_def answer_result_def grant_live_def)
qed

lemma sign_result_shape:
  assumes "SignResult env r keyID key = Ok sm" and "\<And>b. length (ed25519_Sign env key b) = SignatureSize"
  shows "sm_KeyID sm \<noteq> [] \<and> sm_Signature sm \<noteq> []"
proof -
  obtain v where "sign env (js_Result env) v resultPurpose keyID key = Ok sm"
    using assms(1) by (auto simp: SignResult_def split: if_splits option.splits)
  then obtain b where "sm_KeyID sm = keyID" "identifier_ok keyID 256" "sm_Signature sm = b64_encode (ed25519_Sign env key b)"
    by (auto simp: sign_Ok_iff)
  moreover have "length (b64_encode (ed25519_Sign env key b)) = b64_encoded_len SignatureSize"
    using assms(2) by (simp add: length_b64_encode)
  ultimately show ?thesis
    by (auto simp: identifier_ok_iff b64_encoded_len_def)
qed

lemma verify_served:
  assumes "describes env opts rt"
    and "SignResult env (served_result a raw ob canonical) (cf_SigningKeyID (rt_config rt)) (cf_SigningKey (rt_config rt)) = Ok sm"
    and "output_ok env out canonical" and "codec_faithful (js_Result env) (served_result a raw ob canonical)" and "au_Nonce a = []"
  shows "VerifyResult env sm (op_SigningPublicKey opts) a raw = Ok (served_result a raw ob canonical)"
proof -
  have kp: "key_pair env (cf_SigningKey (rt_config rt)) (op_SigningPublicKey opts)"
    using assms(1) by (simp add: describes_def)
  have "\<exists>output. (rs_Output (served_result a raw ob canonical) = [] \<and> output = []
          \<or> marshal_RawMessage env (rs_Output (served_result a raw ob canonical)) = Some output)
        \<and> VerifyResult env sm (op_SigningPublicKey opts) a raw = Ok ((served_result a raw ob canonical)\<lparr>rs_Output := output\<rparr>)"
  proof (rule SignResult_VerifyResult [OF kp assms(2) _ served_result_bound [OF assms(5)]])
    show "codec_faithful (js_Result env) ((served_result a raw ob canonical)\<lparr>rs_Output := o'\<rparr>)"
      if "rs_Output (served_result a raw ob canonical) = [] \<and> o' = []
        \<or> marshal_RawMessage env (rs_Output (served_result a raw ob canonical)) = Some o'" for o'
      using that assms(3,4) by (auto simp: output_ok_def)
  qed
  then show ?thesis
    using assms(3) by (auto simp: output_ok_def)
qed

text \<open>The runtime's answer comes back through the dispatcher as it was signed.\<close>

lemma send_served:
  assumes "exchange_ok env net endpoint m" and "ValidateEndpoint net endpoint = Ok u" and "js_marshal (js_SignedMessage env) m = Some body"
    and "http \<lparr>hp_url = function_url u ''invoke'', hp_headers = json_headers, hp_body = body\<rparr>
      = Some (answer_of env \<lparr>hr_Status = 200, hr_Headers = base_headers, hr_Body = Signed sm\<rparr>)"
    and "SignResult env r keyID key = Ok sm" and "\<And>b. length (ed25519_Sign env key b) = SignatureSize" and "answer_readable env sm"
  shows "fst (Send env net http endpoint ''invoke'' m) = Ok sm"
proof -
  have "length body \<le> MaximumBodyBytes" "mime_MediaType env ''application/json'' = Some ''application/json''"
    using assms(1-3) by (auto simp: exchange_ok_def)
  moreover from this(2) have "read_answer env (answer_of env \<lparr>hr_Status = 200, hr_Headers = base_headers, hr_Body = Signed sm\<rparr>) = Ok sm"
    using sign_result_shape [OF assms(5,6)] by (intro read_answer_signed [OF assms(7)]) auto
  ultimately show ?thesis
    using assms(2-4) by (simp add: Send_def send_def Let_def)
qed

text \<open>
  \<^bold>\<open>C3\<close> End to end: when the client's configuration describes the runtime, the grant
  verifies, is accepted and stays live, the operation is new to the journal and nothing fails, then
  \<open>Invoke\<close>, through the dispatcher, the runtime, the handler and the journal and back, returns
  without error exactly the handler's output in compact form, in a result that carries the
  operation's identity, after one dispatch.
\<close>

theorem invoke_end_to_end:
  assumes "NewRuntime env config = Ok rt" and "describes env opts rt"
    and "client_New env net (runtime_http env st rt ob ((NoFault, NoFault), (NoFault, NoFault)) t) opts = Ok client"
    and "op_Dispatcher opts = None" and "op_AuthenticationMode opts = ''signed_https''"
    and "exchange_ok env net (op_EndpointURL opts) m"
    and "map_get (op_TrustedKeys opts) (sm_KeyID m) = Some key" and "VerifyAuthorization env m key = Ok (a, raw)"
    and "validGrant env opts now a" and "\<not> json_Valid env []"
    and "au_Function a = Some f" "rt_functions rt f = Some h" "\<And>c. h (ob_handlerWorld ob) c a = Ok out"
    and "output_ok env out canonical" and "grant_live rt ob (invoke_context a m) a m"
    and "t (st_namespace st, cf_BindingID (rt_config rt) @ '':'' @ au_ID a) = None" "identifier_ok (st_namespace st) 256"
    and "js_marshal (js_Authorization env) (semantic a) = Some semanticJSON"
    and "complete_bytes env (served_result a raw ob canonical) = Some x"
    and "codec_faithful (js_Result env) (served_result a raw ob canonical)"
    and "\<And>sm. SignResult env (served_result a raw ob canonical) (op_SigningKeyID opts) (cf_SigningKey (rt_config rt)) = Ok sm
           \<Longrightarrow> answer_readable env sm"
    and "0 < sint (ob_nowCompleted ob)" "\<not> later + 5 <s ob_nowCompleted ob"
  shows "Invoke env client (now, later) True m
      = \<lparr>iv_result = served_result a raw ob canonical, iv_error = None, iv_sent = [(op_EndpointURL opts, m)]\<rparr>
    \<and> rs_Output (served_result a raw ob canonical) = canonical \<and> rs_ID (served_result a raw ob canonical) = au_ID a"
proof -
  let ?r = "served_result a raw ob canonical" and ?http = "runtime_http env st rt ob ((NoFault, NoFault), (NoFault, NoFault)) t"
  obtain d where client: "client = \<lparr>bc_dispatcher = https_dispatcher env net ?http d, bc_options = opts\<rparr>"
    using assms(3,4) by (auto simp: client_New_def split: if_splits outcome.splits)
  obtain u body where u: "ValidateEndpoint net (op_EndpointURL opts) = Ok u" "trim_right (CHR ''/'') (u_Path u) = []"
      and body: "js_marshal (js_SignedMessage env) m = Some body" "length body \<le> MaximumBodyBytes"
    using assms(6) by (auto simp: exchange_ok_def split: outcome.splits option.splits)
  define post where "post = \<lparr>hp_url = function_url u ''invoke'', hp_headers = json_headers, hp_body = body\<rparr>"
  have path: "rq_Path (request_of post) = invoke_path" "rq_Deadline (request_of post) = None"
    using u(2) by (simp_all add: post_def request_of_def function_url_def invoke_path_def)
  have valid: "validAuthorization env rt (ob_nowValid ob) a invoke_path"
    using assms(11,12,15) by (intro validGrant_validAuthorization [OF assms(2,9,10)]) (auto simp: grant_live_def)
  then have inv: "valid_invocation env rt a" "au_Kind a = ''invocation''" "au_Nonce a = []"
    by (auto simp: validAuthorization_def valid_invocation_def invoke_path_def challenge_path_def split: option.splits)
  have adm: "admit env rt ob (request_of post) = Next \<lparr>ad_authorization = a, ad_raw = raw, ad_message = m,
      ad_context = invoke_context a m, ad_result = begin_result a raw (ob_nowResult ob)\<rparr>"
    using assms(2,7,8,15) path valid inv(2) read_envelope_post [OF assms(6) u(1) body(1)]
    by (intro admit_granted) (auto simp: post_def describes_def)
  obtain sm where sm: "SignResult env ?r (cf_SigningKeyID (rt_config rt)) (cf_SigningKey (rt_config rt)) = Ok sm"
      "sm_KeyID sm = op_SigningKeyID opts"
    using SignResult_served [OF assms(1,14,19)] assms(2) by (auto simp: describes_def)
  have "fst (ServeHTTP env (Reserve env st) (Complete env st) rt ob ((NoFault, NoFault), (NoFault, NoFault)) (request_of post) t)
      = Some \<lparr>hr_Status = 200, hr_Headers = base_headers, hr_Body = Signed sm\<rparr>"
    by (rule serve_invocation [OF assms(1) adm inv(1) assms(11-15)]) (use assms(16-19) sm(1) in simp_all)
  then have "?http post = Some (answer_of env \<lparr>hr_Status = 200, hr_Headers = base_headers, hr_Body = Signed sm\<rparr>)"
    by (simp add: runtime_http_def)
  then have sent: "fst (Send env net ?http (op_EndpointURL opts) ''invoke'' m) = Ok sm"
    using assms(2,21) sm(1) unfolding post_def
    by (intro send_served [OF assms(6) u(1) body(1) _ sm(1)]) (auto simp: describes_def key_pair_def)
  have "VerifyResult env sm (op_SigningPublicKey opts) a raw = Ok ?r"
    using verify_served [OF assms(2) sm(1) assms(14,20) inv(3)] .
  with sent sm(2) assms(5,7-9,14,22,23) client show ?thesis
    by (simp add: Invoke_def https_dispatcher_def accept_response_def output_ok_def word_sle_eq not_le)
      (simp add: served_result_def begin_result_def)
qed

section \<open>A concrete invocation\<close>

definition sample_options :: client_Options where
  "sample_options = \<lparr>op_TransportOptions = None, op_Dispatcher = None, op_TrustedKeys = [(''k1'', sample_pub)],
     op_Scope = au_Scope sample_authorization, op_ManifestDigest = sample_manifest_digest, op_EndpointURL = ''https://f'',
     op_Issuer = ''control'', op_SigningKeyID = ''k1'', op_Audience = ''runtime'', op_BindingID = ''binding'',
     op_AuthenticationMode = ''signed_https'', op_SigningPublicKey = sample_pub, op_BindingRevision = 1\<rparr>"

definition sample_http :: http_do where
  "sample_http = runtime_http rt_env sample_store sample_runtime sample_ob ((NoFault, NoFault), (NoFault, NoFault)) Map.empty"

lemma sample_key_pair_rt: "key_pair rt_env sample_priv sample_pub"
  using sample_key_pair by (simp add: key_pair_def)

lemma sample_describes: "describes rt_env sample_options sample_runtime"
  using sample_key_pair_rt
  by (simp add: describes_def sample_options_def sample_runtime_def sample_config_def)

lemma sample_endpoint:
  "\<exists>u. ValidateEndpoint sample_net ''https://f'' = Ok u \<and> u_Path u = [] \<and> u_RawQuery u = []"
  by (simp add: ValidateEndpoint_def sample_net_def trim_space_ident ident_char_def has_prefix_def has_suffix_def
      trim_suffix_def u_Hostname_def u_Port_def split_url_host_def Let_def)

lemma sample_grant_ok: "validGrant rt_env sample_options 1000 sample_grant"
  by (simp add: validGrant_def sample_grant_def sample_authorization_def sample_options_def sample_function_def
      client_identifier_eq client_digest_eq identifier_ok_small MaximumInputBytes_def ProtocolVersion_def
      word_sless_alt word_sle_eq)

lemma sample_client:
  "\<exists>client. client_New rt_env sample_net sample_http sample_options = Ok client"
proof -
  have "isDigest sample_manifest_digest"
    by (simp add: sample_manifest_digest_def)
  then show ?thesis
    using sample_endpoint
    by (auto simp: client_New_def sample_options_def sample_authorization_def client_identifier_eq client_digest_eq
        identifier_ok_small sample_pub_def word_sless_alt new_HTTPSDispatcher_def)
qed

lemma sample_served: "served_result sample_grant [4] sample_ob [52, 50] = sample_answer"
  by (simp add: served_result_def sample_answer_def sample_ob_def)

lemma sample_signed:
  "SignResult rt_env sample_answer ''k1'' sample_priv = Ok sample_response"
  by (simp add: SignResult_def sign_def sample_priv_def sample_response_def MaximumBodyBytes_def identifier_ok_small
      del: b64_encode.simps)
    (simp add: sample_answer_def MaximumInputBytes_def)

theorem invoke_end_to_end_witness:
  "\<exists>client. client_New rt_env sample_net sample_http sample_options = Ok client
     \<and> Invoke rt_env client (1000, 1003) True sample_message
       = \<lparr>iv_result = sample_answer, iv_error = None, iv_sent = [(''https://f'', sample_message)]\<rparr>
     \<and> rs_Output sample_answer = [52, 50]"
proof -
  obtain client where client: "client_New rt_env sample_net sample_http sample_options = Ok client"
    using sample_client by blast
  have messages: "sample_message \<noteq> sample_response"
    by (simp add: sample_message_def sample_response_def del: b64_encode.simps)
  have "Invoke rt_env client (1000, 1003) True sample_message
      = \<lparr>iv_result = served_result sample_grant [4] sample_ob [52, 50], iv_error = None,
         iv_sent = [(op_EndpointURL sample_options, sample_message)]\<rparr>
    \<and> rs_Output (served_result sample_grant [4] sample_ob [52, 50]) = [52, 50]
    \<and> rs_ID (served_result sample_grant [4] sample_ob [52, 50]) = au_ID sample_grant"
  proof (rule invoke_end_to_end [OF sample_NewRuntime sample_describes client [unfolded sample_http_def]])
    show "exchange_ok rt_env sample_net (op_EndpointURL sample_options) sample_message"
      using sample_endpoint
      by (auto simp: exchange_ok_def sample_options_def trim_right_def js_decode_all_def MaximumBodyBytes_def)
    show "map_get (op_TrustedKeys sample_options) (sm_KeyID sample_message) = Some sample_pub"
      by (simp add: sample_options_def sample_message_def map_get_def)
    show "grant_live sample_runtime sample_ob (invoke_context sample_grant sample_message) sample_grant sample_message"
      by (simp add: grant_live_def sample_runtime_def sample_config_def sample_ob_def sample_grant_def
          sample_authorization_def grantActive_def word_sless_alt word_sle_eq)
    show "complete_bytes rt_env (served_result sample_grant [4] sample_ob [52, 50]) = Some [5]"
      unfolding sample_served
      by (simp add: complete_bytes_def MaximumBodyBytes_def MaximumInputBytes_def) (simp add: sample_answer_def)
    show "answer_readable rt_env sm"
      if "SignResult rt_env (served_result sample_grant [4] sample_ob [52, 50]) (op_SigningKeyID sample_options)
            (cf_SigningKey (rt_config sample_runtime)) = Ok sm" for sm
    proof -
      have "sm = sample_response"
        using that sample_signed by (simp add: sample_served sample_options_def sample_runtime_def sample_config_def)
      moreover have "sm_Payload sample_response \<noteq> []"
        by (simp add: sample_response_def)
      ultimately show ?thesis
        using messages by (simp add: answer_readable_def js_decode_all_def json_space_def MaximumBodyBytes_def)
    qed
    show "au_Function sample_grant = Some sample_function" "rt_functions sample_runtime sample_function = Some sample_handler"
      by (simp_all add: sample_grant_def sample_authorization_def sample_runtime_def sample_config_def register_functions_def)
    show "js_marshal (js_Authorization rt_env) (semantic sample_grant) = Some [8]"
      by (simp add: semantic_def sample_grant_def sample_authorization_def)
    show "validGrant rt_env sample_options 1000 sample_grant"
      by (rule sample_grant_ok)
    show "output_ok rt_env [52, 50] [52, 50]"
      by (simp add: output_ok_def) (simp add: MaximumInputBytes_def)
  qed (simp_all add: sample_verified sample_options_def sample_handler_def MaximumInputBytes_def
      table_faithful sample_ob_def word_sless_alt)
  with client show ?thesis
    by (auto simp: sample_served sample_options_def)
qed

theorem invoke_error_contract_witness:
  "\<exists>client. iv_error (Invoke rt_env client (1000, 1003) True sample_response) = Some ErrUnauthorized
     \<and> iv_sent (Invoke rt_env client (1000, 1003) True sample_response) = []"
proof -
  obtain client where client: "client_New rt_env sample_net sample_http sample_options = Ok client"
    using sample_client by blast
  have keys: "op_TrustedKeys (bc_options client) = [(''k1'', sample_pub)]"
    using client by (auto simp: client_New_def sample_options_def split: if_splits outcome.splits)
  have "VerifyAuthorization rt_env sample_response sample_pub = Fail ErrUnauthorized"
    by (auto simp: VerifyAuthorization_def strictJSON_def js_decode_all_def verify_Ok_iff sample_response_def
        simp del: b64_encode.simps split: outcome.splits option.splits)
  then have "iv_error (Invoke rt_env client (1000, 1003) True sample_response) = Some ErrUnauthorized"
    using keys by (simp add: Invoke_def sample_response_def map_get_def)
  with invoke_error_contract [of rt_env client "(1000, 1003)" True sample_response] show ?thesis
    by (auto simp: Let_def)
qed

end
