(* ===== verification/Bridge_Control.thy ===== *)
theory Bridge_Control
  imports Bridge_Runtime Bridge_Transport
begin

text \<open>
  How a runtime talks to Control: \<^verbatim>\<open>bridge/discovery.go\<close> (the signing keys it trusts),
  \<^verbatim>\<open>bridge/validation.go\<close> (current permission of an invocation), \<^verbatim>\<open>bridge/workload.go\<close> (the identity
  behind it) and \<^verbatim>\<open>bridge/resource.go\<close> (access to a stored payload). Every exchange is one request; the
  network is a function from requests to answers, so timeouts are the answer \<open>None\<close>.
\<close>

section \<open>What the code takes from outside\<close>

record discovered_key =
  dk_KeyID :: string
  dk_Algorithm :: string
  dk_PublicKey :: string

record key_document =
  kd_Issuer :: string
  kd_Keys :: "discovered_key list"

record ResourcePayloadManifest =
  pm_Resource :: string
  pm_Slot :: string
  pm_SchemaID :: string
  pm_Representation :: string
  pm_ObjectDigest :: string
  pm_EncryptionSuite :: string
  pm_KeyBindingRef :: string
  pm_WrappedPayloadKey :: string
  pm_AADHash :: string
  pm_EncryptorSubject :: string
  pm_EncryptorKeyID :: string
  pm_State :: string
  pm_PayloadVersion :: i64
  pm_ObjectSize :: i64
  pm_KeyVersion :: i64
  pm_ResourceRevision :: i64
  pm_LifecycleGeneration :: i64
  pm_CommittedAt :: i64

record ResourcePayloadAccessLease =
  pl_Resource :: string
  pl_Slot :: string
  pl_Representation :: string
  pl_ObjectDigest :: string
  pl_DownloadURL :: string
  pl_DownloadMethod :: string
  pl_Audience :: string
  pl_PayloadVersion :: i64
  pl_ObjectSize :: i64
  pl_ExpiresAt :: i64
  pl_ResourceRevision :: i64
  pl_LifecycleGeneration :: i64

record ResourcePayloadAccess =
  pa_CustodyOwner :: string
  pa_Lease :: ResourcePayloadAccessLease
  pa_Manifest :: ResourcePayloadManifest

record WorkloadContext_t =
  wc_InvocationID :: string
  wc_BindingID :: string
  wc_Scope :: Scope
  wc_Principal :: string
  wc_AuthorityKind :: string
  wc_AuthorityResource :: string

text \<open>
  A \<open>json.Decoder\<close> read token by token: \<open>Token\<close>, \<open>More\<close>, \<open>Decode\<close> into a \<open>json.RawMessage\<close>, and
  whether a last \<open>Decode\<close> answers \<open>io.EOF\<close>. Its state is a parameter.
\<close>

datatype json_token = Delim char | JString string | OtherToken

record 'd json_decoder =
  jd_New :: "bytes \<Rightarrow> 'd"
  jd_Token :: "'d \<Rightarrow> (json_token \<times> 'd) option"
  jd_More :: "'d \<Rightarrow> bool"
  jd_Raw :: "'d \<Rightarrow> (bytes \<times> 'd) option"
  jd_EOF :: "'d \<Rightarrow> bool"

record 'd control_env =
  ce_bridge :: bridge_env
  ce_net :: net_env
  ce_URLString :: "go_url \<Rightarrow> string"
  ce_NewKeyFromSeed :: "bytes \<Rightarrow> bytes"
  ce_Keys :: "key_document json_codec"
  ce_Access :: "ResourcePayloadAccess json_codec"
  ce_Workload :: "WorkloadContext_t json_codec"
  ce_Decoder :: "'d json_decoder"

record control_request =
  cq_Method :: string
  cq_URL :: string
  cq_Header :: "(string \<times> string) list"
  cq_Body :: bytes

text \<open>An answer is its status, the body and whether reading the body failed.\<close>

type_synonym control_answer = "nat \<times> bytes \<times> bool"
type_synonym control_do = "control_request \<Rightarrow> control_answer option"

text \<open>\<open>io.ReadAll\<close> of at most \<open>limit + 1\<close> bytes, refused when it is longer than \<open>limit\<close>.\<close>

definition read_body :: "nat \<Rightarrow> bytes \<Rightarrow> bool \<Rightarrow> bytes option" where
  "read_body limit body fails = (if fails \<or> length body > limit then None else Some body)"

section \<open>Discovery\<close>

definition controlBaseURL :: "'d control_env \<Rightarrow> string \<Rightarrow> (bridge_error, string) outcome" where
  "controlBaseURL env raw =
     (case url_Parse (ce_net env) raw of
        None \<Rightarrow> Fail ErrInvalid
      | Some u \<Rightarrow>
          if u_Scheme u \<noteq> ''https'' \<or> u_Hostname u = [] \<or> u_User u \<or> u_RawQuery u \<noteq> [] \<or> u_ForceQuery u
             \<or> u_Fragment u \<noteq> [] \<or> str_contains raw ''#''
          then Fail ErrInvalid
          else Ok (trim_right (CHR ''/'') (ce_URLString env u)))"

text \<open>\<open>isolatedControlClient\<close>: the jar and the redirect policy of the client used.\<close>

record http_client =
  hc_do :: control_do
  hc_Jar :: bool
  hc_FollowRedirects :: bool

definition isolatedControlClient :: "http_client option \<Rightarrow> http_client \<Rightarrow> http_client" where
  "isolatedControlClient client defaultClient =
     (case client of None \<Rightarrow> defaultClient | Some c \<Rightarrow> c)\<lparr>hc_Jar := False, hc_FollowRedirects := False\<rparr>"

record ControlKeys =
  ck_Keys :: "(string \<times> bytes) list"
  ck_Issuer :: string

fun collect_keys :: "discovered_key list \<Rightarrow> (string \<times> bytes) list \<Rightarrow> (bridge_error, (string \<times> bytes) list) outcome" where
  "collect_keys [] keys = Ok keys"
| "collect_keys (v # vs) keys =
     (if \<not> identifier_ok (dk_KeyID v) 256 \<or> dk_Algorithm v \<noteq> ''Ed25519'' \<or> map_get keys (dk_KeyID v) \<noteq> None
      then Fail ErrUnavailable
      else case b64_decode True (dk_PublicKey v) of
             None \<Rightarrow> Fail ErrUnavailable
           | Some public \<Rightarrow>
               if length public \<noteq> PublicKeySize then Fail ErrUnavailable
               else collect_keys vs (map_put (dk_KeyID v) public keys))"

definition DiscoverControlKeys ::
  "'d control_env \<Rightarrow> control_do \<Rightarrow> string \<Rightarrow> (bridge_error, ControlKeys) outcome" where
  "DiscoverControlKeys env net baseURL =
     (case controlBaseURL env baseURL of
        Fail e \<Rightarrow> Fail e
      | Panic \<Rightarrow> Panic
      | Ok base \<Rightarrow>
          let url = base @ ''/.well-known/lotor-function-keys.json'' in
          if url_Parse (ce_net env) url = None then Fail ErrInvalid
          else (case net \<lparr>cq_Method = ''GET'', cq_URL = url, cq_Header = [(''Accept'', ''application/json'')], cq_Body = []\<rparr> of
            None \<Rightarrow> Fail ErrUnavailable
          | Some (status, raw, fails) \<Rightarrow>
              if status \<noteq> 200 then Fail ErrUnavailable
              else (case read_body 65536 raw fails of
                None \<Rightarrow> Fail ErrUnavailable
              | Some body \<Rightarrow>
                  (case strictJSON (ce_Keys env) body of
                     Ok document \<Rightarrow>
                       if \<not> identifier_ok (kd_Issuer document) 256 \<or> length (kd_Keys document) < 1
                          \<or> length (kd_Keys document) > 8
                       then Fail ErrUnavailable
                       else (case collect_keys (kd_Keys document) [] of
                               Ok keys \<Rightarrow> Ok \<lparr>ck_Keys = keys, ck_Issuer = kd_Issuer document\<rparr>
                             | Fail e \<Rightarrow> Fail e
                             | Panic \<Rightarrow> Panic)
                   | _ \<Rightarrow> Fail ErrUnavailable))))"

section \<open>Validation of an invocation\<close>

record ControlValidator =
  cl_baseURL :: string
  cl_keyID :: string
  cl_key :: bytes

text \<open>The slice of the seed panics on a key shorter than a seed, so the length is checked first.\<close>

definition NewControlValidator ::
  "'d control_env \<Rightarrow> string \<Rightarrow> string \<Rightarrow> bytes \<Rightarrow> (bridge_error, ControlValidator) outcome" where
  "NewControlValidator env baseURL signingKeyID signingKey =
     (case controlBaseURL env baseURL of
        Ok base \<Rightarrow>
          if \<not> identifier_ok signingKeyID 256 \<or> length signingKey \<noteq> PrivateKeySize
             \<or> ce_NewKeyFromSeed env (take SeedSize signingKey) \<noteq> signingKey
          then Fail ErrInvalid
          else Ok \<lparr>cl_baseURL = base, cl_keyID = signingKeyID, cl_key = signingKey\<rparr>
      | _ \<Rightarrow> Fail ErrInvalid)"

text \<open>The request every exchange about a binding sends, and its answer: \<open>ErrInvalid\<close> before anything
  is sent, \<open>ErrUnavailable\<close> when no answer came.\<close>

definition binding_post ::
  "'d control_env \<Rightarrow> control_do \<Rightarrow> ControlValidator \<Rightarrow> string \<Rightarrow> string \<Rightarrow> SignedMessage \<Rightarrow> (bridge_error, control_answer) outcome" where
  "binding_post env net v bindingID suffix proof_message =
     (case js_marshal (js_SignedMessage (ce_bridge env)) proof_message of
        None \<Rightarrow> Fail ErrInvalid
      | Some body \<Rightarrow>
          let url = cl_baseURL v @ ''/v1/function-bindings/'' @ path_escape bindingID @ suffix in
          if url_Parse (ce_net env) url = None then Fail ErrInvalid
          else (case net \<lparr>cq_Method = ''POST'', cq_URL = url, cq_Header = json_headers, cq_Body = body\<rparr> of
                  None \<Rightarrow> Fail ErrUnavailable
                | Some a \<Rightarrow> Ok a))"

definition validator_Authorize ::
  "'d control_env \<Rightarrow> ControlValidator \<Rightarrow> control_do Authorize" where
  "validator_Authorize env v net ctx authorization original =
     (if au_Kind authorization = ''challenge'' then Ok ()
      else if au_Kind authorization \<noteq> ''invocation'' \<or> \<not> identifier_ok (au_BindingID authorization) 256
      then Fail ErrUnauthorized
      else case SignValidation (ce_bridge env) \<lparr>vr_Authorization = original\<rparr> (cl_keyID v) (cl_key v) of
        Ok proof_message \<Rightarrow>
          (case binding_post env net v (au_BindingID authorization) ''/authorizations/validate'' proof_message of
             Ok (status, _) \<Rightarrow>
               if status = 204 then Ok ()
               else if status = 403 \<or> status = 401 then Fail ErrUnauthorized
               else Fail ErrUnavailable
           | Fail e \<Rightarrow> Fail e
           | Panic \<Rightarrow> Panic)
      | _ \<Rightarrow> Fail ErrUnauthorized)"

section \<open>The identity behind an invocation\<close>

text \<open>The loop over the members of an object: each name is expected and new.\<close>

function object_fields ::
  "'d json_decoder \<Rightarrow> string list \<Rightarrow> 'd \<Rightarrow> (string \<times> bytes) list \<Rightarrow> (bridge_error, (string \<times> bytes) list \<times> 'd) outcome" where
  "object_fields js names d members =
     (if \<not> jd_More js d then Ok (members, d)
      else case jd_Token js d of
        Some (JString name, d1) \<Rightarrow>
          if map_get members name \<noteq> None \<or> name \<notin> set names then Fail ErrInvalid
          else (case jd_Raw js d1 of
                  None \<Rightarrow> Fail ErrInvalid
                | Some (raw, d2) \<Rightarrow> object_fields js names d2 (map_put name raw members))
      | _ \<Rightarrow> Fail ErrInvalid)"
  by pat_completeness auto

definition open_names :: "string list \<Rightarrow> (string \<times> bytes) list \<Rightarrow> nat" where
  "open_names names members = card {n \<in> set names. map_get members n = None}"

lemma fewer_names:
  "n \<in> set names \<Longrightarrow> map_get members n = None \<Longrightarrow> open_names names (map_put n raw members) < open_names names members"
  unfolding open_names_def by (intro psubset_card_mono) auto

termination object_fields
  by (relation "measure (\<lambda>(js, names, d, members). open_names names members)") (auto intro: fewer_names)

definition workloadObjectFields ::
  "'d json_decoder \<Rightarrow> bytes \<Rightarrow> string list \<Rightarrow> (bridge_error, (string \<times> bytes) list) outcome" where
  "workloadObjectFields js raw names =
     (case jd_Token js (jd_New js raw) of
        Some (Delim c, d) \<Rightarrow>
          if c \<noteq> CHR 0x7B then Fail ErrInvalid
          else (case object_fields js names d [] of
                  Ok (members, d') \<Rightarrow>
                    (case jd_Token js d' of
                       Some (Delim c', d'') \<Rightarrow>
                         if c' \<noteq> CHR 0x7D \<or> \<not> jd_EOF js d'' then Fail ErrInvalid else Ok members
                     | _ \<Rightarrow> Fail ErrInvalid)
                | Fail e \<Rightarrow> Fail e
                | Panic \<Rightarrow> Panic)
      | _ \<Rightarrow> Fail ErrInvalid)"

definition workload_accepted :: "Authorization \<Rightarrow> WorkloadContext_t \<Rightarrow> bool \<Rightarrow> bool" where
  "workload_accepted grant r hasAuthorityResource \<longleftrightarrow>
     \<not> (wc_InvocationID r \<noteq> au_ID grant \<or> wc_BindingID r \<noteq> au_BindingID grant \<or> wc_Scope r \<noteq> au_Scope grant
       \<or> wc_Principal r \<noteq> au_Principal grant \<or> \<not> validScope (wc_Scope r) \<or> \<not> identifier_ok (wc_Principal r) 256
       \<or> \<not> (wc_AuthorityKind r = ''subject'' \<and> \<not> hasAuthorityResource
            \<or> wc_AuthorityKind r = ''resource_credential'' \<and> identifier_ok (wc_AuthorityResource r) 256))"

definition workload_decode :: "'d control_env \<Rightarrow> Authorization \<Rightarrow> bytes \<Rightarrow> (bridge_error, WorkloadContext_t) outcome" where
  "workload_decode env grant raw =
     (case workloadObjectFields (ce_Decoder env) raw
             [''invocation_id'', ''binding_id'', ''scope'', ''principal'', ''authority_kind'', ''authority_resource''] of
        Ok members \<Rightarrow>
          (case workloadObjectFields (ce_Decoder env) (case map_get members ''scope'' of Some b \<Rightarrow> b | None \<Rightarrow> [])
                  [''tenant_id'', ''application_id'', ''environment_id'', ''owner_resource''] of
             Ok _ \<Rightarrow>
               (case strictJSON (ce_Workload env) raw of
                  Ok result \<Rightarrow>
                    if workload_accepted grant result (map_get members ''authority_resource'' \<noteq> None)
                    then Ok result else Fail ErrUnavailable
                | _ \<Rightarrow> Fail ErrUnavailable)
           | _ \<Rightarrow> Fail ErrUnavailable)
      | _ \<Rightarrow> Fail ErrUnavailable)"

definition WorkloadContext ::
  "'d control_env \<Rightarrow> control_do \<Rightarrow> ControlValidator \<Rightarrow> go_context \<Rightarrow> (bridge_error, WorkloadContext_t) outcome" where
  "WorkloadContext env net v ctx =
     (case InvocationFromContext ctx of
        None \<Rightarrow> Fail ErrUnauthorized
      | Some (grant, original) \<Rightarrow>
          if au_Kind grant \<noteq> ''invocation'' then Fail ErrUnauthorized
          else (case SignValidation (ce_bridge env) \<lparr>vr_Authorization = original\<rparr> (cl_keyID v) (cl_key v) of
            Ok proof_message \<Rightarrow>
              (case binding_post env net v (au_BindingID grant) ''/authorizations/context'' proof_message of
                 Ok (status, raw, fails) \<Rightarrow>
                   if status = 403 \<or> status = 401 then Fail ErrUnauthorized
                   else if status \<noteq> 200 then Fail ErrUnavailable
                   else (case read_body 16384 raw fails of
                           None \<Rightarrow> Fail ErrUnavailable
                         | Some body \<Rightarrow> workload_decode env grant body)
               | Fail e \<Rightarrow> Fail e
               | Panic \<Rightarrow> Panic)
          | _ \<Rightarrow> Fail ErrInvalid))"

section \<open>Access to a payload\<close>

definition lease_accepted ::
  "Authorization \<Rightarrow> i64 \<Rightarrow> string \<Rightarrow> string \<Rightarrow> i64 \<Rightarrow> ResourcePayloadAccess \<Rightarrow> bool" where
  "lease_accepted authorization nowMicro resource slot payloadVersion result \<longleftrightarrow>
     (let manifest = pa_Manifest result; lease = pa_Lease result in
      \<not> (pm_Resource manifest \<noteq> resource \<or> pl_Resource lease \<noteq> resource \<or> pm_Slot manifest \<noteq> slot \<or> pl_Slot lease \<noteq> slot
        \<or> pm_PayloadVersion manifest \<noteq> payloadVersion \<or> pl_PayloadVersion lease \<noteq> payloadVersion
        \<or> pm_ObjectDigest manifest \<noteq> pl_ObjectDigest lease \<or> pm_ObjectSize manifest \<noteq> pl_ObjectSize lease
        \<or> pm_Representation manifest \<noteq> pl_Representation lease
        \<or> pm_ResourceRevision manifest \<noteq> pl_ResourceRevision lease
        \<or> pm_LifecycleGeneration manifest \<noteq> pl_LifecycleGeneration lease
        \<or> pl_Audience lease \<noteq> ''function:'' @ au_BindingID authorization
        \<or> pl_ExpiresAt lease <=s nowMicro
        \<or> au_ExpiresAt authorization * 1000000 <s pl_ExpiresAt lease))"

definition accessPayload ::
  "'d control_env \<Rightarrow> control_do \<Rightarrow> ControlValidator \<Rightarrow> i64 \<Rightarrow> go_context \<Rightarrow> string \<Rightarrow> string \<Rightarrow> i64 \<Rightarrow> bool \<Rightarrow>
   (bridge_error, ResourcePayloadAccess) outcome" where
  "accessPayload env net v nowMicro ctx resource slot payloadVersion useCustody =
     (case InvocationFromContext ctx of
        None \<Rightarrow> Fail ErrUnauthorized
      | Some (authorization, original) \<Rightarrow>
          if resource \<notin> set (au_Resources authorization) \<or> ''payload.read'' \<notin> set (au_Capabilities authorization)
             \<or> useCustody \<and> ''custody.use'' \<notin> set (au_Capabilities authorization)
          then Fail ErrUnauthorized
          else if \<not> identifier_ok resource 256 \<or> \<not> identifier_ok slot 128 \<or> payloadVersion <s 1 then Fail ErrInvalid
          else (case SignResourceAccess (ce_bridge env)
                       \<lparr>ra_Authorization = original, ra_Resource = resource, ra_Slot = slot,
                        ra_PayloadVersion = payloadVersion, ra_UseCustody = useCustody\<rparr> (cl_keyID v) (cl_key v) of
            Ok proof_message \<Rightarrow>
              (case binding_post env net v (au_BindingID authorization) ''/resource-payload-accesses'' proof_message of
                 Ok (status, raw, fails) \<Rightarrow>
                   if status = 403 \<or> status = 401 then Fail ErrUnauthorized
                   else if status = 409 then Fail ErrConflict
                   else if status = 404 then Fail ErrNotFound
                   else if status = 400 then Fail ErrInvalid
                   else if status \<noteq> 200 then Fail ErrUnavailable
                   else (case read_body MaximumBodyBytes raw fails of
                           None \<Rightarrow> Fail ErrUnavailable
                         | Some body \<Rightarrow>
                             (case strictJSON (ce_Access env) body of
                                Ok result \<Rightarrow>
                                  if lease_accepted authorization nowMicro resource slot payloadVersion result
                                  then Ok result else Fail ErrUnauthorized
                              | _ \<Rightarrow> Fail ErrUnavailable))
               | Fail e \<Rightarrow> Fail e
               | Panic \<Rightarrow> Panic)
          | _ \<Rightarrow> Fail ErrInvalid))"

definition AccessPayload ::
  "'d control_env \<Rightarrow> control_do \<Rightarrow> ControlValidator \<Rightarrow> i64 \<Rightarrow> go_context \<Rightarrow> string \<Rightarrow> string \<Rightarrow> i64 \<Rightarrow>
   (bridge_error, ResourcePayloadAccess) outcome" where
  "AccessPayload env net v nowMicro ctx resource slot payloadVersion =
     accessPayload env net v nowMicro ctx resource slot payloadVersion False"

text \<open>A resource client is a validator.\<close>

type_synonym bridge_ResourceClient = ControlValidator

definition NewResourceClient ::
  "'d control_env \<Rightarrow> string \<Rightarrow> string \<Rightarrow> bytes \<Rightarrow> (bridge_error, bridge_ResourceClient) outcome" where
  "NewResourceClient env baseURL signingKeyID signingKey = NewControlValidator env baseURL signingKeyID signingKey"

definition resource_Authorize :: "'d control_env \<Rightarrow> bridge_ResourceClient \<Rightarrow> control_do Authorize" where
  "resource_Authorize env client = validator_Authorize env client"

declare object_fields.simps [simp del]

section \<open>The loop over the members\<close>

text \<open>The same loop with a bound on its iterations, \<open>None\<close> when the bound is reached.\<close>

fun fields_fuel ::
  "nat \<Rightarrow> 'd json_decoder \<Rightarrow> string list \<Rightarrow> 'd \<Rightarrow> (string \<times> bytes) list \<Rightarrow>
   (bridge_error, (string \<times> bytes) list \<times> 'd) outcome option" where
  "fields_fuel 0 js names d members = None"
| "fields_fuel (Suc n) js names d members =
     (if \<not> jd_More js d then Some (Ok (members, d))
      else case jd_Token js d of
        Some (JString name, d1) \<Rightarrow>
          if map_get members name \<noteq> None \<or> name \<notin> set names then Some (Fail ErrInvalid)
          else (case jd_Raw js d1 of
                  None \<Rightarrow> Some (Fail ErrInvalid)
                | Some (raw, d2) \<Rightarrow> fields_fuel n js names d2 (map_put name raw members))
      | _ \<Rightarrow> Some (Fail ErrInvalid))"

lemma fields_fuel_enough:
  "open_names names members < n \<Longrightarrow> fields_fuel n js names d members = Some (object_fields js names d members)"
proof (induction n js names d members rule: fields_fuel.induct)
  case (2 n js names d members)
  have less: "open_names names (map_put name raw members) < n"
    if "name \<in> set names" "map_get members name = None" for name raw
    using fewer_names [OF that, of raw] "2.prems" by simp
  show ?case
    using 2 less
    by (subst object_fields.simps) (auto split: option.splits prod.splits json_token.splits)
qed simp

lemma object_fields_names:
  "object_fields js names d members = Ok (members', d') \<Longrightarrow> fst ` set members \<subseteq> set names \<Longrightarrow> map_wf members \<Longrightarrow>
     fst ` set members' \<subseteq> set names \<and> map_wf members'"
proof (induction js names d members rule: object_fields.induct)
  case (1 js names d members)
  note step = "1.prems"(1) [unfolded object_fields.simps [of js names d members]]
  show ?case
    using step "1.prems"(2,3) "1.IH"
    by (auto simp: set_map_put split: if_splits option.splits prod.splits json_token.splits)
qed

section \<open>What the answers are worth\<close>

lemma collect_keys_Ok:
  "collect_keys vs keys = Ok keys' \<Longrightarrow> map_wf keys \<Longrightarrow>
     map_wf keys' \<and> set keys' \<subseteq> set keys \<union> {(dk_KeyID v, k) |v k. v \<in> set vs \<and> b64_decode True (dk_PublicKey v) = Some k
         \<and> identifier_ok (dk_KeyID v) 256 \<and> length k = 32 \<and> dk_Algorithm v = ''Ed25519''}
     \<and> length keys' = length keys + length vs"
proof (induction vs keys rule: collect_keys.induct)
  case (2 v vs keys)
  obtain public where p: "b64_decode True (dk_PublicKey v) = Some public" "length public = 32"
      "identifier_ok (dk_KeyID v) 256" "dk_Algorithm v = ''Ed25519''" "map_get keys (dk_KeyID v) = None"
      "collect_keys vs (map_put (dk_KeyID v) public keys) = Ok keys'"
    using 2 by (auto split: if_splits option.splits)
  have "length (map_put (dk_KeyID v) public keys) = Suc (length keys)"
    using p(5) by (rule length_map_put_new)
  then show ?case
    using "2.IH" "2.prems" p set_map_put_subset [of "dk_KeyID v" public keys] by fastforce
qed simp

lemma binding_post_Ok:
  "binding_post env net v bindingID suffix proof_message = Ok a \<Longrightarrow>
     \<exists>body. js_marshal (js_SignedMessage (ce_bridge env)) proof_message = Some body
       \<and> net \<lparr>cq_Method = ''POST'', cq_URL = cl_baseURL v @ ''/v1/function-bindings/'' @ path_escape bindingID @ suffix,
              cq_Header = json_headers, cq_Body = body\<rparr> = Some a"
  by (auto simp: binding_post_def Let_def split: option.splits if_splits)

section \<open>Properties\<close>

text \<open>
  The loop that reads the members of an object ends whatever the decoder answers: a new,
  expected name is needed for every further iteration, so one more than the number of expected names is
  enough fuel, and the bounded loop gives the result of the loop.
\<close>

lemma workload_fields_terminate:
  "fields_fuel (Suc (length names)) js names d [] = Some (object_fields js names d [])"
proof -
  have "open_names names [] \<le> length names"
    unfolding open_names_def by (simp add: card_length)
  then show ?thesis
    by (intro fields_fuel_enough) simp
qed

text \<open>
  The keys a runtime discovers are fit to be its trusted keys: between one and eight, each
  a 32-byte key decoded from the Control document under an identifier listed there for Ed25519, no
  identifier twice. \<open>NewRuntime\<close> therefore never refuses a configuration because of discovered keys.
\<close>

lemma discovered_keys_usable:
  assumes "DiscoverControlKeys env net baseURL = Ok found"
  shows "identifier_ok (ck_Issuer found) 256 \<and> 1 \<le> length (ck_Keys found) \<and> length (ck_Keys found) \<le> 8
    \<and> map_wf (ck_Keys found)
    \<and> list_all (\<lambda>(i, k). identifier_ok i 256 \<and> length k = PublicKeySize) (ck_Keys found)
    \<and> (\<exists>base document raw. controlBaseURL env baseURL = Ok base
         \<and> net \<lparr>cq_Method = ''GET'', cq_URL = base @ ''/.well-known/lotor-function-keys.json'',
                cq_Header = [(''Accept'', ''application/json'')], cq_Body = []\<rparr> = Some (200, raw, False)
         \<and> strictJSON (ce_Keys env) raw = Ok document
         \<and> set (ck_Keys found) \<subseteq> {(dk_KeyID v, k) |v k. v \<in> set (kd_Keys document) \<and> b64_decode True (dk_PublicKey v) = Some k})"
proof -
  obtain base document raw where d: "controlBaseURL env baseURL = Ok base"
      "net \<lparr>cq_Method = ''GET'', cq_URL = base @ ''/.well-known/lotor-function-keys.json'',
            cq_Header = [(''Accept'', ''application/json'')], cq_Body = []\<rparr> = Some (200, raw, False)"
      "strictJSON (ce_Keys env) raw = Ok document" "identifier_ok (kd_Issuer document) 256"
      "\<not> length (kd_Keys document) < 1" "\<not> length (kd_Keys document) > 8" "ck_Issuer found = kd_Issuer document"
      "collect_keys (kd_Keys document) [] = Ok (ck_Keys found)"
    using assms
    by (auto simp: DiscoverControlKeys_def Let_def read_body_def split: outcome.splits option.splits prod.splits if_splits)
  have keys: "map_wf (ck_Keys found)" "length (ck_Keys found) = length (kd_Keys document)"
      "set (ck_Keys found) \<subseteq> {(dk_KeyID v, k) |v k. v \<in> set (kd_Keys document) \<and> b64_decode True (dk_PublicKey v) = Some k
         \<and> identifier_ok (dk_KeyID v) 256 \<and> length k = 32 \<and> dk_Algorithm v = ''Ed25519''}"
    using collect_keys_Ok [OF d(8)] by simp_all
  have "list_all (\<lambda>(i, k). identifier_ok i 256 \<and> length k = PublicKeySize) (ck_Keys found)"
    using keys(3) by (fastforce simp: list_all_iff)
  moreover have "set (ck_Keys found) \<subseteq> {(dk_KeyID v, k) |v k. v \<in> set (kd_Keys document) \<and> b64_decode True (dk_PublicKey v) = Some k}"
    using keys(3) by blast
  ultimately show ?thesis
    using d keys(1,2) by (intro conjI exI [of _ base] exI [of _ document] exI [of _ raw]) (simp_all add: Suc_leI)
qed

text \<open>
  A runtime that uses the validator as its \<open>Authorize\<close> executes nothing on its own word: the
  call succeeds for an invocation only if Control answered 204 to a request that carries the original
  grant, signed by this runtime's key, on the path of exactly this binding. The path cannot be diverted
  by the binding's name: no other identifier gives it, and the name adds no segment, query or fragment.
\<close>

lemma authorize_means_validated:
  assumes "validator_Authorize env v net ctx a original = Ok u" and "au_Kind a \<noteq> ''challenge''"
  shows "au_Kind a = ''invocation'' \<and>
    (\<exists>message body. SignValidation (ce_bridge env) \<lparr>vr_Authorization = original\<rparr> (cl_keyID v) (cl_key v) = Ok message
       \<and> js_marshal (js_SignedMessage (ce_bridge env)) message = Some body
       \<and> (\<exists>reply. net \<lparr>cq_Method = ''POST'',
             cq_URL = cl_baseURL v @ ''/v1/function-bindings/'' @ path_escape (au_BindingID a) @ ''/authorizations/validate'',
             cq_Header = json_headers, cq_Body = body\<rparr> = Some (204, reply)))
    \<and> path_unescape (path_escape (au_BindingID a)) = Some (au_BindingID a)
    \<and> list_all (\<lambda>c. c \<notin> set (path_escape (au_BindingID a))) ''/?#''"
proof -
  obtain message reply where
      kind: "au_Kind a = ''invocation''"
      and m: "SignValidation (ce_bridge env) \<lparr>vr_Authorization = original\<rparr> (cl_keyID v) (cl_key v) = Ok message"
      and p: "binding_post env net v (au_BindingID a) ''/authorizations/validate'' message = Ok (204, reply)"
    using assms by (auto simp: validator_Authorize_def split: if_splits outcome.splits prod.splits)
  have "list_all (\<lambda>c. c \<notin> set (path_escape (au_BindingID a))) ''/?#''"
    using path_escape_segment by simp
  then show ?thesis
    using kind m binding_post_Ok [OF p] path_unescape_escape by blast
qed

text \<open>
  A payload access that succeeds stays inside the invocation it was made for: the grant names the
  resource and the capabilities, manifest and lease agree on the payload asked for, and the lease is live
  and ends no later than the grant. The comparison multiplies seconds by a million in \<open>int64\<close>; it is exact
  for grants that expire within the first nine trillion seconds.
\<close>

lemma lease_within_grant:
  assumes "accessPayload env net v nowMicro ctx resource slot version custody = Ok access"
    and "InvocationFromContext ctx = Some (grant, original)"
    and "0 \<le> sint (au_ExpiresAt grant)" and "sint (au_ExpiresAt grant) \<le> 9223372036854"
  shows "resource \<in> set (au_Resources grant) \<and> ''payload.read'' \<in> set (au_Capabilities grant)
    \<and> (custody \<longrightarrow> ''custody.use'' \<in> set (au_Capabilities grant))
    \<and> pm_Resource (pa_Manifest access) = resource \<and> pm_Slot (pa_Manifest access) = slot
    \<and> pm_PayloadVersion (pa_Manifest access) = version
    \<and> pl_ObjectDigest (pa_Lease access) = pm_ObjectDigest (pa_Manifest access)
    \<and> pl_Audience (pa_Lease access) = ''function:'' @ au_BindingID grant
    \<and> sint nowMicro < sint (pl_ExpiresAt (pa_Lease access))
    \<and> sint (pl_ExpiresAt (pa_Lease access)) \<le> sint (au_ExpiresAt grant) * 1000000"
proof -
  have "sint (au_ExpiresAt grant * 1000000) = signed_take_bit 63 (sint (au_ExpiresAt grant) * 1000000)"
    by (simp add: sint_word_ariths)
  also have "\<dots> = sint (au_ExpiresAt grant) * 1000000"
    using assms(3,4) by (simp add: signed_take_bit_int_eq_self_iff)
  finally have exact: "sint (au_ExpiresAt grant * 1000000) = sint (au_ExpiresAt grant) * 1000000" .
  have "lease_accepted grant nowMicro resource slot version access"
    and "resource \<in> set (au_Resources grant) \<and> ''payload.read'' \<in> set (au_Capabilities grant)
      \<and> (custody \<longrightarrow> ''custody.use'' \<in> set (au_Capabilities grant))"
    using assms(1,2) by (auto simp: accessPayload_def split: if_splits outcome.splits option.splits prod.splits)
  then show ?thesis
    by (simp add: lease_accepted_def Let_def word_sless_alt word_sle_eq exact)
qed

section \<open>A sample exchange\<close>

definition some_codec :: "'a json_codec" where
  "some_codec = \<lparr>js_marshal = (\<lambda>_. Some [1]), js_decode = (\<lambda>_. None), js_unmarshal = (\<lambda>_. None)\<rparr>"

definition cs_url :: go_url where
  "cs_url = \<lparr>u_Scheme = ''https'', u_Opaque = [], u_User = False, u_Host = ''control.example'', u_Path = [], u_RawPath = [],
     u_ForceQuery = False, u_RawQuery = [], u_Fragment = []\<rparr>"

definition cs_grant :: Authorization where
  "cs_grant = sample_grant\<lparr>au_Resources := [''r''], au_Capabilities := [''payload.read'', ''custody.use''],
     au_PolicyDigest := Digest [1], au_ExpiresAt := 1100\<rparr>"

definition cs_document :: key_document where
  "cs_document = \<lparr>kd_Issuer = ''control'',
     kd_Keys = [\<lparr>dk_KeyID = ''k1'', dk_Algorithm = ''Ed25519'', dk_PublicKey = b64_encode (replicate 32 7)\<rparr>]\<rparr>"

definition cs_manifest :: ResourcePayloadManifest where
  "cs_manifest = \<lparr>pm_Resource = ''r'', pm_Slot = ''s'', pm_SchemaID = ''schema'', pm_Representation = ''encrypted-envelope-v1'',
     pm_ObjectDigest = Digest [2], pm_EncryptionSuite = ''AES-256-GCM'', pm_KeyBindingRef = ''key'', pm_WrappedPayloadKey = [],
     pm_AADHash = [], pm_EncryptorSubject = [], pm_EncryptorKeyID = [], pm_State = ''committed'', pm_PayloadVersion = 1,
     pm_ObjectSize = 1, pm_KeyVersion = 1, pm_ResourceRevision = 1, pm_LifecycleGeneration = 1, pm_CommittedAt = 1\<rparr>"

definition cs_access :: ResourcePayloadAccess where
  "cs_access = \<lparr>pa_CustodyOwner = Digest [3],
     pa_Lease = \<lparr>pl_Resource = ''r'', pl_Slot = ''s'', pl_Representation = ''encrypted-envelope-v1'', pl_ObjectDigest = Digest [2],
       pl_DownloadURL = [], pl_DownloadMethod = ''GET'', pl_Audience = ''function:'' @ au_BindingID cs_grant, pl_PayloadVersion = 1,
       pl_ObjectSize = 1, pl_ExpiresAt = 1050000000, pl_ResourceRevision = 1, pl_LifecycleGeneration = 1\<rparr>,
     pa_Manifest = cs_manifest\<rparr>"

definition cs_workload :: WorkloadContext_t where
  "cs_workload = \<lparr>wc_InvocationID = au_ID cs_grant, wc_BindingID = au_BindingID cs_grant, wc_Scope = au_Scope cs_grant,
     wc_Principal = au_Principal cs_grant, wc_AuthorityKind = ''subject'', wc_AuthorityResource = []\<rparr>"

text \<open>A decoder whose state is the list of tokens still to come; every value is \<open>[7]\<close>.\<close>

definition cs_decoder :: "json_token list json_decoder" where
  "cs_decoder = \<lparr>jd_New = (\<lambda>raw. if raw = [4] then [Delim (CHR 0x7B), JString ''invocation_id'', JString ''scope'', Delim (CHR 0x7D)]
       else [Delim (CHR 0x7B), Delim (CHR 0x7D)]),
     jd_Token = (\<lambda>d. case d of [] \<Rightarrow> None | t # d' \<Rightarrow> Some (t, d')),
     jd_More = (\<lambda>d. case d of JString _ # _ \<Rightarrow> True | _ \<Rightarrow> False),
     jd_Raw = (\<lambda>d. Some ([7], d)), jd_EOF = (\<lambda>d. d = [])\<rparr>"

definition cs_env :: "json_token list control_env" where
  "cs_env = \<lparr>ce_bridge = sample_env\<lparr>js_SignedMessage := some_codec, js_ValidationRequest := some_codec,
       js_ResourceAccessRequest := some_codec\<rparr>,
     ce_net = \<lparr>url_Parse = (\<lambda>_. Some cs_url), url_ParseRequestURI = (\<lambda>_. Some cs_url), netip_ParseAddr = (\<lambda>_. None),
       strings_ToLower = id, strings_EqualFold = (=)\<rparr>,
     ce_URLString = (\<lambda>_. ''https://control.example''), ce_NewKeyFromSeed = (\<lambda>_. sample_priv),
     ce_Keys = table_codec [(cs_document, [3])], ce_Access = table_codec [(cs_access, [2])],
     ce_Workload = table_codec [(cs_workload, [4])], ce_Decoder = cs_decoder\<rparr>"

definition cs_net :: control_do where
  "cs_net q = (if cq_Method q = ''GET'' then Some (200, [3], False)
     else if has_suffix (cq_URL q) ''/validate'' then Some (204, [], False)
     else if has_suffix (cq_URL q) ''/context'' then Some (200, [4], False)
     else Some (200, [2], False))"

definition cs_validator :: ControlValidator where
  "cs_validator = \<lparr>cl_baseURL = ''https://control.example'', cl_keyID = ''k1'', cl_key = sample_priv\<rparr>"

definition cs_context :: go_context where
  "cs_context = \<lparr>cx_deadline = None, cx_invocation = Some (cs_grant, sample_message)\<rparr>"

lemma cs_post:
  "binding_post cs_env cs_net cs_validator b ''/authorizations/validate'' m = Ok (204, [], False)"
  "binding_post cs_env cs_net cs_validator b ''/authorizations/context'' m = Ok (200, [4], False)"
  "binding_post cs_env cs_net cs_validator b ''/resource-payload-accesses'' m = Ok (200, [2], False)"
proof -
  have v: "has_suffix (s @ ''/authorizations/validate'') ''/validate''"
       "\<not> has_suffix (s @ ''/authorizations/context'') ''/validate''" "has_suffix (s @ ''/authorizations/context'') ''/context''"
       "\<not> has_suffix (s @ ''/resource-payload-accesses'') ''/validate''" "\<not> has_suffix (s @ ''/resource-payload-accesses'') ''/context''"
    for s by (simp_all add: has_suffix_def)
  show "binding_post cs_env cs_net cs_validator b ''/authorizations/validate'' m = Ok (204, [], False)"
    using v(1) [of "''https://control.example/v1/function-bindings/'' @ path_escape b"]
    by (simp add: binding_post_def cs_env_def some_codec_def cs_net_def cs_validator_def)
  show "binding_post cs_env cs_net cs_validator b ''/authorizations/context'' m = Ok (200, [4], False)"
    using v(2,3) [of "''https://control.example/v1/function-bindings/'' @ path_escape b"]
    by (simp add: binding_post_def cs_env_def some_codec_def cs_net_def cs_validator_def)
  show "binding_post cs_env cs_net cs_validator b ''/resource-payload-accesses'' m = Ok (200, [2], False)"
    using v(4,5) [of "''https://control.example/v1/function-bindings/'' @ path_escape b"]
    by (simp add: binding_post_def cs_env_def some_codec_def cs_net_def cs_validator_def)
qed

lemma cs_signed:
  "\<exists>m. SignValidation (ce_bridge cs_env) r ''k1'' sample_priv = Ok m"
  "\<exists>m. SignResourceAccess (ce_bridge cs_env) q ''k1'' sample_priv = Ok m"
  by (simp_all add: SignValidation_def SignResourceAccess_def sign_def cs_env_def some_codec_def sample_priv_def
      MaximumBodyBytes_def)

lemma cs_authorized: "validator_Authorize cs_env cs_validator cs_net cs_context cs_grant sample_message = Ok ()"
  using cs_signed(1) [of "\<lparr>vr_Authorization = sample_message\<rparr>"]
  by (auto simp: validator_Authorize_def cs_validator_def cs_post [unfolded cs_validator_def])
    (simp_all add: cs_grant_def sample_grant_def sample_authorization_def identifier_ok_small)

lemma cs_grant_fields:
  "au_Kind cs_grant = ''invocation''" "au_Resources cs_grant = [''r'']" "au_Capabilities cs_grant = [''payload.read'', ''custody.use'']"
  "au_ExpiresAt cs_grant = 1100" "au_BindingID cs_grant = ''binding''" "au_ID cs_grant = ''op-1''" "au_Principal cs_grant = ''user''"
  "au_PolicyDigest cs_grant = Digest [1]" "au_BindingRevision cs_grant = 1" "validScope (au_Scope cs_grant)"
  by (simp_all add: cs_grant_def sample_grant_def sample_authorization_def validScope_def identifier_ok_small)

lemma cs_identifiers: "identifier_ok ''r'' 256" "identifier_ok ''s'' 128" "identifier_ok ''key'' 256" "identifier_ok ''op-1'' 256"
  "identifier_ok ''user'' 256" "identifier_ok ''schema'' 256"
  by (simp_all add: identifier_ok_iff ident_char_def)

lemma cs_accessed: "accessPayload cs_env cs_net cs_validator 1000000000 cs_context ''r'' ''s'' 1 True = Ok cs_access"
proof -
  obtain m where m: "SignResourceAccess (ce_bridge cs_env) \<lparr>ra_Authorization = sample_message, ra_Resource = ''r'', ra_Slot = ''s'',
      ra_PayloadVersion = 1, ra_UseCustody = True\<rparr> ''k1'' sample_priv = Ok m"
    using cs_signed(2) by blast
  have lease: "lease_accepted cs_grant 1000000000 ''r'' ''s'' 1 cs_access"
    by (simp add: lease_accepted_def cs_access_def cs_manifest_def cs_grant_fields word_sless_alt word_sle_eq)
  have decode: "strictJSON (ce_Access cs_env) [2] = Ok cs_access"
    by (simp add: strictJSON_def js_decode_all_def cs_env_def)
  have signer: "cl_keyID cs_validator = ''k1''" "cl_key cs_validator = sample_priv"
    by (simp_all add: cs_validator_def)
  show ?thesis
    by (simp add: accessPayload_def InvocationFromContext_def cs_context_def cs_grant_fields cs_identifiers word_sless_alt
        signer m cs_post read_body_def MaximumBodyBytes_def decode lease del: One_nat_def)
qed

lemma cs_env_sel: "url_Parse (ce_net cs_env) u = Some cs_url" "ce_Keys cs_env = table_codec [(cs_document, [3])]"
  by (simp_all add: cs_env_def)

lemma cs_discovered: "DiscoverControlKeys cs_env cs_net ''https://control.example'' =
    Ok \<lparr>ck_Keys = [(''k1'', replicate 32 7)], ck_Issuer = ''control''\<rparr>"
proof -
  have host: "u_Hostname cs_url \<noteq> []"
    by code_simp
  have nohash: "\<not> str_contains ''https://control.example'' ''#''"
    by code_simp
  have trim: "trim_right (CHR ''/'') ''https://control.example'' = ''https://control.example''"
    by code_simp
  have base: "controlBaseURL cs_env ''https://control.example'' = Ok ''https://control.example''"
    using host nohash trim by (simp add: controlBaseURL_def cs_env_def) (simp add: cs_url_def)
  have "collect_keys (kd_Keys cs_document) [] = Ok [(''k1'', replicate 32 7)]"
    by (simp add: cs_document_def identifier_ok_small del: b64_encode.simps)
  then show ?thesis
    by (simp add: DiscoverControlKeys_def base cs_env_sel cs_net_def read_body_def strictJSON_def js_decode_all_def Let_def)
      (simp add: cs_document_def identifier_ok_small)
qed

end
