(* ===== verification/Bridge_Custody.thy ===== *)
theory Bridge_Custody
  imports Bridge_Control
begin

text \<open>
  \<^verbatim>\<open>bridge/custody.go\<close>: use of a resource key inside its custody callback. The keys live in a heap of
  buffers, because a cipher may be copied and kept by application code after its callback; the
  operations look the key up when they run. AES-GCM and the JSON encodings are parameters.
\<close>

section \<open>Data\<close>

definition ResourceValueFormat :: string where "ResourceValueFormat = ''lotor.resource-value.v1''"

definition maxSafeInteger :: i64 where "maxSafeInteger = 9007199254740991"

record ResourceKeyBinding =
  kb_Scope :: Scope
  kb_ClientID :: string
  kb_Resource :: string
  kb_Slot :: string
  kb_KeyResource :: string
  kb_CustodyOwner :: string
  kb_KeyVersion :: i64
  kb_ResourceRevision :: i64
  kb_LifecycleGeneration :: i64
  kb_PayloadVersion :: i64
  kb_ObjectDigest :: string
  kb_InvocationID :: string
  kb_BindingID :: string
  kb_BindingRevision :: i64
  kb_Principal :: string
  kb_PolicyDigest :: string
  kb_ExpiresAt :: i64

record ResourceValueContext =
  vc_Binding :: ResourceKeyBinding
  vc_Path :: string

record ResourceValue =
  rv_Format :: string
  rv_Context :: ResourceValueContext
  rv_Nonce :: string
  rv_Ciphertext :: string

record payload_aad =
  pd_ClientID :: string
  pd_Resource :: string
  pd_Slot :: string
  pd_SchemaID :: string
  pd_ResourceRevision :: i64
  pd_LifecycleGeneration :: i64

text \<open>
  What the code takes from outside: AES-256-GCM under a 32-byte key (sealing, and opening, which fails
  on a wrong key, nonce, text or associated data), and the JSON encodings of the value context, of the
  associated data of a payload, and of a list of strings.
\<close>

record custody_env =
  cu_Seal :: "bytes \<Rightarrow> bytes \<Rightarrow> bytes \<Rightarrow> bytes \<Rightarrow> bytes"
  cu_Open :: "bytes \<Rightarrow> bytes \<Rightarrow> bytes \<Rightarrow> bytes \<Rightarrow> bytes option"
  cu_EncodeContext :: "string \<Rightarrow> ResourceValueContext \<Rightarrow> bytes option"
  cu_PayloadAAD :: "payload_aad \<Rightarrow> bytes"
  cu_Strings :: "string list \<Rightarrow> bytes"

section \<open>Checks\<close>

function utf8_valid :: "nat list \<Rightarrow> bool" where
  "utf8_valid [] = True"
| "utf8_valid (b # bs) =
     ((b < 128 \<or> length (snd (decode_rune b bs)) < length bs) \<and> utf8_valid (snd (decode_rune b bs)))"
  by pat_completeness auto

termination utf8_valid
  by (relation "measure length") (auto simp: le_imp_less_Suc decode_rune_length)

definition ValidString :: "string \<Rightarrow> bool" where
  "ValidString s = utf8_valid (map of_char s)"

text \<open>What an operation observes: whether the context is live, and the clock in seconds.\<close>

type_synonym custody_ob = "bool \<times> i64"

definition matchesInvocation :: "custody_ob \<Rightarrow> go_context \<Rightarrow> ResourceKeyBinding \<Rightarrow> bool" where
  "matchesInvocation ob ctx b =
     (case InvocationFromContext ctx of
        None \<Rightarrow> False
      | Some (grant, _) \<Rightarrow>
          fst ob \<and> au_Kind grant = ''invocation'' \<and> au_Scope grant = kb_Scope b \<and> au_ID grant = kb_InvocationID b
          \<and> au_BindingID grant = kb_BindingID b \<and> au_BindingRevision grant = kb_BindingRevision b
          \<and> au_Principal grant = kb_Principal b \<and> au_PolicyDigest grant = kb_PolicyDigest b
          \<and> au_ExpiresAt grant = kb_ExpiresAt b \<and> snd ob <s au_ExpiresAt grant
          \<and> kb_Resource b \<in> set (au_Resources grant) \<and> ''payload.read'' \<in> set (au_Capabilities grant)
          \<and> ''custody.use'' \<in> set (au_Capabilities grant))"

definition validResourceKeyBinding :: "ResourceKeyBinding \<Rightarrow> bool" where
  "validResourceKeyBinding b \<longleftrightarrow>
     validScope (kb_Scope b) \<and> identifier_ok (kb_ClientID b) 256 \<and> identifier_ok (kb_Resource b) 256
     \<and> identifier_ok (kb_Slot b) 128 \<and> identifier_ok (kb_KeyResource b) 256 \<and> isDigest (kb_CustodyOwner b)
     \<and> identifier_ok (kb_InvocationID b) 256 \<and> identifier_ok (kb_BindingID b) 256 \<and> identifier_ok (kb_Principal b) 256
     \<and> 0 <s kb_KeyVersion b \<and> 0 <s kb_ResourceRevision b
     \<and> 0 <s kb_LifecycleGeneration b \<and> 0 <s kb_PayloadVersion b \<and> 0 <s kb_BindingRevision b
     \<and> isDigest (kb_ObjectDigest b) \<and> (kb_PolicyDigest b = [] \<or> isDigest (kb_PolicyDigest b))
     \<and> kb_KeyVersion b <=s maxSafeInteger \<and> kb_ResourceRevision b <=s maxSafeInteger
     \<and> kb_LifecycleGeneration b <=s maxSafeInteger \<and> kb_PayloadVersion b <=s maxSafeInteger
     \<and> kb_BindingRevision b <=s maxSafeInteger \<and> 0 <s kb_ExpiresAt b \<and> kb_ExpiresAt b <=s maxSafeInteger"

definition validResourceValueContext :: "ResourceValueContext \<Rightarrow> bool" where
  "validResourceValueContext c \<longleftrightarrow>
     validResourceKeyBinding (vc_Binding c) \<and> isDigest (kb_PolicyDigest (vc_Binding c)) \<and> length (vc_Path c) > 0
     \<and> length (vc_Path c) \<le> 1024 \<and> ValidString (vc_Path c)
     \<and> \<not> list_ex (\<lambda>ch. ch = CHR 0x00 \<or> ch = CHR 0x0D \<or> ch = CHR 0x0A) (vc_Path c)"

definition CustodyOwnerFingerprint :: "custody_env \<Rightarrow> string \<Rightarrow> string \<Rightarrow> bytes \<Rightarrow> string" where
  "CustodyOwnerFingerprint env subject keyID publicKey =
     (if \<not> identifier_ok subject 256 \<or> \<not> identifier_ok keyID 256 \<or> length publicKey \<noteq> 32 then []
      else Digest (cu_Strings env [''lotor-resource-custody-owner-v1'', subject, keyID, b64_encode publicKey]))"

text \<open>The encoder ends its output with a newline, which is cut off.\<close>

definition resourceValueAAD :: "custody_env \<Rightarrow> ResourceValueContext \<Rightarrow> (bridge_error, bytes) outcome" where
  "resourceValueAAD env c =
     (if \<not> validResourceValueContext c then Fail ErrInvalid
      else case cu_EncodeContext env ResourceValueFormat c of
             None \<Rightarrow> Fail ErrInvalid
           | Some out \<Rightarrow> Ok (if out \<noteq> [] \<and> last out = 10 then butlast out else out))"

text \<open>\<open>resourceAEAD\<close>: only a 32-byte key gives a cipher.\<close>

definition resourceAEAD :: "bytes \<Rightarrow> (bridge_error, bytes) outcome" where
  "resourceAEAD key = (if length key \<noteq> 32 then Fail ErrInvalid else Ok key)"

definition url64_char :: "char \<Rightarrow> bool" where
  "url64_char c \<longleftrightarrow> (CHR ''A'' \<le> c \<and> c \<le> CHR ''Z'') \<or> (CHR ''a'' \<le> c \<and> c \<le> CHR ''z'')
     \<or> (CHR ''0'' \<le> c \<and> c \<le> CHR ''9'') \<or> c = CHR ''-'' \<or> c = CHR ''_''"

definition decodeResourceBase64 :: "string \<Rightarrow> (bridge_error, bytes) outcome" where
  "decodeResourceBase64 s =
     (if \<not> list_all url64_char s then Fail ErrInvalid
      else case b64_decode True s of None \<Rightarrow> Fail ErrInvalid | Some decoded \<Rightarrow> Ok decoded)"

section \<open>The key heap\<close>

text \<open>
  The buffer of each \<open>resourceCipherState\<close> ever made, by address; a cleared buffer is empty. The lock of
  a state orders the operations on it, which are the steps of the model.
\<close>

type_synonym key_heap = "bytes list"

record ResourceCipher =
  rc_state :: nat
  rc_binding :: ResourceKeyBinding

definition key_at :: "key_heap \<Rightarrow> nat \<Rightarrow> bytes" where
  "key_at h a = (if a < length h then h ! a else [])"

type_synonym 'h custody_use = "'h \<Rightarrow> key_heap \<Rightarrow> (bridge_error, unit) outcome \<times> key_heap"

text \<open>The deferred function clears the buffer when the callback returns, fails or panics.\<close>

definition WithResourceKey ::
  "custody_ob \<Rightarrow> go_context \<Rightarrow> ResourceKeyBinding \<Rightarrow> bytes \<Rightarrow> ResourceCipher custody_use option \<Rightarrow> key_heap \<Rightarrow>
   (bridge_error, unit) outcome \<times> key_heap" where
  "WithResourceKey ob ctx binding key use h =
     (case use of
        None \<Rightarrow> (Fail ErrUnauthorized, h)
      | Some f \<Rightarrow>
          if length key \<noteq> 32 \<or> \<not> validResourceKeyBinding binding \<or> \<not> matchesInvocation ob ctx binding
          then (Fail ErrUnauthorized, h)
          else (case f \<lparr>rc_state = length h, rc_binding = binding\<rparr> (h @ [key]) of
                  (r, h') \<Rightarrow> (r, h'[length h := []])))"

section \<open>Operations of a cipher\<close>

definition EncryptValue ::
  "custody_env \<Rightarrow> custody_ob \<Rightarrow> bytes option \<Rightarrow> go_context \<Rightarrow> string \<Rightarrow> bytes \<Rightarrow> ResourceCipher \<Rightarrow> key_heap \<Rightarrow>
   (bridge_error, ResourceValue) outcome" where
  "EncryptValue env ob random ctx path plaintext c h =
     (let key = key_at h (rc_state c) in
      if length key \<noteq> 32 \<or> \<not> matchesInvocation ob ctx (rc_binding c) then Fail ErrUnauthorized
      else
        let vctx = \<lparr>vc_Binding = rc_binding c, vc_Path = path\<rparr> in
        (case resourceValueAAD env vctx of
           Ok aad \<Rightarrow>
             if length plaintext > MaximumInputBytes then Fail ErrInvalid
             else (case resourceAEAD key of
                     Fail e \<Rightarrow> Fail e
                   | Panic \<Rightarrow> Panic
                   | Ok k \<Rightarrow>
                       (case random of
                          None \<Rightarrow> Fail ErrUnavailable
                        | Some nonce \<Rightarrow>
                            Ok \<lparr>rv_Format = ResourceValueFormat, rv_Context = vctx, rv_Nonce = b64_encode nonce,
                                rv_Ciphertext = b64_encode (cu_Seal env k nonce plaintext aad)\<rparr>))
         | _ \<Rightarrow> Fail ErrInvalid))"

definition DecryptResourceValue ::
  "custody_env \<Rightarrow> bytes \<Rightarrow> ResourceValue \<Rightarrow> ResourceValueContext \<Rightarrow> (bridge_error, bytes) outcome" where
  "DecryptResourceValue env key v expected =
     (if rv_Format v \<noteq> ResourceValueFormat \<or> rv_Context v \<noteq> expected
         \<or> length (rv_Nonce v) \<noteq> b64_encoded_len 12
         \<or> length (rv_Ciphertext v) > b64_encoded_len (MaximumInputBytes + 16)
      then Fail ErrInvalid
      else case resourceValueAAD env expected of
        Ok aad \<Rightarrow>
          (case resourceAEAD key of
             Ok k \<Rightarrow>
               (case decodeResourceBase64 (rv_Nonce v) of
                  Ok nonce \<Rightarrow>
                    if length nonce \<noteq> 12 then Fail ErrInvalid
                    else (case decodeResourceBase64 (rv_Ciphertext v) of
                            Ok ciphertext \<Rightarrow>
                              (case cu_Open env k nonce ciphertext aad of
                                 None \<Rightarrow> Fail ErrInvalid | Some plaintext \<Rightarrow> Ok plaintext)
                          | _ \<Rightarrow> Fail ErrInvalid)
                | _ \<Rightarrow> Fail ErrInvalid)
           | _ \<Rightarrow> Fail ErrInvalid)
      | _ \<Rightarrow> Fail ErrInvalid)"

definition payload_matches :: "ResourceKeyBinding \<Rightarrow> ResourcePayloadManifest \<Rightarrow> bytes \<Rightarrow> bool" where
  "payload_matches b m ciphertext \<longleftrightarrow>
     \<not> (length (pm_WrappedPayloadKey m) \<noteq> b64_encoded_len 61 \<or> pm_Resource m \<noteq> kb_Resource b \<or> pm_Slot m \<noteq> kb_Slot b
       \<or> pm_KeyBindingRef m \<noteq> kb_KeyResource b \<or> pm_KeyVersion m \<noteq> kb_KeyVersion b
       \<or> pm_ResourceRevision m \<noteq> kb_ResourceRevision b
       \<or> pm_LifecycleGeneration m \<noteq> kb_LifecycleGeneration b \<or> pm_PayloadVersion m \<noteq> kb_PayloadVersion b
       \<or> pm_ObjectDigest m \<noteq> kb_ObjectDigest b
       \<or> pm_State m \<noteq> ''committed'' \<or> pm_Representation m \<noteq> ''encrypted-envelope-v1''
       \<or> pm_EncryptionSuite m \<noteq> ''AES-256-GCM''
       \<or> pm_ObjectSize m \<noteq> word_of_nat (length ciphertext) \<or> length ciphertext < 29
       \<or> length ciphertext > MaximumInputBytes \<or> hd ciphertext \<noteq> 1 \<or> Digest ciphertext \<noteq> kb_ObjectDigest b)"

definition payload_hash :: "custody_env \<Rightarrow> ResourceKeyBinding \<Rightarrow> ResourcePayloadManifest \<Rightarrow> bytes" where
  "payload_hash env b m =
     sha256 (cu_PayloadAAD env \<lparr>pd_ClientID = kb_ClientID b, pd_Resource = kb_Resource b, pd_Slot = pm_Slot m,
       pd_SchemaID = pm_SchemaID m, pd_ResourceRevision = kb_ResourceRevision b,
       pd_LifecycleGeneration = kb_LifecycleGeneration b\<rparr>)"

definition unwrap_key :: "custody_env \<Rightarrow> bytes \<Rightarrow> string \<Rightarrow> bytes \<Rightarrow> (bridge_error, bytes) outcome" where
  "unwrap_key env key wrappedKey hash =
     (case decodeResourceBase64 wrappedKey of
        Ok wrapped \<Rightarrow>
          if length wrapped \<noteq> 61 \<or> hd wrapped \<noteq> 1 then Fail ErrInvalid
          else (case resourceAEAD key of
                  Ok k \<Rightarrow>
                    (case cu_Open env k (take 12 (drop 1 wrapped)) (drop 13 wrapped) hash of
                       None \<Rightarrow> Fail ErrInvalid
                     | Some dataKey \<Rightarrow> if length dataKey \<noteq> 32 then Fail ErrInvalid else Ok dataKey)
                | _ \<Rightarrow> Fail ErrInvalid)
      | _ \<Rightarrow> Fail ErrInvalid)"

definition OpenPayload ::
  "custody_env \<Rightarrow> custody_ob \<Rightarrow> go_context \<Rightarrow> ResourcePayloadManifest \<Rightarrow> bytes \<Rightarrow> ResourceCipher \<Rightarrow> key_heap \<Rightarrow>
   (bridge_error, bytes) outcome" where
  "OpenPayload env ob ctx m ciphertext c h =
     (let key = key_at h (rc_state c); b = rc_binding c in
      if length key \<noteq> 32 \<or> \<not> matchesInvocation ob ctx b \<or> \<not> isDigest (kb_PolicyDigest b) then Fail ErrUnauthorized
      else if \<not> payload_matches b m ciphertext then Fail ErrInvalid
      else
        let hash = payload_hash env b m in
        if \<not> identifier_ok (pm_Slot m) 128 \<or> \<not> identifier_ok (pm_SchemaID m) 256 \<or> pm_AADHash m \<noteq> b64_encode hash
        then Fail ErrInvalid
        else (case unwrap_key env key (pm_WrappedPayloadKey m) hash of
                Ok dataKey \<Rightarrow>
                  (case resourceAEAD dataKey of
                     Ok k \<Rightarrow>
                       (case cu_Open env k (take 12 (drop 1 ciphertext)) (drop 13 ciphertext) hash of
                          None \<Rightarrow> Fail ErrInvalid | Some plaintext \<Rightarrow> Ok plaintext)
                   | _ \<Rightarrow> Fail ErrInvalid)
              | _ \<Rightarrow> Fail ErrInvalid))"

section \<open>Custody of a payload\<close>

type_synonym PayloadCustodian =
  "go_context \<Rightarrow> ResourceKeyBinding \<Rightarrow> ResourceCipher option custody_use \<Rightarrow> key_heap \<Rightarrow> (bridge_error, unit) outcome \<times> key_heap"

definition payload_binding ::
  "WorkloadContext_t \<Rightarrow> Authorization \<Rightarrow> ResourcePayloadAccess \<Rightarrow> string \<Rightarrow> string \<Rightarrow> string \<Rightarrow> ResourceKeyBinding" where
  "payload_binding identity grant access clientID resource slot =
     (let m = pa_Manifest access in
      \<lparr>kb_Scope = wc_Scope identity, kb_ClientID = clientID, kb_Resource = resource, kb_Slot = slot,
       kb_KeyResource = pm_KeyBindingRef m, kb_CustodyOwner = pa_CustodyOwner access, kb_KeyVersion = pm_KeyVersion m,
       kb_ResourceRevision = pm_ResourceRevision m, kb_LifecycleGeneration = pm_LifecycleGeneration m,
       kb_PayloadVersion = pm_PayloadVersion m, kb_ObjectDigest = pm_ObjectDigest m,
       kb_InvocationID = au_ID grant, kb_BindingID = au_BindingID grant, kb_BindingRevision = au_BindingRevision grant,
       kb_Principal = wc_Principal identity, kb_PolicyDigest = au_PolicyDigest grant, kb_ExpiresAt = au_ExpiresAt grant\<rparr>)"

definition checked_use ::
  "ResourceKeyBinding \<Rightarrow> ResourcePayloadManifest \<Rightarrow> (ResourceCipher \<Rightarrow> ResourcePayloadManifest \<Rightarrow> key_heap \<Rightarrow> (bridge_error, unit) outcome \<times> key_heap) \<Rightarrow>
   ResourceCipher option custody_use" where
  "checked_use binding m f cipher h =
     (case cipher of
        None \<Rightarrow> (Fail ErrUnauthorized, h)
      | Some c \<Rightarrow> if rc_binding c \<noteq> binding then (Fail ErrUnauthorized, h) else f c m h)"

definition WithPayloadCustody ::
  "'d control_env \<Rightarrow> control_do \<Rightarrow> bridge_ResourceClient \<Rightarrow> i64 \<Rightarrow> custody_ob \<Rightarrow> go_context \<Rightarrow> string \<Rightarrow> string \<Rightarrow> string \<Rightarrow> i64 \<Rightarrow>
   PayloadCustodian option \<Rightarrow>
   (ResourceCipher \<Rightarrow> ResourcePayloadManifest \<Rightarrow> key_heap \<Rightarrow> (bridge_error, unit) outcome \<times> key_heap) option \<Rightarrow> key_heap \<Rightarrow>
   (bridge_error, unit) outcome \<times> key_heap" where
  "WithPayloadCustody env net v nowMicro ob ctx clientID resource slot version provider use h =
     (case (provider, use) of
        (Some p, Some f) \<Rightarrow>
          if \<not> identifier_ok clientID 256 then (Fail ErrInvalid, h)
          else (case WorkloadContext env net v ctx of
            Fail e \<Rightarrow> (Fail e, h)
          | Panic \<Rightarrow> (Panic, h)
          | Ok identity \<Rightarrow>
              (case accessPayload env net v nowMicro ctx resource slot version True of
                 Fail e \<Rightarrow> (Fail e, h)
               | Panic \<Rightarrow> (Panic, h)
               | Ok access \<Rightarrow>
                   (case InvocationFromContext ctx of
                      None \<Rightarrow> (Fail ErrUnauthorized, h)
                    | Some (grant, _) \<Rightarrow>
                        let m = pa_Manifest access in
                        if pm_State m \<noteq> ''committed'' \<or> pm_Representation m \<noteq> ''encrypted-envelope-v1''
                           \<or> pm_EncryptionSuite m \<noteq> ''AES-256-GCM''
                        then (Fail ErrUnauthorized, h)
                        else
                          let binding = payload_binding identity grant access clientID resource slot in
                          if \<not> validResourceKeyBinding binding \<or> \<not> matchesInvocation ob ctx binding
                          then (Fail ErrUnauthorized, h)
                          else p ctx binding (checked_use binding m f) h)))
      | _ \<Rightarrow> (Fail ErrInvalid, h))"

section \<open>Lifetime of a key\<close>

text \<open>What any code of the process can do to the heap: make a new state, or clear one.\<close>

inductive custody_step :: "key_heap \<Rightarrow> key_heap \<Rightarrow> bool" where
  acquire: "custody_step h (h @ [key])"
| clear: "custody_step h (h[a := []])"

inductive_cases custody_stepE: "custody_step h h'"

abbreviation custody_steps :: "key_heap \<Rightarrow> key_heap \<Rightarrow> bool" where
  "custody_steps \<equiv> custody_step\<^sup>*\<^sup>*"

lemma key_at_clear [simp]: "key_at (h[x := []]) a = (if a = x then [] else key_at h a)"
  by (simp add: key_at_def)

lemma key_at_append: "a < length h \<Longrightarrow> key_at (h @ [key]) a = key_at h a"
  by (simp add: key_at_def nth_append)

lemma custody_steps_kept:
  "custody_steps h h' \<Longrightarrow> a < length h \<Longrightarrow> a < length h' \<and> (key_at h' a = key_at h a \<or> key_at h' a = [])"
proof (induction rule: rtranclp_induct)
  case (step h1 h2)
  from step.hyps(2) show ?case
    using step.IH [OF step.prems] by (cases rule: custody_stepE) (auto simp: key_at_append)
qed simp

lemma WithResourceKey_cleared:
  assumes "WithResourceKey ob ctx b key (Some f) h = (r, h')"
    and "\<And>c g r g'. f c g = (r, g') \<Longrightarrow> custody_steps g g'"
  shows "custody_steps h h' \<and> (h' = h \<and> r = Fail ErrUnauthorized \<or> length h < length h' \<and> key_at h' (length h) = [])"
proof -
  obtain r1 h1 where run: "f \<lparr>rc_state = length h, rc_binding = b\<rparr> (h @ [key]) = (r1, h1)"
    by fastforce
  consider "h' = h" "r = Fail ErrUnauthorized"
    | "f \<lparr>rc_state = length h, rc_binding = b\<rparr> (h @ [key]) = (r, h1)" "h' = h1[length h := []]"
    using assms(1) run by (cases "length key \<noteq> 32 \<or> \<not> validResourceKeyBinding b \<or> \<not> matchesInvocation ob ctx b")
      (auto simp: WithResourceKey_def)
  then show ?thesis
  proof cases
    case 2
    have "custody_steps h (h @ [key])"
      by (rule r_into_rtranclp) (rule custody_step.acquire)
    also have "custody_steps (h @ [key]) h1"
      by (rule assms(2) [OF 2(1)])
    also have "custody_step h1 h'"
      unfolding 2(2) by (rule custody_step.clear)
    finally have "custody_steps h h'" .
    moreover have "length h < length h1"
      using custody_steps_kept [OF assms(2) [OF 2(1)], of "length h"] by simp
    ultimately show ?thesis
      by (simp add: 2(2) key_at_def)
  qed simp
qed

lemma cleared_refuses:
  "key_at h (rc_state c) = [] \<Longrightarrow> EncryptValue env ob random ctx path plaintext c h = Fail ErrUnauthorized"
  "key_at h (rc_state c) = [] \<Longrightarrow> OpenPayload env ob ctx m ciphertext c h = Fail ErrUnauthorized"
  by (simp_all add: EncryptValue_def OpenPayload_def Let_def)

section \<open>Encodings\<close>

lemma b64_digit_url64: "n < 64 \<Longrightarrow> url64_char (b64_digit n)"
proof -
  have "list_all url64_char b64_alphabet" "length b64_alphabet = 64"
    by code_simp+
  then show "n < 64 \<Longrightarrow> url64_char (b64_digit n)"
    by (simp add: list_all_length b64_digit_def)
qed

lemma decodeResourceBase64_encode [simp]: "decodeResourceBase64 (b64_encode raw) = Ok raw"
proof -
  have "list_all url64_char (b64_encode raw)"
    using b64_sextets_less [of raw] by (auto simp: b64_encode_sextets list_all_iff b64_digit_url64)
  then show ?thesis
    by (simp add: decodeResourceBase64_def)
qed

text \<open>What is documented of AES-GCM: opening undoes sealing under the same key, nonce and associated
  data, and a sealed text is sixteen bytes longer than its plaintext.\<close>

definition aead_correct :: "custody_env \<Rightarrow> bytes \<Rightarrow> bool" where
  "aead_correct env key \<longleftrightarrow>
     (\<forall>nonce plaintext aad. length nonce = 12 \<longrightarrow>
        cu_Open env key nonce (cu_Seal env key nonce plaintext aad) aad = Some plaintext
        \<and> length (cu_Seal env key nonce plaintext aad) = length plaintext + 16)"

lemma EncryptValue_Ok:
  assumes "EncryptValue env ob random ctx path plaintext c h = Ok v"
  shows "\<exists>aad nonce. length (key_at h (rc_state c)) = 32 \<and> matchesInvocation ob ctx (rc_binding c)
    \<and> resourceValueAAD env \<lparr>vc_Binding = rc_binding c, vc_Path = path\<rparr> = Ok aad \<and> random = Some nonce
    \<and> length plaintext \<le> MaximumInputBytes
    \<and> v = \<lparr>rv_Format = ResourceValueFormat, rv_Context = \<lparr>vc_Binding = rc_binding c, vc_Path = path\<rparr>,
            rv_Nonce = b64_encode nonce, rv_Ciphertext = b64_encode (cu_Seal env (key_at h (rc_state c)) nonce plaintext aad)\<rparr>"
  using assms
  by (auto simp: EncryptValue_def Let_def resourceAEAD_def split: if_splits outcome.splits option.splits)

lemma OpenPayload_Ok:
  assumes "OpenPayload env ob ctx m ciphertext c h = Ok plaintext"
  shows "length (key_at h (rc_state c)) = 32" and "matchesInvocation ob ctx (rc_binding c)"
    and "payload_matches (rc_binding c) m ciphertext"
    and "\<exists>dataKey. unwrap_key env (key_at h (rc_state c)) (pm_WrappedPayloadKey m) (payload_hash env (rc_binding c) m) = Ok dataKey
       \<and> cu_Open env dataKey (take 12 (drop 1 ciphertext)) (drop 13 ciphertext) (payload_hash env (rc_binding c) m) = Some plaintext"
  using assms by (auto simp: OpenPayload_def Let_def resourceAEAD_def split: if_splits outcome.splits option.splits)

section \<open>Properties\<close>

text \<open>
  \<^bold>\<open>C32\<close> A resource key cannot be used after its custody callback. Whatever the callback does with the
  cipher (keep it, copy it, fail, panic), once \<open>WithResourceKey\<close> has returned the cipher refuses to encrypt
  or open anything, in the state it returns and in every state the process can reach from there.
\<close>

theorem custody_lifetime:
  assumes "WithResourceKey ob ctx b key (Some f) h = (r, h')"
    and "\<And>c g r g'. f c g = (r, g') \<Longrightarrow> custody_steps g g'"
    and "h' \<noteq> h" and "custody_steps h' h''"
  shows "EncryptValue env ob' random ctx' path plaintext \<lparr>rc_state = length h, rc_binding = b'\<rparr> h'' = Fail ErrUnauthorized
    \<and> OpenPayload env ob' ctx' m ciphertext \<lparr>rc_state = length h, rc_binding = b'\<rparr> h'' = Fail ErrUnauthorized"
proof -
  have "length h < length h'" "key_at h' (length h) = []"
    using WithResourceKey_cleared [OF assms(1,2)] assms(3) by auto
  then have "key_at h'' (length h) = []"
    using custody_steps_kept [OF assms(4), of "length h"] by auto
  then show ?thesis
    by (simp add: cleared_refuses)
qed

text \<open>
  A value encrypted in a custody callback is decrypted by its recipient: with the resource key and
  the context the value was made for, \<open>DecryptResourceValue\<close> returns the plaintext; with any other
  expected context it returns \<open>ErrInvalid\<close>.
\<close>

lemma resource_value_roundtrip:
  assumes "EncryptValue env ob (Some nonce) ctx path plaintext c h = Ok v"
    and "aead_correct env (key_at h (rc_state c))" and "length nonce = 12"
  shows "DecryptResourceValue env (key_at h (rc_state c)) v \<lparr>vc_Binding = rc_binding c, vc_Path = path\<rparr> = Ok plaintext
    \<and> (\<forall>other. other = \<lparr>vc_Binding = rc_binding c, vc_Path = path\<rparr>
         \<or> DecryptResourceValue env (key_at h (rc_state c)) v other = Fail ErrInvalid)"
proof -
  let ?key = "key_at h (rc_state c)" and ?vc = "\<lparr>vc_Binding = rc_binding c, vc_Path = path\<rparr>"
  obtain aad where e: "length ?key = 32" "resourceValueAAD env ?vc = Ok aad" "length plaintext \<le> MaximumInputBytes"
      "v = \<lparr>rv_Format = ResourceValueFormat, rv_Context = ?vc,
            rv_Nonce = b64_encode nonce, rv_Ciphertext = b64_encode (cu_Seal env ?key nonce plaintext aad)\<rparr>"
    using EncryptValue_Ok [OF assms(1)] by auto
  have seal: "cu_Open env ?key nonce (cu_Seal env ?key nonce plaintext aad) aad = Some plaintext"
      "length (cu_Seal env ?key nonce plaintext aad) \<le> MaximumInputBytes + 16"
    using assms(2,3) e(3) by (auto simp: aead_correct_def)
  have "DecryptResourceValue env ?key v ?vc = Ok plaintext"
    using e(1,2) seal b64_encoded_len_mono [OF seal(2)] assms(3)
    by (simp add: DecryptResourceValue_def e(4) length_b64_encode resourceAEAD_def del: b64_encode.simps)
  then show ?thesis
    by (auto simp: DecryptResourceValue_def e(4))
qed

text \<open>
  \<^bold>\<open>C34\<close> \<open>OpenPayload\<close> returns bytes only for the committed object of the binding: the invocation the cipher
  was made for is live and unexpired and has the capabilities, the ciphertext has the committed digest and
  size, and the bytes were opened under the data key unwrapped with the resource key, both bound to the
  same hash of client, resource, slot, schema, revision and generation.
\<close>

theorem payload_opened_exactly:
  assumes "OpenPayload env ob ctx m ciphertext c h = Ok plaintext"
  shows "(\<exists>grant original. InvocationFromContext ctx = Some (grant, original) \<and> fst ob
      \<and> sint (snd ob) < sint (au_ExpiresAt grant) \<and> au_ID grant = kb_InvocationID (rc_binding c)
      \<and> pm_Resource m \<in> set (au_Resources grant) \<and> ''custody.use'' \<in> set (au_Capabilities grant))
    \<and> Digest ciphertext = pm_ObjectDigest m \<and> pm_State m = ''committed'' \<and> length ciphertext \<le> MaximumInputBytes
    \<and> sint (pm_ObjectSize m) = int (length ciphertext)
    \<and> (\<exists>dataKey wrapped. decodeResourceBase64 (pm_WrappedPayloadKey m) = Ok wrapped \<and> length dataKey = 32
         \<and> cu_Open env (key_at h (rc_state c)) (take 12 (drop 1 wrapped)) (drop 13 wrapped) (payload_hash env (rc_binding c) m) = Some dataKey
         \<and> cu_Open env dataKey (take 12 (drop 1 ciphertext)) (drop 13 ciphertext) (payload_hash env (rc_binding c) m) = Some plaintext)"
proof -
  note opened = OpenPayload_Ok [OF assms]
  have size: "sint (pm_ObjectSize m) = int (length ciphertext)" "length ciphertext \<le> MaximumInputBytes"
  proof -
    show le: "length ciphertext \<le> MaximumInputBytes"
      using opened(3) by (simp add: payload_matches_def)
    have "pm_ObjectSize m = word_of_nat (length ciphertext)"
      using opened(3) by (simp add: payload_matches_def)
    then show "sint (pm_ObjectSize m) = int (length ciphertext)"
      using le by (simp add: signed_of_nat signed_take_bit_int_eq_self_iff MaximumInputBytes_def)
  qed
  have grant: "\<exists>grant original. InvocationFromContext ctx = Some (grant, original) \<and> fst ob
      \<and> sint (snd ob) < sint (au_ExpiresAt grant) \<and> au_ID grant = kb_InvocationID (rc_binding c)
      \<and> pm_Resource m \<in> set (au_Resources grant) \<and> ''custody.use'' \<in> set (au_Capabilities grant)"
    using opened(2,3) by (auto simp: matchesInvocation_def payload_matches_def word_sless_alt split: option.splits prod.splits)
  have keys: "\<exists>dataKey wrapped. decodeResourceBase64 (pm_WrappedPayloadKey m) = Ok wrapped \<and> length dataKey = 32
         \<and> cu_Open env (key_at h (rc_state c)) (take 12 (drop 1 wrapped)) (drop 13 wrapped) (payload_hash env (rc_binding c) m) = Some dataKey
         \<and> cu_Open env dataKey (take 12 (drop 1 ciphertext)) (drop 13 ciphertext) (payload_hash env (rc_binding c) m) = Some plaintext"
    using opened(4) by (auto simp: unwrap_key_def resourceAEAD_def split: outcome.splits if_splits option.splits)
  show ?thesis
    using size grant keys opened(3) by (simp add: payload_matches_def)
qed


section \<open>A sample custody\<close>

text \<open>A toy cipher that only appends a tag, a wrapped key, and the binding of the sample exchange.\<close>

definition cu_env :: custody_env where
  "cu_env = \<lparr>cu_Seal = (\<lambda>key nonce plaintext aad. plaintext @ replicate 16 0),
     cu_Open = (\<lambda>key nonce ciphertext aad. Some (take (length ciphertext - 16) ciphertext)),
     cu_EncodeContext = (\<lambda>_ _. Some [123, 125, 10]), cu_PayloadAAD = (\<lambda>_. [5]), cu_Strings = (\<lambda>_. [6])\<rparr>"

definition cu_key :: bytes where "cu_key = replicate 32 9"

definition cu_object :: bytes where "cu_object = 1 # replicate 29 4"

definition cu_binding :: ResourceKeyBinding where
  "cu_binding = (payload_binding cs_workload cs_grant cs_access ''client'' ''r'' ''s'')\<lparr>kb_ObjectDigest := Digest cu_object\<rparr>"

definition cu_manifest :: ResourcePayloadManifest where
  "cu_manifest = cs_manifest\<lparr>pm_ObjectDigest := Digest cu_object, pm_ObjectSize := 30,
     pm_WrappedPayloadKey := b64_encode (1 # replicate 60 3), pm_AADHash := b64_encode (sha256 [5])\<rparr>"

definition cu_cipher :: ResourceCipher where
  "cu_cipher = \<lparr>rc_state = 0, rc_binding = cu_binding\<rparr>"

lemma cu_identifiers: "identifier_ok ''client'' 256" "identifier_ok ''binding'' 256"
  by (simp_all add: identifier_ok_iff ident_char_def)

lemma cu_valid:
  "validResourceKeyBinding (payload_binding cs_workload cs_grant cs_access ''client'' ''r'' ''s'')" "validResourceKeyBinding cu_binding"
  by (simp_all add: validResourceKeyBinding_def cu_binding_def payload_binding_def cs_workload_def cs_access_def cs_manifest_def
      cs_grant_fields cs_identifiers cu_identifiers Let_def maxSafeInteger_def word_sless_alt word_sle_eq)

lemma cu_matches:
  "matchesInvocation (True, 1000) cs_context (payload_binding cs_workload cs_grant cs_access ''client'' ''r'' ''s'')"
  "matchesInvocation (True, 1000) cs_context cu_binding"
  by (simp_all add: matchesInvocation_def InvocationFromContext_def cs_context_def cu_binding_def payload_binding_def
      cs_workload_def cs_grant_fields Let_def word_sless_alt)

lemma cu_with_key:
  "WithResourceKey (True, 1000) cs_context cu_binding cu_key (Some (\<lambda>c g. (Ok (), g))) [] = (Ok (), [[]])"
  by (simp add: WithResourceKey_def cu_valid cu_matches) (simp add: cu_key_def)

lemma cu_aead: "aead_correct cu_env key"
  by (simp add: aead_correct_def cu_env_def)

lemma cu_aad: "resourceValueAAD cu_env \<lparr>vc_Binding = cu_binding, vc_Path = ''$.name''\<rparr> = Ok [123, 125]"
proof -
  have "ValidString ''$.name''" by code_simp
  then show ?thesis
    using cu_valid(2)
    by (simp add: resourceValueAAD_def validResourceValueContext_def cu_env_def)
      (simp add: cu_binding_def payload_binding_def cs_grant_fields Let_def)
qed

lemma cu_encrypted:
  "\<exists>v. EncryptValue cu_env (True, 1000) (Some (replicate 12 2)) cs_context ''$.name'' [8, 8] cu_cipher [cu_key] = Ok v"
  by (simp add: EncryptValue_def cu_cipher_def cu_matches cu_aad Let_def key_at_def MaximumInputBytes_def resourceAEAD_def)
    (simp add: cu_key_def)

lemma cu_opened:
  "\<exists>plaintext. OpenPayload cu_env (True, 1000) cs_context cu_manifest cu_object cu_cipher [cu_key] = Ok plaintext"
proof -
  have key: "key_at [cu_key] (rc_state cu_cipher) = cu_key" "length cu_key = 32"
    by (simp_all add: key_at_def cu_cipher_def cu_key_def)
  have policy: "isDigest (kb_PolicyDigest cu_binding)"
    by (simp add: cu_binding_def payload_binding_def cs_grant_fields Let_def)
  have object: "length cu_object = 30" "hd cu_object = 1"
    by (simp_all add: cu_object_def)
  have size: "length (b64_encode (1 # replicate 60 3 :: bytes)) = b64_encoded_len 61"
    by (simp add: length_b64_encode del: b64_encode.simps)
  have matches: "payload_matches cu_binding cu_manifest cu_object"
    using object size
    by (simp add: payload_matches_def cu_manifest_def cs_manifest_def MaximumInputBytes_def del: b64_encode.simps)
      (simp add: cu_binding_def payload_binding_def cs_access_def cs_manifest_def Let_def)
  have hash: "payload_hash cu_env cu_binding cu_manifest = sha256 [5]"
    by (simp add: payload_hash_def cu_env_def)
  have "unwrap_key cu_env cu_key (pm_WrappedPayloadKey cu_manifest) (sha256 [5]) = Ok (replicate 32 3)"
    by (simp add: unwrap_key_def cu_manifest_def key resourceAEAD_def cu_env_def del: b64_encode.simps)
  moreover have "pm_AADHash cu_manifest = b64_encode (sha256 [5])" "pm_Slot cu_manifest = ''s''" "pm_SchemaID cu_manifest = ''schema''"
    by (simp_all add: cu_manifest_def cs_manifest_def del: b64_encode.simps)
  moreover have "rc_binding cu_cipher = cu_binding"
    by (simp add: cu_cipher_def)
  ultimately show ?thesis
    using key policy matches hash
    by (simp add: OpenPayload_def cu_matches cs_identifiers resourceAEAD_def Let_def del: b64_encode.simps) (simp add: cu_env_def)
qed

theorem custody_lifetime_witness:
  "WithResourceKey (True, 1000) cs_context cu_binding cu_key (Some (\<lambda>c g. (Ok (), g))) [] = (Ok (), [[]])
   \<and> EncryptValue cu_env (True, 1000) (Some (replicate 12 2)) cs_context ''$.name'' [8, 8] cu_cipher [[]] = Fail ErrUnauthorized"
proof -
  have "EncryptValue cu_env (True, 1000) (Some (replicate 12 2)) cs_context ''$.name'' [8, 8]
      \<lparr>rc_state = length ([] :: key_heap), rc_binding = cu_binding\<rparr> [[]] = Fail ErrUnauthorized"
    by (rule custody_lifetime [OF cu_with_key, THEN conjunct1]) simp_all
  then show ?thesis
    using cu_with_key by (simp add: cu_cipher_def)
qed

theorem payload_opened_exactly_witness:
  "\<exists>plaintext. OpenPayload cu_env (True, 1000) cs_context cu_manifest cu_object cu_cipher [cu_key] = Ok plaintext
     \<and> Digest cu_object = pm_ObjectDigest cu_manifest"
proof -
  obtain plaintext where "OpenPayload cu_env (True, 1000) cs_context cu_manifest cu_object cu_cipher [cu_key] = Ok plaintext"
    using cu_opened by blast
  then show ?thesis
    using payload_opened_exactly by blast
qed

text \<open>A custodian that holds the key itself, and the sample exchange with it.\<close>

definition local_custodian :: PayloadCustodian where
  "local_custodian ctx binding callback h = WithResourceKey (True, 1000) ctx binding cu_key (Some (\<lambda>c. callback (Some c))) h"

lemma cs_identified: "WorkloadContext cs_env cs_net cs_validator cs_context = Ok cs_workload"
proof -
  obtain m where m: "SignValidation (ce_bridge cs_env) \<lparr>vr_Authorization = sample_message\<rparr> ''k1'' sample_priv = Ok m"
    using cs_signed(1) by blast
  have sel: "ce_Decoder cs_env = cs_decoder" "ce_Workload cs_env = table_codec [(cs_workload, [4])]"
    "cl_keyID cs_validator = ''k1''" "cl_key cs_validator = sample_priv"
    by (simp_all add: cs_env_def cs_validator_def)
  have outer: "workloadObjectFields cs_decoder [4] [''invocation_id'', ''binding_id'', ''scope'', ''principal'', ''authority_kind'', ''authority_resource'']
      = Ok [(''invocation_id'', [7]), (''scope'', [7])]"
    by code_simp
  have inner: "workloadObjectFields cs_decoder [7] [''tenant_id'', ''application_id'', ''environment_id'', ''owner_resource''] = Ok []"
    by code_simp
  have accepted: "workload_accepted cs_grant cs_workload False"
    by (simp add: workload_accepted_def cs_workload_def cs_grant_fields cs_identifiers)
  show ?thesis
    by (simp add: WorkloadContext_def InvocationFromContext_def cs_context_def cs_grant_fields sel m cs_post read_body_def
        workload_decode_def outer inner map_get_def strictJSON_def js_decode_all_def accepted del: One_nat_def)
qed


end
