(* ===== verification/Go_Time.thy ===== *)
theory Go_Time
  imports Go_Prelude
begin

text \<open>
  The part of package \<open>time\<close> the sources use: instants with their wrapping conversion from Unix
  seconds, their order, and the saturating addition of a duration.
\<close>

section \<open>Instants\<close>

text \<open>
  A \<open>time.Time\<close> is a number of seconds since the year 1, kept in an \<open>int64\<close>, and the nanoseconds
  of the current second. \<open>time.Unix\<close> adds the seconds between the year 1 and 1970 without a check
  for overflow.
\<close>

record go_time =
  tm_sec :: i64
  tm_nsec :: nat

definition unix_to_internal :: int where "unix_to_internal = 62135596800"

definition time_Unix :: "i64 \<Rightarrow> go_time" where
  "time_Unix s = \<lparr>tm_sec = s + 62135596800, tm_nsec = 0\<rparr>"

definition time_After :: "go_time \<Rightarrow> go_time \<Rightarrow> bool" where
  "time_After t u \<longleftrightarrow> tm_sec u <s tm_sec t \<or> (tm_sec t = tm_sec u \<and> tm_nsec u < tm_nsec t)"

text \<open>\<open>addSec\<close> saturates instead of wrapping.\<close>

definition add_sec :: "i64 \<Rightarrow> i64 \<Rightarrow> i64" where
  "add_sec s d = (let total = s + d in
     if (s <s total) = (0 <s d) then total
     else if 0 <s d then 9223372036854775807 else - 9223372036854775807)"

definition time_Add :: "go_time \<Rightarrow> i64 \<Rightarrow> go_time" where
  "time_Add t d = (let n = int (tm_nsec t) + sint d in
     \<lparr>tm_sec = add_sec (tm_sec t) (word_of_int (n div 1000000000)), tm_nsec = nat (n mod 1000000000)\<rparr>)"

section \<open>Instants as nanoseconds since 1970\<close>

definition time_wf :: "go_time \<Rightarrow> bool" where
  "time_wf t \<longleftrightarrow> tm_nsec t < 1000000000"

definition unix_nano :: "go_time \<Rightarrow> int" where
  "unix_nano t = (sint (tm_sec t) - unix_to_internal) * 1000000000 + int (tm_nsec t)"

text \<open>An instant far enough from both ends of the range that no duration below saturates.\<close>

definition time_sane :: "go_time \<Rightarrow> bool" where
  "time_sane t \<longleftrightarrow> time_wf t \<and> - (2 ^ 62) < sint (tm_sec t) \<and> sint (tm_sec t) < 2 ^ 62"

lemma time_After_nano:
  assumes "time_wf t" and "time_wf u"
  shows "time_After t u \<longleftrightarrow> unix_nano u < unix_nano t"
proof -
  have "tm_sec t = tm_sec u \<longleftrightarrow> sint (tm_sec t) = sint (tm_sec u)"
    by (auto intro: signed_word_eqI)
  then show ?thesis
    using assms by (auto simp: time_After_def time_wf_def unix_nano_def word_sless_alt)
qed

lemma time_wf_Unix [simp]: "time_wf (time_Unix s)"
  by (simp add: time_wf_def time_Unix_def)

lemma time_wf_Add [simp]: "time_wf (time_Add t d)"
  by (simp add: time_wf_def time_Add_def Let_def nat_less_iff)

lemma add_sec_exact:
  assumes "- (2 ^ 62) < sint s" "sint s < 2 ^ 62" "- (2 ^ 61) < sint d" "sint d < 2 ^ 61"
  shows "sint (add_sec s d) = sint s + sint d"
proof -
  have "sint (s + d) = sint s + sint d"
    using assms by (intro sint_add_exact) simp_all
  then show ?thesis
    by (simp add: add_sec_def Let_def word_sless_alt)
qed

lemma unix_nano_Add:
  assumes "time_sane t"
  shows "unix_nano (time_Add t d) = unix_nano t + sint d"
proof -
  define n where "n = int (tm_nsec t) + sint d"
  have n: "- (2 ^ 63) \<le> n" "n < 2 ^ 63 + 1000000000"
    using assms sint_range64 [of d] by (auto simp: n_def time_sane_def time_wf_def)
  define q where "q = n div 1000000000"
  have q: "- 9223372037 \<le> q" "q \<le> 9223372038"
    using n by (simp_all add: q_def)
  have "sint (word_of_int q :: i64) = q"
    using q by (simp add: signed_of_int signed_take_bit_int_eq_self_iff)
  then have "sint (add_sec (tm_sec t) (word_of_int q)) = sint (tm_sec t) + q"
    using assms q by (subst add_sec_exact) (auto simp: time_sane_def)
  moreover have "int (nat (n mod 1000000000)) = n - q * 1000000000"
    using minus_mult_div_eq_mod [of n 1000000000] by (simp add: q_def mult.commute)
  moreover have "time_Add t d = \<lparr>tm_sec = add_sec (tm_sec t) (word_of_int q), tm_nsec = nat (n mod 1000000000)\<rparr>"
    by (simp add: time_Add_def Let_def n_def q_def)
  ultimately have "unix_nano (time_Add t d) = (sint (tm_sec t) + q - unix_to_internal) * 1000000000 + (n - q * 1000000000)"
    by (simp add: unix_nano_def)
  then show ?thesis
    by (simp add: n_def unix_nano_def algebra_simps)
qed

lemma unix_nano_Unix:
  assumes "- (2 ^ 63) \<le> sint s + unix_to_internal" "sint s + unix_to_internal < 2 ^ 63"
  shows "unix_nano (time_Unix s) = sint s * 1000000000"
  using assms sint_add_exact [of s 62135596800]
  by (simp add: time_Unix_def unix_nano_def unix_to_internal_def)

text \<open>Past that range \<open>time.Unix\<close> wraps around to an instant in the distant past.\<close>

lemma unix_nano_wrapped:
  assumes "2 ^ 63 \<le> sint s + unix_to_internal"
  shows "unix_nano (time_Unix s) = (sint s - 2 ^ 64) * 1000000000"
proof -
  have "sint (s + 62135596800) = signed_take_bit 63 (sint s + 62135596800)"
    by (simp add: sint_word_ariths)
  also have "\<dots> = signed_take_bit 63 (sint s + 62135596800 - 2 ^ 64)"
    unfolding signed_take_bit_eq_iff_take_bit_eq take_bit_eq_mod
    using mod_mult_self2 [of "sint s + 62135596800 - 2 ^ 64" "2 ^ Suc 63" 1] by (simp add: add.commute)
  also have "\<dots> = sint s + 62135596800 - 2 ^ 64"
    using assms sint_range64 [of s] by (simp add: signed_take_bit_int_eq_self_iff unix_to_internal_def)
  finally show ?thesis
    by (simp add: time_Unix_def unix_nano_def unix_to_internal_def)
qed

end
