(* ===== verification/Gateway_Assertion.thy ===== *)
theory Gateway_Assertion
  imports Go_Net Go_Time Go_Json Sha256
begin

text \<open>
  \<^verbatim>\<open>lotorhttp/gateway_assertion.go\<close>: the claims an application gateway signs for one request, the
  verifier of a protected origin (canonical envelope, signature, authority tuple, time window, request
  binding, replay policy), and the HTTP middleware in front of the application. The one-time store, the
  Ed25519 check and the JSON codec are parameters; SHA-256, hexadecimal, base64, the clock arithmetic
  and the string checks are concrete.
\<close>

section \<open>Errors and data\<close>

datatype gateway_error = ErrGatewayAssertionRejected | ErrGatewayReplayUnavailable

record GatewayAssertionClaims =
  gc_Issuer :: string
  gc_KeyID :: string
  gc_Audience :: string
  gc_Subject :: string
  gc_SessionIDHash :: string
  gc_TenantID :: string
  gc_ApplicationID :: string
  gc_EnvironmentID :: string
  gc_BindingID :: string
  gc_RouteID :: string
  gc_RoutePin :: string
  gc_GatewayPlacementID :: string
  gc_GatewayOwnershipEpoch :: i64
  gc_RuntimePlacementID :: string
  gc_RuntimeOwnershipEpoch :: i64
  gc_Operation :: string
  gc_Method :: string
  gc_Path :: string
  gc_RequestID :: string
  gc_BodySHA256 :: string
  gc_QuerySHA256 :: string
  gc_IdempotencyKeySHA256 :: string
  gc_IssuedAt :: i64
  gc_ExpiresAt :: i64
  gc_ConfigurationVersion :: i64
  gc_BindingActivationEpoch :: i64
  gc_ReplayEligible :: bool

record GatewayAssertionAuthority =
  ga_Issuer :: string
  ga_Audience :: string
  ga_TenantID :: string
  ga_ApplicationID :: string
  ga_EnvironmentID :: string
  ga_BindingID :: string
  ga_RouteID :: string
  ga_RoutePin :: string
  ga_GatewayPlacementID :: string
  ga_RuntimePlacementID :: string
  ga_Operation :: string
  ga_GatewayOwnershipEpoch :: i64
  ga_RuntimeOwnershipEpoch :: i64
  ga_ConfigurationVersion :: i64
  ga_BindingActivationEpoch :: i64

record GatewayAssertionRequest =
  gr_Method :: string
  gr_Path :: string
  gr_RawQuery :: string
  gr_IdempotencyKey :: string
  gr_Body :: bytes

text \<open>
  A one-time store is a state \<open>'r\<close> with the operation \<open>Consume\<close>. A store keeps its own clock, so the
  instant of the call is an argument; the answer is \<open>None\<close> for a non-nil error.
\<close>

type_synonym 'r Consume = "go_time \<Rightarrow> string \<Rightarrow> go_time \<Rightarrow> 'r \<Rightarrow> bool option \<times> 'r"

record 'r GatewayAssertionVerifier =
  gv_keys :: "(string \<times> bytes) list"
  gv_replay :: "'r Consume option"
  gv_authority :: GatewayAssertionAuthority
  gv_clockSkew :: i64

text \<open>The options are the same fields; the clock is read at each call, see \<open>Verify\<close> below.\<close>

type_synonym 'r GatewayAssertionVerifierOptions = "'r GatewayAssertionVerifier"

text \<open>
  What the verifier takes from outside: \<open>ed25519.Verify\<close> (public key, message, signature), the JSON
  codec of the claims, and case conversion of strings that are not ASCII.
\<close>

record gateway_env =
  ge_Verify :: "bytes \<Rightarrow> bytes \<Rightarrow> bytes \<Rightarrow> bool"
  ge_Claims :: "GatewayAssertionClaims json_codec"
  ge_ToUpper :: "string \<Rightarrow> string"
  ge_ToLower :: "string \<Rightarrow> string"

section \<open>String checks\<close>

definition ascii :: "string \<Rightarrow> bool" where
  "ascii s \<longleftrightarrow> list_all (\<lambda>c. of_char c < (128 :: nat)) s"

definition ascii_upper :: "char \<Rightarrow> char" where
  "ascii_upper c = (if CHR ''a'' \<le> c \<and> c \<le> CHR ''z'' then char_of (of_char c - (32 :: nat)) else c)"

definition ascii_lower :: "char \<Rightarrow> char" where
  "ascii_lower c = (if CHR ''A'' \<le> c \<and> c \<le> CHR ''Z'' then char_of (of_char c + (32 :: nat)) else c)"

definition go_ToUpper :: "gateway_env \<Rightarrow> string \<Rightarrow> string" where
  "go_ToUpper env s = (if ascii s then map ascii_upper s else ge_ToUpper env s)"

definition go_ToLower :: "gateway_env \<Rightarrow> string \<Rightarrow> string" where
  "go_ToLower env s = (if ascii s then map ascii_lower s else ge_ToLower env s)"

definition contains_any :: "string \<Rightarrow> string \<Rightarrow> bool" where
  "contains_any s chars \<longleftrightarrow> list_ex (\<lambda>c. c \<in> set chars) s"

definition nul_cr_lf :: string where "nul_cr_lf = [CHR 0x00, CHR 0x0D, CHR 0x0A]"

definition gatewayMethod :: "gateway_env \<Rightarrow> string \<Rightarrow> bool" where
  "gatewayMethod env s \<longleftrightarrow> s \<noteq> [] \<and> s = go_ToUpper env s
     \<and> list_all (\<lambda>character. (65 \<le> character \<and> character \<le> 90)
          \<or> character \<in> set (map of_char (''!#$%&'' @ [CHR 0x27] @ ''*+-.^_'' @ [CHR 0x60] @ ''|~''))) (runes s)"

definition gatewayToken :: "string \<Rightarrow> nat \<Rightarrow> bool" where
  "gatewayToken s maximum \<longleftrightarrow> s \<noteq> [] \<and> length s \<le> maximum \<and> trim_space s = s \<and> \<not> contains_any s nul_cr_lf"

definition gatewayHash :: "gateway_env \<Rightarrow> string \<Rightarrow> bool" where
  "gatewayHash env s \<longleftrightarrow> length s = 32 * 2 \<and> go_ToLower env s = s \<and> hex_decode s \<noteq> None"

definition gatewaySHA256 :: "bytes \<Rightarrow> string" where
  "gatewaySHA256 raw = hex_encode (sha256 raw)"

definition constantGatewayHash :: "string \<Rightarrow> bytes \<Rightarrow> bool" where
  "constantGatewayHash expected raw \<longleftrightarrow> expected = gatewaySHA256 raw"

definition validGatewayAuthority :: "gateway_env \<Rightarrow> GatewayAssertionAuthority \<Rightarrow> bool" where
  "validGatewayAuthority env a \<longleftrightarrow>
     gatewayToken (ga_Issuer a) 320 \<and> gatewayToken (ga_Audience a) 512
     \<and> gatewayToken (ga_TenantID a) 300 \<and> gatewayToken (ga_ApplicationID a) 300
     \<and> gatewayToken (ga_EnvironmentID a) 300 \<and> gatewayToken (ga_BindingID a) 200
     \<and> gatewayToken (ga_RouteID a) 160 \<and> gatewayHash env (ga_RoutePin a)
     \<and> gatewayToken (ga_GatewayPlacementID a) 200 \<and> gatewayToken (ga_RuntimePlacementID a) 200
     \<and> 0 <s ga_GatewayOwnershipEpoch a \<and> 0 <s ga_RuntimeOwnershipEpoch a
     \<and> 0 <s ga_ConfigurationVersion a \<and> 0 <s ga_BindingActivationEpoch a
     \<and> (ga_Operation a = [] \<or> gatewayToken (ga_Operation a) 256)"

definition validGatewayRequest :: "gateway_env \<Rightarrow> GatewayAssertionRequest \<Rightarrow> bool" where
  "validGatewayRequest env request \<longleftrightarrow>
     \<not> (\<not> gatewayMethod env (gr_Method request) \<or> gr_Path request = []
        \<or> length (gr_Method request) > 32 \<or> length (gr_Path request) > 8192 \<or> length (gr_RawQuery request) > 8192
        \<or> \<not> has_prefix (gr_Path request) ''/''
        \<or> contains_any (gr_Path request) (nul_cr_lf @ [CHR 0x5C]) \<or> contains_any (gr_RawQuery request) nul_cr_lf
        \<or> trim_space (gr_IdempotencyKey request) \<noteq> gr_IdempotencyKey request
        \<or> length (gr_IdempotencyKey request) > 512 \<or> contains_any (gr_IdempotencyKey request) nul_cr_lf)"

section \<open>The verifier\<close>

definition thirty_seconds :: i64 where "thirty_seconds = 30000000000"

definition NewGatewayAssertionVerifier ::
  "gateway_env \<Rightarrow> 'r GatewayAssertionVerifierOptions \<Rightarrow> (gateway_error, 'r GatewayAssertionVerifier) outcome" where
  "NewGatewayAssertionVerifier env options =
     (if gv_keys options = [] \<or> \<not> validGatewayAuthority env (gv_authority options)
         \<or> gv_clockSkew options <s 0 \<or> thirty_seconds <s gv_clockSkew options
      then Fail ErrGatewayAssertionRejected
      else if list_ex (\<lambda>(keyID, publicKey). \<not> gatewayToken keyID 160 \<or> length publicKey \<noteq> 32) (gv_keys options)
      then Fail ErrGatewayAssertionRejected
      else Ok \<lparr>gv_keys = gv_keys options, gv_replay = gv_replay options,
               gv_authority = gv_authority options, gv_clockSkew = gv_clockSkew options\<rparr>)"

text \<open>\<open>validClaims\<close>, one definition per block of its checks.\<close>

definition claims_authority :: "GatewayAssertionAuthority \<Rightarrow> GatewayAssertionClaims \<Rightarrow> bool" where
  "claims_authority a c \<longleftrightarrow>
     gc_Issuer c = ga_Issuer a \<and> gc_Audience c = ga_Audience a
     \<and> gc_TenantID c = ga_TenantID a \<and> gc_ApplicationID c = ga_ApplicationID a
     \<and> gc_EnvironmentID c = ga_EnvironmentID a \<and> gc_BindingID c = ga_BindingID a
     \<and> gc_RouteID c = ga_RouteID a \<and> gc_RoutePin c = ga_RoutePin a
     \<and> gc_GatewayPlacementID c = ga_GatewayPlacementID a
     \<and> gc_GatewayOwnershipEpoch c = ga_GatewayOwnershipEpoch a
     \<and> gc_RuntimePlacementID c = ga_RuntimePlacementID a
     \<and> gc_RuntimeOwnershipEpoch c = ga_RuntimeOwnershipEpoch a
     \<and> gc_Operation c = ga_Operation a \<and> gc_ConfigurationVersion c = ga_ConfigurationVersion a
     \<and> gc_BindingActivationEpoch c = ga_BindingActivationEpoch a"

definition claims_window :: "i64 \<Rightarrow> go_time \<Rightarrow> i64 \<Rightarrow> i64 \<Rightarrow> bool" where
  "claims_window clockSkew now issuedAt expiresAt \<longleftrightarrow>
     \<not> (issuedAt <s 1 \<or> expiresAt <=s issuedAt \<or> 30 <s expiresAt - issuedAt
        \<or> time_After (time_Unix issuedAt) (time_Add now clockSkew)
        \<or> \<not> time_After (time_Unix expiresAt) (time_Add now (- clockSkew)))"

definition claims_form :: "gateway_env \<Rightarrow> GatewayAssertionClaims \<Rightarrow> bool" where
  "claims_form env c \<longleftrightarrow>
     gatewayToken (gc_RequestID c) 300 \<and> gatewayHash env (gc_BodySHA256 c) \<and> gatewayHash env (gc_QuerySHA256 c)
     \<and> (gc_Subject c = []) = (gc_SessionIDHash c = [])
     \<and> (gc_SessionIDHash c = [] \<or> gatewayHash env (gc_SessionIDHash c))"

definition claims_request :: "GatewayAssertionClaims \<Rightarrow> GatewayAssertionRequest \<Rightarrow> bool" where
  "claims_request c request \<longleftrightarrow>
     gc_Method c = gr_Method request \<and> gc_Path c = gr_Path request
     \<and> constantGatewayHash (gc_BodySHA256 c) (gr_Body request)
     \<and> constantGatewayHash (gc_QuerySHA256 c) (bytes_of_string (gr_RawQuery request))"

definition idempotency_hash :: "GatewayAssertionRequest \<Rightarrow> string" where
  "idempotency_hash request =
     (if gr_IdempotencyKey request \<noteq> [] then gatewaySHA256 (bytes_of_string (gr_IdempotencyKey request)) else [])"

definition safe_method :: "string \<Rightarrow> bool" where
  "safe_method s \<longleftrightarrow> s = ''GET'' \<or> s = ''HEAD'' \<or> s = ''OPTIONS''"

definition validClaims ::
  "gateway_env \<Rightarrow> 'r GatewayAssertionVerifier \<Rightarrow> go_time \<Rightarrow> GatewayAssertionClaims \<Rightarrow> GatewayAssertionRequest \<Rightarrow> bool" where
  "validClaims env v now claims request =
     (if \<not> claims_authority (gv_authority v) claims then False
      else if \<not> claims_window (gv_clockSkew v) now (gc_IssuedAt claims) (gc_ExpiresAt claims) then False
      else if \<not> claims_form env claims then False
      else if \<not> claims_request claims request then False
      else if gc_IdempotencyKeySHA256 claims \<noteq> idempotency_hash request then False
      else let safe = safe_method (gr_Method request) in
        (\<not> safe \<or> gc_ReplayEligible claims)
        \<and> (safe \<or> \<not> gc_ReplayEligible claims \<or> idempotency_hash request \<noteq> []))"

text \<open>The two encoded parts of the envelope, checked for length and for being canonical base64.\<close>

definition decode_parts :: "string \<Rightarrow> string \<Rightarrow> (bytes \<times> bytes) option" where
  "decode_parts part1 part2 =
     (case (b64_decode False part1, b64_decode False part2) of
        (Some body, Some signature) \<Rightarrow>
          if body = [] \<or> length body > 16384 \<or> length signature \<noteq> 64
             \<or> b64_encode body \<noteq> part1 \<or> b64_encode signature \<noteq> part2
          then None else Some (body, signature)
      | _ \<Rightarrow> None)"

definition decode_claims :: "gateway_env \<Rightarrow> bytes \<Rightarrow> GatewayAssertionClaims option" where
  "decode_claims env body =
     (case js_decode_all (ge_Claims env) body of
        None \<Rightarrow> None
      | Some claims \<Rightarrow> if js_marshal (ge_Claims env) claims = Some body then Some claims else None)"

definition consume_once ::
  "'r GatewayAssertionVerifier \<Rightarrow> go_time \<Rightarrow> GatewayAssertionClaims \<Rightarrow> 'r \<Rightarrow>
   (gateway_error, GatewayAssertionClaims) outcome \<times> 'r" where
  "consume_once v now claims r =
     (if gc_ReplayEligible claims then (Ok claims, r)
      else case gv_replay v of
        None \<Rightarrow> (Fail ErrGatewayReplayUnavailable, r)
      | Some consume \<Rightarrow>
          (case consume now (gc_RequestID claims) (time_Unix (gc_ExpiresAt claims)) r of
             (None, r') \<Rightarrow> (Fail ErrGatewayReplayUnavailable, r')
           | (Some first, r') \<Rightarrow> if first then (Ok claims, r') else (Fail ErrGatewayAssertionRejected, r')))"

text \<open>The claims an encoded assertion carries, when its envelope is canonical.\<close>

definition parse_assertion :: "gateway_env \<Rightarrow> string \<Rightarrow> (GatewayAssertionClaims \<times> bytes \<times> bytes) option" where
  "parse_assertion env encoded =
     (case split_on (CHR ''.'') encoded of
        [part0, part1, part2] \<Rightarrow>
          if part0 \<noteq> ''v1'' then None
          else (case decode_parts part1 part2 of
            None \<Rightarrow> None
          | Some (body, signature) \<Rightarrow> map_option (\<lambda>c. (c, body, signature)) (decode_claims env body))
      | _ \<Rightarrow> None)"

definition Verify ::
  "gateway_env \<Rightarrow> 'r GatewayAssertionVerifier \<Rightarrow> go_time \<Rightarrow> string \<Rightarrow> GatewayAssertionRequest \<Rightarrow> 'r \<Rightarrow>
   (gateway_error, GatewayAssertionClaims) outcome \<times> 'r" where
  "Verify env v now encoded request r =
     (if \<not> validGatewayRequest env request then (Fail ErrGatewayAssertionRejected, r)
      else case parse_assertion env encoded of
        None \<Rightarrow> (Fail ErrGatewayAssertionRejected, r)
      | Some (claims, body, signature) \<Rightarrow>
          let publicKey = (case map_get (gv_keys v) (gc_KeyID claims) of Some k \<Rightarrow> k | None \<Rightarrow> []) in
          if length publicKey \<noteq> 32 \<or> \<not> ge_Verify env publicKey body signature
          then (Fail ErrGatewayAssertionRejected, r)
          else if \<not> validClaims env v now claims request then (Fail ErrGatewayAssertionRejected, r)
          else consume_once v now claims r)"

section \<open>The middleware\<close>

text \<open>
  A request body is the bytes the reader yields and whether it then fails instead of reaching the end;
  a \<open>nil\<close> body is \<open>None\<close>. A header is a map from canonical names to values.
\<close>

record gateway_http =
  gh_Method :: string
  gh_Path :: string
  gh_RawQuery :: string
  gh_Header :: "(string \<times> string list) list"
  gh_Body :: "(bytes \<times> bool) option"
  gh_VerifiedChains :: "nat option"
  gh_Claims :: "GatewayAssertionClaims option"

record gateway_reply =
  rp_Status :: nat
  rp_Header :: "(string \<times> string) list"
  rp_Body :: string

definition gatewayAssertionHTTPError :: "nat \<Rightarrow> gateway_reply" where
  "gatewayAssertionHTTPError status =
     \<lparr>rp_Status = status,
      rp_Header = [(''Cache-Control'', ''no-store''), (''Content-Type'', ''application/json'')],
      rp_Body = [CHR 0x7B, CHR 0x22] @ ''error'' @ [CHR 0x22] @ '':'' @ [CHR 0x22] @ ''gateway request rejected''
        @ [CHR 0x22, CHR 0x7D, CHR 0x0A]\<rparr>"

record 'r GatewayAssertionMiddlewareOptions =
  gm_Verifier :: "'r GatewayAssertionVerifier option"
  gm_AuthenticateOrigin :: "(gateway_http \<Rightarrow> bool) option"
  gm_MaxBodyBytes :: i64

definition header_values :: "string \<Rightarrow> gateway_http \<Rightarrow> string list" where
  "header_values name r = (case map_get (gh_Header r) name of Some vs \<Rightarrow> vs | None \<Rightarrow> [])"

text \<open>\<open>io.ReadAll\<close> of an \<open>io.LimitReader\<close>: a failure past the limit is never seen.\<close>

definition read_limited :: "nat \<Rightarrow> (bytes \<times> bool) option \<Rightarrow> bytes option" where
  "read_limited limit body =
     (case body of
        None \<Rightarrow> Some []
      | Some (raw, fails) \<Rightarrow>
          if limit \<le> length raw then Some (take limit raw) else if fails then None else Some raw)"

text \<open>The request goes to the application handler, or the middleware answers it.\<close>

datatype forward = Forward gateway_http | Answer gateway_reply

definition gateway_handler ::
  "gateway_env \<Rightarrow> 'r GatewayAssertionVerifier \<Rightarrow> (gateway_http \<Rightarrow> bool) \<Rightarrow> i64 \<Rightarrow> go_time \<Rightarrow> gateway_http \<Rightarrow> 'r \<Rightarrow>
   forward \<times> 'r" where
  "gateway_handler env verifier authenticateOrigin maxBodyBytes now req s =
     (if \<not> authenticateOrigin req then (Answer (gatewayAssertionHTTPError 401), s)
      else let assertions = header_values ''X-Lotor-Assertion'' req;
               idempotencyValues = header_values ''Idempotency-Key'' req in
        case assertions of
          [assertion] \<Rightarrow>
            if length idempotencyValues > 1 then (Answer (gatewayAssertionHTTPError 401), s)
            else (case read_limited (unat (maxBodyBytes + 1)) (gh_Body req) of
              None \<Rightarrow> (Answer (gatewayAssertionHTTPError 413), s)
            | Some body \<Rightarrow>
                if unat maxBodyBytes < length body then (Answer (gatewayAssertionHTTPError 413), s)
                else let idempotencyKey = (if length idempotencyValues = 1 then hd idempotencyValues else []) in
                  (case Verify env verifier now assertion
                          \<lparr>gr_Method = gh_Method req, gr_Path = gh_Path req, gr_RawQuery = gh_RawQuery req,
                           gr_IdempotencyKey = idempotencyKey, gr_Body = body\<rparr> s of
                     (Ok claims, s') \<Rightarrow>
                       (Forward (req\<lparr>gh_Header := map_delete ''X-Lotor-Assertion'' (gh_Header req),
                          gh_Body := Some (body, False), gh_Claims := Some claims\<rparr>), s')
                   | (Fail ErrGatewayReplayUnavailable, s') \<Rightarrow> (Answer (gatewayAssertionHTTPError 503), s')
                   | (_, s') \<Rightarrow> (Answer (gatewayAssertionHTTPError 401), s')))
        | _ \<Rightarrow> (Answer (gatewayAssertionHTTPError 401), s))"

definition GatewayAssertionMiddleware ::
  "gateway_env \<Rightarrow> 'r GatewayAssertionMiddlewareOptions \<Rightarrow> bool \<Rightarrow>
   (gateway_error, go_time \<Rightarrow> gateway_http \<Rightarrow> 'r \<Rightarrow> forward \<times> 'r) outcome" where
  "GatewayAssertionMiddleware env options next_nil =
     (case (gm_Verifier options, gm_AuthenticateOrigin options) of
        (Some verifier, Some authenticateOrigin) \<Rightarrow>
          if next_nil \<or> gm_MaxBodyBytes options <s 0 \<or> 1073741824 <s gm_MaxBodyBytes options
          then Fail ErrGatewayAssertionRejected
          else Ok (gateway_handler env verifier authenticateOrigin (gm_MaxBodyBytes options))
      | _ \<Rightarrow> Fail ErrGatewayAssertionRejected)"

definition GatewayAssertionFromContext :: "gateway_http \<Rightarrow> GatewayAssertionClaims option" where
  "GatewayAssertionFromContext req = gh_Claims req"

definition VerifiedClientCertificateOrigin :: "gateway_http option \<Rightarrow> bool" where
  "VerifiedClientCertificateOrigin request =
     (case request of
        None \<Rightarrow> False
      | Some req \<Rightarrow> (case gh_VerifiedChains req of None \<Rightarrow> False | Some n \<Rightarrow> n > 0))"

section \<open>The checks\<close>

lemma hex_value_ascii: "hex_value c \<noteq> None \<Longrightarrow> of_char c < (128 :: nat)"
  by (auto simp: hex_value_def Let_def split: if_splits)

lemma hex_decode_values: "hex_decode s \<noteq> None \<Longrightarrow> list_all (\<lambda>c. hex_value c \<noteq> None) s"
  by (induction s rule: hex_decode.induct) (auto split: option.splits)

lemma of_char_le: "c \<le> d \<longleftrightarrow> (of_char c :: nat) \<le> of_char d"
  by (simp add: less_eq_char_def)

lemma lower_hex_char: "hex_value c \<noteq> None \<Longrightarrow> ascii_lower c = c \<Longrightarrow> hex_char c"
proof -
  assume v: "hex_value c \<noteq> None" and l: "ascii_lower c = c"
  have "\<not> (65 \<le> (of_char c :: nat) \<and> of_char c \<le> (90 :: nat))"
  proof
    assume u: "65 \<le> (of_char c :: nat) \<and> of_char c \<le> (90 :: nat)"
    then have "of_char (ascii_lower c) = (of_char c + 32 :: nat)"
      by (simp add: ascii_lower_def of_char_le)
    with l show False by simp
  qed
  with v show "hex_char c"
    by (auto simp: hex_value_def hex_char_def Let_def split: if_splits)
qed

lemma hex_char_lower: "hex_char c \<Longrightarrow> ascii_lower c = c"
  by (auto simp: hex_char_def ascii_lower_def of_char_le)

text \<open>\<open>gatewayHash\<close> accepts exactly the 64-digit lower-case hexadecimal strings, whatever case
  conversion does outside ASCII.\<close>

lemma gatewayHash_iff: "gatewayHash env s \<longleftrightarrow> length s = 64 \<and> list_all hex_char s"
proof
  assume h: "gatewayHash env s"
  then have vals: "list_all (\<lambda>c. hex_value c \<noteq> None) s"
    by (intro hex_decode_values) (simp add: gatewayHash_def)
  then have "ascii s"
    unfolding ascii_def by (rule list.pred_mono_strong) (rule hex_value_ascii)
  with h have "map ascii_lower s = s"
    by (simp add: gatewayHash_def go_ToLower_def)
  then have "\<forall>c \<in> set s. ascii_lower c = c"
    by (metis map_eq_conv map_ident)
  with vals have "list_all hex_char s"
    by (auto simp: list_all_iff intro: lower_hex_char)
  with h show "length s = 64 \<and> list_all hex_char s"
    by (simp add: gatewayHash_def)
next
  assume s: "length s = 64 \<and> list_all hex_char s"
  then have "hex_decode s \<noteq> None"
    using hex_encode_decode [of s] by auto
  moreover have "map ascii_lower s = s"
    using s by (intro map_idI) (auto simp: list_all_iff intro: hex_char_lower)
  moreover have "ascii s"
    using s by (auto simp: ascii_def list_all_iff hex_char_def)
  ultimately show "gatewayHash env s"
    using s by (simp add: gatewayHash_def go_ToLower_def)
qed

lemma gatewayHash_SHA256 [simp]: "gatewayHash env (gatewaySHA256 raw)"
  by (simp add: gatewayHash_iff gatewaySHA256_def hex_encode_chars)

lemma gatewaySHA256_inject [simp]: "gatewaySHA256 a = gatewaySHA256 b \<longleftrightarrow> sha256 a = sha256 b"
  by (simp add: gatewaySHA256_def)

lemma gatewaySHA256_nonempty [simp]: "gatewaySHA256 raw \<noteq> []" "[] \<noteq> gatewaySHA256 raw"
proof -
  have "length (gatewaySHA256 raw) = 64" by (simp add: gatewaySHA256_def)
  then show "gatewaySHA256 raw \<noteq> []" "[] \<noteq> gatewaySHA256 raw" by auto
qed

section \<open>What acceptance means\<close>

lemma Verify_Ok:
  assumes "Verify env v now encoded request r = (Ok c, r')"
  shows "validGatewayRequest env request"
    and "\<exists>body signature key. parse_assertion env encoded = Some (c, body, signature)
           \<and> map_get (gv_keys v) (gc_KeyID c) = Some key \<and> length key = 32 \<and> ge_Verify env key body signature"
    and "validClaims env v now c request"
    and "consume_once v now c r = (Ok c, r')"
  using assms
  by (auto simp: Verify_def Let_def consume_once_def
      split: if_splits option.splits prod.splits bool.splits)

lemma parse_assertion_canonical:
  "parse_assertion env encoded = Some (c, body, signature) \<Longrightarrow>
     js_marshal (ge_Claims env) c = Some body \<and> length body \<le> 16384 \<and> length signature = 64
     \<and> encoded = ''v1.'' @ b64_encode body @ ''.'' @ b64_encode signature"
  by (auto simp: parse_assertion_def decode_parts_def decode_claims_def dest!: split_on_join
      split: list.splits option.splits prod.splits if_splits)

lemma validClaims_parts:
  assumes "validClaims env v now c request"
  shows "claims_authority (gv_authority v) c"
    and "claims_window (gv_clockSkew v) now (gc_IssuedAt c) (gc_ExpiresAt c)"
    and "claims_form env c" and "claims_request c request"
    and "gc_IdempotencyKeySHA256 c = idempotency_hash request"
    and "safe_method (gr_Method request) \<Longrightarrow> gc_ReplayEligible c"
    and "\<not> safe_method (gr_Method request) \<Longrightarrow> gc_ReplayEligible c \<Longrightarrow> gr_IdempotencyKey request \<noteq> []"
  using assms by (auto simp: validClaims_def Let_def idempotency_hash_def split: if_splits)

lemma consume_once_Ok:
  assumes "consume_once v now c r = (Ok c', r')" and "\<not> gc_ReplayEligible c"
  shows "\<exists>consume. gv_replay v = Some consume
    \<and> consume now (gc_RequestID c) (time_Unix (gc_ExpiresAt c)) r = (Some True, r')"
  using assms by (auto simp: consume_once_def split: option.splits prod.splits if_splits)

text \<open>Whatever the answer, a call leaves the store alone or consumes one request id.\<close>

lemma Verify_store:
  assumes "Verify env v now encoded request r = (out, r')" and "gv_replay v = Some consume"
  shows "r' = r \<or> (\<exists>k e a. consume now k e r = (a, r'))"
  using assms
  by (auto simp: Verify_def consume_once_def Let_def split: if_splits option.splits prod.splits)

section \<open>The one-time store\<close>

text \<open>
  The contract of \<open>GatewayAssertionReplayStore\<close>: \<open>remembers r k t\<close> says that the store \<open>r\<close>, asked at
  instant \<open>t\<close>, still knows that \<open>k\<close> was consumed. A first observation is of an id not remembered, it
  is remembered through its expiry, and no later call forgets it before.
\<close>

locale replay_store =
  fixes consume :: "'r Consume"
    and remembers :: "'r \<Rightarrow> string \<Rightarrow> go_time \<Rightarrow> bool"
  assumes first_fresh: "consume now k e r = (Some True, r') \<Longrightarrow> \<not> remembers r k now"
    and first_recorded: "consume now k e r = (Some True, r') \<Longrightarrow> \<not> time_After t e \<Longrightarrow> remembers r' k t"
    and kept: "consume now k' e r = (a, r') \<Longrightarrow> remembers r k t \<Longrightarrow> \<not> time_After now t \<Longrightarrow> remembers r' k t"

text \<open>A sequence of calls of one verifier, each at its instant, over one shared store.\<close>

type_synonym gateway_call = "go_time \<times> string \<times> GatewayAssertionRequest"

fun verify_run ::
  "gateway_env \<Rightarrow> 'r GatewayAssertionVerifier \<Rightarrow> gateway_call list \<Rightarrow> 'r \<Rightarrow>
   (gateway_error, GatewayAssertionClaims) outcome list" where
  "verify_run env v [] r = []"
| "verify_run env v ((now, encoded, request) # calls) r =
     (case Verify env v now encoded request r of (out, r') \<Rightarrow> out # verify_run env v calls r')"

definition clock_ordered :: "gateway_call list \<Rightarrow> bool" where
  "clock_ordered calls \<longleftrightarrow> sorted_wrt (\<lambda>a b. \<not> time_After (fst a) (fst b)) calls"

lemma length_verify_run [simp]: "length (verify_run env v calls r) = length calls"
  by (induction env v calls r rule: verify_run.induct) (auto split: prod.split)

lemma verify_run_nth:
  "i < length calls \<Longrightarrow>
     \<exists>r r'. Verify env v (fst (calls ! i)) (fst (snd (calls ! i))) (snd (snd (calls ! i))) r
       = (verify_run env v calls r0 ! i, r')"
proof (induction calls arbitrary: i r0)
  case (Cons call calls)
  obtain now encoded request where call: "call = (now, encoded, request)"
    by (metis prod.exhaust)
  obtain out r' where "Verify env v now encoded request r0 = (out, r')" by fastforce
  with Cons call show ?case by (cases i) auto
qed simp

context replay_store
begin

lemma Verify_keeps:
  assumes "Verify env v now encoded request r = (out, r')" and "gv_replay v = Some consume"
    and "remembers r k t" and "\<not> time_After now t"
  shows "remembers r' k t"
  using Verify_store [OF assms(1,2)] assms(3,4) by (auto intro: kept)

lemma remembered_not_accepted:
  assumes "gv_replay v = Some consume" and "clock_ordered calls" and "j < length calls"
    and "remembers r k (fst (calls ! j))"
    and "verify_run env v calls r ! j = Ok c" and "\<not> gc_ReplayEligible c" and "gc_RequestID c = k"
  shows False
  using assms(2-)
proof (induction calls arbitrary: j r)
  case (Cons call calls)
  obtain now encoded request where call: "call = (now, encoded, request)"
    by (metis prod.exhaust)
  obtain out r' where step: "Verify env v now encoded request r = (out, r')" by fastforce
  show ?case
  proof (cases j)
    case 0
    then have "out = Ok c"
      using Cons.prems call step by simp
    then have "consume now k (time_Unix (gc_ExpiresAt c)) r = (Some True, r')"
      using Verify_Ok(4) step consume_once_Ok [of v now c r c r'] Cons.prems assms(1) by force
    then show ?thesis
      using first_fresh Cons.prems call 0 by force
  next
    case (Suc i)
    with Cons.prems call have "\<not> time_After now (fst (calls ! i))"
      by (auto simp: clock_ordered_def)
    then have "remembers r' k (fst (calls ! i))"
      using Verify_keeps [OF step assms(1)] Cons.prems call Suc by simp
    then show ?thesis
      using Cons.IH [of i r'] Cons.prems call step Suc by (auto simp: clock_ordered_def)
  qed
qed simp

text \<open>A request id is accepted for one-time use twice only past the expiry it was first consumed with.\<close>

lemma accepted_again_expired:
  assumes "gv_replay v = Some consume" and "clock_ordered calls" and "i < j" and "j < length calls"
    and "verify_run env v calls r ! i = Ok c" and "\<not> gc_ReplayEligible c"
    and "verify_run env v calls r ! j = Ok c'" and "\<not> gc_ReplayEligible c'"
    and "gc_RequestID c' = gc_RequestID c"
  shows "time_After (fst (calls ! j)) (time_Unix (gc_ExpiresAt c))"
  using assms(2-)
proof (induction calls arbitrary: i j r)
  case (Cons call calls)
  obtain now encoded request where call: "call = (now, encoded, request)"
    by (metis prod.exhaust)
  obtain out r' where step: "Verify env v now encoded request r = (out, r')" by fastforce
  obtain j' where j: "j = Suc j'"
    using Cons.prems(2) by (cases j) auto
  show ?case
  proof (cases i)
    case 0
    then have "out = Ok c"
      using Cons.prems call step by simp
    then have first: "consume now (gc_RequestID c) (time_Unix (gc_ExpiresAt c)) r = (Some True, r')"
      using Verify_Ok(4) step consume_once_Ok [of v now c r c r'] Cons.prems assms(1) by force
    show ?thesis
    proof (rule ccontr)
      assume "\<not> time_After (fst ((call # calls) ! j)) (time_Unix (gc_ExpiresAt c))"
      then have "remembers r' (gc_RequestID c) (fst (calls ! j'))"
        using first_recorded [OF first] j by simp
      then show False
        using remembered_not_accepted [of v calls j' r' "gc_RequestID c" env c'] assms(1) Cons.prems call step j
        by (auto simp: clock_ordered_def)
    qed
  next
    case (Suc i')
    then show ?thesis
      using Cons.IH [of i' j' r'] Cons.prems call step j by (auto simp: clock_ordered_def)
  qed
qed simp

end

text \<open>
  Two stores with that contract: the one of the repository's tests, which answers true once and for
  all, and one that keeps an id exactly through its expiry, the least the contract allows.
\<close>

definition testReplayStore_Consume :: "bool Consume" where
  "testReplayStore_Consume now requestID expiresAt consumed =
     (if consumed then (Some False, consumed) else (Some True, True))"

definition expiring_remembers :: "(string \<times> go_time) list \<Rightarrow> string \<Rightarrow> go_time \<Rightarrow> bool" where
  "expiring_remembers r k t \<longleftrightarrow> list_ex (\<lambda>(k', e). k' = k \<and> \<not> time_After t e) r"

definition expiring_consume :: "(string \<times> go_time) list Consume" where
  "expiring_consume now k e r =
     (if expiring_remembers r k now then (Some False, r) else (Some True, (k, e) # r))"

interpretation test_store: replay_store testReplayStore_Consume "\<lambda>r k t. r"
  by unfold_locales (auto simp: testReplayStore_Consume_def split: if_splits)

interpretation expiring: replay_store expiring_consume expiring_remembers
  by unfold_locales (auto simp: expiring_consume_def expiring_remembers_def split: if_splits)

section \<open>The time window\<close>

lemma sint_literals: "sint (1 :: i64) = 1" "sint (30 :: i64) = 30"
  by simp_all

lemma unix_window:
  assumes "time_sane now" and "1 \<le> sint t"
  shows "(sint t < 2 ^ 63 - unix_to_internal \<and> unix_nano (time_Unix t) = sint t * 1000000000) \<or>
    (2 ^ 63 - unix_to_internal \<le> sint t \<and> unix_nano (time_Unix t) < unix_nano now - 2 ^ 70)"
proof (cases "sint t + unix_to_internal < 2 ^ 63")
  case True
  then show ?thesis
    using assms unix_nano_Unix [of t] by (simp add: unix_to_internal_def)
next
  case False
  then have "unix_nano (time_Unix t) = (sint t - 2 ^ 64) * 1000000000"
    using unix_nano_wrapped [of t] by simp
  moreover have "- (2 ^ 62) < sint (tm_sec now)"
    using assms by (simp add: time_sane_def)
  moreover have "sint t < 2 ^ 63"
    by (rule sint_range64)
  ultimately show ?thesis
    using False by (simp add: unix_nano_def unix_to_internal_def)
qed

lemma claims_window_nano:
  assumes now: "time_sane now" and skew: "0 \<le> sint skew" "sint skew \<le> 30000000000"
  shows "claims_window skew now iat exp \<longleftrightarrow>
    1 \<le> sint iat \<and> sint iat < sint exp \<and> sint exp \<le> sint iat + 30
    \<and> sint iat * 1000000000 \<le> unix_nano now + sint skew
    \<and> unix_nano now - sint skew < sint exp * 1000000000"
proof (cases "1 \<le> sint iat \<and> sint iat < sint exp")
  case False
  then show ?thesis
    by (auto simp: claims_window_def word_sless_alt word_sle_eq)
next
  case True
  have "sint (exp - iat) = sint exp - sint iat"
    using True sint_range64 [of exp] sint_range64 [of iat] by (intro sint_diff_exact) simp_all
  moreover have "sint (- skew) = - sint skew"
    using skew sint_diff_exact [of 0 skew] by simp
  ultimately have window: "claims_window skew now iat exp \<longleftrightarrow>
      sint exp \<le> sint iat + 30
      \<and> unix_nano (time_Unix iat) \<le> unix_nano now + sint skew
      \<and> unix_nano now - sint skew < unix_nano (time_Unix exp)"
    using True now
    by (auto simp: claims_window_def word_sless_alt word_sle_eq time_After_nano unix_nano_Add time_sane_def)
  have "unix_nano now < 2 ^ 62 * 1000000000"
    using now by (auto simp: time_sane_def time_wf_def unix_nano_def unix_to_internal_def)
  then have far: "unix_nano now + sint skew < 2 ^ 62 * 1000000000 + 30000000000"
    using skew by linarith
  show ?thesis
  proof (cases "sint exp < 2 ^ 63 - unix_to_internal")
    case inside: True
    have "unix_nano (time_Unix iat) = sint iat * 1000000000" "unix_nano (time_Unix exp) = sint exp * 1000000000"
      using unix_window [OF now, of iat] unix_window [OF now, of exp] True inside by linarith+
    with window True show ?thesis by simp
  next
    case False
    then have "unix_nano (time_Unix exp) < unix_nano now - 2 ^ 70"
      using unix_window [OF now, of exp] True by linarith
    then have "\<not> claims_window skew now iat exp"
      using window skew by simp
    moreover have "\<not> (sint exp \<le> sint iat + 30 \<and> sint iat * 1000000000 \<le> unix_nano now + sint skew)"
      using False far by (simp add: unix_to_internal_def)
    ultimately show ?thesis by blast
  qed
qed

lemma idempotency_hash_inject:
  assumes "idempotency_hash a = idempotency_hash b"
    and "sha256 (bytes_of_string (gr_IdempotencyKey a)) = sha256 (bytes_of_string (gr_IdempotencyKey b))
      \<Longrightarrow> gr_IdempotencyKey a = gr_IdempotencyKey b"
  shows "gr_IdempotencyKey a = gr_IdempotencyKey b"
  using assms by (auto simp: idempotency_hash_def split: if_splits)

text \<open>What one accepted assertion fixes of the request.\<close>

lemma Verify_Ok_request:
  assumes "Verify env v now encoded request r = (Ok c, r')"
  shows "\<exists>body signature. parse_assertion env encoded = Some (c, body, signature)"
    and "gr_Method request = gc_Method c" and "gr_Path request = gc_Path c"
    and "gatewaySHA256 (gr_Body request) = gc_BodySHA256 c"
    and "gatewaySHA256 (bytes_of_string (gr_RawQuery request)) = gc_QuerySHA256 c"
    and "idempotency_hash request = gc_IdempotencyKeySHA256 c"
  using Verify_Ok(2) [OF assms] validClaims_parts(4,5) [OF Verify_Ok(3) [OF assms]]
  by (auto simp: claims_request_def constantGatewayHash_def)

section \<open>A sample verifier\<close>

text \<open>A verifier for one route, a signed \<open>POST\<close> and its request, with a codec that knows these claims.\<close>

definition sample_authority :: GatewayAssertionAuthority where
  "sample_authority = \<lparr>ga_Issuer = ''gw'', ga_Audience = ''api'', ga_TenantID = ''t1'', ga_ApplicationID = ''a1'',
     ga_EnvironmentID = ''prod'', ga_BindingID = ''b1'', ga_RouteID = ''r1'', ga_RoutePin = gatewaySHA256 [7],
     ga_GatewayPlacementID = ''p1'', ga_RuntimePlacementID = ''p2'', ga_Operation = [],
     ga_GatewayOwnershipEpoch = 1, ga_RuntimeOwnershipEpoch = 1, ga_ConfigurationVersion = 1,
     ga_BindingActivationEpoch = 1\<rparr>"

definition gw_request :: GatewayAssertionRequest where
  "gw_request = \<lparr>gr_Method = ''POST'', gr_Path = ''/orders'', gr_RawQuery = [], gr_IdempotencyKey = [],
     gr_Body = [1, 2, 3]\<rparr>"

definition sample_claims :: GatewayAssertionClaims where
  "sample_claims = \<lparr>gc_Issuer = ''gw'', gc_KeyID = ''k1'', gc_Audience = ''api'', gc_Subject = [], gc_SessionIDHash = [],
     gc_TenantID = ''t1'', gc_ApplicationID = ''a1'', gc_EnvironmentID = ''prod'', gc_BindingID = ''b1'',
     gc_RouteID = ''r1'', gc_RoutePin = gatewaySHA256 [7], gc_GatewayPlacementID = ''p1'', gc_GatewayOwnershipEpoch = 1,
     gc_RuntimePlacementID = ''p2'', gc_RuntimeOwnershipEpoch = 1, gc_Operation = [], gc_Method = ''POST'',
     gc_Path = ''/orders'', gc_RequestID = ''req1'', gc_BodySHA256 = gatewaySHA256 [1, 2, 3],
     gc_QuerySHA256 = gatewaySHA256 [], gc_IdempotencyKeySHA256 = [], gc_IssuedAt = 1000, gc_ExpiresAt = 1020,
     gc_ConfigurationVersion = 1, gc_BindingActivationEpoch = 1, gc_ReplayEligible = False\<rparr>"

definition sample_genv :: gateway_env where
  "sample_genv = \<lparr>ge_Verify = (\<lambda>key message signature. signature = replicate 64 9),
     ge_Claims = table_codec [(sample_claims, [1])], ge_ToUpper = id, ge_ToLower = id\<rparr>"

definition sample_assertion :: string where
  "sample_assertion = ''v1.'' @ b64_encode [1] @ ''.'' @ b64_encode (replicate 64 9)"

definition sample_verifier :: "i64 \<Rightarrow> (string \<times> go_time) list GatewayAssertionVerifier" where
  "sample_verifier skew = \<lparr>gv_keys = [(''k1'', replicate 32 5)], gv_replay = Some expiring_consume,
     gv_authority = sample_authority, gv_clockSkew = skew\<rparr>"

definition sample_instant :: "i64 \<Rightarrow> go_time" where
  "sample_instant s = \<lparr>tm_sec = s + 62135596800, tm_nsec = 500000000\<rparr>"

lemma b64_encode_no_dot: "CHR ''.'' \<notin> set (b64_encode bs)"
proof
  assume "CHR ''.'' \<in> set (b64_encode bs)"
  then obtain n where "n < 64" "b64_digit n = CHR ''.''"
    using b64_sextets_less [of bs] by (force simp: b64_encode_sextets list_all_iff)
  then have "b64_value (CHR ''.'') = Some n"
    using b64_digit_facts by metis
  moreover have "b64_value (CHR ''.'') = None" by code_simp
  ultimately show False by simp
qed

lemma sample_parts: "split_on (CHR ''.'') sample_assertion = [''v1'', b64_encode [1], b64_encode (replicate 64 9)]"
  by (simp add: sample_assertion_def split_on_append split_on_none b64_encode_no_dot del: b64_encode.simps)

lemma sample_decode: "decode_parts (b64_encode [1]) (b64_encode (replicate 64 9)) = Some ([1], replicate 64 9)"
  by (simp add: decode_parts_def del: b64_encode.simps)

lemma sample_parse: "parse_assertion sample_genv sample_assertion = Some (sample_claims, [1], replicate 64 9)"
  by (simp add: parse_assertion_def sample_parts sample_decode decode_claims_def js_decode_all_def sample_genv_def
      del: b64_encode.simps)

lemma gw_request_valid: "validGatewayRequest env gw_request"
proof -
  have "runes ''POST'' = [80, 79, 83, 84]" "ascii ''POST''" "map ascii_upper ''POST'' = ''POST''"
    by code_simp+
  then have "gatewayMethod env ''POST''"
    by (simp add: gatewayMethod_def go_ToUpper_def)
  moreover have "trim_space [] = []" "\<not> contains_any ''/orders'' (nul_cr_lf @ [CHR 0x5C])" "\<not> contains_any [] nul_cr_lf"
    "has_prefix ''/orders'' ''/''"
    by code_simp+
  ultimately show ?thesis
    by (simp add: validGatewayRequest_def gw_request_def)
qed

lemma sample_form: "claims_form sample_genv sample_claims"
proof -
  have "gatewayToken ''req1'' 300" by code_simp
  then show ?thesis by (simp add: claims_form_def sample_claims_def)
qed

lemma gw_valid:
  "validClaims sample_genv (sample_verifier skew) now sample_claims gw_request
     \<longleftrightarrow> claims_window skew now 1000 1020"
proof -
  have "claims_authority sample_authority sample_claims"
    by (simp add: claims_authority_def sample_authority_def sample_claims_def)
  moreover have "claims_request sample_claims gw_request"
    by (simp add: claims_request_def sample_claims_def gw_request_def constantGatewayHash_def bytes_of_string_def)
  ultimately show ?thesis
    using sample_form
    by (simp add: validClaims_def sample_verifier_def Let_def idempotency_hash_def)
      (simp add: sample_claims_def gw_request_def safe_method_def)
qed

lemma sample_Verify:
  "Verify sample_genv (sample_verifier skew) now sample_assertion gw_request r =
     (if claims_window skew now 1000 1020
      then (if expiring_remembers r ''req1'' now then (Fail ErrGatewayAssertionRejected, r)
            else (Ok sample_claims, (''req1'', time_Unix 1020) # r))
      else (Fail ErrGatewayAssertionRejected, r))"
proof -
  have "map_get (gv_keys (sample_verifier skew)) (gc_KeyID sample_claims) = Some (replicate 32 5)"
    by (simp add: sample_verifier_def sample_claims_def map_get_def)
  moreover have "consume_once (sample_verifier skew) now sample_claims r =
      (if expiring_remembers r ''req1'' now then (Fail ErrGatewayAssertionRejected, r)
       else (Ok sample_claims, (''req1'', time_Unix 1020) # r))"
    by (simp add: consume_once_def sample_verifier_def expiring_consume_def sample_claims_def)
  ultimately show ?thesis
    by (simp add: Verify_def gw_request_valid sample_parse gw_valid Let_def)
      (simp add: sample_genv_def)
qed

lemma sample_nano:
  assumes "s \<in> set [1010, 1012, 1022]"
  shows "unix_nano (sample_instant s) = sint s * 1000000000 + 500000000" and "time_sane (sample_instant s)"
  using assms by (auto simp: sample_instant_def unix_nano_def unix_to_internal_def time_sane_def time_wf_def)

lemma sample_windows:
  "claims_window 0 (sample_instant 1010) 1000 1020" "claims_window 0 (sample_instant 1012) 1000 1020"
  "claims_window 5000000000 (sample_instant 1010) 1000 1020" "claims_window 5000000000 (sample_instant 1022) 1000 1020"
  by (simp_all add: claims_window_nano sample_nano)

lemma sample_clock:
  "time_After (sample_instant 1022) (time_Unix 1020)" "\<not> time_After (sample_instant 1012) (time_Unix 1020)"
  "\<not> time_After (sample_instant 1010) (sample_instant 1012)" "time_sane (sample_instant 1010)" "time_sane (sample_instant 1012)"
  by (simp_all add: sample_nano, simp_all add: sample_instant_def time_Unix_def time_After_def word_sless_alt)

lemma sample_accepted:
  "Verify sample_genv (sample_verifier 0) (sample_instant 1010) sample_assertion gw_request [] =
     (Ok sample_claims, [(''req1'', time_Unix 1020)])"
  by (simp add: sample_Verify sample_windows expiring_remembers_def)

section \<open>Properties\<close>

text \<open>
  The time checks of \<open>validClaims\<close> mean what they say over the integers: the claims live at
  most 30 seconds, were issued no later than the clock plus the skew, and expire after the clock minus
  the skew. Neither the \<open>int64\<close> subtraction nor the wrap-around of \<open>time.Unix\<close> for times near the end
  of the range lets any other pair through.
\<close>

lemma assertion_window_exact:
  assumes "time_sane now" and "0 \<le> sint skew" and "sint skew \<le> 30000000000"
  shows "claims_window skew now iat exp \<longleftrightarrow>
    1 \<le> sint iat \<and> sint iat < sint exp \<and> sint exp \<le> sint iat + 30
    \<and> sint iat * 1000000000 \<le> unix_nano now + sint skew
    \<and> unix_nano now - sint skew < sint exp * 1000000000"
  using assms by (rule claims_window_nano)

text \<open>
  \<^bold>\<open>C28\<close> An assertion is good for one request: if one verifier accepts the same encoded assertion
  with two requests, at whatever instants and stores, then the requests are equal in method, path, query,
  idempotency key and body, given only that SHA-256 does not collide on their bodies, queries and keys.
\<close>

theorem assertion_binds_request:
  assumes "Verify env v now1 encoded req1 r1 = (Ok c1, r1')"
    and "Verify env v now2 encoded req2 r2 = (Ok c2, r2')"
    and body_collision_free: "sha256 (gr_Body req1) = sha256 (gr_Body req2) \<Longrightarrow> gr_Body req1 = gr_Body req2"
    and query_collision_free: "sha256 (bytes_of_string (gr_RawQuery req1)) = sha256 (bytes_of_string (gr_RawQuery req2))
      \<Longrightarrow> gr_RawQuery req1 = gr_RawQuery req2"
    and key_collision_free: "sha256 (bytes_of_string (gr_IdempotencyKey req1)) = sha256 (bytes_of_string (gr_IdempotencyKey req2))
      \<Longrightarrow> gr_IdempotencyKey req1 = gr_IdempotencyKey req2"
  shows "req1 = req2 \<and> c1 = c2"
proof -
  note first = Verify_Ok_request [OF assms(1)] and second = Verify_Ok_request [OF assms(2)]
  from first(1) second(1) have c: "c1 = c2" by auto
  have "gr_IdempotencyKey req1 = gr_IdempotencyKey req2"
  proof (rule idempotency_hash_inject)
    show "idempotency_hash req1 = idempotency_hash req2"
      using first(6) second(6) c by simp
  qed (rule key_collision_free)
  moreover have "gr_Body req1 = gr_Body req2"
    using first(4) second(4) c by (intro body_collision_free) (simp flip: gatewaySHA256_inject)
  moreover have "gr_RawQuery req1 = gr_RawQuery req2"
    using first(5) second(5) c by (intro query_collision_free) (simp flip: gatewaySHA256_inject)
  ultimately show ?thesis
    using first(2,3) second(2,3) c by simp
qed

theorem assertion_binds_request_witness:
  "Verify sample_genv (sample_verifier 0) (sample_instant 1010) sample_assertion gw_request [] =
     (Ok sample_claims, [(''req1'', time_Unix 1020)]) \<and> gw_request = gw_request \<and> sample_claims = sample_claims"
  using assertion_binds_request [OF sample_accepted sample_accepted] sample_accepted by blast

text \<open>
  \<^bold>\<open>C29\<close> What \<open>Verify\<close> checks before it returns claims: the envelope is the canonical encoding of
  these claims, signed by a configured key; issuer, audience, tenant, application, environment, binding,
  route, placements and epochs are the configured ones; and a request that changes state, without an
  idempotency key, has consumed its request id from the one-time store in this very call.
\<close>

theorem accepted_assertion:
  assumes "Verify env v now encoded request r = (Ok c, r')"
  shows "(\<exists>key body signature. map_get (gv_keys v) (gc_KeyID c) = Some key \<and> length key = 32
      \<and> js_marshal (ge_Claims env) c = Some body \<and> ge_Verify env key body signature
      \<and> encoded = ''v1.'' @ b64_encode body @ ''.'' @ b64_encode signature)
    \<and> claims_authority (gv_authority v) c
    \<and> (safe_method (gr_Method request) \<or> gr_IdempotencyKey request \<noteq> [] \<or>
       (\<exists>consume. gv_replay v = Some consume
         \<and> consume now (gc_RequestID c) (time_Unix (gc_ExpiresAt c)) r = (Some True, r')))"
proof -
  note valid = validClaims_parts [OF Verify_Ok(3) [OF assms]]
  have "\<exists>key body signature. map_get (gv_keys v) (gc_KeyID c) = Some key \<and> length key = 32
      \<and> js_marshal (ge_Claims env) c = Some body \<and> ge_Verify env key body signature
      \<and> encoded = ''v1.'' @ b64_encode body @ ''.'' @ b64_encode signature"
    using Verify_Ok(2) [OF assms] by (auto dest!: parse_assertion_canonical)
  then show ?thesis
    using consume_once_Ok [OF Verify_Ok(4) [OF assms]] valid(1,7) by blast
qed

theorem accepted_assertion_witness:
  "Verify sample_genv (sample_verifier 0) (sample_instant 1010) sample_assertion gw_request [] =
     (Ok sample_claims, [(''req1'', time_Unix 1020)])
   \<and> claims_authority (gv_authority (sample_verifier 0)) sample_claims"
  using accepted_assertion [OF sample_accepted] sample_accepted by blast



text \<open>
  With a clock skew the guarantee needs more of the store than its documentation asks for: a store that
  keeps ids exactly through \<open>expiresAt\<close> meets the contract, but the verifier goes on accepting the
  assertion until \<open>ExpiresAt\<close> plus the skew, and here the same one-time assertion passes twice.
\<close>

lemma skewed_replay:
  "verify_run sample_genv (sample_verifier 5000000000)
     [(sample_instant 1010, sample_assertion, gw_request), (sample_instant 1022, sample_assertion, gw_request)] []
     = [Ok sample_claims, Ok sample_claims]
   \<and> \<not> gc_ReplayEligible sample_claims"
  by (simp add: sample_Verify sample_windows expiring_remembers_def sample_clock) (simp add: sample_claims_def)

lemma read_limited_Some:
  "read_limited (Suc n) body = Some raw \<Longrightarrow> length raw \<le> n \<Longrightarrow>
     (body = None \<and> raw = []) \<or> body = Some (raw, False)"
  by (auto simp: read_limited_def split: option.splits if_splits)

lemma unat_limit: "0 \<le> sint m \<Longrightarrow> sint m \<le> 1073741824 \<Longrightarrow> unat (m + 1 :: i64) = Suc (unat m)"
proof -
  assume m: "0 \<le> sint m" "sint m \<le> 1073741824"
  then have "m + 1 \<noteq> 0"
    using sint_add_exact [of m 1] by auto
  then show ?thesis by (simp add: unat_plus_simple unatSuc add.commute)
qed

lemma handler_Answer:
  "gateway_handler env v origin m now req s = (Answer resp, s') \<Longrightarrow>
     \<exists>status. (status = 401 \<or> status = 413 \<or> status = 503) \<and> resp = gatewayAssertionHTTPError status"
  by (auto simp: gateway_handler_def Let_def
      split: if_splits list.splits option.splits prod.splits outcome.splits gateway_error.splits)

lemma handler_Forward:
  "gateway_handler env v origin m now req s = (Forward req', s') \<Longrightarrow>
     \<exists>assertion body c. origin req \<and> header_values ''X-Lotor-Assertion'' req = [assertion]
       \<and> length (header_values ''Idempotency-Key'' req) \<le> 1
       \<and> read_limited (unat (m + 1)) (gh_Body req) = Some body \<and> length body \<le> unat m
       \<and> Verify env v now assertion
           \<lparr>gr_Method = gh_Method req, gr_Path = gh_Path req, gr_RawQuery = gh_RawQuery req,
            gr_IdempotencyKey = (if length (header_values ''Idempotency-Key'' req) = 1
              then hd (header_values ''Idempotency-Key'' req) else []), gr_Body = body\<rparr> s = (Ok c, s')
       \<and> req' = req\<lparr>gh_Header := map_delete ''X-Lotor-Assertion'' (gh_Header req),
           gh_Body := Some (body, False), gh_Claims := Some c\<rparr>"
  by (auto simp: gateway_handler_def Let_def
      split: if_splits list.splits option.splits prod.splits outcome.splits gateway_error.splits)

lemma middleware_handler:
  assumes "GatewayAssertionMiddleware env options next_nil = Ok handler" and "handler now req s = (res, s')"
  obtains v origin where "gm_Verifier options = Some v" "gm_AuthenticateOrigin options = Some origin"
    "0 \<le> sint (gm_MaxBodyBytes options)" "sint (gm_MaxBodyBytes options) \<le> 1073741824"
    "int (unat (gm_MaxBodyBytes options)) = sint (gm_MaxBodyBytes options)"
    "gateway_handler env v origin (gm_MaxBodyBytes options) now req s = (res, s')"
proof -
  obtain v origin where opts: "gm_Verifier options = Some v" "gm_AuthenticateOrigin options = Some origin"
      "0 \<le> sint (gm_MaxBodyBytes options)" "sint (gm_MaxBodyBytes options) \<le> 1073741824"
      "gateway_handler env v origin (gm_MaxBodyBytes options) now req s = (res, s')"
    using assms by (auto simp: GatewayAssertionMiddleware_def word_sless_alt split: option.splits if_splits)
  moreover from opts(3,4) have "int (unat (gm_MaxBodyBytes options)) = sint (gm_MaxBodyBytes options)"
    by (simp add: uint_sint take_bit_int_eq_self)
  ultimately show thesis
    using that by blast
qed

lemma only_one: "length xs \<le> 1 \<Longrightarrow> xs = [] \<and> (if length xs = 1 then hd xs else []) = [] \<or> xs = [if length xs = 1 then hd xs else []]"
  by (cases xs) simp_all

text \<open>
  \<^bold>\<open>C30\<close> The middleware forwards a request only behind both boundaries: the origin check accepts it, it
  carries exactly one assertion, the body has at most the configured size, and the verifier accepts that
  assertion for the method, path, query, idempotency key and the complete body of this request. The
  application sees the same request with the same body bytes and the verified claims, and no assertion
  header; every other request is answered with 401, 413 or 503 and an uncacheable body.
\<close>

theorem middleware_gate:
  assumes "GatewayAssertionMiddleware env options next_nil = Ok handler"
    and "handler now req s = (res, s')"
  shows "case res of
      Answer resp \<Rightarrow> (rp_Status resp = 401 \<or> rp_Status resp = 413 \<or> rp_Status resp = 503)
        \<and> (''Cache-Control'', ''no-store'') \<in> set (rp_Header resp)
    | Forward req' \<Rightarrow>
        (\<exists>v origin assertion body key c.
           gm_Verifier options = Some v \<and> gm_AuthenticateOrigin options = Some origin \<and> origin req
           \<and> header_values ''X-Lotor-Assertion'' req = [assertion]
           \<and> (header_values ''Idempotency-Key'' req = [] \<and> key = [] \<or> header_values ''Idempotency-Key'' req = [key])
           \<and> (gh_Body req = Some (body, False) \<or> gh_Body req = None \<and> body = [])
           \<and> int (length body) \<le> sint (gm_MaxBodyBytes options)
           \<and> Verify env v now assertion
               \<lparr>gr_Method = gh_Method req, gr_Path = gh_Path req, gr_RawQuery = gh_RawQuery req,
                gr_IdempotencyKey = key, gr_Body = body\<rparr> s = (Ok c, s')
           \<and> GatewayAssertionFromContext req' = Some c \<and> gh_Body req' = Some (body, False)
           \<and> header_values ''X-Lotor-Assertion'' req' = []
           \<and> gh_Method req' = gh_Method req \<and> gh_Path req' = gh_Path req)"
proof -
  obtain v origin where opts: "gm_Verifier options = Some v" "gm_AuthenticateOrigin options = Some origin"
      and m: "0 \<le> sint (gm_MaxBodyBytes options)" "sint (gm_MaxBodyBytes options) \<le> 1073741824"
      and size: "int (unat (gm_MaxBodyBytes options)) = sint (gm_MaxBodyBytes options)"
      and run: "gateway_handler env v origin (gm_MaxBodyBytes options) now req s = (res, s')"
    by (rule middleware_handler [OF assms])
  show ?thesis
  proof (cases res)
    case (Answer resp)
    then show ?thesis
      using handler_Answer run by (force simp: gatewayAssertionHTTPError_def)
  next
    case (Forward req')
    then obtain assertion body c where f: "origin req" "header_values ''X-Lotor-Assertion'' req = [assertion]"
        "length (header_values ''Idempotency-Key'' req) \<le> 1" "length body \<le> unat (gm_MaxBodyBytes options)"
        "read_limited (Suc (unat (gm_MaxBodyBytes options))) (gh_Body req) = Some body"
        "Verify env v now assertion
           \<lparr>gr_Method = gh_Method req, gr_Path = gh_Path req, gr_RawQuery = gh_RawQuery req,
            gr_IdempotencyKey = (if length (header_values ''Idempotency-Key'' req) = 1
              then hd (header_values ''Idempotency-Key'' req) else []), gr_Body = body\<rparr> s = (Ok c, s')"
        "req' = req\<lparr>gh_Header := map_delete ''X-Lotor-Assertion'' (gh_Header req),
           gh_Body := Some (body, False), gh_Claims := Some c\<rparr>"
      using handler_Forward run unat_limit [OF m] by fastforce
    have body: "gh_Body req = Some (body, False) \<or> gh_Body req = None \<and> body = []"
      using read_limited_Some [OF f(5,4)] by auto
    have stripped: "header_values ''X-Lotor-Assertion'' req' = []"
      by (simp add: f(7) header_values_def)
    define key where "key = (if length (header_values ''Idempotency-Key'' req) = 1
              then hd (header_values ''Idempotency-Key'' req) else [])"
    note only_one [OF f(3), folded key_def]
    moreover have "int (length body) \<le> sint (gm_MaxBodyBytes options)"
      using f(4) size by linarith
    moreover have "GatewayAssertionFromContext req' = Some c" "gh_Body req' = Some (body, False)"
        "gh_Method req' = gh_Method req" "gh_Path req' = gh_Path req"
      by (simp_all add: f(7) GatewayAssertionFromContext_def)
    ultimately show ?thesis
      unfolding Forward forward.case
      using opts f(1,2) f(6) [folded key_def] body stripped by blast
  qed
qed

definition gw_http :: gateway_http where
  "gw_http = \<lparr>gh_Method = ''POST'', gh_Path = ''/orders'', gh_RawQuery = [],
     gh_Header = [(''X-Lotor-Assertion'', [sample_assertion])], gh_Body = Some ([1, 2, 3], False),
     gh_VerifiedChains = Some 1, gh_Claims = None\<rparr>"

definition sample_middleware :: "(string \<times> go_time) list GatewayAssertionMiddlewareOptions" where
  "sample_middleware = \<lparr>gm_Verifier = Some (sample_verifier 0),
     gm_AuthenticateOrigin = Some (\<lambda>r. VerifiedClientCertificateOrigin (Some r)), gm_MaxBodyBytes = 3\<rparr>"

lemma sample_middleware_run:
  "GatewayAssertionMiddleware sample_genv sample_middleware False =
     Ok (gateway_handler sample_genv (sample_verifier 0) (\<lambda>r. VerifiedClientCertificateOrigin (Some r)) 3)"
  "gateway_handler sample_genv (sample_verifier 0) (\<lambda>r. VerifiedClientCertificateOrigin (Some r)) 3 (sample_instant 1010) gw_http []
     = (Forward (gw_http\<lparr>gh_Header := [], gh_Claims := Some sample_claims\<rparr>), [(''req1'', time_Unix 1020)])"
proof -
  show "GatewayAssertionMiddleware sample_genv sample_middleware False =
     Ok (gateway_handler sample_genv (sample_verifier 0) (\<lambda>r. VerifiedClientCertificateOrigin (Some r)) 3)"
    by (simp add: GatewayAssertionMiddleware_def sample_middleware_def word_sless_alt)
  show "gateway_handler sample_genv (sample_verifier 0) (\<lambda>r. VerifiedClientCertificateOrigin (Some r)) 3 (sample_instant 1010) gw_http []
     = (Forward (gw_http\<lparr>gh_Header := [], gh_Claims := Some sample_claims\<rparr>), [(''req1'', time_Unix 1020)])"
    using sample_accepted
    by (simp add: gateway_handler_def gw_http_def VerifiedClientCertificateOrigin_def header_values_def map_get_def
        read_limited_def gw_request_def)
qed

theorem middleware_gate_witness:
  "\<exists>req'. gateway_handler sample_genv (sample_verifier 0) (\<lambda>r. VerifiedClientCertificateOrigin (Some r)) 3 (sample_instant 1010) gw_http []
     = (Forward req', [(''req1'', time_Unix 1020)]) \<and> header_values ''X-Lotor-Assertion'' req' = []"
  using middleware_gate [OF sample_middleware_run] sample_middleware_run(2) by auto

end
