(* ===== verification/Control_Url.thy ===== *)
theory Control_Url
  imports Go_Net
begin

text \<open>
  The URL checks of \<^verbatim>\<open>lotorhttp/control.go\<close> that the gateway and the Control clients share, and the
  encoding of query parameters. The address parser is the argument \<open>ip_loopback\<close>, which tells whether a
  host is the text of a loopback address.
\<close>

definition loopback :: "net_env \<Rightarrow> (string \<Rightarrow> bool) \<Rightarrow> string \<Rightarrow> bool" where
  "loopback net ip_loopback host \<longleftrightarrow> strings_EqualFold net host ''localhost'' \<or> ip_loopback host"

definition validatedControlURL :: "net_env \<Rightarrow> (string \<Rightarrow> bool) \<Rightarrow> string \<Rightarrow> (string, string) outcome" where
  "validatedControlURL net ip_loopback raw =
     (let rawURL = trim_right (CHR ''/'') (trim_space raw) in
      case url_ParseRequestURI net rawURL of
        None \<Rightarrow> Fail ''invalid Control URL''
      | Some u \<Rightarrow>
          if u_Host u = [] \<or> u_User u \<or> u_RawQuery u \<noteq> [] \<or> u_Fragment u \<noteq> []
             \<or> u_Scheme u \<noteq> ''http'' \<and> u_Scheme u \<noteq> ''https''
          then Fail ''invalid Control URL''
          else if u_Scheme u = ''http'' \<and> \<not> loopback net ip_loopback (u_Hostname u)
          then Fail ''Control URL must use HTTPS outside local development''
          else Ok rawURL)"

lemma validatedControlURL_not_panic [simp]: "validatedControlURL net ip_loopback raw \<noteq> Panic"
  by (simp add: validatedControlURL_def Let_def split: option.split)

section \<open>Query parameters\<close>

text \<open>\<open>url.QueryEscape\<close>: letters, digits and \<open>-_.~\<close> stay, a space becomes a plus, all else is percent-encoded.\<close>

definition unreserved_char :: "char \<Rightarrow> bool" where
  "unreserved_char c \<longleftrightarrow> (CHR ''a'' \<le> c \<and> c \<le> CHR ''z'') \<or> (CHR ''A'' \<le> c \<and> c \<le> CHR ''Z'')
     \<or> (CHR ''0'' \<le> c \<and> c \<le> CHR ''9'') \<or> c \<in> set ''-_.~''"

fun query_escape :: "string \<Rightarrow> string" where
  "query_escape [] = []"
| "query_escape (c # s) =
     (if unreserved_char c then [c]
      else if c = CHR '' '' then ''+''
      else [CHR 0x25, upper_hex (of_char c div 16), upper_hex (of_char c mod 16)]) @ query_escape s"

text \<open>
  \<open>url.Values\<close> as a map from names to the values in order, sorted by name, and its \<open>Encode\<close>.
\<close>

type_synonym url_values = "(string \<times> string list) list"

fun query_pairs :: "url_values \<Rightarrow> string list" where
  "query_pairs [] = []"
| "query_pairs ((k, vs) # q) = map (\<lambda>v. query_escape k @ ''='' @ query_escape v) vs @ query_pairs q"

fun join_with :: "string \<Rightarrow> string list \<Rightarrow> string" where
  "join_with sep [] = []"
| "join_with sep [s] = s"
| "join_with sep (s # t # ss) = s @ sep @ join_with sep (t # ss)"

definition values_encode :: "url_values \<Rightarrow> string" where
  "values_encode q = join_with ''&'' (query_pairs q)"

definition values_set :: "url_values \<Rightarrow> string \<Rightarrow> string \<Rightarrow> url_values" where
  "values_set q k v = map_put k [v] q"

definition values_add :: "url_values \<Rightarrow> string \<Rightarrow> string \<Rightarrow> url_values" where
  "values_add q k v = map_put k ((case map_get q k of Some vs \<Rightarrow> vs | None \<Rightarrow> []) @ [v]) q"

definition encoded_query :: "url_values \<Rightarrow> string" where
  "encoded_query q = (if q = [] then [] else CHR ''?'' # values_encode q)"

text \<open>Escaping is undone by the parser of queries: parameters cannot be mixed up.\<close>

fun query_unescape :: "string \<Rightarrow> string option" where
  "query_unescape [] = Some []"
| "query_unescape (c # s) =
     (if c = CHR 0x25 then
        (case s of
           a # b # s' \<Rightarrow>
             (case (hex_value a, hex_value b) of
                (Some x, Some y) \<Rightarrow> map_option ((#) (char_of (16 * x + y))) (query_unescape s')
              | _ \<Rightarrow> None)
         | _ \<Rightarrow> None)
      else map_option ((#) (if c = CHR ''+'' then CHR '' '' else c)) (query_unescape s))"

lemma unreserved_not_special: "\<not> unreserved_char (CHR 0x25)" "\<not> unreserved_char (CHR ''+'')"
  "\<not> unreserved_char (CHR ''&'')" "\<not> unreserved_char (CHR ''='')" "\<not> unreserved_char (CHR ''#'')"
  "\<not> unreserved_char (CHR ''?'')" "\<not> unreserved_char (CHR ''/'')"
  by code_simp+

lemma upper_hex_unreserved: "n < 16 \<Longrightarrow> unreserved_char (upper_hex n)"
proof -
  have "list_all unreserved_char ''0123456789ABCDEF''"
    by code_simp
  then show "n < 16 \<Longrightarrow> unreserved_char (upper_hex n)"
    by (simp add: list_all_length upper_hex_def)
qed

lemma query_unescape_escape [simp]: "query_unescape (query_escape s) = Some s"
proof (induction s)
  case (Cons c s)
  have "hex_value (upper_hex (of_char c div 16)) = Some (of_char c div 16)"
    using upper_hex_facts [of "of_char c div 16"] of_char_less_256 [of c] by (simp add: less_mult_imp_div_less)
  moreover have "hex_value (upper_hex (of_char c mod 16)) = Some (of_char c mod 16)"
    using upper_hex_facts [of "of_char c mod 16"] by simp
  moreover have "char_of (16 * (of_char c div 16) + of_char c mod (16 :: nat)) = c"
    by (simp only: mult_div_mod_eq char_of_char)
  moreover have "unreserved_char c \<Longrightarrow> c \<noteq> CHR 0x25 \<and> c \<noteq> CHR ''+''"
    using unreserved_not_special by metis
  ultimately show ?case
    using Cons by (cases "unreserved_char c"; cases "c = CHR '' ''") simp_all
qed simp

lemma query_escape_inject [simp]: "query_escape s = query_escape t \<longleftrightarrow> s = t"
  by (metis option.inject query_unescape_escape)

lemma query_escape_chars: "list_all (\<lambda>c. unreserved_char c \<or> c = CHR 0x25 \<or> c = CHR ''+'') (query_escape s)"
  by (induction s) (auto simp: upper_hex_unreserved less_mult_imp_div_less of_char_less_256)

lemma query_escape_plain: "c \<in> set ''&=?#/'' \<Longrightarrow> c \<notin> set (query_escape s)"
proof -
  have "list_all (\<lambda>c. \<not> (unreserved_char c \<or> c = CHR 0x25 \<or> c = CHR ''+'')) ''&=?#/''"
    by code_simp
  then show "c \<in> set ''&=?#/'' \<Longrightarrow> c \<notin> set (query_escape s)"
    using query_escape_chars [of s] unfolding list_all_iff by blast
qed

end
