(* ===== verification/Browser_Commands.thy ===== *)
theory Browser_Commands
  imports Ownership Lwp_Ops Control_Url
begin

text \<open>
  The browser command gateway of package \<open>lotorhttp\<close>: \<^verbatim>\<open>lotorhttp/handler.go\<close> (the HTTP handler),
  \<^verbatim>\<open>lotorhttp/control.go\<close> (verification of a session with Control) and \<^verbatim>\<open>lotorhttp/runtime.go\<close> (execution
  on the owning runtime, through the ownership resolver and the LWP operations). The session store, the
  network and the parsers of mail addresses, media types, URLs and JSON are parameters.
\<close>

section \<open>Data\<close>

record Identity =
  id_Subject :: string
  id_Email :: string
  id_TenantID :: string
  id_ApplicationID :: string
  id_EnvironmentID :: string

record lifecycleResult =
  lc_Reason :: string
  lc_InvitationID :: string
  lc_Active :: i64
  lc_Reserved :: i64
  lc_Used :: i64
  lc_Maximum :: i64
  lc_Remaining :: i64
  lc_Succeeded :: bool

datatype command_error =
    errIdempotencyConflict | errScopeMismatch | errIdentityRejected | CommandError string | RuntimeError lwp_err

record controlSession =
  cn_Subject :: string
  cn_Email :: string
  cn_Account :: bytes

record controlScope =
  cp_TenantID :: string
  cp_ApplicationID :: string
  cp_EnvironmentID :: string

record accept_input =
  ai_Organization :: string
  ai_Ticket :: string
  ai_IdempotencyKey :: string

record cancel_input =
  ci_Organization :: string
  ci_InvitationID :: string
  ci_IdempotencyKey :: string

text \<open>A request: \<open>Header.Get\<close> of a missing header is the empty string; the body is the bytes read and
  whether reading them failed.\<close>

record browser_request =
  br_Method :: string
  br_Path :: string
  br_Host :: string
  br_Header :: "string \<Rightarrow> string"
  br_Cookie :: "string \<Rightarrow> string option"
  br_Body :: "bytes \<times> bool"

datatype browser_body = ErrorBody string | LifecycleBody lifecycleResult

record browser_response =
  bs_Status :: nat
  bs_Header :: "(string \<times> string) list"
  bs_Body :: browser_body

text \<open>The opaque session store over a state \<open>'s\<close>.\<close>

record 's SessionStore =
  ss_Bearer :: "'s \<Rightarrow> string \<Rightarrow> string option"
  ss_Delete :: "'s \<Rightarrow> string \<Rightarrow> 's"

record browser_env =
  be_own :: own_env
  be_ParseMediaType :: "string \<Rightarrow> string option"
  be_ParseAddress :: "string \<Rightarrow> string option"
  be_Session :: "controlSession json_codec"
  be_Scope :: "controlScope json_codec"
  be_Accept :: "accept_input json_codec"
  be_Cancel :: "cancel_input json_codec"

abbreviation to_lower :: "browser_env \<Rightarrow> string \<Rightarrow> string" where
  "to_lower env \<equiv> strings_ToLower (oe_net (be_own env))"

section \<open>Checks\<close>

definition maxRequestBody :: nat where "maxRequestBody = 16384"

definition bounded :: "string \<Rightarrow> nat \<Rightarrow> bool" where
  "bounded s maximum \<longleftrightarrow> trim_space s \<noteq> [] \<and> length (trim_space s) \<le> maximum"

definition suffix_rune :: "nat \<Rightarrow> bool" where
  "suffix_rune c \<longleftrightarrow> in_range 97 122 c \<or> in_range 65 90 c \<or> in_range 48 57 c \<or> c = 45 \<or> c = 95 \<or> c = 46"

definition organizationSuffix :: "string \<Rightarrow> bool" where
  "organizationSuffix s \<longleftrightarrow> \<not> (s = [] \<or> length s > 240) \<and> list_all suffix_rune (runes s)"

text \<open>The runes of a string with the byte offset of each, as \<open>range\<close> gives them.\<close>

fun rune_offsets :: "nat \<Rightarrow> (nat \<times> nat list) list \<Rightarrow> (nat \<times> nat) list" where
  "rune_offsets k [] = []"
| "rune_offsets k ((r, bs) # segs) = (k, r) # rune_offsets (k + length bs) segs"

definition uuid_rune :: "nat \<times> nat \<Rightarrow> bool" where
  "uuid_rune ic = (case ic of (index, c) \<Rightarrow>
     if index \<in> set [8, 13, 18, 23] then c = 45
     else in_range 97 102 c \<or> in_range 65 70 c \<or> in_range 48 57 c)"

definition organizationUUID :: "string \<Rightarrow> bool" where
  "organizationUUID s \<longleftrightarrow> length s = 36 \<and> list_all uuid_rune (rune_offsets 0 (rune_segments (map of_char s)))"

definition organization :: "string \<Rightarrow> bool" where
  "organization v =
     (let s = trim_space v in
      if \<not> bounded s 256 then False
      else if has_prefix s ''personal-'' then organizationSuffix (drop 9 s)
      else if has_prefix s ''workspace-'' then organizationSuffix (drop 10 s)
      else if has_prefix s ''org_'' then organizationSuffix (drop 4 s)
      else organizationUUID s)"

definition browserMutation :: "browser_env \<Rightarrow> browser_request \<Rightarrow> bool" where
  "browserMutation env r =
     (if br_Header r ''X-Lotor-Request'' \<noteq> ''browser-sdk-v1'' then False
      else
        let site = to_lower env (trim_space (br_Header r ''Sec-Fetch-Site'')) in
        if site \<noteq> [] \<and> site \<noteq> ''same-origin'' then False
        else
          let rawOrigin = trim_space (br_Header r ''Origin'') in
          if rawOrigin \<noteq> [] \<and>
             (case url_Parse (oe_net (be_own env)) rawOrigin of
                None \<Rightarrow> True
              | Some origin \<Rightarrow> u_User origin \<or> \<not> strings_EqualFold (oe_net (be_own env)) (u_Host origin) (br_Host r))
          then False
          else be_ParseMediaType env (br_Header r ''Content-Type'') = Some ''application/json'')"

section \<open>Responses\<close>

definition writeJSON :: "nat \<Rightarrow> browser_body \<Rightarrow> browser_response" where
  "writeJSON status body =
     \<lparr>bs_Status = status,
      bs_Header = [(''Content-Type'', ''application/json''), (''Cache-Control'', ''no-store'')], bs_Body = body\<rparr>"

definition browser_writeError :: "nat \<Rightarrow> string \<Rightarrow> browser_response" where
  "browser_writeError status code = writeJSON status (ErrorBody code)"

text \<open>A body over the limit makes the second \<open>Decode\<close> fail with an error other than \<open>io.EOF\<close>.\<close>

definition decodeJSON :: "'a json_codec \<Rightarrow> browser_request \<Rightarrow> 'a option" where
  "decodeJSON js r =
     (if snd (br_Body r) \<or> length (fst (br_Body r)) > maxRequestBody then None
      else js_decode_all js (fst (br_Body r)))"

section \<open>Identity\<close>

definition control_identity :: "browser_env \<Rightarrow> controlSession \<Rightarrow> controlScope \<Rightarrow> (command_error, Identity) outcome" where
  "control_identity env session scope =
     (let email = to_lower env (trim_space (cn_Email session));
          identity = \<lparr>id_Subject = trim_space (cn_Subject session), id_Email = email,
            id_TenantID = trim_space (cp_TenantID scope), id_ApplicationID = trim_space (cp_ApplicationID scope),
            id_EnvironmentID = trim_space (cp_EnvironmentID scope)\<rparr> in
      if \<not> bounded (id_Subject identity) 256 \<or> be_ParseAddress env email \<noteq> Some email
         \<or> id_TenantID identity = [] \<or> id_ApplicationID identity = [] \<or> id_EnvironmentID identity = []
      then Fail (CommandError ''invalid application session'') else Ok identity)"

definition verify_session ::
  "browser_env \<Rightarrow> http_get \<Rightarrow> string \<Rightarrow> string \<Rightarrow> (command_error, Identity) outcome" where
  "verify_session env net baseURL bearer =
     (case net (baseURL @ ''/v1/me'') [(''Accept'', ''application/json''), (''Authorization'', ''Bearer '' @ bearer)] of
        None \<Rightarrow> Fail (CommandError ''verify application session'')
      | Some (status, raw, fails) \<Rightarrow>
          if status \<noteq> 200 then
            if status = 401 \<or> status = 403 then Fail errIdentityRejected
            else Fail (CommandError ''application session verification unavailable'')
          else if fails \<or> length raw > 65536 then Fail (CommandError ''invalid application session'')
          else (case js_unmarshal (be_Session env) raw of
            None \<Rightarrow> Fail (CommandError ''invalid application session'')
          | Some session \<Rightarrow>
              (case js_unmarshal (be_Scope env) (cn_Account session) of
                 None \<Rightarrow> Fail (CommandError ''invalid application session scope'')
               | Some scope \<Rightarrow> control_identity env session scope)))"

section \<open>Execution on the owning runtime\<close>

definition deriveKey :: "string \<Rightarrow> string \<Rightarrow> string \<Rightarrow> string" where
  "deriveKey command subject callerKey =
     ''lotor-browser-v1:'' @ hex_encode (sha256 (bytes_of_string
       (''lotor-browser:'' @ command @ [CHR 0x00] @ subject @ [CHR 0x00] @ trim_space callerKey)))"

definition emailAddress :: "browser_env \<Rightarrow> string \<Rightarrow> string" where
  "emailAddress env email = ''email:'' @ b64_encode (bytes_of_string (to_lower env (trim_space email)))"

definition ErrorCodeIdempotencyConflict :: u16 where "ErrorCodeIdempotencyConflict = 0x0013"

definition publicLifecycle :: "(lwp_err, LifecycleResult) outcome \<Rightarrow> (command_error, lifecycleResult) outcome" where
  "publicLifecycle r =
     (case r of
        Fail e \<Rightarrow> if IsLWPError e ErrorCodeIdempotencyConflict then Fail errIdempotencyConflict else Fail (RuntimeError e)
      | Panic \<Rightarrow> Panic
      | Ok v \<Rightarrow> Ok \<lparr>lc_Reason = lr_Reason v, lc_InvitationID = lr_InvitationID v, lc_Active = lr_Active v,
                     lc_Reserved = lr_Reserved v, lc_Used = lr_Used v, lc_Maximum = lr_Maximum v,
                     lc_Remaining = lr_Remaining v, lc_Succeeded = lr_Accepted v\<rparr>)"

definition verifyScope ::
  "browser_env \<Rightarrow> http_get \<Rightarrow> i64 \<Rightarrow> Identity \<Rightarrow> OwnershipResolver \<Rightarrow> (command_error, unit) outcome \<times> OwnershipResolver" where
  "verifyScope env net now identity r =
     (case Resolve (be_own env) net now r of
        (Fail e, r') \<Rightarrow> (Fail (RuntimeError e), r')
      | (Panic, r') \<Rightarrow> (Panic, r')
      | (Ok owner, r') \<Rightarrow>
          if ow_TenantID owner \<noteq> id_TenantID identity \<or> ow_ApplicationID owner \<noteq> id_ApplicationID identity
             \<or> ow_EnvironmentID owner \<noteq> id_EnvironmentID identity
          then (Fail errScopeMismatch, r') else (Ok (), r'))"

text \<open>
  One command on the owning runtime: the scope check, then the operation under \<open>WithOwnerRetry\<close>. The
  clock is read for the check, for the first connection and for a moved owner; the list is the
  connections the operation ran on.
\<close>

definition run_owned ::
  "browser_env \<Rightarrow> 'c owner_io \<Rightarrow> i64 \<times> i64 \<times> i64 \<Rightarrow> bool \<Rightarrow> Identity \<Rightarrow> ('c \<Rightarrow> (lwp_err, LifecycleResult) outcome) \<Rightarrow>
   OwnershipResolver \<Rightarrow> (command_error, lifecycleResult) outcome \<times> 'c list \<times> OwnershipResolver" where
  "run_owned env io nows has_tls identity operation r =
     (case verifyScope env (io_net io) (fst nows) identity r of
        (Fail e, r1) \<Rightarrow> (Fail e, [], r1)
      | (Panic, r1) \<Rightarrow> (Panic, [], r1)
      | (Ok _, r1) \<Rightarrow>
          (case WithOwnerRetry (be_own env) io (snd nows) has_tls operation r1 of
             (res, calls, r2) \<Rightarrow> (publicLifecycle res, calls, r2)))"

definition runtime_Accept ::
  "browser_env \<Rightarrow> 'c owner_io \<Rightarrow> ('c \<Rightarrow> lwp_do) \<Rightarrow> i64 \<times> i64 \<times> i64 \<Rightarrow> bool \<Rightarrow> Identity \<Rightarrow> string \<Rightarrow> string \<Rightarrow>
   OwnershipResolver \<Rightarrow> (command_error, lifecycleResult) outcome \<times> 'c list \<times> OwnershipResolver" where
  "runtime_Accept env io exch nows has_tls identity ticket key r =
     run_owned env io nows has_tls identity
       (\<lambda>c. InvitationAccept (exch c) ticket (emailAddress env (id_Email identity)) (id_Subject identity) key) r"

definition runtime_Cancel ::
  "browser_env \<Rightarrow> 'c owner_io \<Rightarrow> ('c \<Rightarrow> lwp_do) \<Rightarrow> i64 \<times> i64 \<times> i64 \<Rightarrow> bool \<Rightarrow> Identity \<Rightarrow> string \<Rightarrow> string \<Rightarrow> string \<Rightarrow>
   OwnershipResolver \<Rightarrow> (command_error, lifecycleResult) outcome \<times> 'c list \<times> OwnershipResolver" where
  "runtime_Cancel env io exch nows has_tls identity org invitationID key r =
     run_owned env io nows has_tls identity
       (\<lambda>c. InvitationCancel (exch c) org (id_Subject identity) invitationID key) r"

section \<open>The handler\<close>

record 's command_handler =
  ch_sessions :: "'s SessionStore"
  ch_baseURL :: string
  ch_cookieName :: string

record browser_Options =
  bo_HasSessions :: bool
  bo_ControlURL :: string
  bo_APIKey :: string
  bo_CookieName :: string

text \<open>
  The verifier of identities is its base URL; the owning runtime is a resolver. The TLS configuration is the argument
  \<open>has_tls\<close> of the operations.
\<close>

definition newControlIdentityVerifier :: "browser_env \<Rightarrow> string \<Rightarrow> (command_error, string) outcome" where
  "newControlIdentityVerifier env rawURL =
     (case validatedControlURL (oe_net (be_own env)) (oe_ParseIPLoopback (be_own env)) rawURL of
        Fail e \<Rightarrow> Fail (CommandError e)
      | Panic \<Rightarrow> Panic
      | Ok baseURL \<Rightarrow> Ok baseURL)"

definition newOwnedRuntime :: "browser_env \<Rightarrow> string \<Rightarrow> string \<Rightarrow> (command_error, OwnershipResolver) outcome" where
  "newOwnedRuntime env controlURL apiKey =
     (case NewOwnershipResolver (be_own env) \<lparr>do_ControlURL = controlURL, do_APIKey = apiKey\<rparr> of
        Fail e \<Rightarrow> Fail (RuntimeError e)
      | Panic \<Rightarrow> Panic
      | Ok resolver \<Rightarrow> Ok resolver)"

definition lotorhttp_New ::
  "browser_env \<Rightarrow> 's SessionStore \<Rightarrow> browser_Options \<Rightarrow> (command_error, 's command_handler \<times> OwnershipResolver) outcome" where
  "lotorhttp_New env sessions options =
     (if trim_space (bo_CookieName options) = [] \<or> \<not> bo_HasSessions options
      then Fail (CommandError ''cookie name and session store are required'')
      else case newControlIdentityVerifier env (bo_ControlURL options) of
        Fail e \<Rightarrow> Fail e
      | Panic \<Rightarrow> Panic
      | Ok baseURL \<Rightarrow>
          (case newOwnedRuntime env (bo_ControlURL options) (bo_APIKey options) of
             Fail e \<Rightarrow> Fail e
           | Panic \<Rightarrow> Panic
           | Ok resolver \<Rightarrow>
               Ok (\<lparr>ch_sessions = sessions, ch_baseURL = baseURL, ch_cookieName = bo_CookieName options\<rparr>, resolver)))"

definition session_id :: "string \<Rightarrow> browser_request \<Rightarrow> string" where
  "session_id cookieName r =
     (let authorization = trim_space (br_Header r ''Authorization'') in
      if has_prefix authorization ''Bearer '' then trim_space (drop 7 authorization)
      else case br_Cookie r cookieName of Some v \<Rightarrow> v | None \<Rightarrow> [])"

text \<open>An answer, or the identity and session; the store may have lost the session. A panic aborts the
  connection without an answer, which is \<open>None\<close>.\<close>

definition authenticate ::
  "browser_env \<Rightarrow> http_get \<Rightarrow> 's command_handler \<Rightarrow> browser_request \<Rightarrow> 's \<Rightarrow>
   (browser_response option + Identity \<times> string) \<times> 's" where
  "authenticate env net h r s =
     (let sessionID = session_id (ch_cookieName h) r in
      if \<not> bounded sessionID 512 then (Inl (Some (browser_writeError 401 ''unauthenticated'')), s)
      else case ss_Bearer (ch_sessions h) s sessionID of
        None \<Rightarrow> (Inl (Some (browser_writeError 401 ''unauthenticated'')), s)
      | Some token \<Rightarrow>
          if trim_space token = [] then (Inl (Some (browser_writeError 401 ''unauthenticated'')), s)
          else (case verify_session env net (ch_baseURL h) token of
                  Ok identity \<Rightarrow> (Inr (identity, sessionID), s)
                | Fail e \<Rightarrow>
                    if e = errIdentityRejected
                    then (Inl (Some (browser_writeError 401 ''unauthenticated'')), ss_Delete (ch_sessions h) s sessionID)
                    else (Inl (Some (browser_writeError 503 ''identity_unavailable'')), s)
                | Panic \<Rightarrow> (Inl None, s)))"

definition respondLifecycle ::
  "'s command_handler \<Rightarrow> string \<Rightarrow> (command_error, lifecycleResult) outcome \<Rightarrow> 's \<Rightarrow> browser_response option \<times> 's" where
  "respondLifecycle h sessionID res s =
     (case res of
        Ok result \<Rightarrow> (Some (writeJSON 200 (LifecycleBody result)), s)
      | Panic \<Rightarrow> (None, s)
      | Fail errIdempotencyConflict \<Rightarrow> (Some (browser_writeError 409 ''idempotency_conflict''), s)
      | Fail errScopeMismatch \<Rightarrow> (Some (browser_writeError 401 ''unauthenticated''), ss_Delete (ch_sessions h) s sessionID)
      | _ \<Rightarrow> (Some (browser_writeError 503 ''runtime_unavailable''), s))"

text \<open>
  A command: the decoded and checked input decides the call on the runtime, or the request is refused
  before anything is looked up. The result lists the connections the command ran on.
\<close>

type_synonym ('c, 's) command_world = "browser_response option \<times> 'c list \<times> 's \<times> OwnershipResolver"

definition handler_accept ::
  "browser_env \<Rightarrow> 'c owner_io \<Rightarrow> ('c \<Rightarrow> lwp_do) \<Rightarrow> i64 \<times> i64 \<times> i64 \<Rightarrow> bool \<Rightarrow> 's command_handler \<Rightarrow> browser_request \<Rightarrow> 's \<Rightarrow>
   OwnershipResolver \<Rightarrow> ('c, 's) command_world" where
  "handler_accept env io exch nows has_tls h r s rv =
     (case decodeJSON (be_Accept env) r of
        None \<Rightarrow> (Some (browser_writeError 400 ''invalid_request''), [], s, rv)
      | Some input \<Rightarrow>
          if ai_Organization input \<noteq> [] \<and> \<not> organization (ai_Organization input) \<or> \<not> bounded (ai_Ticket input) 512
             \<or> \<not> bounded (ai_IdempotencyKey input) 256
          then (Some (browser_writeError 400 ''invalid_request''), [], s, rv)
          else (case authenticate env (io_net io) h r s of
            (Inl resp, s') \<Rightarrow> (resp, [], s', rv)
          | (Inr (identity, sessionID), s') \<Rightarrow>
              (case runtime_Accept env io exch nows has_tls identity (trim_space (ai_Ticket input))
                      (deriveKey ''accept-v1'' (id_Subject identity) (ai_IdempotencyKey input)) rv of
                 (res, calls, rv') \<Rightarrow>
                   (case respondLifecycle h sessionID res s' of (resp, s'') \<Rightarrow> (resp, calls, s'', rv')))))"

definition handler_cancel ::
  "browser_env \<Rightarrow> 'c owner_io \<Rightarrow> ('c \<Rightarrow> lwp_do) \<Rightarrow> i64 \<times> i64 \<times> i64 \<Rightarrow> bool \<Rightarrow> 's command_handler \<Rightarrow> browser_request \<Rightarrow> 's \<Rightarrow>
   OwnershipResolver \<Rightarrow> ('c, 's) command_world" where
  "handler_cancel env io exch nows has_tls h r s rv =
     (case decodeJSON (be_Cancel env) r of
        None \<Rightarrow> (Some (browser_writeError 400 ''invalid_request''), [], s, rv)
      | Some input \<Rightarrow>
          if \<not> organization (ci_Organization input) \<or> \<not> bounded (ci_InvitationID input) 256
             \<or> \<not> bounded (ci_IdempotencyKey input) 256
          then (Some (browser_writeError 400 ''invalid_request''), [], s, rv)
          else (case authenticate env (io_net io) h r s of
            (Inl resp, s') \<Rightarrow> (resp, [], s', rv)
          | (Inr (identity, sessionID), s') \<Rightarrow>
              (case runtime_Cancel env io exch nows has_tls identity (trim_space (ci_Organization input))
                      (trim_space (ci_InvitationID input))
                      (deriveKey ''cancel-v1'' (id_Subject identity) (ci_IdempotencyKey input)) rv of
                 (res, calls, rv') \<Rightarrow>
                   (case respondLifecycle h sessionID res s' of (resp, s'') \<Rightarrow> (resp, calls, s'', rv')))))"

definition command_ServeHTTP ::
  "browser_env \<Rightarrow> 'c owner_io \<Rightarrow> ('c \<Rightarrow> lwp_do) \<Rightarrow> i64 \<times> i64 \<times> i64 \<Rightarrow> bool \<Rightarrow> 's command_handler \<Rightarrow> browser_request \<Rightarrow> 's \<Rightarrow>
   OwnershipResolver \<Rightarrow> ('c, 's) command_world" where
  "command_ServeHTTP env io exch nows has_tls h r s rv =
     (if br_Method r \<noteq> ''POST'' \<or> \<not> browserMutation env r then (Some (browser_writeError 403 ''request_rejected''), [], s, rv)
      else if br_Path r = ''/api/lotor/invitations/accept'' then handler_accept env io exch nows has_tls h r s rv
      else if br_Path r = ''/api/lotor/invitations/cancel'' then handler_cancel env io exch nows has_tls h r s rv
      else (Some (browser_writeError 404 ''not_found''), [], s, rv))"

section \<open>Facts\<close>

lemma WithOwnerRetry_calls:
  assumes "WithOwnerRetry env io nows has_tls operation r = (res, calls, r')" and "calls \<noteq> []"
  shows "\<exists>c first r1. DialOwned env io (fst nows) has_tls r = (Ok (c, first), r1)
    \<and> (calls = [c] \<or> (\<exists>c2 moved message r2. calls = [c, c2]
         \<and> acceptMoved env (io_net io) (snd nows) message first r1 = (Ok moved, r2)
         \<and> dialOwnership env io has_tls moved = Ok c2))"
  using assms unfolding WithOwnerRetry_def by (auto split: outcome.splits prod.splits option.splits)

lemma verifyScope_Ok:
  assumes "verifyScope env net now identity r = (Ok u, r')"
  shows "\<exists>owner. Resolve (be_own env) net now r = (Ok owner, r') \<and> or_cached r' = owner
    \<and> ow_TenantID owner = id_TenantID identity \<and> ow_ApplicationID owner = id_ApplicationID identity
    \<and> ow_EnvironmentID owner = id_EnvironmentID identity"
proof -
  obtain owner where o: "Resolve (be_own env) net now r = (Ok owner, r')"
      "ow_TenantID owner = id_TenantID identity" "ow_ApplicationID owner = id_ApplicationID identity"
      "ow_EnvironmentID owner = id_EnvironmentID identity"
    using assms unfolding verifyScope_def by (auto split: outcome.splits prod.splits if_splits)
  have "or_cached r' = owner"
    using Resolve_state [OF o(1)] by auto
  with o show ?thesis by blast
qed

definition in_scope :: "Identity \<Rightarrow> Ownership \<Rightarrow> bool" where
  "in_scope identity owner \<longleftrightarrow> ow_TenantID owner = id_TenantID identity \<and> ow_ApplicationID owner = id_ApplicationID identity
     \<and> ow_EnvironmentID owner = id_EnvironmentID identity"

lemma run_owned_in_scope:
  assumes "run_owned env io nows has_tls identity operation rv = (res, calls, rv')" and "calls \<noteq> []"
    and "resolver_inv (be_own env) rv"
    and "\<And>owner r1. Resolve (be_own env) (io_net io) (fst nows) rv = (Ok owner, r1) \<Longrightarrow>
      fst (snd nows) + 5000000 <s ow_ExpiresAt owner"
  shows "list_all (\<lambda>c. \<exists>owner. dialOwnership (be_own env) io has_tls owner = Ok c \<and> in_scope identity owner) calls"
proof -
  obtain r1 res1 where scope: "verifyScope env (io_net io) (fst nows) identity rv = (Ok (), r1)"
      and retry: "WithOwnerRetry (be_own env) io (snd nows) has_tls operation r1 = (res1, calls, rv')"
    using assms(1,2) unfolding run_owned_def by (auto split: outcome.splits prod.splits)
  obtain owner where o: "Resolve (be_own env) (io_net io) (fst nows) rv = (Ok owner, r1)" "or_cached r1 = owner"
      "in_scope identity owner"
    using verifyScope_Ok [OF scope] by (auto simp: in_scope_def)
  have inv: "resolver_inv (be_own env) r1" and "asserted (be_own env) owner"
    using Resolve_inv [OF assms(3) o(1)] by auto
  then have "Resolve (be_own env) (io_net io) (fst (snd nows)) r1 = (Ok owner, r1)"
    using assms(4) [OF o(1)] o(2) by (simp add: Resolve_def asserted_def)
  moreover obtain c first r2 where dial: "DialOwned (be_own env) io (fst (snd nows)) has_tls r1 = (Ok (c, first), r2)"
      and calls: "calls = [c] \<or> (\<exists>c2 moved message r3. calls = [c, c2]
         \<and> acceptMoved (be_own env) (io_net io) (snd (snd nows)) message first r2 = (Ok moved, r3)
         \<and> dialOwnership (be_own env) io has_tls moved = Ok c2)"
    using WithOwnerRetry_calls [OF retry assms(2)] by blast
  ultimately have first: "first = owner" "r2 = r1" "dialOwnership (be_own env) io has_tls owner = Ok c"
    by (auto simp: DialOwned_def split: outcome.splits)
  show ?thesis
  proof (cases "calls = [c]")
    case True
    then show ?thesis using first(3) o(3) by auto
  next
    case False
    then obtain c2 moved message r3 where m: "calls = [c, c2]"
        "acceptMoved (be_own env) (io_net io) (snd (snd nows)) message owner r1 = (Ok moved, r3)"
        "dialOwnership (be_own env) io has_tls moved = Ok c2"
      using calls first by auto
    have "sameOwnershipScope moved owner"
      using acceptMoved_inv(3) [OF inv m(2)] by simp
    then have "in_scope identity moved"
      using o(3) by (auto simp: sameOwnershipScope_def in_scope_def)
    then show ?thesis using m first(3) o(3) by auto
  qed
qed

text \<open>What reached the runtime was authenticated.\<close>

lemma authenticate_Inr:
  assumes "authenticate env net h r s = (Inr (identity, sessionID), s')"
  shows "s' = s \<and> sessionID = session_id (ch_cookieName h) r \<and> bounded sessionID 512
    \<and> (\<exists>token. ss_Bearer (ch_sessions h) s sessionID = Some token \<and> verify_session env net (ch_baseURL h) token = Ok identity)"
  using assms by (auto simp: authenticate_def Let_def split: if_splits option.splits outcome.splits)

lemma command_ran:
  assumes "command_ServeHTTP env io exch nows has_tls h r s rv = (resp, calls, s', rv')" and "calls \<noteq> []"
  shows "br_Method r = ''POST'' \<and> browserMutation env r \<and>
    (\<exists>identity sessionID operation res.
       authenticate env (io_net io) h r s = (Inr (identity, sessionID), s)
       \<and> run_owned env io nows has_tls identity operation rv = (res, calls, rv')
       \<and> ((\<exists>input. decodeJSON (be_Accept env) r = Some input \<and> operation = (\<lambda>c. InvitationAccept (exch c) (trim_space (ai_Ticket input))
              (emailAddress env (id_Email identity)) (id_Subject identity)
              (deriveKey ''accept-v1'' (id_Subject identity) (ai_IdempotencyKey input))))
         \<or> (\<exists>input. decodeJSON (be_Cancel env) r = Some input \<and> operation = (\<lambda>c. InvitationCancel (exch c) (trim_space (ci_Organization input))
              (id_Subject identity) (trim_space (ci_InvitationID input))
              (deriveKey ''cancel-v1'' (id_Subject identity) (ci_IdempotencyKey input))))))"
proof -
  have base: "br_Method r = ''POST''" "browserMutation env r"
    using assms by (auto simp: command_ServeHTTP_def split: if_splits)
  have "handler_accept env io exch nows has_tls h r s rv = (resp, calls, s', rv')
      \<or> handler_cancel env io exch nows has_tls h r s rv = (resp, calls, s', rv')"
    using assms by (auto simp: command_ServeHTTP_def split: if_splits)
  then show ?thesis
  proof
    assume "handler_accept env io exch nows has_tls h r s rv = (resp, calls, s', rv')"
    then obtain input identity sessionID s1 res where "decodeJSON (be_Accept env) r = Some input"
        "authenticate env (io_net io) h r s = (Inr (identity, sessionID), s1)"
        "runtime_Accept env io exch nows has_tls identity (trim_space (ai_Ticket input))
            (deriveKey ''accept-v1'' (id_Subject identity) (ai_IdempotencyKey input)) rv = (res, calls, rv')"
      using assms(2) unfolding handler_accept_def by (auto split: option.splits if_splits sum.splits prod.splits)
    moreover from this(2) have "s1 = s" by (simp add: authenticate_Inr)
    ultimately show ?thesis
      using base unfolding runtime_Accept_def by metis
  next
    assume "handler_cancel env io exch nows has_tls h r s rv = (resp, calls, s', rv')"
    then obtain input identity sessionID s1 res where "decodeJSON (be_Cancel env) r = Some input"
        "authenticate env (io_net io) h r s = (Inr (identity, sessionID), s1)"
        "runtime_Cancel env io exch nows has_tls identity (trim_space (ci_Organization input)) (trim_space (ci_InvitationID input))
            (deriveKey ''cancel-v1'' (id_Subject identity) (ci_IdempotencyKey input)) rv = (res, calls, rv')"
      using assms(2) unfolding handler_cancel_def by (auto split: option.splits if_splits sum.splits prod.splits)
    moreover from this(2) have "s1 = s" by (simp add: authenticate_Inr)
    ultimately show ?thesis
      using base unfolding runtime_Cancel_def by metis
  qed
qed

text \<open>
  Idempotency keys are separated by command and subject: as long as neither holds a NUL byte and
  SHA-256 does not collide on the two inputs, equal derived keys come from the same command, the same
  subject and the same caller key.
\<close>

lemma deriveKey_separates:
  assumes "deriveKey c1 s1 k1 = deriveKey c2 s2 k2"
    and "CHR 0x00 \<notin> set c1" "CHR 0x00 \<notin> set c2" "CHR 0x00 \<notin> set s1" "CHR 0x00 \<notin> set s2"
    and collision_free: "sha256 (bytes_of_string (''lotor-browser:'' @ c1 @ [CHR 0x00] @ s1 @ [CHR 0x00] @ trim_space k1))
      = sha256 (bytes_of_string (''lotor-browser:'' @ c2 @ [CHR 0x00] @ s2 @ [CHR 0x00] @ trim_space k2)) \<Longrightarrow>
      ''lotor-browser:'' @ c1 @ [CHR 0x00] @ s1 @ [CHR 0x00] @ trim_space k1
      = ''lotor-browser:'' @ c2 @ [CHR 0x00] @ s2 @ [CHR 0x00] @ trim_space k2"
  shows "c1 = c2 \<and> s1 = s2 \<and> trim_space k1 = trim_space k2"
proof -
  have "c1 @ CHR 0x00 # s1 @ CHR 0x00 # trim_space k1 = c2 @ CHR 0x00 # s2 @ CHR 0x00 # trim_space k2"
    using collision_free assms(1) by (simp add: deriveKey_def)
  then show ?thesis
    using nul_split [of c1 c2 "s1 @ CHR 0x00 # trim_space k1" "s2 @ CHR 0x00 # trim_space k2"] assms(2-5)
      nul_split [of s1 s2 "trim_space k1" "trim_space k2"] by (simp add: nul_def)
qed

section \<open>Properties\<close>


section \<open>A sample command\<close>

definition bw_input :: accept_input where
  "bw_input = \<lparr>ai_Organization = [], ai_Ticket = ''ticket'', ai_IdempotencyKey = ''key''\<rparr>"

definition bw_session :: controlSession where
  "bw_session = \<lparr>cn_Subject = ''user'', cn_Email = ''u@x'', cn_Account = [9]\<rparr>"

definition bw_scope :: controlScope where
  "bw_scope = \<lparr>cp_TenantID = ''t'', cp_ApplicationID = ''a'', cp_EnvironmentID = ''e''\<rparr>"

definition bw_env :: browser_env where
  "bw_env = \<lparr>be_own = own_sample, be_ParseMediaType = Some, be_ParseAddress = Some,
     be_Session = table_codec [(bw_session, [1])], be_Scope = table_codec [(bw_scope, [9])],
     be_Accept = table_codec [(bw_input, [3])], be_Cancel = table_codec []\<rparr>"

definition bw_handler :: "unit command_handler" where
  "bw_handler = \<lparr>ch_sessions = \<lparr>ss_Bearer = (\<lambda>_ _. Some ''token''), ss_Delete = (\<lambda>s _. s)\<rparr>, ch_baseURL = ''https://c'',
     ch_cookieName = ''session''\<rparr>"

definition bw_request :: browser_request where
  "bw_request = \<lparr>br_Method = ''POST'', br_Path = ''/api/lotor/invitations/accept'', br_Host = ''app'',
     br_Header = (\<lambda>name. if name = ''X-Lotor-Request'' then ''browser-sdk-v1''
       else if name = ''Content-Type'' then ''application/json'' else []),
     br_Cookie = (\<lambda>_. Some ''sid''), br_Body = ([3], False)\<rparr>"

definition bw_identity :: Identity where
  "bw_identity = \<lparr>id_Subject = ''user'', id_Email = ''u@x'', id_TenantID = ''t'', id_ApplicationID = ''a'', id_EnvironmentID = ''e''\<rparr>"

lemma bw_trims: "trim_space [] = []" "trim_space ''user'' = ''user''" "trim_space ''u@x'' = ''u@x''" "trim_space ''t'' = ''t''"
  "trim_space ''a'' = ''a''" "trim_space ''e'' = ''e''" "trim_space ''sid'' = ''sid''" "trim_space ''token'' = ''token''"
  "trim_space ''ticket'' = ''ticket''" "trim_space ''key'' = ''key''"
  by (simp_all add: trim_space_ident ident_char_def)

lemma bw_own: "be_own bw_env = own_sample" "strings_ToLower (oe_net own_sample) x = x"
  by (simp_all add: bw_env_def own_sample_def)

lemma bw_mutation: "browserMutation bw_env bw_request"
  by (simp add: browserMutation_def bw_request_def bw_trims bw_own) (simp add: bw_env_def)

lemma bw_authenticated: "authenticate bw_env own_net bw_handler bw_request () = (Inr (bw_identity, ''sid''), ())"
proof -
  have "has_prefix [] ''Bearer '' = False"
    by (simp add: has_prefix_def)
  then have sid: "session_id (ch_cookieName bw_handler) bw_request = ''sid''"
    by (simp add: session_id_def bw_request_def bw_trims)
  have "control_identity bw_env bw_session bw_scope = Ok bw_identity"
    by (simp add: control_identity_def bw_session_def bw_scope_def bw_trims bw_own bounded_def Let_def)
      (simp add: bw_env_def bw_identity_def)
  then have "verify_session bw_env own_net ''https://c'' ''token'' = Ok bw_identity"
    by (simp add: verify_session_def own_net_def bw_env_def) (simp add: bw_session_def)
  then show ?thesis
    by (simp add: authenticate_def sid bounded_def bw_trims) (simp add: bw_handler_def bw_trims)
qed

lemma bw_ran:
  assumes "or_keys rv = []" "or_cached rv = zero_Ownership"
  shows "\<exists>resp rv'. command_ServeHTTP bw_env own_io (\<lambda>_ _ _. Ok []) (1000000, 1000000, 2000000) True bw_handler bw_request () rv
    = (resp, [''one:7000''], (), rv')"
proof -
  define r1 where "r1 = rv\<lparr>or_keys := [(key_id_of own_pub, own_pub)], or_cached := own_first\<rparr>"
  have scope: "verifyScope bw_env own_net 1000000 bw_identity rv = (Ok (), r1)"
    using own_resolve [OF assms]
    by (simp add: verifyScope_def bw_own r1_def) (simp add: own_first_def signed_ownership_def bw_identity_def)
  have "Resolve own_sample own_net 1000000 r1 = (Ok own_first, r1)"
    by (simp add: Resolve_def r1_def) (simp add: own_first_def signed_ownership_def word_sless_alt)
  then have dial: "DialOwned own_sample own_io 1000000 True r1 = (Ok (''one:7000'', own_first), r1)"
    using own_address(1) by (simp add: DialOwned_def dialOwnership_def own_io_def)
  have "\<exists>res. WithOwnerRetry own_sample own_io (1000000, 2000000) True operation r1 = (res, [''one:7000''], r1)"
    if "operation ''one:7000'' = Ok v" for operation v
    using dial that by (simp add: WithOwnerRetry_def own_io_def)
  then have "\<exists>res. run_owned bw_env own_io (1000000, 1000000, 2000000) True bw_identity operation rv = (res, [''one:7000''], r1)"
    if "operation ''one:7000'' = Ok v" for operation v
    using that scope by (fastforce simp: run_owned_def bw_own own_io_def)
  then have "\<exists>res. runtime_Accept bw_env own_io (\<lambda>_ _ _. Ok []) (1000000, 1000000, 2000000) True bw_identity ticket key rv
      = (res, [''one:7000''], r1)" for ticket key
    unfolding runtime_Accept_def by (simp add: InvitationAccept_def lifecycle_def)
  moreover have "decodeJSON (be_Accept bw_env) bw_request = Some bw_input"
    by (simp add: decodeJSON_def bw_request_def bw_env_def maxRequestBody_def js_decode_all_def)
  moreover have "bounded (ai_Ticket bw_input) 512" "bounded (ai_IdempotencyKey bw_input) 256" "ai_Organization bw_input = []"
    by (simp_all add: bw_input_def bounded_def bw_trims)
  moreover have "br_Method bw_request = ''POST''" "br_Path bw_request = ''/api/lotor/invitations/accept''" "io_net own_io = own_net"
    by (simp_all add: bw_request_def own_io_def)
  ultimately show ?thesis
    using bw_mutation bw_authenticated
    by (auto simp: command_ServeHTTP_def handler_accept_def split: prod.split) (metis fst_conv snd_conv)
qed


end
