(* ===== verification/Browser_Adapter.thy ===== *)
theory Browser_Adapter
  imports Go_Net Go_Json Go_Encoding
begin

text \<open>
  \<^verbatim>\<open>lotorhttp/browseradapter\<close>: the cookie boundary between a browser and the public Control API. Which
  requests it forwards (\<^verbatim>\<open>resources.go\<close>) and with what authority, and what it does with the answers and
  the cookies (\<^verbatim>\<open>adapter.go\<close>). The network, the URL parser, the cookie grammar and JSON are parameters.
\<close>

section \<open>Configuration\<close>

definition adapter_prefix :: string where "adapter_prefix = ''/.lotor/v1''"
definition bodyLimit :: nat where "bodyLimit = 65536"
definition executionBodyLimit :: nat where "executionBodyLimit = 4194304"
definition responseLimit :: nat where "responseLimit = 4194304"

record adapter_Config =
  ac_APIURL :: string
  ac_BrowserOrigin :: string
  ac_ClientID :: string
  ac_PublishableKey :: string
  ac_SecretKey :: string

record Adapter =
  ad_origin :: go_url
  ad_config :: adapter_Config
  ad_secure :: bool

record encryptionClaim =
  ec_ID :: string
  ec_Required :: bool

record verified_session =
  vs_E2EE :: "encryptionClaim option"
  vs_AccessToken :: string
  vs_Subject :: string
  vs_Email :: string

record adapter_env =
  ae_net :: net_env
  ae_URLString :: "go_url \<Rightarrow> string"
  ae_ParseQuery :: "string \<Rightarrow> (string \<times> string list) list option"
  ae_json_Valid :: "bytes \<Rightarrow> bool"
  ae_CookieValid :: "string \<Rightarrow> string \<Rightarrow> bool"
  ae_Verified :: "verified_session json_codec"

definition client_id_char :: "char \<Rightarrow> bool" where
  "client_id_char c \<longleftrightarrow> (CHR ''A'' \<le> c \<and> c \<le> CHR ''Z'') \<or> (CHR ''a'' \<le> c \<and> c \<le> CHR ''z'') \<or> digit_char c
     \<or> c = CHR ''_'' \<or> c = CHR ''-''"

definition clientIDPattern :: "string \<Rightarrow> bool" where
  "clientIDPattern s \<longleftrightarrow> 1 \<le> length s \<and> length s \<le> 256 \<and> list_all client_id_char s"

definition eventStreamPattern :: "string \<Rightarrow> bool" where
  "eventStreamPattern s \<longleftrightarrow> (case s of [] \<Rightarrow> False
     | c # cs \<Rightarrow> client_id_char c \<and> length cs \<le> 127 \<and> list_all (\<lambda>d. client_id_char d \<or> d = CHR ''.'') cs)"

definition validValue :: "string \<Rightarrow> bool" where
  "validValue s \<longleftrightarrow> \<not> (length s = 0 \<or> length s > 4096) \<and> list_all (\<lambda>c. \<not> (c < 33 \<or> c > 126)) (runes s)"

definition originURL :: "adapter_env \<Rightarrow> string \<Rightarrow> go_url option" where
  "originURL env raw =
     (case url_Parse (ae_net env) raw of
        None \<Rightarrow> None
      | Some u \<Rightarrow>
          if u_Host u = [] \<or> u_User u \<or> u_Opaque u \<noteq> [] \<or> u_Path u \<noteq> [] \<or> u_RawQuery u \<noteq> [] \<or> u_ForceQuery u
             \<or> u_Fragment u \<noteq> []
          then None else Some u)"

definition adapter_New :: "adapter_env \<Rightarrow> adapter_Config \<Rightarrow> (string, Adapter) outcome" where
  "adapter_New env config =
     (case originURL env (ac_APIURL config) of
        None \<Rightarrow> Fail ''Lotor API URL must be an HTTPS origin''
      | Some remote \<Rightarrow>
          if u_Scheme remote \<noteq> ''https'' then Fail ''Lotor API URL must be an HTTPS origin''
          else (case originURL env (ac_BrowserOrigin config) of
            None \<Rightarrow> Fail ''browser origin must use HTTPS except on explicit loopback''
          | Some origin \<Rightarrow>
              if u_Scheme origin \<noteq> ''https'' \<and>
                 \<not> (u_Scheme origin = ''http'' \<and> u_Hostname origin \<in> set [''localhost'', ''127.0.0.1'', ''::1''])
              then Fail ''browser origin must use HTTPS except on explicit loopback''
              else if \<not> clientIDPattern (ac_ClientID config) \<or> \<not> validValue (ac_PublishableKey config)
                      \<or> \<not> validValue (ac_SecretKey config)
              then Fail ''Lotor application credentials are required''
              else Ok \<lparr>ad_origin = origin,
                       ad_config = config\<lparr>ac_APIURL := ae_URLString env remote, ac_BrowserOrigin := ae_URLString env origin\<rparr>,
                       ad_secure = (u_Scheme origin = ''https'')\<rparr>))"

definition equal_secret :: "string \<Rightarrow> string \<Rightarrow> bool" where
  "equal_secret a b \<longleftrightarrow> a \<noteq> [] \<and> a = b"

definition adapter_names :: "Adapter \<Rightarrow> string \<times> string \<times> string" where
  "adapter_names a =
     (if ad_secure a then (''__Host-lotor_session'', ''__Host-lotor_csrf'', ''__Secure-lotor_key_claim_token'')
      else (''lotor_dev_session'', ''lotor_dev_csrf'', ''lotor_key_claim_token''))"

section \<open>Requests and answers\<close>

record adapter_request =
  aq_Method :: string
  aq_Host :: string
  aq_Path :: string
  aq_EscapedPath :: string
  aq_RawPath :: string
  aq_RawQuery :: string
  aq_ForceQuery :: bool
  aq_Header :: "string \<Rightarrow> string"
  aq_Cookies :: "(string \<times> string) list"
  aq_ContentLength :: int
  aq_Body :: "bytes \<times> bool"

definition cookieValue :: "adapter_request \<Rightarrow> string \<Rightarrow> string" where
  "cookieValue r name =
     (case filter (\<lambda>c. fst c = name) (aq_Cookies r) of [c] \<Rightarrow> snd c | _ \<Rightarrow> [])"

record remote_request =
  rm_Method :: string
  rm_URL :: string
  rm_RawQuery :: string
  rm_Header :: "(string \<times> string) list"
  rm_Body :: bytes

record remote_response =
  re_Status :: nat
  re_Header :: "string \<Rightarrow> string"
  re_Body :: "bytes \<times> bool"

record http_cookie =
  ck_Name :: string
  ck_Value :: string
  ck_Path :: string
  ck_Secure :: bool
  ck_HttpOnly :: bool
  ck_SameSiteStrict :: bool
  ck_MaxAge :: int

datatype adapter_body = Message string | Payload bytes | Authenticated "encryptionClaim option" string string | NoBody

record adapter_response =
  as_Status :: nat
  as_Header :: "(string \<times> string) list"
  as_Cookies :: "http_cookie list"
  as_Body :: adapter_body

definition adapter_cookie :: "Adapter \<Rightarrow> string \<Rightarrow> string \<Rightarrow> string \<Rightarrow> bool \<Rightarrow> bool \<Rightarrow> http_cookie" where
  "adapter_cookie a name v path httpOnly expire =
     \<lparr>ck_Name = name, ck_Value = v, ck_Path = path, ck_Secure = ad_secure a, ck_HttpOnly = httpOnly,
      ck_SameSiteStrict = True, ck_MaxAge = (if expire then - 1 else 0)\<rparr>"

section \<open>The routes a browser may use\<close>

definition key_access_route :: "string \<Rightarrow> string list \<Rightarrow> bool" where
  "key_access_route meth parts =
     (case path_unescape (parts ! 2) of
        None \<Rightarrow> False
      | Some ident \<Rightarrow>
          if \<not> clientIDPattern ident then False
          else if parts ! 1 = ''subject-keys'' then length parts = 3 \<and> meth = ''DELETE''
          else if parts ! 1 = ''claims'' then
            (length parts = 3 \<and> meth = ''GET'')
            \<or> (length parts = 4 \<and> meth = ''POST'' \<and> (parts ! 3 = ''transfer'' \<or> parts ! 3 = ''complete''))
          else False)"

text \<open>The routes below \<open>/resources/<resource>/\<close> with at least three parts.\<close>

definition resource_route :: "string \<Rightarrow> string list \<Rightarrow> bool" where
  "resource_route meth parts =
     (let n = length parts; p2 = parts ! 2 in
      if n = 3 \<and> p2 = ''collaborators'' then meth = ''GET''
      else if p2 = ''scim-directories'' then
        (n = 3 \<and> (meth = ''GET'' \<or> meth = ''POST''))
        \<or> (n = 4 \<and> clientIDPattern (parts ! 3) \<and> (meth = ''GET'' \<or> meth = ''PUT''))
      else if n = 3 \<and> p2 = ''catalog-binding'' then meth = ''PUT''
      else if p2 = ''event-streams'' \<and> n \<ge> 4 \<and> eventStreamPattern (parts ! 3) then
        (if n = 4 then meth = ''PUT''
         else if n = 5 then meth = ''POST'' \<and> (parts ! 4 = ''events'' \<or> parts ! 4 = ''queries'')
         else if n = 6 then meth = ''GET'' \<and> parts ! 4 = ''events'' \<and> clientIDPattern (parts ! 5)
         else n = 7 \<and> meth = ''GET'' \<and> parts ! 4 = ''queries'' \<and> clientIDPattern (parts ! 5)
              \<and> (parts ! 6 = ''events'' \<or> parts ! 6 = ''histogram''))
      else if p2 = ''credentials'' then
        (n = 3 \<and> (meth = ''GET'' \<or> meth = ''POST''))
        \<or> (n = 4 \<and> meth = ''DELETE'' \<and> clientIDPattern (parts ! 3))
        \<or> (n = 5 \<and> meth = ''POST'' \<and> clientIDPattern (parts ! 3) \<and> parts ! 4 = ''rotate'')
      else if p2 = ''payloads'' \<and> n \<ge> 4 \<and> clientIDPattern (parts ! 3) then
        (n = 4 \<and> (meth = ''GET'' \<or> meth = ''DELETE''))
        \<or> (n = 5 \<and> meth = ''POST'' \<and> parts ! 4 \<in> set [''uploads'', ''commits'', ''access'', ''rewraps''])
      else if p2 = ''executions'' \<and> n = 4 \<and> (parts ! 3 = ''preflight'' \<or> parts ! 3 = ''commit'') then meth = ''POST''
      else if n = 3 \<and> p2 = ''e2ee'' then meth = ''GET'' \<or> meth = ''PUT''
      else if n \<ge> 4 \<and> p2 = ''e2ee'' \<and> parts ! 3 = ''function-bindings'' then
        (n = 4 \<and> (meth = ''POST'' \<or> meth = ''GET''))
        \<or> (n = 5 \<and> clientIDPattern (parts ! 4) \<and> (meth = ''GET'' \<or> meth = ''DELETE''))
        \<or> (n = 6 \<and> clientIDPattern (parts ! 4) \<and> parts ! 5 = ''challenge'' \<and> meth = ''POST'')
      else if n = 4 \<and> p2 = ''link-candidates'' \<and> parts ! 3 = ''search'' then meth = ''POST''
      else if n = 4 \<and> p2 = ''links'' then
        (if parts ! 3 = ''preflight'' \<or> parts ! 3 = ''commit'' then meth = ''POST''
         else meth = ''DELETE'' \<and> clientIDPattern (parts ! 3))
      else n = 3 \<and> meth = ''POST'' \<and> (p2 = ''move'' \<or> p2 = ''disable'' \<or> p2 = ''restore''))"

definition segment_ok :: "string \<Rightarrow> bool" where
  "segment_ok v \<longleftrightarrow> \<not> (length v > 512 \<or> \<not> validValue v
     \<or> list_ex (\<lambda>c. c \<in> set (''/%'' @ [CHR 0x5C] @ ''?#'')) v \<or> v = ''.'' \<or> v = ''..'')"

definition parts_route :: "string \<Rightarrow> string list \<Rightarrow> bool" where
  "parts_route meth parts =
     (let n = length parts; p0 = parts ! 0; p1 = parts ! 1 in
      if p0 = ''operations'' then n = 2 \<and> meth = ''GET''
      else if p0 = ''me'' \<and> p1 = ''catalogs'' then
        (if n = 4 then meth = ''GET'' \<and> parts ! 3 = ''entries'' \<and> clientIDPattern (parts ! 2)
         else n = 6 \<and> meth = ''GET'' \<and> parts ! 3 = ''snapshots'' \<and> parts ! 5 = ''document''
              \<and> clientIDPattern (parts ! 2) \<and> clientIDPattern (parts ! 4))
      else if p0 = ''catalogs'' \<and> meth = ''GET'' then
        (n = 3 \<and> parts ! 2 = ''entries'') \<or> (n = 4 \<and> parts ! 2 = ''entries'' \<and> clientIDPattern (parts ! 3))
      else if p0 = ''key-access'' \<and> n \<ge> 3 then key_access_route meth parts
      else if p0 = ''me'' \<and> n = 4 \<and> p1 = ''encryption-actions'' then
        clientIDPattern (parts ! 2) \<and> parts ! 3 = ''complete'' \<and> meth = ''POST''
      else if p0 = ''me'' \<and> n = 4 \<and> p1 = ''invitations'' then
        (case path_unescape (parts ! 2) of
           None \<Rightarrow> False
         | Some ident \<Rightarrow> clientIDPattern ident \<and> meth = ''POST'' \<and> (parts ! 3 = ''accept'' \<or> parts ! 3 = ''decline''))
      else if p0 \<noteq> ''resources'' then False
      else if n = 2 then meth = ''GET'' \<or> meth = ''PUT'' \<or> meth = ''DELETE''
      else resource_route meth parts)"

definition resourceRoute :: "string \<Rightarrow> string \<Rightarrow> bool" where
  "resourceRoute meth escapedPath =
     (let at = (\<lambda>s. escapedPath = adapter_prefix @ s) in
      if at ''/resources'' then meth = ''POST''
      else if at ''/billing/checkout-sessions'' \<or> at ''/billing/portal-sessions'' then meth = ''POST''
      else if at ''/organizations'' then meth = ''GET'' \<or> meth = ''POST''
      else if at ''/resources/search'' then meth = ''POST''
      else if at ''/me/invitations'' \<or> at ''/me/resources'' \<or> at ''/me/catalogs'' then meth = ''GET''
      else if at ''/key-access/subject-keys'' \<or> at ''/key-access/resource-envelope'' then meth = ''GET'' \<or> meth = ''POST''
      else if at ''/me/encryption-actions'' then meth = ''GET''
      else if \<not> has_prefix escapedPath (adapter_prefix @ ''/'') then False
      else
        let parts = split_on (CHR ''/'') (drop (length adapter_prefix + 1) escapedPath) in
        if length parts < 2 then False
        else (case path_unescape (parts ! 1) of
                None \<Rightarrow> False
              | Some v \<Rightarrow> segment_ok v \<and> parts_route meth parts))"

definition allowed_query :: "string \<Rightarrow> string list option" where
  "allowed_query path =
     (if str_contains path ''/event-streams/'' \<and> str_contains path ''/queries/'' \<and> has_suffix path ''/events''
      then Some [''cursor'', ''limit'']
      else if str_contains path ''/event-streams/'' \<and> str_contains path ''/queries/'' \<and> has_suffix path ''/histogram''
      then Some [''group_by'', ''interval_seconds'']
      else if path = adapter_prefix @ ''/key-access/resource-envelope'' then Some [''resource'']
      else if path = adapter_prefix @ ''/me/invitations'' then Some [''cursor'', ''limit'']
      else if path = adapter_prefix @ ''/me/catalogs'' \<or> has_prefix path (adapter_prefix @ ''/me/catalogs/'')
      then Some [''cursor'', ''limit'']
      else if path = adapter_prefix @ ''/me/resources'' then Some [''cursor'', ''limit'', ''type'', ''access_state'', ''parent'']
      else if has_prefix path (adapter_prefix @ ''/catalogs/'') then Some [''resource'', ''cursor'', ''limit'']
      else if has_suffix path ''/collaborators''
      then Some [''view'', ''search'', ''email'', ''subject'', ''resource_subject'', ''via_group'', ''direct'', ''kind'', ''status'',
                 ''relation'', ''cursor'', ''limit'']
      else if has_prefix path (adapter_prefix @ ''/resources/'') \<and> has_suffix path ''/scim-directories''
      then Some [''cursor'', ''limit'']
      else None)"

definition validResourceQuery :: "adapter_env \<Rightarrow> string \<Rightarrow> string \<Rightarrow> string \<Rightarrow> bool" where
  "validResourceQuery env meth path raw =
     (if raw = [] then True
      else if meth \<noteq> ''GET'' \<or> length raw > 8192 then False
      else case allowed_query path of
        None \<Rightarrow> False
      | Some allowed \<Rightarrow>
          (case ae_ParseQuery env raw of
             None \<Rightarrow> False
           | Some query \<Rightarrow>
               list_all (\<lambda>(key, values). key \<in> set allowed
                 \<and> \<not> (length values > 1 \<and> key \<notin> set [''type'', ''access_state'', ''kind'', ''status'', ''relation''])) query))"

section \<open>The handler\<close>

text \<open>
  The headers of the response when the handler starts, which outer middleware may have set: the ones
  that open the boundary to other origins are removed.
\<close>

definition boundary_headers :: "adapter_env \<Rightarrow> (string \<times> string) list \<Rightarrow> (string \<times> string) list" where
  "boundary_headers env outer =
     filter (\<lambda>h. \<not> has_prefix (strings_ToLower (ae_net env) (fst h)) ''access-control-'')
       (header_set (header_set outer ''Cache-Control'' ''no-store'') ''X-Content-Type-Options'' ''nosniff'')"

definition adapter_path :: "adapter_request \<Rightarrow> string" where
  "adapter_path r =
     (if has_prefix (aq_Path r) adapter_prefix then drop (length adapter_prefix) (aq_Path r) else aq_Path r)"

text \<open>The endpoints served with the application's own credentials.\<close>

definition application_route :: "adapter_request \<Rightarrow> bool" where
  "application_route r \<longleftrightarrow>
     aq_Path r = adapter_prefix @ adapter_path r
     \<and> ((aq_Method r = ''GET'' \<and> adapter_path r \<in> set [''/configuration'', ''/pricing'', ''/session''])
       \<or> (aq_Method r = ''POST'' \<and> adapter_path r \<in> set [''/auth/passwordless/start'', ''/auth/passwordless/verify''])
       \<or> (aq_Method r = ''DELETE'' \<and> adapter_path r = ''/session''))"

abbreviation native_route :: "adapter_request \<Rightarrow> bool" where
  "native_route r \<equiv> resourceRoute (aq_Method r) (aq_EscapedPath r)"

definition request_limit :: "adapter_request \<Rightarrow> nat" where
  "request_limit r =
     (let path = adapter_path r in
      if native_route r \<and> has_suffix path ''/executions/commit'' then executionBodyLimit
      else if native_route r \<and> aq_Method r = ''POST'' \<and> str_contains path ''/event-streams/'' \<and> has_suffix path ''/events''
      then 6291456
      else if native_route r \<and> aq_Method r = ''POST'' \<and> str_contains path ''/event-streams/'' \<and> has_suffix path ''/queries''
      then 262144
      else bodyLimit)"

text \<open>The checks before anything is sent: a status on refusal, the body otherwise.\<close>

definition adapter_checks :: "adapter_env \<Rightarrow> Adapter \<Rightarrow> adapter_request \<Rightarrow> nat + bytes" where
  "adapter_checks env a r =
     (let (sessionName, csrfName, _) = adapter_names a; native = native_route r; path = adapter_path r;
          origin = ac_BrowserOrigin (ad_config a) in
      if aq_Host r \<noteq> u_Host (ad_origin a) \<or> aq_Header r ''Origin'' \<noteq> [] \<and> aq_Header r ''Origin'' \<noteq> origin
         \<or> aq_Header r ''Sec-Fetch-Site'' \<noteq> [] \<and> aq_Header r ''Sec-Fetch-Site'' \<noteq> ''same-origin''
      then Inl 403
      else if \<not> equal_secret (aq_Header r ''X-Lotor-Publishable-Key'') (ac_PublishableKey (ad_config a)) then Inl 401
      else if aq_RawPath r \<noteq> [] \<and> \<not> native \<or> \<not> validResourceQuery env (aq_Method r) (aq_Path r) (aq_RawQuery r) \<or> aq_ForceQuery r
      then Inl 400
      else if \<not> application_route r \<and> \<not> native then Inl 404
      else if aq_Method r \<noteq> ''GET'' \<and> aq_Header r ''Origin'' \<noteq> origin then Inl 403
      else if (aq_Method r = ''DELETE'' \<or> native \<and> aq_Method r \<noteq> ''GET'')
              \<and> \<not> equal_secret (cookieValue r csrfName) (aq_Header r ''X-Lotor-CSRF'')
      then Inl 403
      else if native \<and> cookieValue r sessionName = [] then Inl 401
      else if aq_ContentLength r > int (request_limit r) then Inl 413
      else if snd (aq_Body r) \<or> length (fst (aq_Body r)) > request_limit r then Inl 413
      else
        let body = fst (aq_Body r); bodyless = native \<and> has_prefix path ''/me/invitations/'' \<and> body = [] in
        if aq_Method r = ''POST'' \<and> \<not> bodyless
           \<and> (hd (split_on (CHR '';'') (aq_Header r ''Content-Type'')) \<noteq> ''application/json'' \<or> \<not> ae_json_Valid env body)
        then Inl 400
        else Inr body)"

text \<open>A one-use token that a route forwards from its cookie to a header.\<close>

definition cookie_header :: "bool \<Rightarrow> string \<Rightarrow> string \<Rightarrow> adapter_request \<Rightarrow> (string \<times> string) list option" where
  "cookie_header applies cookie header r =
     (if \<not> applies then Some []
      else if \<not> validValue (cookieValue r cookie) then None
      else Some [(header, cookieValue r cookie)])"

definition remote_tokens :: "Adapter \<Rightarrow> adapter_request \<Rightarrow> (string \<times> string) list option" where
  "remote_tokens a r =
     (let native = native_route r; path = adapter_path r; claimName = snd (snd (adapter_names a)) in
      case cookie_header (native \<and> has_prefix path ''/key-access/claims/'') claimName ''Lotor-Key-Claim-Token'' r of
        None \<Rightarrow> None
      | Some h1 \<Rightarrow>
          (case cookie_header (native \<and> has_suffix path ''/links/commit'') ''lotor_link_token'' ''Lotor-Link-Token'' r of
             None \<Rightarrow> None
           | Some h2 \<Rightarrow>
               (case cookie_header (native \<and> str_contains path ''/payloads/'' \<and> has_suffix path ''/commits'')
                       ''lotor_payload_token'' ''Lotor-Payload-Token'' r of
                  None \<Rightarrow> None
                | Some h3 \<Rightarrow>
                    (case cookie_header (native \<and> has_suffix path ''/executions/commit'') ''lotor_execution_token''
                            ''Lotor-Execution-Token'' r of
                       None \<Rightarrow> None
                     | Some h4 \<Rightarrow> Some (h1 @ h2 @ h3 @ h4)))))"

definition remote_headers :: "Adapter \<Rightarrow> adapter_request \<Rightarrow> (string \<times> string) list \<Rightarrow> nat + (string \<times> string) list" where
  "remote_headers a r tokens =
     (let native = native_route r; token = cookieValue r (fst (adapter_names a));
          idempotency = aq_Header r ''Idempotency-Key'' in
      if idempotency \<noteq> [] \<and> \<not> validValue idempotency then Inl 400
      else Inr (tokens
        @ (if native then [] else [(''X-Lotor-Secret-Key'', ac_SecretKey (ad_config a))])
        @ [(''X-Lotor-Publishable-Key'', ac_PublishableKey (ad_config a))]
        @ (if aq_Header r ''X-Lotor-Request'' = ''lotor-js-v1'' then [(''X-Lotor-Request'', ''lotor-js-v1'')] else [])
        @ [(''Content-Type'', ''application/json''), (''Accept'', ''application/json'')]
        @ (if idempotency \<noteq> [] then [(''Idempotency-Key'', idempotency)] else [])
        @ (if (adapter_path r = ''/session'' \<or> native) \<and> token \<noteq> [] then [(''Authorization'', ''Bearer '' @ token)] else [])))"

text \<open>The request to Control, or the status of the refusal.\<close>

definition adapter_base :: "Adapter \<Rightarrow> string" where
  "adapter_base a = ac_APIURL (ad_config a) @ ''/v1/public/applications/'' @ ac_ClientID (ad_config a)"

definition adapter_remote :: "adapter_env \<Rightarrow> Adapter \<Rightarrow> adapter_request \<Rightarrow> nat + remote_request" where
  "adapter_remote env a r =
     (case adapter_checks env a r of
        Inl status \<Rightarrow> Inl status
      | Inr body \<Rightarrow>
          let escaped = (if has_prefix (aq_EscapedPath r) adapter_prefix then drop (length adapter_prefix) (aq_EscapedPath r)
                         else aq_EscapedPath r);
              url = adapter_base a @ escaped in
          if url_Parse (ae_net env) url = None then Inl 502
          else (case remote_tokens a r of
            None \<Rightarrow> Inl 401
          | Some tokens \<Rightarrow>
              (case remote_headers a r tokens of
                 Inl status \<Rightarrow> Inl status
               | Inr headers \<Rightarrow> Inr \<lparr>rm_Method = aq_Method r, rm_URL = url, rm_RawQuery = aq_RawQuery r, rm_Header = headers, rm_Body = body\<rparr>)))"

text \<open>\<open>http.Error\<close> replaces the content type, drops a content length and ends the text with a newline.\<close>

definition http_Error :: "(string \<times> string) list \<Rightarrow> string \<Rightarrow> nat \<Rightarrow> adapter_response" where
  "http_Error headers text status =
     \<lparr>as_Status = status,
      as_Header = header_set (header_set (filter (\<lambda>h. fst h \<noteq> ''Content-Length'') headers)
        ''Content-Type'' ''text/plain; charset=utf-8'') ''X-Content-Type-Options'' ''nosniff'',
      as_Cookies = [], as_Body = Message (text @ [CHR 0x0A])\<rparr>"

definition adapter_fail :: "(string \<times> string) list \<Rightarrow> nat \<Rightarrow> adapter_response" where
  "adapter_fail headers status = http_Error headers ''Lotor request rejected'' status"

definition finishVerification ::
  "adapter_env \<Rightarrow> Adapter \<Rightarrow> bytes option \<Rightarrow> (string \<times> string) list \<Rightarrow> bytes \<Rightarrow> string \<Rightarrow> adapter_response" where
  "finishVerification env a random headers payload claimToken =
     (let (sessionName, csrfName, claimName) = adapter_names a;
          invalid = http_Error headers ''Invalid Lotor verification response'' 502 in
      case js_unmarshal (ae_Verified env) payload of
        None \<Rightarrow> invalid
      | Some v \<Rightarrow>
          let required = (case vs_E2EE v of None \<Rightarrow> False | Some e \<Rightarrow> ec_Required e) in
          if vs_Subject v = [] \<or> \<not> validValue (vs_AccessToken v) \<or> \<not> ae_CookieValid env sessionName (vs_AccessToken v)
             \<or> required \<and> ((case vs_E2EE v of None \<Rightarrow> False | Some e \<Rightarrow> ec_ID e = []) \<or> \<not> validValue claimToken
                  \<or> \<not> ae_CookieValid env claimName claimToken)
          then invalid
          else (case random of
            None \<Rightarrow> http_Error headers ''Session cookie unavailable'' 500
          | Some bs \<Rightarrow>
              \<lparr>as_Status = 200, as_Header = header_set headers ''Content-Type'' ''application/json'',
               as_Cookies =
                 [adapter_cookie a sessionName (vs_AccessToken v) ''/'' True False,
                  adapter_cookie a csrfName (b64_encode bs) ''/'' False False,
                  adapter_cookie a claimName (if required then claimToken else []) (adapter_prefix @ ''/key-access/claims'') True (\<not> required)],
               as_Body = Authenticated (vs_E2EE v) (vs_Subject v) (vs_Email v)\<rparr>))"

definition clearCookies :: "Adapter \<Rightarrow> http_cookie list" where
  "clearCookies a =
     (let (session, csrf, claim) = adapter_names a in
      [adapter_cookie a session [] ''/'' True True, adapter_cookie a csrf [] ''/'' False True,
       adapter_cookie a claim [] (adapter_prefix @ ''/key-access/claims'') True True])"

text \<open>A one-use token of the answer becomes a cookie for the path it belongs to.\<close>

definition token_cookie ::
  "adapter_env \<Rightarrow> Adapter \<Rightarrow> bool \<Rightarrow> string \<Rightarrow> string \<Rightarrow> string \<Rightarrow> int \<Rightarrow> http_cookie list option" where
  "token_cookie env a applies name token path maxAge =
     (if \<not> applies then Some []
      else if \<not> validValue token \<or> \<not> ae_CookieValid env name token then None
      else Some [(adapter_cookie a name token path True False)\<lparr>ck_MaxAge := maxAge\<rparr>])"

definition answer_cookies :: "adapter_env \<Rightarrow> Adapter \<Rightarrow> adapter_request \<Rightarrow> remote_response \<Rightarrow> http_cookie list option" where
  "answer_cookies env a r resp =
     (let native = native_route r; path = adapter_path r in
      case token_cookie env a (native \<and> has_suffix path ''/links/preflight'') ''lotor_link_token''
             (re_Header resp ''Lotor-Link-Token'') (trim_suffix (aq_EscapedPath r) ''/preflight'') 300 of
        None \<Rightarrow> None
      | Some c1 \<Rightarrow>
          (case token_cookie env a (native \<and> str_contains path ''/payloads/'' \<and> has_suffix path ''/uploads'') ''lotor_payload_token''
                  (re_Header resp ''Lotor-Payload-Token'') (trim_suffix (aq_EscapedPath r) ''/uploads'') 300 of
             None \<Rightarrow> None
           | Some c2 \<Rightarrow>
               (case token_cookie env a (native \<and> has_suffix path ''/executions/preflight'') ''lotor_execution_token''
                       (re_Header resp ''Lotor-Execution-Token'') (trim_suffix (aq_EscapedPath r) ''/preflight'') 30 of
                  None \<Rightarrow> None
                | Some c3 \<Rightarrow> Some (c1 @ c2 @ c3))))"

text \<open>A refusal of the later token checks keeps the cookies already set, which belong to other routes and
  cannot occur together; the answer then is the plain refusal.\<close>

definition adapter_answer ::
  "adapter_env \<Rightarrow> Adapter \<Rightarrow> bytes option \<Rightarrow> (string \<times> string) list \<Rightarrow> adapter_request \<Rightarrow> remote_response \<Rightarrow> adapter_response" where
  "adapter_answer env a random headers r resp =
     (let native = native_route r; path = adapter_path r;
          readLimit = (if native \<and> str_contains path ''/event-streams/'' then 6291456 else responseLimit);
          payload = fst (re_Body resp) in
      if snd (re_Body resp) \<or> length payload > readLimit then adapter_fail headers 502
      else if re_Status resp \<ge> 300 \<and> re_Status resp < 400 then adapter_fail headers 502
      else if re_Status resp \<ge> 400 then
        adapter_fail (if length (re_Header resp ''Retry-After'') < 128
          then header_set headers ''Retry-After'' (re_Header resp ''Retry-After'') else headers) (re_Status resp)
      else if path = ''/auth/passwordless/verify'' then
        finishVerification env a random headers payload (re_Header resp ''Lotor-Key-Claim-Token'')
      else if aq_Method r = ''DELETE'' \<and> path = ''/session'' then
        \<lparr>as_Status = 204, as_Header = headers, as_Cookies = clearCookies a, as_Body = NoBody\<rparr>
      else if \<not> ae_json_Valid env payload then adapter_fail headers 502
      else (case answer_cookies env a r resp of
        None \<Rightarrow> adapter_fail headers 502
      | Some cookies \<Rightarrow>
          \<lparr>as_Status = re_Status resp, as_Header = header_set headers ''Content-Type'' ''application/json'',
           as_Cookies = cookies, as_Body = Payload payload\<rparr>))"

definition adapter_ServeHTTP ::
  "adapter_env \<Rightarrow> (remote_request \<Rightarrow> remote_response option) \<Rightarrow> bytes option \<Rightarrow> Adapter \<Rightarrow> (string \<times> string) list \<Rightarrow> adapter_request \<Rightarrow>
   adapter_response \<times> remote_request list" where
  "adapter_ServeHTTP env net random a outer r =
     (let headers = boundary_headers env outer in
      case adapter_remote env a r of
        Inl status \<Rightarrow> (adapter_fail headers status, [])
      | Inr remote \<Rightarrow>
          (case net remote of
             None \<Rightarrow> (adapter_fail headers 502, [remote])
           | Some resp \<Rightarrow> (adapter_answer env a random headers r resp, [remote])))"

section \<open>Facts\<close>

lemma has_prefix_append [simp]: "has_prefix (p @ s) p"
  by (simp add: has_prefix_def)

lemma adapter_checks_Inr:
  assumes "adapter_checks env a r = Inr body"
  shows "aq_Host r = u_Host (ad_origin a)"
    and "aq_Header r ''X-Lotor-Publishable-Key'' = ac_PublishableKey (ad_config a)"
    and "application_route r \<or> native_route r"
    and "aq_Method r = ''GET'' \<or> aq_Header r ''Origin'' = ac_BrowserOrigin (ad_config a)"
    and "native_route r \<Longrightarrow> aq_Method r \<noteq> ''GET'' \<Longrightarrow>
      equal_secret (cookieValue r (fst (snd (adapter_names a)))) (aq_Header r ''X-Lotor-CSRF'')"
    and "native_route r \<Longrightarrow> cookieValue r (fst (adapter_names a)) \<noteq> []"
    and "body = fst (aq_Body r)" and "length body \<le> request_limit r"
proof -
  obtain sn cn kn where names: "adapter_names a = (sn, cn, kn)"
    by (metis prod.exhaust)
  note checks = assms [unfolded adapter_checks_def Let_def names prod.case]
  show "aq_Host r = u_Host (ad_origin a)"
    and "aq_Header r ''X-Lotor-Publishable-Key'' = ac_PublishableKey (ad_config a)"
    and "application_route r \<or> native_route r"
    and "aq_Method r = ''GET'' \<or> aq_Header r ''Origin'' = ac_BrowserOrigin (ad_config a)"
    and "body = fst (aq_Body r)" and "length body \<le> request_limit r"
    using checks by (simp_all add: equal_secret_def split: if_split_asm)
  show "equal_secret (cookieValue r (fst (snd (adapter_names a)))) (aq_Header r ''X-Lotor-CSRF'')"
    if "native_route r" "aq_Method r \<noteq> ''GET''"
    using checks that by (simp add: names split: if_split_asm)
  show "cookieValue r (fst (adapter_names a)) \<noteq> []" if "native_route r"
    using checks that by (simp add: names split: if_split_asm)
qed

lemma adapter_remote_Inr:
  assumes "adapter_remote env a r = Inr remote"
  obtains body tokens headers where "adapter_checks env a r = Inr body" "remote_tokens a r = Some tokens"
    "remote_headers a r tokens = Inr headers" "rm_Header remote = headers" "has_prefix (rm_URL remote) (adapter_base a)"
proof -
  obtain body where body: "adapter_checks env a r = Inr body"
    using assms by (cases "adapter_checks env a r") (simp_all add: adapter_remote_def)
  obtain tokens where tokens: "remote_tokens a r = Some tokens"
    using assms body by (cases "remote_tokens a r") (simp_all add: adapter_remote_def Let_def split: if_split_asm)
  obtain headers where headers: "remote_headers a r tokens = Inr headers"
    using assms body tokens
    by (cases "remote_headers a r tokens") (simp_all add: adapter_remote_def Let_def split: if_split_asm)
  have "rm_Header remote = headers" "has_prefix (rm_URL remote) (adapter_base a)"
    using assms body tokens headers by (auto simp add: adapter_remote_def Let_def split: if_split_asm)
  with body tokens headers that show ?thesis by blast
qed

lemma cookie_header_names: "cookie_header b c h r = Some hs \<Longrightarrow> fst ` set hs \<subseteq> {h}"
  by (auto simp: cookie_header_def split: if_splits)

lemma four_tokens:
  assumes "(case t1 of None \<Rightarrow> None | Some h1 \<Rightarrow> (case t2 of None \<Rightarrow> None | Some h2 \<Rightarrow>
      (case t3 of None \<Rightarrow> None | Some h3 \<Rightarrow> (case t4 of None \<Rightarrow> None | Some h4 \<Rightarrow> Some (h1 @ h2 @ h3 @ h4))))) = Some hs"
    and "\<And>h. t1 = Some h \<Longrightarrow> fst ` set h \<subseteq> {k1}" "\<And>h. t2 = Some h \<Longrightarrow> fst ` set h \<subseteq> {k2}"
    and "\<And>h. t3 = Some h \<Longrightarrow> fst ` set h \<subseteq> {k3}" "\<And>h. t4 = Some h \<Longrightarrow> fst ` set h \<subseteq> {k4}"
  shows "fst ` set hs \<subseteq> {k1, k2, k3, k4}"
proof -
  obtain h1 h2 h3 h4 where t: "t1 = Some h1" "t2 = Some h2" "t3 = Some h3" "t4 = Some h4" and hs: "hs = h1 @ h2 @ h3 @ h4"
    using assms(1) by (auto split: option.splits)
  have "fst ` set h1 \<subseteq> {k1, k2, k3, k4}" "fst ` set h2 \<subseteq> {k1, k2, k3, k4}"
       "fst ` set h3 \<subseteq> {k1, k2, k3, k4}" "fst ` set h4 \<subseteq> {k1, k2, k3, k4}"
    by (rule order_trans [OF assms(2) [OF t(1)]] order_trans [OF assms(3) [OF t(2)]]
        order_trans [OF assms(4) [OF t(3)]] order_trans [OF assms(5) [OF t(4)]], simp)+
  then show ?thesis
    unfolding hs set_append image_Un by (intro Un_least)
qed

lemma remote_tokens_names:
  assumes "remote_tokens a r = Some tokens"
  shows "fst ` set tokens \<subseteq> {''Lotor-Key-Claim-Token'', ''Lotor-Link-Token'', ''Lotor-Payload-Token'', ''Lotor-Execution-Token''}"
  using assms unfolding remote_tokens_def Let_def by (rule four_tokens) (erule cookie_header_names)+

lemma if_Inl_InrD: "(if c then Inl e else Inr x) = Inr y \<Longrightarrow> y = x"
  by (cases c) simp_all

lemma mem_if_list: "x \<in> set (if b then xs else ys) \<longleftrightarrow> b \<and> x \<in> set xs \<or> \<not> b \<and> x \<in> set ys"
  by simp

lemma remote_headers_facts:
  assumes "remote_tokens a r = Some tokens" and "remote_headers a r tokens = Inr headers"
  shows "(''X-Lotor-Secret-Key'', v) \<in> set headers \<longleftrightarrow> \<not> native_route r \<and> v = ac_SecretKey (ad_config a)"
    and "(''Authorization'', v) \<in> set headers \<longleftrightarrow> (adapter_path r = ''/session'' \<or> native_route r)
      \<and> cookieValue r (fst (adapter_names a)) \<noteq> [] \<and> v = ''Bearer '' @ cookieValue r (fst (adapter_names a))"
proof -
  have "k \<in> fst ` set tokens" if "(k, v) \<in> set tokens" for k v
    using that by force
  then have tokens: "(''X-Lotor-Secret-Key'', v) \<notin> set tokens" "(''Authorization'', v) \<notin> set tokens" for v
    using remote_tokens_names [OF assms(1)] by blast+
  have headers: "headers = tokens
        @ (if native_route r then [] else [(''X-Lotor-Secret-Key'', ac_SecretKey (ad_config a))])
        @ [(''X-Lotor-Publishable-Key'', ac_PublishableKey (ad_config a))]
        @ (if aq_Header r ''X-Lotor-Request'' = ''lotor-js-v1'' then [(''X-Lotor-Request'', ''lotor-js-v1'')] else [])
        @ [(''Content-Type'', ''application/json''), (''Accept'', ''application/json'')]
        @ (if aq_Header r ''Idempotency-Key'' \<noteq> [] then [(''Idempotency-Key'', aq_Header r ''Idempotency-Key'')] else [])
        @ (if (adapter_path r = ''/session'' \<or> native_route r) \<and> cookieValue r (fst (adapter_names a)) \<noteq> []
           then [(''Authorization'', ''Bearer '' @ cookieValue r (fst (adapter_names a)))] else [])"
    using assms(2) unfolding remote_headers_def Let_def by (rule if_Inl_InrD)
  show "(''X-Lotor-Secret-Key'', v) \<in> set headers \<longleftrightarrow> \<not> native_route r \<and> v = ac_SecretKey (ad_config a)"
    unfolding headers set_append Un_iff mem_if_list using tokens(1) by simp
  show "(''Authorization'', v) \<in> set headers \<longleftrightarrow> (adapter_path r = ''/session'' \<or> native_route r)
      \<and> cookieValue r (fst (adapter_names a)) \<noteq> [] \<and> v = ''Bearer '' @ cookieValue r (fst (adapter_names a))"
    unfolding headers set_append Un_iff mem_if_list using tokens(2) by simp
qed

text \<open>Provisioning endpoints are not on the browser's list.\<close>

lemma provisioning_not_native:
  assumes "path_unescape s \<noteq> None" "CHR ''/'' \<notin> set s"
  shows "\<not> resourceRoute meth (adapter_prefix @ ''/resource-types/'' @ s)"
proof -
  have "split_on (CHR ''/'') (''resource-types/'' @ s) = [''resource-types'', s]"
    using split_on_append [of "CHR ''/''" "''resource-types''" s] split_on_none [OF assms(2)] by simp
  then show ?thesis
    by (simp add: resourceRoute_def adapter_prefix_def has_prefix_def parts_route_def Let_def split: option.split)
qed

lemma adapter_answer_cookies:
  "list_all (\<lambda>c. ck_SameSiteStrict c \<and> ck_Secure c = ad_secure a \<and> (ck_HttpOnly c \<or> ck_Name c = fst (snd (adapter_names a))))
     (as_Cookies (adapter_answer env a random headers r resp))"
proof -
  have token: "token_cookie env a b name token path age = Some cs \<Longrightarrow>
      list_all (\<lambda>c. ck_SameSiteStrict c \<and> ck_Secure c = ad_secure a \<and> (ck_HttpOnly c \<or> ck_Name c = fst (snd (adapter_names a)))) cs"
    for b name token path age cs
    by (auto simp: token_cookie_def adapter_cookie_def split: if_splits)
  have answer: "answer_cookies env a r resp = Some cs \<Longrightarrow>
      list_all (\<lambda>c. ck_SameSiteStrict c \<and> ck_Secure c = ad_secure a \<and> (ck_HttpOnly c \<or> ck_Name c = fst (snd (adapter_names a)))) cs" for cs
    unfolding answer_cookies_def Let_def by (auto split: option.splits dest!: token)
  have verified: "list_all (\<lambda>c. ck_SameSiteStrict c \<and> ck_Secure c = ad_secure a \<and> (ck_HttpOnly c \<or> ck_Name c = fst (snd (adapter_names a))))
      (as_Cookies (finishVerification env a random headers payload claim))" for payload claim
    by (auto simp: finishVerification_def http_Error_def adapter_cookie_def adapter_names_def Let_def split: option.splits)
  show ?thesis
    using answer verified
    by (auto simp: adapter_answer_def adapter_fail_def http_Error_def clearCookies_def adapter_cookie_def Let_def
        split: option.splits prod.splits)
qed

lemma verify_body_not_payload:
  "adapter_path r = ''/auth/passwordless/verify'' \<Longrightarrow> as_Body (adapter_answer env a random headers r resp) \<noteq> Payload p"
  by (auto simp: adapter_answer_def finishVerification_def adapter_fail_def http_Error_def Let_def
      split: option.splits prod.splits)

section \<open>A deployment\<close>

text \<open>An HTTPS origin whose user reads one resource with a session cookie.\<close>

definition aw_url :: go_url where
  "aw_url = \<lparr>u_Scheme = ''https'', u_Opaque = [], u_User = False, u_Host = ''app.example'', u_Path = [], u_RawPath = [],
     u_ForceQuery = False, u_RawQuery = [], u_Fragment = []\<rparr>"

definition aw_env :: adapter_env where
  "aw_env = \<lparr>ae_net = \<lparr>url_Parse = (\<lambda>s. Some (if s = ''https://control.example'' then aw_url\<lparr>u_Host := ''control.example''\<rparr> else aw_url)),
       url_ParseRequestURI = (\<lambda>s. Some aw_url), netip_ParseAddr = (\<lambda>s. None),
       strings_ToLower = (\<lambda>s. s), strings_EqualFold = (=)\<rparr>,
     ae_URLString = (\<lambda>u. u_Scheme u @ ''://'' @ u_Host u), ae_ParseQuery = (\<lambda>s. None), ae_json_Valid = (\<lambda>b. True),
     ae_CookieValid = (\<lambda>n v. True), ae_Verified = table_codec []\<rparr>"

definition aw_config :: adapter_Config where
  "aw_config = \<lparr>ac_APIURL = ''https://control.example'', ac_BrowserOrigin = ''https://app.example'', ac_ClientID = ''app_1'',
     ac_PublishableKey = ''pk_1'', ac_SecretKey = ''sk_1''\<rparr>"

definition aw_adapter :: Adapter where
  "aw_adapter = \<lparr>ad_origin = aw_url, ad_config = aw_config, ad_secure = True\<rparr>"

definition aw_request :: adapter_request where
  "aw_request = \<lparr>aq_Method = ''GET'', aq_Host = ''app.example'', aq_Path = ''/.lotor/v1/resources/doc'',
     aq_EscapedPath = ''/.lotor/v1/resources/doc'', aq_RawPath = [], aq_RawQuery = [], aq_ForceQuery = False,
     aq_Header = (\<lambda>h. if h = ''X-Lotor-Publishable-Key'' then ''pk_1'' else []),
     aq_Cookies = [(''__Host-lotor_session'', ''tok'')], aq_ContentLength = 0, aq_Body = ([], False)\<rparr>"

lemmas aw_sel = aw_request_def aw_adapter_def aw_config_def aw_env_def aw_url_def

lemmas aw_simps = adapter_names_def cookieValue_def equal_secret_def validResourceQuery_def application_route_def
  adapter_path_def adapter_prefix_def request_limit_def bodyLimit_def executionBodyLimit_def remote_tokens_def
  cookie_header_def remote_headers_def has_prefix_def has_suffix_def

lemma aw_route: "native_route aw_request"
proof -
  have "split_on (CHR ''/'') ''resources/doc'' = [''resources'', ''doc'']" "path_unescape ''doc'' = Some ''doc''"
    by code_simp+
  moreover have "segment_ok ''doc''"
    by (simp add: segment_ok_def validValue_def) code_simp
  ultimately show ?thesis
    by (simp add: resourceRoute_def parts_route_def aw_request_def adapter_prefix_def has_prefix_def)
qed

section \<open>Properties\<close>

text \<open>
  \<^bold>\<open>C25\<close> The cookie boundary. At most one request goes to Control, and only from the configured host with
  the publishable key. The application's secret is sent on the six application endpoints only; a request on
  a resource route carries the user's session and nothing else, and a changing one has passed the exact
  origin and the double-submit check. Logging in never borrows a session. Every cookie set is same-site
  strict, secure on a secure origin, and hidden from scripts except the CSRF value; the answer of a login,
  which holds the access token, is never passed to the page.
\<close>

theorem adapter_boundary:
  assumes "adapter_ServeHTTP env net random a outer r = (resp, sent)"
  shows "length sent \<le> 1
    \<and> list_all (\<lambda>remote.
        aq_Host r = u_Host (ad_origin a) \<and> aq_Header r ''X-Lotor-Publishable-Key'' = ac_PublishableKey (ad_config a)
        \<and> has_prefix (rm_URL remote) (adapter_base a)
        \<and> (if native_route r
           then (\<forall>v. (''X-Lotor-Secret-Key'', v) \<notin> set (rm_Header remote))
             \<and> (''Authorization'', ''Bearer '' @ cookieValue r (fst (adapter_names a))) \<in> set (rm_Header remote)
             \<and> (aq_Method r = ''GET'' \<or> aq_Header r ''Origin'' = ac_BrowserOrigin (ad_config a)
                  \<and> equal_secret (cookieValue r (fst (snd (adapter_names a)))) (aq_Header r ''X-Lotor-CSRF''))
           else application_route r
             \<and> (adapter_path r = ''/session'' \<or> (\<forall>v. (''Authorization'', v) \<notin> set (rm_Header remote))))) sent
    \<and> list_all (\<lambda>c. ck_SameSiteStrict c \<and> ck_Secure c = ad_secure a \<and> (ck_HttpOnly c \<or> ck_Name c = fst (snd (adapter_names a))))
        (as_Cookies resp)
    \<and> (adapter_path r \<noteq> ''/auth/passwordless/verify'' \<or> (\<forall>p. as_Body resp \<noteq> Payload p))"
proof -
  have sent: "sent = [] \<or> (\<exists>remote. adapter_remote env a r = Inr remote \<and> sent = [remote])"
    using assms by (auto simp: adapter_ServeHTTP_def Let_def split: sum.splits option.splits)
  have cookies: "list_all (\<lambda>c. ck_SameSiteStrict c \<and> ck_Secure c = ad_secure a \<and> (ck_HttpOnly c \<or> ck_Name c = fst (snd (adapter_names a))))
        (as_Cookies resp)"
    using assms adapter_answer_cookies
    by (auto simp: adapter_ServeHTTP_def adapter_fail_def http_Error_def Let_def split: sum.splits option.splits)
  have body: "adapter_path r \<noteq> ''/auth/passwordless/verify'' \<or> (\<forall>p. as_Body resp \<noteq> Payload p)"
    using assms verify_body_not_payload
    by (auto simp: adapter_ServeHTTP_def adapter_fail_def http_Error_def Let_def split: sum.splits option.splits)
  have remote: "aq_Host r = u_Host (ad_origin a) \<and> aq_Header r ''X-Lotor-Publishable-Key'' = ac_PublishableKey (ad_config a)
        \<and> has_prefix (rm_URL remote) (adapter_base a)
        \<and> (if native_route r
           then (\<forall>v. (''X-Lotor-Secret-Key'', v) \<notin> set (rm_Header remote))
             \<and> (''Authorization'', ''Bearer '' @ cookieValue r (fst (adapter_names a))) \<in> set (rm_Header remote)
             \<and> (aq_Method r = ''GET'' \<or> aq_Header r ''Origin'' = ac_BrowserOrigin (ad_config a)
                  \<and> equal_secret (cookieValue r (fst (snd (adapter_names a)))) (aq_Header r ''X-Lotor-CSRF''))
           else application_route r
             \<and> (adapter_path r = ''/session'' \<or> (\<forall>v. (''Authorization'', v) \<notin> set (rm_Header remote))))"
    if forwarded: "adapter_remote env a r = Inr remote" for remote
  proof -
    obtain body tokens headers where b: "adapter_checks env a r = Inr body" "remote_tokens a r = Some tokens"
        "remote_headers a r tokens = Inr headers" "rm_Header remote = headers"
        "has_prefix (rm_URL remote) (adapter_base a)"
      by (rule adapter_remote_Inr [OF forwarded])
    show ?thesis
      using adapter_checks_Inr [OF b(1)] remote_headers_facts [OF b(2,3)] b(4,5) by auto
  qed
  show ?thesis
    using sent cookies body remote by auto
qed

theorem adapter_boundary_witness:
  "adapter_New aw_env aw_config = Ok aw_adapter
   \<and> (\<exists>resp remote. adapter_ServeHTTP aw_env (\<lambda>q. None) None aw_adapter [] aw_request = (resp, [remote])
     \<and> has_prefix (rm_URL remote) (adapter_base aw_adapter)
     \<and> (\<forall>v. (''X-Lotor-Secret-Key'', v) \<notin> set (rm_Header remote))
     \<and> (''Authorization'', ''Bearer tok'') \<in> set (rm_Header remote))"
proof -
  have "adapter_New aw_env aw_config = Ok aw_adapter"
    by code_simp
  moreover obtain resp remote where run: "adapter_ServeHTTP aw_env (\<lambda>q. None) None aw_adapter [] aw_request = (resp, [remote])"
  proof -
    have "\<not> isl (adapter_remote aw_env aw_adapter aw_request)"
      using aw_route by (simp add: adapter_remote_def adapter_checks_def aw_sel aw_simps)
    then obtain remote where "adapter_remote aw_env aw_adapter aw_request = Inr remote"
      by (cases "adapter_remote aw_env aw_adapter aw_request") simp_all
    then have "snd (adapter_ServeHTTP aw_env (\<lambda>q. None) None aw_adapter [] aw_request) = [remote]"
      by (simp only: adapter_ServeHTTP_def Let_def sum.case option.case snd_conv)
    then show ?thesis
      using that by (metis prod.collapse)
  qed
  moreover have "cookieValue aw_request (fst (adapter_names aw_adapter)) = ''tok''"
    by (simp add: aw_sel aw_simps)
  ultimately show ?thesis
    using adapter_boundary [OF run] aw_route by auto
qed

end
