(* ===== verification/Control_Client.thy ===== *)
theory Control_Client
  imports Control_Url Go_Json Go_Time
begin

text \<open>
  \<^verbatim>\<open>lotorhttp/control_client.go\<close>: the client of the public Control API. Its construction and
  delegation, the request every operation is made of, and polling of a durable operation. The network
  answers the history of requests, so that it may behave differently on every request; the operations
  return the history they leave.
\<close>

section \<open>JSON values of the requests\<close>

text \<open>
  The value \<open>json.Marshal\<close> writes: structs are objects with their fields in order under the names of
  their tags, \<open>omitempty\<close> leaves a zero field out. The text of a value is a parameter; \<open>JBytes\<close> is a \<open>[]byte\<close> and \<open>JTime\<close>
  a \<open>time.Time\<close>, whose text is an encoding of its own.
\<close>

datatype json =
    JStr string | JInt int | JBool bool | JArr "json list" | JObj "(string \<times> json) list" | JRaw bytes | JBytes bytes
  | JTime go_time | JNull

definition omit_str :: "string \<Rightarrow> string \<Rightarrow> (string \<times> json) list" where
  "omit_str name s = (if s = [] then [] else [(name, JStr s)])"

definition omit_int :: "string \<Rightarrow> i64 \<Rightarrow> (string \<times> json) list" where
  "omit_int name i = (if i = 0 then [] else [(name, JInt (sint i))])"

definition omit_nat :: "string \<Rightarrow> int \<Rightarrow> (string \<times> json) list" where
  "omit_nat name i = (if i = 0 then [] else [(name, JInt i)])"

definition omit_bool :: "string \<Rightarrow> bool \<Rightarrow> (string \<times> json) list" where
  "omit_bool name b = (if b then [(name, JBool True)] else [])"

text \<open>A pointer, slice or map that may be \<open>nil\<close>: written as \<open>null\<close>, and left out by \<open>omitempty\<close> when it is
  \<open>nil\<close> or, for slices and maps, empty.\<close>

definition omit_opt :: "string \<Rightarrow> ('a \<Rightarrow> json) \<Rightarrow> 'a option \<Rightarrow> (string \<times> json) list" where
  "omit_opt name enc v = (case v of None \<Rightarrow> [] | Some x \<Rightarrow> [(name, enc x)])"

definition json_list :: "('a \<Rightarrow> json) \<Rightarrow> 'a list option \<Rightarrow> json" where
  "json_list enc s = (case s of None \<Rightarrow> JNull | Some xs \<Rightarrow> JArr (map enc xs))"

definition omit_list :: "string \<Rightarrow> ('a \<Rightarrow> json) \<Rightarrow> 'a list option \<Rightarrow> (string \<times> json) list" where
  "omit_list name enc s = (case s of None \<Rightarrow> [] | Some xs \<Rightarrow> if xs = [] then [] else [(name, JArr (map enc xs))])"

abbreviation json_strs :: "string list option \<Rightarrow> json" where
  "json_strs \<equiv> json_list JStr"

abbreviation omit_strs :: "string \<Rightarrow> string list option \<Rightarrow> (string \<times> json) list" where
  "omit_strs name \<equiv> omit_list name JStr"

definition json_smap :: "(string \<times> string) list option \<Rightarrow> json" where
  "json_smap m = (case m of None \<Rightarrow> JNull | Some es \<Rightarrow> JObj (map (\<lambda>(k, v). (k, JStr v)) es))"

definition omit_smap :: "string \<Rightarrow> (string \<times> string) list option \<Rightarrow> (string \<times> json) list" where
  "omit_smap name m = (case m of None \<Rightarrow> [] | Some es \<Rightarrow> if es = [] then [] else [(name, json_smap m)])"

definition json_bytes :: "bytes option \<Rightarrow> json" where
  "json_bytes b = (case b of None \<Rightarrow> JNull | Some bs \<Rightarrow> JBytes bs)"

section \<open>The client\<close>

record ControlClient =
  cc_baseURL :: string
  cc_clientID :: string
  cc_secretKey :: string
  cc_userToken :: string

record ControlClientOptions =
  co_BaseURL :: string
  co_ClientID :: string
  co_SecretKey :: string

datatype control_error =
    ControlError (ce_Code: string) (ce_Message: string) (ce_Status: int)
  | ClientError string
  | BridgeError string
  | TransportError
  | ContextError

text \<open>
  What is outside the sources: the URL parser, the address parser, \<open>json.Marshal\<close> on values, the two
  fields read from a problem document (with the error of \<open>json.Unmarshal\<close> ignored),
  \<open>json.Unmarshal\<close> into a \<open>json.RawMessage\<close>, the text of a URL and the canonical form of a header name.
\<close>

record api_env =
  api_net :: net_env
  api_IPLoopback :: "string \<Rightarrow> bool"
  api_Marshal :: "json \<Rightarrow> bytes option"
  api_Problem :: "bytes \<Rightarrow> string \<times> string"
  api_RawMessage :: "bytes \<Rightarrow> bytes option"
  api_URLString :: "go_url \<Rightarrow> string"
  api_CanonicalHeader :: "string \<Rightarrow> string"

definition NewControlClient :: "api_env \<Rightarrow> ControlClientOptions \<Rightarrow> (control_error, ControlClient) outcome" where
  "NewControlClient env options =
     (case validatedControlURL (api_net env) (api_IPLoopback env) (co_BaseURL options) of
        Fail e \<Rightarrow> Fail (ClientError e)
      | Panic \<Rightarrow> Panic
      | Ok base \<Rightarrow>
          let clientID = trim_space (co_ClientID options); secret = trim_space (co_SecretKey options) in
          if clientID = [] \<or> secret = [] then Fail (ClientError ''client ID and secret key are required'')
          else Ok \<lparr>cc_baseURL = base, cc_clientID = clientID, cc_secretKey = secret, cc_userToken = []\<rparr>)"

definition ForUser :: "ControlClient \<Rightarrow> string \<Rightarrow> (control_error, ControlClient) outcome" where
  "ForUser c token =
     (let accessToken = trim_space token in
      if accessToken = [] \<or> list_ex (\<lambda>ch. ch = CHR 0x0D \<or> ch = CHR 0x0A) accessToken
      then Fail (ClientError ''user access token is required and must not contain line breaks'')
      else Ok (c\<lparr>cc_userToken := accessToken\<rparr>))"

section \<open>Requests\<close>

record control_call =
  cl_Method :: string
  cl_URL :: string
  cl_Header :: http_header
  cl_Body :: "bytes option"

text \<open>A reply: its status and header, the bytes of its body, and whether reading fails after them.\<close>

record control_reply =
  cr_Status :: int
  cr_Header :: http_header
  cr_Body :: bytes
  cr_Broken :: bool

type_synonym control_net = "control_call list \<Rightarrow> control_reply option"
type_synonym 'a control_op = "control_call list \<Rightarrow> (control_error, 'a) outcome \<times> control_call list"

definition op_fail :: "control_error \<Rightarrow> 'a control_op" where
  "op_fail e = (\<lambda>log. (Fail e, log))"

definition op_return :: "'a \<Rightarrow> 'a control_op" where
  "op_return a = (\<lambda>log. (Ok a, log))"

definition op_bind :: "'a control_op \<Rightarrow> ('a \<Rightarrow> 'b control_op) \<Rightarrow> 'b control_op" where
  "op_bind m f = (\<lambda>log. case m log of
     (Ok a, log') \<Rightarrow> f a log' | (Fail e, log') \<Rightarrow> (Fail e, log') | (Panic, log') \<Rightarrow> (Panic, log'))"

definition op_lift :: "(control_error, 'a) outcome \<Rightarrow> 'a control_op" where
  "op_lift r = (\<lambda>log. (r, log))"

definition requiredControl :: "string \<Rightarrow> string" where
  "requiredControl v = trim_space v"

definition control_headers :: "ControlClient \<Rightarrow> bool \<Rightarrow> string \<Rightarrow> http_header \<Rightarrow> http_header" where
  "control_headers c has_body key extra =
     [(''Accept'', ''application/json''), (''X-Lotor-Secret-Key'', cc_secretKey c)]
     @ (if cc_userToken c \<noteq> [] then [(''Authorization'', ''Bearer '' @ cc_userToken c)] else [])
     @ (if has_body then [(''Content-Type'', ''application/json'')] else [])
     @ (if key \<noteq> [] then [(''Idempotency-Key'', requiredControl key)] else [])
     @ extra"

definition control_url :: "ControlClient \<Rightarrow> string \<Rightarrow> string" where
  "control_url c path = cc_baseURL c @ ''/v1/public/applications/'' @ path_escape (cc_clientID c) @ path"

text \<open>The request, where \<open>None\<close> is a \<open>nil\<close> body.\<close>

definition control_request_of ::
  "api_env \<Rightarrow> ControlClient \<Rightarrow> string \<Rightarrow> string \<Rightarrow> string \<Rightarrow> http_header \<Rightarrow> json option \<Rightarrow> (control_error, control_call) outcome" where
  "control_request_of env c meth path key extra body =
     (case map_option (api_Marshal env) body of
        Some None \<Rightarrow> Fail (ClientError ''json'')
      | raw \<Rightarrow>
          if url_Parse (api_net env) (control_url c path) = None then Fail (ClientError ''url'')
          else Ok \<lparr>cl_Method = meth, cl_URL = control_url c path,
                   cl_Header = control_headers c (body \<noteq> None) key extra,
                   cl_Body = map_option the raw\<rparr>)"

definition decodeControlError :: "api_env \<Rightarrow> int \<Rightarrow> bytes \<Rightarrow> control_error" where
  "decodeControlError env status raw =
     (let (code, msg) = api_Problem env raw in
      ControlError (if code = [] then ''request_failed'' else code)
        (if msg = [] then ''Lotor request failed with status '' @ itoa status else msg) status)"

text \<open>
  Reading the reply. \<open>out\<close> is \<open>None\<close> for a \<open>nil\<close> destination; a destination that is left untouched, as
  on status 204, is the result \<open>None\<close>, which stands for the zero value.
\<close>

definition control_reply_of ::
  "api_env \<Rightarrow> nat \<Rightarrow> (bytes \<Rightarrow> 'o option) option \<Rightarrow> control_reply \<Rightarrow> (control_error, http_header \<times> 'o option) outcome" where
  "control_reply_of env limit out reply =
     (let raw = cr_Body reply in
      if length raw > limit then Fail (ClientError ''Lotor response exceeds limit'')
      else if cr_Broken reply then Fail TransportError
      else if cr_Status reply < 200 \<or> cr_Status reply \<ge> 300 then Fail (decodeControlError env (cr_Status reply) raw)
      else case out of
        None \<Rightarrow> Ok (cr_Header reply, None)
      | Some decode \<Rightarrow>
          if cr_Status reply = 204 then Ok (cr_Header reply, None)
          else (case decode raw of
                  None \<Rightarrow> Fail (ClientError ''invalid Lotor response'')
                | Some v \<Rightarrow> Ok (cr_Header reply, Some v)))"

definition requestHeadersLimit ::
  "api_env \<Rightarrow> control_net \<Rightarrow> ControlClient \<Rightarrow> string \<Rightarrow> string \<Rightarrow> string \<Rightarrow> http_header \<Rightarrow> json option \<Rightarrow>
   (bytes \<Rightarrow> 'o option) option \<Rightarrow> nat \<Rightarrow> (http_header \<times> 'o option) control_op" where
  "requestHeadersLimit env net c meth path key extra body out limit log =
     (case control_request_of env c meth path key extra body of
        Fail e \<Rightarrow> (Fail e, log)
      | Panic \<Rightarrow> (Panic, log)
      | Ok call \<Rightarrow>
          let log' = log @ [call] in
          (case net log' of
             None \<Rightarrow> (Fail TransportError, log')
           | Some reply \<Rightarrow> (control_reply_of env limit out reply, log')))"

definition requestHeaders ::
  "api_env \<Rightarrow> control_net \<Rightarrow> ControlClient \<Rightarrow> string \<Rightarrow> string \<Rightarrow> string \<Rightarrow> http_header \<Rightarrow> json option \<Rightarrow>
   (bytes \<Rightarrow> 'o option) option \<Rightarrow> (http_header \<times> 'o option) control_op" where
  "requestHeaders env net c meth path key extra body out =
     requestHeadersLimit env net c meth path key extra body out 4194304"

definition api_request ::
  "api_env \<Rightarrow> control_net \<Rightarrow> ControlClient \<Rightarrow> string \<Rightarrow> string \<Rightarrow> string \<Rightarrow> json option \<Rightarrow>
   (bytes \<Rightarrow> 'o option) option \<Rightarrow> 'o option control_op" where
  "api_request env net c meth path key body out =
     op_bind (requestHeaders env net c meth path key [] body out) (\<lambda>(_, v). op_return v)"

section \<open>Paths\<close>

definition resourcePath :: "string \<Rightarrow> string" where
  "resourcePath r = ''/resources/'' @ path_escape (requiredControl r)"

definition resourcePayloadPath :: "string \<Rightarrow> string \<Rightarrow> string" where
  "resourcePayloadPath r slot = resourcePath r @ ''/payloads/'' @ path_escape (requiredControl slot)"

definition pagination :: "string \<Rightarrow> int \<Rightarrow> string" where
  "pagination cursor limit =
     (let q1 = (if cursor \<noteq> [] then values_set [] ''cursor'' cursor else []);
          q2 = (if limit > 0 then values_set q1 ''limit'' (itoa limit) else q1)
      in encoded_query q2)"

section \<open>Durable operations\<close>

record DurableOperation =
  op_ID :: string
  op_Kind :: string
  op_Status :: string
  op_TargetKind :: string
  op_TargetID :: string
  op_RequestHash :: string
  op_ErrorCode :: string
  op_CreatedAt :: i64
  op_UpdatedAt :: i64

definition zero_DurableOperation :: DurableOperation where
  "zero_DurableOperation = \<lparr>op_ID = [], op_Kind = [], op_Status = [], op_TargetKind = [], op_TargetID = [],
     op_RequestHash = [], op_ErrorCode = [], op_CreatedAt = 0, op_UpdatedAt = 0\<rparr>"

type_synonym 'a reader = "bytes \<Rightarrow> 'a option"

definition operationRequest ::
  "api_env \<Rightarrow> DurableOperation reader \<Rightarrow> control_net \<Rightarrow> ControlClient \<Rightarrow> string \<Rightarrow> string \<Rightarrow> string \<Rightarrow> json option \<Rightarrow>
   DurableOperation control_op" where
  "operationRequest env rd net c meth path key body =
     op_bind (api_request env net c meth path key body (Some rd))
       (\<lambda>v. op_return (case v of None \<Rightarrow> zero_DurableOperation | Some d \<Rightarrow> d))"

definition Operation :: "api_env \<Rightarrow> DurableOperation reader \<Rightarrow> control_net \<Rightarrow> ControlClient \<Rightarrow> string \<Rightarrow> DurableOperation control_op" where
  "Operation env rd net c ident =
     operationRequest env rd net c ''GET'' (''/operations/'' @ path_escape (requiredControl ident)) [] None"

record OperationWaitOptions =
  wo_MaxAttempts :: int
  wo_Interval :: int

text \<open>
  The caller's Go context over the wait: whether it is over at the check before an attempt, and
  whether it ends the pause after it (where Go may choose either when both are ready).
\<close>

record wait_context =
  wc_Err :: "nat \<Rightarrow> bool"
  wc_Done :: "nat \<Rightarrow> bool"

fun wait_attempts ::
  "DurableOperation control_op \<Rightarrow> wait_context \<Rightarrow> nat \<Rightarrow> nat \<Rightarrow> DurableOperation control_op" where
  "wait_attempts poll ctx attempt 0 = op_fail (ClientError ''Lotor operation exceeded max attempts'')"
| "wait_attempts poll ctx attempt (Suc left) =
     (if wc_Err ctx attempt then op_fail ContextError
      else op_bind poll (\<lambda>operation.
        if op_Status operation \<in> set [''succeeded'', ''failed'', ''cancelled''] then op_return operation
        else if op_Status operation \<in> set [''pending'', ''running''] then
          (if 0 < left \<and> wc_Done ctx attempt then op_fail ContextError
           else wait_attempts poll ctx (Suc attempt) left)
        else op_fail (ClientError ''invalid Lotor operation status'')))"

definition effective_attempts :: "OperationWaitOptions \<Rightarrow> int" where
  "effective_attempts options = (if wo_MaxAttempts options = 0 then 120 else wo_MaxAttempts options)"

definition effective_interval :: "OperationWaitOptions \<Rightarrow> int" where
  "effective_interval options = (if wo_Interval options = 0 then 500000000 else wo_Interval options)"

definition WaitForOperation ::
  "api_env \<Rightarrow> DurableOperation reader \<Rightarrow> control_net \<Rightarrow> ControlClient \<Rightarrow> wait_context \<Rightarrow> string \<Rightarrow> OperationWaitOptions \<Rightarrow>
   DurableOperation control_op" where
  "WaitForOperation env rd net c ctx ident options =
     (if effective_attempts options < 1 \<or> effective_attempts options > 10000
         \<or> effective_interval options < 0 \<or> effective_interval options > 60000000000
      then op_fail (ClientError ''invalid operation wait options'')
      else wait_attempts (Operation env rd net c ident) ctx 0 (nat (effective_attempts options)))"

section \<open>Operations that succeed\<close>

lemma op_bind_Ok:
  "op_bind m f log = (Ok b, log'') \<longleftrightarrow> (\<exists>a log'. m log = (Ok a, log') \<and> f a log' = (Ok b, log''))"
  by (auto simp: op_bind_def split: prod.split outcome.split)

lemma op_lift_Ok: "op_lift r log = (Ok b, log') \<longleftrightarrow> r = Ok b \<and> log' = log"
  by (auto simp: op_lift_def)

lemma op_return_Ok: "op_return a log = (r, log') \<longleftrightarrow> r = Ok a \<and> log' = log"
  by (auto simp: op_return_def)

lemma op_fail_Ok: "op_fail e log = (r, log') \<longleftrightarrow> r = Fail e \<and> log' = log"
  by (auto simp: op_fail_def)

lemmas op_Ok = op_bind_Ok op_lift_Ok op_return_Ok op_fail_Ok

lemma op_bind_sent: "fst (m log) = Ok a \<Longrightarrow> op_bind m f log = f a (snd (m log))"
  by (cases "m log") (simp add: op_bind_def)

section \<open>What the operations send\<close>

text \<open>Running an operation appends requests to the history, each of which satisfies a predicate.\<close>

definition sends :: "(control_call \<Rightarrow> bool) \<Rightarrow> 'a control_op \<Rightarrow> bool" where
  "sends P m \<longleftrightarrow> (\<forall>log. \<exists>calls. snd (m log) = log @ calls \<and> list_all P calls)"

named_theorems sends_intros \<open>rules for the requests of an operation\<close>

lemma sends_op_fail [sends_intros]: "sends P (op_fail e)"
  by (auto simp: sends_def op_fail_def intro: exI [of _ "[]"])

lemma sends_op_return [sends_intros]: "sends P (op_return a)"
  by (auto simp: sends_def op_return_def intro: exI [of _ "[]"])

lemma sends_op_lift [sends_intros]: "sends P (op_lift r)"
  by (auto simp: sends_def op_lift_def intro: exI [of _ "[]"])

lemma sends_op_bind [sends_intros]:
  assumes "sends P m" "\<And>a. sends P (f a)"
  shows "sends P (op_bind m f)"
  unfolding sends_def
proof
  fix log
  obtain r log' where m: "m log = (r, log')"
    by (cases "m log")
  obtain calls where calls: "log' = log @ calls" "list_all P calls"
    using assms(1) m unfolding sends_def by (metis snd_conv)
  show "\<exists>calls. snd (op_bind m f log) = log @ calls \<and> list_all P calls"
  proof (cases r)
    case (Ok a)
    obtain calls' where "snd (f a log') = log' @ calls'" "list_all P calls'"
      using assms(2) unfolding sends_def by blast
    with m Ok calls show ?thesis
      by (auto simp: op_bind_def intro: exI [of _ "calls @ calls'"])
  qed (use m calls in \<open>auto simp: op_bind_def\<close>)
qed

lemma sends_if [sends_intros]: "sends P m \<Longrightarrow> sends P n \<Longrightarrow> sends P (if b then m else n)"
  by simp

lemma sends_prod [sends_intros]: "(\<And>a b. sends P (f a b)) \<Longrightarrow> sends P (case x of (a, b) \<Rightarrow> f a b)"
  by (cases x) simp

lemma sends_option [sends_intros]:
  "sends P m \<Longrightarrow> (\<And>a. sends P (f a)) \<Longrightarrow> sends P (case x of None \<Rightarrow> m | Some a \<Rightarrow> f a)"
  by (cases x) simp_all

lemma sends_Let [sends_intros]: "(\<And>a. sends P (f a)) \<Longrightarrow> sends P (let a = x in f a)"
  by simp

lemma sends_wait_attempts [sends_intros]: "sends P poll \<Longrightarrow> sends P (wait_attempts poll ctx attempt left)"
  by (induction left arbitrary: attempt) (auto intro!: sends_intros)

text \<open>
  Every operation is built from requests of its client. What holds of each of those requests therefore
  holds of all the operation sends; extra headers never carry an authority of their own.
\<close>

definition plain_headers :: "http_header \<Rightarrow> bool" where
  "plain_headers extra \<longleftrightarrow> list_all (\<lambda>e. fst e \<noteq> ''Authorization'' \<and> fst e \<noteq> ''X-Lotor-Secret-Key'') extra"

lemma plain_headers_simps [simp]:
  "plain_headers []"
  "plain_headers (e # es) \<longleftrightarrow> fst e \<noteq> ''Authorization'' \<and> fst e \<noteq> ''X-Lotor-Secret-Key'' \<and> plain_headers es"
  by (simp_all add: plain_headers_def)

locale client_policy =
  fixes env :: api_env and c :: ControlClient and allowed :: "control_call \<Rightarrow> bool"
  assumes allowed_call:
    "plain_headers extra \<Longrightarrow> control_request_of env c meth path key extra body = Ok call \<Longrightarrow> allowed call"
begin

lemma sends_requestHeadersLimit [sends_intros]:
  "plain_headers extra \<Longrightarrow> sends allowed (requestHeadersLimit env net c meth path key extra body out limit)"
  unfolding sends_def requestHeadersLimit_def Let_def
  by (auto split: outcome.split option.split dest: allowed_call)

lemma sends_requestHeaders [sends_intros]:
  "plain_headers extra \<Longrightarrow> sends allowed (requestHeaders env net c meth path key extra body out)"
  by (simp add: requestHeaders_def sends_requestHeadersLimit)

lemma sends_api_request [sends_intros]: "sends allowed (api_request env net c meth path key body out)"
  by (auto simp: api_request_def intro!: sends_intros)

lemma sends_operationRequest [sends_intros]: "sends allowed (operationRequest env rd net c meth path key body)"
  by (auto simp: operationRequest_def intro!: sends_intros)

lemma sends_Operation [sends_intros]: "sends allowed (Operation env rd net c ident)"
  by (simp add: Operation_def sends_operationRequest)

lemma sends_WaitForOperation [sends_intros]: "sends allowed (WaitForOperation env rd net c ctx ident options)"
  by (simp add: WaitForOperation_def sends_intros)

end

text \<open>The policy of every client: its own application under its own base URL, with its own secret and the token
  of its user, if it acts for one.\<close>

definition control_base :: "ControlClient \<Rightarrow> string" where
  "control_base c = cc_baseURL c @ ''/v1/public/applications/'' @ path_escape (cc_clientID c)"

definition addressed :: "ControlClient \<Rightarrow> control_call \<Rightarrow> bool" where
  "addressed c call \<longleftrightarrow> has_prefix (cl_URL call) (control_base c)
     \<and> header_get (cl_Header call) ''X-Lotor-Secret-Key'' = cc_secretKey c
     \<and> header_get (cl_Header call) ''Authorization'' = (if cc_userToken c = [] then [] else ''Bearer '' @ cc_userToken c)"

lemma plain_headers_get:
  "plain_headers extra \<Longrightarrow> filter (\<lambda>e. fst e = ''Authorization'') extra = []"
  by (auto simp: plain_headers_def list_all_iff filter_empty_conv)

lemma control_request_of_Ok:
  assumes "control_request_of env c meth path key extra body = Ok call"
  shows "cl_URL call = control_base c @ path" "cl_Header call = control_headers c (body \<noteq> None) key extra" "cl_Method call = meth"
  using assms by (auto simp: control_request_of_def control_url_def control_base_def split: option.splits if_splits)

lemma control_headers_authority:
  assumes "plain_headers extra"
  shows "header_get (control_headers c b key extra) ''X-Lotor-Secret-Key'' = cc_secretKey c"
    and "header_get (control_headers c b key extra) ''Authorization'' = (if cc_userToken c = [] then [] else ''Bearer '' @ cc_userToken c)"
  using plain_headers_get [OF assms] by (simp_all add: header_get_def control_headers_def)

interpretation control: client_policy env c "addressed c" for env c
proof
  fix extra meth path key body call
  assume "plain_headers extra" "control_request_of env c meth path key extra body = Ok call"
  then show "addressed c call"
    by (simp add: addressed_def control_request_of_Ok control_headers_authority has_prefix_def)
qed

section \<open>Polling\<close>

lemma Operation_polls:
  "\<exists>calls. snd (Operation env rd net c ident log) = log @ calls \<and> length calls \<le> 1"
  by (auto simp: Operation_def operationRequest_def api_request_def requestHeaders_def requestHeadersLimit_def
      op_bind_def op_return_def Let_def split: outcome.split option.split prod.split)

lemma wait_attempts_bound:
  assumes poll: "\<And>log. \<exists>calls. snd (poll log) = log @ calls \<and> length calls \<le> 1"
  shows "length (snd (wait_attempts poll ctx attempt left log)) \<le> length log + left"
proof (induction left arbitrary: attempt log)
  case (Suc left)
  have "length (snd (poll log)) \<le> Suc (length log)"
    using poll [of log] by auto
  then have "length (snd (wait_attempts poll ctx (Suc attempt) left (snd (poll log)))) \<le> length log + Suc left"
    using Suc [of "Suc attempt" "snd (poll log)"] by simp
  with poll [of log] show ?case
    by (auto simp: op_bind_def op_fail_def op_return_def split: prod.split outcome.split)
qed (simp add: op_fail_def)

abbreviation terminal_operation :: "DurableOperation \<Rightarrow> bool" where
  "terminal_operation operation \<equiv> op_Status operation \<in> set [''succeeded'', ''failed'', ''cancelled'']"

abbreviation running_operation :: "DurableOperation \<Rightarrow> bool" where
  "running_operation operation \<equiv> op_Status operation \<in> set [''pending'', ''running'']"

lemma running_not_terminal: "running_operation x \<Longrightarrow> \<not> terminal_operation x"
  by auto

lemma wait_attempts_Ok:
  "wait_attempts poll ctx attempt left log = (Ok operation, log') \<Longrightarrow>
     terminal_operation operation \<and> (\<exists>log0. poll log0 = (Ok operation, log'))"
proof (induction left arbitrary: attempt log)
  case (Suc left)
  then show ?case
    by (auto simp: op_bind_def op_fail_def op_return_def split: prod.splits outcome.splits if_splits)
qed (simp add: op_fail_def)

text \<open>The history after a number of polls.\<close>

fun after_polls :: "'a control_op \<Rightarrow> nat \<Rightarrow> control_call list \<Rightarrow> control_call list" where
  "after_polls poll 0 log = log"
| "after_polls poll (Suc n) log = after_polls poll n (snd (poll log))"

lemma wait_attempts_step:
  assumes "\<not> wc_Err ctx attempt" "poll log = (Ok operation, log')" "running_operation operation" "left > 0 \<longrightarrow> \<not> wc_Done ctx attempt"
  shows "wait_attempts poll ctx attempt (Suc left) log = wait_attempts poll ctx (Suc attempt) left log'"
proof -
  have "\<not> terminal_operation operation"
    using assms(3) by (rule running_not_terminal)
  then show ?thesis
    using assms by (auto simp: op_bind_def)
qed

text \<open>
  While the caller does not give up and the answers are not final, polling goes on: it returns the first
  final answer, or gives up after the last attempt.
\<close>

lemma wait_attempts_polls:
  assumes "\<And>i. i \<le> n \<Longrightarrow> \<not> wc_Err ctx (attempt + i)" "\<And>i. i < n \<Longrightarrow> \<not> wc_Done ctx (attempt + i)"
    and "\<And>i. i < n \<Longrightarrow> \<exists>x. fst (poll (after_polls poll i log)) = Ok x \<and> running_operation x"
  shows "wait_attempts poll ctx attempt (n + left) log = wait_attempts poll ctx (attempt + n) left (after_polls poll n log)"
  using assms
proof (induction n arbitrary: attempt log)
  case (Suc n)
  obtain x where x: "fst (poll log) = Ok x" "running_operation x"
    using Suc.prems(3) [of 0] by auto
  have "wait_attempts poll ctx attempt (Suc (n + left)) log = wait_attempts poll ctx (Suc attempt) (n + left) (snd (poll log))"
    using Suc.prems(1,2) [of 0] x by (intro wait_attempts_step) (auto simp: prod_eq_iff)
  also have "\<dots> = wait_attempts poll ctx (Suc attempt + n) left (after_polls poll n (snd (poll log)))"
  proof (rule Suc.IH)
    show "\<not> wc_Err ctx (Suc attempt + i)" if "i \<le> n" for i
      using Suc.prems(1) [of "Suc i"] that by simp
    show "\<not> wc_Done ctx (Suc attempt + i)" if "i < n" for i
      using Suc.prems(2) [of "Suc i"] that by simp
    show "\<exists>x. fst (poll (after_polls poll i (snd (poll log)))) = Ok x \<and> running_operation x" if "i < n" for i
      using Suc.prems(3) [of "Suc i"] that by simp
  qed
  finally show ?case by simp
qed simp

section \<open>A server that finishes an operation on the second poll\<close>

definition cw_env :: api_env where
  "cw_env = \<lparr>api_net = \<lparr>url_Parse = (\<lambda>s. Some \<lparr>u_Scheme = ''https'', u_Opaque = [], u_User = False, u_Host = ''control.example'',
         u_Path = [], u_RawPath = [], u_ForceQuery = False, u_RawQuery = [], u_Fragment = []\<rparr>),
       url_ParseRequestURI = (\<lambda>s. None), netip_ParseAddr = (\<lambda>s. None), strings_ToLower = (\<lambda>s. s), strings_EqualFold = (=)\<rparr>,
     api_IPLoopback = (\<lambda>h. False), api_Marshal = (\<lambda>v. Some []), api_Problem = (\<lambda>b. ([], [])), api_RawMessage = Some,
     api_URLString = (\<lambda>u. u_Scheme u @ ''://'' @ u_Host u @ u_Path u), api_CanonicalHeader = (\<lambda>s. s)\<rparr>"

definition cw_client :: ControlClient where
  "cw_client = \<lparr>cc_baseURL = ''https://control.example'', cc_clientID = ''app 1'', cc_secretKey = ''sk'', cc_userToken = ''tok''\<rparr>"

definition cw_net :: control_net where
  "cw_net log = Some \<lparr>cr_Status = 200, cr_Header = [], cr_Body = [if length log = 1 then 0 else 1], cr_Broken = False\<rparr>"

definition cw_reader :: "DurableOperation reader" where
  "cw_reader raw = Some (zero_DurableOperation\<lparr>op_Status := if raw = [0] then ''running'' else ''succeeded''\<rparr>)"

lemma cw_poll:
  "\<exists>call. Operation cw_env cw_reader cw_net cw_client ''op1'' log =
     (Ok (zero_DurableOperation\<lparr>op_Status := if log = [] then ''running'' else ''succeeded''\<rparr>), log @ [call])"
  by (simp add: Operation_def operationRequest_def api_request_def requestHeaders_def requestHeadersLimit_def
      op_bind_def op_return_def control_request_of_def control_reply_of_def cw_net_def cw_reader_def cw_env_def)

section \<open>Properties\<close>

text \<open>
  \<^bold>\<open>C17\<close> Waiting for a durable operation ends. It sends at most the configured number of
  requests; what it returns is a final answer of the last of them; while the caller does not give up it
  returns the first final answer, and when there is none among the attempts it says so.
\<close>

theorem wait_for_operation:
  assumes "1 \<le> effective_attempts options" "effective_attempts options \<le> 10000"
    and "0 \<le> effective_interval options" "effective_interval options \<le> 60000000000"
  shows "length (snd (WaitForOperation env rd net c ctx ident options log)) \<le> length log + nat (effective_attempts options)
    \<and> (\<forall>operation log'. WaitForOperation env rd net c ctx ident options log = (Ok operation, log') \<longrightarrow>
         terminal_operation operation \<and> (\<exists>log0. Operation env rd net c ident log0 = (Ok operation, log')))
    \<and> (\<forall>n operation log'. n < nat (effective_attempts options)
         \<and> (\<forall>i. \<not> wc_Err ctx i \<and> \<not> wc_Done ctx i)
         \<and> (\<forall>i < n. \<exists>x. fst (Operation env rd net c ident (after_polls (Operation env rd net c ident) i log)) = Ok x \<and> running_operation x)
         \<and> Operation env rd net c ident (after_polls (Operation env rd net c ident) n log) = (Ok operation, log')
         \<and> terminal_operation operation
         \<longrightarrow> WaitForOperation env rd net c ctx ident options log = (Ok operation, log'))
    \<and> ((\<forall>i. \<not> wc_Err ctx i \<and> \<not> wc_Done ctx i)
         \<and> (\<forall>i < nat (effective_attempts options). \<exists>x. fst (Operation env rd net c ident (after_polls (Operation env rd net c ident) i log)) = Ok x \<and> running_operation x)
         \<longrightarrow> fst (WaitForOperation env rd net c ctx ident options log) = Fail (ClientError ''Lotor operation exceeded max attempts''))"
proof -
  define poll where "poll = Operation env rd net c ident"
  define k where "k = nat (effective_attempts options)"
  have wait: "WaitForOperation env rd net c ctx ident options log = wait_attempts poll ctx 0 k log"
    using assms by (simp add: WaitForOperation_def poll_def k_def)
  have bound: "length (snd (wait_attempts poll ctx 0 k log)) \<le> length log + k"
    unfolding poll_def by (rule wait_attempts_bound [OF Operation_polls])
  have found: "wait_attempts poll ctx 0 k log = (Ok operation, log')"
    if "n < k" "\<forall>i. \<not> wc_Err ctx i \<and> \<not> wc_Done ctx i"
      "\<forall>i < n. \<exists>x. fst (poll (after_polls poll i log)) = Ok x \<and> running_operation x"
      "poll (after_polls poll n log) = (Ok operation, log')" "terminal_operation operation" for n operation log'
  proof -
    obtain left where "k = n + Suc left"
      using \<open>n < k\<close> less_iff_Suc_add by auto
    then have "wait_attempts poll ctx 0 k log = wait_attempts poll ctx (0 + n) (Suc left) (after_polls poll n log)"
      using that by (metis wait_attempts_polls)
    then show ?thesis
      using that by (simp add: op_bind_def op_return_def del: list.set)
  qed
  have exhausted: "fst (wait_attempts poll ctx 0 k log) = Fail (ClientError ''Lotor operation exceeded max attempts'')"
    if "\<forall>i. \<not> wc_Err ctx i \<and> \<not> wc_Done ctx i"
      "\<forall>i < k. \<exists>x. fst (poll (after_polls poll i log)) = Ok x \<and> running_operation x"
  proof -
    have "wait_attempts poll ctx 0 (k + 0) log = wait_attempts poll ctx (0 + k) 0 (after_polls poll k log)"
      using that by (intro wait_attempts_polls) simp_all
    then show ?thesis
      by (simp add: op_fail_def)
  qed
  show ?thesis
    unfolding wait poll_def [symmetric] k_def [symmetric]
    using bound found exhausted wait_attempts_Ok [of poll ctx 0 k log] by blast
qed

theorem wait_for_operation_witness:
  "\<exists>calls. WaitForOperation cw_env cw_reader cw_net cw_client \<lparr>wc_Err = (\<lambda>i. False), wc_Done = (\<lambda>i. False)\<rparr> ''op1''
       \<lparr>wo_MaxAttempts = 0, wo_Interval = 0\<rparr> [] = (Ok (zero_DurableOperation\<lparr>op_Status := ''succeeded''\<rparr>), calls) \<and> length calls = 2"
proof -
  let ?poll = "Operation cw_env cw_reader cw_net cw_client ''op1''"
  let ?options = "\<lparr>wo_MaxAttempts = 0, wo_Interval = 0\<rparr>"
  let ?ctx = "\<lparr>wc_Err = (\<lambda>i. False), wc_Done = (\<lambda>i. False)\<rparr>"
  obtain c1 where c1: "?poll [] = (Ok (zero_DurableOperation\<lparr>op_Status := ''running''\<rparr>), [c1])"
    using cw_poll [of "[]"] by auto
  obtain c2 where c2: "?poll [c1] = (Ok (zero_DurableOperation\<lparr>op_Status := ''succeeded''\<rparr>), [c1, c2])"
    using cw_poll [of "[c1]"] by auto
  have options: "1 \<le> effective_attempts ?options" "effective_attempts ?options \<le> 10000"
      "0 \<le> effective_interval ?options" "effective_interval ?options \<le> 60000000000" "1 < nat (effective_attempts ?options)"
    by (simp_all add: effective_attempts_def effective_interval_def)
  have "WaitForOperation cw_env cw_reader cw_net cw_client ?ctx ''op1'' ?options []
      = (Ok (zero_DurableOperation\<lparr>op_Status := ''succeeded''\<rparr>), [c1, c2])"
  proof (rule wait_for_operation [OF options(1-4), THEN conjunct2, THEN conjunct2, THEN conjunct1, rule_format, of 1], intro conjI)
    show "\<forall>i < 1. \<exists>x. fst (?poll (after_polls ?poll i [])) = Ok x \<and> running_operation x"
      using c1 by simp
    show "?poll (after_polls ?poll 1 []) = (Ok (zero_DurableOperation\<lparr>op_Status := ''succeeded''\<rparr>), [c1, c2])"
      using c1 c2 by simp
  qed (use options(5) in simp_all)
  then show ?thesis by simp
qed

end
