(* ===== verification/Control_Types.thy ===== *)
theory Control_Types
  imports Control_Client Bridge_Control
begin

text \<open>
  The data of the Control API as \<^verbatim>\<open>lotorhttp\<close> declares it: resources and their lifecycle
  (\<^verbatim>\<open>control_client.go\<close>), resource types (\<^verbatim>\<open>resource_type.go\<close>), catalogs (\<^verbatim>\<open>catalog_types.go\<close>,
  \<^verbatim>\<open>catalog_read.go\<close>), stored payloads (\<^verbatim>\<open>resource_client.go\<close>), the account's resources and invitations,
  portal sessions, development connections and event streams. A type that is sent has its JSON value;
  slices, maps and pointers that may be \<open>nil\<close> are options.
\<close>

section \<open>Resources\<close>

record ResourceLifecycleFence =
  lf_ExpectedRevision :: i64
  lf_ExpectedLifecycleGeneration :: i64

definition json_ResourceLifecycleFence_fields :: "ResourceLifecycleFence \<Rightarrow> (string \<times> json) list" where
  "json_ResourceLifecycleFence_fields v =
     [(''expected_revision'', JInt (sint (lf_ExpectedRevision v))), (''expected_lifecycle_generation'', JInt (sint (lf_ExpectedLifecycleGeneration v)))]"

definition json_ResourceLifecycleFence :: "ResourceLifecycleFence \<Rightarrow> json" where
  "json_ResourceLifecycleFence v = JObj (json_ResourceLifecycleFence_fields v)"

record ResourceRegistration =
  rr_References :: "(string \<times> string) list option"
  rr_ResourceType :: string
  rr_DisplayName :: string
  rr_Parent :: string
  rr_KeyScope :: string

text \<open>
  \<open>MarshalJSON\<close> of a registration: a map, hence ordered by name, in which absent references and empty ones
  differ.
\<close>

definition json_ResourceRegistration :: "ResourceRegistration \<Rightarrow> json" where
  "json_ResourceRegistration r =
     JObj (omit_str ''display_name'' (rr_DisplayName r) @ omit_str ''key_scope'' (rr_KeyScope r) @ omit_str ''parent'' (rr_Parent r)
       @ omit_opt ''references'' (\<lambda>m. json_smap (Some m)) (rr_References r)
       @ [(''resource_type'', JStr (rr_ResourceType r))])"

record ResourceCatalogBinding =
  rb_Resource :: string
  rb_CatalogID :: string
  rb_SnapshotID :: string
  rb_SnapshotDigest :: string
  rb_EntryKinds :: "string list option"
  rb_ResourceRevision :: i64

record ResourceEncryption =
  rn_Status :: string
  rn_KeyScope :: string
  rn_EffectiveKeyResource :: string
  rn_KeyResource :: string
  rn_KeyVersion :: i64
  rn_Required :: bool

record Resource_t =
  rz_CatalogBinding :: "ResourceCatalogBinding option"
  rz_References :: "(string \<times> string) list option"
  rz_ID :: string
  rz_Resource :: string
  rz_ResourceType :: string
  rz_DisplayName :: string
  rz_Parent :: string
  rz_Status :: string
  rz_PrincipalSubject :: string
  rz_Encryption :: ResourceEncryption
  rz_Revision :: i64
  rz_LifecycleGeneration :: i64

record ResourceCredentialMetadata =
  cm_ID :: string
  cm_Resource :: string
  cm_IssuedTo :: string
  cm_Status :: string
  cm_DisplayHint :: string
  cm_Version :: i64
  cm_CreatedAt :: i64
  cm_ExpiresAt :: i64
  cm_RevokeAt :: i64
  cm_RevokedAt :: i64
  cm_LastUsedAt :: i64

record IssuedResourceCredential =
  ic_Credential :: string
  ic_ResourceCredentialMetadata :: ResourceCredentialMetadata

record ResourceCredentialIssueInput =
  ci_IssuedTo :: string
  ci_ExpiresAt :: i64

definition json_ResourceCredentialIssueInput_fields :: "ResourceCredentialIssueInput \<Rightarrow> (string \<times> json) list" where
  "json_ResourceCredentialIssueInput_fields v =
     [(''issued_to'', JStr (ci_IssuedTo v))]
     @ omit_int ''expires_at'' (ci_ExpiresAt v)"

definition json_ResourceCredentialIssueInput :: "ResourceCredentialIssueInput \<Rightarrow> json" where
  "json_ResourceCredentialIssueInput v = JObj (json_ResourceCredentialIssueInput_fields v)"

record ResourceCredentialRotateInput =
  ro_RevokePreviousAt :: i64
  ro_ExpiresAt :: i64

definition json_ResourceCredentialRotateInput_fields :: "ResourceCredentialRotateInput \<Rightarrow> (string \<times> json) list" where
  "json_ResourceCredentialRotateInput_fields v =
     [(''revoke_previous_at'', JInt (sint (ro_RevokePreviousAt v)))]
     @ omit_int ''expires_at'' (ro_ExpiresAt v)"

definition json_ResourceCredentialRotateInput :: "ResourceCredentialRotateInput \<Rightarrow> json" where
  "json_ResourceCredentialRotateInput v = JObj (json_ResourceCredentialRotateInput_fields v)"

record ResourcePayloadRewrapInput =
  rw_KeyBindingRef :: string
  rw_WrappedPayloadKey :: string
  rw_RewrapperSubject :: string
  rw_RewrapperKeyID :: string
  rw_RewrapReceipt :: string
  rw_PayloadVersion :: i64
  rw_ExpectedWrapRevision :: i64
  rw_PreviousKeyVersion :: i64
  rw_KeyVersion :: i64
  rw_ResourceRevision :: i64
  rw_LifecycleGeneration :: i64

definition json_ResourcePayloadRewrapInput_fields :: "ResourcePayloadRewrapInput \<Rightarrow> (string \<times> json) list" where
  "json_ResourcePayloadRewrapInput_fields v =
     [(''key_binding_ref'', JStr (rw_KeyBindingRef v))]
     @ omit_str ''wrapped_payload_key'' (rw_WrappedPayloadKey v)
     @ omit_str ''rewrapper_subject'' (rw_RewrapperSubject v)
     @ omit_str ''rewrapper_key_id'' (rw_RewrapperKeyID v)
     @ omit_str ''rewrap_receipt'' (rw_RewrapReceipt v)
     @ [(''payload_version'', JInt (sint (rw_PayloadVersion v))), (''expected_wrap_revision'', JInt (sint (rw_ExpectedWrapRevision v))), (''previous_key_version'', JInt (sint (rw_PreviousKeyVersion v))), (''key_version'', JInt (sint (rw_KeyVersion v))), (''resource_revision'', JInt (sint (rw_ResourceRevision v))), (''lifecycle_generation'', JInt (sint (rw_LifecycleGeneration v)))]"

definition json_ResourcePayloadRewrapInput :: "ResourcePayloadRewrapInput \<Rightarrow> json" where
  "json_ResourcePayloadRewrapInput v = JObj (json_ResourcePayloadRewrapInput_fields v)"

record ResourcePayloadRewrapResult =
  rx_Resource :: string
  rx_Slot :: string
  rx_KeyBindingRef :: string
  rx_WrappedPayloadKey :: string
  rx_AADHash :: string
  rx_RewrapperSubject :: string
  rx_RewrapperKeyID :: string
  rx_PayloadVersion :: i64
  rx_WrapRevision :: i64
  rx_PreviousKeyVersion :: i64
  rx_KeyVersion :: i64
  rx_ResourceRevision :: i64
  rx_LifecycleGeneration :: i64

section \<open>Stored payloads\<close>

record ResourcePayloadUploadInput =
  ui_KeyBindingRef :: string
  ui_EncryptorKeyID :: string
  ui_EncryptionReceipt :: string
  ui_ObjectDigest :: string
  ui_WrappedPayloadKey :: string
  ui_EncryptionSuite :: string
  ui_Representation :: string
  ui_EncryptorSubject :: string
  ui_SchemaID :: string
  ui_AADHash :: string
  ui_ObjectSize :: i64
  ui_KeyVersion :: i64
  ui_ExpectedPayloadVersion :: i64
  ui_ResourceRevision :: i64
  ui_LifecycleGeneration :: i64

definition json_ResourcePayloadUploadInput_fields :: "ResourcePayloadUploadInput \<Rightarrow> (string \<times> json) list" where
  "json_ResourcePayloadUploadInput_fields v =
     omit_str ''key_binding_ref'' (ui_KeyBindingRef v)
     @ omit_str ''encryptor_key_id'' (ui_EncryptorKeyID v)
     @ omit_str ''encryption_receipt'' (ui_EncryptionReceipt v)
     @ [(''object_digest'', JStr (ui_ObjectDigest v))]
     @ omit_str ''wrapped_payload_key'' (ui_WrappedPayloadKey v)
     @ omit_str ''encryption_suite'' (ui_EncryptionSuite v)
     @ [(''representation'', JStr (ui_Representation v))]
     @ omit_str ''encryptor_subject'' (ui_EncryptorSubject v)
     @ [(''schema_id'', JStr (ui_SchemaID v))]
     @ omit_str ''aad_hash'' (ui_AADHash v)
     @ [(''object_size'', JInt (sint (ui_ObjectSize v)))]
     @ omit_int ''key_version'' (ui_KeyVersion v)
     @ [(''expected_payload_version'', JInt (sint (ui_ExpectedPayloadVersion v))), (''resource_revision'', JInt (sint (ui_ResourceRevision v))), (''lifecycle_generation'', JInt (sint (ui_LifecycleGeneration v)))]"

definition json_ResourcePayloadUploadInput :: "ResourcePayloadUploadInput \<Rightarrow> json" where
  "json_ResourcePayloadUploadInput v = JObj (json_ResourcePayloadUploadInput_fields v)"

record ResourcePayloadUploadIntent =
  up_RequiredHeaders :: "(string \<times> string) list option"
  up_Resource :: string
  up_Slot :: string
  up_UploadURL :: string
  up_UploadMethod :: string
  up_Token :: string
  up_PayloadVersion :: i64
  up_ExpectedPayloadVersion :: i64
  up_ExpiresAt :: i64

record ResourcePayloadMutation =
  mu_Resource :: string
  mu_Slot :: string
  mu_State :: string
  mu_PayloadVersion :: i64
  mu_Idempotent :: bool

section \<open>Resource types\<close>

record ResourcePayloadSlotPolicy =
  sl_Name :: string
  sl_SchemaIDs :: "string list option"
  sl_MaximumObjectSize :: i64
  sl_Required :: bool

definition json_ResourcePayloadSlotPolicy_fields :: "ResourcePayloadSlotPolicy \<Rightarrow> (string \<times> json) list" where
  "json_ResourcePayloadSlotPolicy_fields v =
     [(''name'', JStr (sl_Name v)), (''schema_ids'', json_strs (sl_SchemaIDs v)), (''maximum_object_size'', JInt (sint (sl_MaximumObjectSize v))), (''required'', JBool (sl_Required v))]"

definition json_ResourcePayloadSlotPolicy :: "ResourcePayloadSlotPolicy \<Rightarrow> json" where
  "json_ResourcePayloadSlotPolicy v = JObj (json_ResourcePayloadSlotPolicy_fields v)"

record ResourcePayloadTypePolicy =
  py_Storage :: string
  py_Slots :: "ResourcePayloadSlotPolicy list option"

definition json_ResourcePayloadTypePolicy_fields :: "ResourcePayloadTypePolicy \<Rightarrow> (string \<times> json) list" where
  "json_ResourcePayloadTypePolicy_fields v =
     [(''storage'', JStr (py_Storage v)), (''slots'', json_list json_ResourcePayloadSlotPolicy (py_Slots v))]"

definition json_ResourcePayloadTypePolicy :: "ResourcePayloadTypePolicy \<Rightarrow> json" where
  "json_ResourcePayloadTypePolicy v = JObj (json_ResourcePayloadTypePolicy_fields v)"

record ResourceCredentialPolicy =
  cp_ExecutionTargetReference :: string
  cp_PrincipalReference :: string
  cp_RequireParentAccess :: bool

definition json_ResourceCredentialPolicy_fields :: "ResourceCredentialPolicy \<Rightarrow> (string \<times> json) list" where
  "json_ResourceCredentialPolicy_fields v =
     [(''execution_target_reference'', JStr (cp_ExecutionTargetReference v))]
     @ omit_str ''principal_reference'' (cp_PrincipalReference v)
     @ [(''require_parent_access'', JBool (cp_RequireParentAccess v))]"

definition json_ResourceCredentialPolicy :: "ResourceCredentialPolicy \<Rightarrow> json" where
  "json_ResourceCredentialPolicy v = JObj (json_ResourceCredentialPolicy_fields v)"

record ResourceReferenceConstraints =
  rk_MatchingCatalogOf :: string
  rk_AllowedTargetParents :: "string list option"
  rk_MatchingReferences :: "string list option"

definition json_ResourceReferenceConstraints_fields :: "ResourceReferenceConstraints \<Rightarrow> (string \<times> json) list" where
  "json_ResourceReferenceConstraints_fields v =
     omit_str ''matching_catalog_of'' (rk_MatchingCatalogOf v)
     @ omit_strs ''allowed_target_parents'' (rk_AllowedTargetParents v)
     @ omit_strs ''matching_references'' (rk_MatchingReferences v)"

definition json_ResourceReferenceConstraints :: "ResourceReferenceConstraints \<Rightarrow> json" where
  "json_ResourceReferenceConstraints v = JObj (json_ResourceReferenceConstraints_fields v)"

record ResourceReferenceFieldDefinition =
  rf_Constraints :: "ResourceReferenceConstraints option"
  rf_Name :: string
  rf_TargetResourceTypes :: "string list option"
  rf_Required :: bool

definition json_ResourceReferenceFieldDefinition_fields :: "ResourceReferenceFieldDefinition \<Rightarrow> (string \<times> json) list" where
  "json_ResourceReferenceFieldDefinition_fields v =
     omit_opt ''constraints'' json_ResourceReferenceConstraints (rf_Constraints v)
     @ [(''name'', JStr (rf_Name v)), (''target_resource_types'', json_strs (rf_TargetResourceTypes v)), (''required'', JBool (rf_Required v))]"

definition json_ResourceReferenceFieldDefinition :: "ResourceReferenceFieldDefinition \<Rightarrow> json" where
  "json_ResourceReferenceFieldDefinition v = JObj (json_ResourceReferenceFieldDefinition_fields v)"

record ResourceTypeDefinition =
  rd_CredentialPolicy :: "ResourceCredentialPolicy option"
  rd_ReferenceFields :: "ResourceReferenceFieldDefinition list option"
  rd_ResourceType :: string
  rd_Kind :: string
  rd_Lifecycle :: string
  rd_KeyBehavior :: string
  rd_AllowedParentTypes :: "string list option"
  rd_Relations :: "string list option"
  rd_InheritedRelations :: "string list option"
  rd_CatalogEntryKinds :: "string list option"
  rd_Payload :: ResourcePayloadTypePolicy
  rd_DirectLinks :: bool
  rd_MayActAsPrincipal :: bool
  rd_MayActAsSubjectSet :: bool

definition json_ResourceTypeDefinition_fields :: "ResourceTypeDefinition \<Rightarrow> (string \<times> json) list" where
  "json_ResourceTypeDefinition_fields v =
     omit_opt ''credential_policy'' json_ResourceCredentialPolicy (rd_CredentialPolicy v)
     @ omit_list ''reference_fields'' json_ResourceReferenceFieldDefinition (rd_ReferenceFields v)
     @ [(''resource_type'', JStr (rd_ResourceType v)), (''kind'', JStr (rd_Kind v)), (''lifecycle'', JStr (rd_Lifecycle v)), (''key_behavior'', JStr (rd_KeyBehavior v)), (''allowed_parent_types'', json_strs (rd_AllowedParentTypes v)), (''relations'', json_strs (rd_Relations v))]
     @ omit_strs ''inherited_relations'' (rd_InheritedRelations v)
     @ omit_strs ''catalog_entry_kinds'' (rd_CatalogEntryKinds v)
     @ [(''payload'', json_ResourcePayloadTypePolicy (rd_Payload v)), (''direct_links'', JBool (rd_DirectLinks v))]
     @ omit_bool ''may_act_as_principal'' (rd_MayActAsPrincipal v)
     @ omit_bool ''may_act_as_subject_set'' (rd_MayActAsSubjectSet v)"

definition json_ResourceTypeDefinition :: "ResourceTypeDefinition \<Rightarrow> json" where
  "json_ResourceTypeDefinition v = JObj (json_ResourceTypeDefinition_fields v)"

section \<open>Catalogs\<close>

record GenericCatalogDefinition =
  gd_SemanticKey :: string
  gd_EntryKind :: string
  gd_Definition :: bytes

definition json_GenericCatalogDefinition_fields :: "GenericCatalogDefinition \<Rightarrow> (string \<times> json) list" where
  "json_GenericCatalogDefinition_fields v =
     [(''semantic_key'', JStr (gd_SemanticKey v)), (''entry_kind'', JStr (gd_EntryKind v)), (''definition'', JRaw (gd_Definition v))]"

definition json_GenericCatalogDefinition :: "GenericCatalogDefinition \<Rightarrow> json" where
  "json_GenericCatalogDefinition v = JObj (json_GenericCatalogDefinition_fields v)"

record CatalogCreation =
  ct_Namespace :: string
  ct_CatalogType :: string
  ct_Visibility :: string
  ct_Organization :: string
  ct_Discoverable :: bool

definition json_CatalogCreation_fields :: "CatalogCreation \<Rightarrow> (string \<times> json) list" where
  "json_CatalogCreation_fields v =
     [(''namespace'', JStr (ct_Namespace v)), (''catalog_type'', JStr (ct_CatalogType v)), (''visibility'', JStr (ct_Visibility v))]
     @ omit_str ''organization'' (ct_Organization v)
     @ [(''discoverable'', JBool (ct_Discoverable v))]"

definition json_CatalogCreation :: "CatalogCreation \<Rightarrow> json" where
  "json_CatalogCreation v = JObj (json_CatalogCreation_fields v)"

record Catalog_t =
  cg_Organization :: "string option"
  cg_PublishedSnapshotID :: "string option"
  cg_ID :: string
  cg_Namespace :: string
  cg_CatalogType :: string
  cg_Visibility :: string
  cg_Status :: string
  cg_CreatedAt :: i64
  cg_Discoverable :: bool

record CatalogList =
  cs_NextCursor :: "string option"
  cs_Items :: "Catalog_t list option"

record CatalogEntry_t =
  cy_ID :: string
  cy_CatalogID :: string
  cy_SemanticKey :: string
  cy_EntryKind :: string
  cy_RevisionID :: string
  cy_RevisionDigest :: string
  cy_Definition :: bytes

record CatalogEntryList =
  ce_NextCursor :: "string option"
  ce_Items :: "CatalogEntry_t list option"

record PublishedCatalogEntryList =
  pe_SnapshotID :: string
  pe_CatalogEntryList :: CatalogEntryList

record CatalogSnapshotDocument =
  sd_CatalogID :: string
  sd_SnapshotID :: string
  sd_DocumentDigest :: string
  sd_Document :: bytes

record CatalogImportInput =
  ii_Format :: string
  ii_SourceDocument :: string

definition json_CatalogImportInput_fields :: "CatalogImportInput \<Rightarrow> (string \<times> json) list" where
  "json_CatalogImportInput_fields v =
     [(''format'', JStr (ii_Format v)), (''source_document'', JStr (ii_SourceDocument v))]"

definition json_CatalogImportInput :: "CatalogImportInput \<Rightarrow> json" where
  "json_CatalogImportInput v = JObj (json_CatalogImportInput_fields v)"

record CatalogSnapshot =
  ss_PublishedAt :: "i64 option"
  ss_ID :: string
  ss_CatalogID :: string
  ss_SourceDigest :: string
  ss_ImporterVersion :: string
  ss_Digest :: string
  ss_Status :: string
  ss_EntryCount :: i64
  ss_CreatedAt :: i64

record CatalogSnapshotList =
  sn_NextCursor :: "string option"
  sn_Items :: "CatalogSnapshot list option"

record ResourceCatalogBindingInput =
  bi_CatalogID :: string
  bi_SnapshotID :: string
  bi_EntryKinds :: "string list option"
  bi_ExpectedResourceRevision :: i64
  bi_ExpectedLifecycleGeneration :: i64

definition json_ResourceCatalogBindingInput_fields :: "ResourceCatalogBindingInput \<Rightarrow> (string \<times> json) list" where
  "json_ResourceCatalogBindingInput_fields v =
     [(''catalog_id'', JStr (bi_CatalogID v)), (''snapshot_id'', JStr (bi_SnapshotID v)), (''entry_kinds'', json_strs (bi_EntryKinds v)), (''expected_resource_revision'', JInt (sint (bi_ExpectedResourceRevision v))), (''expected_lifecycle_generation'', JInt (sint (bi_ExpectedLifecycleGeneration v)))]"

definition json_ResourceCatalogBindingInput :: "ResourceCatalogBindingInput \<Rightarrow> json" where
  "json_ResourceCatalogBindingInput v = JObj (json_ResourceCatalogBindingInput_fields v)"

section \<open>The account\<close>

record AccountResourceReference =
  ar_ID :: string
  ar_Resource :: string
  ar_Type :: string
  ar_Name :: string

record AccountResourcePathStep =
  as_AccountResourceReference :: AccountResourceReference
  as_SubjectRelation :: string

record AccountResourceAccessPath =
  ap_Type :: string
  ap_Relation :: string
  ap_Via :: "AccountResourcePathStep list option"

record AccountResourceAccess =
  aa_Paths :: "AccountResourceAccessPath list option"
  aa_Direct :: bool

record AccountResource =
  au_AccountResourceReference :: AccountResourceReference
  au_Parent :: "AccountResourceReference option"
  au_Relations :: "string list option"
  au_AccessState :: string
  au_Access :: AccountResourceAccess

record AccountResourceList =
  al_NextCursor :: "string option"
  al_Resources :: "AccountResource list option"

record AccountResourceListOptions =
  ao_Parent :: string
  ao_Cursor :: string
  ao_Types :: "string list option"
  ao_AccessStates :: "string list option"
  ao_Limit :: int

record AccountInvitation =
  ai_ID :: string
  ai_Resource :: AccountResourceReference
  ai_Relation :: string
  ai_Status :: string
  ai_ExpiresAt :: i64
  ai_EncryptionRequired :: bool

record AccountInvitationList =
  av_NextCursor :: "string option"
  av_Invitations :: "AccountInvitation list option"

record AccountInvitationMutation =
  am_ID :: string
  am_Status :: string

record PortalSessionInput =
  pi_OrganizationID :: string
  pi_ReturnURL :: string

definition json_PortalSessionInput_fields :: "PortalSessionInput \<Rightarrow> (string \<times> json) list" where
  "json_PortalSessionInput_fields v =
     [(''organization_id'', JStr (pi_OrganizationID v)), (''return_url'', JStr (pi_ReturnURL v))]"

definition json_PortalSessionInput :: "PortalSessionInput \<Rightarrow> json" where
  "json_PortalSessionInput v = JObj (json_PortalSessionInput_fields v)"

record PortalSession =
  ps_ID :: string
  ps_URL :: string

section \<open>Development connections\<close>

record DevelopmentConnection_t =
  dc_RevokedAt :: "i64 option"
  dc_ID :: string
  dc_Resource :: string
  dc_EndpointURL :: string
  dc_Status :: string
  dc_CreatedBy :: string
  dc_CreatedAt :: i64

record DevelopmentConnectionList =
  dl_NextCursor :: "string option"
  dl_Connections :: "DevelopmentConnection_t list option"

section \<open>Event streams\<close>

record ResourceEventStreamInput =
  es_AttributeKeys :: "string list option"
  es_RetentionDays :: "32 word"
  es_AllowCredentialAppend :: bool

definition json_ResourceEventStreamInput_fields :: "ResourceEventStreamInput \<Rightarrow> (string \<times> json) list" where
  "json_ResourceEventStreamInput_fields v =
     [(''attribute_keys'', json_strs (es_AttributeKeys v)), (''retention_days'', JInt (sint (es_RetentionDays v))), (''allow_credential_append'', JBool (es_AllowCredentialAppend v))]"

definition json_ResourceEventStreamInput :: "ResourceEventStreamInput \<Rightarrow> json" where
  "json_ResourceEventStreamInput v = JObj (json_ResourceEventStreamInput_fields v)"

record ResourceEvent_t =
  ev_ID :: string
  ev_OccurredAt :: go_time
  ev_Attributes :: "(string \<times> string) list option"
  ev_Representation :: string
  ev_Body :: "bytes option"

definition json_ResourceEvent_t_fields :: "ResourceEvent_t \<Rightarrow> (string \<times> json) list" where
  "json_ResourceEvent_t_fields v =
     [(''id'', JStr (ev_ID v)), (''occurred_at'', JTime (ev_OccurredAt v)), (''attributes'', json_smap (ev_Attributes v)), (''representation'', JStr (ev_Representation v)), (''body'', json_bytes (ev_Body v))]"

definition json_ResourceEvent_t :: "ResourceEvent_t \<Rightarrow> json" where
  "json_ResourceEvent_t v = JObj (json_ResourceEvent_t_fields v)"

record ResourceEventMetadata =
  em_ProducerSubject :: string
  em_RecordedAt :: go_time
  em_ID :: string
  em_OccurredAt :: go_time
  em_Attributes :: "(string \<times> string) list option"
  em_Representation :: string

record ResourceEventDetail =
  ed_RecordedAt :: go_time
  ed_ProducerSubject :: string
  ed_ResourceEvent :: ResourceEvent_t

record ResourceEventQueryInput =
  eq_Filters :: "(string \<times> string list) list option"
  eq_From :: go_time
  eq_To :: go_time
  eq_ParentQueryID :: string

record ResourceEventQuery =
  er_From :: go_time
  er_To :: go_time
  er_ExpiresAt :: go_time
  er_ID :: string

record ResourceEventPage =
  eg_NextCursor :: "string option"
  eg_Items :: "ResourceEventMetadata list option"

record ResourceEventBucket =
  eb_Start :: go_time
  eb_End :: go_time
  eb_Counts :: "(string \<times> i64) list option"

definition json_ResourceEventQueryInput :: "ResourceEventQueryInput \<Rightarrow> json" where
  "json_ResourceEventQueryInput v =
     JObj ([(''filters'', (case eq_Filters v of None \<Rightarrow> JNull | Some m \<Rightarrow> JObj (map (\<lambda>(k, vs). (k, JArr (map JStr vs))) m))),
            (''from'', JTime (eq_From v)), (''to'', JTime (eq_To v))] @ omit_str ''parent_query_id'' (eq_ParentQueryID v))"

end
