(* ===== verification/Link_Types.thy ===== *)
theory Link_Types
  imports Control_Types
begin

text \<open>
  The data of \<^verbatim>\<open>lotorhttp/resource_links.go\<close> and \<^verbatim>\<open>lotorhttp/resource_policies.go\<close>: links between resources and
  subjects, collaborators, searches and policies, with the JSON value of what is sent.
\<close>

section \<open>Unpadded base64url\<close>

text \<open>
  The byte type of public keys: \<open>to_string\<close> is \<open>json.Unmarshal\<close> into a string. Only the canonical encoding of
  some bytes is accepted, never the empty one.
\<close>

definition Base64URLBytes_Unmarshal :: "(bytes \<Rightarrow> string option) \<Rightarrow> bytes \<Rightarrow> bytes option" where
  "Base64URLBytes_Unmarshal to_string raw =
     (case to_string raw of
        None \<Rightarrow> None
      | Some encoded \<Rightarrow>
          if encoded = [] \<or> CHR ''='' \<in> set encoded then None
          else (case b64_decode False encoded of
                  None \<Rightarrow> None
                | Some decoded \<Rightarrow> if b64_encode decoded \<noteq> encoded then None else Some decoded))"

definition Base64URLBytes_Marshal :: "(string \<Rightarrow> bytes option) \<Rightarrow> bytes \<Rightarrow> bytes option" where
  "Base64URLBytes_Marshal of_string v = of_string (b64_encode v)"

section \<open>Links\<close>

record ResourceLinkChange =
  lc_Cascade :: "bool option"
  lc_Action :: string
  lc_LinkID :: string
  lc_Collaborator :: string
  lc_Relation :: string
  lc_Subject :: string
  lc_Email :: string
  lc_SubjectResource :: string
  lc_SubjectRelation :: string
  lc_Provisioning :: string
  lc_Delivery :: string

definition json_ResourceLinkChange_fields :: "ResourceLinkChange \<Rightarrow> (string \<times> json) list" where
  "json_ResourceLinkChange_fields v =
     omit_opt ''cascade'' JBool (lc_Cascade v)
     @ [(''action'', JStr (lc_Action v))]
     @ omit_str ''link_id'' (lc_LinkID v)
     @ omit_str ''collaborator'' (lc_Collaborator v)
     @ omit_str ''relation'' (lc_Relation v)
     @ omit_str ''subject'' (lc_Subject v)
     @ omit_str ''email'' (lc_Email v)
     @ omit_str ''subject_resource'' (lc_SubjectResource v)
     @ omit_str ''subject_relation'' (lc_SubjectRelation v)
     @ omit_str ''provisioning'' (lc_Provisioning v)
     @ omit_str ''delivery'' (lc_Delivery v)"

definition json_ResourceLinkChange :: "ResourceLinkChange \<Rightarrow> json" where
  "json_ResourceLinkChange v = JObj (json_ResourceLinkChange_fields v)"

record ResourceLinkCandidateSearchInput =
  ls_Query :: string
  ls_Relation :: string
  ls_Cursor :: string
  ls_Kinds :: "string list option"
  ls_Limit :: int

definition json_ResourceLinkCandidateSearchInput_fields :: "ResourceLinkCandidateSearchInput \<Rightarrow> (string \<times> json) list" where
  "json_ResourceLinkCandidateSearchInput_fields v =
     [(''query'', JStr (ls_Query v)), (''relation'', JStr (ls_Relation v))]
     @ omit_str ''cursor'' (ls_Cursor v)
     @ omit_strs ''kinds'' (ls_Kinds v)
     @ omit_nat ''limit'' (ls_Limit v)"

definition json_ResourceLinkCandidateSearchInput :: "ResourceLinkCandidateSearchInput \<Rightarrow> json" where
  "json_ResourceLinkCandidateSearchInput v = JObj (json_ResourceLinkCandidateSearchInput_fields v)"

record ResourceLinkCandidate =
  la_Kind :: string
  la_Subject :: string
  la_Resource :: string
  la_SubjectRelation :: string
  la_DisplayName :: string
  la_Email :: string
  la_LinkState :: string
  la_Reason :: string
  la_Selectable :: bool

record ResourceLinkCandidateSearchResult =
  lr_NextCursor :: "string option"
  lr_Candidates :: "ResourceLinkCandidate list option"

record ResourceLinkEnvelopeSubmission =
  le_ManifestItemID :: string
  le_EncryptionSuite :: string
  le_Ciphertext :: string
  le_AADHash :: string
  le_Issuer :: string
  le_IssuerKeyID :: string
  le_Signature :: string

definition json_ResourceLinkEnvelopeSubmission_fields :: "ResourceLinkEnvelopeSubmission \<Rightarrow> (string \<times> json) list" where
  "json_ResourceLinkEnvelopeSubmission_fields v =
     [(''manifest_item_id'', JStr (le_ManifestItemID v)), (''encryption_suite'', JStr (le_EncryptionSuite v)), (''ciphertext'', JStr (le_Ciphertext v)), (''aad_hash'', JStr (le_AADHash v)), (''issuer'', JStr (le_Issuer v)), (''issuer_key_id'', JStr (le_IssuerKeyID v)), (''signature'', JStr (le_Signature v))]"

definition json_ResourceLinkEnvelopeSubmission :: "ResourceLinkEnvelopeSubmission \<Rightarrow> json" where
  "json_ResourceLinkEnvelopeSubmission v = JObj (json_ResourceLinkEnvelopeSubmission_fields v)"

record ResourceLinkOutcome =
  lo_LinkID :: string
  lo_Resource :: string
  lo_Subject :: string
  lo_Relation :: string
  lo_State :: string
  lo_Reason :: string
  lo_Allowed :: bool

record ResourceLinkKeyRequirement =
  lk_ManifestItemID :: string
  lk_GrantID :: string
  lk_Resource :: string
  lk_Relation :: string
  lk_KeyResource :: string
  lk_KeyVersion :: string
  lk_RecipientSubject :: string
  lk_RecipientKeyID :: string
  lk_EncryptionAlgorithm :: string
  lk_InvitationID :: string
  lk_Activation :: string
  lk_PublicKey :: bytes

record ResourceLinkRevisions =
  lv_Customer :: string
  lv_Graph :: string
  lv_Policy :: string
  lv_Identity :: string
  lv_Billing :: string
  lv_Seat :: string
  lv_Key :: string

record ResourceLinkCapacity =
  ly_Scope :: string
  ly_Before :: i64
  ly_After :: i64
  ly_Claim :: i64
  ly_Release :: i64

record ResourceLinkBilling =
  lb_CurrentQuantity :: i64
  lb_NextCycleQuantity :: i64
  lb_Increase :: i64
  lb_NextCycleReduction :: i64

record ResourceLinkInvitationAction =
  li_InvitationID :: string
  li_Action :: string
  li_Reason :: string

record ResourceLinkImpact =
  lm_ImpactedResources :: "string list option"
  lm_RetainedResources :: "string list option"
  lm_RekeyResources :: "string list option"

record ResourceLinkResult =
  lt_Revisions :: ResourceLinkRevisions
  lt_Resource :: string
  lt_Status :: string
  lt_FailureReason :: string
  lt_Impact :: ResourceLinkImpact
  lt_KeyRequirements :: "ResourceLinkKeyRequirement list option"
  lt_InvitationActions :: "ResourceLinkInvitationAction list option"
  lt_Outcomes :: "ResourceLinkOutcome list option"
  lt_Capacity :: ResourceLinkCapacity
  lt_Billing :: ResourceLinkBilling
  lt_ExpiresAt :: i64
  lt_Committable :: bool
  lt_Idempotent :: bool

record ResourceLinkPreflight =
  lp_Token :: string
  lp_Result :: ResourceLinkResult

record ResourceLinkSendInput =
  lu_Changes :: "ResourceLinkChange list option"

record ResourceLinkSendResult =
  lw_Preflight :: ResourceLinkPreflight
  lw_Committed :: ResourceLinkResult

record ResourceSubjectAccessCheck =
  lx_Resource :: string
  lx_Subject :: string
  lx_Allowed :: bool

record UnlinkResult =
  ul_ID :: string
  ul_Resource :: string
  ul_Status :: string
  ul_RekeySubjects :: "string list option"
  ul_RekeyRequired :: bool
  ul_Idempotent :: bool

section \<open>Collaborators and search\<close>

record CollaboratorPathStep =
  kp_Resource :: string
  kp_SubjectRelation :: string

record CollaboratorPath =
  kq_Type :: string
  kq_Relation :: string
  kq_Group :: string
  kq_SubjectRelation :: string
  kq_LinkID :: string
  kq_Via :: "CollaboratorPathStep list option"

record CollaboratorAccess =
  ka_Paths :: "CollaboratorPath list option"
  ka_Direct :: bool

record CollaboratorRecipient =
  kr_Type :: string
  kr_Subject :: string
  kr_Display :: string

record ResourceCollaborator =
  ko_Access :: "CollaboratorAccess option"
  ko_Recipient :: "CollaboratorRecipient option"
  ko_Status :: string
  ko_Resource :: string
  ko_DisplayName :: string
  ko_Email :: string
  ko_Kind :: string
  ko_SubjectRelation :: string
  ko_LinkID :: string
  ko_ID :: string
  ko_Relations :: "string list option"
  ko_MemberCount :: i64
  ko_ExpiresAt :: i64

record ResourceCollaboratorList =
  kl_NextCursor :: "string option"
  kl_Resource :: string
  kl_Collaborators :: "ResourceCollaborator list option"

record ResourceCollaboratorListOptions =
  kt_Direct :: "bool option"
  kt_Kind :: string
  kt_Email :: string
  kt_Subject :: string
  kt_ResourceSubject :: string
  kt_ViaGroup :: string
  kt_View :: string
  kt_Status :: string
  kt_Cursor :: string
  kt_Search :: string
  kt_Kinds :: "string list option"
  kt_Statuses :: "string list option"
  kt_Relations :: "string list option"
  kt_Limit :: int

record ResourceSearchResourceFilters =
  qr_References :: "(string \<times> string) list option"
  qr_Search :: string
  qr_Resources :: "string list option"
  qr_Types :: "string list option"
  qr_Parent :: string
  qr_Statuses :: "string list option"

definition json_ResourceSearchResourceFilters_fields :: "ResourceSearchResourceFilters \<Rightarrow> (string \<times> json) list" where
  "json_ResourceSearchResourceFilters_fields v =
     omit_smap ''references'' (qr_References v)
     @ omit_str ''search'' (qr_Search v)
     @ omit_strs ''resources'' (qr_Resources v)
     @ omit_strs ''types'' (qr_Types v)
     @ omit_str ''parent'' (qr_Parent v)
     @ omit_strs ''statuses'' (qr_Statuses v)"

definition json_ResourceSearchResourceFilters :: "ResourceSearchResourceFilters \<Rightarrow> json" where
  "json_ResourceSearchResourceFilters v = JObj (json_ResourceSearchResourceFilters_fields v)"

record ResourceSearchCollaboratorFilters =
  qc_Direct :: "bool option"
  qc_Search :: string
  qc_Email :: string
  qc_View :: string
  qc_ResourceSubject :: string
  qc_Subjects :: "string list option"
  qc_Kinds :: "string list option"
  qc_Relations :: "string list option"
  qc_Statuses :: "string list option"
  qc_ViaGroups :: "string list option"

definition json_ResourceSearchCollaboratorFilters_fields :: "ResourceSearchCollaboratorFilters \<Rightarrow> (string \<times> json) list" where
  "json_ResourceSearchCollaboratorFilters_fields v =
     omit_opt ''direct'' JBool (qc_Direct v)
     @ omit_str ''search'' (qc_Search v)
     @ omit_str ''email'' (qc_Email v)
     @ omit_str ''view'' (qc_View v)
     @ omit_str ''resource_subject'' (qc_ResourceSubject v)
     @ omit_strs ''subjects'' (qc_Subjects v)
     @ omit_strs ''kinds'' (qc_Kinds v)
     @ omit_strs ''relations'' (qc_Relations v)
     @ omit_strs ''statuses'' (qc_Statuses v)
     @ omit_strs ''via_groups'' (qc_ViaGroups v)"

definition json_ResourceSearchCollaboratorFilters :: "ResourceSearchCollaboratorFilters \<Rightarrow> json" where
  "json_ResourceSearchCollaboratorFilters v = JObj (json_ResourceSearchCollaboratorFilters_fields v)"

record ResourceSearchFilters =
  qf_Resource :: "ResourceSearchResourceFilters option"
  qf_Collaborator :: "ResourceSearchCollaboratorFilters option"

definition json_ResourceSearchFilters_fields :: "ResourceSearchFilters \<Rightarrow> (string \<times> json) list" where
  "json_ResourceSearchFilters_fields v =
     omit_opt ''resource'' json_ResourceSearchResourceFilters (qf_Resource v)
     @ omit_opt ''collaborator'' json_ResourceSearchCollaboratorFilters (qf_Collaborator v)"

definition json_ResourceSearchFilters :: "ResourceSearchFilters \<Rightarrow> json" where
  "json_ResourceSearchFilters v = JObj (json_ResourceSearchFilters_fields v)"

record ResourceSearchSort =
  qs_Field :: string
  qs_Direction :: string

definition json_ResourceSearchSort_fields :: "ResourceSearchSort \<Rightarrow> (string \<times> json) list" where
  "json_ResourceSearchSort_fields v =
     omit_str ''field'' (qs_Field v)
     @ omit_str ''direction'' (qs_Direction v)"

definition json_ResourceSearchSort :: "ResourceSearchSort \<Rightarrow> json" where
  "json_ResourceSearchSort v = JObj (json_ResourceSearchSort_fields v)"

record ResourceSearchPage =
  qp_Cursor :: string
  qp_Limit :: int

definition json_ResourceSearchPage_fields :: "ResourceSearchPage \<Rightarrow> (string \<times> json) list" where
  "json_ResourceSearchPage_fields v =
     omit_str ''cursor'' (qp_Cursor v)
     @ omit_nat ''limit'' (qp_Limit v)"

definition json_ResourceSearchPage :: "ResourceSearchPage \<Rightarrow> json" where
  "json_ResourceSearchPage v = JObj (json_ResourceSearchPage_fields v)"

record ResourceSearchInput =
  qi_Filters :: "ResourceSearchFilters option"
  qi_Sort :: "ResourceSearchSort option"
  qi_Page :: "ResourceSearchPage option"
  qi_Include :: "string list option"

definition json_ResourceSearchInput_fields :: "ResourceSearchInput \<Rightarrow> (string \<times> json) list" where
  "json_ResourceSearchInput_fields v =
     omit_opt ''filters'' json_ResourceSearchFilters (qi_Filters v)
     @ omit_opt ''sort'' json_ResourceSearchSort (qi_Sort v)
     @ omit_opt ''page'' json_ResourceSearchPage (qi_Page v)
     @ omit_strs ''include'' (qi_Include v)"

definition json_ResourceSearchInput :: "ResourceSearchInput \<Rightarrow> json" where
  "json_ResourceSearchInput v = JObj (json_ResourceSearchInput_fields v)"

record ResourceSearchParent =
  qa_Resource :: string
  qa_ResourceType :: string
  qa_DisplayName :: string

record ResourceSearchResult =
  qt_Parent :: "ResourceSearchParent option"
  qt_References :: "(string \<times> string) list option"
  qt_Resource :: string
  qt_ResourceType :: string
  qt_DisplayName :: string
  qt_Status :: string
  qt_CollaboratorMatches :: "ResourceCollaborator list option"

record ResourceSearchList =
  ql_NextCursor :: "string option"
  ql_Resources :: "ResourceSearchResult list option"

section \<open>Policies\<close>

record OrganizationE2EEPolicyInput =
  ep_RequiredAccountCustody :: string
  ep_ResourceKeyExecutor :: string
  ep_AutomationExecutor :: string
  ep_FunctionBindingID :: string
  ep_ResourceKeyPolicy :: string

definition json_OrganizationE2EEPolicyInput_fields :: "OrganizationE2EEPolicyInput \<Rightarrow> (string \<times> json) list" where
  "json_OrganizationE2EEPolicyInput_fields v =
     [(''required_account_custody'', JStr (ep_RequiredAccountCustody v)), (''resource_key_executor'', JStr (ep_ResourceKeyExecutor v)), (''automation_executor'', JStr (ep_AutomationExecutor v))]
     @ omit_str ''function_binding_id'' (ep_FunctionBindingID v)
     @ [(''resource_key_policy'', JStr (ep_ResourceKeyPolicy v))]"

definition json_OrganizationE2EEPolicyInput :: "OrganizationE2EEPolicyInput \<Rightarrow> json" where
  "json_OrganizationE2EEPolicyInput v = JObj (json_OrganizationE2EEPolicyInput_fields v)"

record OrganizationE2EEPolicy_t =
  eo_Organization :: string
  eo_OrganizationE2EEPolicyInput :: OrganizationE2EEPolicyInput
  eo_Status :: string
  eo_Revision :: i64

record ResourceGuestPolicyOverride =
  gp_Allowed :: "bool option"
  gp_AllowedDomains :: "string list option"

definition json_ResourceGuestPolicyOverride_fields :: "ResourceGuestPolicyOverride \<Rightarrow> (string \<times> json) list" where
  "json_ResourceGuestPolicyOverride_fields v =
     omit_opt ''allowed'' JBool (gp_Allowed v)
     @ omit_strs ''allowed_domains'' (gp_AllowedDomains v)"

definition json_ResourceGuestPolicyOverride :: "ResourceGuestPolicyOverride \<Rightarrow> json" where
  "json_ResourceGuestPolicyOverride v = JObj (json_ResourceGuestPolicyOverride_fields v)"

record ResourceCollaborationPolicyOverride =
  go_Guests :: ResourceGuestPolicyOverride

definition json_ResourceCollaborationPolicyOverride_fields :: "ResourceCollaborationPolicyOverride \<Rightarrow> (string \<times> json) list" where
  "json_ResourceCollaborationPolicyOverride_fields v =
     [(''guests'', json_ResourceGuestPolicyOverride (go_Guests v))]"

definition json_ResourceCollaborationPolicyOverride :: "ResourceCollaborationPolicyOverride \<Rightarrow> json" where
  "json_ResourceCollaborationPolicyOverride v = JObj (json_ResourceCollaborationPolicyOverride_fields v)"

record ResourceCollaborationPolicyMutation =
  gm_Resource :: string
  gm_Revision :: i64

end
