(* ===== verification/Resource_Links.thy ===== *)
theory Resource_Links
  imports Link_Types
begin

text \<open>
  \<^verbatim>\<open>lotorhttp/resource_links.go\<close> and \<^verbatim>\<open>lotorhttp/resource_policies.go\<close>: collaboration on resources. The checks of
  requests before they are sent and of answers before they are returned, and the operations: preflight
  and commit of link changes, unlinking, listing, searching and access checks. A map that a loop visits
  is visited in an order of Go's choice; the model visits it in the order written, which decides only
  which of several faults is named.
\<close>

section \<open>Checks\<close>

definition graphString :: "string \<Rightarrow> string \<Rightarrow> nat \<Rightarrow> (control_error, string) outcome" where
  "graphString v name maximum =
     (let s = trim_space v in
      if s = [] \<or> length s > maximum then Fail (ClientError (name @ '' is invalid'')) else Ok s)"

definition graphSubject :: "string \<Rightarrow> (control_error, string) outcome" where
  "graphSubject v =
     (case graphString v ''subject'' 512 of
        Ok s \<Rightarrow> if list_ex (\<lambda>c. c \<in> set ('' '' @ [CHR 0x09, CHR 0x0D, CHR 0x0A] @ ''/?#'')) s then Fail (ClientError ''subject is invalid'') else Ok s
      | _ \<Rightarrow> Fail (ClientError ''subject is invalid''))"

definition oneOf :: "string \<Rightarrow> string list \<Rightarrow> bool" where
  "oneOf v allowed \<longleftrightarrow> list_ex (\<lambda>item. v = item) allowed"

definition validPage :: "int \<Rightarrow> bool" where
  "validPage limit \<longleftrightarrow> limit \<ge> 0 \<and> limit \<le> 100"

definition items :: "'a list option \<Rightarrow> 'a list" where
  "items s = (case s of None \<Rightarrow> [] | Some xs \<Rightarrow> xs)"

text \<open>The first fault of the named fields with their limits, where an empty field is skipped or not.\<close>

fun named_fields :: "bool \<Rightarrow> (string \<times> string \<times> nat) list \<Rightarrow> (control_error, unit) outcome" where
  "named_fields optional [] = Ok ()"
| "named_fields optional ((name, v, maximum) # fs) =
     (if optional \<and> v = [] then named_fields optional fs
      else case graphString v name maximum of
        Ok _ \<Rightarrow> named_fields optional fs
      | Fail e \<Rightarrow> Fail e
      | Panic \<Rightarrow> Panic)"

fun kinds_ok :: "string list \<Rightarrow> string list \<Rightarrow> bool" where
  "kinds_ok seen [] = True"
| "kinds_ok seen (kind # ks) =
     (if kind \<in> set seen \<or> \<not> oneOf kind [''user'', ''group'', ''service_account''] then False else kinds_ok (kind # seen) ks)"

definition validateCandidateSearch :: "ResourceLinkCandidateSearchInput \<Rightarrow> (control_error, ResourceLinkCandidateSearchInput) outcome" where
  "validateCandidateSearch input =
     (case graphString (ls_Query input) ''query'' 256 of
        Ok query \<Rightarrow>
          if length query < 2 then Fail (ClientError ''query must contain between 2 and 256 characters'')
          else (case graphString (ls_Relation input) ''relation'' 128 of
            Ok relation \<Rightarrow>
              if \<not> validPage (ls_Limit input) then Fail (ClientError ''limit must be between 1 and 100'')
              else if length (ls_Cursor input) > 2048 \<or> length (items (ls_Kinds input)) > 3 then Fail (ClientError ''invalid candidate search'')
              else if \<not> kinds_ok [] (items (ls_Kinds input)) then Fail (ClientError ''invalid candidate kind'')
              else Ok (input\<lparr>ls_Query := query, ls_Relation := relation\<rparr>)
          | Fail e \<Rightarrow> Fail e | Panic \<Rightarrow> Panic)
      | _ \<Rightarrow> Fail (ClientError ''query must contain between 2 and 256 characters''))"

definition cursor_ok :: "string option \<Rightarrow> bool" where
  "cursor_ok cursor = (case cursor of None \<Rightarrow> True | Some s \<Rightarrow> \<not> (s = [] \<or> length s > 2048))"

definition candidate_ok :: "ResourceLinkCandidate \<Rightarrow> bool" where
  "candidate_ok item \<longleftrightarrow>
     oneOf (la_Kind item) [''user'', ''group'', ''service_account''] \<and> oneOf (la_LinkState item) [''available'', ''linked'', ''pending_invitation'']
     \<and> la_DisplayName item \<noteq> []
     \<and> \<not> (la_Kind item = ''user'' \<and> la_Subject item = [])
     \<and> \<not> (la_Kind item = ''group'' \<and> (la_Resource item = [] \<or> la_SubjectRelation item \<noteq> ''member''))
     \<and> \<not> (la_Kind item = ''service_account'' \<and> (la_Resource item = [] \<or> la_SubjectRelation item \<noteq> []))"

definition validateCandidateSearchResult :: "ResourceLinkCandidateSearchResult \<Rightarrow> (control_error, unit) outcome" where
  "validateCandidateSearchResult result =
     (if lr_Candidates result = None then Fail (ClientError ''invalid candidate response'')
      else if \<not> cursor_ok (lr_NextCursor result) then Fail (ClientError ''invalid candidate cursor'')
      else if \<not> list_all candidate_ok (items (lr_Candidates result)) then Fail (ClientError ''invalid candidate response'')
      else Ok ())"

definition validateLinkChange :: "ResourceLinkChange \<Rightarrow> (control_error, unit) outcome" where
  "validateLinkChange ch =
     (if \<not> oneOf (lc_Action ch) [''grant'', ''revoke''] then Fail (ClientError ''invalid link action'')
      else if lc_Action ch = ''grant'' \<and> lc_Relation ch = [] \<or> lc_Action ch = ''revoke'' \<and> lc_LinkID ch = [] \<and> lc_Collaborator ch = []
      then Fail (ClientError ''invalid link change target'')
      else case named_fields True
          [(''link ID'', lc_LinkID ch, 256), (''collaborator'', lc_Collaborator ch, 512), (''relation'', lc_Relation ch, 128),
           (''subject'', lc_Subject ch, 512), (''email'', lc_Email ch, 320), (''subject resource'', lc_SubjectResource ch, 512),
           (''subject relation'', lc_SubjectRelation ch, 128)] of
        Fail e \<Rightarrow> Fail e | Panic \<Rightarrow> Panic
      | Ok _ \<Rightarrow>
          if lc_Provisioning ch \<noteq> [] \<and> \<not> oneOf (lc_Provisioning ch) [''existing_only'', ''create_if_missing'']
             \<or> lc_Delivery ch \<noteq> [] \<and> \<not> oneOf (lc_Delivery ch) [''email'', ''in_app'', ''external'', ''none'', ''notification_only'']
          then Fail (ClientError ''invalid link change mode'') else Ok ())"

definition validateLinkEnvelope :: "ResourceLinkEnvelopeSubmission \<Rightarrow> (control_error, unit) outcome" where
  "validateLinkEnvelope e =
     (if le_EncryptionSuite e \<noteq> ''X25519-HKDF-SHA256-AES-256-GCM'' then Fail (ClientError ''invalid resource link envelope suite'')
      else named_fields False
        [(''manifest item ID'', le_ManifestItemID e, 256), (''ciphertext'', le_Ciphertext e, 65536), (''AAD hash'', le_AADHash e, 128),
         (''issuer'', le_Issuer e, 512), (''issuer key ID'', le_IssuerKeyID e, 256), (''signature'', le_Signature e, 256)])"

definition link_counts_ok :: "ResourceLinkResult \<Rightarrow> bool" where
  "link_counts_ok result \<longleftrightarrow>
     oneOf (ly_Scope (lt_Capacity result)) [''per_organization'', ''per_account'']
     \<and> list_all (\<lambda>n. \<not> n <s 0)
         [ly_Before (lt_Capacity result), ly_After (lt_Capacity result), ly_Claim (lt_Capacity result), ly_Release (lt_Capacity result),
          lb_CurrentQuantity (lt_Billing result), lb_NextCycleQuantity (lt_Billing result), lb_Increase (lt_Billing result),
          lb_NextCycleReduction (lt_Billing result)]"

definition link_outcome_ok :: "ResourceLinkOutcome \<Rightarrow> bool" where
  "link_outcome_ok item \<longleftrightarrow> lo_Resource item \<noteq> [] \<and> lo_Subject item \<noteq> [] \<and> lo_Relation item \<noteq> []
     \<and> oneOf (lo_State item) [''active'', ''pending_acceptance'', ''pending_encryption'', ''revoked'', ''denied'']"

definition invitation_action_ok :: "ResourceLinkInvitationAction \<Rightarrow> bool" where
  "invitation_action_ok a \<longleftrightarrow> li_InvitationID a \<noteq> [] \<and> oneOf (li_Action a) [''preserve'', ''claim'', ''activate'', ''supersede'', ''cancel'']"

definition key_requirement_ok :: "ResourceLinkKeyRequirement \<Rightarrow> bool" where
  "key_requirement_ok k \<longleftrightarrow>
     lk_ManifestItemID k \<noteq> [] \<and> lk_GrantID k \<noteq> [] \<and> lk_Resource k \<noteq> [] \<and> lk_Relation k \<noteq> [] \<and> lk_KeyResource k \<noteq> []
     \<and> lk_KeyVersion k \<noteq> [] \<and> lk_RecipientSubject k \<noteq> [] \<and> lk_RecipientKeyID k \<noteq> []
     \<and> lk_EncryptionAlgorithm k = ''X25519'' \<and> length (lk_PublicKey k) = 32
     \<and> \<not> (lk_Activation k \<noteq> [] \<and> \<not> oneOf (lk_Activation k) [''active_access'', ''pending_invitation''])"

definition validateResourceLinkResult :: "ResourceLinkResult \<Rightarrow> string \<Rightarrow> (control_error, unit) outcome" where
  "validateResourceLinkResult result resource =
     (if lt_Resource result \<noteq> resource
         \<or> \<not> oneOf (lt_Status result) [''ready'', ''committing'', ''pending_acceptance'', ''pending_encryption'', ''active'', ''failed'', ''expired'']
         \<or> lt_ExpiresAt result <s 0 \<or> lt_Outcomes result = None \<or> lt_InvitationActions result = None \<or> lt_KeyRequirements result = None
         \<or> lm_ImpactedResources (lt_Impact result) = None \<or> lm_RetainedResources (lt_Impact result) = None
         \<or> lm_RekeyResources (lt_Impact result) = None
      then Fail (ClientError ''invalid resource link response'')
      else if \<not> link_counts_ok result then Fail (ClientError ''invalid resource link capacity'')
      else if \<not> list_all link_outcome_ok (items (lt_Outcomes result)) then Fail (ClientError ''invalid resource link outcome'')
      else if \<not> list_all invitation_action_ok (items (lt_InvitationActions result)) then Fail (ClientError ''invalid resource link invitation action'')
      else if \<not> list_all key_requirement_ok (items (lt_KeyRequirements result)) then Fail (ClientError ''invalid resource link key requirement'')
      else Ok ())"

text \<open>Query parameters of a listing, added one by one.\<close>

fun add_named :: "(string \<times> string \<times> nat) list \<Rightarrow> url_values \<Rightarrow> (control_error, url_values) outcome" where
  "add_named [] q = Ok q"
| "add_named ((name, v, maximum) # fs) q =
     (if v = [] then add_named fs q
      else case graphString v name maximum of
        Ok s \<Rightarrow> add_named fs (values_set q name s) | Fail e \<Rightarrow> Fail e | Panic \<Rightarrow> Panic)"

fun add_kinds :: "string list \<Rightarrow> url_values \<Rightarrow> (control_error, url_values) outcome" where
  "add_kinds [] q = Ok q"
| "add_kinds (kind # ks) q =
     (if kind = [] then add_kinds ks q
      else if \<not> oneOf kind [''user'', ''group'', ''service_account'', ''invitation''] then Fail (ClientError ''invalid collaborator kind'')
      else add_kinds ks (values_add q ''kind'' kind))"

fun add_values :: "bool \<Rightarrow> string \<Rightarrow> nat \<Rightarrow> string list \<Rightarrow> url_values \<Rightarrow> (control_error, url_values) outcome" where
  "add_values skip name maximum [] q = Ok q"
| "add_values skip name maximum (v # vs) q =
     (if skip \<and> v = [] then add_values skip name maximum vs q
      else case graphString v name maximum of
        Ok s \<Rightarrow> add_values skip name maximum vs (values_add q name s) | Fail e \<Rightarrow> Fail e | Panic \<Rightarrow> Panic)"

definition collaboratorQuery :: "ResourceCollaboratorListOptions \<Rightarrow> (control_error, string) outcome" where
  "collaboratorQuery options =
     (if \<not> validPage (kt_Limit options) then Fail (ClientError ''limit must be between 1 and 100'')
      else
        bind_outcome (add_named
          [(''view'', kt_View options, 16), (''search'', kt_Search options, 256), (''email'', kt_Email options, 320),
           (''subject'', kt_Subject options, 512), (''resource_subject'', kt_ResourceSubject options, 640),
           (''via_group'', kt_ViaGroup options, 512), (''cursor'', kt_Cursor options, 2048)] []) (\<lambda>q1.
        if kt_View options \<noteq> [] \<and> \<not> oneOf (kt_View options) [''direct'', ''effective''] then Fail (ClientError ''invalid collaborator view'')
        else
          let q2 = (case kt_Direct options of None \<Rightarrow> q1 | Some b \<Rightarrow> values_set q1 ''direct'' (if b then ''true'' else ''false'')) in
          bind_outcome (add_kinds (kt_Kind options # items (kt_Kinds options)) q2) (\<lambda>q3.
          bind_outcome (add_values True ''status'' 64 (kt_Status options # items (kt_Statuses options)) q3) (\<lambda>q4.
          bind_outcome (add_values False ''relation'' 128 (items (kt_Relations options)) q4) (\<lambda>q5.
            Ok (encoded_query (if kt_Limit options > 0 then values_set q5 ''limit'' (itoa (kt_Limit options)) else q5)))))))"

definition collaborator_path_ok :: "CollaboratorPath \<Rightarrow> bool" where
  "collaborator_path_ok p \<longleftrightarrow> oneOf (kq_Type p) [''direct'', ''group''] \<and> kq_Relation p \<noteq> [] \<and> kq_Via p \<noteq> None"

definition collaborator_fault :: "ResourceCollaborator \<Rightarrow> string option" where
  "collaborator_fault item =
     (if \<not> oneOf (ko_Kind item) [''user'', ''group'', ''service_account'', ''invitation''] \<or> ko_ID item = [] \<or> ko_Status item = []
         \<or> ko_Relations item = None
      then Some ''invalid collaborator response''
      else if (case ko_Access item of None \<Rightarrow> False | Some a \<Rightarrow> ka_Paths a = None) then Some ''invalid collaborator access''
      else if (case ko_Access item of None \<Rightarrow> False | Some a \<Rightarrow> \<not> list_all collaborator_path_ok (items (ka_Paths a)))
      then Some ''invalid collaborator access path''
      else if (case ko_Recipient item of None \<Rightarrow> False | Some r \<Rightarrow> \<not> oneOf (kr_Type r) [''user'', ''email'', ''group''])
      then Some ''invalid collaborator recipient''
      else None)"

definition validateCollaboratorList :: "ResourceCollaboratorList \<Rightarrow> string \<Rightarrow> (control_error, unit) outcome" where
  "validateCollaboratorList result resource =
     (if kl_Resource result \<noteq> resource \<or> kl_Collaborators result = None then Fail (ClientError ''invalid collaborator response'')
      else if \<not> cursor_ok (kl_NextCursor result) then Fail (ClientError ''invalid collaborator cursor'')
      else case List.map_filter collaborator_fault (items (kl_Collaborators result)) of
        [] \<Rightarrow> Ok () | fault # _ \<Rightarrow> Fail (ClientError fault))"

definition all_named :: "(string \<times> string list option \<times> nat) list \<Rightarrow> (control_error, unit) outcome" where
  "all_named groups = named_fields False (concat (map (\<lambda>(name, vs, maximum). map (\<lambda>v. (name, v, maximum)) (items vs)) groups))"

definition resource_filter_check :: "ResourceSearchResourceFilters \<Rightarrow> (control_error, unit) outcome" where
  "resource_filter_check f =
     bind_outcome (named_fields True [(''search'', qr_Search f, 256), (''parent'', qr_Parent f, 512)]) (\<lambda>_.
     bind_outcome (all_named [(''resource'', qr_Resources f, 512), (''resource type'', qr_Types f, 128), (''resource status'', qr_Statuses f, 64)]) (\<lambda>_.
       if length (items (qr_References f)) > 16 then Fail (ClientError ''resource references may contain at most 16 fields'')
       else named_fields False (concat (map (\<lambda>(field, target). [(''reference field'', field, 128), (''reference target'', target, 512)])
              (items (qr_References f))))))"

definition collaborator_filter_check :: "ResourceSearchCollaboratorFilters \<Rightarrow> (control_error, unit) outcome" where
  "collaborator_filter_check f =
     (if qc_View f \<noteq> [] \<and> \<not> oneOf (qc_View f) [''direct'', ''effective''] then Fail (ClientError ''invalid collaborator view'')
      else
        bind_outcome (named_fields True [(''search'', qc_Search f, 256), (''email'', qc_Email f, 320), (''resource subject'', qc_ResourceSubject f, 640)]) (\<lambda>_.
          if \<not> list_all (\<lambda>kind. oneOf kind [''user'', ''group'', ''service_account'', ''invitation'']) (items (qc_Kinds f))
          then Fail (ClientError ''invalid collaborator kind'')
          else all_named [(''collaborator subject'', qc_Subjects f, 512), (''collaborator relation'', qc_Relations f, 128),
                          (''collaborator status'', qc_Statuses f, 64), (''collaborator via group'', qc_ViaGroups f, 512)]))"

definition validateResourceSearch :: "ResourceSearchInput \<Rightarrow> (control_error, unit) outcome" where
  "validateResourceSearch input =
     (if (case qi_Page input of None \<Rightarrow> False | Some p \<Rightarrow> \<not> validPage (qp_Limit p) \<or> length (qp_Cursor p) > 2048)
      then Fail (ClientError ''invalid resource search page'')
      else if \<not> list_all (\<lambda>i. oneOf i [''parent'', ''collaborator_matches'', ''references'']) (items (qi_Include input))
      then Fail (ClientError ''invalid resource search include'')
      else if (case qi_Sort input of None \<Rightarrow> False
               | Some s \<Rightarrow> qs_Field s \<noteq> [] \<and> \<not> oneOf (qs_Field s) [''display_name'', ''resource_type'', ''resource'']
                   \<or> qs_Direction s \<noteq> [] \<and> \<not> oneOf (qs_Direction s) [''asc'', ''desc''])
      then Fail (ClientError ''invalid resource search sort'')
      else case qi_Filters input of
        None \<Rightarrow> Ok ()
      | Some filters \<Rightarrow>
          bind_outcome (case qf_Resource filters of None \<Rightarrow> Ok () | Some f \<Rightarrow> resource_filter_check f) (\<lambda>_.
            case qf_Collaborator filters of None \<Rightarrow> Ok () | Some f \<Rightarrow> collaborator_filter_check f))"

definition search_result_fault :: "ResourceSearchResult \<Rightarrow> string option" where
  "search_result_fault item =
     (if qt_Resource item = [] \<or> qt_ResourceType item = [] \<or> qt_DisplayName item = [] \<or> qt_Status item = []
      then Some ''invalid resource search response''
      else if (case qt_Parent item of None \<Rightarrow> False | Some p \<Rightarrow> qa_Resource p = [] \<or> qa_ResourceType p = [] \<or> qa_DisplayName p = [])
      then Some ''invalid resource search parent''
      else if list_ex (\<lambda>k. \<not> oneOf (ko_Kind k) [''user'', ''group'', ''service_account'', ''invitation''] \<or> ko_ID k = []) (items (qt_CollaboratorMatches item))
      then Some ''invalid resource search collaborator''
      else None)"

definition validateResourceSearchList :: "ResourceSearchList \<Rightarrow> (control_error, unit) outcome" where
  "validateResourceSearchList result =
     (if ql_Resources result = None then Fail (ClientError ''invalid resource search response'')
      else if \<not> cursor_ok (ql_NextCursor result) then Fail (ClientError ''invalid resource search cursor'')
      else case List.map_filter search_result_fault (items (ql_Resources result)) of
        [] \<Rightarrow> Ok () | fault # _ \<Rightarrow> Fail (ClientError fault))"

section \<open>Strict requests\<close>

text \<open>
  The answer is read as a raw message first and then strictly: no unknown fields, nothing behind the
  value. Status 204 leaves the raw message empty, which is not a value.
\<close>

definition strictRequestHeaders ::
  "api_env \<Rightarrow> 'o json_codec \<Rightarrow> control_net \<Rightarrow> ControlClient \<Rightarrow> string \<Rightarrow> string \<Rightarrow> string \<Rightarrow> http_header \<Rightarrow> json option \<Rightarrow> (http_header \<times> 'o) control_op" where
  "strictRequestHeaders env js net c meth path key headers body =
     op_bind (requestHeaders env net c meth path key headers body (Some (api_RawMessage env))) (\<lambda>(responseHeaders, raw).
       case (case raw of None \<Rightarrow> None | Some r \<Rightarrow> js_decode_all js r) of
         None \<Rightarrow> op_fail (ClientError ''invalid Lotor response'')
       | Some v \<Rightarrow> op_return (responseHeaders, v))"

definition strictRequest ::
  "api_env \<Rightarrow> 'o json_codec \<Rightarrow> control_net \<Rightarrow> ControlClient \<Rightarrow> string \<Rightarrow> string \<Rightarrow> string \<Rightarrow> http_header \<Rightarrow> json option \<Rightarrow> 'o control_op" where
  "strictRequest env js net c meth path key headers body =
     op_bind (strictRequestHeaders env js net c meth path key headers body) (\<lambda>(_, v). op_return v)"

definition graphResourcePath :: "string \<Rightarrow> string" where
  "graphResourcePath resource = ''/resources/'' @ path_escape (trim_space resource)"

definition requireResourceGraphUser :: "ControlClient \<Rightarrow> (control_error, unit) outcome" where
  "requireResourceGraphUser c =
     (if cc_userToken c = [] then Fail (ClientError ''resource collaboration requires ForUser delegation'') else Ok ())"

definition requireApplicationAuthority :: "ControlClient \<Rightarrow> (control_error, unit) outcome" where
  "requireApplicationAuthority c =
     (if cc_userToken c \<noteq> [] then Fail (ClientError ''operation requires application authority'') else Ok ())"

section \<open>Operations\<close>

definition SearchResourceLinkCandidates ::
  "api_env \<Rightarrow> ResourceLinkCandidateSearchResult json_codec \<Rightarrow> control_net \<Rightarrow> ControlClient \<Rightarrow> string \<Rightarrow> ResourceLinkCandidateSearchInput \<Rightarrow>
   ResourceLinkCandidateSearchResult control_op" where
  "SearchResourceLinkCandidates env js net c resource input =
     op_bind (op_lift (requireResourceGraphUser c)) (\<lambda>_.
     op_bind (op_lift (validateCandidateSearch input)) (\<lambda>checked.
     op_bind (strictRequest env js net c ''POST'' (graphResourcePath resource @ ''/link-candidates/search'') [] []
        (Some (json_ResourceLinkCandidateSearchInput checked))) (\<lambda>r.
     op_bind (op_lift (validateCandidateSearchResult r)) (\<lambda>_. op_return r))))"

fun check_all :: "('a \<Rightarrow> (control_error, unit) outcome) \<Rightarrow> 'a list \<Rightarrow> (control_error, unit) outcome" where
  "check_all f [] = Ok ()"
| "check_all f (x # xs) = bind_outcome (f x) (\<lambda>_. check_all f xs)"

definition PreflightResourceLinks ::
  "api_env \<Rightarrow> ResourceLinkResult json_codec \<Rightarrow> control_net \<Rightarrow> ControlClient \<Rightarrow> string \<Rightarrow> ResourceLinkChange list option \<Rightarrow>
   ResourceLinkPreflight control_op" where
  "PreflightResourceLinks env js net c resource0 changes =
     op_bind (op_lift (requireResourceGraphUser c)) (\<lambda>_.
     op_bind (op_lift (graphString resource0 ''resource'' 512)) (\<lambda>resource.
       if length (items changes) < 1 \<or> length (items changes) > 1000
       then op_fail (ClientError ''changes must contain between 1 and 1000 items'')
       else op_bind (op_lift (check_all validateLinkChange (items changes))) (\<lambda>_.
         op_bind (strictRequestHeaders env js net c ''POST'' (graphResourcePath resource @ ''/links/preflight'') [] []
            (Some (JObj [(''changes'', json_list json_ResourceLinkChange changes)]))) (\<lambda>(headers, r).
         case graphString (trim_space (header_get headers ''Lotor-Link-Token'')) ''link token'' 512 of
           Ok token \<Rightarrow>
             op_bind (op_lift (validateResourceLinkResult r resource)) (\<lambda>_. op_return \<lparr>lp_Token = token, lp_Result = r\<rparr>)
         | _ \<Rightarrow> op_fail (ClientError ''Lotor link preflight response is missing its token'')))))"

definition CommitResourceLinks ::
  "api_env \<Rightarrow> ResourceLinkResult json_codec \<Rightarrow> control_net \<Rightarrow> ControlClient \<Rightarrow> string \<Rightarrow> ResourceLinkPreflight \<Rightarrow>
   ResourceLinkEnvelopeSubmission list option \<Rightarrow> ResourceLinkResult control_op" where
  "CommitResourceLinks env js net c resource0 preflight envelopes =
     op_bind (op_lift (requireResourceGraphUser c)) (\<lambda>_.
     op_bind (op_lift (graphString resource0 ''resource'' 512)) (\<lambda>resource.
     op_bind (op_lift (graphString (lp_Token preflight) ''link token'' 512)) (\<lambda>token.
       if lt_Resource (lp_Result preflight) \<noteq> resource then op_fail (ClientError ''link preflight resource does not match commit resource'')
       else if length (items envelopes) > 10000 then op_fail (ClientError ''envelopes cannot contain more than 10000 items'')
       else op_bind (op_lift (check_all validateLinkEnvelope (items envelopes))) (\<lambda>_.
         op_bind (strictRequest env js net c ''POST'' (graphResourcePath resource @ ''/links/commit'') [] [(''Lotor-Link-Token'', token)]
            (Some (JObj (omit_list ''envelopes'' json_ResourceLinkEnvelopeSubmission envelopes)))) (\<lambda>r.
         op_bind (op_lift (validateResourceLinkResult r resource)) (\<lambda>_. op_return r))))))"

definition SendResourceLinks ::
  "api_env \<Rightarrow> ResourceLinkResult json_codec \<Rightarrow> control_net \<Rightarrow> ControlClient \<Rightarrow> string \<Rightarrow> ResourceLinkSendInput \<Rightarrow> ResourceLinkSendResult control_op" where
  "SendResourceLinks env js net c resource input =
     op_bind (PreflightResourceLinks env js net c resource (lu_Changes input)) (\<lambda>preflight.
       if \<not> lt_Committable (lp_Result preflight) then
         let code = (if lt_FailureReason (lp_Result preflight) = [] then ''link_denied'' else lt_FailureReason (lp_Result preflight))
         in op_fail (ControlError code code 409)
       else op_bind (CommitResourceLinks env js net c resource preflight None) (\<lambda>committed.
         op_return \<lparr>lw_Preflight = preflight, lw_Committed = committed\<rparr>))"

definition UnlinkResource ::
  "api_env \<Rightarrow> UnlinkResult json_codec \<Rightarrow> control_net \<Rightarrow> ControlClient \<Rightarrow> string \<Rightarrow> string \<Rightarrow> string \<Rightarrow> UnlinkResult control_op" where
  "UnlinkResource env js net c resource0 linkID0 key =
     op_bind (op_lift (requireResourceGraphUser c)) (\<lambda>_.
     op_bind (op_lift (graphString resource0 ''resource'' 512)) (\<lambda>resource.
     op_bind (op_lift (graphString linkID0 ''link ID'' 256)) (\<lambda>linkID.
     op_bind (strictRequest env js net c ''DELETE'' (graphResourcePath resource @ ''/links/'' @ path_escape linkID) key [] None) (\<lambda>r.
       if ul_Resource r \<noteq> resource \<or> ul_Status r \<noteq> ''revoked'' then op_fail (ClientError ''invalid Lotor unlink response'')
       else op_return r))))"

definition ResourceCollaborators ::
  "api_env \<Rightarrow> ResourceCollaboratorList json_codec \<Rightarrow> control_net \<Rightarrow> ControlClient \<Rightarrow> string \<Rightarrow> ResourceCollaboratorListOptions \<Rightarrow>
   ResourceCollaboratorList control_op" where
  "ResourceCollaborators env js net c resource0 options =
     op_bind (op_lift (requireResourceGraphUser c)) (\<lambda>_.
     op_bind (op_lift (graphString resource0 ''resource'' 512)) (\<lambda>resource.
     op_bind (op_lift (collaboratorQuery options)) (\<lambda>query.
     op_bind (strictRequest env js net c ''GET'' (graphResourcePath resource @ ''/collaborators'' @ query) [] [] None) (\<lambda>r.
     op_bind (op_lift (validateCollaboratorList r resource)) (\<lambda>_. op_return r)))))"

definition CheckResourceSubjectAccess ::
  "api_env \<Rightarrow> ResourceSubjectAccessCheck json_codec \<Rightarrow> control_net \<Rightarrow> ControlClient \<Rightarrow> string \<Rightarrow> string \<Rightarrow> ResourceSubjectAccessCheck control_op" where
  "CheckResourceSubjectAccess env js net c resource0 subject0 =
     op_bind (op_lift (requireApplicationAuthority c)) (\<lambda>_.
     op_bind (op_lift (graphString resource0 ''resource'' 512)) (\<lambda>resource.
     op_bind (op_lift (graphSubject subject0)) (\<lambda>subject.
     op_bind (strictRequest env js net c ''POST'' (graphResourcePath resource @ ''/subject-access/check'') [] []
        (Some (JObj [(''subject'', JStr subject)]))) (\<lambda>r.
       if lx_Resource r \<noteq> resource \<or> lx_Subject r \<noteq> subject then op_fail (ClientError ''invalid Lotor subject access response'')
       else op_return r))))"

definition SearchResources ::
  "api_env \<Rightarrow> ResourceSearchList json_codec \<Rightarrow> control_net \<Rightarrow> ControlClient \<Rightarrow> ResourceSearchInput \<Rightarrow> ResourceSearchList control_op" where
  "SearchResources env js net c input =
     op_bind (op_lift (requireResourceGraphUser c)) (\<lambda>_.
     op_bind (op_lift (validateResourceSearch input)) (\<lambda>_.
     op_bind (strictRequest env js net c ''POST'' ''/resources/search'' [] [] (Some (json_ResourceSearchInput input))) (\<lambda>r.
     op_bind (op_lift (validateResourceSearchList r)) (\<lambda>_. op_return r))))"

section \<open>Policies\<close>

definition validateOrganizationE2EEPolicyInput :: "OrganizationE2EEPolicyInput \<Rightarrow> (control_error, unit) outcome" where
  "validateOrganizationE2EEPolicyInput input =
     (if \<not> oneOf (ep_RequiredAccountCustody input) [''browser_passphrase'', ''temporary_box_then_browser'', ''enterprise_box'']
         \<or> \<not> oneOf (ep_ResourceKeyExecutor input) [''managed'', ''customer_box'', ''browser'']
         \<or> \<not> oneOf (ep_AutomationExecutor input) [''managed'', ''customer_box'', ''none'']
         \<or> \<not> oneOf (ep_ResourceKeyPolicy input) [''organization_only'', ''organization_default'', ''resource_only'']
      then Fail (ClientError ''invalid organization E2EE policy'')
      else named_fields True [(''function binding ID'', ep_FunctionBindingID input, 256)])"

definition validateOrganizationE2EEPolicy :: "OrganizationE2EEPolicy_t \<Rightarrow> string \<Rightarrow> (control_error, unit) outcome" where
  "validateOrganizationE2EEPolicy policy organization =
     (if eo_Organization policy \<noteq> organization \<or> eo_Revision policy <s 1 \<or> \<not> oneOf (eo_Status policy) [''pending'', ''ready'', ''unavailable'']
      then Fail (ClientError ''invalid organization E2EE policy response'')
      else validateOrganizationE2EEPolicyInput (eo_OrganizationE2EEPolicyInput policy))"

fun domains_ok :: "string list \<Rightarrow> string list \<Rightarrow> bool" where
  "domains_ok seen [] = True"
| "domains_ok seen (d # ds) =
     (case graphString d ''allowed domain'' 253 of
        Ok s \<Rightarrow> if length s < 3 \<or> s \<in> set seen then False else domains_ok (s # seen) ds
      | _ \<Rightarrow> False)"

definition validateResourceCollaborationPolicy :: "ResourceCollaborationPolicyOverride \<Rightarrow> (control_error, unit) outcome" where
  "validateResourceCollaborationPolicy input =
     (let guests = go_Guests input in
      if gp_Allowed guests = None \<and> gp_AllowedDomains guests = None then Fail (ClientError ''guest policy must contain a restriction'')
      else if gp_AllowedDomains guests \<noteq> None
              \<and> (length (items (gp_AllowedDomains guests)) < 1 \<or> length (items (gp_AllowedDomains guests)) > 100)
      then Fail (ClientError ''guest policy must contain between 1 and 100 domains'')
      else if \<not> domains_ok [] (items (gp_AllowedDomains guests)) then Fail (ClientError ''invalid guest allowed domain'')
      else Ok ())"

definition OrganizationE2EEPolicy ::
  "api_env \<Rightarrow> OrganizationE2EEPolicy_t json_codec \<Rightarrow> control_net \<Rightarrow> ControlClient \<Rightarrow> string \<Rightarrow> OrganizationE2EEPolicy_t control_op" where
  "OrganizationE2EEPolicy env js net c organization0 =
     op_bind (op_lift (requireResourceGraphUser c)) (\<lambda>_.
     op_bind (op_lift (graphString organization0 ''organization'' 512)) (\<lambda>organization.
     op_bind (strictRequest env js net c ''GET'' (graphResourcePath organization @ ''/e2ee'') [] [] None) (\<lambda>r.
     op_bind (op_lift (validateOrganizationE2EEPolicy r organization)) (\<lambda>_. op_return r))))"

definition ConfigureOrganizationE2EE ::
  "api_env \<Rightarrow> OrganizationE2EEPolicy_t json_codec \<Rightarrow> control_net \<Rightarrow> ControlClient \<Rightarrow> string \<Rightarrow> OrganizationE2EEPolicyInput \<Rightarrow>
   OrganizationE2EEPolicy_t control_op" where
  "ConfigureOrganizationE2EE env js net c organization0 input =
     op_bind (op_lift (requireResourceGraphUser c)) (\<lambda>_.
     op_bind (op_lift (graphString organization0 ''organization'' 512)) (\<lambda>organization.
     op_bind (op_lift (validateOrganizationE2EEPolicyInput input)) (\<lambda>_.
     op_bind (strictRequest env js net c ''PUT'' (graphResourcePath organization @ ''/e2ee'') [] [] (Some (json_OrganizationE2EEPolicyInput input))) (\<lambda>r.
     op_bind (op_lift (validateOrganizationE2EEPolicy r organization)) (\<lambda>_. op_return r)))))"

definition SetResourceCollaborationPolicy ::
  "api_env \<Rightarrow> ResourceCollaborationPolicyMutation json_codec \<Rightarrow> control_net \<Rightarrow> ControlClient \<Rightarrow> string \<Rightarrow> ResourceCollaborationPolicyOverride \<Rightarrow>
   ResourceCollaborationPolicyMutation control_op" where
  "SetResourceCollaborationPolicy env js net c resource0 input =
     op_bind (op_lift (requireResourceGraphUser c)) (\<lambda>_.
     op_bind (op_lift (graphString resource0 ''resource'' 512)) (\<lambda>resource.
     op_bind (op_lift (validateResourceCollaborationPolicy input)) (\<lambda>_.
     op_bind (strictRequest env js net c ''PUT'' (graphResourcePath resource @ ''/collaboration-policy'') [] []
        (Some (json_ResourceCollaborationPolicyOverride input))) (\<lambda>r.
       if gm_Resource r \<noteq> resource \<or> gm_Revision r <s 1 then op_fail (ClientError ''invalid resource collaboration policy response'')
       else op_return r))))"

section \<open>All of them are requests of their client\<close>

lemma sends_outcome [sends_intros]:
  "(\<And>a. sends P (f a)) \<Longrightarrow> (\<And>e. sends P (g e)) \<Longrightarrow> sends P h \<Longrightarrow> sends P (case r of Ok a \<Rightarrow> f a | Fail e \<Rightarrow> g e | Panic \<Rightarrow> h)"
  by (cases r) simp_all

context client_policy
begin

lemma sends_strictRequestHeaders [sends_intros]:
  "plain_headers headers \<Longrightarrow> sends allowed (strictRequestHeaders env js net c meth path key headers body)"
  by (auto simp: strictRequestHeaders_def intro!: sends_intros)

lemma sends_strictRequest [sends_intros]:
  "plain_headers headers \<Longrightarrow> sends allowed (strictRequest env js net c meth path key headers body)"
  by (auto simp: strictRequest_def intro!: sends_intros)

lemma sends_SearchResourceLinkCandidates [sends_intros]: "sends allowed (SearchResourceLinkCandidates env js net c resource input)"
  by (auto simp: SearchResourceLinkCandidates_def intro!: sends_intros)

lemma sends_PreflightResourceLinks [sends_intros]: "sends allowed (PreflightResourceLinks env js net c resource changes)"
  by (auto simp: PreflightResourceLinks_def intro!: sends_intros)

lemma sends_CommitResourceLinks [sends_intros]: "sends allowed (CommitResourceLinks env js net c resource preflight envelopes)"
  by (auto simp: CommitResourceLinks_def intro!: sends_intros)

lemma sends_SendResourceLinks [sends_intros]: "sends allowed (SendResourceLinks env js net c resource input)"
  by (auto simp: SendResourceLinks_def Let_def intro!: sends_intros)

lemma sends_UnlinkResource [sends_intros]: "sends allowed (UnlinkResource env js net c resource linkID key)"
  by (auto simp: UnlinkResource_def intro!: sends_intros)

lemma sends_ResourceCollaborators [sends_intros]: "sends allowed (ResourceCollaborators env js net c resource options)"
  by (auto simp: ResourceCollaborators_def intro!: sends_intros)

lemma sends_CheckResourceSubjectAccess [sends_intros]: "sends allowed (CheckResourceSubjectAccess env js net c resource subject)"
  by (auto simp: CheckResourceSubjectAccess_def intro!: sends_intros)

lemma sends_SearchResources [sends_intros]: "sends allowed (SearchResources env js net c search)"
  by (auto simp: SearchResources_def intro!: sends_intros)

lemma sends_OrganizationE2EEPolicy [sends_intros]: "sends allowed (OrganizationE2EEPolicy env js net c organization)"
  by (auto simp: OrganizationE2EEPolicy_def intro!: sends_intros)

lemma sends_ConfigureOrganizationE2EE [sends_intros]: "sends allowed (ConfigureOrganizationE2EE env js net c organization policy)"
  by (auto simp: ConfigureOrganizationE2EE_def intro!: sends_intros)

lemma sends_SetResourceCollaborationPolicy [sends_intros]: "sends allowed (SetResourceCollaborationPolicy env js net c resource override)"
  by (auto simp: SetResourceCollaborationPolicy_def intro!: sends_intros)

end

section \<open>Facts\<close>

text \<open>The bytes of a public key survive the round trip through JSON.\<close>

lemma Base64URLBytes_roundtrip:
  assumes "v \<noteq> []" "of_string (b64_encode v) = Some raw" "to_string raw = Some (b64_encode v)"
  shows "Base64URLBytes_Marshal of_string v = Some raw" "Base64URLBytes_Unmarshal to_string raw = Some v"
proof -
  have "CHR ''='' \<noteq> b64_digit n" if "n < 64" for n
  proof -
    have "b64_value (CHR ''='') = None"
      by code_simp
    then show ?thesis
      using b64_digit_facts [OF that] by auto
  qed
  then have "CHR ''='' \<notin> set (b64_encode v)"
    using b64_sextets_less [of v] by (auto simp: b64_encode_sextets list_all_iff)
  moreover have "b64_encode v \<noteq> []"
    using assms(1) b64_encode_inject [of v "[]"] by simp
  ultimately show "Base64URLBytes_Unmarshal to_string raw = Some v"
    using assms(3) by (simp add: Base64URLBytes_Unmarshal_def del: b64_encode.simps)
qed (simp add: Base64URLBytes_Marshal_def assms(2))

lemma graphString_Ok: "graphString v name n = Ok s \<longleftrightarrow> s = trim_space v \<and> s \<noteq> [] \<and> length s \<le> n"
  by (auto simp: graphString_def Let_def)

lemma graphString_not_Panic [simp]: "graphString v name n \<noteq> Panic"
  by (simp add: graphString_def Let_def)

lemma validateResourceLinkResult_Ok: "validateResourceLinkResult r resource = Ok u \<Longrightarrow> lt_Resource r = resource"
  by (simp add: validateResourceLinkResult_def split: if_splits)

lemma strictRequestHeaders_Ok:
  assumes "strictRequestHeaders env js net c meth path key headers body log = (Ok (h, v), log')"
  obtains call reply raw where "control_request_of env c meth path key headers body = Ok call" "log' = log @ [call]"
    "net log' = Some reply" "h = cr_Header reply" "api_RawMessage env (cr_Body reply) = Some raw" "js_decode_all js raw = Some v"
  using assms
  by (auto simp: strictRequestHeaders_def requestHeaders_def requestHeadersLimit_def control_reply_of_def op_bind_def op_return_def op_fail_def
      Let_def split: outcome.splits option.splits if_splits prod.splits)

lemma strictRequestHeaders_sends_one:
  "\<exists>calls. snd (strictRequestHeaders env js net c meth path key headers body log) = log @ calls \<and> length calls \<le> 1
     \<and> list_all (\<lambda>call. control_request_of env c meth path key headers body = Ok call) calls"
  by (auto simp: strictRequestHeaders_def requestHeaders_def requestHeadersLimit_def op_bind_def op_return_def op_fail_def
      Let_def split: outcome.split option.split prod.split)

lemma strictRequest_log:
  "snd (strictRequest env js net c meth path key headers body log) = snd (strictRequestHeaders env js net c meth path key headers body log)"
  by (simp add: strictRequest_def op_bind_def op_return_def split: prod.split outcome.split)

text \<open>A preflight that succeeds: one request, whose answer gives the token and a result for the resource asked for.\<close>

lemma PreflightResourceLinks_Ok:
  assumes "PreflightResourceLinks env js net c resource changes log = (Ok p, log')"
  obtains call reply where "log' = log @ [call]" "cl_URL call = control_base c @ graphResourcePath (trim_space resource) @ ''/links/preflight''"
    "net log' = Some reply" "lp_Token p = trim_space (trim_space (header_get (cr_Header reply) ''Lotor-Link-Token''))"
    "lp_Token p \<noteq> []" "lt_Resource (lp_Result p) = trim_space resource" "cc_userToken c \<noteq> []"
proof -
  let ?path = "graphResourcePath (trim_space resource) @ ''/links/preflight''"
  let ?body = "Some (JObj [(''changes'', json_list json_ResourceLinkChange changes)])"
  have user: "cc_userToken c \<noteq> []" and "graphString resource ''resource'' 512 = Ok (trim_space resource)"
    using assms by (auto simp: PreflightResourceLinks_def op_Ok requireResourceGraphUser_def graphString_Ok split: if_splits)
  with assms obtain h v log2 where req0: "strictRequestHeaders env js net c ''POST'' ?path [] [] ?body log = (Ok (h, v), log2)"
    and tail: "(case graphString (trim_space (header_get h ''Lotor-Link-Token'')) ''link token'' 512 of
        Ok token \<Rightarrow> op_bind (op_lift (validateResourceLinkResult v (trim_space resource))) (\<lambda>_. op_return \<lparr>lp_Token = token, lp_Result = v\<rparr>)
      | _ \<Rightarrow> op_fail (ClientError ''Lotor link preflight response is missing its token'')) log2 = (Ok p, log')"
    by (auto simp: PreflightResourceLinks_def op_Ok split: if_splits)
  obtain token where token0: "graphString (trim_space (header_get h ''Lotor-Link-Token'')) ''link token'' 512 = Ok token"
    using tail by (cases "graphString (trim_space (header_get h ''Lotor-Link-Token'')) ''link token'' 512") (simp_all add: op_fail_Ok)
  have req: "strictRequestHeaders env js net c ''POST'' ?path [] [] ?body log = (Ok (h, v), log')"
    and p: "p = \<lparr>lp_Token = trim_space (trim_space (header_get h ''Lotor-Link-Token'')), lp_Result = v\<rparr>"
    and token: "trim_space (trim_space (header_get h ''Lotor-Link-Token'')) \<noteq> []"
    and valid: "lt_Resource v = trim_space resource"
    using req0 tail token0 by (auto simp: op_Ok graphString_Ok dest: validateResourceLinkResult_Ok)
  from req obtain call reply raw where r: "control_request_of env c ''POST'' ?path [] [] ?body = Ok call" "log' = log @ [call]"
      "net log' = Some reply" "h = cr_Header reply"
    by (rule strictRequestHeaders_Ok)
  show ?thesis
    using that [OF r(2) _ r(3)] control_request_of_Ok(1) [OF r(1)] p token valid r(4) user by simp
qed

lemma CommitResourceLinks_cases:
  assumes "CommitResourceLinks env js net c resource preflight envelopes log = (r, log')" and "log' \<noteq> log"
  obtains call where "log' = log @ [call]" "cl_URL call = control_base c @ graphResourcePath (trim_space resource) @ ''/links/commit''"
    "(''Lotor-Link-Token'', trim_space (lp_Token preflight)) \<in> set (cl_Header call)"
    "lt_Resource (lp_Result preflight) = trim_space resource" "\<And>v. r = Ok v \<Longrightarrow> lt_Resource v = trim_space resource"
proof -
  let ?path = "graphResourcePath (trim_space resource) @ ''/links/commit''"
  let ?headers = "[(''Lotor-Link-Token'', trim_space (lp_Token preflight))]"
  let ?body = "Some (JObj (omit_list ''envelopes'' json_ResourceLinkEnvelopeSubmission envelopes))"
  let ?m = "strictRequest env js net c ''POST'' ?path [] ?headers ?body"
  have run: "CommitResourceLinks env js net c resource preflight envelopes log
      = op_bind ?m (\<lambda>v. op_bind (op_lift (validateResourceLinkResult v (trim_space resource))) (\<lambda>_. op_return v)) log"
    and res: "lt_Resource (lp_Result preflight) = trim_space resource"
    using assms
    by (auto simp: CommitResourceLinks_def requireResourceGraphUser_def graphString_def Let_def op_bind_def op_lift_def op_fail_def
        split: if_splits outcome.splits)
  obtain calls where calls: "snd (?m log) = log @ calls" "length calls \<le> 1"
      "list_all (\<lambda>call. control_request_of env c ''POST'' ?path [] ?headers ?body = Ok call) calls"
    using strictRequestHeaders_sends_one [of env js net c "''POST''" ?path "[]" ?headers ?body log]
    unfolding strictRequest_log by blast
  have "log' = snd (?m log)"
    using assms(1) unfolding run by (auto simp: op_bind_def op_lift_def op_return_def split: prod.splits outcome.splits)
  then obtain call where call: "calls = [call]"
    using calls(1,2) assms(2) by (cases calls) auto
  have "(''Lotor-Link-Token'', trim_space (lp_Token preflight)) \<in> set (control_headers c b k ?headers)" for b k
    by (simp add: control_headers_def)
  moreover have "lt_Resource v = trim_space resource" if "r = Ok v" for v
    using assms(1) that unfolding run by (auto simp: op_Ok dest: validateResourceLinkResult_Ok)
  ultimately show ?thesis
    using that [of call] calls(1,3) call \<open>log' = snd (?m log)\<close> res by (auto simp: control_request_of_Ok)
qed

text \<open>A commit sends nothing and fails, or it is one request with the token of the preflight.\<close>

lemma links_commit_phase:
  assumes "CommitResourceLinks env js net c resource pre None log1 = (q, log2)"
  shows "log2 = log1 \<and> (\<forall>v. q \<noteq> Ok v)
    \<or> (\<exists>call. log2 = log1 @ [call] \<and> cl_URL call = control_base c @ graphResourcePath (trim_space resource) @ ''/links/commit''
         \<and> (''Lotor-Link-Token'', trim_space (lp_Token pre)) \<in> set (cl_Header call) \<and> (\<forall>v. q = Ok v \<longrightarrow> lt_Resource v = trim_space resource))"
proof (cases "log2 = log1")
  case True
  then have "q \<noteq> Ok v" for v
    using assms by (auto simp: CommitResourceLinks_def strictRequest_def op_Ok split: if_splits elim!: strictRequestHeaders_Ok)
  with True show ?thesis by blast
next
  case False
  show ?thesis
    using CommitResourceLinks_cases [OF assms False] by metis
qed

lemma links_send_committed:
  assumes "SendResourceLinks env js net c resource input log = (r, log')"
    and "PreflightResourceLinks env js net c resource (lu_Changes input) log = (Ok pre, log1)" and "lt_Committable (lp_Result pre)"
  shows "log' = log1 \<and> (\<forall>v. r \<noteq> Ok v)
    \<or> (\<exists>call. log' = log1 @ [call] \<and> cl_URL call = control_base c @ graphResourcePath (trim_space resource) @ ''/links/commit''
         \<and> (''Lotor-Link-Token'', trim_space (lp_Token pre)) \<in> set (cl_Header call)
         \<and> (\<forall>v. r = Ok v \<longrightarrow> lw_Preflight v = pre \<and> lt_Resource (lw_Committed v) = trim_space resource))"
proof -
  obtain q log2 where q: "CommitResourceLinks env js net c resource pre None log1 = (q, log2)"
    by (cases "CommitResourceLinks env js net c resource pre None log1")
  have run: "r = (case q of Ok v \<Rightarrow> Ok \<lparr>lw_Preflight = pre, lw_Committed = v\<rparr> | Fail e \<Rightarrow> Fail e | Panic \<Rightarrow> Panic)" "log' = log2"
    using assms q by (auto simp: SendResourceLinks_def op_bind_def op_return_def split: outcome.splits)
  show ?thesis
    using links_commit_phase [OF q] run by (cases q) auto
qed

section \<open>A grant\<close>

definition lw_result :: ResourceLinkResult where
  "lw_result = \<lparr>lt_Revisions = \<lparr>lv_Customer = [], lv_Graph = [], lv_Policy = [], lv_Identity = [], lv_Billing = [], lv_Seat = [], lv_Key = []\<rparr>,
     lt_Resource = ''doc'', lt_Status = ''ready'', lt_FailureReason = [],
     lt_Impact = \<lparr>lm_ImpactedResources = Some [], lm_RetainedResources = Some [], lm_RekeyResources = Some []\<rparr>,
     lt_KeyRequirements = Some [], lt_InvitationActions = Some [], lt_Outcomes = Some [],
     lt_Capacity = \<lparr>ly_Scope = ''per_account'', ly_Before = 0, ly_After = 1, ly_Claim = 1, ly_Release = 0\<rparr>,
     lt_Billing = \<lparr>lb_CurrentQuantity = 0, lb_NextCycleQuantity = 0, lb_Increase = 0, lb_NextCycleReduction = 0\<rparr>,
     lt_ExpiresAt = 0, lt_Committable = True, lt_Idempotent = False\<rparr>"

definition lw_change :: ResourceLinkChange where
  "lw_change = \<lparr>lc_Cascade = None, lc_Action = ''grant'', lc_LinkID = [], lc_Collaborator = [], lc_Relation = ''reader'', lc_Subject = [],
     lc_Email = [], lc_SubjectResource = [], lc_SubjectRelation = [], lc_Provisioning = [], lc_Delivery = []\<rparr>"

definition lw_net :: control_net where
  "lw_net log = Some \<lparr>cr_Status = 200, cr_Header = [(''Lotor-Link-Token'', ''t1'')], cr_Body = [1], cr_Broken = False\<rparr>"

lemma lw_trims: "trim_space ''doc'' = ''doc''" "trim_space ''t1'' = ''t1''" "trim_space ''reader'' = ''reader''"
  by (rule trim_space_ident, simp add: ident_char_def)+

lemma lw_valid: "validateResourceLinkResult lw_result ''doc'' = Ok ()"
  by (simp add: validateResourceLinkResult_def lw_result_def oneOf_def link_counts_ok_def items_def word_sless_alt)

lemma lw_sel: "lt_Resource lw_result = ''doc''" "lt_Committable lw_result"
  by (simp_all add: lw_result_def)

lemma lw_strict:
  "\<exists>call. strictRequestHeaders cw_env (table_codec [(lw_result, [1])]) lw_net cw_client meth path key headers body log
     = (Ok ([(''Lotor-Link-Token'', ''t1'')], lw_result), log @ [call])"
  by (cases body)
    (auto simp: strictRequestHeaders_def requestHeaders_def requestHeadersLimit_def op_bind_def op_return_def control_request_of_def
      control_reply_of_def lw_net_def cw_env_def js_decode_all_def Let_def)

lemma lw_sent:
  "\<exists>call1 call2. SendResourceLinks cw_env (table_codec [(lw_result, [1])]) lw_net cw_client ''doc'' \<lparr>lu_Changes = Some [lw_change]\<rparr> []
     = (Ok \<lparr>lw_Preflight = \<lparr>lp_Token = ''t1'', lp_Result = lw_result\<rparr>, lw_Committed = lw_result\<rparr>, [call1, call2])"
proof -
  let ?js = "table_codec [(lw_result, [1])]"
  have user: "requireResourceGraphUser cw_client = Ok ()"
    by (simp add: requireResourceGraphUser_def cw_client_def)
  have ok: "graphString ''doc'' ''resource'' 512 = Ok ''doc''" "graphString ''t1'' ''link token'' 512 = Ok ''t1''"
    by (simp_all add: graphString_Ok lw_trims)
  have change: "check_all validateLinkChange [lw_change] = Ok ()"
    by (simp add: validateLinkChange_def lw_change_def oneOf_def graphString_def lw_trims)
  obtain call1 where call1: "PreflightResourceLinks cw_env ?js lw_net cw_client ''doc'' (Some [lw_change]) []
      = (Ok \<lparr>lp_Token = ''t1'', lp_Result = lw_result\<rparr>, [call1])"
    using lw_strict [of "''POST''" "graphResourcePath ''doc'' @ ''/links/preflight''" "[]" "[]"
        "Some (JObj [(''changes'', json_list json_ResourceLinkChange (Some [lw_change]))])" "[]"] user ok change lw_valid
    by (auto simp: PreflightResourceLinks_def op_bind_def op_lift_def op_return_def items_def header_get_def lw_trims)
  obtain call2 where call2: "CommitResourceLinks cw_env ?js lw_net cw_client ''doc'' \<lparr>lp_Token = ''t1'', lp_Result = lw_result\<rparr> None [call1]
      = (Ok lw_result, [call1, call2])"
    using lw_strict [of "''POST''" "graphResourcePath ''doc'' @ ''/links/commit''" "[]" "[(''Lotor-Link-Token'', ''t1'')]"
        "Some (JObj [])" "[call1]"] user ok lw_valid
    by (auto simp: CommitResourceLinks_def strictRequest_def op_bind_def op_lift_def op_return_def items_def omit_list_def lw_sel)
  from call1 call2 show ?thesis
    by (auto simp: lw_sel SendResourceLinks_def op_bind_def op_return_def)
qed

section \<open>Properties\<close>

text \<open>
  \<^bold>\<open>C10\<close> Link changes are sent in two phases. The commit goes out only after a preflight for the same
  resource that says it can be committed, and carries the token of that preflight's answer; without a
  user's delegation nothing is sent, and a refused preflight is the end. A result is returned only after
  both requests, in this order, and both answers are about the resource asked for.
\<close>

theorem links_two_phase:
  assumes "SendResourceLinks env js net c resource input log = (r, log')"
  shows "(cc_userToken c = [] \<longrightarrow> log' = log \<and> (\<forall>v. r \<noteq> Ok v))
    \<and> (\<exists>p log1. PreflightResourceLinks env js net c resource (lu_Changes input) log = (p, log1)
        \<and> (log' = log1 \<or> (\<exists>pre call reply. p = Ok pre \<and> lt_Committable (lp_Result pre) \<and> log' = log1 @ [call]
             \<and> lt_Resource (lp_Result pre) = trim_space resource
             \<and> net log1 = Some reply \<and> lp_Token pre = trim_space (trim_space (header_get (cr_Header reply) ''Lotor-Link-Token''))
             \<and> cl_URL call = control_base c @ graphResourcePath (trim_space resource) @ ''/links/commit''
             \<and> (''Lotor-Link-Token'', trim_space (lp_Token pre)) \<in> set (cl_Header call)))
        \<and> (\<forall>v. r = Ok v \<longrightarrow> length log' = length log + 2 \<and> p = Ok (lw_Preflight v) \<and> lt_Resource (lw_Committed v) = trim_space resource))"
proof -
  obtain p log1 where p: "PreflightResourceLinks env js net c resource (lu_Changes input) log = (p, log1)"
    by (cases "PreflightResourceLinks env js net c resource (lu_Changes input) log")
  have nobody: "p = Fail (ClientError ''resource collaboration requires ForUser delegation'') \<and> log1 = log" if "cc_userToken c = []"
    using p that by (auto simp: PreflightResourceLinks_def requireResourceGraphUser_def op_bind_def op_lift_def)
  show ?thesis
  proof (cases p)
    case (Ok pre)
    obtain call1 reply where pre: "log1 = log @ [call1]" "net log1 = Some reply"
        "lp_Token pre = trim_space (trim_space (header_get (cr_Header reply) ''Lotor-Link-Token''))"
        "lt_Resource (lp_Result pre) = trim_space resource" "cc_userToken c \<noteq> []"
      using PreflightResourceLinks_Ok p Ok by metis
    show ?thesis
    proof (cases "lt_Committable (lp_Result pre)")
      case True
      from links_send_committed [OF assms p [unfolded Ok] True] show ?thesis
      proof (elim disjE exE conjE)
        assume "log' = log1" "\<forall>v. r \<noteq> Ok v"
        then show ?thesis
          using p pre(5) by auto
      next
        fix call
        assume call: "log' = log1 @ [call]" "cl_URL call = control_base c @ graphResourcePath (trim_space resource) @ ''/links/commit''"
          "(''Lotor-Link-Token'', trim_space (lp_Token pre)) \<in> set (cl_Header call)"
          "\<forall>v. r = Ok v \<longrightarrow> lw_Preflight v = pre \<and> lt_Resource (lw_Committed v) = trim_space resource"
        then have "length log' = length log + 2 \<and> p = Ok (lw_Preflight v) \<and> lt_Resource (lw_Committed v) = trim_space resource" if "r = Ok v" for v
          using that pre(1) Ok by simp
        then show ?thesis
          using p Ok True call(1-3) pre(2-5) by blast
      qed
    next
      case False
      then have "log' = log1" "\<And>v. r \<noteq> Ok v"
        using assms p Ok by (auto simp: SendResourceLinks_def op_bind_def op_fail_def Let_def)
      then show ?thesis
        using p pre(5) by auto
    qed
  qed (use assms p nobody in \<open>auto simp: SendResourceLinks_def op_bind_def\<close>)
qed

theorem links_two_phase_witness:
  "\<exists>call1 call2. SendResourceLinks cw_env (table_codec [(lw_result, [1])]) lw_net cw_client ''doc'' \<lparr>lu_Changes = Some [lw_change]\<rparr> []
       = (Ok \<lparr>lw_Preflight = \<lparr>lp_Token = ''t1'', lp_Result = lw_result\<rparr>, lw_Committed = lw_result\<rparr>, [call1, call2])
     \<and> length [call1, call2] = length ([] :: control_call list) + 2 \<and> lt_Resource lw_result = trim_space ''doc''"
proof -
  obtain call1 call2 where run: "SendResourceLinks cw_env (table_codec [(lw_result, [1])]) lw_net cw_client ''doc'' \<lparr>lu_Changes = Some [lw_change]\<rparr> []
     = (Ok \<lparr>lw_Preflight = \<lparr>lp_Token = ''t1'', lp_Result = lw_result\<rparr>, lw_Committed = lw_result\<rparr>, [call1, call2])"
    using lw_sent by blast
  have "lt_Resource lw_result = trim_space ''doc''"
    using links_two_phase [OF run] by auto
  with run show ?thesis by auto
qed

end
