(* ===== verification/Control_Resources.thy ===== *)
theory Control_Resources
  imports Control_Types
begin

text \<open>
  The operations of the Control client on resources, resource types, catalogs, credentials and stored
  payloads (\<^verbatim>\<open>control_client.go\<close>, \<^verbatim>\<open>catalog_read.go\<close>, \<^verbatim>\<open>catalog_discovery.go\<close>, \<^verbatim>\<open>control_payload_read.go\<close>),
  on the account (\<^verbatim>\<open>account_resources.go\<close>, \<^verbatim>\<open>account_invitations.go\<close>, \<^verbatim>\<open>billing_portal.go\<close>), on
  development connections and on event streams. Each is one request; \<open>rd\<close> is \<open>json.Unmarshal\<close> into the
  type it returns. The pagination limits are Go's \<open>int\<close>.
\<close>

abbreviation seg :: "string \<Rightarrow> string" where
  "seg s \<equiv> path_escape (requiredControl s)"

section \<open>Resources, types and catalogs\<close>

definition GetResource ::
  "api_env \<Rightarrow> Resource_t reader \<Rightarrow> control_net \<Rightarrow> ControlClient \<Rightarrow> string \<Rightarrow> Resource_t option control_op" where
  "GetResource env rd net c resource =
     api_request env net c ''GET'' (resourcePath resource) [] None (Some rd)"

definition PutResource ::
  "api_env \<Rightarrow> Resource_t reader \<Rightarrow> control_net \<Rightarrow> ControlClient \<Rightarrow> string \<Rightarrow> ResourceRegistration \<Rightarrow> Resource_t option control_op" where
  "PutResource env rd net c resource input =
     api_request env net c ''PUT'' (resourcePath resource) [] (Some (json_ResourceRegistration input)) (Some rd)"

definition CreateSystemResource ::
  "api_env \<Rightarrow> DurableOperation reader \<Rightarrow> control_net \<Rightarrow> ControlClient \<Rightarrow> ResourceRegistration \<Rightarrow> string \<Rightarrow> DurableOperation control_op" where
  "CreateSystemResource env rd net c input key =
     operationRequest env rd net c ''POST'' ''/resources'' key (Some (json_ResourceRegistration input))"

definition MoveResource ::
  "api_env \<Rightarrow> DurableOperation reader \<Rightarrow> control_net \<Rightarrow> ControlClient \<Rightarrow> string \<Rightarrow> string \<Rightarrow> ResourceLifecycleFence \<Rightarrow> string \<Rightarrow> DurableOperation control_op" where
  "MoveResource env rd net c resource parent fence key =
     operationRequest env rd net c ''POST'' (resourcePath resource @ ''/move'') key 
       (Some (JObj ([(''parent'', JStr parent)] @ json_ResourceLifecycleFence_fields fence)))"

definition resource_lifecycle ::
  "api_env \<Rightarrow> DurableOperation reader \<Rightarrow> control_net \<Rightarrow> ControlClient \<Rightarrow> string \<Rightarrow> string \<Rightarrow> ResourceLifecycleFence \<Rightarrow> string \<Rightarrow> DurableOperation control_op" where
  "resource_lifecycle env rd net c resource action fence key =
     operationRequest env rd net c ''POST'' (resourcePath resource @ ''/'' @ action) key (Some (json_ResourceLifecycleFence fence))"

definition DisableResource ::
  "api_env \<Rightarrow> DurableOperation reader \<Rightarrow> control_net \<Rightarrow> ControlClient \<Rightarrow> string \<Rightarrow> ResourceLifecycleFence \<Rightarrow> string \<Rightarrow> DurableOperation control_op" where
  "DisableResource env rd net c resource fence key = resource_lifecycle env rd net c resource ''disable'' fence key"

definition RestoreResource ::
  "api_env \<Rightarrow> DurableOperation reader \<Rightarrow> control_net \<Rightarrow> ControlClient \<Rightarrow> string \<Rightarrow> ResourceLifecycleFence \<Rightarrow> string \<Rightarrow> DurableOperation control_op" where
  "RestoreResource env rd net c resource fence key = resource_lifecycle env rd net c resource ''restore'' fence key"

definition DeleteResource ::
  "api_env \<Rightarrow> DurableOperation reader \<Rightarrow> control_net \<Rightarrow> ControlClient \<Rightarrow> string \<Rightarrow> ResourceLifecycleFence \<Rightarrow> bool \<Rightarrow> string \<Rightarrow> DurableOperation control_op" where
  "DeleteResource env rd net c resource fence subtree key =
     operationRequest env rd net c ''DELETE'' (resourcePath resource) key 
       (Some (JObj (json_ResourceLifecycleFence_fields fence @ [(''subtree'', JBool subtree)])))"

definition or_empty :: "'a list option \<Rightarrow> 'a list option" where
  "or_empty s = (case s of None \<Rightarrow> Some [] | Some xs \<Rightarrow> Some xs)"

definition PutResourceType ::
  "api_env \<Rightarrow> ResourceTypeDefinition reader \<Rightarrow> control_net \<Rightarrow> ControlClient \<Rightarrow> string \<Rightarrow> ResourceTypeDefinition \<Rightarrow>
   ResourceTypeDefinition option control_op" where
  "PutResourceType env rd net c resourceType d0 =
     (let d1 = d0\<lparr>rd_AllowedParentTypes := or_empty (rd_AllowedParentTypes d0), rd_Relations := or_empty (rd_Relations d0)\<rparr>;
          d2 = d1\<lparr>rd_Payload := (rd_Payload d1)\<lparr>py_Slots := or_empty (py_Slots (rd_Payload d1))\<rparr>\<rparr>
      in api_request env net c ''PUT'' (''/resource-types/'' @ seg resourceType) [] (Some (json_ResourceTypeDefinition d2)) (Some rd))"

definition CreateCatalog ::
  "api_env \<Rightarrow> Catalog_t reader \<Rightarrow> control_net \<Rightarrow> ControlClient \<Rightarrow> CatalogCreation \<Rightarrow> string \<Rightarrow> Catalog_t option control_op" where
  "CreateCatalog env rd net c input key =
     api_request env net c ''POST'' ''/catalogs'' key (Some (json_CatalogCreation input)) (Some rd)"

definition Catalog ::
  "api_env \<Rightarrow> Catalog_t reader \<Rightarrow> control_net \<Rightarrow> ControlClient \<Rightarrow> string \<Rightarrow> Catalog_t option control_op" where
  "Catalog env rd net c ident =
     api_request env net c ''GET'' (''/catalogs/'' @ seg ident) [] None (Some rd)"

definition Catalogs ::
  "api_env \<Rightarrow> CatalogList reader \<Rightarrow> control_net \<Rightarrow> ControlClient \<Rightarrow> string \<Rightarrow> int \<Rightarrow> CatalogList option control_op" where
  "Catalogs env rd net c cursor limit =
     api_request env net c ''GET'' (''/catalogs'' @ pagination cursor limit) [] None (Some rd)"

definition ImportOpenAPI ::
  "api_env \<Rightarrow> DurableOperation reader \<Rightarrow> control_net \<Rightarrow> ControlClient \<Rightarrow> string \<Rightarrow> CatalogImportInput \<Rightarrow> string \<Rightarrow> DurableOperation control_op" where
  "ImportOpenAPI env rd net c catalogID input key =
     operationRequest env rd net c ''POST'' (''/catalogs/'' @ seg catalogID @ ''/imports'') key (Some (json_CatalogImportInput input))"

definition ImportDefinitions ::
  "api_env \<Rightarrow> DurableOperation reader \<Rightarrow> control_net \<Rightarrow> ControlClient \<Rightarrow> string \<Rightarrow> GenericCatalogDefinition list option \<Rightarrow> string \<Rightarrow>
   DurableOperation control_op" where
  "ImportDefinitions env rd net c catalogID entries key =
     (case api_Marshal env (JObj [(''entries'', json_list json_GenericCatalogDefinition entries)]) of
        None \<Rightarrow> op_fail (ClientError ''json'')
      | Some source \<Rightarrow>
          operationRequest env rd net c ''POST'' (''/catalogs/'' @ seg catalogID @ ''/imports'') key
            (Some (json_CatalogImportInput \<lparr>ii_Format = ''definitions_v1'', ii_SourceDocument = string_of_bytes source\<rparr>)))"

definition CatalogSnapshots ::
  "api_env \<Rightarrow> CatalogSnapshotList reader \<Rightarrow> control_net \<Rightarrow> ControlClient \<Rightarrow> string \<Rightarrow> string \<Rightarrow> int \<Rightarrow> CatalogSnapshotList option control_op" where
  "CatalogSnapshots env rd net c catalogID cursor limit =
     api_request env net c ''GET'' (''/catalogs/'' @ seg catalogID @ ''/snapshots'' @ pagination cursor limit) [] None (Some rd)"

definition PublishCatalogSnapshot ::
  "api_env \<Rightarrow> DurableOperation reader \<Rightarrow> control_net \<Rightarrow> ControlClient \<Rightarrow> string \<Rightarrow> string \<Rightarrow> string \<Rightarrow> DurableOperation control_op" where
  "PublishCatalogSnapshot env rd net c catalogID snapshotID key =
     operationRequest env rd net c ''POST'' (''/catalogs/'' @ seg catalogID @ ''/snapshots/'' @ seg snapshotID @ ''/publish'') key None"

definition CatalogEntries ::
  "api_env \<Rightarrow> CatalogEntryList reader \<Rightarrow> control_net \<Rightarrow> ControlClient \<Rightarrow> string \<Rightarrow> string \<Rightarrow> int \<Rightarrow> CatalogEntryList option control_op" where
  "CatalogEntries env rd net c catalogID cursor limit =
     api_request env net c ''GET'' (''/catalogs/'' @ seg catalogID @ ''/entries'' @ pagination cursor limit) [] None (Some rd)"

definition CatalogEntry ::
  "api_env \<Rightarrow> CatalogEntry_t reader \<Rightarrow> control_net \<Rightarrow> ControlClient \<Rightarrow> string \<Rightarrow> string \<Rightarrow> CatalogEntry_t option control_op" where
  "CatalogEntry env rd net c catalogID entryID =
     api_request env net c ''GET'' (''/catalogs/'' @ seg catalogID @ ''/entries/'' @ seg entryID) [] None (Some rd)"

definition BindResourceCatalog ::
  "api_env \<Rightarrow> DurableOperation reader \<Rightarrow> control_net \<Rightarrow> ControlClient \<Rightarrow> string \<Rightarrow> ResourceCatalogBindingInput \<Rightarrow> string \<Rightarrow> DurableOperation control_op" where
  "BindResourceCatalog env rd net c resource input key =
     operationRequest env rd net c ''PUT'' (resourcePath resource @ ''/catalog-binding'') key (Some (json_ResourceCatalogBindingInput input))"

definition IssueResourceCredential ::
  "api_env \<Rightarrow> IssuedResourceCredential reader \<Rightarrow> control_net \<Rightarrow> ControlClient \<Rightarrow> string \<Rightarrow> ResourceCredentialIssueInput \<Rightarrow> string \<Rightarrow> IssuedResourceCredential option control_op" where
  "IssueResourceCredential env rd net c resource input key =
     api_request env net c ''POST'' (resourcePath resource @ ''/credentials'') key (Some (json_ResourceCredentialIssueInput input)) (Some rd)"

definition ResourceCredentials ::
  "api_env \<Rightarrow> (ResourceCredentialMetadata list option) reader \<Rightarrow> control_net \<Rightarrow> ControlClient \<Rightarrow> string \<Rightarrow> ResourceCredentialMetadata list option option control_op" where
  "ResourceCredentials env rd net c resource =
     api_request env net c ''GET'' (resourcePath resource @ ''/credentials'') [] None (Some rd)"

definition RotateResourceCredential ::
  "api_env \<Rightarrow> IssuedResourceCredential reader \<Rightarrow> control_net \<Rightarrow> ControlClient \<Rightarrow> string \<Rightarrow> string \<Rightarrow> ResourceCredentialRotateInput \<Rightarrow> string \<Rightarrow> IssuedResourceCredential option control_op" where
  "RotateResourceCredential env rd net c resource credentialID input key =
     api_request env net c ''POST'' (resourcePath resource @ ''/credentials/'' @ seg credentialID @ ''/rotate'') key (Some (json_ResourceCredentialRotateInput input)) (Some rd)"

definition RevokeResourceCredential ::
  "api_env \<Rightarrow> ResourceCredentialMetadata reader \<Rightarrow> control_net \<Rightarrow> ControlClient \<Rightarrow> string \<Rightarrow> string \<Rightarrow> string \<Rightarrow> ResourceCredentialMetadata option control_op" where
  "RevokeResourceCredential env rd net c resource credentialID key =
     api_request env net c ''DELETE'' (resourcePath resource @ ''/credentials/'' @ seg credentialID) key None (Some rd)"

definition RewrapResourcePayload ::
  "api_env \<Rightarrow> ResourcePayloadRewrapResult reader \<Rightarrow> control_net \<Rightarrow> ControlClient \<Rightarrow> string \<Rightarrow> string \<Rightarrow> ResourcePayloadRewrapInput \<Rightarrow> ResourcePayloadRewrapResult option control_op" where
  "RewrapResourcePayload env rd net c resource slot input =
     api_request env net c ''POST'' (resourcePayloadPath resource slot @ ''/rewraps'') [] (Some (json_ResourcePayloadRewrapInput input)) (Some rd)"

definition DeleteResourcePayload ::
  "api_env \<Rightarrow> ResourcePayloadMutation reader \<Rightarrow> control_net \<Rightarrow> ControlClient \<Rightarrow> string \<Rightarrow> string \<Rightarrow> string \<Rightarrow> ResourcePayloadMutation option control_op" where
  "DeleteResourcePayload env rd net c resource slot key =
     api_request env net c ''DELETE'' (resourcePayloadPath resource slot) key None (Some rd)"

definition control_ResourcePayload ::
  "api_env \<Rightarrow> ResourcePayloadManifest reader \<Rightarrow> control_net \<Rightarrow> ControlClient \<Rightarrow> string \<Rightarrow> string \<Rightarrow> ResourcePayloadManifest option control_op" where
  "control_ResourcePayload env rd net c resource slot =
     api_request env net c ''GET'' (resourcePayloadPath resource slot) [] None (Some rd)"

definition control_AccessResourcePayload ::
  "api_env \<Rightarrow> ResourcePayloadAccessLease reader \<Rightarrow> control_net \<Rightarrow> ControlClient \<Rightarrow> string \<Rightarrow> string \<Rightarrow> i64 \<Rightarrow> ResourcePayloadAccessLease option control_op" where
  "control_AccessResourcePayload env rd net c resource slot version =
     api_request env net c ''POST'' (resourcePayloadPath resource slot @ ''/access'') [] (Some (JObj (omit_int ''payload_version'' version))) (Some rd)"


section \<open>Stored payloads\<close>

definition zero_ResourcePayloadUploadIntent :: ResourcePayloadUploadIntent where
  "zero_ResourcePayloadUploadIntent = \<lparr>up_RequiredHeaders = None, up_Resource = [], up_Slot = [], up_UploadURL = [],
     up_UploadMethod = [], up_Token = [], up_PayloadVersion = 0, up_ExpectedPayloadVersion = 0, up_ExpiresAt = 0\<rparr>"

definition BeginResourcePayloadUpload ::
  "api_env \<Rightarrow> ResourcePayloadUploadIntent reader \<Rightarrow> control_net \<Rightarrow> ControlClient \<Rightarrow> string \<Rightarrow> string \<Rightarrow> ResourcePayloadUploadInput \<Rightarrow>
   ResourcePayloadUploadIntent control_op" where
  "BeginResourcePayloadUpload env rd net c resource slot input =
     op_bind (requestHeaders env net c ''POST'' (resourcePayloadPath resource slot @ ''/uploads'') [] []
         (Some (json_ResourcePayloadUploadInput input)) (Some rd))
       (\<lambda>(headers, r).
          let token = trim_space (header_get headers ''Lotor-Payload-Token'');
              intent = (case r of None \<Rightarrow> zero_ResourcePayloadUploadIntent | Some i \<Rightarrow> i)\<lparr>up_Token := token\<rparr> in
          if token = [] then op_fail (ClientError ''Lotor payload upload omitted its token'') else op_return intent)"

definition CommitResourcePayload ::
  "api_env \<Rightarrow> ResourcePayloadManifest reader \<Rightarrow> control_net \<Rightarrow> ControlClient \<Rightarrow> string \<Rightarrow> string \<Rightarrow> ResourcePayloadUploadIntent \<Rightarrow>
   ResourcePayloadManifest option control_op" where
  "CommitResourcePayload env rd net c resource slot intent =
     op_bind (requestHeaders env net c ''POST'' (resourcePayloadPath resource slot @ ''/commits'') []
         [(''Lotor-Payload-Token'', requiredControl (up_Token intent))]
         (Some (JObj [(''expected_payload_version'', JInt (sint (up_ExpectedPayloadVersion intent)))])) (Some rd))
       (\<lambda>(_, v). op_return v)"

text \<open>
  Objects are read and written at storage URLs, with requests that are not those of a Control client.
\<close>

definition validatedObjectURL :: "api_env \<Rightarrow> string \<Rightarrow> go_url option" where
  "validatedObjectURL env raw =
     (case url_Parse (api_net env) (trim_space raw) of
        None \<Rightarrow> None
      | Some u \<Rightarrow>
          if u_Host u = [] \<or> u_User u
             \<or> u_Scheme u \<noteq> ''https'' \<and> \<not> (u_Scheme u = ''http'' \<and> loopback (api_net env) (api_IPLoopback env) (u_Hostname u))
          then None else Some u)"

definition downloadResourcePayload :: "api_env \<Rightarrow> control_net \<Rightarrow> ResourcePayloadAccessLease \<Rightarrow> bytes control_op" where
  "downloadResourcePayload env net lease log =
     (case validatedObjectURL env (pl_DownloadURL lease) of
        None \<Rightarrow> (Fail (ClientError ''invalid resource payload access lease''), log)
      | Some parsed \<Rightarrow>
          if pl_DownloadMethod lease \<noteq> ''GET'' then (Fail (ClientError ''invalid resource payload access lease''), log)
          else if pl_ObjectSize lease <s 0 \<or> 67108864 <s pl_ObjectSize lease
          then (Fail (ClientError ''invalid resource payload object size''), log)
          else if url_Parse (api_net env) (api_URLString env parsed) = None then (Fail (ClientError ''url''), log)
          else
            let log' = log @ [\<lparr>cl_Method = ''GET'', cl_URL = api_URLString env parsed, cl_Header = [], cl_Body = None\<rparr>] in
            (case net log' of
               None \<Rightarrow> (Fail TransportError, log')
             | Some reply \<Rightarrow>
                 let raw = cr_Body reply in
                 if cr_Status reply < 200 \<or> cr_Status reply \<ge> 300
                 then (Fail (ClientError (''resource payload download failed with status '' @ itoa (cr_Status reply))), log')
                 else if cr_Broken reply \<or> length raw \<noteq> nat (sint (pl_ObjectSize lease))
                 then (Fail (ClientError ''resource payload download size does not match lease''), log')
                 else if hex_encode (sha256 raw) \<noteq> strings_ToLower (api_net env) (trim_space (pl_ObjectDigest lease))
                 then (Fail (ClientError ''resource payload download digest does not match lease''), log')
                 else (Ok raw, log')))"

text \<open>The exported download hides every cause.\<close>

definition DownloadResourcePayloadObject :: "api_env \<Rightarrow> control_net \<Rightarrow> ResourcePayloadAccessLease \<Rightarrow> bytes control_op" where
  "DownloadResourcePayloadObject env net lease log =
     (case downloadResourcePayload env net lease log of
        (Fail e, log') \<Rightarrow> (Fail (BridgeError ''unavailable''), log')
      | r \<Rightarrow> r)"

definition unsafe_header :: "string \<Rightarrow> bool" where
  "unsafe_header lower \<longleftrightarrow> lower \<in> set [''authorization'', ''proxy-authorization'', ''cookie'', ''cookie2'', ''host'', ''origin'']
     \<or> has_prefix lower ''x-lotor-'' \<or> has_prefix lower ''lotor-''"

text \<open>The map of required headers is visited in an order of Go's choice, the argument \<open>visit\<close>.\<close>

definition uploadResourcePayloadObject ::
  "api_env \<Rightarrow> control_net \<Rightarrow> ((string \<times> string) list \<Rightarrow> (string \<times> string) list) \<Rightarrow> ResourcePayloadUploadIntent \<Rightarrow> bytes \<Rightarrow> unit control_op" where
  "uploadResourcePayloadObject env net visit intent object log =
     (case validatedObjectURL env (up_UploadURL intent) of
        None \<Rightarrow> (Fail (ClientError ''invalid resource payload upload intent''), log)
      | Some parsed \<Rightarrow>
          let headers = visit (case up_RequiredHeaders intent of None \<Rightarrow> [] | Some m \<Rightarrow> m) in
          if up_UploadMethod intent \<noteq> ''PUT'' \<or> object = [] then (Fail (ClientError ''invalid resource payload upload intent''), log)
          else if url_Parse (api_net env) (api_URLString env parsed) = None then (Fail (ClientError ''url''), log)
          else if list_ex (\<lambda>(name, v). unsafe_header (strings_ToLower (api_net env) name)) headers
          then (Fail (ClientError ''unsafe resource payload upload header''), log)
          else
            let log' = log @ [\<lparr>cl_Method = ''PUT'', cl_URL = api_URLString env parsed,
                  cl_Header = foldl (\<lambda>h (name, v). header_set h (api_CanonicalHeader env name) v) [] headers, cl_Body = Some object\<rparr>] in
            (case net log' of
               None \<Rightarrow> (Fail TransportError, log')
             | Some reply \<Rightarrow>
                 if cr_Status reply < 200 \<or> cr_Status reply \<ge> 300
                 then (Fail (ClientError (''resource payload upload failed with status '' @ itoa (cr_Status reply))), log')
                 else (Ok (), log')))"



section \<open>Catalogs available to a user\<close>

definition AvailableCatalogs ::
  "api_env \<Rightarrow> CatalogList reader \<Rightarrow> control_net \<Rightarrow> ControlClient \<Rightarrow> string \<Rightarrow> int \<Rightarrow> CatalogList option control_op" where
  "AvailableCatalogs env rd net c cursor limit =
     api_request env net c ''GET'' (''/me/catalogs'' @ pagination cursor limit) [] None (Some rd)"

definition AvailableCatalogEntries ::
  "api_env \<Rightarrow> PublishedCatalogEntryList reader \<Rightarrow> control_net \<Rightarrow> ControlClient \<Rightarrow> string \<Rightarrow> string \<Rightarrow> int \<Rightarrow> PublishedCatalogEntryList option control_op" where
  "AvailableCatalogEntries env rd net c catalogID cursor limit =
     api_request env net c ''GET'' (''/me/catalogs/'' @ seg catalogID @ ''/entries'' @ pagination cursor limit) [] None (Some rd)"

definition AvailableCatalogSnapshotDocument ::
  "api_env \<Rightarrow> CatalogSnapshotDocument reader \<Rightarrow> control_net \<Rightarrow> ControlClient \<Rightarrow> string \<Rightarrow> string \<Rightarrow> CatalogSnapshotDocument option control_op" where
  "AvailableCatalogSnapshotDocument env rd net c catalogID snapshotID =
     api_request env net c ''GET'' (''/me/catalogs/'' @ seg catalogID @ ''/snapshots/'' @ seg snapshotID @ ''/document'') [] None (Some rd)"

definition ResourceCatalogEntries ::
  "api_env \<Rightarrow> CatalogEntryList reader \<Rightarrow> control_net \<Rightarrow> ControlClient \<Rightarrow> string \<Rightarrow> string \<Rightarrow> string \<Rightarrow> int \<Rightarrow> CatalogEntryList option control_op" where
  "ResourceCatalogEntries env rd net c resource catalogID cursor limit =
     (if resource = [] \<or> catalogID = [] \<or> limit < 1 \<or> limit > 100
      then op_fail (ClientError ''resource, catalog ID and limit between 1 and 100 are required'')
      else
        let q0 = values_set (values_set [] ''resource'' resource) ''limit'' (itoa limit);
            query = (if cursor \<noteq> [] then values_set q0 ''cursor'' cursor else q0)
        in api_request env net c ''GET'' (''/catalogs/'' @ path_escape catalogID @ ''/entries?'' @ values_encode query) [] None (Some rd))"

definition ResourceCatalogEntry ::
  "api_env \<Rightarrow> CatalogEntry_t reader \<Rightarrow> control_net \<Rightarrow> ControlClient \<Rightarrow> string \<Rightarrow> string \<Rightarrow> string \<Rightarrow> CatalogEntry_t option control_op" where
  "ResourceCatalogEntry env rd net c resource catalogID entryID =
     (if resource = [] \<or> catalogID = [] \<or> entryID = []
      then op_fail (ClientError ''resource, catalog ID and entry ID are required'')
      else api_request env net c ''GET'' (''/catalogs/'' @ path_escape catalogID @ ''/entries/'' @ path_escape entryID @ ''?''
             @ values_encode (values_set [] ''resource'' resource)) [] None (Some rd))"

section \<open>The account and its invitations\<close>

definition account_query :: "AccountResourceListOptions \<Rightarrow> (control_error, url_values) outcome" where
  "account_query options =
     (let types = (case ao_Types options of None \<Rightarrow> [] | Some ts \<Rightarrow> ts);
          states = (case ao_AccessStates options of None \<Rightarrow> [] | Some ss \<Rightarrow> ss);
          q1 = (if ao_Parent options \<noteq> [] then values_set [] ''parent'' (ao_Parent options) else []);
          q2 = (if ao_Cursor options \<noteq> [] then values_set q1 ''cursor'' (ao_Cursor options) else q1);
          q3 = (if ao_Limit options \<noteq> 0 then values_set q2 ''limit'' (itoa (ao_Limit options)) else q2) in
      if list_ex (\<lambda>t. length t = 0 \<or> length t > 128) types then Fail (ClientError ''invalid resource type'')
      else if list_ex (\<lambda>s. s \<noteq> ''active'' \<and> s \<noteq> ''pending_encryption'') states then Fail (ClientError ''invalid resource access state'')
      else Ok (foldl (\<lambda>q s. values_add q ''access_state'' s) (foldl (\<lambda>q t. values_add q ''type'' t) q3 types) states))"

definition AccountResources ::
  "api_env \<Rightarrow> AccountResourceList reader \<Rightarrow> control_net \<Rightarrow> ControlClient \<Rightarrow> AccountResourceListOptions \<Rightarrow> AccountResourceList option control_op" where
  "AccountResources env rd net c options =
     (if ao_Limit options < 0 \<or> ao_Limit options > 100 \<or> length (ao_Parent options) > 512 \<or> length (ao_Cursor options) > 2048
      then op_fail (ClientError ''invalid account resource directory options'')
      else op_bind (op_lift (account_query options)) (\<lambda>query.
        api_request env net c ''GET'' (''/me/resources'' @ encoded_query query) [] None (Some rd)))"

definition AccountInvitations ::
  "api_env \<Rightarrow> AccountInvitationList reader \<Rightarrow> control_net \<Rightarrow> ControlClient \<Rightarrow> string \<Rightarrow> int \<Rightarrow> AccountInvitationList option control_op" where
  "AccountInvitations env rd net c cursor limit =
     (if length cursor > 2048 \<or> limit < 1 \<or> limit > 100 then op_fail (ClientError ''invalid invitation pagination'')
      else api_request env net c ''GET'' (''/me/invitations'' @ pagination cursor limit) [] None (Some rd))"

definition accountInvitationAction ::
  "api_env \<Rightarrow> AccountInvitationMutation reader \<Rightarrow> control_net \<Rightarrow> ControlClient \<Rightarrow> string \<Rightarrow> string \<Rightarrow> AccountInvitationMutation option control_op" where
  "accountInvitationAction env rd net c invitationID action =
     (if trim_space invitationID = [] \<or> length invitationID > 256 then op_fail (ClientError ''invalid invitation ID'')
      else api_request env net c ''POST'' (''/me/invitations/'' @ path_escape invitationID @ ''/'' @ action) [] None (Some rd))"

definition AcceptAccountInvitation ::
  "api_env \<Rightarrow> AccountInvitationMutation reader \<Rightarrow> control_net \<Rightarrow> ControlClient \<Rightarrow> string \<Rightarrow> AccountInvitationMutation option control_op" where
  "AcceptAccountInvitation env rd net c invitationID = accountInvitationAction env rd net c invitationID ''accept''"

definition DeclineAccountInvitation ::
  "api_env \<Rightarrow> AccountInvitationMutation reader \<Rightarrow> control_net \<Rightarrow> ControlClient \<Rightarrow> string \<Rightarrow> AccountInvitationMutation option control_op" where
  "DeclineAccountInvitation env rd net c invitationID = accountInvitationAction env rd net c invitationID ''decline''"

definition CreatePortalSession ::
  "api_env \<Rightarrow> PortalSession reader \<Rightarrow> control_net \<Rightarrow> ControlClient \<Rightarrow> PortalSessionInput \<Rightarrow> PortalSession control_op" where
  "CreatePortalSession env rd net c input =
     (if trim_space (pi_OrganizationID input) = [] \<or> length (pi_OrganizationID input) > 256
         \<or> (case url_ParseRequestURI (api_net env) (pi_ReturnURL input) of
              None \<Rightarrow> True
            | Some u \<Rightarrow> u_Host u = [] \<or> u_User u \<or> u_RawQuery u \<noteq> [] \<or> u_Fragment u \<noteq> []
                \<or> u_Scheme u \<noteq> ''https'' \<and> \<not> (u_Scheme u = ''http'' \<and> loopback (api_net env) (api_IPLoopback env) (u_Hostname u)))
      then op_fail (ClientError ''invalid portal session input'')
      else op_bind (api_request env net c ''POST'' ''/billing/portal-sessions'' [] (Some (json_PortalSessionInput input)) (Some rd))
        (\<lambda>r. let session = (case r of None \<Rightarrow> \<lparr>ps_ID = [], ps_URL = []\<rparr> | Some s \<Rightarrow> s) in
          if (case url_Parse (api_net env) (ps_URL session) of
                None \<Rightarrow> True
              | Some u \<Rightarrow> ps_ID session = [] \<or> u_Scheme u \<noteq> ''https'' \<or> u_Host u = [] \<or> u_User u)
          then op_fail (ClientError ''invalid portal session response'')
          else op_return session))"

section \<open>Development connections\<close>

definition developmentConnectionPath :: "string \<Rightarrow> string" where
  "developmentConnectionPath resource = ''/resources/'' @ seg resource @ ''/development-connections''"

definition CreateDevelopmentConnection ::
  "api_env \<Rightarrow> DevelopmentConnection_t reader \<Rightarrow> control_net \<Rightarrow> ControlClient \<Rightarrow> string \<Rightarrow> string \<Rightarrow> DevelopmentConnection_t option control_op" where
  "CreateDevelopmentConnection env rd net c resource key =
     api_request env net c ''POST'' (developmentConnectionPath resource) key (Some (JObj [])) (Some rd)"

definition DevelopmentConnections ::
  "api_env \<Rightarrow> DevelopmentConnectionList reader \<Rightarrow> control_net \<Rightarrow> ControlClient \<Rightarrow> string \<Rightarrow> string \<Rightarrow> int \<Rightarrow> DevelopmentConnectionList option control_op" where
  "DevelopmentConnections env rd net c resource cursor limit =
     api_request env net c ''GET'' (developmentConnectionPath resource @ pagination cursor limit) [] None (Some rd)"

definition DevelopmentConnection ::
  "api_env \<Rightarrow> DevelopmentConnection_t reader \<Rightarrow> control_net \<Rightarrow> ControlClient \<Rightarrow> string \<Rightarrow> string \<Rightarrow> DevelopmentConnection_t option control_op" where
  "DevelopmentConnection env rd net c resource connectionID =
     api_request env net c ''GET'' (developmentConnectionPath resource @ ''/'' @ seg connectionID) [] None (Some rd)"

definition RevokeDevelopmentConnection ::
  "api_env \<Rightarrow> control_net \<Rightarrow> ControlClient \<Rightarrow> string \<Rightarrow> string \<Rightarrow> unit option control_op" where
  "RevokeDevelopmentConnection env net c resource connectionID =
     api_request env net c ''DELETE'' (developmentConnectionPath resource @ ''/'' @ seg connectionID) [] None None"

definition CreateDevelopmentConnectionSession ::
  "api_env \<Rightarrow> 's reader \<Rightarrow> control_net \<Rightarrow> ControlClient \<Rightarrow> string \<Rightarrow> string \<Rightarrow> 's option control_op" where
  "CreateDevelopmentConnectionSession env rd net c resource connectionID =
     api_request env net c ''POST'' (developmentConnectionPath resource @ ''/'' @ seg connectionID @ ''/sessions'') [] (Some (JObj [])) (Some rd)"

section \<open>Event streams\<close>

definition resourceEventPath :: "string \<Rightarrow> string \<Rightarrow> string" where
  "resourceEventPath resource stream = ''/resources/'' @ seg resource @ ''/event-streams/'' @ seg stream"

definition eventRequest ::
  "api_env \<Rightarrow> control_net \<Rightarrow> ControlClient \<Rightarrow> string \<Rightarrow> string \<Rightarrow> json option \<Rightarrow> ('o reader) option \<Rightarrow> 'o option control_op" where
  "eventRequest env net c meth path input out =
     (if cc_userToken c = [] then op_fail (ClientError ''resource events require ForUser delegation'')
      else op_bind (requestHeadersLimit env net c meth path [] [] input out 6291456) (\<lambda>(_, v). op_return v))"

definition ConfigureResourceEventStream ::
  "api_env \<Rightarrow> control_net \<Rightarrow> ControlClient \<Rightarrow> string \<Rightarrow> string \<Rightarrow> ResourceEventStreamInput \<Rightarrow> unit option control_op" where
  "ConfigureResourceEventStream env net c resource stream input =
     eventRequest env net c ''PUT'' (resourceEventPath resource stream)
       (Some (json_ResourceEventStreamInput (input\<lparr>es_AttributeKeys := or_empty (es_AttributeKeys input)\<rparr>))) None"

definition event_defaults :: "ResourceEvent_t \<Rightarrow> ResourceEvent_t" where
  "event_defaults input = input\<lparr>ev_Attributes := or_empty (ev_Attributes input), ev_Body := or_empty (ev_Body input)\<rparr>"

definition control_AppendResourceEvent ::
  "api_env \<Rightarrow> control_net \<Rightarrow> ControlClient \<Rightarrow> string \<Rightarrow> string \<Rightarrow> ResourceEvent_t \<Rightarrow> unit option control_op" where
  "control_AppendResourceEvent env net c resource stream input =
     eventRequest env net c ''POST'' (resourceEventPath resource stream @ ''/events'') (Some (json_ResourceEvent_t (event_defaults input))) None"

definition CreateResourceEventQuery ::
  "api_env \<Rightarrow> ResourceEventQuery reader \<Rightarrow> control_net \<Rightarrow> ControlClient \<Rightarrow> string \<Rightarrow> string \<Rightarrow> ResourceEventQueryInput \<Rightarrow> ResourceEventQuery option control_op" where
  "CreateResourceEventQuery env rd net c resource stream input =
     eventRequest env net c ''POST'' (resourceEventPath resource stream @ ''/queries'')
       (Some (json_ResourceEventQueryInput (input\<lparr>eq_Filters := or_empty (eq_Filters input)\<rparr>))) (Some rd)"

definition ResourceEvents ::
  "api_env \<Rightarrow> ResourceEventPage reader \<Rightarrow> control_net \<Rightarrow> ControlClient \<Rightarrow> string \<Rightarrow> string \<Rightarrow> string \<Rightarrow> string \<Rightarrow> int \<Rightarrow> ResourceEventPage option control_op" where
  "ResourceEvents env rd net c resource stream queryID cursor limit =
     (if limit < 1 \<or> limit > 100 then op_fail (ClientError ''event limit must be between 1 and 100'')
      else eventRequest env net c ''GET'' (resourceEventPath resource stream @ ''/queries/'' @ path_escape queryID @ ''/events'' @ pagination cursor limit)
        None (Some rd))"

definition ResourceEventHistogram ::
  "api_env \<Rightarrow> (ResourceEventBucket list) reader \<Rightarrow> control_net \<Rightarrow> ControlClient \<Rightarrow> string \<Rightarrow> string \<Rightarrow> string \<Rightarrow> string \<Rightarrow> int \<Rightarrow>
   ResourceEventBucket list option control_op" where
  "ResourceEventHistogram env rd net c resource stream queryID groupBy interval =
     (if interval < 1000000000 \<or> interval > 2592000000000000 \<or> interval mod 1000000000 \<noteq> 0
      then op_fail (ClientError ''invalid event histogram interval'')
      else
        let parameters = values_set (values_set [] ''group_by'' groupBy) ''interval_seconds'' (itoa (interval div 1000000000))
        in eventRequest env net c ''GET'' (resourceEventPath resource stream @ ''/queries/'' @ path_escape queryID @ ''/histogram?''
             @ values_encode parameters) None (Some rd))"

definition ResourceEvent ::
  "api_env \<Rightarrow> ResourceEventDetail reader \<Rightarrow> control_net \<Rightarrow> ControlClient \<Rightarrow> string \<Rightarrow> string \<Rightarrow> string \<Rightarrow> ResourceEventDetail option control_op" where
  "ResourceEvent env rd net c resource stream eventID =
     eventRequest env net c ''GET'' (resourceEventPath resource stream @ ''/events/'' @ path_escape eventID) None (Some rd)"

section \<open>All of them are requests of their client\<close>

context client_policy
begin

lemma sends_GetResource [sends_intros]:
  "sends allowed (GetResource env rd net c resource)"
  by (auto simp: GetResource_def Let_def intro!: sends_intros)

lemma sends_PutResource [sends_intros]:
  "sends allowed (PutResource env rd net c resource input)"
  by (auto simp: PutResource_def Let_def intro!: sends_intros)

lemma sends_CreateSystemResource [sends_intros]:
  "sends allowed (CreateSystemResource env rd net c input key)"
  by (auto simp: CreateSystemResource_def Let_def intro!: sends_intros)

lemma sends_MoveResource [sends_intros]:
  "sends allowed (MoveResource env rd net c resource parent fence key)"
  by (auto simp: MoveResource_def Let_def intro!: sends_intros)

lemma sends_resource_lifecycle [sends_intros]:
  "sends allowed (resource_lifecycle env rd net c resource action fence key)"
  by (auto simp: resource_lifecycle_def Let_def intro!: sends_intros)

lemma sends_DeleteResource [sends_intros]:
  "sends allowed (DeleteResource env rd net c resource fence subtree key)"
  by (auto simp: DeleteResource_def Let_def intro!: sends_intros)

lemma sends_PutResourceType [sends_intros]:
  "sends allowed (PutResourceType env rd net c resourceType d0)"
  by (auto simp: PutResourceType_def Let_def intro!: sends_intros)

lemma sends_CreateCatalog [sends_intros]:
  "sends allowed (CreateCatalog env rd net c input key)"
  by (auto simp: CreateCatalog_def Let_def intro!: sends_intros)

lemma sends_Catalog [sends_intros]:
  "sends allowed (Catalog env rd net c ident)"
  by (auto simp: Catalog_def Let_def intro!: sends_intros)

lemma sends_Catalogs [sends_intros]:
  "sends allowed (Catalogs env rd net c cursor limit)"
  by (auto simp: Catalogs_def Let_def intro!: sends_intros)

lemma sends_ImportOpenAPI [sends_intros]:
  "sends allowed (ImportOpenAPI env rd net c catalogID input key)"
  by (auto simp: ImportOpenAPI_def Let_def intro!: sends_intros)

lemma sends_ImportDefinitions [sends_intros]:
  "sends allowed (ImportDefinitions env rd net c catalogID entries key)"
  by (auto simp: ImportDefinitions_def Let_def intro!: sends_intros)

lemma sends_CatalogSnapshots [sends_intros]:
  "sends allowed (CatalogSnapshots env rd net c catalogID cursor limit)"
  by (auto simp: CatalogSnapshots_def Let_def intro!: sends_intros)

lemma sends_PublishCatalogSnapshot [sends_intros]:
  "sends allowed (PublishCatalogSnapshot env rd net c catalogID snapshotID key)"
  by (auto simp: PublishCatalogSnapshot_def Let_def intro!: sends_intros)

lemma sends_CatalogEntries [sends_intros]:
  "sends allowed (CatalogEntries env rd net c catalogID cursor limit)"
  by (auto simp: CatalogEntries_def Let_def intro!: sends_intros)

lemma sends_CatalogEntry [sends_intros]:
  "sends allowed (CatalogEntry env rd net c catalogID entryID)"
  by (auto simp: CatalogEntry_def Let_def intro!: sends_intros)

lemma sends_BindResourceCatalog [sends_intros]:
  "sends allowed (BindResourceCatalog env rd net c resource input key)"
  by (auto simp: BindResourceCatalog_def Let_def intro!: sends_intros)

lemma sends_IssueResourceCredential [sends_intros]:
  "sends allowed (IssueResourceCredential env rd net c resource input key)"
  by (auto simp: IssueResourceCredential_def Let_def intro!: sends_intros)

lemma sends_ResourceCredentials [sends_intros]:
  "sends allowed (ResourceCredentials env rd net c resource)"
  by (auto simp: ResourceCredentials_def Let_def intro!: sends_intros)

lemma sends_RotateResourceCredential [sends_intros]:
  "sends allowed (RotateResourceCredential env rd net c resource credentialID input key)"
  by (auto simp: RotateResourceCredential_def Let_def intro!: sends_intros)

lemma sends_RevokeResourceCredential [sends_intros]:
  "sends allowed (RevokeResourceCredential env rd net c resource credentialID key)"
  by (auto simp: RevokeResourceCredential_def Let_def intro!: sends_intros)

lemma sends_RewrapResourcePayload [sends_intros]:
  "sends allowed (RewrapResourcePayload env rd net c resource slot input)"
  by (auto simp: RewrapResourcePayload_def Let_def intro!: sends_intros)

lemma sends_DeleteResourcePayload [sends_intros]:
  "sends allowed (DeleteResourcePayload env rd net c resource slot key)"
  by (auto simp: DeleteResourcePayload_def Let_def intro!: sends_intros)

lemma sends_control_ResourcePayload [sends_intros]:
  "sends allowed (control_ResourcePayload env rd net c resource slot)"
  by (auto simp: control_ResourcePayload_def Let_def intro!: sends_intros)

lemma sends_control_AccessResourcePayload [sends_intros]:
  "sends allowed (control_AccessResourcePayload env rd net c resource slot version)"
  by (auto simp: control_AccessResourcePayload_def Let_def intro!: sends_intros)

lemma sends_BeginResourcePayloadUpload [sends_intros]:
  "sends allowed (BeginResourcePayloadUpload env rd net c resource slot input)"
  by (auto simp: BeginResourcePayloadUpload_def Let_def intro!: sends_intros)

lemma sends_CommitResourcePayload [sends_intros]:
  "sends allowed (CommitResourcePayload env rd net c resource slot intent)"
  by (auto simp: CommitResourcePayload_def Let_def intro!: sends_intros)

lemma sends_AvailableCatalogs [sends_intros]:
  "sends allowed (AvailableCatalogs env rd net c cursor limit)"
  by (auto simp: AvailableCatalogs_def Let_def intro!: sends_intros)

lemma sends_AvailableCatalogEntries [sends_intros]:
  "sends allowed (AvailableCatalogEntries env rd net c catalogID cursor limit)"
  by (auto simp: AvailableCatalogEntries_def Let_def intro!: sends_intros)

lemma sends_AvailableCatalogSnapshotDocument [sends_intros]:
  "sends allowed (AvailableCatalogSnapshotDocument env rd net c catalogID snapshotID)"
  by (auto simp: AvailableCatalogSnapshotDocument_def Let_def intro!: sends_intros)

lemma sends_ResourceCatalogEntries [sends_intros]:
  "sends allowed (ResourceCatalogEntries env rd net c resource catalogID cursor limit)"
  by (auto simp: ResourceCatalogEntries_def Let_def intro!: sends_intros)

lemma sends_ResourceCatalogEntry [sends_intros]:
  "sends allowed (ResourceCatalogEntry env rd net c resource catalogID entryID)"
  by (auto simp: ResourceCatalogEntry_def Let_def intro!: sends_intros)

lemma sends_AccountResources [sends_intros]:
  "sends allowed (AccountResources env rd net c options)"
  by (auto simp: AccountResources_def Let_def intro!: sends_intros)

lemma sends_AccountInvitations [sends_intros]:
  "sends allowed (AccountInvitations env rd net c cursor limit)"
  by (auto simp: AccountInvitations_def Let_def intro!: sends_intros)

lemma sends_accountInvitationAction [sends_intros]:
  "sends allowed (accountInvitationAction env rd net c invitationID action)"
  by (auto simp: accountInvitationAction_def Let_def intro!: sends_intros)

lemma sends_CreatePortalSession [sends_intros]:
  "sends allowed (CreatePortalSession env rd net c input)"
  by (auto simp: CreatePortalSession_def Let_def intro!: sends_intros)

lemma sends_CreateDevelopmentConnection [sends_intros]:
  "sends allowed (CreateDevelopmentConnection env rd net c resource key)"
  by (auto simp: CreateDevelopmentConnection_def Let_def intro!: sends_intros)

lemma sends_DevelopmentConnections [sends_intros]:
  "sends allowed (DevelopmentConnections env rd net c resource cursor limit)"
  by (auto simp: DevelopmentConnections_def Let_def intro!: sends_intros)

lemma sends_DevelopmentConnection [sends_intros]:
  "sends allowed (DevelopmentConnection env rd net c resource connectionID)"
  by (auto simp: DevelopmentConnection_def Let_def intro!: sends_intros)

lemma sends_RevokeDevelopmentConnection [sends_intros]:
  "sends allowed (RevokeDevelopmentConnection env net c resource connectionID)"
  by (auto simp: RevokeDevelopmentConnection_def Let_def intro!: sends_intros)

lemma sends_CreateDevelopmentConnectionSession [sends_intros]:
  "sends allowed (CreateDevelopmentConnectionSession env rd net c resource connectionID)"
  by (auto simp: CreateDevelopmentConnectionSession_def Let_def intro!: sends_intros)

lemma sends_eventRequest [sends_intros]:
  "sends allowed (eventRequest env net c meth path input out)"
  by (auto simp: eventRequest_def Let_def intro!: sends_intros)

lemma sends_ConfigureResourceEventStream [sends_intros]:
  "sends allowed (ConfigureResourceEventStream env net c resource stream input)"
  by (auto simp: ConfigureResourceEventStream_def Let_def intro!: sends_intros)

lemma sends_control_AppendResourceEvent [sends_intros]:
  "sends allowed (control_AppendResourceEvent env net c resource stream input)"
  by (auto simp: control_AppendResourceEvent_def Let_def intro!: sends_intros)

lemma sends_CreateResourceEventQuery [sends_intros]:
  "sends allowed (CreateResourceEventQuery env rd net c resource stream input)"
  by (auto simp: CreateResourceEventQuery_def Let_def intro!: sends_intros)

lemma sends_ResourceEvents [sends_intros]:
  "sends allowed (ResourceEvents env rd net c resource stream queryID cursor limit)"
  by (auto simp: ResourceEvents_def Let_def intro!: sends_intros)

lemma sends_ResourceEventHistogram [sends_intros]:
  "sends allowed (ResourceEventHistogram env rd net c resource stream queryID groupBy interval)"
  by (auto simp: ResourceEventHistogram_def Let_def intro!: sends_intros)

lemma sends_ResourceEvent [sends_intros]:
  "sends allowed (ResourceEvent env rd net c resource stream eventID)"
  by (auto simp: ResourceEvent_def Let_def intro!: sends_intros)

end

section \<open>Facts\<close>

text \<open>A registration can be read back from what is sent: absent and empty references differ.\<close>

lemma json_smap_inject: "json_smap (Some m) = json_smap (Some m') \<longleftrightarrow> m = m'"
proof -
  have "inj (\<lambda>(k :: string, v). (k, JStr v))"
    by (auto simp: inj_on_def)
  then show ?thesis
    by (simp add: json_smap_def inj_map_eq_map)
qed

lemma json_ResourceRegistration_inject: "json_ResourceRegistration r = json_ResourceRegistration r' \<longleftrightarrow> r = r'"
proof
  assume eq: "json_ResourceRegistration r = json_ResourceRegistration r'"
  define reading where "reading k v = (case v of JObj ms \<Rightarrow> map_of ms k | _ \<Rightarrow> None)" for k v
  have "(reading ''display_name'' (json_ResourceRegistration q) = (if rr_DisplayName q = [] then None else Some (JStr (rr_DisplayName q))))
      \<and> (reading ''key_scope'' (json_ResourceRegistration q) = (if rr_KeyScope q = [] then None else Some (JStr (rr_KeyScope q))))
      \<and> (reading ''parent'' (json_ResourceRegistration q) = (if rr_Parent q = [] then None else Some (JStr (rr_Parent q))))
      \<and> (reading ''references'' (json_ResourceRegistration q) = map_option (\<lambda>m. json_smap (Some m)) (rr_References q))
      \<and> (reading ''resource_type'' (json_ResourceRegistration q) = Some (JStr (rr_ResourceType q)))" for q
    by (simp add: reading_def json_ResourceRegistration_def omit_str_def omit_opt_def split: option.split)
  from this [of r] this [of r'] eq show "r = r'"
    by (cases "rr_References r"; cases "rr_References r'")
      (simp_all add: json_smap_inject ResourceRegistration.equality split: if_splits)
qed simp

text \<open>Identifiers stay in their place: a path determines the resource and the slot it was made from.\<close>

lemma resourcePayloadPath_inject:
  "resourcePayloadPath r s = resourcePayloadPath r' s' \<longleftrightarrow> requiredControl r = requiredControl r' \<and> requiredControl s = requiredControl s'"
proof
  assume eq: "resourcePayloadPath r s = resourcePayloadPath r' s'"
  have split: "split_on (CHR ''/'') (resourcePayloadPath a b) = ['''', ''resources'', seg a, ''payloads'', seg b]" for a b
  proof -
    have "split_on (CHR ''/'') (seg a @ CHR ''/'' # ''payloads'' @ CHR ''/'' # seg b) = [seg a, ''payloads'', seg b]"
      by (simp add: split_on_append path_escape_segment split_on_none)
    then show ?thesis
      by (simp add: resourcePayloadPath_def resourcePath_def)
  qed
  show "requiredControl r = requiredControl r' \<and> requiredControl s = requiredControl s'"
    using arg_cong [OF eq, of "split_on (CHR ''/'')"] by (simp add: split)
qed (simp add: resourcePayloadPath_def resourcePath_def)

lemma download_cases:
  assumes "downloadResourcePayload env net lease log = (r, log')"
  shows "log' = log \<or> (\<exists>u. validatedObjectURL env (pl_DownloadURL lease) = Some u
      \<and> log' = log @ [\<lparr>cl_Method = ''GET'', cl_URL = api_URLString env u, cl_Header = [], cl_Body = None\<rparr>])"
  using assms by (auto simp: downloadResourcePayload_def Let_def split: option.splits if_splits)

lemma download_Ok:
  assumes "downloadResourcePayload env net lease log = (Ok raw, log')"
  shows "int (length raw) = sint (pl_ObjectSize lease)" "length raw \<le> 67108864"
    "hex_encode (sha256 raw) = strings_ToLower (api_net env) (trim_space (pl_ObjectDigest lease))" "log' \<noteq> log"
proof -
  have size: "0 \<le> sint (pl_ObjectSize lease)" "sint (pl_ObjectSize lease) \<le> 67108864" "length raw = nat (sint (pl_ObjectSize lease))"
    using assms by (auto simp: downloadResourcePayload_def Let_def word_sless_alt split: option.splits if_splits)
  then show "int (length raw) = sint (pl_ObjectSize lease)" "length raw \<le> 67108864"
    by simp_all
  show "hex_encode (sha256 raw) = strings_ToLower (api_net env) (trim_space (pl_ObjectDigest lease))" "log' \<noteq> log"
    using assms by (auto simp: downloadResourcePayload_def Let_def split: option.splits if_splits)
qed

lemma foldl_header_set:
  "(k, v) \<in> set (foldl (\<lambda>h (name, v). header_set h (f name) v) h es) \<Longrightarrow> (k, v) \<in> set h \<or> (\<exists>name. (name, v) \<in> set es \<and> k = f name)"
proof (induction es arbitrary: h)
  case (Cons e es)
  obtain name w where e: "e = (name, w)"
    by (cases e)
  show ?case
    using Cons.IH [of "header_set h (f name) w"] Cons.prems by (auto simp: e mem_header_set)
qed simp

lemma upload_cases:
  assumes "uploadResourcePayloadObject env net visit intent object log = (r, log')"
  shows "log' = log \<or> (\<exists>u call. validatedObjectURL env (up_UploadURL intent) = Some u \<and> log' = log @ [call]
      \<and> cl_URL call = api_URLString env u \<and> cl_Body call = Some object
      \<and> (\<forall>k v. (k, v) \<in> set (cl_Header call) \<longrightarrow> (\<exists>name. k = api_CanonicalHeader env name
           \<and> (name, v) \<in> set (visit (case up_RequiredHeaders intent of None \<Rightarrow> [] | Some m \<Rightarrow> m))
           \<and> \<not> unsafe_header (strings_ToLower (api_net env) name))))"
proof (cases "log' = log")
  case False
  define headers where "headers = visit (case up_RequiredHeaders intent of None \<Rightarrow> [] | Some m \<Rightarrow> m)"
  obtain u where u: "validatedObjectURL env (up_UploadURL intent) = Some u"
    using assms False by (auto simp: uploadResourcePayloadObject_def split: option.splits)
  have safe: "\<not> list_ex (\<lambda>(name, v). unsafe_header (strings_ToLower (api_net env) name)) headers"
    using assms False u by (auto simp: uploadResourcePayloadObject_def Let_def headers_def split: if_splits)
  have "log' = log @ [\<lparr>cl_Method = ''PUT'', cl_URL = api_URLString env u,
      cl_Header = foldl (\<lambda>h (name, v). header_set h (api_CanonicalHeader env name) v) [] headers, cl_Body = Some object\<rparr>]"
    using assms False u by (auto simp: uploadResourcePayloadObject_def Let_def headers_def split: if_splits option.splits)
  moreover have "\<exists>name. k = api_CanonicalHeader env name \<and> (name, v) \<in> set headers \<and> \<not> unsafe_header (strings_ToLower (api_net env) name)"
    if "(k, v) \<in> set (foldl (\<lambda>h (name, v). header_set h (api_CanonicalHeader env name) v) [] headers)" for k v
    using foldl_header_set [OF that] safe by (auto simp: list_ex_iff)
  ultimately show ?thesis
    using u unfolding headers_def by auto
qed simp

section \<open>An object of one byte\<close>

definition cw_lease :: ResourcePayloadAccessLease where
  "cw_lease = \<lparr>pl_Resource = ''doc'', pl_Slot = ''main'', pl_Representation = ''raw'', pl_ObjectDigest = hex_encode (sha256 [0]),
     pl_DownloadURL = ''u'', pl_DownloadMethod = ''GET'', pl_Audience = [], pl_PayloadVersion = 1, pl_ObjectSize = 1, pl_ExpiresAt = 0,
     pl_ResourceRevision = 1, pl_LifecycleGeneration = 1\<rparr>"

lemma cw_download: "\<exists>log'. downloadResourcePayload cw_env cw_net cw_lease [] = (Ok [0], log')"
proof -
  have "trim_space (hex_encode (sha256 [0])) = hex_encode (sha256 [0])"
    using hex_encode_chars [of "sha256 [0]"] by (intro trim_space_ident) (auto simp: list_all_iff hex_ident_char)
  moreover have "validatedObjectURL cw_env ''u'' = Some \<lparr>u_Scheme = ''https'', u_Opaque = [], u_User = False, u_Host = ''control.example'',
         u_Path = [], u_RawPath = [], u_ForceQuery = False, u_RawQuery = [], u_Fragment = []\<rparr>"
    by (simp add: validatedObjectURL_def cw_env_def)
  ultimately show ?thesis
    by (simp add: downloadResourcePayload_def cw_lease_def cw_net_def word_sless_alt) (simp add: cw_env_def)
qed

section \<open>Properties\<close>

text \<open>
  \<^bold>\<open>C19\<close> Storage is kept apart from Control. A download sends one request without any header,
  an upload one whose headers are those the intent requires and none that could carry an authority, both
  only to HTTPS or loopback URLs. Downloaded bytes are returned only when their length is the one of the
  lease, at most 64 MiB, and their SHA-256 is its digest.
\<close>

theorem storage_isolated:
  assumes "downloadResourcePayload env net lease log = (r, log1)"
    and "uploadResourcePayloadObject env net visit intent object log = (r', log2)"
  shows "(log1 = log \<or> (\<exists>u. validatedObjectURL env (pl_DownloadURL lease) = Some u
      \<and> log1 = log @ [\<lparr>cl_Method = ''GET'', cl_URL = api_URLString env u, cl_Header = [], cl_Body = None\<rparr>]))
    \<and> (\<forall>raw. r = Ok raw \<longrightarrow> int (length raw) = sint (pl_ObjectSize lease) \<and> length raw \<le> 67108864
         \<and> hex_encode (sha256 raw) = strings_ToLower (api_net env) (trim_space (pl_ObjectDigest lease)))
    \<and> (log2 = log \<or> (\<exists>u call. validatedObjectURL env (up_UploadURL intent) = Some u \<and> log2 = log @ [call]
      \<and> cl_URL call = api_URLString env u \<and> cl_Body call = Some object
      \<and> (\<forall>k v. (k, v) \<in> set (cl_Header call) \<longrightarrow> (\<exists>name. k = api_CanonicalHeader env name
           \<and> (name, v) \<in> set (visit (case up_RequiredHeaders intent of None \<Rightarrow> [] | Some m \<Rightarrow> m))
           \<and> \<not> unsafe_header (strings_ToLower (api_net env) name)))))"
  using download_cases [OF assms(1)] download_Ok assms(1) upload_cases [OF assms(2)] by blast

theorem storage_isolated_witness:
  "\<exists>log' r log2. downloadResourcePayload cw_env cw_net cw_lease [] = (Ok [0], log')
     \<and> uploadResourcePayloadObject cw_env cw_net (\<lambda>m. m)
         (zero_ResourcePayloadUploadIntent\<lparr>up_UploadURL := ''u'', up_UploadMethod := ''PUT'', up_RequiredHeaders := Some [(''a'', ''b'')]\<rparr>)
         [1] [] = (r, log2)
     \<and> int (length [0 :: byte]) = sint (pl_ObjectSize cw_lease)
     \<and> hex_encode (sha256 [0]) = strings_ToLower (api_net cw_env) (trim_space (pl_ObjectDigest cw_lease))"
proof -
  let ?intent = "zero_ResourcePayloadUploadIntent\<lparr>up_UploadURL := ''u'', up_UploadMethod := ''PUT'', up_RequiredHeaders := Some [(''a'', ''b'')]\<rparr>"
  obtain log' where d: "downloadResourcePayload cw_env cw_net cw_lease [] = (Ok [0], log')"
    using cw_download by blast
  obtain r log2 where u: "uploadResourcePayloadObject cw_env cw_net (\<lambda>m. m) ?intent [1] [] = (r, log2)"
    by (metis prod.exhaust)
  show ?thesis
    using storage_isolated [OF d u] d u by blast
qed

end
