(* ===== verification/Resource_Client.thy ===== *)
theory Resource_Client
  imports Control_Resources
begin

text \<open>
  \<^verbatim>\<open>lotorhttp/resource_client.go\<close>: the client of one workload. It authenticates with a resource credential,
  never with the application's secret, executes provider requests in two phases, and protects them end
  to end with the resource key. AES-GCM, the random nonce and the text of JSON values are parameters.
\<close>

section \<open>Data\<close>

record ResourceExecutionRequest =
  xr_Method :: string
  xr_Path :: string
  xr_Query :: string
  xr_ContentType :: string
  xr_RequestBodyDigest :: string
  xr_RequestBodySize :: i64

definition json_ResourceExecutionRequest_fields :: "ResourceExecutionRequest \<Rightarrow> (string \<times> json) list" where
  "json_ResourceExecutionRequest_fields v =
     [(''method'', JStr (xr_Method v)), (''path'', JStr (xr_Path v)), (''query'', JStr (xr_Query v)), (''content_type'', JStr (xr_ContentType v)), (''request_body_digest'', JStr (xr_RequestBodyDigest v)), (''request_body_size'', JInt (sint (xr_RequestBodySize v)))]"

definition json_ResourceExecutionRequest :: "ResourceExecutionRequest \<Rightarrow> json" where
  "json_ResourceExecutionRequest v = JObj (json_ResourceExecutionRequest_fields v)"

record ResourceCredentialExchangeInput =
  xi_Audience :: string
  xi_Method :: string
  xi_Path :: string
  xi_BodySHA256 :: string
  xi_QuerySHA256 :: string
  xi_IdempotencyKeySHA256 :: string
  xi_ExpiresIn :: i64

definition json_ResourceCredentialExchangeInput_fields :: "ResourceCredentialExchangeInput \<Rightarrow> (string \<times> json) list" where
  "json_ResourceCredentialExchangeInput_fields v =
     [(''audience'', JStr (xi_Audience v)), (''method'', JStr (xi_Method v)), (''path'', JStr (xi_Path v)), (''body_sha256'', JStr (xi_BodySHA256 v)), (''query_sha256'', JStr (xi_QuerySHA256 v))]
     @ omit_str ''idempotency_key_sha256'' (xi_IdempotencyKeySHA256 v)
     @ omit_int ''expires_in'' (xi_ExpiresIn v)"

definition json_ResourceCredentialExchangeInput :: "ResourceCredentialExchangeInput \<Rightarrow> json" where
  "json_ResourceCredentialExchangeInput v = JObj (json_ResourceCredentialExchangeInput_fields v)"

record ResourceCredentialExchange =
  xc_Assertion :: string
  xc_TokenType :: string
  xc_Subject :: string
  xc_APIKeyResource :: string
  xc_ClientID :: string
  xc_ApplicationID :: string
  xc_EnvironmentID :: string
  xc_EnvironmentMode :: string
  xc_ExpiresAt :: i64
  xc_CredentialVersion :: i64

record ResourceExecutionPreflight =
  xp_PolicyRevision :: string
  xp_Resource :: string
  xp_Path :: string
  xp_Query :: string
  xp_ContentType :: string
  xp_RequestBodyDigest :: string
  xp_Token :: string
  xp_CatalogEntryRevision :: string
  xp_RequestAAD :: string
  xp_ResponsePolicyRef :: string
  xp_CatalogSnapshotID :: string
  xp_Method :: string
  xp_CatalogEntryID :: string
  xp_KeyResource :: string
  xp_PayloadSlot :: string
  xp_ExecutionMode :: string
  xp_PayloadRepresentation :: string
  xp_RequestFingerprint :: string
  xp_PayloadVersion :: i64
  xp_KeyVersion :: i64
  xp_LifecycleGeneration :: i64
  xp_ResourceRevision :: i64
  xp_ExpiresAt :: i64
  xp_RequestBodySize :: i64

record ResourceExecutionAuthorization =
  xa_Status :: string
  xa_RequestFingerprint :: string
  xa_Resource :: string
  xa_CatalogEntryID :: string
  xa_PayloadSlot :: string
  xa_PayloadRepresentation :: string
  xa_ExecutionMode :: string
  xa_ProtectedResponse :: string
  xa_PayloadVersion :: i64
  xa_ProviderStatus :: int
  xa_ExpiresAt :: i64

record ResourceExecutionCommitInput =
  xm_ProtectedRequest :: string
  xm_ResponsePolicyRef :: string

record ProviderPlainRequest =
  xq_Method :: string
  xq_Path :: string
  xq_Query :: string
  xq_ContentType :: string
  xq_Headers :: "(string \<times> string) list option"
  xq_Body :: "bytes option"

record ProviderProtectedResponse =
  xs_Headers :: "(string \<times> string) list option"
  xs_Body :: "bytes option"
  xs_Status :: int

record executionEnvelope =
  xe_Nonce :: string
  xe_Ciphertext :: string
  xe_AADHash :: string

section \<open>The client\<close>

record http_ResourceClient =
  hr_baseURL :: string
  hr_clientID :: string
  hr_publishableKey :: string
  hr_resourceCredential :: string

record ResourceClientOptions =
  ho_BaseURL :: string
  ho_ClientID :: string
  ho_PublishableKey :: string
  ho_ResourceCredential :: string

definition http_NewResourceClient :: "api_env \<Rightarrow> ResourceClientOptions \<Rightarrow> (control_error, http_ResourceClient) outcome" where
  "http_NewResourceClient env options =
     (case validatedControlURL (api_net env) (api_IPLoopback env) (ho_BaseURL options) of
        Fail e \<Rightarrow> Fail (ClientError e)
      | Panic \<Rightarrow> Panic
      | Ok base \<Rightarrow>
          let clientID = trim_space (ho_ClientID options); publishableKey = trim_space (ho_PublishableKey options);
              credential = trim_space (ho_ResourceCredential options) in
          if clientID = [] \<or> publishableKey = [] \<or> credential = []
          then Fail (ClientError ''client ID, publishable key, and resource credential are required'')
          else Ok \<lparr>hr_baseURL = base, hr_clientID = clientID, hr_publishableKey = publishableKey, hr_resourceCredential = credential\<rparr>)"

definition workload_base :: "http_ResourceClient \<Rightarrow> string" where
  "workload_base c = hr_baseURL c @ ''/v1/public/applications/'' @ path_escape (hr_clientID c)"

definition workload_headers :: "http_ResourceClient \<Rightarrow> bool \<Rightarrow> http_header \<Rightarrow> http_header" where
  "workload_headers c has_body extra =
     [(''Accept'', ''application/json''), (''Authorization'', ''Bearer '' @ hr_resourceCredential c),
      (''X-Lotor-Publishable-Key'', hr_publishableKey c)]
     @ (if has_body then [(''Content-Type'', ''application/json'')] else []) @ extra"

definition workload_request ::
  "api_env \<Rightarrow> control_net \<Rightarrow> http_ResourceClient \<Rightarrow> string \<Rightarrow> string \<Rightarrow> http_header \<Rightarrow> json option \<Rightarrow> ('o reader) option \<Rightarrow>
   (http_header \<times> 'o option) control_op" where
  "workload_request env net c meth path extra body out log =
     (case map_option (api_Marshal env) body of
        Some None \<Rightarrow> (Fail (ClientError ''json''), log)
      | raw \<Rightarrow>
          if url_Parse (api_net env) (workload_base c @ path) = None then (Fail (ClientError ''url''), log)
          else
            let log' = log @ [\<lparr>cl_Method = meth, cl_URL = workload_base c @ path, cl_Header = workload_headers c (body \<noteq> None) extra,
                               cl_Body = map_option the raw\<rparr>] in
            (case net log' of
               None \<Rightarrow> (Fail TransportError, log')
             | Some reply \<Rightarrow> (control_reply_of env 4194304 out reply, log')))"

definition ExchangeCredential ::
  "api_env \<Rightarrow> ResourceCredentialExchange reader \<Rightarrow> control_net \<Rightarrow> http_ResourceClient \<Rightarrow> ResourceCredentialExchangeInput \<Rightarrow>
   ResourceCredentialExchange option control_op" where
  "ExchangeCredential env rd net c input =
     op_bind (workload_request env net c ''POST'' ''/credential-exchanges'' [] (Some (json_ResourceCredentialExchangeInput input)) (Some rd))
       (\<lambda>(_, v). op_return v)"

definition workload_ResourcePayload ::
  "api_env \<Rightarrow> ResourcePayloadManifest reader \<Rightarrow> control_net \<Rightarrow> http_ResourceClient \<Rightarrow> string \<Rightarrow> string \<Rightarrow> ResourcePayloadManifest option control_op" where
  "workload_ResourcePayload env rd net c resource slot =
     op_bind (workload_request env net c ''GET'' (resourcePayloadPath resource slot) [] None (Some rd)) (\<lambda>(_, v). op_return v)"

definition workload_AccessResourcePayload ::
  "api_env \<Rightarrow> ResourcePayloadAccessLease reader \<Rightarrow> control_net \<Rightarrow> http_ResourceClient \<Rightarrow> string \<Rightarrow> string \<Rightarrow> i64 \<Rightarrow>
   ResourcePayloadAccessLease option control_op" where
  "workload_AccessResourcePayload env rd net c resource slot version =
     op_bind (workload_request env net c ''POST'' (resourcePayloadPath resource slot @ ''/access'') []
         (Some (JObj (omit_int ''payload_version'' version))) (Some rd)) (\<lambda>(_, v). op_return v)"

definition workload_AppendResourceEvent ::
  "api_env \<Rightarrow> control_net \<Rightarrow> http_ResourceClient \<Rightarrow> string \<Rightarrow> string \<Rightarrow> ResourceEvent_t \<Rightarrow> unit control_op" where
  "workload_AppendResourceEvent env net c resource stream input =
     op_bind (workload_request env net c ''POST'' (resourceEventPath resource stream @ ''/events'') []
         (Some (json_ResourceEvent_t (event_defaults input))) (None :: (unit reader) option)) (\<lambda>_. op_return ())"

section \<open>Executions in two phases\<close>

definition zero_ResourceExecutionPreflight :: ResourceExecutionPreflight where
  "zero_ResourceExecutionPreflight = \<lparr>xp_PolicyRevision = [], xp_Resource = [], xp_Path = [], xp_Query = [], xp_ContentType = [],
     xp_RequestBodyDigest = [], xp_Token = [], xp_CatalogEntryRevision = [], xp_RequestAAD = [], xp_ResponsePolicyRef = [],
     xp_CatalogSnapshotID = [], xp_Method = [], xp_CatalogEntryID = [], xp_KeyResource = [], xp_PayloadSlot = [], xp_ExecutionMode = [],
     xp_PayloadRepresentation = [], xp_RequestFingerprint = [], xp_PayloadVersion = 0, xp_KeyVersion = 0, xp_LifecycleGeneration = 0,
     xp_ResourceRevision = 0, xp_ExpiresAt = 0, xp_RequestBodySize = 0\<rparr>"

definition preflight_matches :: "string \<Rightarrow> ResourceExecutionRequest \<Rightarrow> ResourceExecutionPreflight \<Rightarrow> bool" where
  "preflight_matches resource input p \<longleftrightarrow>
     xp_Resource p = resource \<and> xp_Method p = xr_Method input \<and> xp_Path p = xr_Path input \<and> xp_Query p = xr_Query input
     \<and> xp_ContentType p = xr_ContentType input \<and> xp_RequestBodyDigest p = xr_RequestBodyDigest input
     \<and> xp_RequestBodySize p = xr_RequestBodySize input"

definition PreflightExecution ::
  "api_env \<Rightarrow> ResourceExecutionPreflight reader \<Rightarrow> control_net \<Rightarrow> http_ResourceClient \<Rightarrow> string \<Rightarrow> ResourceExecutionRequest \<Rightarrow>
   ResourceExecutionPreflight control_op" where
  "PreflightExecution env rd net c resource input =
     op_bind (workload_request env net c ''POST'' (resourcePath resource @ ''/executions/preflight'') []
         (Some (json_ResourceExecutionRequest input)) (Some rd))
       (\<lambda>(headers, r).
          let token = trim_space (header_get headers ''Lotor-Execution-Token'');
              p = (case r of None \<Rightarrow> zero_ResourceExecutionPreflight | Some v \<Rightarrow> v)\<lparr>xp_Token := token\<rparr> in
          if token = [] then op_fail (ClientError ''Lotor execution preflight omitted its token'')
          else if \<not> preflight_matches resource input p then op_fail (ClientError ''Lotor execution preflight did not match its request'')
          else op_return p)"

definition zero_ResourceExecutionAuthorization :: ResourceExecutionAuthorization where
  "zero_ResourceExecutionAuthorization = \<lparr>xa_Status = [], xa_RequestFingerprint = [], xa_Resource = [], xa_CatalogEntryID = [],
     xa_PayloadSlot = [], xa_PayloadRepresentation = [], xa_ExecutionMode = [], xa_ProtectedResponse = [], xa_PayloadVersion = 0,
     xa_ProviderStatus = 0, xa_ExpiresAt = 0\<rparr>"

definition authorization_matches :: "ResourceExecutionPreflight \<Rightarrow> ResourceExecutionAuthorization \<Rightarrow> bool" where
  "authorization_matches p a \<longleftrightarrow>
     xa_RequestFingerprint a = xp_RequestFingerprint p \<and> xa_Resource a = xp_Resource p \<and> xa_CatalogEntryID a = xp_CatalogEntryID p
     \<and> xa_PayloadSlot a = xp_PayloadSlot p \<and> xa_PayloadVersion a = xp_PayloadVersion p
     \<and> xa_PayloadRepresentation a = xp_PayloadRepresentation p \<and> xa_ExecutionMode a = xp_ExecutionMode p
     \<and> xa_ExpiresAt a = xp_ExpiresAt p"

definition commit_matches :: "string \<Rightarrow> ResourceExecutionPreflight \<Rightarrow> ResourceExecutionCommitInput \<Rightarrow> bool" where
  "commit_matches resource p input \<longleftrightarrow>
     (let encrypted = (xp_PayloadRepresentation p = ''encrypted-envelope-v1'') in
      \<not> (xp_Resource p \<noteq> resource
         \<or> \<not> encrypted \<and> (xp_PayloadRepresentation p \<noteq> ''raw'' \<or> xm_ProtectedRequest input \<noteq> [] \<or> xm_ResponsePolicyRef input \<noteq> [])
         \<or> encrypted \<and> (xm_ProtectedRequest input = [] \<or> xm_ResponsePolicyRef input \<noteq> xp_ResponsePolicyRef p)))"

definition CommitExecution ::
  "api_env \<Rightarrow> ResourceExecutionAuthorization reader \<Rightarrow> control_net \<Rightarrow> http_ResourceClient \<Rightarrow> string \<Rightarrow> ResourceExecutionPreflight \<Rightarrow>
   ResourceExecutionCommitInput \<Rightarrow> ResourceExecutionAuthorization control_op" where
  "CommitExecution env rd net c resource preflight input =
     (if \<not> commit_matches resource preflight input then op_fail (ClientError ''execution commit does not match preflight'')
      else op_bind (workload_request env net c ''POST'' (resourcePath resource @ ''/executions/commit'')
          [(''Lotor-Execution-Token'', requiredControl (xp_Token preflight))]
          (Some (JObj ([(''request_fingerprint'', JStr (xp_RequestFingerprint preflight))]
             @ omit_str ''protected_request'' (xm_ProtectedRequest input) @ omit_str ''response_policy_ref'' (xm_ResponsePolicyRef input)))) (Some rd))
        (\<lambda>(_, r). let a = (case r of None \<Rightarrow> zero_ResourceExecutionAuthorization | Some v \<Rightarrow> v) in
           if \<not> authorization_matches preflight a then op_fail (ClientError ''Lotor execution authorization did not match preflight'')
           else op_return a))"

section \<open>End to end protection\<close>

record provider_response =
  pv_Headers :: "(string \<times> string) list option"
  pv_Body :: string
  pv_Status :: int

record exec_env =
  xn_api :: api_env
  xn_Seal :: "bytes \<Rightarrow> bytes \<Rightarrow> bytes \<Rightarrow> bytes \<Rightarrow> bytes"
  xn_Open :: "bytes \<Rightarrow> bytes \<Rightarrow> bytes \<Rightarrow> bytes \<Rightarrow> bytes option"
  xn_Envelope :: "executionEnvelope json_codec"
  xn_Response :: "provider_response reader"

definition executionAEAD :: "bytes \<Rightarrow> (control_error, bytes) outcome" where
  "executionAEAD key = (if length key \<noteq> 32 then Fail (ClientError ''resource key must be 32 bytes'') else Ok key)"

text \<open>The nonce is what \<open>rand.Read\<close> gave, \<open>None\<close> if it failed.\<close>

definition sealExecutionPayload :: "exec_env \<Rightarrow> bytes option \<Rightarrow> bytes \<Rightarrow> bytes \<Rightarrow> bytes \<Rightarrow> (control_error, string) outcome" where
  "sealExecutionPayload env random key plaintext aad =
     bind_outcome (executionAEAD key) (\<lambda>key.
       case random of
         None \<Rightarrow> Fail (ClientError ''random'')
       | Some nonce \<Rightarrow>
           (case js_marshal (xn_Envelope env) \<lparr>xe_Nonce = b64_encode nonce, xe_Ciphertext = b64_encode (xn_Seal env key nonce plaintext aad),
                   xe_AADHash = hex_encode (sha256 aad)\<rparr> of
              None \<Rightarrow> Fail (ClientError ''json'')
            | Some wire \<Rightarrow>
                if b64_encoded_len (length wire) > 3145728 then Fail (ClientError ''protected provider payload exceeds 3 MiB'')
                else Ok (b64_encode wire)))"

definition openExecutionPayload :: "exec_env \<Rightarrow> bytes \<Rightarrow> string \<Rightarrow> bytes \<Rightarrow> (control_error, bytes) outcome" where
  "openExecutionPayload env key encoded aad =
     (if length encoded > 3145728 then Fail (ClientError ''protected provider payload exceeds 3 MiB'')
      else case b64_decode False encoded of
        None \<Rightarrow> Fail (ClientError ''invalid protected provider response'')
      | Some wire \<Rightarrow>
          (case js_unmarshal (xn_Envelope env) wire of
             None \<Rightarrow> Fail (ClientError ''invalid protected provider response'')
           | Some envelope \<Rightarrow>
               (case (b64_decode False (xe_Nonce envelope), b64_decode False (xe_Ciphertext envelope)) of
                  (Some nonce, Some ciphertext) \<Rightarrow>
                    if length nonce \<noteq> 12 \<or> xe_AADHash envelope \<noteq> hex_encode (sha256 aad)
                    then Fail (ClientError ''invalid protected provider response'')
                    else bind_outcome (executionAEAD key) (\<lambda>key.
                      case xn_Open env key nonce ciphertext aad of
                        None \<Rightarrow> Fail (ClientError ''protected provider response authentication failed'')
                      | Some plaintext \<Rightarrow> Ok plaintext)
                | _ \<Rightarrow> Fail (ClientError ''invalid protected provider response''))))"

text \<open>The caller's headers, visited in an order of Go's choice: only two names are allowed, and only \<open>Accept\<close> is kept.\<close>

fun provider_headers :: "net_env \<Rightarrow> (string \<times> string) list \<Rightarrow> (string \<times> string) list \<Rightarrow> (control_error, (string \<times> string) list) outcome" where
  "provider_headers net [] acc = Ok acc"
| "provider_headers net ((name, v) # hs) acc =
     (if length v > 8192 \<or> list_ex (\<lambda>ch. ch = CHR 0x0D \<or> ch = CHR 0x0A) v then Fail (ClientError ''provider request contains invalid header value'')
      else if \<not> strings_EqualFold net name ''Accept'' \<and> \<not> strings_EqualFold net name ''Content-Type''
      then Fail (ClientError ''provider request contains unsupported header'')
      else provider_headers net hs (if strings_EqualFold net name ''Accept'' then map_put ''Accept'' v acc else acc))"

definition items_of :: "'a list option \<Rightarrow> 'a list" where
  "items_of s = (case s of None \<Rightarrow> [] | Some xs \<Rightarrow> xs)"

definition ProtectProviderRequest ::
  "exec_env \<Rightarrow> bytes option \<Rightarrow> ((string \<times> string) list \<Rightarrow> (string \<times> string) list) \<Rightarrow> bytes \<Rightarrow> ResourceExecutionPreflight \<Rightarrow>
   ProviderPlainRequest \<Rightarrow> (control_error, string) outcome" where
  "ProtectProviderRequest env random visit resourceKey p input =
     (let body = items_of (xq_Body input) in
      if length body > 1048576 then Fail (ClientError ''provider request body exceeds 1 MiB'')
      else if xp_PayloadRepresentation p \<noteq> ''encrypted-envelope-v1'' \<or> xp_ResponsePolicyRef p \<noteq> ''encrypt_all'' \<or> xp_RequestAAD p = []
      then Fail (ClientError ''execution preflight is not encrypted'')
      else if xq_Method input \<noteq> xp_Method p \<or> xq_Path input \<noteq> xp_Path p \<or> xq_Query input \<noteq> xp_Query p \<or> xq_ContentType input \<noteq> xp_ContentType p
      then Fail (ClientError ''provider request metadata does not match execution preflight'')
      else case b64_decode False (xp_RequestAAD p) of
        None \<Rightarrow> Fail (ClientError ''invalid execution request AAD'')
      | Some aad \<Rightarrow>
          if aad = [] then Fail (ClientError ''invalid execution request AAD'')
          else if int (length body) \<noteq> sint (xp_RequestBodySize p) \<or> hex_encode (sha256 body) \<noteq> xp_RequestBodyDigest p
          then Fail (ClientError ''provider request body does not match execution preflight'')
          else bind_outcome (provider_headers (api_net (xn_api env)) (visit (items_of (xq_Headers input))) []) (\<lambda>headers.
            case api_Marshal (xn_api env) (JObj [(''headers'', json_smap (Some (map_put ''Content-Type'' (xp_ContentType p) headers))),
                                                (''body'', JStr (b64_encode body))]) of
              None \<Rightarrow> Fail (ClientError ''json'')
            | Some wire \<Rightarrow> sealExecutionPayload env random resourceKey wire aad))"

definition response_aad :: "bytes \<Rightarrow> int \<Rightarrow> bytes" where
  "response_aad requestAAD status =
     bytes_of_string (''lotor-provider-response-v1'' @ [CHR 0x00] @ hex_encode (sha256 requestAAD) @ [CHR 0x00] @ itoa status)"

definition OpenProviderResponse ::
  "exec_env \<Rightarrow> bytes \<Rightarrow> ResourceExecutionPreflight \<Rightarrow> ResourceExecutionAuthorization \<Rightarrow> (control_error, ProviderProtectedResponse) outcome" where
  "OpenProviderResponse env resourceKey p a =
     (if xa_Status a \<noteq> ''completed'' \<or> xa_ProviderStatus a < 100 \<or> xa_ProviderStatus a > 599 \<or> xa_ProtectedResponse a = []
      then Fail (ClientError ''execution did not return a protected provider response'')
      else if \<not> authorization_matches p a then Fail (ClientError ''execution response does not match preflight'')
      else case b64_decode False (xp_RequestAAD p) of
        None \<Rightarrow> Fail (ClientError ''invalid execution request AAD'')
      | Some requestAAD \<Rightarrow>
          if requestAAD = [] then Fail (ClientError ''invalid execution request AAD'')
          else bind_outcome (openExecutionPayload env resourceKey (xa_ProtectedResponse a) (response_aad requestAAD (xa_ProviderStatus a))) (\<lambda>plaintext.
            case xn_Response env plaintext of
              None \<Rightarrow> Fail (ClientError ''invalid protected provider response'')
            | Some decoded \<Rightarrow>
                if pv_Status decoded \<noteq> xa_ProviderStatus a then Fail (ClientError ''invalid protected provider response'')
                else (case b64_decode False (pv_Body decoded) of
                        None \<Rightarrow> Fail (ClientError ''invalid protected provider response body'')
                      | Some body \<Rightarrow>
                          if length body > 1048576 then Fail (ClientError ''invalid protected provider response body'')
                          else Ok \<lparr>xs_Headers = pv_Headers decoded, xs_Body = Some body, xs_Status = pv_Status decoded\<rparr>)))"

section \<open>Facts\<close>

text \<open>What AES-GCM promises for a key: opening undoes sealing, and only what was sealed for the same data opens.\<close>

definition gcm_correct :: "exec_env \<Rightarrow> bytes \<Rightarrow> bool" where
  "gcm_correct env key \<longleftrightarrow>
     (\<forall>nonce plaintext aad. xn_Open env key nonce (xn_Seal env key nonce plaintext aad) aad = Some plaintext)
     \<and> (\<forall>nonce ciphertext aad plaintext. xn_Open env key nonce ciphertext aad = Some plaintext \<longrightarrow> ciphertext = xn_Seal env key nonce plaintext aad)"

definition envelope_codec :: "exec_env \<Rightarrow> bool" where
  "envelope_codec env \<longleftrightarrow> (\<forall>e raw. js_marshal (xn_Envelope env) e = Some raw \<longrightarrow> js_unmarshal (xn_Envelope env) raw = Some e)"

lemma sealExecutionPayload_Ok:
  assumes "sealExecutionPayload env random key plaintext aad = Ok encoded"
  obtains nonce wire where "length key = 32" "random = Some nonce" "encoded = b64_encode wire" "length encoded \<le> 3145728"
    "js_marshal (xn_Envelope env) \<lparr>xe_Nonce = b64_encode nonce, xe_Ciphertext = b64_encode (xn_Seal env key nonce plaintext aad),
       xe_AADHash = hex_encode (sha256 aad)\<rparr> = Some wire"
  using assms
  by (auto simp: sealExecutionPayload_def executionAEAD_def length_b64_encode simp del: b64_encode.simps
      split: if_splits option.splits)

lemma open_sealed:
  assumes sealed: "sealExecutionPayload env (Some nonce) key plaintext aad = Ok encoded"
    and env: "gcm_correct env key" "envelope_codec env" and nonce: "length nonce = 12"
  shows "openExecutionPayload env key encoded aad' =
     (if sha256 aad' \<noteq> sha256 aad then Fail (ClientError ''invalid protected provider response'')
      else case xn_Open env key nonce (xn_Seal env key nonce plaintext aad) aad' of
        None \<Rightarrow> Fail (ClientError ''protected provider response authentication failed'') | Some v \<Rightarrow> Ok v)"
proof -
  obtain wire where wire: "length key = 32" "encoded = b64_encode wire" "length encoded \<le> 3145728"
      "js_marshal (xn_Envelope env) \<lparr>xe_Nonce = b64_encode nonce, xe_Ciphertext = b64_encode (xn_Seal env key nonce plaintext aad),
         xe_AADHash = hex_encode (sha256 aad)\<rparr> = Some wire"
    using sealExecutionPayload_Ok [OF sealed] by auto
  have "js_unmarshal (xn_Envelope env) wire = Some \<lparr>xe_Nonce = b64_encode nonce, xe_Ciphertext = b64_encode (xn_Seal env key nonce plaintext aad),
         xe_AADHash = hex_encode (sha256 aad)\<rparr>"
    using env(2) wire(4) by (auto simp: envelope_codec_def)
  then show ?thesis
    using wire(1-3) nonce by (auto simp: openExecutionPayload_def executionAEAD_def simp del: b64_encode.simps)
qed

lemma workload_request_cases:
  assumes "workload_request env net c meth path extra body out log = (r, log')"
  shows "log' = log \<and> (\<forall>v. r \<noteq> Ok v) \<or> (\<exists>call. log' = log @ [call] \<and> cl_URL call = workload_base c @ path
      \<and> cl_Header call = workload_headers c (body \<noteq> None) extra)"
  using assms by (auto simp: workload_request_def Let_def split: option.splits if_splits)

lemma PreflightExecution_Ok:
  assumes "PreflightExecution env rd net c resource input log = (Ok p, log')"
  shows "preflight_matches resource input p" "xp_Token p \<noteq> []" "\<exists>call. log' = log @ [call]"
proof -
  let ?path = "resourcePath resource @ ''/executions/preflight''"
  obtain h v log1 where req: "workload_request env net c ''POST'' ?path [] (Some (json_ResourceExecutionRequest input)) (Some rd) log = (Ok (h, v), log1)"
    and tail: "(let token = trim_space (header_get h ''Lotor-Execution-Token'');
              p = (case v of None \<Rightarrow> zero_ResourceExecutionPreflight | Some v \<Rightarrow> v)\<lparr>xp_Token := token\<rparr> in
          if token = [] then op_fail (ClientError ''Lotor execution preflight omitted its token'')
          else if \<not> preflight_matches resource input p then op_fail (ClientError ''Lotor execution preflight did not match its request'')
          else op_return p) log1 = (Ok p, log')"
    using assms by (auto simp: PreflightExecution_def op_bind_def split: prod.splits outcome.splits)
  show "preflight_matches resource input p" "xp_Token p \<noteq> []" "\<exists>call. log' = log @ [call]"
    using tail workload_request_cases [OF req] by (auto simp: Let_def op_fail_def op_return_def split: if_splits)
qed

lemma CommitExecution_cases:
  assumes "CommitExecution env rd net c resource p input log = (r, log')"
  shows "log' = log \<and> (\<forall>a. r \<noteq> Ok a) \<or> (commit_matches resource p input \<and> (\<exists>call. log' = log @ [call]
      \<and> cl_URL call = workload_base c @ resourcePath resource @ ''/executions/commit''
      \<and> cl_Header call = workload_headers c True [(''Lotor-Execution-Token'', requiredControl (xp_Token p))]))"
    and "r = Ok a \<Longrightarrow> authorization_matches p a"
proof -
  let ?body = "Some (JObj ([(''request_fingerprint'', JStr (xp_RequestFingerprint p))]
             @ omit_str ''protected_request'' (xm_ProtectedRequest input) @ omit_str ''response_policy_ref'' (xm_ResponsePolicyRef input)))"
  let ?path = "resourcePath resource @ ''/executions/commit''"
  let ?req = "workload_request env net c ''POST'' ?path [(''Lotor-Execution-Token'', requiredControl (xp_Token p))] ?body (Some rd)"
  have "log' = log \<and> (\<forall>a. r \<noteq> Ok a)" if "\<not> commit_matches resource p input"
    using assms that by (auto simp: CommitExecution_def op_fail_def)
  moreover have "log' = snd (?req log) \<and> ((\<forall>v. fst (?req log) \<noteq> Ok v) \<longrightarrow> (\<forall>a. r \<noteq> Ok a)) \<and> (\<forall>a. r = Ok a \<longrightarrow> authorization_matches p a)"
    if "commit_matches resource p input"
    using assms that by (auto simp: CommitExecution_def op_bind_def op_fail_def op_return_def Let_def split: prod.splits outcome.splits if_splits)
  ultimately show "log' = log \<and> (\<forall>a. r \<noteq> Ok a) \<or> (commit_matches resource p input \<and> (\<exists>call. log' = log @ [call]
      \<and> cl_URL call = workload_base c @ resourcePath resource @ ''/executions/commit''
      \<and> cl_Header call = workload_headers c True [(''Lotor-Execution-Token'', requiredControl (xp_Token p))]))"
    and "r = Ok a \<Longrightarrow> authorization_matches p a"
    using workload_request_cases [of env net c "''POST''" ?path "[(''Lotor-Execution-Token'', requiredControl (xp_Token p))]" ?body "Some rd" log
        "fst (?req log)" "snd (?req log)"]
    by (auto; metis)+
qed

text \<open>The associated data of a response names the request and the status.\<close>

lemma response_aad_inject:
  assumes "response_aad r s = response_aad r' s'"
  shows "sha256 r = sha256 r'" "s = s'"
proof -
  have no_nul: "CHR 0x00 \<notin> set (hex_encode bs)" for bs
    using hex_encode_chars [of bs] by (auto simp: list_all_iff hex_char_def)
  have "hex_encode (sha256 r) @ CHR 0x00 # itoa s = hex_encode (sha256 r') @ CHR 0x00 # itoa s'"
    using assms by (simp add: response_aad_def)
  then have "split_on (CHR 0x00) (hex_encode (sha256 r) @ CHR 0x00 # itoa s) = split_on (CHR 0x00) (hex_encode (sha256 r') @ CHR 0x00 # itoa s')"
    by (rule arg_cong)
  then have "hex_encode (sha256 r) = hex_encode (sha256 r') \<and> itoa s = itoa s'"
    by (simp add: split_on_append no_nul split_on_none itoa_no_nul)
  then show "sha256 r = sha256 r'" "s = s'"
    by (simp_all add: itoa_inject)
qed

lemma openExecutionPayload_Ok:
  assumes "openExecutionPayload env key encoded aad = Ok plaintext"
  shows "\<exists>nonce ciphertext. length nonce = 12 \<and> length key = 32 \<and> xn_Open env key nonce ciphertext aad = Some plaintext"
  using assms
  by (auto simp: openExecutionPayload_def executionAEAD_def outcome_simps split: if_splits option.splits)

lemma OpenProviderResponse_Ok:
  assumes "OpenProviderResponse env key p a = Ok resp"
  shows "authorization_matches p a \<and> xs_Status resp = xa_ProviderStatus a \<and> 100 \<le> xs_Status resp \<and> xs_Status resp \<le> 599
    \<and> (\<exists>aad nonce ciphertext plaintext. b64_decode False (xp_RequestAAD p) = Some aad \<and> aad \<noteq> []
         \<and> xn_Open env key nonce ciphertext (response_aad aad (xa_ProviderStatus a)) = Some plaintext)"
proof -
  obtain aad where static: "xa_ProviderStatus a \<ge> 100" "xa_ProviderStatus a \<le> 599" "authorization_matches p a"
      "b64_decode False (xp_RequestAAD p) = Some aad" "aad \<noteq> []"
    and run: "bind_outcome (openExecutionPayload env key (xa_ProtectedResponse a) (response_aad aad (xa_ProviderStatus a))) (\<lambda>plaintext.
            case xn_Response env plaintext of
              None \<Rightarrow> Fail (ClientError ''invalid protected provider response'')
            | Some decoded \<Rightarrow>
                if pv_Status decoded \<noteq> xa_ProviderStatus a then Fail (ClientError ''invalid protected provider response'')
                else (case b64_decode False (pv_Body decoded) of
                        None \<Rightarrow> Fail (ClientError ''invalid protected provider response body'')
                      | Some body \<Rightarrow>
                          if length body > 1048576 then Fail (ClientError ''invalid protected provider response body'')
                          else Ok \<lparr>xs_Headers = pv_Headers decoded, xs_Body = Some body, xs_Status = pv_Status decoded\<rparr>)) = Ok resp"
    using assms unfolding OpenProviderResponse_def by (simp split: if_split_asm option.split_asm)
  obtain plaintext where opened: "openExecutionPayload env key (xa_ProtectedResponse a) (response_aad aad (xa_ProviderStatus a)) = Ok plaintext"
    using run by (cases "openExecutionPayload env key (xa_ProtectedResponse a) (response_aad aad (xa_ProviderStatus a))") simp_all
  obtain decoded where decoded: "xn_Response env plaintext = Some decoded" "pv_Status decoded = xa_ProviderStatus a" "xs_Status resp = pv_Status decoded"
    using run opened by (auto split: if_split_asm option.split_asm)
  show ?thesis
    using static decoded openExecutionPayload_Ok [OF opened] by auto
qed

section \<open>A cipher that keeps everything in view\<close>

definition xw_envelope :: executionEnvelope where
  "xw_envelope = \<lparr>xe_Nonce = b64_encode (replicate 12 7), xe_Ciphertext = b64_encode [1, 2, 9], xe_AADHash = hex_encode (sha256 [9])\<rparr>"

definition xw_env :: exec_env where
  "xw_env = \<lparr>xn_api = cw_env, xn_Seal = (\<lambda>key nonce plaintext aad. plaintext @ aad),
     xn_Open = (\<lambda>key nonce ciphertext aad. if length aad \<le> length ciphertext \<and> drop (length ciphertext - length aad) ciphertext = aad
        then Some (take (length ciphertext - length aad) ciphertext) else None),
     xn_Envelope = table_codec [(xw_envelope, [1])], xn_Response = (\<lambda>raw. None)\<rparr>"

lemma xw_correct: "gcm_correct xw_env key" "envelope_codec xw_env"
  by (auto simp: gcm_correct_def envelope_codec_def xw_env_def) (metis append_take_drop_id)

lemma xw_sealed: "\<exists>encoded. sealExecutionPayload xw_env (Some (replicate 12 7)) (replicate 32 3) [1, 2] [9] = Ok encoded"
proof -
  have "\<lparr>xe_Nonce = b64_encode (replicate 12 7), xe_Ciphertext = b64_encode [1, 2, 9], xe_AADHash = hex_encode (sha256 [9])\<rparr> = xw_envelope"
    by (simp only: xw_envelope_def)
  then show ?thesis
    by (simp add: sealExecutionPayload_def executionAEAD_def xw_env_def b64_encoded_len_def del: b64_encode.simps)
qed

definition xw_client :: http_ResourceClient where
  "xw_client = \<lparr>hr_baseURL = ''https://control.example'', hr_clientID = ''app'', hr_publishableKey = ''pk'', hr_resourceCredential = ''rc''\<rparr>"

definition xw_request :: ResourceExecutionRequest where
  "xw_request = \<lparr>xr_Method = ''GET'', xr_Path = ''/'', xr_Query = [], xr_ContentType = [], xr_RequestBodyDigest = [], xr_RequestBodySize = 0\<rparr>"

definition xw_preflight :: ResourceExecutionPreflight where
  "xw_preflight = zero_ResourceExecutionPreflight\<lparr>xp_Resource := ''doc'', xp_Method := ''GET'', xp_Path := ''/'', xp_PayloadRepresentation := ''raw''\<rparr>"

definition xw_authorization :: ResourceExecutionAuthorization where
  "xw_authorization = zero_ResourceExecutionAuthorization\<lparr>xa_Resource := ''doc'', xa_PayloadRepresentation := ''raw''\<rparr>"

definition xw_net :: control_net where
  "xw_net log = Some \<lparr>cr_Status = 200, cr_Header = [(''Lotor-Execution-Token'', ''t1'')], cr_Body = [1], cr_Broken = False\<rparr>"

lemma xw_two_phases:
  "\<exists>log1 log2. PreflightExecution cw_env (\<lambda>raw. Some xw_preflight) xw_net xw_client ''doc'' xw_request [] = (Ok (xw_preflight\<lparr>xp_Token := ''t1''\<rparr>), log1)
     \<and> CommitExecution cw_env (\<lambda>raw. Some xw_authorization) xw_net xw_client ''doc'' (xw_preflight\<lparr>xp_Token := ''t1''\<rparr>)
         \<lparr>xm_ProtectedRequest = [], xm_ResponsePolicyRef = []\<rparr> log1 = (Ok xw_authorization, log2)"
proof -
  have trim: "trim_space ''t1'' = ''t1''"
    by (rule trim_space_ident) (simp add: ident_char_def)
  have parse: "url_Parse (api_net cw_env) s \<noteq> None" for s
    by (simp add: cw_env_def)
  have marshal: "api_Marshal cw_env v = Some []" for v
    by (simp add: cw_env_def)
  show ?thesis
    by (simp add: PreflightExecution_def CommitExecution_def workload_request_def control_reply_of_def op_bind_def op_return_def Let_def
        parse marshal xw_net_def header_get_def trim preflight_matches_def commit_matches_def authorization_matches_def)
      (simp add: xw_preflight_def xw_request_def xw_authorization_def zero_ResourceExecutionPreflight_def zero_ResourceExecutionAuthorization_def)
qed

section \<open>Properties\<close>

text \<open>
  \<^bold>\<open>C18\<close> What is sealed for a provider opens again, with the same key and the same associated
  data, to the same bytes; with data of another SHA-256 it never opens, and whatever opens has the very
  same ciphertext.
\<close>

theorem provider_payload_roundtrip:
  assumes "sealExecutionPayload env (Some nonce) key plaintext aad = Ok encoded"
    and "gcm_correct env key" "envelope_codec env" and "length nonce = 12"
  shows "openExecutionPayload env key encoded aad = Ok plaintext
    \<and> (\<forall>aad'. sha256 aad' \<noteq> sha256 aad \<longrightarrow> (\<exists>e. openExecutionPayload env key encoded aad' = Fail e))
    \<and> (\<forall>aad' v. openExecutionPayload env key encoded aad' = Ok v \<longrightarrow> xn_Seal env key nonce v aad' = xn_Seal env key nonce plaintext aad)"
  using open_sealed [OF assms] assms(2) by (auto simp: gcm_correct_def split: option.splits if_splits)

theorem provider_payload_roundtrip_witness:
  "\<exists>encoded. sealExecutionPayload xw_env (Some (replicate 12 7)) (replicate 32 3) [1, 2] [9] = Ok encoded
     \<and> openExecutionPayload xw_env (replicate 32 3) encoded [9] = Ok [1, 2]"
proof -
  obtain encoded where sealed: "sealExecutionPayload xw_env (Some (replicate 12 7)) (replicate 32 3) [1, 2] [9] = Ok encoded"
    using xw_sealed by blast
  then show ?thesis
    using provider_payload_roundtrip [OF sealed xw_correct] by auto
qed



end
