(* ===== verification/Dev_Protocol.thy ===== *)
theory Dev_Protocol
  imports Bridge_Transport
begin

text \<open>
  \<^verbatim>\<open>bridge/development\<close>: the frames of a development connection (\<^verbatim>\<open>protocol.go\<close>), the proof with which a
  registered bridge obtains a connector session (\<^verbatim>\<open>proof.go\<close>), the provider of such sessions
  (\<^verbatim>\<open>provider.go\<close>) and the check of a session (\<^verbatim>\<open>connector.go\<close>). Instants of the clock are nanoseconds
  since 1970 as integers; every reading of the clock is an argument of its own.
\<close>

section \<open>Frames\<close>

definition MaxBodyBytes :: nat where "MaxBodyBytes = MaximumBodyBytes"
definition MaxFrameBytes :: nat where "MaxFrameBytes = MaxBodyBytes + 4096"
definition Subprotocol :: string where "Subprotocol = ''lotor-development-v1''"
definition dev_ProtocolVersion :: int where "dev_ProtocolVersion = 1"

record Session =
  ss_ConnectionID :: string
  ss_ConnectorURL :: string
  ss_Credential :: string
  ss_ExpiresAt :: i64

record Frame =
  fr_Kind :: string
  fr_ID :: string
  fr_Operation :: string
  fr_Credential :: string
  fr_Body :: bytes
  fr_Version :: int
  fr_Deadline :: i64
  fr_Status :: int

record ConnectionProof =
  cp_Scope :: Scope
  cp_ConnectionID :: string
  cp_BindingID :: string
  cp_Nonce :: string
  cp_IssuedAt :: i64
  cp_ExpiresAt :: i64

record dev_env =
  de_bridge :: bridge_env
  de_net :: net_env
  de_Frame :: "Frame json_codec"
  de_Proof :: "ConnectionProof json_codec"
  de_Session :: "Session json_codec"

definition frame_id_rune :: "nat \<Rightarrow> bool" where
  "frame_id_rune c \<longleftrightarrow> in_range 97 122 c \<or> in_range 48 57 c \<or> c = 95"

definition frame_shape :: "bridge_env \<Rightarrow> Frame \<Rightarrow> bool" where
  "frame_shape env f \<longleftrightarrow>
     (if fr_Kind f = ''authenticate'' then
        fr_ID f = [] \<and> fr_Operation f = [] \<and> fr_Deadline f = 0 \<and> fr_Status f = 0 \<and> fr_Body f = []
        \<and> fr_Credential f \<noteq> [] \<and> length (fr_Credential f) \<le> 8192
      else if fr_Kind f = ''ready'' then
        fr_ID f = [] \<and> fr_Operation f = [] \<and> fr_Deadline f = 0 \<and> fr_Status f = 0 \<and> fr_Body f = []
      else if fr_Kind f = ''request'' then
        fr_ID f \<noteq> [] \<and> (fr_Operation f = ''challenge'' \<or> fr_Operation f = ''invoke'') \<and> 0 <s fr_Deadline f \<and> fr_Status f = 0
        \<and> json_Valid env (fr_Body f)
      else if fr_Kind f = ''response'' then
        fr_ID f \<noteq> [] \<and> fr_Operation f = [] \<and> fr_Deadline f = 0 \<and> fr_Status f \<ge> 200 \<and> fr_Status f \<le> 599
        \<and> json_Valid env (fr_Body f)
      else if fr_Kind f = ''cancel'' then
        fr_ID f \<noteq> [] \<and> fr_Operation f = [] \<and> fr_Deadline f = 0 \<and> fr_Status f = 0 \<and> fr_Body f = []
      else False)"

definition DecodeFrame :: "dev_env \<Rightarrow> bytes \<Rightarrow> (bridge_error, Frame) outcome" where
  "DecodeFrame env raw =
     (if length raw > MaxFrameBytes then Fail ErrInvalid
      else case js_decode_all (de_Frame env) raw of
        None \<Rightarrow> Fail ErrInvalid
      | Some f \<Rightarrow>
          if fr_Version f \<noteq> dev_ProtocolVersion \<or> length (fr_ID f) > 64 \<or> length (fr_Body f) > MaxBodyBytes then Fail ErrInvalid
          else if \<not> list_all frame_id_rune (runes (fr_ID f)) then Fail ErrInvalid
          else if fr_Kind f \<noteq> ''authenticate'' \<and> fr_Credential f \<noteq> [] then Fail ErrInvalid
          else if \<not> frame_shape (de_bridge env) f then Fail ErrInvalid
          else Ok f)"

section \<open>Connection proofs\<close>

definition connectionPurpose :: string where
  "connectionPurpose = ''lotor-development-connect-v1'' @ newline"

definition connectionIdentifier :: "string \<Rightarrow> bool" where
  "connectionIdentifier v \<longleftrightarrow> has_prefix v ''dvc_'' \<and> \<not> length v \<le> 4 \<and> \<not> length v > 256
     \<and> list_all (\<lambda>c. in_range 97 122 c \<or> in_range 48 57 c) (runes (drop 4 v))"

definition validProof :: "ConnectionProof \<Rightarrow> bool" where
  "validProof p \<longleftrightarrow> connectionIdentifier (cp_ConnectionID p)
     \<and> list_all (\<lambda>v. \<not> (v = [] \<or> length v > 256) \<and> index_func_none (\<lambda>c. c \<le> 32 \<or> c \<ge> 127) v)
         [sc_TenantID (cp_Scope p), sc_ApplicationID (cp_Scope p), sc_EnvironmentID (cp_Scope p), sc_OwnerResource (cp_Scope p),
          cp_ConnectionID p, cp_BindingID p, cp_Nonce p]
     \<and> 0 <s cp_IssuedAt p \<and> cp_IssuedAt p <s cp_ExpiresAt p \<and> cp_ExpiresAt p - cp_IssuedAt p <=s 30"

definition SignConnectionProof :: "dev_env \<Rightarrow> ConnectionProof \<Rightarrow> string \<Rightarrow> bytes \<Rightarrow> (bridge_error, SignedMessage) outcome" where
  "SignConnectionProof env proof keyID key =
     (if length key \<noteq> PrivateKeySize \<or> \<not> validProof proof \<or> keyID = [] \<or> length keyID > 256 then Fail ErrInvalid
      else case js_marshal (de_Proof env) proof of
        None \<Rightarrow> Fail ErrInvalid
      | Some raw \<Rightarrow> Ok \<lparr>sm_KeyID = keyID, sm_Payload = b64_encode raw,
                       sm_Signature = b64_encode (ed25519_Sign (de_bridge env) key (bytes_of_string connectionPurpose @ raw))\<rparr>)"

definition UnverifiedConnectionProof :: "dev_env \<Rightarrow> SignedMessage \<Rightarrow> (bridge_error, ConnectionProof) outcome" where
  "UnverifiedConnectionProof env message =
     (if length (sm_Payload message) > 8192 then Fail ErrUnauthorized
      else case b64_decode True (sm_Payload message) of
        None \<Rightarrow> Fail ErrUnauthorized
      | Some raw \<Rightarrow>
          (case js_decode_all (de_Proof env) raw of
             None \<Rightarrow> Fail ErrUnauthorized
           | Some proof \<Rightarrow> if \<not> validProof proof then Fail ErrUnauthorized else Ok proof))"

definition VerifyConnectionProof ::
  "dev_env \<Rightarrow> SignedMessage \<Rightarrow> string \<Rightarrow> bytes \<Rightarrow> i64 \<Rightarrow> (bridge_error, ConnectionProof) outcome" where
  "VerifyConnectionProof env message keyID key now =
     (case UnverifiedConnectionProof env message of
        Ok proof \<Rightarrow>
          if length key \<noteq> PublicKeySize \<or> sm_KeyID message \<noteq> keyID \<or> now <s cp_IssuedAt proof \<or> cp_ExpiresAt proof <=s now
          then Fail ErrUnauthorized
          else (case (b64_decode True (sm_Payload message), b64_decode True (sm_Signature message)) of
                  (Some raw, Some signature) \<Rightarrow>
                    if \<not> ed25519_Verify (de_bridge env) key (bytes_of_string connectionPurpose @ raw) signature then Fail ErrUnauthorized
                    else Ok proof
                | _ \<Rightarrow> Fail ErrUnauthorized)
      | _ \<Rightarrow> Fail ErrUnauthorized)"

section \<open>Sessions\<close>

text \<open>The clock is read twice, \<open>now1\<close> and \<open>now2\<close>, in nanoseconds.\<close>

definition unix_micro :: "int \<Rightarrow> int" where
  "unix_micro nano = nano div 1000"

definition validSession :: "net_env \<Rightarrow> int \<times> int \<Rightarrow> Session \<Rightarrow> bool" where
  "validSession net now s =
     (if \<not> connectionIdentifier (ss_ConnectionID s) \<or> ss_Credential s = [] \<or> length (ss_Credential s) > 8192
         \<or> list_ex (\<lambda>c. c \<in> set ('' '' @ [CHR 0x0D, CHR 0x0A, CHR 0x09])) (ss_Credential s)
         \<or> \<not> has_prefix (ss_ConnectorURL s) ''wss://''
         \<or> sint (ss_ExpiresAt s) \<le> unix_micro (fst now)
         \<or> sint (ss_ExpiresAt s) > unix_micro (snd now + 300000000000)
      then False
      else case ValidateEndpoint net (''https://'' @ drop 6 (ss_ConnectorURL s)) of
        Ok parsed \<Rightarrow> ss_ConnectionID s \<noteq> [] \<and> u_Path parsed = ''/v1/development-connections/'' @ ss_ConnectionID s @ ''/connect''
      | _ \<Rightarrow> False)"

text \<open>When to renew: halfway through the remaining lease, at the latest in a minute. \<open>Time.Sub\<close> saturates at the
  ends of \<open>int64\<close> and a negative half is truncated towards zero, as Go divides.\<close>

definition sub_saturated :: "int \<Rightarrow> int \<Rightarrow> int" where
  "sub_saturated t u = max (- (2 ^ 63)) (min (2 ^ 63 - 1) (t - u))"

definition sessionRefreshAt :: "Session \<Rightarrow> int \<Rightarrow> int" where
  "sessionRefreshAt s now =
     (let left = sub_saturated (sint (ss_ExpiresAt s) * 1000) now in
      now + min 60000000000 (if left \<ge> 0 then left div 2 else - ((- left) div 2)))"

section \<open>The session provider\<close>

record ProofSessionOptions =
  po_Scope :: Scope
  po_ControlURL :: string
  po_EndpointURL :: string
  po_ConnectionID :: string
  po_BindingID :: string
  po_SigningKeyID :: string
  po_SigningKey :: bytes

record session_provider =
  pr_proof :: ConnectionProof
  pr_requestURL :: string
  pr_expectedConnector :: string
  pr_connectionID :: string
  pr_keyID :: string
  pr_key :: bytes

definition NewProofSessionProvider ::
  "dev_env \<Rightarrow> (go_url \<Rightarrow> string) \<Rightarrow> ProofSessionOptions \<Rightarrow> (bridge_error, session_provider) outcome" where
  "NewProofSessionProvider env url_String options =
     (case ValidateEndpoint (de_net env) (po_ControlURL options) of
        Ok control \<Rightarrow>
          (case ValidateEndpoint (de_net env) (po_EndpointURL options) of
             Ok endpoint \<Rightarrow>
               let proof = \<lparr>cp_Scope = po_Scope options, cp_ConnectionID = po_ConnectionID options, cp_BindingID = po_BindingID options,
                            cp_Nonce = ''validate'', cp_IssuedAt = 1, cp_ExpiresAt = 2\<rparr> in
               if po_ConnectionID options = [] \<or> u_Path endpoint \<noteq> ''/t/'' @ po_ConnectionID options \<or> length (po_SigningKey options) \<noteq> PrivateKeySize
               then Fail ErrInvalid
               else if \<not> validProof proof \<or> po_SigningKeyID options = [] then Fail ErrInvalid
               else Ok \<lparr>pr_proof = proof,
                        pr_requestURL = trim_right (CHR ''/'') (url_String control) @ ''/v1/development-connections/'' @ po_ConnectionID options @ ''/sessions'',
                        pr_expectedConnector = ''wss://'' @ u_Host endpoint @ ''/v1/development-connections/'' @ po_ConnectionID options @ ''/connect'',
                        pr_connectionID = po_ConnectionID options, pr_keyID = po_SigningKeyID options, pr_key = po_SigningKey options\<rparr>
           | _ \<Rightarrow> Fail ErrInvalid)
      | _ \<Rightarrow> Fail ErrInvalid)"

text \<open>
  One request for a session. \<open>random\<close> is the sixteen bytes of the nonce, \<open>now\<close> the clock for the proof and
  \<open>checked\<close> the two readings when the answer is checked; a reply is its status, the bytes of its body and
  whether reading fails after them.
\<close>

type_synonym session_http = "string \<Rightarrow> bytes \<Rightarrow> (nat \<times> bytes \<times> bool) option"

definition unix_seconds :: "int \<Rightarrow> i64" where
  "unix_seconds nano = word_of_int (nano div 1000000000)"

definition current_proof :: "session_provider \<Rightarrow> bytes \<Rightarrow> int \<Rightarrow> ConnectionProof" where
  "current_proof pr nonce now =
     (pr_proof pr)\<lparr>cp_Nonce := hex_encode nonce, cp_IssuedAt := unix_seconds now, cp_ExpiresAt := unix_seconds (now + 30000000000)\<rparr>"

definition session_answer :: "dev_env \<Rightarrow> session_provider \<Rightarrow> int \<times> int \<Rightarrow> nat \<times> bytes \<times> bool \<Rightarrow> (bridge_error, Session) outcome" where
  "session_answer env pr checked reply =
     (let (status, body, broken) = reply in
      if status = 401 \<or> status = 403 then Fail ErrUnauthorized
      else if status \<noteq> 201 then Fail ErrUnavailable
      else if length body > 65536 \<or> broken then Fail ErrUnavailable
      else case js_decode_all (de_Session env) body of
             None \<Rightarrow> Fail ErrUnauthorized
           | Some s \<Rightarrow>
               if ss_ConnectionID s \<noteq> pr_connectionID pr \<or> ss_ConnectorURL s \<noteq> pr_expectedConnector pr
                  \<or> \<not> validSession (de_net env) checked s
               then Fail ErrUnauthorized else Ok s)"

definition request_session ::
  "dev_env \<Rightarrow> session_http \<Rightarrow> session_provider \<Rightarrow> bytes option \<Rightarrow> int \<Rightarrow> int \<times> int \<Rightarrow> (bridge_error, Session) outcome" where
  "request_session env http pr random now checked =
     (case random of
        None \<Rightarrow> Fail ErrUnavailable
      | Some nonce \<Rightarrow>
          bind_outcome (SignConnectionProof env (current_proof pr nonce now) (pr_keyID pr) (pr_key pr)) (\<lambda>m.
            case js_marshal (js_SignedMessage (de_bridge env)) m of
              None \<Rightarrow> Fail ErrInvalid
            | Some raw \<Rightarrow>
                if url_Parse (de_net env) (pr_requestURL pr) = None then Fail ErrInvalid
                else (case http (pr_requestURL pr) raw of
                  None \<Rightarrow> Fail ErrUnavailable
                | Some reply \<Rightarrow> session_answer env pr checked reply)))"

section \<open>Facts\<close>

text \<open>The window of a proof, with the subtraction of \<open>int64\<close> exact: it is positive and at most thirty seconds long.\<close>

lemma validProof_window:
  assumes "validProof p"
  shows "0 < sint (cp_IssuedAt p)" "sint (cp_IssuedAt p) < sint (cp_ExpiresAt p)" "sint (cp_ExpiresAt p) \<le> sint (cp_IssuedAt p) + 30"
proof -
  have w: "0 < sint (cp_IssuedAt p)" "sint (cp_IssuedAt p) < sint (cp_ExpiresAt p)" "sint (cp_ExpiresAt p - cp_IssuedAt p) \<le> 30"
    using assms by (simp_all add: validProof_def word_sless_alt word_sle_eq)
  have "sint (cp_ExpiresAt p) < 2 ^ 63"
    using sint_lt [of "cp_ExpiresAt p"] by simp
  then have "sint (cp_ExpiresAt p - cp_IssuedAt p) = sint (cp_ExpiresAt p) - sint (cp_IssuedAt p)"
    using w(1,2) sint_range64 [of "cp_ExpiresAt p"] by (intro sint_diff_exact) simp_all
  with w show "0 < sint (cp_IssuedAt p)" "sint (cp_IssuedAt p) < sint (cp_ExpiresAt p)" "sint (cp_ExpiresAt p) \<le> sint (cp_IssuedAt p) + 30"
    by simp_all
qed

lemma DecodeFrame_Ok:
  assumes "DecodeFrame env raw = Ok f"
  shows "frame_shape (de_bridge env) f" "length (fr_ID f) \<le> 64" "length (fr_Body f) \<le> MaxBodyBytes" "fr_Version f = 1"
    "list_all frame_id_rune (runes (fr_ID f))" "fr_Kind f \<noteq> ''authenticate'' \<Longrightarrow> fr_Credential f = []"
  using assms by (auto simp: DecodeFrame_def dev_ProtocolVersion_def split: option.splits if_splits)


lemma SignConnectionProof_Ok_iff:
  "SignConnectionProof env p keyID key = Ok m \<longleftrightarrow>
     length key = PrivateKeySize \<and> validProof p \<and> keyID \<noteq> [] \<and> length keyID \<le> 256
     \<and> (\<exists>raw. js_marshal (de_Proof env) p = Some raw
          \<and> m = \<lparr>sm_KeyID = keyID, sm_Payload = b64_encode raw,
                 sm_Signature = b64_encode (ed25519_Sign (de_bridge env) key (bytes_of_string connectionPurpose @ raw))\<rparr>)"
  by (auto simp: SignConnectionProof_def split: option.splits)

lemma VerifyConnectionProof_Ok_iff:
  "VerifyConnectionProof env m keyID key now = Ok p \<longleftrightarrow>
     UnverifiedConnectionProof env m = Ok p \<and> length key = PublicKeySize \<and> sm_KeyID m = keyID
     \<and> sint (cp_IssuedAt p) \<le> sint now \<and> sint now < sint (cp_ExpiresAt p)
     \<and> (\<exists>raw signature. b64_decode True (sm_Payload m) = Some raw \<and> b64_decode True (sm_Signature m) = Some signature
          \<and> ed25519_Verify (de_bridge env) key (bytes_of_string connectionPurpose @ raw) signature)"
  by (auto simp: VerifyConnectionProof_def word_sless_alt word_sle_eq split: outcome.splits option.splits)

lemma VerifyConnectionProof_cases:
  "VerifyConnectionProof env m keyID key now = Fail ErrUnauthorized \<or> (\<exists>p. VerifyConnectionProof env m keyID key now = Ok p)"
  by (auto simp: VerifyConnectionProof_def split: outcome.splits option.splits)

lemma UnverifiedConnectionProof_Ok_iff:
  "UnverifiedConnectionProof env m = Ok p \<longleftrightarrow>
     length (sm_Payload m) \<le> 8192 \<and> validProof p
     \<and> (\<exists>raw. b64_decode True (sm_Payload m) = Some raw \<and> js_decode_all (de_Proof env) raw = Some p)"
  by (auto simp: UnverifiedConnectionProof_def split: option.splits)

text \<open>A session the provider returns is for its own connection, at the connector of its own endpoint, and valid.\<close>

lemma session_answer_Ok:
  "session_answer env pr checked reply = Ok s \<Longrightarrow>
     fst reply = 201 \<and> length (fst (snd reply)) \<le> 65536 \<and> \<not> snd (snd reply)
     \<and> ss_ConnectionID s = pr_connectionID pr \<and> ss_ConnectorURL s = pr_expectedConnector pr \<and> validSession (de_net env) checked s"
  by (cases reply) (auto simp: session_answer_def split: option.split_asm if_split_asm)

lemma request_session_Ok:
  assumes "request_session env http pr random now checked = Ok s"
  shows "\<exists>nonce m raw reply. random = Some nonce
      \<and> SignConnectionProof env (current_proof pr nonce now) (pr_keyID pr) (pr_key pr) = Ok m
      \<and> js_marshal (js_SignedMessage (de_bridge env)) m = Some raw
      \<and> http (pr_requestURL pr) raw = Some reply \<and> session_answer env pr checked reply = Ok s"
  using assms by (auto simp: request_session_def outcome_simps split: option.split_asm if_split_asm)

lemma validSession_lease:
  "validSession net now s \<Longrightarrow>
     unix_micro (fst now) < sint (ss_ExpiresAt s) \<and> sint (ss_ExpiresAt s) \<le> unix_micro (snd now + 300000000000)"
  by (simp add: validSession_def split: if_split_asm)

text \<open>The renewal of a valid session is due strictly before its lease ends, and within a minute.\<close>

lemma sessionRefreshAt_before_expiry:
  assumes "now < sint (ss_ExpiresAt s) * 1000"
  shows "now \<le> sessionRefreshAt s now" "sessionRefreshAt s now < sint (ss_ExpiresAt s) * 1000" "sessionRefreshAt s now \<le> now + 60000000000"
  using assms by (simp_all add: sessionRefreshAt_def sub_saturated_def Let_def)

section \<open>A connection and its key\<close>

definition dev_sample_proof :: ConnectionProof where
  "dev_sample_proof = \<lparr>cp_Scope = \<lparr>sc_TenantID = ''t1'', sc_ApplicationID = ''a1'', sc_EnvironmentID = ''e1'', sc_OwnerResource = ''r1''\<rparr>,
     cp_ConnectionID = ''dvc_1'', cp_BindingID = ''b1'', cp_Nonce = ''n1'', cp_IssuedAt = 100, cp_ExpiresAt = 130\<rparr>"

definition dev_sample_env :: dev_env where
  "dev_sample_env = \<lparr>de_bridge = sample_env,
     de_net = \<lparr>url_Parse = (\<lambda>s. None), url_ParseRequestURI = (\<lambda>s. None), netip_ParseAddr = (\<lambda>s. None),
               strings_ToLower = (\<lambda>s. s), strings_EqualFold = (=)\<rparr>,
     de_Frame = table_codec [], de_Proof = table_codec [(dev_sample_proof, [1])], de_Session = table_codec []\<rparr>"

lemma dev_sample_env_sel [simp]:
  "de_bridge dev_sample_env = sample_env" "de_Proof dev_sample_env = table_codec [(dev_sample_proof, [1])]"
  by (simp_all add: dev_sample_env_def)

lemma dev_sample_valid: "validProof dev_sample_proof"
  by code_simp

section \<open>Properties\<close>

text \<open>
  \<^bold>\<open>C20\<close> A signed connection proof verifies under the key of its signer exactly in the
  seconds from its issue to its expiry, at most thirty of them, and under no other key identifier; and a message that
  verifies carries a valid proof whose bytes, under the purpose of this protocol, the key signed.
\<close>

theorem connection_proof_roundtrip:
  assumes "key_pair (de_bridge env) priv pub" and "SignConnectionProof env p keyID priv = Ok m"
    and "codec_faithful (de_Proof env) p" and "length (sm_Payload m) \<le> 8192"
  shows "VerifyConnectionProof env m keyID' pub now =
      (if keyID' = keyID \<and> sint (cp_IssuedAt p) \<le> sint now \<and> sint now < sint (cp_ExpiresAt p) then Ok p else Fail ErrUnauthorized)
    \<and> 0 < sint (cp_IssuedAt p) \<and> sint (cp_ExpiresAt p) \<le> sint (cp_IssuedAt p) + 30"
proof -
  obtain raw where raw: "js_marshal (de_Proof env) p = Some raw" "validProof p"
    "m = \<lparr>sm_KeyID = keyID, sm_Payload = b64_encode raw,
          sm_Signature = b64_encode (ed25519_Sign (de_bridge env) priv (bytes_of_string connectionPurpose @ raw))\<rparr>"
    using assms(2) by (auto simp: SignConnectionProof_Ok_iff)
  have hint: "UnverifiedConnectionProof env m = Ok p"
    using raw assms(3,4) by (simp add: UnverifiedConnectionProof_Ok_iff js_decode_all_def codec_faithful_def del: b64_encode.simps)
  then have "VerifyConnectionProof env m keyID' pub now = Ok q \<longleftrightarrow>
      q = p \<and> keyID' = keyID \<and> sint (cp_IssuedAt p) \<le> sint now \<and> sint now < sint (cp_ExpiresAt p)" for q
    using raw assms(1) by (auto simp: VerifyConnectionProof_Ok_iff key_pair_def simp del: b64_encode.simps)
  moreover note VerifyConnectionProof_cases [of env m keyID' pub now] validProof_window [OF raw(2)]
  ultimately show ?thesis by auto
qed

theorem connection_proof_roundtrip_witness:
  "\<exists>m. SignConnectionProof dev_sample_env dev_sample_proof ''k1'' sample_priv = Ok m
     \<and> VerifyConnectionProof dev_sample_env m ''k1'' sample_pub 129 = Ok dev_sample_proof
     \<and> VerifyConnectionProof dev_sample_env m ''k1'' sample_pub 130 = Fail ErrUnauthorized
     \<and> VerifyConnectionProof dev_sample_env m ''k2'' sample_pub 129 = Fail ErrUnauthorized"
proof -
  have "\<exists>m. SignConnectionProof dev_sample_env dev_sample_proof ''k1'' sample_priv = Ok m \<and> sm_Payload m = b64_encode [1]"
    by (simp add: SignConnectionProof_Ok_iff dev_sample_valid sample_priv_def)
  then obtain m where m: "SignConnectionProof dev_sample_env dev_sample_proof ''k1'' sample_priv = Ok m" "sm_Payload m = b64_encode [1]"
    by blast
  have pair: "key_pair (de_bridge dev_sample_env) sample_priv sample_pub"
    by (simp add: sample_key_pair)
  have faithful: "codec_faithful (de_Proof dev_sample_env) dev_sample_proof"
    by (simp add: table_faithful)
  have len: "length (sm_Payload m) \<le> 8192"
    by (simp add: m(2) length_b64_encode)
  note at = connection_proof_roundtrip [OF pair m(1) faithful len]
  have times: "cp_IssuedAt dev_sample_proof = 100" "cp_ExpiresAt dev_sample_proof = 130"
    by (simp_all add: dev_sample_proof_def)
  show ?thesis
    using m(1) at [of "''k1''" 129] at [of "''k1''" 130] at [of "''k2''" 129] by (auto simp: times)
qed

end
