(* ===== verification/Dev_Connector.thy ===== *)
theory Dev_Connector
  imports Dev_Protocol
begin

text \<open>
  The connector of a development connection (\<^verbatim>\<open>bridge/development/connector.go\<close>) and its adapter to a local bridge
  (\<^verbatim>\<open>local.go\<close>). A handler of \<open>net/http\<close> is the calls it makes on its response writer for a request and whether it
  panics after them. The read loop, the handler goroutines and the lease goroutine of one connection, and the
  connections that follow each other on one connector, are a step relation over \<open>connector_state\<close>: goroutines are
  numbered in the order they start, and the deferred actions of a goroutine are steps of their own. Instants are
  nanoseconds since 1970 as integers.
\<close>

section \<open>Handlers and their bounded response\<close>

record local_request =
  lr_Method :: string
  lr_URL :: go_url
  lr_Body :: bytes

datatype writer_call = WriteHeader int | Write bytes

type_synonym http_handler = "local_request \<Rightarrow> writer_call list \<times> bool"

record boundedResponse =
  br_body :: bytes
  br_status :: int
  br_overflow :: bool

definition empty_response :: boundedResponse where
  "empty_response = \<lparr>br_body = [], br_status = 0, br_overflow = False\<rparr>"

fun writer_step :: "boundedResponse \<Rightarrow> writer_call \<Rightarrow> boundedResponse" where
  "writer_step r (WriteHeader status) = (if br_status r = 0 then r\<lparr>br_status := status\<rparr> else r)"
| "writer_step r (Write body) =
     (let r = (if br_status r = 0 then r\<lparr>br_status := 200\<rparr> else r) in
      if length body > MaxBodyBytes - length (br_body r) then r\<lparr>br_overflow := True\<rparr>
      else r\<lparr>br_body := br_body r @ body\<rparr>)"

definition unavailable_body :: bytes where
  "unavailable_body = bytes_of_string
     ([CHR 0x7B, CHR 0x22] @ ''code'' @ [CHR 0x22] @ '':'' @ [CHR 0x22] @ ''development_handler_unavailable'' @ [CHR 0x22, CHR 0x7D])"

definition unavailable_frame :: "string \<Rightarrow> Frame" where
  "unavailable_frame ident =
     \<lparr>fr_Kind = ''response'', fr_ID = ident, fr_Operation = [], fr_Credential = [], fr_Body = unavailable_body,
      fr_Version = 1, fr_Deadline = 0, fr_Status = 502\<rparr>"

definition local_bridge_url :: "Frame \<Rightarrow> string" where
  "local_bridge_url frame = ''http://local-bridge/v1/functions/'' @ fr_Operation frame"

definition handle :: "dev_env \<Rightarrow> http_handler \<Rightarrow> Frame \<Rightarrow> Frame" where
  "handle env handler frame =
     (case url_Parse (de_net env) (local_bridge_url frame) of
        None \<Rightarrow> unavailable_frame (fr_ID frame)
      | Some u \<Rightarrow>
          let (calls, panics) = handler \<lparr>lr_Method = ''POST'', lr_URL = u, lr_Body = fr_Body frame\<rparr>;
              response = foldl writer_step empty_response calls;
              status = (if br_status response = 0 then 200 else br_status response)
          in if panics then unavailable_frame (fr_ID frame)
             else if br_overflow response \<or> status < 200 \<or> status > 599 \<or> \<not> json_Valid (de_bridge env) (br_body response)
             then unavailable_frame (fr_ID frame)
             else (unavailable_frame (fr_ID frame))\<lparr>fr_Status := status, fr_Body := br_body response\<rparr>)"

section \<open>The adapter to a local bridge\<close>

text \<open>
  \<open>dispatch\<close> is the isolated client: for a URL, the bytes of the body up to the limit and whether the body is longer, the
  status, the body and whether reading it fails, or no answer. \<open>url_String\<close> is \<open>URL.String\<close>.
\<close>

type_synonym local_do = "string \<Rightarrow> bytes \<Rightarrow> bool \<Rightarrow> (int \<times> bytes \<times> bool) option"

definition local_origin :: "net_env \<Rightarrow> string \<Rightarrow> (bridge_error, go_url) outcome" where
  "local_origin net origin =
     (case url_Parse net origin of
        None \<Rightarrow> Fail ErrInvalid
      | Some u \<Rightarrow>
          if origin \<noteq> trim_space origin \<or> u_Hostname u = [] \<or> u_User u \<or> u_Opaque u \<noteq> [] \<or> u_RawQuery u \<noteq> [] \<or> u_ForceQuery u
             \<or> u_Fragment u \<noteq> [] \<or> str_contains origin ''#'' \<or> u_RawPath u \<noteq> [] \<or> u_Path u \<noteq> [] \<and> u_Path u \<noteq> ''/''
             \<or> u_Scheme u \<noteq> ''http'' \<and> u_Scheme u \<noteq> ''https''
          then Fail ErrInvalid else Ok (u\<lparr>u_Path := []\<rparr>))"

definition local_http_Error :: "string \<Rightarrow> int \<Rightarrow> writer_call list" where
  "local_http_Error message code = [WriteHeader code, Write (bytes_of_string (message @ newline))]"

definition local_serve :: "net_env \<Rightarrow> (go_url \<Rightarrow> string) \<Rightarrow> local_do \<Rightarrow> go_url \<Rightarrow> http_handler" where
  "local_serve net url_String dispatch base r =
     (let u = lr_URL r; target = url_String base @ u_Path u in
      if lr_Method r \<noteq> ''POST'' \<or> u_RawQuery u \<noteq> [] \<or> u_ForceQuery u \<or> u_RawPath u \<noteq> []
         \<or> u_Path u \<noteq> ''/v1/functions/challenge'' \<and> u_Path u \<noteq> ''/v1/functions/invoke''
      then (local_http_Error ''bridge route not found'' 404, False)
      else if url_Parse net target = None then (local_http_Error ''bridge unavailable'' 502, False)
      else case dispatch target (take MaxBodyBytes (lr_Body r)) (length (lr_Body r) > MaxBodyBytes) of
             None \<Rightarrow> (local_http_Error ''bridge unavailable'' 502, False)
           | Some (status, body, broken) \<Rightarrow>
               if broken \<or> length body > MaxBodyBytes \<or> status \<ge> 300 \<and> status < 400
               then (local_http_Error ''bridge unavailable'' 502, False)
               else ([WriteHeader status, Write body], False))"

definition NewLocalHandler :: "net_env \<Rightarrow> (go_url \<Rightarrow> string) \<Rightarrow> local_do \<Rightarrow> string \<Rightarrow> (bridge_error, http_handler) outcome" where
  "NewLocalHandler net url_String dispatch origin =
     bind_outcome (local_origin net origin) (\<lambda>base. Ok (local_serve net url_String dispatch base))"

section \<open>Options\<close>

record ConnectorOptions =
  kc_Handler :: "http_handler option"
  kc_Session :: "(nat \<Rightarrow> (bridge_error, Session) outcome) option"
  kc_MaxConcurrent :: i64
  kc_ReconnectMin :: i64
  kc_ReconnectMax :: i64

definition connector_defaults :: "ConnectorOptions \<Rightarrow> ConnectorOptions" where
  "connector_defaults opts =
     opts\<lparr>kc_MaxConcurrent := (if kc_MaxConcurrent opts = 0 then 4 else kc_MaxConcurrent opts),
          kc_ReconnectMin := (if kc_ReconnectMin opts = 0 then 250000000 else kc_ReconnectMin opts),
          kc_ReconnectMax := (if kc_ReconnectMax opts = 0 then 30000000000 else kc_ReconnectMax opts)\<rparr>"

definition NewConnector :: "ConnectorOptions \<Rightarrow> (bridge_error, ConnectorOptions) outcome" where
  "NewConnector opts =
     (if kc_Session opts = None \<or> kc_Handler opts = None then Fail ErrInvalid
      else let options = connector_defaults opts in
        if kc_MaxConcurrent options <s 1 \<or> 64 <s kc_MaxConcurrent options \<or> kc_ReconnectMin options <=s 0
           \<or> kc_ReconnectMax options <s kc_ReconnectMin options \<or> 60000000000 <s kc_ReconnectMax options
        then Fail ErrInvalid else Ok options)"

section \<open>Opening a connection\<close>

text \<open>What \<open>websocket.Dial\<close> and \<open>Conn.Read\<close> answer: a failed dial with the status of a response if there is one, the
  negotiated subprotocol; a failed read, a message with whether it is text.\<close>

datatype dial_result = DialFailed "nat option" | Dialled string

datatype ws_read = ReadFailed | Message bool bytes

definition connect_open ::
  "dev_env \<Rightarrow> (bridge_error, Session) outcome \<Rightarrow> int \<times> int \<Rightarrow> dial_result \<Rightarrow> ws_read \<Rightarrow> (bridge_error, Session) outcome" where
  "connect_open env answer now dial first_read =
     bind_outcome answer (\<lambda>session.
       if \<not> validSession (de_net env) now session then Fail ErrInvalid
       else case dial of
         DialFailed status \<Rightarrow> if status = Some 401 \<or> status = Some 403 then Fail ErrUnauthorized else Fail ErrUnavailable
       | Dialled sub \<Rightarrow>
           if sub \<noteq> Subprotocol then Fail ErrInvalid
           else (case first_read of
                   ReadFailed \<Rightarrow> Fail ErrUnavailable
                 | Message is_text raw \<Rightarrow>
                     if \<not> is_text then Fail ErrUnavailable
                     else (case DecodeFrame env raw of
                             Ok frame \<Rightarrow> if fr_Kind frame \<noteq> ''ready'' then Fail ErrInvalid else Ok session
                           | _ \<Rightarrow> Fail ErrInvalid)))"

section \<open>The lease\<close>

text \<open>
  One iteration of the goroutine that keeps the lease of a connection: what the ping answers, the clock after it, the
  answer of the session source, the readings of the clock when it failed and when it is checked, whether the write of
  the new credential succeeds, and the clock after it. It ends the connection or goes on with a new state.
\<close>

record lease_state =
  ls_session :: Session
  ls_nextRefresh :: int

record lease_events =
  lv_ping :: bool
  lv_now :: int
  lv_answer :: "(bridge_error, Session) outcome"
  lv_failed :: "int \<times> int"
  lv_checked :: "int \<times> int"
  lv_written :: bool
  lv_renewed :: int

definition authenticate_frame :: "string \<Rightarrow> Frame" where
  "authenticate_frame credential =
     \<lparr>fr_Kind = ''authenticate'', fr_ID = [], fr_Operation = [], fr_Credential = credential, fr_Body = [],
      fr_Version = 1, fr_Deadline = 0, fr_Status = 0\<rparr>"

definition lease_iteration :: "net_env \<Rightarrow> lease_events \<Rightarrow> lease_state \<Rightarrow> lease_state option \<times> Frame list" where
  "lease_iteration net ev l =
     (if \<not> lv_ping ev then (None, [])
      else if lv_now ev < ls_nextRefresh l then (Some l, [])
      else case lv_answer ev of
        Ok renewed \<Rightarrow>
          if \<not> validSession net (lv_checked ev) renewed \<or> ss_ConnectionID renewed \<noteq> ss_ConnectionID (ls_session l)
             \<or> ss_ConnectorURL renewed \<noteq> ss_ConnectorURL (ls_session l)
          then (None, [])
          else if \<not> lv_written ev then (None, [])
          else (Some \<lparr>ls_session = renewed, ls_nextRefresh = sessionRefreshAt renewed (lv_renewed ev)\<rparr>,
                [authenticate_frame (ss_Credential renewed)])
      | Fail err \<Rightarrow>
          if sint (ss_ExpiresAt (ls_session l)) \<le> unix_micro (fst (lv_failed ev) + 15000000000) \<or> err = ErrInvalid \<or> err = ErrUnauthorized
          then (None, [])
          else (Some (l\<lparr>ls_nextRefresh := snd (lv_failed ev) + 15000000000\<rparr>), [])
      | Panic \<Rightarrow> (None, []))"

section \<open>A connector and its connections\<close>

text \<open>
  A handler goroutine: in the handler; writing the reply; releasing its slot; removing its entry from the map of
  active requests; done.
\<close>

datatype handler_phase = Handling | Replying Frame | Releasing | Removing | Finished

record handler_thread =
  ht_generation :: nat
  ht_frame :: Frame
  ht_phase :: handler_phase
  ht_cancelled :: bool

text \<open>
  The state of a connector: the number of its current connection, whether its read loop runs, whether its context is
  alive and its socket open, the map of active requests of every connection, all handler goroutines, the slots taken,
  and the replies written: the connection, the goroutine and the frame.
\<close>

record connector_state =
  ks_generation :: nat
  ks_reading :: bool
  ks_open :: bool
  ks_active :: "nat \<Rightarrow> string \<Rightarrow> nat option"
  ks_threads :: "handler_thread list"
  ks_slots :: nat
  ks_sent :: "(nat \<times> nat \<times> Frame) list"

definition fresh_connector :: connector_state where
  "fresh_connector = \<lparr>ks_generation = 0, ks_reading = False, ks_open = False, ks_active = (\<lambda>_. Map.empty), ks_threads = [],
     ks_slots = 0, ks_sent = []\<rparr>"

definition update_thread :: "nat \<Rightarrow> (handler_thread \<Rightarrow> handler_thread) \<Rightarrow> connector_state \<Rightarrow> connector_state" where
  "update_thread i f s = s\<lparr>ks_threads := (ks_threads s)[i := f (ks_threads s ! i)]\<rparr>"

definition set_phase :: "handler_phase \<Rightarrow> handler_thread \<Rightarrow> handler_thread" where
  "set_phase p t = t\<lparr>ht_phase := p\<rparr>"

definition set_cancelled :: "handler_thread \<Rightarrow> handler_thread" where
  "set_cancelled t = t\<lparr>ht_cancelled := True\<rparr>"

definition cancel_in :: "nat \<Rightarrow> handler_thread \<Rightarrow> handler_thread" where
  "cancel_in g t = (if ht_generation t = g then set_cancelled t else t)"

text \<open>\<open>cancel\<close> and \<open>CloseNow\<close>: the context of a connection ends, and with it those of its requests.\<close>

definition close_generation :: "connector_state \<Rightarrow> connector_state" where
  "close_generation s = s\<lparr>ks_open := False,
     ks_threads := map (cancel_in (ks_generation s)) (ks_threads s)\<rparr>"

definition end_generation :: "connector_state \<Rightarrow> connector_state" where
  "end_generation s = (close_generation s)\<lparr>ks_reading := False\<rparr>"

definition on_cancel :: "Frame \<Rightarrow> connector_state \<Rightarrow> connector_state" where
  "on_cancel frame s =
     (case ks_active s (ks_generation s) (fr_ID frame) of
        None \<Rightarrow> s
      | Some i \<Rightarrow> update_thread i set_cancelled s)"

definition start_handler :: "Frame \<Rightarrow> connector_state \<Rightarrow> connector_state" where
  "start_handler frame s =
     s\<lparr>ks_slots := Suc (ks_slots s),
       ks_active := (ks_active s)(ks_generation s := (ks_active s (ks_generation s))(fr_ID frame \<mapsto> length (ks_threads s))),
       ks_threads := ks_threads s @ [\<lparr>ht_generation = ks_generation s, ht_frame = frame, ht_phase = Handling, ht_cancelled = \<not> ks_open s\<rparr>]\<rparr>"

definition on_request :: "nat \<Rightarrow> int \<times> int \<Rightarrow> Frame \<Rightarrow> connector_state \<Rightarrow> (bridge_error, connector_state) outcome" where
  "on_request slots now frame s =
     (if ks_active s (ks_generation s) (fr_ID frame) \<noteq> None \<or> sint (fr_Deadline frame) \<le> unix_micro (fst now)
         \<or> sint (fr_Deadline frame) > unix_micro (snd now + 60000000000)
      then Fail ErrInvalid
      else if ks_slots s \<ge> slots then Fail ErrUnavailable
      else Ok (start_handler frame s))"

definition on_message :: "dev_env \<Rightarrow> nat \<Rightarrow> int \<times> int \<Rightarrow> ws_read \<Rightarrow> connector_state \<Rightarrow> (bridge_error, connector_state) outcome" where
  "on_message env slots now message s =
     (case message of
        ReadFailed \<Rightarrow> Fail ErrUnavailable
      | Message is_text raw \<Rightarrow>
          if \<not> is_text then Fail ErrInvalid
          else bind_outcome (DecodeFrame env raw) (\<lambda>frame.
            if fr_Kind frame = ''cancel'' then Ok (on_cancel frame s)
            else if fr_Kind frame = ''request'' then on_request slots now frame s
            else Fail ErrInvalid))"

definition read_message :: "dev_env \<Rightarrow> nat \<Rightarrow> int \<times> int \<Rightarrow> ws_read \<Rightarrow> connector_state \<Rightarrow> connector_state" where
  "read_message env slots now message s =
     (case on_message env slots now message s of Ok s' \<Rightarrow> s' | _ \<Rightarrow> end_generation s)"

text \<open>The steps of handler goroutine \<open>i\<close>.\<close>

definition handler_returns :: "dev_env \<Rightarrow> http_handler \<Rightarrow> nat \<Rightarrow> connector_state \<Rightarrow> connector_state" where
  "handler_returns env handler i s =
     update_thread i (set_phase (Replying (handle env handler (ht_frame (ks_threads s ! i))))) s"

definition reply_written :: "nat \<Rightarrow> Frame \<Rightarrow> connector_state \<Rightarrow> connector_state" where
  "reply_written i reply s =
     (update_thread i (set_phase Releasing) s)\<lparr>ks_sent := ks_sent s @ [(ht_generation (ks_threads s ! i), i, reply)]\<rparr>"

definition reply_failed :: "nat \<Rightarrow> connector_state \<Rightarrow> connector_state" where
  "reply_failed i s =
     (let s' = update_thread i (set_phase Releasing) s in
      if ht_generation (ks_threads s ! i) = ks_generation s then close_generation s' else s')"

definition release_slot :: "nat \<Rightarrow> connector_state \<Rightarrow> connector_state" where
  "release_slot i s = (update_thread i (set_phase Removing) s)\<lparr>ks_slots := ks_slots s - 1\<rparr>"

definition remove_active :: "nat \<Rightarrow> connector_state \<Rightarrow> connector_state" where
  "remove_active i s =
     (let t = ks_threads s ! i; g = ht_generation t in
      (update_thread i (\<lambda>t. set_cancelled (set_phase Finished t)) s)
        \<lparr>ks_active := (ks_active s)(g := (ks_active s g)(fr_ID (ht_frame t) := None))\<rparr>)"

text \<open>
  The steps, for a connector with \<open>slots\<close> slots. A reply reaches the socket only while the connection it came over is
  open; a context also ends at its deadline.
\<close>

inductive connector_step :: "dev_env \<Rightarrow> nat \<Rightarrow> connector_state \<Rightarrow> connector_state \<Rightarrow> bool" for env :: dev_env and slots :: nat where
  connects: "\<not> ks_reading s \<Longrightarrow> connect_open env answer now dial first_read = Ok session \<Longrightarrow>
    connector_step env slots s (s\<lparr>ks_generation := Suc (ks_generation s), ks_reading := True, ks_open := True\<rparr>)"
| reads: "ks_reading s \<Longrightarrow> connector_step env slots s (read_message env slots now message s)"
| lease_ends: "ks_reading s \<Longrightarrow> connector_step env slots s (close_generation s)"
| deadline: "i < length (ks_threads s) \<Longrightarrow> connector_step env slots s (update_thread i set_cancelled s)"
| returns: "i < length (ks_threads s) \<Longrightarrow> ht_phase (ks_threads s ! i) = Handling \<Longrightarrow>
    connector_step env slots s (handler_returns env handler i s)"
| writes: "i < length (ks_threads s) \<Longrightarrow> ht_phase (ks_threads s ! i) = Replying reply \<Longrightarrow>
    ht_generation (ks_threads s ! i) = ks_generation s \<Longrightarrow> ks_open s \<Longrightarrow> connector_step env slots s (reply_written i reply s)"
| fails: "i < length (ks_threads s) \<Longrightarrow> ht_phase (ks_threads s ! i) = Replying reply \<Longrightarrow>
    connector_step env slots s (reply_failed i s)"
| releases: "i < length (ks_threads s) \<Longrightarrow> ht_phase (ks_threads s ! i) = Releasing \<Longrightarrow>
    connector_step env slots s (release_slot i s)"
| removes: "i < length (ks_threads s) \<Longrightarrow> ht_phase (ks_threads s ! i) = Removing \<Longrightarrow>
    connector_step env slots s (remove_active i s)"

inductive connector_reachable :: "dev_env \<Rightarrow> nat \<Rightarrow> connector_state \<Rightarrow> bool" for env :: dev_env and slots :: nat where
  fresh: "connector_reachable env slots fresh_connector"
| step: "connector_reachable env slots s \<Longrightarrow> connector_step env slots s s' \<Longrightarrow> connector_reachable env slots s'"

section \<open>Reconnecting\<close>

text \<open>
  \<open>Run\<close> over the attempts it makes: what \<open>Connect\<close> returned (it never returns without an error), whether the context
  has ended by then, how long the attempt took, the random jitter below a bound, and whether the context ends during
  the wait. The value is how \<open>Run\<close> returned, if it has, and the waits it made.
\<close>

record attempt =
  at_error :: bridge_error
  at_cancelled :: bool
  at_elapsed :: int
  at_jitter :: "int \<Rightarrow> int option"
  at_interrupted :: bool

datatype run_result = ContextEnded | RunFailed bridge_error

definition next_delay :: "int \<Rightarrow> int \<Rightarrow> int" where
  "next_delay maximum delay = (if delay < maximum div 2 then delay * 2 else maximum)"

definition wait_of :: "int \<Rightarrow> int \<Rightarrow> int" where
  "wait_of delay jitter = max 1 (delay div 2 + jitter)"

fun run_attempts :: "int \<Rightarrow> int \<Rightarrow> int \<Rightarrow> attempt list \<Rightarrow> run_result option \<times> int list" where
  "run_attempts minimum maximum delay [] = (None, [])"
| "run_attempts minimum maximum delay (a # rest) =
     (if at_cancelled a then (Some ContextEnded, [])
      else if at_error a = ErrInvalid \<or> at_error a = ErrUnauthorized then (Some (RunFailed (at_error a)), [])
      else let delay = (if at_elapsed a > 10000000000 then minimum else delay) in
        case at_jitter a (max 1 (delay div 2)) of
          None \<Rightarrow> (Some (RunFailed ErrUnavailable), [])
        | Some jitter \<Rightarrow>
            if at_interrupted a then (Some ContextEnded, [wait_of delay jitter])
            else let (result, waits) = run_attempts minimum maximum (next_delay maximum delay) rest
                 in (result, wait_of delay jitter # waits))"

definition Run :: "ConnectorOptions \<Rightarrow> attempt list \<Rightarrow> run_result option \<times> int list" where
  "Run options = run_attempts (sint (kc_ReconnectMin options)) (sint (kc_ReconnectMax options)) (sint (kc_ReconnectMin options))"


inductive_cases connector_stepE: "connector_step env slots s s'"

section \<open>The bounded response\<close>

lemma writer_step_bounded:
  "length (br_body r) \<le> MaxBodyBytes \<Longrightarrow> length (br_body (writer_step r c)) \<le> MaxBodyBytes"
  by (cases c) (auto simp: Let_def)

lemma writer_bounded: "length (br_body r) \<le> MaxBodyBytes \<Longrightarrow> length (br_body (foldl writer_step r calls)) \<le> MaxBodyBytes"
  by (induction calls arbitrary: r) (simp_all add: writer_step_bounded)

lemma unavailable_body_small: "length unavailable_body \<le> MaxBodyBytes"
  by (simp add: unavailable_body_def bytes_of_string_def MaxBodyBytes_def MaximumBodyBytes_def)

text \<open>A reply frame the protocol accepts: the shape of a response, for the request, with a bounded body.\<close>

definition reply_frame :: "bridge_env \<Rightarrow> Frame \<Rightarrow> Frame \<Rightarrow> bool" where
  "reply_frame env f r \<longleftrightarrow> fr_Kind r = ''response'' \<and> fr_ID r = fr_ID f \<and> fr_Version r = dev_ProtocolVersion \<and> fr_Credential r = []
     \<and> frame_shape env r \<and> length (fr_Body r) \<le> MaxBodyBytes"

lemma unavailable_reply:
  "json_Valid env unavailable_body \<Longrightarrow> fr_ID f \<noteq> [] \<Longrightarrow> reply_frame env f (unavailable_frame (fr_ID f))"
  by (simp add: reply_frame_def unavailable_frame_def frame_shape_def dev_ProtocolVersion_def unavailable_body_small)

lemma handle_reply:
  assumes "json_Valid (de_bridge env) unavailable_body" and "fr_ID f \<noteq> []"
  shows "reply_frame (de_bridge env) f (handle env handler f)"
proof -
  have "length (br_body (foldl writer_step empty_response calls)) \<le> MaxBodyBytes" for calls
    by (rule writer_bounded) (simp add: empty_response_def)
  then show ?thesis
    using unavailable_reply [OF assms]
    by (auto simp: handle_def Let_def reply_frame_def unavailable_frame_def frame_shape_def split: option.split prod.split)
qed

section \<open>Lists of goroutines\<close>

lemma set_phase_sel [simp]:
  "ht_generation (set_phase p t) = ht_generation t" "ht_frame (set_phase p t) = ht_frame t" "ht_phase (set_phase p t) = p"
  "ht_cancelled (set_phase p t) = ht_cancelled t"
  by (simp_all add: set_phase_def)

lemma set_cancelled_sel [simp]:
  "ht_generation (set_cancelled t) = ht_generation t" "ht_frame (set_cancelled t) = ht_frame t"
  "ht_phase (set_cancelled t) = ht_phase t" "ht_cancelled (set_cancelled t)"
  by (simp_all add: set_cancelled_def)

lemma cancel_in_sel [simp]:
  "ht_generation (cancel_in g t) = ht_generation t" "ht_frame (cancel_in g t) = ht_frame t" "ht_phase (cancel_in g t) = ht_phase t"
  "ht_cancelled (cancel_in g t) \<longleftrightarrow> ht_generation t = g \<or> ht_cancelled t"
  by (simp_all add: cancel_in_def)

lemma length_filter_update:
  assumes "i < length xs"
  shows "length (filter P (xs[i := y])) + (if P (xs ! i) then 1 else 0) = length (filter P xs) + (if P y then 1 else 0)"
  using assms
proof (induction xs arbitrary: i)
  case (Cons x xs)
  then show ?case by (cases i) auto
qed simp

fun holding :: "handler_phase \<Rightarrow> bool" where
  "holding Handling = True"
| "holding (Replying r) = True"
| "holding Releasing = True"
| "holding Removing = False"
| "holding Finished = False"

definition holders :: "handler_thread list \<Rightarrow> nat" where
  "holders ts = length (filter (\<lambda>t. holding (ht_phase t)) ts)"

definition slots_ok :: "nat \<Rightarrow> connector_state \<Rightarrow> bool" where
  "slots_ok slots s \<longleftrightarrow> ks_slots s = holders (ks_threads s) \<and> ks_slots s \<le> slots"

definition active_ok :: "connector_state \<Rightarrow> bool" where
  "active_ok s \<longleftrightarrow> (\<forall>g ident i. ks_active s g ident = Some i \<longleftrightarrow>
     i < length (ks_threads s) \<and> ht_generation (ks_threads s ! i) = g \<and> fr_ID (ht_frame (ks_threads s ! i)) = ident
     \<and> ht_phase (ks_threads s ! i) \<noteq> Finished)"

definition cancel_ok :: "connector_state \<Rightarrow> bool" where
  "cancel_ok s \<longleftrightarrow> (\<forall>t \<in> set (ks_threads s). ht_generation t \<le> ks_generation s
       \<and> (ht_generation t < ks_generation s \<or> \<not> ks_open s \<longrightarrow> ht_cancelled t))
     \<and> (ks_open s \<longrightarrow> ks_reading s)"

definition past_writing :: "handler_phase \<Rightarrow> bool" where
  "past_writing p \<longleftrightarrow> p = Releasing \<or> p = Removing \<or> p = Finished"

definition sent_ok :: "dev_env \<Rightarrow> connector_state \<Rightarrow> bool" where
  "sent_ok env s \<longleftrightarrow> distinct (map (\<lambda>e. fst (snd e)) (ks_sent s))
     \<and> (\<forall>(g, i, r) \<in> set (ks_sent s). i < length (ks_threads s) \<and> ht_generation (ks_threads s ! i) = g
          \<and> past_writing (ht_phase (ks_threads s ! i)) \<and> (\<exists>handler. r = handle env handler (ht_frame (ks_threads s ! i))))
     \<and> (\<forall>t \<in> set (ks_threads s). \<forall>r. ht_phase t = Replying r \<longrightarrow> (\<exists>handler. r = handle env handler (ht_frame t)))
     \<and> (\<forall>t \<in> set (ks_threads s). fr_ID (ht_frame t) \<noteq> [] \<and> frame_shape (de_bridge env) (ht_frame t) \<and> fr_Kind (ht_frame t) = ''request'')"

lemmas step_defs = handler_returns_def reply_written_def reply_failed_def release_slot_def remove_active_def
  end_generation_def close_generation_def update_thread_def Let_def

text \<open>What a message can do to the state: end the connection, cancel one request, start one handler or nothing.\<close>

lemma read_message_cases:
  obtains (Ends) "read_message env slots now message s = end_generation s"
  | (Cancels) i ident where "ks_active s (ks_generation s) ident = Some i" "read_message env slots now message s = update_thread i set_cancelled s"
  | (Same) "read_message env slots now message s = s"
  | (Starts) frame where "ks_active s (ks_generation s) (fr_ID frame) = None" "ks_slots s < slots"
      "fr_Kind frame = ''request''" "frame_shape (de_bridge env) frame"
      "read_message env slots now message s = start_handler frame s"
proof (cases "on_message env slots now message s")
  case (Ok s')
  then obtain raw frame where frame: "DecodeFrame env raw = Ok frame"
    "if fr_Kind frame = ''cancel'' then s' = on_cancel frame s else fr_Kind frame = ''request'' \<and> on_request slots now frame s = Ok s'"
    by (auto simp: on_message_def outcome_simps split: ws_read.split_asm if_split_asm)
  have read: "read_message env slots now message s = s'"
    by (simp add: read_message_def Ok)
  show thesis
  proof (cases "fr_Kind frame = ''cancel''")
    case True
    with frame read Cancels Same show thesis
      by (auto simp: on_cancel_def split: option.split_asm)
  next
    case False
    with frame read Starts [of frame] DecodeFrame_Ok(1) [OF frame(1)] show thesis
      by (auto simp: on_request_def split: if_split_asm)
  qed
qed (use Ends in \<open>simp_all add: read_message_def\<close>)

lemma holders_update:
  assumes "i < length ts"
  shows "holders (ts[i := t]) + (if holding (ht_phase (ts ! i)) then 1 else 0) = holders ts + (if holding (ht_phase t) then 1 else 0)"
  unfolding holders_def by (rule length_filter_update [OF assms])

lemma holders_same:
  "i < length ts \<Longrightarrow> holding (ht_phase t) = holding (ht_phase (ts ! i)) \<Longrightarrow> holders (ts[i := t]) = holders ts"
  using holders_update [of i ts t] by (simp split: if_split_asm)

lemma holders_append [simp]: "holders (ts @ [t]) = holders ts + (if holding (ht_phase t) then 1 else 0)"
  by (simp add: holders_def)

lemma holders_map:
  assumes "\<And>t. ht_phase (h t) = ht_phase t"
  shows "holders (map h ts) = holders ts"
  by (simp add: holders_def filter_map o_def assms)

lemma holders_cancel [simp]: "holders (map (cancel_in g) ts) = holders ts"
  by (rule holders_map) simp

lemma active_index: "active_ok s \<Longrightarrow> ks_active s g ident = Some i \<Longrightarrow> i < length (ks_threads s)"
  by (simp add: active_ok_def)

lemma slots_step:
  assumes "connector_step env slots s s'" and "slots_ok slots s" and "active_ok s"
  shows "slots_ok slots s'"
  using assms(1)
proof (cases rule: connector_step.cases)
  case (reads now message)
  show ?thesis
    using assms(2) reads
    by (cases rule: read_message_cases [of env slots now message s])
      (auto simp: slots_ok_def step_defs holders_same start_handler_def dest: active_index [OF assms(3)])
next
  case (releases i)
  then show ?thesis
    using assms(2) holders_update [of i "ks_threads s" "set_phase Removing (ks_threads s ! i)"]
    by (auto simp: slots_ok_def step_defs)
qed (use assms(2) in \<open>simp_all add: slots_ok_def step_defs holders_same\<close>)

text \<open>Updates of one goroutine that keep its connection and its request.\<close>

lemma active_ok_update:
  assumes "active_ok s" and "i < length (ks_threads s)" and "ht_generation t = ht_generation (ks_threads s ! i)"
    and "ht_frame t = ht_frame (ks_threads s ! i)" and "ht_phase t = Finished \<longleftrightarrow> ht_phase (ks_threads s ! i) = Finished"
    and "ks_active s' = ks_active s" and "ks_threads s' = (ks_threads s)[i := t]"
  shows "active_ok s'"
  using assms by (auto simp: active_ok_def nth_list_update)

lemma active_ok_cancel: "active_ok s \<Longrightarrow> i < length (ks_threads s) \<Longrightarrow> active_ok (update_thread i set_cancelled s)"
  by (rule active_ok_update) (simp_all add: update_thread_def)

lemma active_ok_close: "active_ok s \<Longrightarrow> active_ok (close_generation s)" "active_ok s \<Longrightarrow> active_ok (end_generation s)"
  by (auto simp: active_ok_def end_generation_def close_generation_def)

lemma active_ok_start:
  assumes "active_ok s" and "ks_active s (ks_generation s) (fr_ID frame) = None"
  shows "active_ok (start_handler frame s)"
proof -
  have "ht_phase (ks_threads s ! i) = Finished"
    if "i < length (ks_threads s)" "ht_generation (ks_threads s ! i) = ks_generation s" "fr_ID (ht_frame (ks_threads s ! i)) = fr_ID frame" for i
    using assms that by (metis active_ok_def option.distinct(1))
  with assms(1) show ?thesis
    by (auto simp: active_ok_def start_handler_def nth_append less_Suc_eq)
qed

lemma active_ok_remove:
  assumes "active_ok s" and "i < length (ks_threads s)" and "ht_phase (ks_threads s ! i) = Removing"
  shows "active_ok (remove_active i s)"
proof -
  have own: "j = i" if "j < length (ks_threads s)" "ht_generation (ks_threads s ! j) = ht_generation (ks_threads s ! i)"
    "fr_ID (ht_frame (ks_threads s ! j)) = fr_ID (ht_frame (ks_threads s ! i))" "ht_phase (ks_threads s ! j) \<noteq> Finished" for j
  proof -
    have "ks_active s (ht_generation (ks_threads s ! i)) (fr_ID (ht_frame (ks_threads s ! i))) = Some j"
      "ks_active s (ht_generation (ks_threads s ! i)) (fr_ID (ht_frame (ks_threads s ! i))) = Some i"
      using that assms by (simp_all add: active_ok_def)
    then show ?thesis by simp
  qed
  show ?thesis
    using assms by (auto simp: active_ok_def remove_active_def update_thread_def Let_def nth_list_update dest: own)
qed

lemma active_step:
  assumes "connector_step env slots s s'" and "active_ok s"
  shows "active_ok s'"
  using assms(1)
proof (cases rule: connector_step.cases)
  case connects
  with assms(2) show ?thesis by (simp add: active_ok_def)
next
  case (reads now message)
  show ?thesis
    unfolding reads(1)
    by (cases rule: read_message_cases [of env slots now message s])
      (simp_all add: active_ok_close active_ok_start active_ok_cancel active_index assms(2))
next
  case lease_ends
  with assms(2) show ?thesis by (simp add: active_ok_close)
next
  case (removes i)
  with assms(2) show ?thesis by (simp add: active_ok_remove)
next
  case (fails i reply)
  then have "active_ok (update_thread i (set_phase Releasing) s)"
    by (intro active_ok_update [OF assms(2), of i]) (simp_all add: update_thread_def)
  with fails show ?thesis
    by (simp add: reply_failed_def Let_def active_ok_close)
next
  case (deadline i)
  then show ?thesis
    by (intro active_ok_update [OF assms(2), of i]) (simp_all add: step_defs)
next
  case (returns i handler)
  then show ?thesis
    by (intro active_ok_update [OF assms(2), of i]) (simp_all add: step_defs)
next
  case (writes i reply)
  then show ?thesis
    by (intro active_ok_update [OF assms(2), of i]) (simp_all add: step_defs)
next
  case (releases i)
  then show ?thesis
    by (intro active_ok_update [OF assms(2), of i]) (simp_all add: step_defs)
qed


text \<open>The contexts of the requests of a connection end with it.\<close>

lemma set_update_thread:
  "t \<in> set ((ks_threads s)[i := u]) \<Longrightarrow> t = u \<or> t \<in> set (ks_threads s)"
  by (meson in_set_conv_nth set_update_subset_insert insertE subset_eq)

lemma cancel_ok_update:
  assumes "cancel_ok s" and "i < length (ks_threads s)" and "ht_generation u = ht_generation (ks_threads s ! i)"
    and "ht_cancelled (ks_threads s ! i) \<longrightarrow> ht_cancelled u"
    and "ks_threads s' = (ks_threads s)[i := u]" "ks_generation s' = ks_generation s" "ks_open s' = ks_open s" "ks_reading s' = ks_reading s"
  shows "cancel_ok s'"
proof -
  have "ks_threads s ! i \<in> set (ks_threads s)"
    using assms(2) by simp
  with assms show ?thesis
    by (auto simp: cancel_ok_def dest!: set_update_thread)
qed

lemma cancel_ok_close: "cancel_ok s \<Longrightarrow> cancel_ok (close_generation s)" "cancel_ok s \<Longrightarrow> cancel_ok (end_generation s)"
  by (auto simp: cancel_ok_def end_generation_def close_generation_def)

lemma cancel_step:
  assumes "connector_step env slots s s'" and "cancel_ok s" and "active_ok s"
  shows "cancel_ok s'"
  using assms(1)
proof (cases rule: connector_step.cases)
  case connects
  then have "\<not> ks_open s" using assms(2) by (auto simp: cancel_ok_def)
  with connects assms(2) show ?thesis by (fastforce simp: cancel_ok_def)
next
  case (reads now message)
  have cancels: "cancel_ok (update_thread i set_cancelled s)" if "i < length (ks_threads s)" for i
    using that by (intro cancel_ok_update [OF assms(2)]) (simp_all add: update_thread_def)
  have starts: "cancel_ok (start_handler frame s)" for frame
    using assms(2) by (auto simp: cancel_ok_def start_handler_def)
  show ?thesis
    unfolding reads(1)
    by (cases rule: read_message_cases [of env slots now message s])
      (simp_all add: cancel_ok_close cancels starts assms(2) active_index [OF assms(3)])
next
  case lease_ends
  with assms(2) show ?thesis by (simp add: cancel_ok_close)
next
  case (fails i reply)
  then have "cancel_ok (update_thread i (set_phase Releasing) s)"
    by (intro cancel_ok_update [OF assms(2)]) (simp_all add: update_thread_def)
  with fails show ?thesis
    by (simp add: reply_failed_def Let_def cancel_ok_close)
next
  case (deadline i)
  then show ?thesis
    by (intro cancel_ok_update [OF assms(2), of i]) (simp_all add: step_defs)
next
  case (returns i handler)
  then show ?thesis
    by (intro cancel_ok_update [OF assms(2), of i]) (simp_all add: step_defs)
next
  case (writes i reply)
  then show ?thesis
    by (intro cancel_ok_update [OF assms(2), of i]) (simp_all add: step_defs)
next
  case (releases i)
  then show ?thesis
    by (intro cancel_ok_update [OF assms(2), of i]) (simp_all add: step_defs)
next
  case (removes i)
  then show ?thesis
    by (intro cancel_ok_update [OF assms(2), of i]) (simp_all add: step_defs)
qed

text \<open>A reply is what the handler of its own request gave, and is written at most once.\<close>

lemma sent_ok_update:
  assumes "sent_ok env s" and "i < length (ks_threads s)" and "ht_generation u = ht_generation (ks_threads s ! i)"
    and "ht_frame u = ht_frame (ks_threads s ! i)"
    and "past_writing (ht_phase (ks_threads s ! i)) \<longrightarrow> past_writing (ht_phase u)"
    and "\<forall>r. ht_phase u = Replying r \<longrightarrow> (\<exists>handler. r = handle env handler (ht_frame u))"
    and "ks_threads s' = (ks_threads s)[i := u]" "ks_sent s' = ks_sent s"
  shows "sent_ok env s'"
proof -
  have "ks_threads s ! i \<in> set (ks_threads s)"
    using assms(2) by simp
  with assms show ?thesis
    by (fastforce simp: sent_ok_def nth_list_update dest!: set_update_thread)
qed

lemma sent_ok_close: "sent_ok env s \<Longrightarrow> sent_ok env (close_generation s)" "sent_ok env s \<Longrightarrow> sent_ok env (end_generation s)"
  by (fastforce simp: sent_ok_def end_generation_def close_generation_def)+

lemma sent_ok_cancel: "sent_ok env s \<Longrightarrow> i < length (ks_threads s) \<Longrightarrow> sent_ok env (update_thread i set_cancelled s)"
  by (rule sent_ok_update) (auto simp: update_thread_def sent_ok_def)

lemma sent_ok_start:
  assumes "sent_ok env s" and "fr_Kind frame = ''request''" and "frame_shape (de_bridge env) frame"
  shows "sent_ok env (start_handler frame s)"
proof -
  have "fr_ID frame \<noteq> []"
    using assms(2,3) by (simp add: frame_shape_def)
  with assms show ?thesis
    by (fastforce simp: sent_ok_def start_handler_def nth_append)
qed

lemma sent_ok_write:
  assumes "sent_ok env s" and "i < length (ks_threads s)" and "ht_phase (ks_threads s ! i) = Replying reply"
  shows "sent_ok env (reply_written i reply s)"
proof -
  define s1 where "s1 = update_thread i (set_phase Releasing) s"
  have s1: "sent_ok env s1" "ks_sent s1 = ks_sent s" "ks_threads s1 ! i = set_phase Releasing (ks_threads s ! i)" "i < length (ks_threads s1)"
    using assms sent_ok_update [of env s i "set_phase Releasing (ks_threads s ! i)" s1]
    by (simp_all add: s1_def update_thread_def past_writing_def)
  have "i \<notin> set (map (\<lambda>e. fst (snd e)) (ks_sent s))"
    using assms by (auto simp: sent_ok_def past_writing_def)
  moreover have "\<exists>handler. reply = handle env handler (ht_frame (ks_threads s ! i))"
    using assms by (auto simp: sent_ok_def)
  ultimately show ?thesis
    using s1 by (auto simp: sent_ok_def reply_written_def s1_def [symmetric] past_writing_def)
qed

lemma sent_step:
  assumes "connector_step env slots s s'" and "sent_ok env s" and "active_ok s"
  shows "sent_ok env s'"
  using assms(1)
proof (cases rule: connector_step.cases)
  case connects
  with assms(2) show ?thesis by (simp add: sent_ok_def)
next
  case (reads now message)
  show ?thesis
    unfolding reads(1)
    by (cases rule: read_message_cases [of env slots now message s])
      (simp_all add: sent_ok_close sent_ok_cancel sent_ok_start assms(2) active_index [OF assms(3)])
next
  case lease_ends
  with assms(2) show ?thesis by (simp add: sent_ok_close)
next
  case (deadline i)
  with assms(2) show ?thesis by (simp add: sent_ok_cancel)
next
  case (writes i reply)
  with assms(2) show ?thesis by (simp add: sent_ok_write)
next
  case (fails i reply)
  then have "sent_ok env (update_thread i (set_phase Releasing) s)"
    by (intro sent_ok_update [OF assms(2)]) (simp_all add: update_thread_def past_writing_def)
  with fails show ?thesis
    by (simp add: reply_failed_def Let_def sent_ok_close)
next
  case (returns i handler)
  then show ?thesis
    by (intro sent_ok_update [OF assms(2), of i]) (auto simp: step_defs past_writing_def)
next
  case (releases i)
  then show ?thesis
    by (intro sent_ok_update [OF assms(2), of i]) (simp_all add: step_defs past_writing_def)
next
  case (removes i)
  then show ?thesis
    by (intro sent_ok_update [OF assms(2), of i]) (simp_all add: step_defs past_writing_def)
qed

lemma connector_invariant:
  assumes "connector_reachable env slots s"
  shows "slots_ok slots s \<and> active_ok s \<and> cancel_ok s \<and> sent_ok env s"
  using assms
proof (induction rule: connector_reachable.induct)
  case fresh
  show ?case
    by (simp add: fresh_connector_def slots_ok_def active_ok_def cancel_ok_def sent_ok_def holders_def)
next
  case (step s s')
  then show ?case
    by (blast intro: slots_step active_step cancel_step sent_step)
qed


section \<open>What a handler writes\<close>

text \<open>The reading of a handler's calls that the bounded writer implements: the bytes it writes, and the first status it
  announces, 200 when it writes before or never announces one.\<close>

fun written_bytes :: "writer_call list \<Rightarrow> bytes" where
  "written_bytes [] = []"
| "written_bytes (WriteHeader status # calls) = written_bytes calls"
| "written_bytes (Write body # calls) = body @ written_bytes calls"

fun first_status :: "writer_call list \<Rightarrow> int" where
  "first_status [] = 200"
| "first_status (WriteHeader status # calls) = (if status = 0 then first_status calls else status)"
| "first_status (Write body # calls) = 200"

lemma writer_overflow:
  assumes "length (br_body r) \<le> MaxBodyBytes"
  shows "br_overflow (foldl writer_step r calls) \<longleftrightarrow> br_overflow r \<or> MaxBodyBytes < length (br_body r) + length (written_bytes calls)"
proof -
  have sticky: "br_overflow (foldl writer_step r calls)" if "br_overflow r" for r calls
    using that
  proof (induction calls arbitrary: r)
    case (Cons c calls)
    then show ?case by (cases c) (simp_all add: Let_def)
  qed simp
  show ?thesis
    using assms
  proof (induction calls arbitrary: r rule: written_bytes.induct)
    case (3 body calls)
    then show ?case by (auto simp: Let_def sticky)
  qed simp_all
qed

lemma writer_body:
  assumes "length (br_body r) + length (written_bytes calls) \<le> MaxBodyBytes"
  shows "br_body (foldl writer_step r calls) = br_body r @ written_bytes calls"
  using assms by (induction calls arbitrary: r rule: written_bytes.induct) (auto simp: Let_def)

lemma writer_status_kept: "br_status r \<noteq> 0 \<Longrightarrow> br_status (foldl writer_step r calls) = br_status r"
  by (induction calls arbitrary: r rule: written_bytes.induct) (simp_all add: Let_def)

lemma writer_status:
  "br_status r = 0 \<Longrightarrow>
     (if br_status (foldl writer_step r calls) = 0 then 200 else br_status (foldl writer_step r calls)) = first_status calls"
proof (induction calls arbitrary: r rule: first_status.induct)
  case (2 status calls)
  show ?case
  proof (cases "status = 0")
    case True
    with "2.IH" [OF True, of "r\<lparr>br_status := 0\<rparr>"] "2.prems" show ?thesis by (auto split: if_split_asm)
  next
    case False
    with "2.prems" show ?thesis by (simp add: writer_status_kept)
  qed
qed (simp_all add: Let_def writer_status_kept)

section \<open>Waiting to reconnect\<close>

definition jitter_ok :: "attempt \<Rightarrow> bool" where
  "jitter_ok a \<longleftrightarrow> (\<forall>n v. 0 < n \<longrightarrow> at_jitter a n = Some v \<longrightarrow> 0 \<le> v \<and> v < n)"

definition transient :: "attempt \<Rightarrow> bool" where
  "transient a \<longleftrightarrow> \<not> at_cancelled a \<and> at_error a \<noteq> ErrInvalid \<and> at_error a \<noteq> ErrUnauthorized \<and> \<not> at_interrupted a
     \<and> (\<forall>n > 0. at_jitter a n \<noteq> None)"

lemma jitter_range: "jitter_ok a \<Longrightarrow> at_jitter a (max 1 n) = Some j \<Longrightarrow> 0 \<le> j \<and> j < max 1 n"
  unfolding jitter_ok_def by (metis less_max_iff_disj zero_less_one)

lemma next_delay_range: "0 < d \<Longrightarrow> d \<le> maximum \<Longrightarrow> d \<le> next_delay maximum d \<and> next_delay maximum d \<le> maximum \<and> min maximum (2 * d) \<le> next_delay maximum d"
  by (auto simp: next_delay_def)

lemma wait_of_range: "0 < d \<Longrightarrow> 0 \<le> j \<Longrightarrow> j < max 1 (d div 2) \<Longrightarrow> 1 \<le> wait_of d j \<and> wait_of d j \<le> d \<and> d div 2 \<le> wait_of d j"
  by (auto simp: wait_of_def)

lemma run_attempts_range:
  assumes "0 < minimum" "minimum \<le> d" "d \<le> maximum" and "\<forall>a \<in> set attempts. jitter_ok a"
  shows "\<forall>w \<in> set (snd (run_attempts minimum maximum d attempts)). 1 \<le> w \<and> w \<le> maximum"
  using assms
proof (induction minimum maximum d attempts rule: run_attempts.induct)
  case (2 minimum maximum d a rest)
  define d' where "d' = (if at_elapsed a > 10000000000 then minimum else d)"
  have d': "0 < d'" "minimum \<le> d'" "d' \<le> maximum"
    using "2.prems" by (simp_all add: d'_def)
  have tail: "\<forall>w \<in> set (snd (run_attempts minimum maximum (next_delay maximum d') rest)). 1 \<le> w \<and> w \<le> maximum"
    if "at_jitter a (max 1 (d' div 2)) = Some j" "\<not> at_cancelled a" "\<not> (at_error a = ErrInvalid \<or> at_error a = ErrUnauthorized)" "\<not> at_interrupted a" for j
    using "2.IH" [OF that(2,3) d'_def that(1,4)] "2.prems" next_delay_range [OF d'(1,3)] d' by auto
  have head: "1 \<le> wait_of d' j \<and> wait_of d' j \<le> maximum" if "at_jitter a (max 1 (d' div 2)) = Some j" for j
  proof -
    have "0 \<le> j \<and> j < max 1 (d' div 2)"
      using "2.prems"(4) that jitter_range [of a "d' div 2" j] by simp
    then show ?thesis
      using wait_of_range [of d' j] d' by linarith
  qed
  show ?case
    using head tail by (auto simp: Let_def d'_def [symmetric] split: option.split prod.split)
qed simp

lemma run_attempts_doubles:
  assumes "0 < minimum" "minimum \<le> d" "d \<le> maximum" and "\<forall>a \<in> set attempts. jitter_ok a" and "\<forall>a \<in> set attempts. at_elapsed a \<le> 10000000000"
    and "k < length (snd (run_attempts minimum maximum d attempts))"
  shows "min maximum (d * 2 ^ k) div 2 \<le> snd (run_attempts minimum maximum d attempts) ! k"
  using assms
proof (induction attempts arbitrary: d k)
  case (Cons a rest)
  have slow: "\<not> at_elapsed a > 10000000000"
    using Cons.prems(5) by simp
  note facts = Cons.prems slow
  have "at_jitter a (max 1 (d div 2)) \<noteq> None" "\<not> at_cancelled a" "\<not> (at_error a = ErrInvalid \<or> at_error a = ErrUnauthorized)"
    using Cons.prems(6) slow by (auto simp: Let_def split: option.split_asm if_split_asm)
  then obtain j where j: "at_jitter a (max 1 (d div 2)) = Some j" and go: "\<not> at_cancelled a" "\<not> (at_error a = ErrInvalid \<or> at_error a = ErrUnauthorized)"
    by blast
  have "0 \<le> j" "j < max 1 (d div 2)"
    using jitter_range [of a "d div 2" j] Cons.prems(4) j by simp_all
  then have head: "d div 2 \<le> wait_of d j"
    using wait_of_range [of d j] Cons.prems by simp
  define nd where "nd = next_delay maximum d"
  have nd: "minimum \<le> nd" "nd \<le> maximum" "min maximum (2 * d) \<le> nd"
    using next_delay_range [of d maximum] Cons.prems by (simp_all add: nd_def)
  show ?case
  proof (cases k)
    case 0
    with head j go slow Cons.prems(3) show ?thesis
      by (auto simp: Let_def split: prod.split)
  next
    case (Suc k')
    then have cont: "\<not> at_interrupted a" "k' < length (snd (run_attempts minimum maximum nd rest))"
      using Cons.prems(6) j go slow by (auto simp: Let_def nd_def split: if_split_asm prod.split_asm)
    then have "min maximum (nd * 2 ^ k') div 2 \<le> snd (run_attempts minimum maximum nd rest) ! k'"
      using Cons.prems nd by (intro Cons.IH) auto
    moreover have "min maximum (d * 2 ^ k) \<le> min maximum (nd * 2 ^ k')"
    proof (cases "maximum \<le> 2 * d")
      case True
      then have "maximum * 1 \<le> nd * 2 ^ k'"
        using nd Cons.prems by (intro mult_mono) auto
      then show ?thesis by simp
    next
      case False
      then have "2 * d * 2 ^ k' \<le> nd * 2 ^ k'"
        using nd by (intro mult_right_mono) auto
      then have "d * 2 ^ k \<le> nd * 2 ^ k'"
        by (simp only: Suc power_Suc mult_ac)
      then show ?thesis by (rule min.mono [OF order_refl])
    qed
    ultimately show ?thesis
      using cont(1) j go slow Suc by (auto simp: Let_def nd_def split: prod.split intro: order_trans [OF zdiv_mono1])
  qed
qed simp

lemma run_attempts_result:
  "fst (run_attempts minimum maximum d attempts) = Some (RunFailed e) \<Longrightarrow>
     e = ErrUnavailable \<or> (e = ErrInvalid \<or> e = ErrUnauthorized) \<and> (\<exists>a \<in> set attempts. at_error a = e)"
  by (induction minimum maximum d attempts rule: run_attempts.induct)
    (auto simp: Let_def split: if_split_asm option.split_asm prod.split_asm)

lemma run_attempts_transient:
  "\<forall>a \<in> set attempts. transient a \<Longrightarrow>
     fst (run_attempts minimum maximum d attempts) = None \<and> length (snd (run_attempts minimum maximum d attempts)) = length attempts"
proof (induction attempts arbitrary: d)
  case (Cons a rest)
  define d' where "d' = (if at_elapsed a > 10000000000 then minimum else d)"
  have "transient a" using Cons.prems by simp
  moreover have "0 < max 1 (d' div 2)" by simp
  ultimately obtain j where "at_jitter a (max 1 (d' div 2)) = Some j"
    unfolding transient_def by blast
  moreover have "fst (run_attempts minimum maximum (next_delay maximum d') rest) = None
      \<and> length (snd (run_attempts minimum maximum (next_delay maximum d') rest)) = length rest"
    using Cons by simp
  ultimately show ?case
    using \<open>transient a\<close> by (auto simp: transient_def Let_def d'_def [symmetric] split: prod.split)
qed simp


section \<open>A connection that answers one request\<close>

definition dc_session :: Session where
  "dc_session = \<lparr>ss_ConnectionID = ''dvc_1'', ss_ConnectorURL = ''wss://dev.example/v1/development-connections/dvc_1/connect'',
     ss_Credential = ''secret'', ss_ExpiresAt = 100000000\<rparr>"

definition dc_ready :: Frame where
  "dc_ready = \<lparr>fr_Kind = ''ready'', fr_ID = [], fr_Operation = [], fr_Credential = [], fr_Body = [], fr_Version = 1, fr_Deadline = 0, fr_Status = 0\<rparr>"

definition dc_request :: Frame where
  "dc_request = \<lparr>fr_Kind = ''request'', fr_ID = ''r1'', fr_Operation = ''invoke'', fr_Credential = [], fr_Body = [123, 125],
     fr_Version = 1, fr_Deadline = 2000000, fr_Status = 0\<rparr>"

definition dc_url :: go_url where
  "dc_url = \<lparr>u_Scheme = ''https'', u_Opaque = [], u_User = False, u_Host = ''dev.example'',
     u_Path = ''/v1/development-connections/dvc_1/connect'', u_RawPath = [], u_ForceQuery = False, u_RawQuery = [], u_Fragment = []\<rparr>"

definition dc_env :: dev_env where
  "dc_env = \<lparr>de_bridge = sample_env,
     de_net = \<lparr>url_Parse = (\<lambda>s. Some dc_url), url_ParseRequestURI = (\<lambda>s. None), netip_ParseAddr = (\<lambda>s. None),
               strings_ToLower = (\<lambda>s. s), strings_EqualFold = (=)\<rparr>,
     de_Frame = table_codec [(dc_ready, [1]), (dc_request, [2])], de_Proof = table_codec [], de_Session = table_codec []\<rparr>"

lemma dc_env_sel [simp]:
  "de_bridge dc_env = sample_env" "de_Frame dc_env = table_codec [(dc_ready, [1]), (dc_request, [2])]"
  "url_Parse (de_net dc_env) u = Some dc_url"
  by (simp_all add: dc_env_def)

definition dc_handler :: http_handler where
  "dc_handler r = ([WriteHeader 201, Write (lr_Body r)], False)"

lemma dc_endpoint: "ValidateEndpoint (de_net dc_env) (''https://'' @ drop 6 (ss_ConnectorURL dc_session)) = Ok dc_url"
proof -
  have "trim_space ''https://dev.example/v1/development-connections/dvc_1/connect'' = ''https://dev.example/v1/development-connections/dvc_1/connect''"
    by (rule trim_space_ident) (simp add: ident_char_def)
  moreover have "\<not> str_contains ''https://dev.example/v1/development-connections/dvc_1/connect'' ''#''"
    by code_simp
  moreover have "u_Hostname dc_url = ''dev.example''" "u_Port dc_url = []" "\<not> has_suffix (u_Host dc_url) '':''"
    by code_simp+
  moreover have "\<not> str_contains (u_Path dc_url) [CHR 0x5C]" "\<not> str_contains (u_Path dc_url) ''//''"
    "list_all (\<lambda>seg. seg \<noteq> ''.'' \<and> seg \<noteq> ''..'') (split_on (CHR ''/'') (u_Path dc_url))"
    by code_simp+
  moreover have "trim_suffix ''dev.example'' ''.'' = ''dev.example''" "\<not> has_suffix ''dev.example'' ''.localhost''"
    "\<not> has_suffix ''dev.example'' ''.local''" "\<not> str_contains ''dev.example'' ''%''"
    by code_simp+
  moreover have "''https://'' @ drop 6 (ss_ConnectorURL dc_session) = ''https://dev.example/v1/development-connections/dvc_1/connect''"
    by (simp add: dc_session_def)
  moreover have "u_Scheme dc_url = ''https''" "\<not> u_User dc_url" "u_RawQuery dc_url = []" "\<not> u_ForceQuery dc_url" "u_Fragment dc_url = []"
    "u_Opaque dc_url = []" "u_RawPath dc_url = []"
    by (simp_all add: dc_url_def)
  moreover have "netip_ParseAddr (de_net dc_env) h = None" "strings_ToLower (de_net dc_env) h = h" for h
    by (simp_all add: dc_env_def)
  ultimately show ?thesis
    by (simp add: ValidateEndpoint_def Let_def)
qed

lemma dc_session_valid: "validSession (de_net dc_env) (1000000000, 1000000000) dc_session"
proof -
  have "connectionIdentifier ''dvc_1''" by code_simp
  moreover note dc_endpoint
  ultimately show ?thesis
    by (simp add: validSession_def unix_micro_def) (simp add: dc_session_def dc_url_def has_prefix_def)
qed

lemma dc_frames: "DecodeFrame dc_env [1] = Ok dc_ready" "DecodeFrame dc_env [2] = Ok dc_request"
proof -
  have "list_all frame_id_rune (runes ''r1'')" by code_simp
  then show "DecodeFrame dc_env [1] = Ok dc_ready" "DecodeFrame dc_env [2] = Ok dc_request"
    by (simp_all add: DecodeFrame_def js_decode_all_def MaxFrameBytes_def MaxBodyBytes_def MaximumBodyBytes_def dev_ProtocolVersion_def
        frame_shape_def dc_ready_def dc_request_def runes_def word_sless_alt)
qed

definition dc_open :: connector_state where
  "dc_open = fresh_connector\<lparr>ks_generation := Suc 0, ks_reading := True, ks_open := True\<rparr>"

lemma dc_reachable: "connector_reachable dc_env 1 (start_handler dc_request dc_open)"
proof -
  have "connect_open dc_env (Ok dc_session) (1000000000, 1000000000) (Dialled Subprotocol) (Message True [1]) = Ok dc_session"
    by (simp add: connect_open_def dc_session_valid dc_frames) (simp add: dc_ready_def)
  then have "connector_step dc_env 1 fresh_connector dc_open"
    using connector_step.connects [of fresh_connector] unfolding dc_open_def by (simp add: fresh_connector_def)
  then have opened: "connector_reachable dc_env 1 dc_open"
    by (blast intro: connector_reachable.intros)
  have "read_message dc_env 1 (1000000000, 1000000000) (Message True [2]) dc_open = start_handler dc_request dc_open"
    by (simp add: read_message_def on_message_def dc_frames on_request_def)
      (simp add: dc_request_def dc_open_def fresh_connector_def unix_micro_def)
  then have "connector_step dc_env 1 dc_open (start_handler dc_request dc_open)"
    using connector_step.reads [of dc_open dc_env 1 "(1000000000, 1000000000)" "Message True [2]"] by (simp add: dc_open_def)
  with opened show ?thesis
    by (rule connector_reachable.step)
qed

section \<open>Properties\<close>

text \<open>
  \<^bold>\<open>C12\<close> In every state a connector can reach, over all its connections: the slots taken are
  the handlers that still hold one, never more than the limit; no two unfinished handlers of one connection serve the same
  request identifier; the context of a handler whose connection is closed or superseded has ended; and each request is
  answered at most once, over the connection it came from, with a well-formed reply to it.
\<close>

theorem connector_concurrency:
  assumes "connector_reachable env slots s" and "json_Valid (de_bridge env) unavailable_body"
  shows "length (filter (\<lambda>t. holding (ht_phase t)) (ks_threads s)) = ks_slots s \<and> ks_slots s \<le> slots
    \<and> (\<forall>i j. i < length (ks_threads s) \<and> j < length (ks_threads s)
         \<and> ht_generation (ks_threads s ! i) = ht_generation (ks_threads s ! j)
         \<and> fr_ID (ht_frame (ks_threads s ! i)) = fr_ID (ht_frame (ks_threads s ! j))
         \<and> ht_phase (ks_threads s ! i) \<noteq> Finished \<and> ht_phase (ks_threads s ! j) \<noteq> Finished \<longrightarrow> i = j)
    \<and> (\<forall>t \<in> set (ks_threads s). ht_generation t < ks_generation s \<or> \<not> ks_open s \<longrightarrow> ht_cancelled t)
    \<and> distinct (map (\<lambda>e. fst (snd e)) (ks_sent s))
    \<and> (\<forall>(g, i, r) \<in> set (ks_sent s). i < length (ks_threads s) \<and> ht_generation (ks_threads s ! i) = g
         \<and> reply_frame (de_bridge env) (ht_frame (ks_threads s ! i)) r)"
proof -
  note inv = connector_invariant [OF assms(1)]
  have unique: "i = j"
    if "i < length (ks_threads s)" "j < length (ks_threads s)" "ht_generation (ks_threads s ! i) = ht_generation (ks_threads s ! j)"
      "fr_ID (ht_frame (ks_threads s ! i)) = fr_ID (ht_frame (ks_threads s ! j))"
      "ht_phase (ks_threads s ! i) \<noteq> Finished" "ht_phase (ks_threads s ! j) \<noteq> Finished" for i j
  proof -
    have "ks_active s (ht_generation (ks_threads s ! j)) (fr_ID (ht_frame (ks_threads s ! j))) = Some i"
      "ks_active s (ht_generation (ks_threads s ! j)) (fr_ID (ht_frame (ks_threads s ! j))) = Some j"
      using inv that by (simp_all add: active_ok_def)
    then show ?thesis by simp
  qed
  have "reply_frame (de_bridge env) (ht_frame (ks_threads s ! i)) (handle env handler (ht_frame (ks_threads s ! i)))"
    if "i < length (ks_threads s)" for i handler
    using inv that by (intro handle_reply [OF assms(2)]) (simp add: sent_ok_def)
  then show ?thesis
    using inv unique by (fastforce simp: slots_ok_def holders_def cancel_ok_def sent_ok_def)
qed

theorem connector_concurrency_witness:
  "\<exists>s. connector_reachable dc_env 1 s \<and> ks_sent s = [(1, 0, (unavailable_frame ''r1'')\<lparr>fr_Status := 201, fr_Body := [123, 125]\<rparr>)]
     \<and> ks_slots s = 1 \<and> reply_frame sample_env dc_request ((unavailable_frame ''r1'')\<lparr>fr_Status := 201, fr_Body := [123, 125]\<rparr>)"
proof -
  define reply where "reply = (unavailable_frame ''r1'')\<lparr>fr_Status := 201, fr_Body := [123, 125]\<rparr>"
  define s0 where "s0 = start_handler dc_request dc_open"
  define s1 where "s1 = handler_returns dc_env dc_handler 0 s0"
  define s2 where "s2 = reply_written 0 reply s1"
  have threads: "ks_threads s0 = [\<lparr>ht_generation = 1, ht_frame = dc_request, ht_phase = Handling, ht_cancelled = False\<rparr>]"
    by (simp add: s0_def start_handler_def dc_open_def fresh_connector_def)
  have reply: "handle dc_env dc_handler dc_request = reply"
    by (simp add: handle_def dc_handler_def reply_def dc_request_def empty_response_def MaxBodyBytes_def MaximumBodyBytes_def)
  have "connector_step dc_env 1 s0 s1"
    unfolding s1_def by (rule connector_step.returns) (simp_all add: threads)
  then have "connector_reachable dc_env 1 s1"
    using dc_reachable by (auto simp: s0_def [symmetric] intro: connector_reachable.step)
  moreover have t1: "ks_threads s1 = [\<lparr>ht_generation = 1, ht_frame = dc_request, ht_phase = Replying reply, ht_cancelled = False\<rparr>]"
    by (simp add: s1_def handler_returns_def update_thread_def threads reply set_phase_def)
  moreover have o1: "ks_generation s1 = 1" "ks_open s1" "ks_sent s1 = []" "ks_slots s1 = 1"
    by (simp_all add: s1_def handler_returns_def update_thread_def s0_def start_handler_def dc_open_def fresh_connector_def)
  moreover have "connector_step dc_env 1 s1 s2"
    unfolding s2_def by (rule connector_step.writes) (simp_all add: t1 o1)
  ultimately have reach: "connector_reachable dc_env 1 s2"
    by (blast intro: connector_reachable.step)
  have sent: "ks_sent s2 = [(1, 0, reply)]" "ks_slots s2 = 1" "ht_frame (ks_threads s2 ! 0) = dc_request"
    by (simp_all add: s2_def reply_written_def update_thread_def t1 o1)
  have "json_Valid (de_bridge dc_env) unavailable_body"
    by (simp add: unavailable_body_def bytes_of_string_def)
  from connector_concurrency [OF reach this] have "reply_frame sample_env dc_request reply"
    using sent by simp
  with reach sent show ?thesis
    unfolding reply_def by blast
qed

text \<open>
  \<^bold>\<open>C21\<close> The reply to a request, computed through the bounded writer call by call, is the handler's
  first announced status with all the bytes it wrote, when they fit the limit, are JSON and the status is a final one; in
  every other case, a panic included, it is the fixed answer 502.
\<close>

theorem handler_reply:
  "handle env handler frame =
     (case url_Parse (de_net env) (local_bridge_url frame) of
        None \<Rightarrow> unavailable_frame (fr_ID frame)
      | Some u \<Rightarrow>
          let (calls, panics) = handler \<lparr>lr_Method = ''POST'', lr_URL = u, lr_Body = fr_Body frame\<rparr> in
          if \<not> panics \<and> length (written_bytes calls) \<le> MaxBodyBytes \<and> 200 \<le> first_status calls \<and> first_status calls \<le> 599
             \<and> json_Valid (de_bridge env) (written_bytes calls)
          then (unavailable_frame (fr_ID frame))\<lparr>fr_Status := first_status calls, fr_Body := written_bytes calls\<rparr>
          else unavailable_frame (fr_ID frame))"
proof -
  have status: "(if br_status (foldl writer_step empty_response calls) = 0 then 200 else br_status (foldl writer_step empty_response calls))
      = first_status calls" for calls
    by (rule writer_status) (simp add: empty_response_def)
  have overflow: "br_overflow (foldl writer_step empty_response calls) \<longleftrightarrow> MaxBodyBytes < length (written_bytes calls)" for calls
    using writer_overflow [of empty_response calls] by (simp add: empty_response_def)
  have body: "br_body (foldl writer_step empty_response calls) = written_bytes calls" if "length (written_bytes calls) \<le> MaxBodyBytes" for calls
    using writer_body [of empty_response calls] that by (simp add: empty_response_def)
  show ?thesis
    unfolding handle_def Let_def status overflow
    by (auto simp: body not_less split: option.split prod.split)
qed



definition dc_options :: ConnectorOptions where
  "dc_options = \<lparr>kc_Handler = Some dc_handler, kc_Session = Some (\<lambda>k. Ok dc_session), kc_MaxConcurrent = 0, kc_ReconnectMin = 0, kc_ReconnectMax = 0\<rparr>"

definition dc_attempt :: attempt where
  "dc_attempt = \<lparr>at_error = ErrUnavailable, at_cancelled = False, at_elapsed = 0, at_jitter = (\<lambda>n. Some (n - 1)), at_interrupted = False\<rparr>"


end
