(* ===== verification/Dev_Spec.thy ===== *)
theory Dev_Spec
  imports Dev_Connector
begin

text \<open>
  What a connector promises to the relay it is connected to, as a small transition system, and the proof that the
  goroutines of \<open>Dev_Connector\<close> implement it. The specification knows the current connection, a table of the requests it
  has taken on, the number it works on at once and the replies it has given; goroutines, contexts and deferred actions do
  not occur in it.
\<close>

section \<open>The service\<close>

datatype request_state = Serving | Settled | Released

record service =
  sv_epoch :: nat
  sv_up :: bool
  sv_table :: "nat \<times> string \<Rightarrow> request_state option"
  sv_busy :: nat
  sv_replies :: "(nat \<times> string \<times> Frame) list"

definition idle_service :: service where
  "idle_service = \<lparr>sv_epoch = 0, sv_up = False, sv_table = Map.empty, sv_busy = 0, sv_replies = []\<rparr>"

definition reply_to :: "bridge_env \<Rightarrow> string \<Rightarrow> Frame \<Rightarrow> bool" where
  "reply_to env ident r \<longleftrightarrow> fr_Kind r = ''response'' \<and> fr_ID r = ident \<and> fr_Version r = dev_ProtocolVersion \<and> fr_Credential r = []
     \<and> frame_shape env r \<and> length (fr_Body r) \<le> MaxBodyBytes"

text \<open>
  A request is taken on when it is new on the current connection and there is capacity. It is answered once, over the
  connection it came from and while that is up, or given up, which ends that connection. Then its place is freed, and
  only then may its identifier be used again.
\<close>

inductive service_step :: "bridge_env \<Rightarrow> nat \<Rightarrow> service \<Rightarrow> service \<Rightarrow> bool" for env :: bridge_env and slots :: nat where
  stays: "service_step env slots v v"
| opens: "\<not> sv_up v \<Longrightarrow> service_step env slots v (v\<lparr>sv_epoch := Suc (sv_epoch v), sv_up := True\<rparr>)"
| closes: "service_step env slots v (v\<lparr>sv_up := False\<rparr>)"
| accepts: "sv_table v (sv_epoch v, ident) = None \<Longrightarrow> sv_busy v < slots \<Longrightarrow>
    service_step env slots v (v\<lparr>sv_table := (sv_table v)((sv_epoch v, ident) \<mapsto> Serving), sv_busy := Suc (sv_busy v)\<rparr>)"
| answers: "sv_table v (sv_epoch v, ident) = Some Serving \<Longrightarrow> sv_up v \<Longrightarrow> reply_to env ident r \<Longrightarrow>
    service_step env slots v (v\<lparr>sv_table := (sv_table v)((sv_epoch v, ident) \<mapsto> Settled),
      sv_replies := sv_replies v @ [(sv_epoch v, ident, r)]\<rparr>)"
| gives_up: "sv_table v (g, ident) = Some Serving \<Longrightarrow>
    service_step env slots v (v\<lparr>sv_table := (sv_table v)((g, ident) \<mapsto> Settled), sv_up := (sv_up v \<and> g \<noteq> sv_epoch v)\<rparr>)"
| frees: "sv_table v k = Some Settled \<Longrightarrow>
    service_step env slots v (v\<lparr>sv_table := (sv_table v)(k \<mapsto> Released), sv_busy := sv_busy v - 1\<rparr>)"
| forgets: "sv_table v k = Some Released \<Longrightarrow> service_step env slots v (v\<lparr>sv_table := (sv_table v)(k := None)\<rparr>)"

inductive service_reachable :: "bridge_env \<Rightarrow> nat \<Rightarrow> service \<Rightarrow> bool" for env :: bridge_env and slots :: nat where
  idle: "service_reachable env slots idle_service"
| step: "service_reachable env slots v \<Longrightarrow> service_step env slots v v' \<Longrightarrow> service_reachable env slots v'"

text \<open>In the specification the capacity is a fact about the table.\<close>

definition at_work :: "service \<Rightarrow> (nat \<times> string) set" where
  "at_work v = {k. sv_table v k = Some Serving \<or> sv_table v k = Some Settled}"

definition capacity_ok :: "nat \<Rightarrow> service \<Rightarrow> bool" where
  "capacity_ok slots v \<longleftrightarrow> finite (at_work v) \<and> card (at_work v) = sv_busy v \<and> sv_busy v \<le> slots"

lemma capacity_step:
  assumes "service_step env slots v v'" and "capacity_ok slots v"
  shows "capacity_ok slots v'"
  using assms(1)
proof (cases rule: service_step.cases)
  case (accepts ident)
  have "at_work v' = insert (sv_epoch v, ident) (at_work v)" "(sv_epoch v, ident) \<notin> at_work v"
    using accepts by (auto simp: at_work_def)
  with assms(2) accepts show ?thesis by (simp add: capacity_ok_def)
next
  case (answers ident r)
  have "at_work v' = at_work v"
    using answers by (auto simp: at_work_def)
  with assms(2) answers show ?thesis by (simp add: capacity_ok_def)
next
  case (gives_up g ident)
  have "at_work v' = at_work v"
    using gives_up by (auto simp: at_work_def)
  with assms(2) gives_up show ?thesis by (simp add: capacity_ok_def)
next
  case (frees k)
  have "at_work v' = at_work v - {k}" "k \<in> at_work v"
    using frees by (auto simp: at_work_def)
  with assms(2) have "finite (at_work v')" "card (at_work v') = sv_busy v - 1" "sv_busy v - 1 \<le> slots"
    by (auto simp: capacity_ok_def intro: le_trans [OF diff_le_self])
  with frees show ?thesis by (simp add: capacity_ok_def)
next
  case (forgets k)
  have "at_work v' = at_work v"
    using forgets by (auto simp: at_work_def)
  with assms(2) forgets show ?thesis by (simp add: capacity_ok_def)
qed (use assms(2) in \<open>simp_all add: capacity_ok_def at_work_def\<close>)

lemma service_capacity: "service_reachable env slots v \<Longrightarrow> capacity_ok slots v"
proof (induction rule: service_reachable.induct)
  case idle
  show ?case by (simp add: capacity_ok_def at_work_def idle_service_def)
qed (blast intro: capacity_step)

section \<open>The service a connector gives\<close>

fun state_of_phase :: "handler_phase \<Rightarrow> request_state" where
  "state_of_phase Handling = Serving"
| "state_of_phase (Replying r) = Serving"
| "state_of_phase Releasing = Settled"
| "state_of_phase Removing = Released"
| "state_of_phase Finished = Released"

definition table_of :: "connector_state \<Rightarrow> nat \<times> string \<Rightarrow> request_state option" where
  "table_of s k = map_option (\<lambda>i. state_of_phase (ht_phase (ks_threads s ! i))) (ks_active s (fst k) (snd k))"

definition replies_of :: "connector_state \<Rightarrow> (nat \<times> string \<times> Frame) list" where
  "replies_of s = map (\<lambda>(g, i, r). (g, fr_ID (ht_frame (ks_threads s ! i)), r)) (ks_sent s)"

definition service_of :: "connector_state \<Rightarrow> service" where
  "service_of s = \<lparr>sv_epoch = ks_generation s, sv_up = ks_open s, sv_table = table_of s, sv_busy = ks_slots s,
     sv_replies = replies_of s\<rparr>"

definition key_of :: "connector_state \<Rightarrow> nat \<Rightarrow> nat \<times> string" where
  "key_of s i = (ht_generation (ks_threads s ! i), fr_ID (ht_frame (ks_threads s ! i)))"

lemma service_of_fresh: "service_of fresh_connector = idle_service"
  by (auto simp: service_of_def fresh_connector_def idle_service_def table_of_def replies_of_def)

lemma active_key:
  "active_ok s \<Longrightarrow> ks_active s g ident = Some i \<Longrightarrow> (g, ident) = key_of s i"
  by (auto simp: active_ok_def key_of_def)

lemma key_active:
  "active_ok s \<Longrightarrow> i < length (ks_threads s) \<Longrightarrow> ht_phase (ks_threads s ! i) \<noteq> Finished \<Longrightarrow>
     ks_active s (fst (key_of s i)) (snd (key_of s i)) = Some i"
  by (simp add: active_ok_def key_of_def)

text \<open>A step of one goroutine changes the table at its own key only.\<close>

lemma table_of_update:
  assumes "active_ok s" and "i < length (ks_threads s)" and "ht_phase (ks_threads s ! i) \<noteq> Finished"
    and "ks_threads s' = (ks_threads s)[i := t]" and "ks_active s' = ks_active s"
  shows "table_of s' = (table_of s)(key_of s i \<mapsto> state_of_phase (ht_phase t))"
proof
  fix k
  show "table_of s' k = ((table_of s)(key_of s i \<mapsto> state_of_phase (ht_phase t))) k"
  proof (cases "k = key_of s i")
    case True
    then show ?thesis
      using key_active [OF assms(1-3)] assms(2,4,5) by (simp add: table_of_def)
  next
    case False
    then have "ks_active s (fst k) (snd k) \<noteq> Some i"
      using active_key [OF assms(1), of "fst k" "snd k" i] by auto
    then show ?thesis
      using False assms(4,5) by (cases "ks_active s (fst k) (snd k)") (auto simp: table_of_def nth_list_update)
  qed
qed

lemma table_of_key:
  assumes "active_ok s" and "i < length (ks_threads s)" and "ht_phase (ks_threads s ! i) \<noteq> Finished"
  shows "table_of s (key_of s i) = Some (state_of_phase (ht_phase (ks_threads s ! i)))"
  using key_active [OF assms] by (simp add: table_of_def)

text \<open>Updates that keep phases and frames do not show, and a goroutine keeps its request.\<close>

lemma table_of_same:
  assumes "active_ok s" and "ks_active s' = ks_active s"
    and "\<And>i. i < length (ks_threads s) \<Longrightarrow> ht_phase (ks_threads s' ! i) = ht_phase (ks_threads s ! i)"
  shows "table_of s' = table_of s"
proof
  fix k
  show "table_of s' k = table_of s k"
    using active_index [OF assms(1), of "fst k" "snd k"] assms(2,3)
    by (cases "ks_active s (fst k) (snd k)") (auto simp: table_of_def)
qed

lemma replies_of_same:
  assumes "ks_sent s' = ks_sent s" and "\<And>i. i < length (ks_threads s) \<Longrightarrow> ht_frame (ks_threads s' ! i) = ht_frame (ks_threads s ! i)"
    and "sent_ok env s"
  shows "replies_of s' = replies_of s"
  using assms by (auto simp: replies_of_def sent_ok_def)

lemma service_of_same:
  assumes "active_ok s" "sent_ok env s" "ks_active s' = ks_active s" "ks_sent s' = ks_sent s" "ks_generation s' = ks_generation s"
    "ks_slots s' = ks_slots s"
    and "\<And>i. i < length (ks_threads s) \<Longrightarrow> ht_phase (ks_threads s' ! i) = ht_phase (ks_threads s ! i)
      \<and> ht_frame (ks_threads s' ! i) = ht_frame (ks_threads s ! i)"
  shows "service_of s' = (service_of s)\<lparr>sv_up := ks_open s'\<rparr>"
  using table_of_same [of s s'] replies_of_same [of s' s env] assms by (simp add: service_of_def)

lemma service_of_cancel:
  assumes "active_ok s" "sent_ok env s"
  shows "service_of (update_thread i set_cancelled s) = service_of s"
  using service_of_same [OF assms, of "update_thread i set_cancelled s"]
  by (cases "i < length (ks_threads s)") (auto simp: update_thread_def nth_list_update service_of_def)

lemma service_of_close:
  assumes "active_ok s" "sent_ok env s"
  shows "service_of (close_generation s) = (service_of s)\<lparr>sv_up := False\<rparr>"
    and "service_of (end_generation s) = (service_of s)\<lparr>sv_up := False\<rparr>"
  using service_of_same [OF assms, of "close_generation s"] service_of_same [OF assms, of "end_generation s"]
  by (simp_all add: end_generation_def close_generation_def)

lemma table_of_start:
  assumes "active_ok s"
  shows "table_of (start_handler frame s) = (table_of s)((ks_generation s, fr_ID frame) \<mapsto> Serving)"
proof
  fix k :: "nat \<times> string"
  obtain g ident where k: "k = (g, ident)" by force
  have kept: "(ks_threads s @ [t]) ! i = ks_threads s ! i" if "ks_active s g ident = Some i" for i t
    using active_index [OF assms that] by (simp add: nth_append)
  show "table_of (start_handler frame s) k = ((table_of s)((ks_generation s, fr_ID frame) \<mapsto> Serving)) k"
  proof (cases "g = ks_generation s \<and> ident = fr_ID frame")
    case True
    then show ?thesis by (simp add: k table_of_def start_handler_def)
  next
    case False
    then have "ks_active (start_handler frame s) g ident = ks_active s g ident"
      by (simp add: start_handler_def)
    with False kept show ?thesis
      by (cases "ks_active s g ident") (auto simp: k table_of_def start_handler_def)
  qed
qed

lemma replies_of_start: "sent_ok env s \<Longrightarrow> replies_of (start_handler frame s) = replies_of s"
  by (auto simp: replies_of_def start_handler_def sent_ok_def nth_append)

lemma read_simulated:
  assumes "active_ok s" "sent_ok env s" "service_of (read_message env slots now message s) = v'"
  shows "service_step (de_bridge env) slots (service_of s) v'"
proof (cases rule: read_message_cases [of env slots now message s])
  case Ends
  then show ?thesis
    using service_of_close(2) [OF assms(1,2)] assms(3) service_step.closes [of "de_bridge env" slots "service_of s"] by simp
next
  case (Cancels i ident)
  then show ?thesis
    using service_of_cancel [OF assms(1,2)] assms(3) by (simp add: service_step.stays)
next
  case Same
  then show ?thesis
    using assms(3) by (simp add: service_step.stays)
next
  case (Starts frame)
  then show ?thesis
    using service_step.accepts [of "service_of s" "fr_ID frame" slots "de_bridge env"] assms(3)
      table_of_start [OF assms(1), of frame] replies_of_start [OF assms(2), of frame]
    by (auto simp: service_of_def start_handler_def table_of_def)
qed

text \<open>A goroutine that moves on: its entry of the table changes, and perhaps the replies, the slots or the connection.\<close>

lemma service_of_update:
  assumes "active_ok s" "sent_ok env s" "i < length (ks_threads s)" "ht_phase (ks_threads s ! i) \<noteq> Finished"
    and "ks_threads s' = (ks_threads s)[i := t]" "ht_frame t = ht_frame (ks_threads s ! i)"
    "ks_active s' = ks_active s" "ks_generation s' = ks_generation s" "ks_sent s' = ks_sent s"
  shows "service_of s' = (service_of s)\<lparr>sv_up := ks_open s', sv_table := (table_of s)(key_of s i \<mapsto> state_of_phase (ht_phase t)),
    sv_busy := ks_slots s'\<rparr>"
proof -
  have "ht_frame (ks_threads s' ! j) = ht_frame (ks_threads s ! j)" if "j < length (ks_threads s)" for j
    using that assms(3,5,6) by (simp add: nth_list_update)
  with assms(9,2) have "replies_of s' = replies_of s"
    by (intro replies_of_same)
  then show ?thesis
    using table_of_update [OF assms(1,3,4,5,7)] assms(8) by (simp add: service_of_def)
qed


text \<open>The steps of a goroutine, one by one.\<close>

lemma returns_simulated:
  assumes "active_ok s" "sent_ok env s" "i < length (ks_threads s)" "ht_phase (ks_threads s ! i) = Handling"
  shows "service_of (handler_returns env handler i s) = service_of s"
proof -
  have "(table_of s)(key_of s i \<mapsto> Serving) = table_of s"
    using table_of_key [OF assms(1,3)] assms(4) by (simp add: fun_upd_idem)
  then show ?thesis
    using service_of_update [OF assms(1-3), of "handler_returns env handler i s"
        "set_phase (Replying (handle env handler (ht_frame (ks_threads s ! i)))) (ks_threads s ! i)"] assms(4)
    by (simp add: handler_returns_def update_thread_def service_of_def)
qed

lemma replying_well_formed:
  assumes "sent_ok env s" "i < length (ks_threads s)" "ht_phase (ks_threads s ! i) = Replying reply"
    and "json_Valid (de_bridge env) unavailable_body"
  shows "reply_to (de_bridge env) (fr_ID (ht_frame (ks_threads s ! i))) reply"
proof -
  obtain handler where "reply = handle env handler (ht_frame (ks_threads s ! i))" "fr_ID (ht_frame (ks_threads s ! i)) \<noteq> []"
    using assms(1-3) nth_mem by (fastforce simp: sent_ok_def)
  then show ?thesis
    using handle_reply [OF assms(4)] by (simp add: reply_frame_def reply_to_def)
qed

lemma writes_simulated:
  assumes "active_ok s" "sent_ok env s" "i < length (ks_threads s)" "ht_phase (ks_threads s ! i) = Replying reply"
    and "ht_generation (ks_threads s ! i) = ks_generation s" "ks_open s" "json_Valid (de_bridge env) unavailable_body"
  shows "service_step (de_bridge env) slots (service_of s) (service_of (reply_written i reply s))"
proof -
  let ?id = "fr_ID (ht_frame (ks_threads s ! i))" and ?s = "reply_written i reply s"
  have key: "key_of s i = (ks_generation s, ?id)"
    using assms(5) by (simp add: key_of_def)
  have "table_of s (key_of s i) = Some Serving"
    using table_of_key [OF assms(1,3)] assms(4) by simp
  moreover have "table_of ?s = (table_of s)(key_of s i \<mapsto> Settled)"
    using table_of_update [OF assms(1,3), of ?s "set_phase Releasing (ks_threads s ! i)"] assms(4)
    by (simp add: reply_written_def update_thread_def)
  moreover have "replies_of (update_thread i (set_phase Releasing) s) = replies_of s"
    by (rule replies_of_same [OF _ _ assms(2)]) (use assms(3) in \<open>auto simp: update_thread_def nth_list_update\<close>)
  then have "replies_of ?s = replies_of s @ [(ks_generation s, ?id, reply)]"
    using assms(3,5) by (simp add: replies_of_def reply_written_def update_thread_def)
  ultimately show ?thesis
    using service_step.answers [of "service_of s" ?id "de_bridge env" reply slots] assms(6) key
      replying_well_formed [OF assms(2-4,7)]
    by (simp add: service_of_def reply_written_def update_thread_def)
qed

lemma fails_simulated:
  assumes "active_ok s" "sent_ok env s" "i < length (ks_threads s)" "ht_phase (ks_threads s ! i) = Replying reply"
  shows "service_step (de_bridge env) slots (service_of s) (service_of (reply_failed i s))"
proof -
  let ?s = "update_thread i (set_phase Releasing) s"
  have upd: "service_of ?s = (service_of s)\<lparr>sv_table := (table_of s)(key_of s i \<mapsto> Settled)\<rparr>"
    using service_of_update [OF assms(1-3), of ?s "set_phase Releasing (ks_threads s ! i)"] assms(4)
    by (simp add: update_thread_def service_of_def)
  have "active_ok ?s"
    using active_ok_update [OF assms(1,3), of "set_phase Releasing (ks_threads s ! i)" ?s] assms(4)
    by (simp add: update_thread_def)
  moreover have "replies_of (close_generation ?s) = replies_of ?s"
    using assms(2,3) by (auto simp: replies_of_def close_generation_def update_thread_def sent_ok_def)
  ultimately have close: "service_of (close_generation ?s) = (service_of ?s)\<lparr>sv_up := False\<rparr>"
    using table_of_same [of ?s "close_generation ?s"] by (simp add: service_of_def close_generation_def)
  have "service_of (reply_failed i s) = (service_of s)\<lparr>sv_table := (table_of s)(key_of s i \<mapsto> Settled),
      sv_up := (ks_open s \<and> fst (key_of s i) \<noteq> ks_generation s)\<rparr>"
  proof (cases "fst (key_of s i) = ks_generation s")
    case True
    then have "reply_failed i s = close_generation ?s"
      by (simp add: reply_failed_def key_of_def)
    with True upd close show ?thesis by (simp add: service_of_def)
  next
    case False
    then have "reply_failed i s = ?s"
      by (simp add: reply_failed_def key_of_def)
    with False upd show ?thesis by (simp add: service_of_def)
  qed
  moreover have "table_of s (key_of s i) = Some Serving"
    using table_of_key [OF assms(1,3)] assms(4) by simp
  ultimately show ?thesis
    using service_step.gives_up [of "service_of s" "fst (key_of s i)" "snd (key_of s i)" "de_bridge env" slots]
    by (simp add: service_of_def)
qed

lemma table_of_remove:
  assumes "active_ok s" "i < length (ks_threads s)"
  shows "table_of (remove_active i s) = (table_of s)(key_of s i := None)"
proof
  fix k :: "nat \<times> string"
  obtain g ident where k: "k = (g, ident)" by force
  have "ks_active s g ident \<noteq> Some i" if "k \<noteq> key_of s i"
    using active_key [OF assms(1), of g ident i] that k by auto
  then show "table_of (remove_active i s) k = ((table_of s)(key_of s i := None)) k"
    using assms(2)
    by (cases "ks_active s g ident")
      (auto simp: k table_of_def key_of_def remove_active_def update_thread_def Let_def nth_list_update)
qed

lemma removes_simulated:
  assumes "active_ok s" "sent_ok env s" "i < length (ks_threads s)" "ht_phase (ks_threads s ! i) = Removing"
  shows "service_step (de_bridge env) slots (service_of s) (service_of (remove_active i s))"
proof -
  have "replies_of (remove_active i s) = replies_of s"
    by (rule replies_of_same [OF _ _ assms(2)])
      (use assms(3) in \<open>auto simp: remove_active_def update_thread_def Let_def nth_list_update\<close>)
  moreover have "table_of s (key_of s i) = Some Released"
    using table_of_key [OF assms(1,3)] assms(4) by simp
  ultimately show ?thesis
    using service_step.forgets [of "service_of s" "key_of s i" "de_bridge env" slots] table_of_remove [OF assms(1,3)]
    by (simp add: service_of_def remove_active_def update_thread_def Let_def)
qed

lemma releases_simulated:
  assumes "active_ok s" "sent_ok env s" "i < length (ks_threads s)" "ht_phase (ks_threads s ! i) = Releasing"
  shows "service_step (de_bridge env) slots (service_of s) (service_of (release_slot i s))"
proof -
  have "table_of s (key_of s i) = Some Settled"
    using table_of_key [OF assms(1,3)] assms(4) by simp
  then show ?thesis
    using service_step.frees [of "service_of s" "key_of s i" "de_bridge env" slots]
      service_of_update [OF assms(1-3), of "release_slot i s" "set_phase Removing (ks_threads s ! i)"] assms(4)
    by (simp add: release_slot_def update_thread_def service_of_def)
qed

lemma connects_simulated:
  assumes "\<not> ks_reading s" "cancel_ok s"
  shows "service_step env slots (service_of s)
    (service_of (s\<lparr>ks_generation := Suc (ks_generation s), ks_reading := True, ks_open := True\<rparr>))"
proof -
  let ?s = "s\<lparr>ks_generation := Suc (ks_generation s), ks_reading := True, ks_open := True\<rparr>"
  have "table_of ?s = table_of s" "replies_of ?s = replies_of s"
    by (simp_all add: fun_eq_iff table_of_def replies_of_def)
  then show ?thesis
    using service_step.opens [of "service_of s" env slots] assms by (simp add: service_of_def cancel_ok_def)
qed

lemma connector_simulated:
  assumes "connector_step env slots s s'" and inv: "active_ok s" "sent_ok env s" "cancel_ok s"
    and valid: "json_Valid (de_bridge env) unavailable_body"
  shows "service_step (de_bridge env) slots (service_of s) (service_of s')"
  using assms(1)
proof (cases rule: connector_step.cases)
  case (reads now message)
  then show ?thesis
    using read_simulated [OF inv(1,2)] by blast
next
  case lease_ends
  then show ?thesis
    using service_of_close(1) [OF inv(1,2)] service_step.closes [of "de_bridge env" slots "service_of s"] by simp
qed (use inv valid in \<open>simp_all add: service_of_cancel returns_simulated service_step.stays connects_simulated
    writes_simulated fails_simulated releases_simulated removes_simulated\<close>)

section \<open>Properties\<close>

text \<open>
  \<^bold>\<open>C13\<close> The connector implements its specification: what it shows of every state it can
  reach is a state the service can reach, every step of every goroutine is a step of the service or invisible, and so
  the requests it works on at once, over all its connections together, are never more than its slots.
\<close>

theorem connector_refines_service:
  assumes "connector_reachable env slots s" and "json_Valid (de_bridge env) unavailable_body"
  shows "service_reachable (de_bridge env) slots (service_of s)
    \<and> (\<forall>s'. connector_step env slots s s' \<longrightarrow> service_step (de_bridge env) slots (service_of s) (service_of s'))
    \<and> card {(g, ident). table_of s (g, ident) \<in> {Some Serving, Some Settled}} = ks_slots s \<and> ks_slots s \<le> slots"
proof -
  have sim: "service_step (de_bridge env) slots (service_of t) (service_of t')"
    if "connector_reachable env slots t" "connector_step env slots t t'" for t t'
    using connector_simulated [OF that(2) _ _ _ assms(2)] connector_invariant [OF that(1)] by blast
  have reach: "service_reachable (de_bridge env) slots (service_of s)"
    using assms(1)
    by (induction rule: connector_reachable.induct)
      (auto simp: service_of_fresh intro: service_reachable.intros sim)
  have "at_work (service_of s) = {(g, ident). table_of s (g, ident) \<in> {Some Serving, Some Settled}}"
    by (auto simp: at_work_def service_of_def)
  then show ?thesis
    using reach sim [OF assms(1)] service_capacity [OF reach] by (auto simp: capacity_ok_def service_of_def)
qed

theorem connector_refines_service_witness:
  "service_reachable sample_env 1 (service_of (start_handler dc_request dc_open))
   \<and> table_of (start_handler dc_request dc_open) (1, ''r1'') = Some Serving
   \<and> card {(g, ident). table_of (start_handler dc_request dc_open) (g, ident) \<in> {Some Serving, Some Settled}} = 1"
proof -
  have valid: "json_Valid (de_bridge dc_env) unavailable_body"
    by (simp add: unavailable_body_def bytes_of_string_def)
  have "ks_slots (start_handler dc_request dc_open) = 1" "de_bridge dc_env = sample_env"
    by (simp_all add: start_handler_def dc_open_def fresh_connector_def)
  moreover have "table_of (start_handler dc_request dc_open) (1, ''r1'') = Some Serving"
    by (simp add: table_of_def start_handler_def dc_open_def fresh_connector_def dc_request_def)
  ultimately show ?thesis
    using connector_refines_service [OF dc_reachable valid] by simp
qed

end
