(* ===== verification/Dev_Command.thy ===== *)
theory Dev_Command
  imports Dev_Connector
begin

text \<open>
  \<^verbatim>\<open>cmd/lotor-development-connector/main.go\<close>: from the private configuration file to a running connector. The file system
  answers with what the file is when it is looked at by name, what it is once opened, and its bytes; a file has an identity,
  a size and nine permission bits. \<open>NewKeyFromSeed\<close> of \<open>crypto/ed25519\<close> is a parameter.
\<close>

section \<open>The configuration file\<close>

record configuration =
  cg_ControlURL :: string
  cg_EndpointURL :: string
  cg_ConnectionID :: string
  cg_BindingID :: string
  cg_SigningKeyID :: string
  cg_SigningPrivateKey :: string
  cg_Scope :: Scope
  cg_LocalOrigin :: string

record file_info =
  fi_identity :: nat
  fi_regular :: bool
  fi_perm :: "32 word"
  fi_size :: int

record config_file =
  cff_Lstat :: "file_info option"
  cff_Open :: bool
  cff_Stat :: "file_info option"
  cff_Content :: bytes
  cff_Broken :: bool

definition others_excluded :: "file_info \<Rightarrow> bool" where
  "others_excluded i \<longleftrightarrow> and (fi_perm i) 63 = 0"

definition read_config :: "config_file \<Rightarrow> (bridge_error, bytes) outcome" where
  "read_config f =
     (case cff_Lstat f of
        None \<Rightarrow> Fail ErrInvalid
      | Some info \<Rightarrow>
          if \<not> fi_regular info \<or> \<not> others_excluded info \<or> fi_size info > 65536 then Fail ErrInvalid
          else if \<not> cff_Open f then Fail ErrInvalid
          else (case cff_Stat f of
                  None \<Rightarrow> Fail ErrInvalid
                | Some actual \<Rightarrow>
                    if fi_identity info \<noteq> fi_identity actual \<or> \<not> fi_regular actual \<or> \<not> others_excluded actual then Fail ErrInvalid
                    else if cff_Broken f \<or> length (cff_Content f) > 65536 then Fail ErrInvalid
                    else Ok (cff_Content f)))"

section \<open>The signing key\<close>

definition signing_key :: "(bytes \<Rightarrow> bytes) \<Rightarrow> string \<Rightarrow> (bridge_error, bytes) outcome" where
  "signing_key NewKeyFromSeed encoded =
     (case b64_decode True encoded of
        None \<Rightarrow> Fail ErrInvalid
      | Some decoded \<Rightarrow>
          let secret = (if length decoded = SeedSize then NewKeyFromSeed decoded else decoded) in
          if length secret \<noteq> PrivateKeySize \<or> NewKeyFromSeed (take SeedSize secret) \<noteq> secret then Fail ErrInvalid
          else Ok secret)"

section \<open>The command\<close>

text \<open>
  What \<open>run\<close> sets up before it calls \<open>Run\<close>: the provider, the handler and the connector. The session source of the
  connector is the provider, asked with the given answers of its surroundings.
\<close>

record command_env =
  ce_dev :: dev_env
  ce_Config :: "configuration json_codec"
  ce_NewKeyFromSeed :: "bytes \<Rightarrow> bytes"
  ce_URLString :: "go_url \<Rightarrow> string"
  ce_Dispatch :: local_do
  ce_Http :: session_http
  ce_Asked :: "nat \<Rightarrow> bytes option \<times> int \<times> int \<times> int"

definition session_source :: "command_env \<Rightarrow> session_provider \<Rightarrow> nat \<Rightarrow> (bridge_error, Session) outcome" where
  "session_source env pr k =
     (let (random, now, checked) = ce_Asked env k in request_session (ce_dev env) (ce_Http env) pr random now checked)"

definition provider_options :: "configuration \<Rightarrow> bytes \<Rightarrow> ProofSessionOptions" where
  "provider_options config secret =
     \<lparr>po_Scope = cg_Scope config, po_ControlURL = cg_ControlURL config, po_EndpointURL = cg_EndpointURL config,
      po_ConnectionID = cg_ConnectionID config, po_BindingID = cg_BindingID config, po_SigningKeyID = cg_SigningKeyID config,
      po_SigningKey = secret\<rparr>"

definition run_setup :: "command_env \<Rightarrow> config_file \<Rightarrow> (bridge_error, session_provider \<times> ConnectorOptions) outcome" where
  "run_setup env f =
     bind_outcome (read_config f) (\<lambda>raw.
       case js_decode_all (ce_Config env) raw of
         None \<Rightarrow> Fail ErrInvalid
       | Some config \<Rightarrow>
           bind_outcome (signing_key (ce_NewKeyFromSeed env) (cg_SigningPrivateKey config)) (\<lambda>secret.
           bind_outcome (NewProofSessionProvider (ce_dev env) (ce_URLString env)
               (provider_options config secret)) (\<lambda>provider.
           bind_outcome (NewLocalHandler (de_net (ce_dev env)) (ce_URLString env) (ce_Dispatch env) (cg_LocalOrigin config)) (\<lambda>handler.
           bind_outcome (NewConnector \<lparr>kc_Handler = Some handler, kc_Session = Some (session_source env provider), kc_MaxConcurrent = 0,
                            kc_ReconnectMin = 0, kc_ReconnectMax = 0\<rparr>) (\<lambda>options.
             Ok (provider, options))))))"

definition command_run :: "command_env \<Rightarrow> config_file \<Rightarrow> attempt list \<Rightarrow> (bridge_error, run_result option \<times> int list) outcome" where
  "command_run env f attempts = bind_outcome (run_setup env f) (\<lambda>(provider, options). Ok (Run options attempts))"

text \<open>
  The exit code of \<open>main\<close>, once there is one: the end of the context by a signal is a normal end, every error is the
  code 1, and a panic is Go's code 2.
\<close>

definition command_main :: "command_env \<Rightarrow> config_file \<Rightarrow> attempt list \<Rightarrow> nat option" where
  "command_main env f attempts =
     (case command_run env f attempts of
        Fail e \<Rightarrow> Some 1
      | Panic \<Rightarrow> Some 2
      | Ok (result, waits) \<Rightarrow>
          (case result of None \<Rightarrow> None | Some ContextEnded \<Rightarrow> Some 0 | Some (RunFailed e) \<Rightarrow> Some 1))"

section \<open>Facts\<close>

lemma read_config_Ok:
  "read_config f = Ok raw \<Longrightarrow> \<exists>info actual. cff_Lstat f = Some info \<and> cff_Stat f = Some actual \<and> fi_identity info = fi_identity actual
     \<and> fi_regular actual \<and> others_excluded actual \<and> others_excluded info \<and> raw = cff_Content f \<and> length raw \<le> 65536"
  by (auto simp: read_config_def split: option.split_asm if_split_asm)

lemma signing_key_Ok:
  "signing_key new encoded = Ok secret \<Longrightarrow> length secret = PrivateKeySize \<and> new (take SeedSize secret) = secret"
  by (auto simp: signing_key_def Let_def split: option.split_asm if_split_asm)

lemma NewConnector_defaults:
  "NewConnector \<lparr>kc_Handler = Some h, kc_Session = Some s, kc_MaxConcurrent = 0, kc_ReconnectMin = 0, kc_ReconnectMax = 0\<rparr>
     = Ok \<lparr>kc_Handler = Some h, kc_Session = Some s, kc_MaxConcurrent = 4, kc_ReconnectMin = 250000000, kc_ReconnectMax = 30000000000\<rparr>"
  by (simp add: NewConnector_def connector_defaults_def word_sless_alt word_sle_eq)

lemma provider_key:
  "NewProofSessionProvider env url options = Ok pr \<Longrightarrow>
     pr_key pr = po_SigningKey options \<and> pr_keyID pr = po_SigningKeyID options \<and> pr_connectionID pr = po_ConnectionID options
     \<and> validProof (pr_proof pr) \<and> cp_ConnectionID (pr_proof pr) = po_ConnectionID options"
  by (auto simp: NewProofSessionProvider_def Let_def split: outcome.split_asm if_split_asm)

text \<open>The command connects only with a file no one else can read, the very file it examined, and with a signing key whose two
  halves belong together; the connector runs with the default limits.\<close>

lemma run_setup_Ok:
  assumes "run_setup env f = Ok (provider, options)"
  shows "\<exists>info actual. cff_Lstat f = Some info \<and> cff_Stat f = Some actual \<and> fi_identity info = fi_identity actual
      \<and> fi_regular actual \<and> others_excluded actual \<and> length (cff_Content f) \<le> 65536"
    and "length (pr_key provider) = PrivateKeySize" "ce_NewKeyFromSeed env (take SeedSize (pr_key provider)) = pr_key provider"
    and "kc_Session options = Some (session_source env provider)" "kc_MaxConcurrent options = 4"
      "kc_ReconnectMin options = 250000000" "kc_ReconnectMax options = 30000000000"
proof -
  have "\<exists>raw config secret handler. read_config f = Ok raw
      \<and> signing_key (ce_NewKeyFromSeed env) (cg_SigningPrivateKey config) = Ok secret
      \<and> NewProofSessionProvider (ce_dev env) (ce_URLString env) (provider_options config secret) = Ok provider
      \<and> options = \<lparr>kc_Handler = Some handler, kc_Session = Some (session_source env provider), kc_MaxConcurrent = 4,
          kc_ReconnectMin = 250000000, kc_ReconnectMax = 30000000000\<rparr>"
    using assms by (auto simp: run_setup_def outcome_simps NewConnector_defaults split: option.split_asm) blast
  then obtain raw config secret handler where raw: "read_config f = Ok raw"
    and secret: "signing_key (ce_NewKeyFromSeed env) (cg_SigningPrivateKey config) = Ok secret"
    and provider: "NewProofSessionProvider (ce_dev env) (ce_URLString env) (provider_options config secret) = Ok provider"
    and options: "options = \<lparr>kc_Handler = Some handler, kc_Session = Some (session_source env provider), kc_MaxConcurrent = 4,
        kc_ReconnectMin = 250000000, kc_ReconnectMax = 30000000000\<rparr>"
    by blast
  show "\<exists>info actual. cff_Lstat f = Some info \<and> cff_Stat f = Some actual \<and> fi_identity info = fi_identity actual
      \<and> fi_regular actual \<and> others_excluded actual \<and> length (cff_Content f) \<le> 65536"
    using read_config_Ok [OF raw] by auto
  show "length (pr_key provider) = PrivateKeySize" "ce_NewKeyFromSeed env (take SeedSize (pr_key provider)) = pr_key provider"
    using signing_key_Ok [OF secret] provider_key [OF provider] by (simp_all add: provider_options_def)
  show "kc_Session options = Some (session_source env provider)" "kc_MaxConcurrent options = 4"
      "kc_ReconnectMin options = 250000000" "kc_ReconnectMax options = 30000000000"
    by (simp_all add: options)
qed

text \<open>The command ends normally only when it was set up and stopped from outside.\<close>

lemma command_main_normal:
  assumes "command_main env f attempts = Some 0"
  obtains provider options where "run_setup env f = Ok (provider, options)" "fst (Run options attempts) = Some ContextEnded"
proof -
  obtain provider options where "run_setup env f = Ok (provider, options)"
    using assms by (auto simp: command_main_def command_run_def outcome_simps split: outcome.split_asm)
  with assms that show thesis
    by (auto simp: command_main_def command_run_def split: prod.split_asm option.split_asm run_result.split_asm)
qed

end
