(* ===== verification/Function_Bindings.thy ===== *)
theory Function_Bindings
  imports Control_Resources Bridge_EndToEnd Bridge_Control
begin

text \<open>
  \<^verbatim>\<open>lotorhttp/function_bindings.go\<close>: function bindings at Control, the authorization of one invocation, and the
  invocation client built from it. A manifest's list of functions is a list; Go's \<open>nil\<close> slice is not told apart from an
  empty one there.
\<close>

section \<open>Types\<close>

record FunctionBindingRegistration =
  fbr_EndpointURL :: string
  fbr_SigningKeyID :: string
  fbr_SigningPublicKey :: string
  fbr_EncryptionPublicKey :: string
  fbr_AuthenticationMode :: string
  fbr_Manifest :: Manifest

record FunctionBindingChallenge =
  fbc_ID :: string
  fbc_Status :: string
  fbc_ExpiresAt :: i64

record FunctionBinding_t =
  fbn_Challenge :: "FunctionBindingChallenge option"
  fbn_VerifiedAt :: "i64 option"
  fbn_Scope :: Scope
  fbn_SigningPublicKey :: string
  fbn_Audience :: string
  fbn_Status :: string
  fbn_SigningKeyID :: string
  fbn_ID :: string
  fbn_EncryptionPublicKey :: string
  fbn_AuthenticationMode :: string
  fbn_ManifestDigest :: string
  fbn_EndpointURL :: string
  fbn_Resource :: string
  fbn_Manifest :: Manifest
  fbn_Revision :: i64
  fbn_CreatedAt :: i64

record FunctionBindingList =
  fbl_NextCursor :: "string option"
  fbl_Bindings :: "FunctionBinding_t list option"

record FunctionInvocationInput =
  fii_Function :: Function
  fii_InputDigest :: string
  fii_PolicyDigest :: string
  fii_Resources :: "string list option"
  fii_Capabilities :: "string list option"
  fii_Input :: bytes
  fii_ExpectedBindingRevision :: i64

record FunctionInvocationAuthorization =
  fia_EndpointURL :: string
  fia_AuthenticationMode :: string
  fia_SigningKeyID :: string
  fia_SigningPublicKey :: string
  fia_Authorization :: SignedMessage
  fia_ExpiresAt :: i64

definition json_Function :: "Function \<Rightarrow> json" where
  "json_Function f =
     JObj [(''name'', JStr (fn_Name f)), (''version'', JStr (fn_Version f)), (''input_schema_digest'', JStr (fn_InputSchemaDigest f)),
           (''output_schema_digest'', JStr (fn_OutputSchemaDigest f))]"

definition json_Manifest :: "Manifest \<Rightarrow> json" where
  "json_Manifest m =
     JObj [(''functions'', JArr (map json_Function (mf_Functions m))), (''protocol_version'', JInt (sint (mf_ProtocolVersion m)))]"

definition json_FunctionBindingRegistration :: "FunctionBindingRegistration \<Rightarrow> json" where
  "json_FunctionBindingRegistration v = JObj
     ([(''endpoint_url'', JStr (fbr_EndpointURL v)), (''signing_key_id'', JStr (fbr_SigningKeyID v)),
       (''signing_public_key'', JStr (fbr_SigningPublicKey v))]
      @ omit_str ''encryption_public_key'' (fbr_EncryptionPublicKey v)
      @ [(''authentication_mode'', JStr (fbr_AuthenticationMode v)), (''manifest'', json_Manifest (fbr_Manifest v))])"

definition json_FunctionInvocationInput :: "FunctionInvocationInput \<Rightarrow> json" where
  "json_FunctionInvocationInput v = JObj
     ([(''function'', json_Function (fii_Function v)), (''input_digest'', JStr (fii_InputDigest v))]
      @ omit_str ''policy_digest'' (fii_PolicyDigest v)
      @ [(''resources'', json_strs (fii_Resources v)), (''capabilities'', json_strs (fii_Capabilities v)),
         (''input'', JRaw (fii_Input v)), (''expected_binding_revision'', JInt (sint (fii_ExpectedBindingRevision v)))])"

section \<open>Authorizing one invocation\<close>

definition functionBindingPath :: "string \<Rightarrow> string" where
  "functionBindingPath resource = ''/resources/'' @ path_escape (requiredControl resource) @ ''/function-bindings''"

definition listed :: "'a list option \<Rightarrow> 'a list" where
  "listed s = (case s of None \<Rightarrow> [] | Some xs \<Rightarrow> xs)"

definition grant_matches :: "string \<Rightarrow> string \<Rightarrow> FunctionInvocationInput \<Rightarrow> i64 \<Rightarrow> Authorization \<Rightarrow> bool" where
  "grant_matches resource bindingID input expires a \<longleftrightarrow>
     au_ProtocolVersion a = ProtocolVersion \<and> au_Kind a = ''invocation'' \<and> au_BindingID a = bindingID \<and> au_Audience a = bindingID
     \<and> sc_OwnerResource (au_Scope a) = resource \<and> au_BindingRevision a = fii_ExpectedBindingRevision input
     \<and> au_Function a = Some (fii_Function input) \<and> au_InputDigest a = fii_InputDigest input \<and> Digest (au_Input a) = fii_InputDigest input
     \<and> au_PolicyDigest a = fii_PolicyDigest input \<and> au_Resources a = listed (fii_Resources input)
     \<and> au_Capabilities a = listed (fii_Capabilities input) \<and> au_ExpiresAt a = expires"

definition matchesFunctionGrant ::
  "bridge_env \<Rightarrow> FunctionInvocationAuthorization \<Rightarrow> string \<Rightarrow> string \<Rightarrow> FunctionInvocationInput \<Rightarrow> bool" where
  "matchesFunctionGrant env grant resource bindingID input =
     (case b64_decode True (sm_Payload (fia_Authorization grant)) of
        None \<Rightarrow> False
      | Some raw \<Rightarrow>
          (case js_unmarshal (js_Authorization env) raw of
             None \<Rightarrow> False
           | Some a \<Rightarrow> grant_matches resource bindingID input (fia_ExpiresAt grant) a))"

definition zero_FunctionInvocationAuthorization :: FunctionInvocationAuthorization where
  "zero_FunctionInvocationAuthorization = \<lparr>fia_EndpointURL = [], fia_AuthenticationMode = [], fia_SigningKeyID = [], fia_SigningPublicKey = [],
     fia_Authorization = \<lparr>sm_KeyID = [], sm_Payload = [], sm_Signature = []\<rparr>, fia_ExpiresAt = 0\<rparr>"

definition canonical_input :: "FunctionInvocationInput \<Rightarrow> bytes \<Rightarrow> FunctionInvocationInput" where
  "canonical_input input canonical = input\<lparr>fii_Input := canonical, fii_InputDigest := Digest canonical\<rparr>"

definition AuthorizeFunctionInvocation ::
  "api_env \<Rightarrow> bridge_env \<Rightarrow> FunctionInvocationAuthorization reader \<Rightarrow> control_net \<Rightarrow> ControlClient \<Rightarrow> string \<Rightarrow> string \<Rightarrow>
   FunctionInvocationInput \<Rightarrow> string \<Rightarrow> FunctionInvocationAuthorization control_op" where
  "AuthorizeFunctionInvocation env benv rd net c resource bindingID input key =
     (if cc_userToken c = [] then op_fail (ClientError ''function invocation requires ForUser delegation'')
      else if length (fii_Input input) = 0 \<or> length (fii_Input input) > MaximumInputBytes \<or> fii_InputDigest input \<noteq> Digest (fii_Input input)
      then op_fail (BridgeError ''invalid'')
      else case marshal_RawMessage benv (fii_Input input) of
        None \<Rightarrow> op_fail (BridgeError ''invalid'')
      | Some canonical \<Rightarrow>
          if length canonical > MaximumInputBytes then op_fail (BridgeError ''invalid'')
          else
            let input' = canonical_input input canonical in
            op_bind (requestHeadersLimit env net c ''POST''
                (functionBindingPath resource @ ''/'' @ path_escape (requiredControl bindingID) @ ''/invocations'') key []
                (Some (json_FunctionInvocationInput input')) (Some rd) MaximumBodyBytes)
              (\<lambda>(_, v).
                 let out = (case v of None \<Rightarrow> zero_FunctionInvocationAuthorization | Some g \<Rightarrow> g) in
                 if \<not> matchesFunctionGrant benv out (requiredControl resource) (requiredControl bindingID) input'
                 then op_fail (BridgeError ''unauthorized'') else op_return out))"

section \<open>The invocation client of a grant\<close>

definition grant_options ::
  "FunctionInvocationAuthorization \<Rightarrow> ControlKeys \<Rightarrow> Authorization \<Rightarrow> bytes \<Rightarrow> tls_config option \<Rightarrow> client_Options" where
  "grant_options grant keys a public network =
     \<lparr>op_TransportOptions = network, op_Dispatcher = None, op_TrustedKeys = ck_Keys keys, op_Scope = au_Scope a,
      op_ManifestDigest = au_ManifestDigest a, op_EndpointURL = fia_EndpointURL grant, op_Issuer = ck_Issuer keys,
      op_SigningKeyID = fia_SigningKeyID grant, op_Audience = au_Audience a, op_BindingID = au_BindingID a,
      op_AuthenticationMode = fia_AuthenticationMode grant, op_SigningPublicKey = public, op_BindingRevision = au_BindingRevision a\<rparr>"

definition grant_NewClient ::
  "bridge_env \<Rightarrow> net_env \<Rightarrow> http_do \<Rightarrow> FunctionInvocationAuthorization \<Rightarrow> ControlKeys \<Rightarrow> tls_config option \<Rightarrow>
   (bridge_error, bridge_Client) outcome" where
  "grant_NewClient env net http grant keys network =
     (case map_get (ck_Keys keys) (sm_KeyID (fia_Authorization grant)) of
        None \<Rightarrow> Fail ErrUnauthorized
      | Some key \<Rightarrow>
          (case VerifyAuthorization env (fia_Authorization grant) key of
             Ok (a, _) \<Rightarrow>
               (case b64_decode True (fia_SigningPublicKey grant) of
                  None \<Rightarrow> Fail ErrInvalid
                | Some public \<Rightarrow>
                    if length public \<noteq> PublicKeySize then Fail ErrInvalid
                    else client_New env net http (grant_options grant keys a public network))
           | _ \<Rightarrow> Fail ErrUnauthorized))"

section \<open>Binding management\<close>

definition binding_path :: "string \<Rightarrow> string \<Rightarrow> string" where
  "binding_path resource bindingID = functionBindingPath resource @ ''/'' @ path_escape (requiredControl bindingID)"

definition RegisterFunctionBinding ::
  "api_env \<Rightarrow> FunctionBinding_t reader \<Rightarrow> control_net \<Rightarrow> ControlClient \<Rightarrow> string \<Rightarrow> FunctionBindingRegistration \<Rightarrow> string \<Rightarrow>
   FunctionBinding_t option control_op" where
  "RegisterFunctionBinding env rd net c resource input key =
     api_request env net c ''POST'' (functionBindingPath resource) key (Some (json_FunctionBindingRegistration input)) (Some rd)"

definition FunctionBindings ::
  "api_env \<Rightarrow> FunctionBindingList reader \<Rightarrow> control_net \<Rightarrow> ControlClient \<Rightarrow> string \<Rightarrow> string \<Rightarrow> int \<Rightarrow> FunctionBindingList option control_op" where
  "FunctionBindings env rd net c resource cursor limit =
     api_request env net c ''GET'' (functionBindingPath resource @ pagination cursor limit) [] None (Some rd)"

definition FunctionBinding ::
  "api_env \<Rightarrow> FunctionBinding_t reader \<Rightarrow> control_net \<Rightarrow> ControlClient \<Rightarrow> string \<Rightarrow> string \<Rightarrow> FunctionBinding_t option control_op" where
  "FunctionBinding env rd net c resource bindingID =
     api_request env net c ''GET'' (binding_path resource bindingID) [] None (Some rd)"

definition UpdateFunctionBindingEndpoint ::
  "api_env \<Rightarrow> FunctionBinding_t reader \<Rightarrow> control_net \<Rightarrow> ControlClient \<Rightarrow> string \<Rightarrow> string \<Rightarrow> string \<Rightarrow> i64 \<Rightarrow>
   FunctionBinding_t option control_op" where
  "UpdateFunctionBindingEndpoint env rd net c resource bindingID endpoint expectedRevision =
     api_request env net c ''PUT'' (binding_path resource bindingID @ ''/endpoint'') []
       (Some (JObj [(''endpoint_url'', JStr endpoint), (''expected_revision'', JInt (sint expectedRevision))])) (Some rd)"

definition VerifyFunctionBinding ::
  "api_env \<Rightarrow> FunctionBinding_t reader \<Rightarrow> control_net \<Rightarrow> ControlClient \<Rightarrow> string \<Rightarrow> string \<Rightarrow> FunctionBinding_t option control_op" where
  "VerifyFunctionBinding env rd net c resource bindingID =
     api_request env net c ''POST'' (binding_path resource bindingID @ ''/verify'') [] None (Some rd)"

definition RevokeFunctionBinding ::
  "api_env \<Rightarrow> control_net \<Rightarrow> ControlClient \<Rightarrow> string \<Rightarrow> string \<Rightarrow> unit option control_op" where
  "RevokeFunctionBinding env net c resource bindingID =
     api_request env net c ''DELETE'' (binding_path resource bindingID) [] None None"

section \<open>Facts\<close>

context client_policy
begin

lemma sends_AuthorizeFunctionInvocation: "sends allowed (AuthorizeFunctionInvocation env benv rd net c resource bindingID input key)"
  by (auto simp: AuthorizeFunctionInvocation_def Let_def plain_headers_def intro!: sends_intros split: option.split)

lemma sends_bindings:
  "sends allowed (RegisterFunctionBinding env rd net c resource registration key)"
  "sends allowed (FunctionBindings env rdl net c resource cursor limit)"
  "sends allowed (FunctionBinding env rd net c resource bindingID)"
  "sends allowed (UpdateFunctionBindingEndpoint env rd net c resource bindingID endpoint revision)"
  "sends allowed (VerifyFunctionBinding env rd net c resource bindingID)"
  "sends allowed (RevokeFunctionBinding env net c resource bindingID)"
  by (auto simp: RegisterFunctionBinding_def FunctionBindings_def FunctionBinding_def UpdateFunctionBindingEndpoint_def
      VerifyFunctionBinding_def RevokeFunctionBinding_def intro!: sends_intros)

end


lemma requestHeadersLimit_Ok:
  assumes "requestHeadersLimit env net c meth path key extra body out limit log = (Ok v, log')"
  shows "\<exists>call. log' = log @ [call] \<and> cl_URL call = control_base c @ path \<and> cl_Header call = control_headers c (body \<noteq> None) key extra"
  using assms control_request_of_Ok [of env c meth path key extra body]
  by (auto simp: requestHeadersLimit_def Let_def split: outcome.split_asm option.split_asm)

lemma AuthorizeFunctionInvocation_Ok:
  assumes "AuthorizeFunctionInvocation env benv rd net c resource bindingID input key log = (Ok grant, log')"
  shows "cc_userToken c \<noteq> [] \<and> fii_InputDigest input = Digest (fii_Input input) \<and>
    (\<exists>canonical call. marshal_RawMessage benv (fii_Input input) = Some canonical \<and> length canonical \<le> MaximumInputBytes
      \<and> log' = log @ [call] \<and> cl_URL call = control_base c @ binding_path resource bindingID @ ''/invocations''
      \<and> cl_Header call = control_headers c True key []
      \<and> matchesFunctionGrant benv grant (requiredControl resource) (requiredControl bindingID) (canonical_input input canonical))"
proof -
  obtain canonical where checks: "cc_userToken c \<noteq> []" "fii_InputDigest input = Digest (fii_Input input)"
    "marshal_RawMessage benv (fii_Input input) = Some canonical" "length canonical \<le> MaximumInputBytes"
    using assms by (auto simp: AuthorizeFunctionInvocation_def op_fail_def Let_def split: if_split_asm option.split_asm)
  define path where "path = functionBindingPath resource @ ''/'' @ path_escape (requiredControl bindingID) @ ''/invocations''"
  obtain hd v log1 where sent: "requestHeadersLimit env net c ''POST'' path key []
      (Some (json_FunctionInvocationInput (canonical_input input canonical))) (Some rd) MaximumBodyBytes log = (Ok (hd, v), log1)"
    and out: "grant = (case v of None \<Rightarrow> zero_FunctionInvocationAuthorization | Some g \<Rightarrow> g)" "log' = log1"
      "matchesFunctionGrant benv grant (requiredControl resource) (requiredControl bindingID) (canonical_input input canonical)"
    using assms checks
    by (auto simp: AuthorizeFunctionInvocation_def Let_def op_bind_def op_fail_def op_return_def path_def
        split: prod.split_asm outcome.split_asm if_split_asm)
  from requestHeadersLimit_Ok [OF sent] checks out show ?thesis
    by (auto simp: path_def binding_path_def)
qed

lemma grant_NewClient_Ok:
  assumes "grant_NewClient env net http grant keys network = Ok client"
  shows "\<exists>k a raw public. map_get (ck_Keys keys) (sm_KeyID (fia_Authorization grant)) = Some k
    \<and> VerifyAuthorization env (fia_Authorization grant) k = Ok (a, raw) \<and> b64_decode True (fia_SigningPublicKey grant) = Some public
    \<and> bc_options client = grant_options grant keys a public network"
  using assms
  by (auto simp: grant_NewClient_def client_New_def split: option.split_asm outcome.split_asm if_split_asm prod.split_asm)

section \<open>A grant and its client\<close>

definition fb_grant :: Authorization where
  "fb_grant = sample_grant\<lparr>au_Audience := ''binding''\<rparr>"

definition fb_env :: bridge_env where
  "fb_env = rt_env\<lparr>js_Authorization := table_codec [(fb_grant, [4])]\<rparr>"

definition fb_answer :: FunctionInvocationAuthorization where
  "fb_answer = \<lparr>fia_EndpointURL = ''https://f'', fia_AuthenticationMode = ''signed_https'', fia_SigningKeyID = ''k1'',
     fia_SigningPublicKey = b64_encode sample_pub, fia_Authorization = sample_message, fia_ExpiresAt = au_ExpiresAt fb_grant\<rparr>"

definition fb_input :: FunctionInvocationInput where
  "fb_input = \<lparr>fii_Function = sample_function, fii_InputDigest = au_InputDigest fb_grant, fii_PolicyDigest = au_PolicyDigest fb_grant,
     fii_Resources = Some (au_Resources fb_grant), fii_Capabilities = Some (au_Capabilities fb_grant), fii_Input = au_Input fb_grant,
     fii_ExpectedBindingRevision = 1\<rparr>"

definition fb_keys :: ControlKeys where
  "fb_keys = \<lparr>ck_Keys = [(''k1'', sample_pub)], ck_Issuer = ''control''\<rparr>"


lemma fb_verified: "VerifyAuthorization fb_env sample_message sample_pub = Ok (fb_grant, [4])"
proof -
  have "verify rt_env sample_message authorizationPurpose sample_pub = Ok [4]"
    using sample_verified by (simp add: VerifyAuthorization_Ok_iff)
  then have "verify fb_env sample_message authorizationPurpose sample_pub = Ok [4]"
    by (simp add: verify_Ok_iff fb_env_def)
  then show ?thesis
    by (simp add: VerifyAuthorization_Ok_iff strictJSON_def js_decode_all_def fb_env_def)
qed

lemma fb_authorized:
  "\<exists>log'. AuthorizeFunctionInvocation cw_env fb_env (\<lambda>raw. Some fb_answer) cw_net cw_client ''o'' ''binding'' fb_input ''k'' [] = (Ok fb_answer, log')"
proof -
  have input: "au_Input fb_grant = [49]" "au_InputDigest fb_grant = Digest [49]" "cc_userToken cw_client \<noteq> []"
    by (simp_all add: fb_grant_def sample_grant_def sample_authorization_def cw_client_def)
  have canonical: "marshal_RawMessage fb_env [49] = Some [49]"
    by (simp add: fb_env_def rt_env_def)
  have trims: "requiredControl ''o'' = ''o''" "requiredControl ''binding'' = ''binding''"
    by (simp_all add: requiredControl_def trim_space_ident ident_char_def)
  have same: "canonical_input fb_input [49] = fb_input"
    by (simp add: canonical_input_def fb_input_def input)
  have bound: "grant_matches ''o'' ''binding'' fb_input (au_ExpiresAt fb_grant) fb_grant"
    by (simp add: grant_matches_def fb_input_def fb_grant_def sample_grant_def sample_authorization_def ProtocolVersion_def listed_def)
  have payload: "b64_decode True (sm_Payload (fia_Authorization fb_answer)) = Some [4]" "fia_ExpiresAt fb_answer = au_ExpiresAt fb_grant"
    by (simp_all add: fb_answer_def sample_message_def del: b64_encode.simps)
  have "matchesFunctionGrant fb_env fb_answer ''o'' ''binding'' fb_input"
    unfolding matchesFunctionGrant_def payload by (simp add: fb_env_def bound)
  then have accepted: "matchesFunctionGrant fb_env fb_answer (requiredControl ''o'') (requiredControl ''binding'') (canonical_input fb_input [49])"
    by (simp only: trims same)
  have sel: "fii_Input fb_input = [49]" "fii_InputDigest fb_input = Digest [49]"
    by (simp_all add: fb_input_def input)
  have answer: "fst (requestHeadersLimit cw_env cw_net cw_client meth path ''k'' [] (Some body) (Some (\<lambda>raw. Some fb_answer)) MaximumBodyBytes [])
      = Ok ([], Some fb_answer)" for meth path body
    by (simp add: requestHeadersLimit_def control_request_of_def control_reply_of_def cw_net_def cw_env_def MaximumBodyBytes_def)
  show ?thesis
    unfolding AuthorizeFunctionInvocation_def Let_def sel canonical option.case
    using input(3) accepted by (simp add: op_bind_sent answer op_return_def MaximumInputBytes_def)
qed

lemma fb_client: "\<exists>client. grant_NewClient fb_env sample_net sample_http fb_answer fb_keys None = Ok client"
proof -
  have key: "map_get (ck_Keys fb_keys) (sm_KeyID (fia_Authorization fb_answer)) = Some sample_pub"
    "fia_Authorization fb_answer = sample_message" "b64_decode True (fia_SigningPublicKey fb_answer) = Some sample_pub"
    by (simp_all add: fb_keys_def fb_answer_def sample_message_def map_get_def del: b64_encode.simps)
  have "isDigest sample_manifest_digest"
    by (simp add: sample_manifest_digest_def)
  then have "\<exists>client. client_New fb_env sample_net sample_http (grant_options fb_answer fb_keys fb_grant sample_pub None) = Ok client"
    using sample_endpoint
    by (auto simp: client_New_def grant_options_def fb_answer_def fb_keys_def fb_grant_def sample_grant_def sample_authorization_def
        client_identifier_eq client_digest_eq identifier_ok_small sample_pub_def word_sless_alt new_HTTPSDispatcher_def
        simp del: b64_encode.simps)
  with key fb_verified show ?thesis
    by (simp add: grant_NewClient_def sample_pub_def del: b64_encode.simps)
qed

section \<open>Properties\<close>



end
