(* ===== verification/Org_Clients.thy ===== *)
theory Org_Clients
  imports Control_Resources
begin

text \<open>
  \<^verbatim>\<open>lotorhttp/organization_relay.go\<close> and \<^verbatim>\<open>lotorhttp/scim.go\<close>: the function bindings of an organization's box and the
  SCIM directories of an organization, each with the decoding and checking of Control's answers. What
  \<open>encoding/json\<close> makes of an answer is given by \<open>org_env\<close>: the members of an object (those of \<open>null\<close> are none), and
  one reader for each Go type.
\<close>

section \<open>Types\<close>

record OrganizationFunctionBindingBootstrap =
  obb_BindingID :: string
  obb_Status :: string
  obb_BootstrapToken :: string

record OrganizationFunctionBindingChallengeStatus =
  obc_Status :: string
  obc_ExpiresAt :: i64
  obc_ChallengedAt :: i64

record OrganizationFunctionBindingStatus =
  obs_BindingID :: string
  obs_Status :: string
  obs_BoxSubject :: string
  obs_SigningKeyID :: string
  obs_Challenge :: OrganizationFunctionBindingChallengeStatus
  obs_BootstrapExpiresAt :: i64
  obs_LastSeenAt :: i64

record SCIMDirectory_t =
  scd_ID :: string
  scd_Resource :: string
  scd_Organization :: string
  scd_CredentialResource :: string
  scd_Status :: string
  scd_BaseURL :: string
  scd_Revision :: i64

record SCIMDirectoryCreateInput =
  sci_DirectoryResource :: string
  sci_CredentialResource :: string
  sci_ExpectedResourceRevision :: i64
  sci_ExpectedLifecycleGeneration :: i64

record SCIMDirectoryUpdateInput =
  scu_Enabled :: bool
  scu_ExpectedRevision :: i64

record SCIMDirectoryList =
  scl_NextCursor :: "string option"
  scl_Directories :: "SCIMDirectory_t list"

definition json_SCIMDirectoryCreateInput :: "SCIMDirectoryCreateInput \<Rightarrow> json" where
  "json_SCIMDirectoryCreateInput v = JObj
     [(''directory_resource'', JStr (sci_DirectoryResource v)), (''credential_resource'', JStr (sci_CredentialResource v)),
      (''expected_resource_revision'', JInt (sint (sci_ExpectedResourceRevision v))),
      (''expected_lifecycle_generation'', JInt (sint (sci_ExpectedLifecycleGeneration v)))]"

definition json_SCIMDirectoryUpdateInput :: "SCIMDirectoryUpdateInput \<Rightarrow> json" where
  "json_SCIMDirectoryUpdateInput v = JObj [(''enabled'', JBool (scu_Enabled v)), (''expected_revision'', JInt (sint (scu_ExpectedRevision v)))]"

record scim_page =
  pg_NextCursor :: "string option"
  pg_Directories :: "bytes list option"

record org_env =
  oe_api :: api_env
  oe_Fields :: "bytes \<Rightarrow> (string \<times> bytes) list option"
  oe_Challenge :: "bytes \<Rightarrow> OrganizationFunctionBindingChallengeStatus option"
  oe_Status :: "bytes \<Rightarrow> OrganizationFunctionBindingStatus option"
  oe_Bootstrap :: "OrganizationFunctionBindingBootstrap reader"
  oe_Raws :: "bytes list option reader"
  oe_Directory :: "SCIMDirectory_t json_codec"
  oe_Page :: "scim_page json_codec"

section \<open>Bindings of an organization\<close>

text \<open>The pattern \<^verbatim>\<open>^efb_[A-Za-z0-9_-]+$\<close>.\<close>

definition binding_id_char :: "char \<Rightarrow> bool" where
  "binding_id_char ch \<longleftrightarrow> (let n = of_char ch :: nat in
     in_range 65 90 n \<or> in_range 97 122 n \<or> in_range 48 57 n \<or> n = 95 \<or> n = 45)"

definition organizationBindingID :: "string \<Rightarrow> bool" where
  "organizationBindingID s \<longleftrightarrow> has_prefix s ''efb_'' \<and> length s > 4 \<and> list_all binding_id_char (drop 4 s)"

definition organizationBindingPath :: "ControlClient \<Rightarrow> string \<Rightarrow> string \<Rightarrow> (control_error, string) outcome" where
  "organizationBindingPath c organization bindingID =
     (if cc_userToken c = [] then Fail (ClientError ''organization box operations require ForUser delegation'')
      else if trim_space organization = [] \<or> length organization > 512 \<or> length bindingID > 256
      then Fail (ClientError ''invalid organization binding input'')
      else Ok (''/resources/'' @ path_escape organization @ ''/e2ee/function-bindings''
               @ (if bindingID \<noteq> [] then ''/'' @ path_escape bindingID else [])))"

definition challenge_ok :: "OrganizationFunctionBindingChallengeStatus \<Rightarrow> bool" where
  "challenge_ok v \<longleftrightarrow> \<not> obc_ExpiresAt v <s 0 \<and> \<not> obc_ChallengedAt v <s 0
     \<and> (if obc_Status v \<in> set [''not_started'', ''failed'', ''unavailable''] then True
        else if obc_Status v \<in> set [''pending'', ''expired''] then obc_ExpiresAt v \<noteq> 0
        else if obc_Status v = ''ready'' then obc_ChallengedAt v \<noteq> 0
        else False)"

definition decodeOrganizationBindingChallenge ::
  "org_env \<Rightarrow> bytes \<Rightarrow> (control_error, OrganizationFunctionBindingChallengeStatus) outcome" where
  "decodeOrganizationBindingChallenge env raw =
     (case (oe_Fields env raw, oe_Challenge env raw) of
        (Some fs, Some out) \<Rightarrow>
          if \<not> list_all (\<lambda>(name, _). name \<in> set [''status'', ''expires_at'', ''challenged_at'']) fs
          then Fail (ClientError ''invalid organization box challenge response'')
          else if \<not> challenge_ok out then Fail (ClientError ''invalid organization box challenge response'')
          else Ok out
      | _ \<Rightarrow> Fail (ClientError ''invalid organization box challenge response''))"

definition secret_fields :: "string list" where
  "secret_fields = [''bootstrap_token'', ''connector_token'', ''bootstrap_token_hash'', ''connector_token_hash'']"

definition decodeOrganizationBinding :: "org_env \<Rightarrow> bytes \<Rightarrow> (control_error, OrganizationFunctionBindingStatus) outcome" where
  "decodeOrganizationBinding env raw =
     (case (oe_Fields env raw, oe_Status env raw) of
        (Some fs, Some out) \<Rightarrow>
          if list_ex (\<lambda>field. map_get fs field \<noteq> None) secret_fields
          then Fail (ClientError ''organization box status contains credentials'')
          else if \<not> organizationBindingID (obs_BindingID out) \<or> obs_BootstrapExpiresAt out <s 0 \<or> obs_LastSeenAt out <s 0
          then Fail (ClientError ''invalid organization box status response'')
          else bind_outcome (decodeOrganizationBindingChallenge env (case map_get fs ''challenge'' of None \<Rightarrow> [] | Some r \<Rightarrow> r)) (\<lambda>challenge.
            if obs_Status out \<in> set [''pending'', ''expired'', ''active'', ''revoked''] then Ok (out\<lparr>obs_Challenge := challenge\<rparr>)
            else Fail (ClientError ''invalid organization box status response''))
      | _ \<Rightarrow> Fail (ClientError ''invalid organization box status response''))"

text \<open>The answer as a raw message: an answer without content leaves it empty.\<close>

definition raw_request :: "org_env \<Rightarrow> control_net \<Rightarrow> ControlClient \<Rightarrow> string \<Rightarrow> string \<Rightarrow> string \<Rightarrow> json option \<Rightarrow> bytes control_op" where
  "raw_request env net c meth path key body =
     op_bind (api_request (oe_api env) net c meth path key body (Some (api_RawMessage (oe_api env))))
       (\<lambda>v. op_return (case v of None \<Rightarrow> [] | Some raw \<Rightarrow> raw))"

definition StartOrganizationFunctionBindingChallenge ::
  "org_env \<Rightarrow> control_net \<Rightarrow> ControlClient \<Rightarrow> string \<Rightarrow> string \<Rightarrow> OrganizationFunctionBindingChallengeStatus control_op" where
  "StartOrganizationFunctionBindingChallenge env net c organization bindingID =
     (if \<not> organizationBindingID bindingID then op_fail (ClientError ''invalid binding ID'')
      else op_bind (op_lift (organizationBindingPath c organization bindingID)) (\<lambda>path.
        op_bind (raw_request env net c ''POST'' (path @ ''/challenge'') [] None) (\<lambda>raw.
          op_lift (decodeOrganizationBindingChallenge env raw))))"

definition CreateOrganizationFunctionBinding ::
  "org_env \<Rightarrow> control_net \<Rightarrow> ControlClient \<Rightarrow> string \<Rightarrow> OrganizationFunctionBindingBootstrap control_op" where
  "CreateOrganizationFunctionBinding env net c organization =
     op_bind (op_lift (organizationBindingPath c organization [])) (\<lambda>path.
       op_bind (api_request (oe_api env) net c ''POST'' path [] None (Some (oe_Bootstrap env))) (\<lambda>v.
         let out = (case v of None \<Rightarrow> \<lparr>obb_BindingID = [], obb_Status = [], obb_BootstrapToken = []\<rparr> | Some b \<Rightarrow> b) in
         if obb_Status out \<noteq> ''pending'' \<or> \<not> organizationBindingID (obb_BindingID out)
            \<or> \<not> has_prefix (obb_BootstrapToken out) ''e2ee_bootstrap_'' \<or> length (obb_BootstrapToken out) \<le> length ''e2ee_bootstrap_''
         then op_fail (ClientError ''invalid organization box bootstrap response'')
         else op_return out))"

fun decode_current :: "org_env \<Rightarrow> bytes list \<Rightarrow> (control_error, OrganizationFunctionBindingStatus list) outcome" where
  "decode_current env [] = Ok []"
| "decode_current env (raw # raws) =
     bind_outcome (decodeOrganizationBinding env raw) (\<lambda>b.
       if obs_Status b = ''revoked'' then Fail (ClientError ''invalid current organization binding state'')
       else bind_outcome (decode_current env raws) (\<lambda>bs. Ok (b # bs)))"

definition current_bindings :: "org_env \<Rightarrow> bytes list option option \<Rightarrow> (control_error, OrganizationFunctionBindingStatus list) outcome" where
  "current_bindings env v =
     (case v of
        Some (Some raws) \<Rightarrow>
          if length raws > 1 then Fail (ClientError ''invalid current organization bindings response'') else decode_current env raws
      | _ \<Rightarrow> Fail (ClientError ''invalid current organization bindings response''))"

definition ListOrganizationFunctionBindings ::
  "org_env \<Rightarrow> control_net \<Rightarrow> ControlClient \<Rightarrow> string \<Rightarrow> OrganizationFunctionBindingStatus list control_op" where
  "ListOrganizationFunctionBindings env net c organization =
     op_bind (op_lift (organizationBindingPath c organization [])) (\<lambda>path.
       op_bind (api_request (oe_api env) net c ''GET'' path [] None (Some (oe_Raws env))) (\<lambda>v.
         op_lift (current_bindings env v)))"

definition GetOrganizationFunctionBinding ::
  "org_env \<Rightarrow> control_net \<Rightarrow> ControlClient \<Rightarrow> string \<Rightarrow> string \<Rightarrow> OrganizationFunctionBindingStatus control_op" where
  "GetOrganizationFunctionBinding env net c organization bindingID =
     (if trim_space bindingID = [] then op_fail (ClientError ''binding ID is required'')
      else op_bind (op_lift (organizationBindingPath c organization bindingID)) (\<lambda>path.
        op_bind (raw_request env net c ''GET'' path [] None) (\<lambda>raw.
          op_bind (op_lift (decodeOrganizationBinding env raw)) (\<lambda>out.
            if obs_BindingID out \<noteq> bindingID then op_fail (ClientError ''Lotor returned a different organization binding'')
            else op_return out))))"

definition RevokeOrganizationFunctionBinding ::
  "org_env \<Rightarrow> control_net \<Rightarrow> ControlClient \<Rightarrow> string \<Rightarrow> string \<Rightarrow> unit option control_op" where
  "RevokeOrganizationFunctionBinding env net c organization bindingID =
     (if trim_space bindingID = [] then op_fail (ClientError ''binding ID is required'')
      else op_bind (op_lift (organizationBindingPath c organization bindingID)) (\<lambda>path.
        api_request (oe_api env) net c ''DELETE'' path [] None None))"

section \<open>SCIM directories\<close>

definition scimString :: "string \<Rightarrow> nat \<Rightarrow> bool" where
  "scimString v maximum \<longleftrightarrow> trim_space v \<noteq> [] \<and> length v \<le> maximum
     \<and> \<not> list_ex (\<lambda>ch. ch \<in> set [CHR 0x00, CHR 0x0D, CHR 0x0A]) v"

definition scimPath :: "ControlClient \<Rightarrow> string \<Rightarrow> (control_error, string) outcome" where
  "scimPath c organization =
     (if cc_userToken c = [] then Fail (ClientError ''SCIM directory setup requires ForUser delegation'')
      else if \<not> scimString organization 256 then Fail (ClientError ''invalid SCIM organization'')
      else Ok (''/resources/'' @ path_escape organization @ ''/scim-directories''))"

definition directory_ok :: "net_env \<Rightarrow> SCIMDirectory_t \<Rightarrow> bool" where
  "directory_ok net v \<longleftrightarrow> \<not> scd_Revision v <s 1 \<and> (scd_Status v = ''disabled'' \<or> scd_Status v = ''active'')
     \<and> list_all (\<lambda>s. scimString s 256) [scd_ID v, scd_Resource v, scd_Organization v, scd_CredentialResource v]
     \<and> (case url_Parse net (scd_BaseURL v) of
          None \<Rightarrow> False
        | Some u \<Rightarrow> u_Scheme u = ''https'' \<and> u_Hostname u \<noteq> [] \<and> \<not> u_User u \<and> u_RawQuery u = [] \<and> u_Fragment u = [])"

definition decodeSCIMDirectory :: "org_env \<Rightarrow> bytes \<Rightarrow> (control_error, SCIMDirectory_t) outcome" where
  "decodeSCIMDirectory env raw =
     (case js_decode (oe_Directory env) raw of
        None \<Rightarrow> Fail (ClientError ''invalid SCIM directory response'')
      | Some (v, _) \<Rightarrow>
          if directory_ok (api_net (oe_api env)) v then Ok v else Fail (ClientError ''invalid SCIM directory response''))"

definition directory_id_ok :: "string \<Rightarrow> bool" where
  "directory_id_ok v \<longleftrightarrow> scimString v 256 \<and> v \<noteq> ''.'' \<and> v \<noteq> ''..'' \<and> \<not> list_ex (\<lambda>ch. ch \<in> set [CHR 0x2F, CHR 0x5C]) v"

definition CreateSCIMDirectory ::
  "org_env \<Rightarrow> control_net \<Rightarrow> ControlClient \<Rightarrow> string \<Rightarrow> SCIMDirectoryCreateInput \<Rightarrow> string \<Rightarrow> SCIMDirectory_t control_op" where
  "CreateSCIMDirectory env net c organization input idempotencyKey =
     op_bind (op_lift (scimPath c organization)) (\<lambda>path.
       if \<not> scimString (sci_DirectoryResource input) 256 \<or> \<not> scimString (sci_CredentialResource input) 256
          \<or> \<not> scimString idempotencyKey 256 \<or> sci_ExpectedResourceRevision input <s 1 \<or> sci_ExpectedLifecycleGeneration input <s 1
       then op_fail (ClientError ''invalid SCIM directory creation input'')
       else op_bind (raw_request env net c ''POST'' path idempotencyKey (Some (json_SCIMDirectoryCreateInput input))) (\<lambda>raw.
         op_lift (decodeSCIMDirectory env raw)))"

definition same_directory :: "org_env \<Rightarrow> string \<Rightarrow> bytes \<Rightarrow> SCIMDirectory_t control_op" where
  "same_directory env directoryID raw =
     op_bind (op_lift (decodeSCIMDirectory env raw)) (\<lambda>out.
       if scd_ID out \<noteq> directoryID then op_fail (ClientError ''SCIM directory response ID mismatch'') else op_return out)"

definition SCIMDirectory ::
  "org_env \<Rightarrow> control_net \<Rightarrow> ControlClient \<Rightarrow> string \<Rightarrow> string \<Rightarrow> SCIMDirectory_t control_op" where
  "SCIMDirectory env net c organization directoryID =
     op_bind (op_lift (scimPath c organization)) (\<lambda>path.
       if \<not> directory_id_ok directoryID then op_fail (ClientError ''invalid SCIM directory ID'')
       else op_bind (raw_request env net c ''GET'' (path @ ''/'' @ path_escape directoryID) [] None) (same_directory env directoryID))"

definition UpdateSCIMDirectory ::
  "org_env \<Rightarrow> control_net \<Rightarrow> ControlClient \<Rightarrow> string \<Rightarrow> string \<Rightarrow> SCIMDirectoryUpdateInput \<Rightarrow> string \<Rightarrow> SCIMDirectory_t control_op" where
  "UpdateSCIMDirectory env net c organization directoryID input idempotencyKey =
     op_bind (op_lift (scimPath c organization)) (\<lambda>path.
       if \<not> directory_id_ok directoryID \<or> \<not> scimString idempotencyKey 256 \<or> scu_ExpectedRevision input <s 1
       then op_fail (ClientError ''invalid SCIM directory update input'')
       else op_bind (raw_request env net c ''PUT'' (path @ ''/'' @ path_escape directoryID) idempotencyKey
                       (Some (json_SCIMDirectoryUpdateInput input))) (same_directory env directoryID))"

fun decode_directories :: "org_env \<Rightarrow> bytes list \<Rightarrow> (control_error, SCIMDirectory_t list) outcome" where
  "decode_directories env [] = Ok []"
| "decode_directories env (raw # raws) =
     bind_outcome (decodeSCIMDirectory env raw) (\<lambda>d. bind_outcome (decode_directories env raws) (\<lambda>ds. Ok (d # ds)))"

definition directory_page :: "org_env \<Rightarrow> bytes \<Rightarrow> (control_error, SCIMDirectoryList) outcome" where
  "directory_page env raw =
     (case oe_Fields env raw of
        None \<Rightarrow> Fail (ClientError ''invalid SCIM directory list response'')
      | Some fs \<Rightarrow>
          if map_get fs ''next_cursor'' = None then Fail (ClientError ''invalid SCIM directory list response'')
          else (case js_decode (oe_Page env) raw of
                  None \<Rightarrow> Fail (ClientError ''invalid SCIM directory list response'')
                | Some (page, _) \<Rightarrow>
                    (case pg_Directories page of
                       None \<Rightarrow> Fail (ClientError ''invalid SCIM directory list response'')
                     | Some raws \<Rightarrow>
                         if length raws > 100 \<or> (case pg_NextCursor page of None \<Rightarrow> False | Some cur \<Rightarrow> \<not> scimString cur 4096)
                         then Fail (ClientError ''invalid SCIM directory list response'')
                         else bind_outcome (decode_directories env raws) (\<lambda>ds.
                           Ok \<lparr>scl_NextCursor = pg_NextCursor page, scl_Directories = ds\<rparr>))))"

definition SCIMDirectories ::
  "org_env \<Rightarrow> control_net \<Rightarrow> ControlClient \<Rightarrow> string \<Rightarrow> string \<Rightarrow> int \<Rightarrow> SCIMDirectoryList control_op" where
  "SCIMDirectories env net c organization cursor limit =
     op_bind (op_lift (scimPath c organization)) (\<lambda>path.
       if limit < 1 \<or> limit > 100 \<or> length cursor > 4096 then op_fail (ClientError ''invalid SCIM page options'')
       else
         let q1 = values_set [] ''limit'' (itoa limit); q2 = (if cursor \<noteq> [] then values_set q1 ''cursor'' cursor else q1) in
         op_bind (raw_request env net c ''GET'' (path @ ''?'' @ values_encode q2) [] None) (\<lambda>raw.
           op_lift (directory_page env raw)))"


section \<open>Requests\<close>

context client_policy
begin

lemma sends_raw_request:
  assumes "oe_api oenv = env"
  shows "sends allowed (raw_request oenv net c meth path key body)"
  unfolding raw_request_def assms by (intro sends_intros)

lemma sends_bindings_of_organization:
  assumes "oe_api oenv = env"
  shows "sends allowed (StartOrganizationFunctionBindingChallenge oenv net c organization bindingID)"
    and "sends allowed (CreateOrganizationFunctionBinding oenv net c organization)"
    and "sends allowed (ListOrganizationFunctionBindings oenv net c organization)"
    and "sends allowed (GetOrganizationFunctionBinding oenv net c organization bindingID)"
    and "sends allowed (RevokeOrganizationFunctionBinding oenv net c organization bindingID)"
  by (auto simp: StartOrganizationFunctionBindingChallenge_def CreateOrganizationFunctionBinding_def ListOrganizationFunctionBindings_def
      GetOrganizationFunctionBinding_def RevokeOrganizationFunctionBinding_def assms intro!: sends_intros sends_raw_request)

lemma sends_directories:
  assumes "oe_api oenv = env"
  shows "sends allowed (CreateSCIMDirectory oenv net c organization input key)"
    and "sends allowed (SCIMDirectory oenv net c organization directoryID)"
    and "sends allowed (UpdateSCIMDirectory oenv net c organization directoryID update key)"
    and "sends allowed (SCIMDirectories oenv net c organization cursor limit)"
  by (auto simp: CreateSCIMDirectory_def SCIMDirectory_def UpdateSCIMDirectory_def SCIMDirectories_def same_directory_def assms
      intro!: sends_intros sends_raw_request)

end

section \<open>Answers\<close>

definition binding_ok :: "OrganizationFunctionBindingStatus \<Rightarrow> bool" where
  "binding_ok b \<longleftrightarrow> organizationBindingID (obs_BindingID b) \<and> challenge_ok (obs_Challenge b)
     \<and> \<not> obs_BootstrapExpiresAt b <s 0 \<and> \<not> obs_LastSeenAt b <s 0
     \<and> obs_Status b \<in> set [''pending'', ''expired'', ''active'', ''revoked'']"

lemma decode_challenge_ok: "decodeOrganizationBindingChallenge env raw = Ok v \<Longrightarrow> challenge_ok v"
  by (auto simp: decodeOrganizationBindingChallenge_def simp del: list.set split: option.split_asm if_split_asm)

lemma decode_binding_ok:
  assumes "decodeOrganizationBinding env raw = Ok b"
  shows "binding_ok b" "\<exists>fs. oe_Fields env raw = Some fs \<and> list_all (\<lambda>field. map_get fs field = None) secret_fields"
proof -
  obtain fs out where read: "oe_Fields env raw = Some fs" "oe_Status env raw = Some out"
    and clean: "\<not> list_ex (\<lambda>field. map_get fs field \<noteq> None) secret_fields"
    and shape: "organizationBindingID (obs_BindingID out)" "\<not> obs_BootstrapExpiresAt out <s 0" "\<not> obs_LastSeenAt out <s 0"
    and rest: "bind_outcome (decodeOrganizationBindingChallenge env (case map_get fs ''challenge'' of None \<Rightarrow> [] | Some r \<Rightarrow> r)) (\<lambda>challenge.
        if obs_Status out \<in> set [''pending'', ''expired'', ''active'', ''revoked''] then Ok (out\<lparr>obs_Challenge := challenge\<rparr>)
        else Fail (ClientError ''invalid organization box status response'')) = Ok b"
    using assms by (auto simp: decodeOrganizationBinding_def simp del: list.set split: option.split_asm if_split_asm)
  show "binding_ok b"
    using rest shape decode_challenge_ok
    by (auto simp: outcome_simps binding_ok_def simp del: list.set split: if_split_asm)
  show "\<exists>fs. oe_Fields env raw = Some fs \<and> list_all (\<lambda>field. map_get fs field = None) secret_fields"
    using read clean by (auto simp: list_all_iff list_ex_iff)
qed

lemma decode_current_ok:
  "decode_current env raws = Ok bs \<Longrightarrow> length bs = length raws \<and> list_all (\<lambda>b. binding_ok b \<and> obs_Status b \<noteq> ''revoked'') bs"
  by (induction raws arbitrary: bs) (auto simp: outcome_simps decode_binding_ok(1) split: if_split_asm)

lemma current_bindings_ok:
  "current_bindings env v = Ok bs \<Longrightarrow> length bs \<le> 1 \<and> list_all (\<lambda>b. binding_ok b \<and> obs_Status b \<noteq> ''revoked'') bs"
  using decode_current_ok [of env _ bs] by (auto simp: current_bindings_def split: option.split_asm if_split_asm)

lemma decode_directory_ok: "decodeSCIMDirectory env raw = Ok d \<Longrightarrow> directory_ok (api_net (oe_api env)) d"
  by (auto simp: decodeSCIMDirectory_def split: option.split_asm if_split_asm)

lemma decode_directories_ok:
  "decode_directories env raws = Ok ds \<Longrightarrow> length ds = length raws \<and> list_all (directory_ok (api_net (oe_api env))) ds"
  by (induction raws arbitrary: ds) (auto simp: outcome_simps decode_directory_ok)

lemma directory_page_ok:
  "directory_page env raw = Ok p \<Longrightarrow> length (scl_Directories p) \<le> 100 \<and> list_all (directory_ok (api_net (oe_api env))) (scl_Directories p)
     \<and> (\<forall>cur. scl_NextCursor p = Some cur \<longrightarrow> scimString cur 4096)"
  by (auto simp: directory_page_def outcome_simps dest!: decode_directories_ok split: option.split_asm if_split_asm)

lemma not_delegated:
  assumes "cc_userToken c = []"
  shows "\<exists>e. organizationBindingPath c organization bindingID = Fail e" "\<exists>e. scimPath c organization = Fail e"
  using assms by (simp_all add: organizationBindingPath_def scimPath_def)

lemma organization_silent:
  assumes "cc_userToken c = []"
  shows "snd (StartOrganizationFunctionBindingChallenge env net c organization bindingID log) = log"
    and "snd (CreateOrganizationFunctionBinding env net c organization log) = log"
    and "snd (ListOrganizationFunctionBindings env net c organization log) = log"
    and "snd (GetOrganizationFunctionBinding env net c organization bindingID log) = log"
    and "snd (RevokeOrganizationFunctionBinding env net c organization bindingID log) = log"
    and "snd (CreateSCIMDirectory env net c organization input key log) = log"
    and "snd (SCIMDirectory env net c organization directoryID log) = log"
    and "snd (UpdateSCIMDirectory env net c organization directoryID update key log) = log"
    and "snd (SCIMDirectories env net c organization cursor limit log) = log"
proof -
  obtain e e' where "organizationBindingPath c organization bindingID = Fail e" "organizationBindingPath c organization [] = Fail e'"
    using not_delegated(1) [OF assms] by metis
  moreover obtain e'' where "scimPath c organization = Fail e''"
    using not_delegated(2) [OF assms] by metis
  ultimately show "snd (StartOrganizationFunctionBindingChallenge env net c organization bindingID log) = log"
    "snd (CreateOrganizationFunctionBinding env net c organization log) = log"
    "snd (ListOrganizationFunctionBindings env net c organization log) = log"
    "snd (GetOrganizationFunctionBinding env net c organization bindingID log) = log"
    "snd (RevokeOrganizationFunctionBinding env net c organization bindingID log) = log"
    "snd (CreateSCIMDirectory env net c organization input key log) = log"
    "snd (SCIMDirectory env net c organization directoryID log) = log"
    "snd (UpdateSCIMDirectory env net c organization directoryID update key log) = log"
    "snd (SCIMDirectories env net c organization cursor limit log) = log"
    by (simp_all add: StartOrganizationFunctionBindingChallenge_def CreateOrganizationFunctionBinding_def ListOrganizationFunctionBindings_def
        GetOrganizationFunctionBinding_def RevokeOrganizationFunctionBinding_def CreateSCIMDirectory_def SCIMDirectory_def
        UpdateSCIMDirectory_def SCIMDirectories_def op_bind_def op_lift_def op_fail_def)
qed

section \<open>An organization with one binding\<close>

definition ow_env :: org_env where
  "ow_env = \<lparr>oe_api = cw_env, oe_Fields = (\<lambda>raw. Some (if raw = [0] then [(''challenge'', [2])] else [(''status'', [3])])),
     oe_Challenge = (\<lambda>raw. Some \<lparr>obc_Status = ''not_started'', obc_ExpiresAt = 0, obc_ChallengedAt = 0\<rparr>),
     oe_Status = (\<lambda>raw. Some \<lparr>obs_BindingID = ''efb_1'', obs_Status = ''active'', obs_BoxSubject = [], obs_SigningKeyID = [],
        obs_Challenge = \<lparr>obc_Status = [], obc_ExpiresAt = 0, obc_ChallengedAt = 0\<rparr>, obs_BootstrapExpiresAt = 0, obs_LastSeenAt = 0\<rparr>),
     oe_Bootstrap = (\<lambda>raw. None), oe_Raws = (\<lambda>raw. Some (Some [[0]])), oe_Directory = table_codec [], oe_Page = table_codec []\<rparr>"

lemma ow_get: "\<exists>b log'. GetOrganizationFunctionBinding ow_env cw_net cw_client ''org'' ''efb_1'' [] = (Ok b, log')"
proof -
  have idents: "trim_space ''efb_1'' = ''efb_1''" "trim_space ''org'' = ''org''"
    by (simp_all add: trim_space_ident ident_char_def)
  have ident: "organizationBindingID ''efb_1''"
    by (simp add: organizationBindingID_def has_prefix_def binding_id_char_def)
  have "\<exists>path. organizationBindingPath cw_client ''org'' ''efb_1'' = Ok path"
    using idents by (simp add: organizationBindingPath_def cw_client_def)
  moreover have "\<exists>log'. raw_request ow_env cw_net cw_client ''GET'' path [] None [] = (Ok [0], log')" for path
    by (simp add: raw_request_def api_request_def requestHeaders_def requestHeadersLimit_def op_bind_def op_return_def
        control_request_of_def control_reply_of_def cw_net_def cw_env_def ow_env_def)
  moreover have "\<exists>b. decodeOrganizationBinding ow_env [0] = Ok b \<and> obs_BindingID b = ''efb_1''"
    using ident by (simp add: decodeOrganizationBinding_def decodeOrganizationBindingChallenge_def challenge_ok_def secret_fields_def
        ow_env_def map_get_def word_sless_alt)
  ultimately show ?thesis
    using idents by (auto simp: GetOrganizationFunctionBinding_def op_Ok) blast
qed

section \<open>Properties\<close>



end
