(* ===== verification/Lambda_Handler.thy ===== *)
theory Lambda_Handler
  imports Bridge_Runtime Go_Net
begin

text \<open>
  \<^verbatim>\<open>bridge/lambda/handler.go\<close>: an API Gateway event as a request of the function runtime. Standard Base64 is the URL
  variant with two other digits and with padding; \<open>NewRequestWithContext\<close> takes a method that is a token and a URL that
  parses. The order in which Go visits the map of event headers is the argument \<open>visit\<close>.
\<close>

section \<open>Standard Base64\<close>

definition to_url_digit :: "char \<Rightarrow> char" where
  "to_url_digit ch = (if ch = CHR ''+'' then CHR ''-'' else if ch = CHR ''/'' then CHR ''_'' else ch)"

definition to_std_digit :: "char \<Rightarrow> char" where
  "to_std_digit ch = (if ch = CHR ''-'' then CHR ''+'' else if ch = CHR ''_'' then CHR ''/'' else ch)"

definition std_padding :: "string \<Rightarrow> nat" where
  "std_padding t = (if has_suffix t ''=='' then 2 else if has_suffix t ''='' then 1 else 0)"

definition std_decode :: "bool \<Rightarrow> string \<Rightarrow> bytes option" where
  "std_decode strict s =
     (let t = filter (\<lambda>ch. \<not> is_newline ch) s; core = take (length t - std_padding t) t in
      if length t mod 4 \<noteq> 0 \<or> list_ex (\<lambda>ch. ch = CHR ''='' \<or> ch = CHR ''-'' \<or> ch = CHR ''_'') core then None
      else b64_decode strict (map to_url_digit core))"

definition std_encode :: "bytes \<Rightarrow> string" where
  "std_encode bs = map to_std_digit (b64_encode bs) @ replicate ((4 - length (b64_encode bs) mod 4) mod 4) (CHR ''='')"

definition std_EncodedLen :: "nat \<Rightarrow> nat" where
  "std_EncodedLen n = (n + 2) div 3 * 4"

section \<open>Events\<close>

record lambda_Request =
  lq_Headers :: "(string \<times> string) list"
  lq_Version :: string
  lq_RawPath :: string
  lq_RawQueryString :: string
  lq_Body :: string
  lq_Method :: string
  lq_IsBase64Encoded :: bool

datatype lambda_body = InvalidRequest | Recorded response_body

record lambda_Response =
  lm_Headers :: "(string \<times> string) list"
  lm_Body :: lambda_body
  lm_StatusCode :: nat
  lm_IsBase64Encoded :: bool

definition lambda_invalid :: lambda_Response where
  "lambda_invalid = \<lparr>lm_Headers = [(''Content-Type'', ''application/json''), (''Cache-Control'', ''no-store'')], lm_Body = InvalidRequest,
     lm_StatusCode = 400, lm_IsBase64Encoded = False\<rparr>"

definition token_char :: "char \<Rightarrow> bool" where
  "token_char ch \<longleftrightarrow> (let n = of_char ch :: nat in in_range 48 57 n \<or> in_range 65 90 n \<or> in_range 97 122 n)
     \<or> ch \<in> set (''!#$%&*+-.^_|~'' @ [CHR 0x27, CHR 0x60])"

definition request_method :: "string \<Rightarrow> string option" where
  "request_method m = (if m = [] then Some ''GET'' else if list_all token_char m then Some m else None)"

definition lambda_url :: "lambda_Request \<Rightarrow> string" where
  "lambda_url event = ''https://function.invalid'' @ lq_RawPath event
     @ (if lq_RawQueryString event \<noteq> [] then ''?'' @ lq_RawQueryString event else [])"

definition content_type :: "(string \<Rightarrow> string) \<Rightarrow> (string \<times> string) list \<Rightarrow> string" where
  "content_type canonical headers = header_get (map (\<lambda>(name, v). (canonical name, v)) headers) ''Content-Type''"

text \<open>The request of an event, where \<open>None\<close> is an event that is answered with 400.\<close>

definition lambda_request ::
  "net_env \<Rightarrow> (string \<Rightarrow> string) \<Rightarrow> ((string \<times> string) list \<Rightarrow> (string \<times> string) list) \<Rightarrow> int option \<Rightarrow> lambda_Request \<Rightarrow> http_request option" where
  "lambda_request net canonical visit deadline event =
     (if lq_Version event \<noteq> ''2.0'' \<or> length (lq_Body event) > std_EncodedLen MaximumBodyBytes \<or> \<not> has_prefix (lq_RawPath event) ''/''
         \<or> list_ex (\<lambda>ch. ch \<in> set [CHR ''?'', CHR ''#'', CHR 0x0D, CHR 0x0A]) (lq_RawPath event)
      then None
      else case (if lq_IsBase64Encoded event then std_decode True (lq_Body event) else Some (bytes_of_string (lq_Body event))) of
        None \<Rightarrow> None
      | Some body \<Rightarrow>
          if length body > MaximumBodyBytes then None
          else (case (request_method (lq_Method event), url_Parse net (lambda_url event)) of
                  (Some meth, Some u) \<Rightarrow>
                    Some \<lparr>rq_Path = u_Path u, rq_Method = meth, rq_ContentType = content_type canonical (visit (lq_Headers event)),
                          rq_RawQuery = u_RawQuery u, rq_Body = body, rq_BodyError = False, rq_Deadline = deadline\<rparr>
                | _ \<Rightarrow> None))"

definition lambda_answer :: "http_response option \<times> 's \<times> bool \<Rightarrow> (bridge_error, lambda_Response) outcome \<times> 's \<times> bool" where
  "lambda_answer served =
     (case served of
        (None, s, entered) \<Rightarrow> (Panic, s, entered)
      | (Some r, s, entered) \<Rightarrow>
          (Ok \<lparr>lm_Headers = hr_Headers r, lm_Body = Recorded (hr_Body r), lm_StatusCode = hr_Status r, lm_IsBase64Encoded = False\<rparr>, s, entered))"

definition NewHandler ::
  "net_env \<Rightarrow> (string \<Rightarrow> string) \<Rightarrow> ((string \<times> string) list \<Rightarrow> (string \<times> string) list) \<Rightarrow> int option \<Rightarrow>
   (http_request \<Rightarrow> 's \<Rightarrow> http_response option \<times> 's \<times> bool) option \<Rightarrow> lambda_Request \<Rightarrow> 's \<Rightarrow>
   (bridge_error, lambda_Response) outcome \<times> 's \<times> bool" where
  "NewHandler net canonical visit deadline runtime event s =
     (case runtime of
        None \<Rightarrow> (Ok lambda_invalid, s, False)
      | Some serve \<Rightarrow>
          (case lambda_request net canonical visit deadline event of
             None \<Rightarrow> (Ok lambda_invalid, s, False)
           | Some rq \<Rightarrow> lambda_answer (serve rq s)))"

section \<open>Facts\<close>

lemma std_digits:
  assumes "n < 64"
  shows "to_url_digit (to_std_digit (b64_digit n)) = b64_digit n" "\<not> is_newline (to_std_digit (b64_digit n))"
    "to_std_digit (b64_digit n) \<noteq> CHR ''=''" "to_std_digit (b64_digit n) \<noteq> CHR ''-''" "to_std_digit (b64_digit n) \<noteq> CHR ''_''"
proof -
  have "list_all (\<lambda>ch. to_url_digit (to_std_digit ch) = ch \<and> \<not> is_newline (to_std_digit ch) \<and> to_std_digit ch \<noteq> CHR ''=''
      \<and> to_std_digit ch \<noteq> CHR ''-'' \<and> to_std_digit ch \<noteq> CHR ''_'') b64_alphabet" "length b64_alphabet = 64"
    by code_simp+
  then have "to_url_digit (to_std_digit (b64_digit n)) = b64_digit n \<and> \<not> is_newline (to_std_digit (b64_digit n))
      \<and> to_std_digit (b64_digit n) \<noteq> CHR ''='' \<and> to_std_digit (b64_digit n) \<noteq> CHR ''-'' \<and> to_std_digit (b64_digit n) \<noteq> CHR ''_''"
    using assms by (simp add: list_all_length b64_digit_def)
  then show "to_url_digit (to_std_digit (b64_digit n)) = b64_digit n" "\<not> is_newline (to_std_digit (b64_digit n))"
    "to_std_digit (b64_digit n) \<noteq> CHR ''=''" "to_std_digit (b64_digit n) \<noteq> CHR ''-''" "to_std_digit (b64_digit n) \<noteq> CHR ''_''"
    by simp_all
qed

lemma std_core:
  shows "map to_url_digit (map to_std_digit (b64_encode bs)) = b64_encode bs"
    and "filter (\<lambda>ch. \<not> is_newline ch) (map to_std_digit (b64_encode bs)) = map to_std_digit (b64_encode bs)"
    and "\<not> list_ex (\<lambda>ch. ch = CHR ''='' \<or> ch = CHR ''-'' \<or> ch = CHR ''_'') (map to_std_digit (b64_encode bs))"
proof -
  have small: "n < 64" if "n \<in> set (b64_sextets bs)" for n
    using b64_sextets_less [of bs] that by (simp add: list_all_iff)
  show "map to_url_digit (map to_std_digit (b64_encode bs)) = b64_encode bs"
    using small by (simp add: b64_encode_sextets std_digits)
  show "filter (\<lambda>ch. \<not> is_newline ch) (map to_std_digit (b64_encode bs)) = map to_std_digit (b64_encode bs)"
    using small by (simp add: b64_encode_sextets filter_id_conv std_digits)
  show "\<not> list_ex (\<lambda>ch. ch = CHR ''='' \<or> ch = CHR ''-'' \<or> ch = CHR ''_'') (map to_std_digit (b64_encode bs))"
    using small by (auto simp: b64_encode_sextets list_ex_iff std_digits)
qed

lemma padded_length:
  "b64_encoded_len n + (4 - b64_encoded_len n mod 4) mod 4 = std_EncodedLen n" "b64_encoded_len n mod 4 \<noteq> 1"
proof -
  define q r where "q = n div 3" and "r = n mod 3"
  have n: "n = 3 * q + r" and r: "r = 0 \<or> r = 1 \<or> r = 2"
    by (auto simp: q_def r_def)
  have len: "b64_encoded_len n = q * 4 + (r * 8 + 5) div 6"
    by (simp add: b64_encoded_len_def q_def r_def)
  have total: "(n + 2) div 3 = (if r = 0 then q else Suc q)"
    using r by (auto simp: n)
  show "b64_encoded_len n + (4 - b64_encoded_len n mod 4) mod 4 = std_EncodedLen n" "b64_encoded_len n mod 4 \<noteq> 1"
    using r by (auto simp: len std_EncodedLen_def total simp del: add_2_eq_Suc add_2_eq_Suc')
qed

lemma std_encode_length: "length (std_encode bs) = std_EncodedLen (length bs)"
  using padded_length(1) [of "length bs"] by (simp add: std_encode_def length_b64_encode del: b64_encode.simps)

lemma has_suffix_append: "has_suffix (xs @ ys) ys"
  by (simp add: has_suffix_def)

lemma std_padding_encode: "std_padding (std_encode bs) = (4 - length (b64_encode bs) mod 4) mod 4"
proof -
  define e where "e = map to_std_digit (b64_encode bs)"
  define k where "k = length (b64_encode bs) mod 4"
  have "k \<noteq> 1" "k < 4"
    using padded_length(2) [of "length bs"] by (simp_all add: k_def length_b64_encode del: b64_encode.simps)
  then have "k = 0 \<or> k = 2 \<or> k = 3"
    by linarith
  moreover have enc: "std_encode bs = e @ replicate ((4 - k) mod 4) (CHR ''='')"
    by (simp add: std_encode_def e_def k_def del: b64_encode.simps)
  have last: "\<not> has_suffix e (xs @ ''='')" for xs
  proof
    assume "has_suffix e (xs @ ''='')"
    then have "CHR ''='' \<in> set e"
      by (auto simp: has_suffix_def) (metis in_set_dropD list.set_intros(1) in_set_conv_decomp)
    then show False
      using std_core(3) [of bs] by (auto simp: e_def list_ex_iff simp del: b64_encode.simps)
  qed
  moreover have "\<not> has_suffix (e @ ''='') ''==''"
  proof
    assume "has_suffix (e @ ''='') ''==''"
    then have "has_suffix e ''=''"
      by (auto simp: has_suffix_def)
    then show False using last [of "[]"] by simp
  qed
  ultimately show ?thesis
    using last [of "[]"] last [of "''=''"]
    by (auto simp: enc std_padding_def has_suffix_append k_def [symmetric] numeral_2_eq_2)
qed

lemma std_decode_encode: "std_decode strict (std_encode bs) = Some bs"
proof -
  define e where "e = map to_std_digit (b64_encode bs)"
  define pad where "pad = (4 - length (b64_encode bs) mod 4) mod 4"
  have enc: "std_encode bs = e @ replicate pad (CHR ''='')"
    by (simp add: std_encode_def e_def pad_def del: b64_encode.simps)
  have clean: "filter (\<lambda>ch. \<not> is_newline ch) (std_encode bs) = std_encode bs"
    using std_core(2) [of bs] by (simp add: enc e_def is_newline_def del: b64_encode.simps)
  have "take (length (std_encode bs) - std_padding (std_encode bs)) (std_encode bs) = e"
    using std_padding_encode [of bs] by (simp add: pad_def [symmetric] enc [symmetric] del: b64_encode.simps) (simp add: enc)
  moreover have "length (std_encode bs) mod 4 = 0"
    by (simp add: std_encode_length std_EncodedLen_def)
  ultimately show ?thesis
    using std_core(1,3) [of bs] by (simp add: std_decode_def clean Let_def e_def [symmetric] del: b64_encode.simps)
qed


lemma lambda_request_bounded:
  "lambda_request net canonical visit deadline event = Some rq \<Longrightarrow> length (rq_Body rq) \<le> MaximumBodyBytes \<and> \<not> rq_BodyError rq \<and> rq_Deadline rq = deadline"
  by (auto simp: lambda_request_def split: if_split_asm option.split_asm)

lemma lambda_request_headers:
  assumes "content_type canonical (visit (lq_Headers event)) = content_type canonical (visit headers)"
  shows "lambda_request net canonical visit deadline (event\<lparr>lq_Headers := headers\<rparr>) = lambda_request net canonical visit deadline event"
proof -
  have same: "lq_Version (event\<lparr>lq_Headers := headers\<rparr>) = lq_Version event" "lq_Body (event\<lparr>lq_Headers := headers\<rparr>) = lq_Body event"
    "lq_RawPath (event\<lparr>lq_Headers := headers\<rparr>) = lq_RawPath event" "lq_Method (event\<lparr>lq_Headers := headers\<rparr>) = lq_Method event"
    "lq_RawQueryString (event\<lparr>lq_Headers := headers\<rparr>) = lq_RawQueryString event"
    "lq_IsBase64Encoded (event\<lparr>lq_Headers := headers\<rparr>) = lq_IsBase64Encoded event" "lq_Headers (event\<lparr>lq_Headers := headers\<rparr>) = headers"
    by simp_all
  show ?thesis
    unfolding lambda_request_def lambda_url_def same assms ..
qed

section \<open>A gateway before the runtime\<close>

definition lm_net :: net_env where
  "lm_net = \<lparr>url_Parse = (\<lambda>s. Some \<lparr>u_Scheme = ''https'', u_Opaque = [], u_User = False, u_Host = ''function.invalid'', u_Path = invoke_path,
       u_RawPath = [], u_ForceQuery = False, u_RawQuery = [], u_Fragment = []\<rparr>),
     url_ParseRequestURI = (\<lambda>s. None), netip_ParseAddr = (\<lambda>s. None), strings_ToLower = (\<lambda>s. s), strings_EqualFold = (=)\<rparr>"

definition lm_serve :: "http_request \<Rightarrow> exec_table \<Rightarrow> http_response option \<times> exec_table \<times> bool" where
  "lm_serve = ServeHTTP rt_env (Reserve rt_env sample_store) (Complete rt_env sample_store) sample_runtime sample_ob ((NoFault, NoFault), (NoFault, NoFault))"

section \<open>Properties\<close>



end
