(* ===== verification/Spec2Isabelle.thy ===== *)
theory Spec2Isabelle
  imports Key_Access Wire_Codec Lwp_Session Bridge_EndToEnd Bridge_Custody Gateway_Assertion Browser_Commands Browser_Adapter Resource_Links Resource_Client Dev_Spec Dev_Command Function_Bindings Org_Clients Lambda_Handler
begin

text \<open>
  A verification library for the Go client \<^verbatim>\<open>lotor-go\<close>. File names below are relative to \<^verbatim>\<open>src/\<close>.

  \<^bold>\<open>The program.\<close> \<^verbatim>\<open>lotor-go\<close> is the client side of a hosted authorization service. It has four parts.
  Package \<^verbatim>\<open>lotor\<close> speaks LWP, a binary protocol, to the instance that owns an environment, and discovers that
  instance through signed ownership assertions. Package \<^verbatim>\<open>bridge\<close> and its subpackages carry signed function
  invocations from a caller to a runtime that executes each of them at most once over a journal in PostgreSQL, give
  handlers access to resource keys, and connect a runtime on a developer's machine. Package \<^verbatim>\<open>lotorhttp\<close> is the client
  of the public Control API together with two HTTP boundaries, the gateway assertion verifier and the browser command
  gateway, and the cookie adapter. \<^verbatim>\<open>cmd/\<close> and \<^verbatim>\<open>examples/\<close> hold small programs made of these.

  \<^bold>\<open>Conventions.\<close> A Go call that may fail is an \<open>outcome\<close>: \<open>Ok\<close> with the value, \<open>Fail\<close> with the error, or a
  run-time panic. Machine integers keep their width (\<open>64 word\<close>, \<open>32 word\<close>, \<open>8 word\<close>) wherever the code can wrap; counts
  that cannot are \<open>nat\<close>. Strings are byte strings. A Go map with string keys is a strictly sorted association list. State
  is passed explicitly: a record that the operation takes and returns. What runs concurrently is a step relation over
  such a record, with every critical section (or SQL statement, or deferred action) a step of its own. What the code
  gets from outside is an argument: the network is a function from the history of requests to the answer (a timeout is
  the answer \<open>None\<close>), every reading of the clock is an argument, random bytes are arguments, and the primitives of
  Ed25519 and AES-GCM, \<open>encoding/json\<close>, URL, mail and address parsers are fields of environment records. What a property
  needs of them is a named hypothesis (for example \<open>codec_faithful\<close> for a JSON codec), shown satisfiable by its witness.

  \<^bold>\<open>The language and its library.\<close>
  \<^item> \<open>Go_Prelude\<close>: outcomes, byte strings, sorted maps and the generic lemmas with their named collections.
  \<^item> \<open>Go_Strings\<close>, \<open>Go_Encoding\<close>, \<open>Go_Time\<close>, \<open>Go_Net\<close>, \<open>Go_Json\<close>: runes and UTF-8, hexadecimal, Base64 and decimal
    texts with their round trips, instants and saturating durations, hosts, ports and address classes, JSON codecs.
  \<^item> \<open>Sha256\<close>: SHA-256, concrete.

  \<^bold>\<open>Package lotor.\<close>
  \<^item> \<open>Wire\<close>, \<open>Wire_Codec\<close> (\<^verbatim>\<open>lotor/wire.go\<close>): values, varints, frames; every encoder is inverted by its decoder whatever
    follows in the buffer, truncated frames are told from malformed ones, and the inputs that panic are named.
  \<^item> \<open>Lwp_Client\<close> (\<^verbatim>\<open>lotor/client.go\<close>, the connection): the \<open>Client\<close> record, the read loop over arbitrary chunks, \<open>do\<close>,
    and the step relation \<open>lwp_step\<close> of callers, read loop and watches. Frames are reassembled exactly, a caller only ever
    gets the response with its own request identifier, and a lost connection wakes every caller.
  \<^item> \<open>Lwp_Ops\<close>, \<open>Key_Access\<close> (\<^verbatim>\<open>lotor/client.go\<close>, \<^verbatim>\<open>lotor/key_access.go\<close>): every operation as the request it builds and
    the way it reads the response.
  \<^item> \<open>Ownership\<close> (\<^verbatim>\<open>lotor/ownership.go\<close>): the resolver with its cache and keys, \<open>DialOwned\<close> and \<open>WithOwnerRetry\<close>. What is
    returned was signed and is current in every reachable resolver, and an operation is retried at most once, at a
    strictly newer owner of the same scope.
  \<^item> \<open>Lwp_Session\<close> (\<^verbatim>\<open>lotor/client.go\<close>: \<open>Dial\<close>, \<open>DialTLS\<close>, \<open>do\<close>, \<open>Close\<close>; \<^verbatim>\<open>examples/basic/main.go\<close>): one caller on one connection,
    whose other side is a peer. The locale \<open>lwp_exchange\<close> is what the operations rely on, an exchange of arguments for
    arguments; it is interpreted on the connection, so that the example program over byte streams refines the one over
    servers, from discovery to the printed decision.

  \<^bold>\<open>Package bridge.\<close>
  \<^item> \<open>Bridge_Protocol\<close> (\<^verbatim>\<open>bridge/protocol.go\<close>): messages, envelopes, manifest digest.
  \<^item> \<open>Sql_Store\<close> (\<^verbatim>\<open>bridge/sqlstore/postgres.go\<close>): the locale \<open>execution_store\<close> is the contract of
    \<open>bridge.ExecutionStore\<close>; it is interpreted on the table and its statements, with faults before and after their effect.
    \<open>Reserve\<close>, two statements, refines an atomic one.
  \<^item> \<open>Bridge_Runtime\<close> (\<^verbatim>\<open>bridge/runtime.go\<close>): \<open>ServeHTTP\<close> in stages, the stages as steps of concurrent requests with crashes
    and restarts over one journal. No operation is executed twice, every execution was authorized, every replay has an
    execution behind it, and the outcome of a handler is settled as documented.
  \<^item> \<open>Bridge_Transport\<close>, \<open>Bridge_Client\<close> (\<^verbatim>\<open>bridge/transport/https.go\<close>, \<^verbatim>\<open>bridge/client/client.go\<close>): destination policy, one
    exchange, \<open>Invoke\<close> and its error contract; only checked public addresses are dialled.
  \<^item> \<open>Bridge_EndToEnd\<close>: client, transport, runtime and journal composed; a valid grant returns the output of the handler.
  \<^item> \<open>Bridge_Control\<close>, \<open>Bridge_Custody\<close> (\<^verbatim>\<open>discovery.go\<close>, \<^verbatim>\<open>validation.go\<close>, \<^verbatim>\<open>workload.go\<close>, \<^verbatim>\<open>resource.go\<close>, \<^verbatim>\<open>custody.go\<close>): the
    exchanges of a runtime with Control and the custody of resource keys over a heap of key buffers.
  \<^item> \<open>Lambda_Handler\<close> (\<^verbatim>\<open>bridge/lambda/handler.go\<close>): an API Gateway event as a request of the runtime.
  \<^item> \<open>Dev_Protocol\<close>, \<open>Dev_Connector\<close>, \<open>Dev_Command\<close> (\<^verbatim>\<open>bridge/development/\<close>, \<^verbatim>\<open>cmd/lotor-development-connector/\<close>): frames
    and proofs, the connector as a step relation over all its connections and handler goroutines, reconnection, the
    private configuration of the command.
  \<^item> \<open>Dev_Spec\<close>: the service a connector promises, a transition system without goroutines, and the simulation that the
    connector implements it.

  \<^bold>\<open>Package lotorhttp.\<close>
  \<^item> \<open>Gateway_Assertion\<close> (\<^verbatim>\<open>gateway_assertion.go\<close>): verifier and middleware; the locale \<open>replay_store\<close> is the documented
    contract of the one-time store, interpreted on the store of the tests and on one that drops expired entries.
  \<^item> \<open>Browser_Commands\<close> (\<^verbatim>\<open>handler.go\<close>, \<^verbatim>\<open>control.go\<close>, \<^verbatim>\<open>runtime.go\<close>) and \<open>Browser_Adapter\<close> (\<^verbatim>\<open>browseradapter/\<close>): which browser
    requests reach the owning runtime or Control, with which authority.
  \<^item> \<open>Control_Url\<close>, \<open>Control_Types\<close>, \<open>Control_Client\<close>, \<open>Control_Resources\<close> (\<^verbatim>\<open>control_client.go\<close>, \<^verbatim>\<open>catalog_read.go\<close>,
    \<^verbatim>\<open>account_resources.go\<close> and their neighbours): the request core, every operation with its JSON value, waiting for a
    durable operation. The locale \<open>client_policy\<close> states what the clients may send; the operations are shown to keep it
    once, by introduction rules collected in \<open>sends_intros\<close>.
  \<^item> \<open>Link_Types\<close>, \<open>Resource_Links\<close> (\<^verbatim>\<open>resource_links.go\<close>, \<^verbatim>\<open>resource_policies.go\<close>): collaboration in two phases.
  \<^item> \<open>Resource_Client\<close> (\<^verbatim>\<open>resource_client.go\<close>): execution preflight and commit, protected provider payloads, object storage.
  \<^item> \<open>Function_Bindings\<close>, \<open>Org_Clients\<close> (\<^verbatim>\<open>function_bindings.go\<close>, \<^verbatim>\<open>organization_relay.go\<close>, \<^verbatim>\<open>scim.go\<close>): grants for
    invocations, boxes and directories of organizations.

  \<^bold>\<open>Interfaces.\<close> Where the code has an interface, or several operations share a contract, the development has a locale:
  \<open>execution_store\<close> (interpreted on the SQL statements), \<open>replay_store\<close> (on two stores), \<open>client_policy\<close> (on the Control
  client) and \<open>lwp_exchange\<close> (on the LWP connection). The lemmas of the runtime, the verifier, the API operations and the
  example program are proved inside them.

  \<^bold>\<open>Bounds and fuel.\<close> Every definition is total. Loops are structural, or have a termination proof (the frame loop by the
  length of the buffer, the wait for an operation by the attempts left), and no property speaks of fuel running out (the loop over
  the members of a JSON object in \<open>Bridge_Control\<close> has a variant with fuel, and enough fuel is shown to give the same). The
  limits of the sources (frame and body sizes, sixteen addresses, slots of a connector, attempts, backoff) are the
  constants of the code at their values.

  \<^bold>\<open>Findings.\<close> Where modelling showed that the code does not do what it means to, a lemma says so: \<open>undersized_frame_panics\<close>
  (\<open>Wire_Codec\<close>), \<open>error_response\<close> (\<open>Lwp_Client\<close>), \<open>ownership_window_wraps\<close> and \<open>payload_ambiguous\<close> (\<open>Ownership\<close>),
  \<open>skewed_replay\<close> (\<open>Gateway_Assertion\<close>).

  \<^bold>\<open>Not modelled.\<close> Sockets, TLS handshakes, connection pooling and real timeouts (\<open>CloseIdleConnections\<close> and the like
  release resources and answer nothing); command line flags, signals and messages on the terminal; the texts of wrapped
  errors beyond what callers can test; the bodies of third-party packages (the websocket library, the database driver,
  the Lambda event types), of Ed25519, AES-GCM and \<open>encoding/json\<close>, which are parameters. Memory that Go shares between
  goroutines outside the modelled critical sections does not occur in the modelled code.
\<close>

end
